(* ===== verification/Prelude.thy ===== *)
theory Prelude
  imports Complex_Main "HOL-Library.AList" "HOL-Library.Signed_Division" "HOL-Library.Word"
begin

text \<open>
  What the components of the bridge share: the Go values they compute with, and the lemmas
  the component theories rest on.

  \<^item> Integers. Go's \<open>int\<close> is a signed 64-bit integer. A value is an \<open>int\<close>; every operation of
    the source that can leave the range goes through \<open>wrap64\<close> (\<open>goadd\<close>, \<open>gosub\<close>, \<open>gomul\<close>),
    which \<open>wrap64_word\<close> relates to \<open>64 word\<close> arithmetic. Division truncates towards zero
    (\<open>goquot\<close>) and panics on zero, a \<open>None\<close>.
  \<^item> Time. A \<open>time.Time\<close> is the number of nanoseconds since Go's zero time, a
    \<open>time.Duration\<close> a number of nanoseconds. The clock is an argument \<open>now\<close>: one operation reads
    one instant.
  \<^item> Strings are byte strings. \<open>ToLower\<close> and \<open>ToUpper\<close> are Go's on ASCII text.
  \<^item> A Go map is an association list with distinct keys, read by \<open>map_of\<close>, written by
    \<open>AList.update\<close> and \<open>AList.delete\<close>; the order of the list is one iteration order of the
    runtime, which promises none. The locale \<open>go_map\<close> states the map interface.
  \<^item> Errors are values of \<open>goerr\<close>; a function that returns \<open>(T, error)\<close> returns \<open>goerr + T\<close>.
\<close>

named_theorems go_simps \<open>unfolding rules of the Go primitives\<close>

section \<open>Integers, time and errors\<close>

type_synonym gotime = int
type_synonym duration = int

definition wrap64 :: "int \<Rightarrow> int" where
  "wrap64 x = (x + 2 ^ 63) mod 2 ^ 64 - 2 ^ 63"

definition int64 :: "int \<Rightarrow> bool" where
  "int64 x \<longleftrightarrow> - (2 ^ 63) \<le> x \<and> x < 2 ^ 63"

definition goadd :: "int \<Rightarrow> int \<Rightarrow> int" where
  "goadd a b = wrap64 (a + b)"

definition gosub :: "int \<Rightarrow> int \<Rightarrow> int" where
  "gosub a b = wrap64 (a - b)"

definition gomul :: "int \<Rightarrow> int \<Rightarrow> int" where
  "gomul a b = wrap64 (a * b)"

definition goquot :: "int \<Rightarrow> int \<Rightarrow> int option" where
  "goquot a b = (if b = 0 then None else Some (wrap64 (a sdiv b)))"

lemma wrap64_id [simp]: "int64 x \<Longrightarrow> wrap64 x = x"
  by (simp add: wrap64_def int64_def)

lemma int64_wrap64 [simp]: "int64 (wrap64 x)"
proof -
  have "0 \<le> (x + 2 ^ 63) mod 2 ^ 64" and "(x + 2 ^ 63) mod 2 ^ 64 < (2 ^ 64 :: int)"
    by simp_all
  then show ?thesis by (simp add: wrap64_def int64_def)
qed

lemma wrap64_word: "wrap64 x = sint (word_of_int x :: 64 word)"
  by (simp add: wrap64_def sint_uint uint_word_of_int signed_take_bit_eq_take_bit_shift
      take_bit_eq_mod mod_simps)

lemma int64_goarith [simp]: "int64 (goadd a b)" "int64 (gosub a b)" "int64 (gomul a b)"
  by (simp_all add: goadd_def gosub_def gomul_def)

lemma goadd_exact: "int64 (a + b) \<Longrightarrow> goadd a b = a + b"
  by (simp add: goadd_def)

lemma gosub_exact: "int64 (a - b) \<Longrightarrow> gosub a b = a - b"
  by (simp add: gosub_def)

lemma gomul_exact: "int64 (a * b) \<Longrightarrow> gomul a b = a * b"
  by (simp add: gomul_def)

lemmas goarith_exact = goadd_exact gosub_exact gomul_exact

lemma gosub_nonneg_exact: "int64 a \<Longrightarrow> 0 \<le> b \<Longrightarrow> b \<le> a \<Longrightarrow> gosub a b = a - b"
  by (rule gosub_exact) (auto simp: int64_def)

lemma sdiv_nonneg: "0 \<le> a \<Longrightarrow> 0 < b \<Longrightarrow> a sdiv b = (a div b :: int)"
  by (cases "a = 0") (simp_all add: signed_divide_int_def)

datatype goerr =
    ErrNoRows
  | ErrConstraint string
  | ErrIO string
  | ErrNew string
  | ErrWrap string goerr
  | ErrPolicyViolation
  | ErrKillSwitchActive
  | ErrOverrideTooPermissive

text \<open>JSON values as \<open>encoding/json\<close> decodes them into \<open>interface{}\<close>: a number is a
  float64, and every number JSON can write is a finite rational.\<close>

datatype json =
    JNull
  | JBool bool
  | JNum rat
  | JStr string
  | JArr "json list"
  | JObj "(string \<times> json) list"

section \<open>Strings\<close>

text \<open>\<open>strings.HasPrefix\<close>, \<open>strings.Index\<close> (with \<open>None\<close> for -1) and
  \<open>strings.Contains\<close>.\<close>

fun HasPrefix :: "string \<Rightarrow> string \<Rightarrow> bool" where
  "HasPrefix s [] = True"
| "HasPrefix [] (p # ps) = False"
| "HasPrefix (c # cs) (p # ps) = (c = p \<and> HasPrefix cs ps)"

fun Index :: "string \<Rightarrow> string \<Rightarrow> nat option" where
  "Index [] pat = (if pat = [] then Some 0 else None)"
| "Index (c # cs) pat =
     (if HasPrefix (c # cs) pat then Some 0 else map_option Suc (Index cs pat))"

definition Contains :: "string \<Rightarrow> string \<Rightarrow> bool" where
  "Contains s sub \<longleftrightarrow> Index s sub \<noteq> None"

lemma HasPrefix_iff: "HasPrefix s p \<longleftrightarrow> (\<exists>t. s = p @ t)"
  by (induction s p rule: HasPrefix.induct) auto

lemma HasPrefix_append [simp]: "HasPrefix (p @ t) p"
  by (auto simp: HasPrefix_iff)

lemma HasPrefix_take: "HasPrefix s p \<longleftrightarrow> take (length p) s = p"
proof
  assume "HasPrefix s p"
  then show "take (length p) s = p" by (auto simp: HasPrefix_iff)
next
  assume "take (length p) s = p"
  then have "s = p @ drop (length p) s" by (metis append_take_drop_id)
  then show "HasPrefix s p" by (auto simp: HasPrefix_iff)
qed

lemma Index_SomeD:
  "Index s pat = Some i \<Longrightarrow> i \<le> length s \<and> HasPrefix (drop i s) pat"
proof (induction s arbitrary: i)
  case Nil
  then show ?case by (auto split: if_splits)
next
  case (Cons c cs)
  show ?case
  proof (cases "HasPrefix (c # cs) pat")
    case True
    with Cons.prems show ?thesis by auto
  next
    case False
    with Cons.prems obtain j where "Index cs pat = Some j" and "i = Suc j" by auto
    with Cons.IH [of j] show ?thesis by simp
  qed
qed

lemma Index_least:
  "Index s pat = Some i \<Longrightarrow> j < i \<Longrightarrow> \<not> HasPrefix (drop j s) pat"
proof (induction s arbitrary: i j)
  case Nil
  then show ?case by (auto split: if_splits)
next
  case (Cons c cs)
  from Cons.prems have np: "\<not> HasPrefix (c # cs) pat" by (auto split: if_splits)
  with Cons.prems obtain k where k: "Index cs pat = Some k" "i = Suc k" by auto
  show ?case
  proof (cases j)
    case 0
    with np show ?thesis by simp
  next
    case (Suc m)
    with Cons.IH [OF k(1), of m] Cons.prems(2) k(2) show ?thesis by simp
  qed
qed

lemma Index_NoneD: "Index s pat = None \<Longrightarrow> \<not> HasPrefix (drop j s) pat"
proof (induction s arbitrary: j)
  case Nil
  then show ?case by (cases pat) (auto split: if_splits)
next
  case (Cons c cs)
  from Cons.prems have np: "\<not> HasPrefix (c # cs) pat" and n: "Index cs pat = None"
    by (auto split: if_splits)
  show ?case
  proof (cases j)
    case 0
    with np show ?thesis by simp
  next
    case (Suc m)
    with Cons.IH [OF n, of m] show ?thesis by simp
  qed
qed

lemma Contains_iff: "Contains s sub \<longleftrightarrow> (\<exists>a b. s = a @ sub @ b)"
proof
  assume "Contains s sub"
  then obtain i where "Index s sub = Some i" by (auto simp: Contains_def)
  then have "HasPrefix (drop i s) sub" by (simp add: Index_SomeD)
  then obtain t where "drop i s = sub @ t" by (auto simp: HasPrefix_iff)
  then have "s = take i s @ sub @ t" by (metis append_take_drop_id)
  then show "\<exists>a b. s = a @ sub @ b" by blast
next
  assume "\<exists>a b. s = a @ sub @ b"
  then obtain a b where s: "s = a @ sub @ b" by blast
  then have "HasPrefix (drop (length a) s) sub" by simp
  then show "Contains s sub" using Index_NoneD by (auto simp: Contains_def)
qed

definition lower_char :: "char \<Rightarrow> char" where
  "lower_char c = (if 65 \<le> (of_char c :: nat) \<and> (of_char c :: nat) \<le> 90
     then char_of ((of_char c :: nat) + 32) else c)"

definition upper_char :: "char \<Rightarrow> char" where
  "upper_char c = (if 97 \<le> (of_char c :: nat) \<and> (of_char c :: nat) \<le> 122
     then char_of ((of_char c :: nat) - 32) else c)"

definition ToLower :: "string \<Rightarrow> string" where
  "ToLower s = map lower_char s"

definition ToUpper :: "string \<Rightarrow> string" where
  "ToUpper s = map upper_char s"

lemma lower_char_idem [simp]: "lower_char (lower_char c) = lower_char c"
  by (auto simp: lower_char_def)

lemma ToLower_idem [simp]: "ToLower (ToLower s) = ToLower s"
  by (simp add: ToLower_def)

lemma length_ToLower [simp]: "length (ToLower s) = length s"
  by (simp add: ToLower_def)

text \<open>\<open>strconv.Itoa\<close>, the \<open>%d\<close> of the messages.\<close>

fun digits_of :: "nat \<Rightarrow> string" where
  "digits_of n = (if n < 10 then [char_of (48 + n)]
     else digits_of (n div 10) @ [char_of (48 + n mod 10)])"

declare digits_of.simps [simp del]

definition itoa :: "int \<Rightarrow> string" where
  "itoa i = (if i < 0 then CHR ''-'' # digits_of (nat (- i)) else digits_of (nat i))"

text \<open>\<open>strings.TrimSpace\<close>, \<open>strings.HasSuffix\<close> and \<open>strings.TrimPrefix\<close>.\<close>

definition is_space :: "char \<Rightarrow> bool" where
  "is_space c \<longleftrightarrow> (of_char c :: nat) \<in> {9, 10, 11, 12, 13, 32}"

definition TrimSpace :: "string \<Rightarrow> string" where
  "TrimSpace s = rev (dropWhile is_space (rev (dropWhile is_space s)))"

definition HasSuffix :: "string \<Rightarrow> string \<Rightarrow> bool" where
  "HasSuffix s p \<longleftrightarrow> HasPrefix (rev s) (rev p)"

definition TrimPrefix :: "string \<Rightarrow> string \<Rightarrow> string" where
  "TrimPrefix s p = (if HasPrefix s p then drop (length p) s else s)"

lemma TrimPrefix_append [simp]: "TrimPrefix (p @ t) p = t"
  by (simp add: TrimPrefix_def)

text \<open>\<open>strings.TrimRight\<close>, \<open>strings.ContainsAny\<close>, \<open>strings.Fields\<close>, \<open>strings.Split\<close> on one
  character, \<open>strings.Count\<close> of a non-empty pattern (not overlapping), \<open>strings.ReplaceAll\<close> of one character.\<close>

definition TrimRight :: "string \<Rightarrow> string \<Rightarrow> string" where
  "TrimRight s cutset = rev (dropWhile (\<lambda>c. c \<in> set cutset) (rev s))"

definition ContainsAny :: "string \<Rightarrow> string \<Rightarrow> bool" where
  "ContainsAny s chars \<longleftrightarrow> list_ex (\<lambda>c. c \<in> set chars) s"

fun Fields_from :: "string \<Rightarrow> string \<Rightarrow> string list" where
  "Fields_from w [] = (if w = [] then [] else [w])"
| "Fields_from w (c # cs) =
     (if is_space c then (if w = [] then Fields_from [] cs else w # Fields_from [] cs)
      else Fields_from (w @ [c]) cs)"

definition Fields :: "string \<Rightarrow> string list" where
  "Fields s = Fields_from [] s"

fun Split :: "string \<Rightarrow> char \<Rightarrow> string list" where
  "Split [] sep = [[]]"
| "Split (c # cs) sep =
     (if c = sep then [] # Split cs sep
      else case Split cs sep of [] \<Rightarrow> [[c]] | w # ws \<Rightarrow> (c # w) # ws)"

fun Count :: "string \<Rightarrow> string \<Rightarrow> nat" where
  "Count [] pat = 0"
| "Count (c # cs) pat =
     (if pat \<noteq> [] \<and> HasPrefix (c # cs) pat then Suc (Count (drop (length pat - 1) cs) pat) else Count cs pat)"

definition ReplaceChar :: "string \<Rightarrow> char \<Rightarrow> string \<Rightarrow> string" where
  "ReplaceChar s old new = concat (map (\<lambda>c. if c = old then new else [c]) s)"

text \<open>\<open>strconv.Atoi\<close>: an optional sign, decimal digits, and the range of \<open>int\<close>.\<close>

definition is_digit :: "char \<Rightarrow> bool" where
  "is_digit c \<longleftrightarrow> 48 \<le> (of_char c :: nat) \<and> (of_char c :: nat) \<le> 57"

definition digits_val :: "string \<Rightarrow> nat" where
  "digits_val s = foldl (\<lambda>n c. 10 * n + ((of_char c :: nat) - 48)) 0 s"

definition Atoi :: "string \<Rightarrow> int option" where
  "Atoi s =
     (let (neg, ds) = (case s of [] \<Rightarrow> (False, [])
            | c # cs \<Rightarrow> if c = CHR ''-'' then (True, cs) else if c = CHR ''+'' then (False, cs) else (False, s));
          n = (if neg then - int (digits_val ds) else int (digits_val ds))
      in if ds \<noteq> [] \<and> list_all is_digit ds \<and> int64 n then Some n else None)"

lemma digits_of_digits: "list_all is_digit (digits_of n) \<and> digits_of n \<noteq> []"
proof (induction n rule: digits_of.induct)
  case (1 n)
  show ?case
  proof (cases "n < 10")
    case True
    then show ?thesis by (simp add: digits_of.simps [of n] is_digit_def)
  next
    case False
    then show ?thesis using 1 by (simp add: digits_of.simps [of n] is_digit_def)
  qed
qed

lemma digits_val_digits_of [simp]: "digits_val (digits_of n) = n"
proof (induction n rule: digits_of.induct)
  case (1 n)
  show ?case
  proof (cases "n < 10")
    case True
    then show ?thesis by (simp add: digits_of.simps [of n] digits_val_def)
  next
    case False
    then have "digits_val (digits_of n) = 10 * digits_val (digits_of (n div 10)) + n mod 10"
      by (simp add: digits_of.simps [of n] digits_val_def)
    with False 1 show ?thesis by simp
  qed
qed

lemma Atoi_digits_of: "int n < 2 ^ 63 \<Longrightarrow> Atoi (digits_of n) = Some (int n)"
proof -
  assume n: "int n < 2 ^ 63"
  obtain c cs where c: "digits_of n = c # cs" using digits_of_digits by (cases "digits_of n") auto
  have d: "is_digit c" using digits_of_digits [of n] by (simp add: c)
  have sgn: "c \<noteq> CHR ''-''" "c \<noteq> CHR ''+''" using d by (auto simp: is_digit_def)
  have all: "list_all is_digit (c # cs)" using digits_of_digits [of n] by (simp add: c)
  have "digits_val (c # cs) = n" using digits_val_digits_of [of n] by (simp add: c)
  with n sgn all show ?thesis by (simp add: Atoi_def c int64_def)
qed

lemma is_digit_not_space: "is_digit c \<Longrightarrow> \<not> is_space c"
  by (auto simp: is_digit_def is_space_def)

lemma dropWhile_none: "list_all (\<lambda>c. \<not> P c) s \<Longrightarrow> dropWhile P s = s"
  by (cases s) auto

lemma TrimSpace_no_space: "list_all (\<lambda>c. \<not> is_space c) s \<Longrightarrow> TrimSpace s = s"
  by (simp add: TrimSpace_def dropWhile_none list_all_rev)

lemma TrimSpace_digits_of [simp]: "TrimSpace (digits_of n) = digits_of n"
  by (rule TrimSpace_no_space, rule list.pred_mono_strong [OF conjunct1 [OF digits_of_digits]])
    (simp add: is_digit_not_space)

lemma TrimRight_append: "set sfx \<subseteq> set cutset \<Longrightarrow> TrimRight (s @ sfx) cutset = TrimRight s cutset"
proof -
  assume "set sfx \<subseteq> set cutset"
  then have "dropWhile (\<lambda>c. c \<in> set cutset) (rev sfx @ rev s) = dropWhile (\<lambda>c. c \<in> set cutset) (rev s)"
    by (subst dropWhile_append2) auto
  then show ?thesis by (simp add: TrimRight_def)
qed

lemma TrimRight_id: "s = [] \<or> last s \<notin> set cutset \<Longrightarrow> TrimRight s cutset = s"
  by (cases s rule: rev_cases) (auto simp: TrimRight_def)

text \<open>Text up to a separator that does not occur in it.\<close>

lemma separator_inj:
  assumes "x @ c # a = y @ c # b" and "c \<notin> set x" and "c \<notin> set y"
  shows "x = y \<and> a = b"
proof -
  have "takeWhile (\<lambda>d. d \<noteq> c) (x @ c # a) = x" "takeWhile (\<lambda>d. d \<noteq> c) (y @ c # b) = y"
    using assms(2,3) by (subst takeWhile_append2; auto)+
  then have "x = y" using assms(1) by metis
  then show ?thesis using assms(1) by simp
qed

lemma HasSuffix_iff: "HasSuffix s p \<longleftrightarrow> (\<exists>t. s = t @ p)"
proof
  assume "HasSuffix s p"
  then obtain t where "rev s = rev p @ t" by (auto simp: HasSuffix_def HasPrefix_iff)
  then have "s = rev t @ p" by (metis rev_append rev_rev_ident)
  then show "\<exists>t. s = t @ p" by blast
qed (auto simp: HasSuffix_def)

section \<open>Go maps\<close>

text \<open>The interface of a Go map: reading after writing and deleting, and the keys staying
  distinct. Clients of a map use nothing else.\<close>

locale go_map =
  fixes lookup :: "'m \<Rightarrow> 'k \<Rightarrow> 'v option"
    and insert :: "'k \<Rightarrow> 'v \<Rightarrow> 'm \<Rightarrow> 'm"
    and remove :: "'k \<Rightarrow> 'm \<Rightarrow> 'm"
    and wf :: "'m \<Rightarrow> bool"
  assumes lookup_insert: "lookup (insert k v m) k' = (if k' = k then Some v else lookup m k')"
    and lookup_remove: "lookup (remove k m) k' = (if k' = k then None else lookup m k')"
    and wf_insert: "wf m \<Longrightarrow> wf (insert k v m)"
    and wf_remove: "wf m \<Longrightarrow> wf (remove k m)"
begin

lemma insert_same: "lookup (insert k v m) k = Some v"
  by (simp add: lookup_insert)

lemma insert_other: "k' \<noteq> k \<Longrightarrow> lookup (insert k v m) k' = lookup m k'"
  by (simp add: lookup_insert)

lemma insert_last: "lookup (insert k v (insert k w m)) = lookup (insert k v m)"
  by (rule ext) (simp add: lookup_insert)

lemma remove_insert: "lookup (remove k (insert k v m)) = lookup (remove k m)"
  by (rule ext) (simp add: lookup_insert lookup_remove)

lemma insert_commute:
  "k \<noteq> j \<Longrightarrow> lookup (insert k v (insert j w m)) = lookup (insert j w (insert k v m))"
  by (rule ext) (simp add: lookup_insert)

end

type_synonym ('k, 'v) gomap = "('k \<times> 'v) list"

definition gomap_wf :: "('k, 'v) gomap \<Rightarrow> bool" where
  "gomap_wf m \<longleftrightarrow> distinct (map fst m)"

interpretation gm: go_map map_of AList.update AList.delete gomap_wf
  by unfold_locales
    (auto simp: update_conv' delete_conv' gomap_wf_def distinct_update distinct_delete)

lemmas gomap_simps = gm.lookup_insert gm.lookup_remove gm.wf_insert gm.wf_remove

lemma gomap_wf_Nil [simp]: "gomap_wf []"
  by (simp add: gomap_wf_def)

text \<open>Assigning through the pointers of a map's values, key by key.\<close>

definition gomap_map :: "('k \<Rightarrow> 'v \<Rightarrow> 'w) \<Rightarrow> ('k, 'v) gomap \<Rightarrow> ('k, 'w) gomap" where
  "gomap_map f m = map (\<lambda>(k, v). (k, f k v)) m"

lemma map_of_gomap_map [simp]: "map_of (gomap_map f m) k = map_option (f k) (map_of m k)"
  by (induction m) (auto simp: gomap_map_def)

lemma gomap_wf_map [simp]: "gomap_wf (gomap_map f m) = gomap_wf m"
proof -
  have "map fst (gomap_map f m) = map fst m"
    by (induction m) (auto simp: gomap_map_def)
  then show ?thesis by (simp add: gomap_wf_def)
qed

end
