(* ===== verification/RateLimit.thy ===== *)
theory RateLimit
  imports Prelude
begin

text \<open>
  The package \<open>ratelimit\<close> (src/ratelimit/ratelimit.go): call costs, the token bucket
  \<open>Bucket\<close>, the persisted bucket \<open>BucketState\<close>, the \<open>BucketManager\<close> that keeps one risk and one
  resource bucket per user and backend, and the \<open>RateLimitManager\<close> wrapped around it.

  The methods of \<open>Bucket\<close> and the look-ups of \<open>BucketManager\<close> hold a mutex, so each is one function on the state. The methods of
  \<open>BucketState\<close> hold none, and \<open>CheckAndConsume\<close> calls them after the manager's lock is released. As functions they are what one
  goroutine does when no other works on the same bucket; \<open>Consume_debit\<close> is the second half of a withdrawal, for the case that another comes in between.
  A pointer into \<open>BucketManager.buckets\<close> is the key it is stored under. The locale \<open>token_bucket\<close> is the
  contract both bucket types fulfil; the bound on what a bucket can ever grant is proved once in it.
  \<open>int(elapsed.Seconds())\<close> is the whole seconds of the duration: the float64 sum the source forms is
  exact enough for that below \<open>2 ^ 23\<close> seconds.
\<close>

section \<open>Costs\<close>

definition riskMultipliers :: "(string, int) gomap" where
  "riskMultipliers = [(''low'', 1), (''med'', 2), (''high'', 4)]"

definition impactScopesRequiringRisk :: "(string, bool) gomap" where
  "impactScopesRequiringRisk = [(''write'', True), (''delete'', True)]"

definition GetRiskMultiplier :: "string \<Rightarrow> int" where
  "GetRiskMultiplier riskLevel =
     (case map_of riskMultipliers riskLevel of Some m \<Rightarrow> m | None \<Rightarrow> 1)"

definition IsRiskScoped :: "string \<Rightarrow> bool" where
  "IsRiskScoped impactScope =
     (case map_of impactScopesRequiringRisk impactScope of Some b \<Rightarrow> b | None \<Rightarrow> False)"

definition CalculateCost :: "int \<Rightarrow> string \<Rightarrow> string \<Rightarrow> int \<times> int" where
  "CalculateCost resourceCost riskLevel impactScope =
     (if IsRiskScoped impactScope then gomul resourceCost (GetRiskMultiplier riskLevel) else 0,
      resourceCost)"

definition CalculateCostWithMultiplier :: "int \<Rightarrow> string \<Rightarrow> string \<Rightarrow> int \<Rightarrow> int \<times> int" where
  "CalculateCostWithMultiplier resourceCost riskLevel impactScope multiplier =
     (let (riskCost, resourceCostResult) = CalculateCost resourceCost riskLevel impactScope
      in (gomul riskCost multiplier, gomul resourceCostResult multiplier))"

section \<open>The in-memory bucket\<close>

text \<open>\<open>time.Since\<close> saturates at the ends of \<open>Duration\<close>.\<close>

definition Since :: "gotime \<Rightarrow> gotime \<Rightarrow> duration" where
  "Since now t = max (- (2 ^ 63)) (min (2 ^ 63 - 1) (now - t))"

definition whole_seconds :: "duration \<Rightarrow> int" where
  "whole_seconds d = d sdiv 1000000000"

definition refillAmount :: "gotime \<Rightarrow> gotime \<Rightarrow> int \<Rightarrow> int" where
  "refillAmount now lastRefill rate = gomul (whole_seconds (Since now lastRefill)) rate sdiv 60"

record Bucket =
  b_capacity :: int
  b_refillRate :: int
  b_current :: int
  b_lastRefill :: gotime

definition NewBucket :: "gotime \<Rightarrow> int \<Rightarrow> int \<Rightarrow> Bucket" where
  "NewBucket now capacity refillRate =
     \<lparr>b_capacity = capacity, b_refillRate = refillRate, b_current = capacity, b_lastRefill = now\<rparr>"

definition Bucket_Refill :: "gotime \<Rightarrow> int \<Rightarrow> Bucket \<Rightarrow> Bucket" where
  "Bucket_Refill now amount b =
     b\<lparr>b_current := min (b_capacity b) (goadd (b_current b) amount), b_lastRefill := now\<rparr>"

definition RefillForElapsed :: "gotime \<Rightarrow> Bucket \<Rightarrow> Bucket" where
  "RefillForElapsed now b =
     (let amount = refillAmount now (b_lastRefill b) (b_refillRate b)
      in if amount > 0
         then b\<lparr>b_current := min (b_capacity b) (goadd (b_current b) amount), b_lastRefill := now\<rparr>
         else b)"

definition Bucket_Consume :: "int \<Rightarrow> Bucket \<Rightarrow> bool \<times> Bucket" where
  "Bucket_Consume amount b =
     (if b_current b < amount then (False, b)
      else (True, b\<lparr>b_current := gosub (b_current b) amount\<rparr>))"

definition ConsumeCost :: "int \<Rightarrow> Bucket \<Rightarrow> bool \<times> Bucket" where
  "ConsumeCost cost b = Bucket_Consume cost b"

definition Bucket_CanConsume :: "int \<Rightarrow> Bucket \<Rightarrow> bool" where
  "Bucket_CanConsume amount b \<longleftrightarrow> b_current b \<ge> amount"

text \<open>\<open>NextFullIn\<close> divides by the refill rate; \<open>None\<close> is the runtime panic on a zero rate.\<close>

definition NextFullIn :: "Bucket \<Rightarrow> duration option" where
  "NextFullIn b =
     (if b_current b \<ge> b_capacity b then Some 0
      else let unitsNeeded = gosub (b_capacity b) (b_current b)
           in map_option (\<lambda>secondsNeeded. gomul secondsNeeded 1000000000)
                (goquot (gomul unitsNeeded 60) (b_refillRate b)))"

section \<open>The persisted bucket\<close>

record BucketState =
  bs_UserID :: string
  bs_BackendID :: string
  bs_BucketType :: string
  bs_Capacity :: int
  bs_RefillRate :: int
  bs_CurrentLevel :: int
  bs_LastRefillAt :: gotime

definition NewBucketState ::
    "gotime \<Rightarrow> string \<Rightarrow> string \<Rightarrow> string \<Rightarrow> int \<Rightarrow> int \<Rightarrow> BucketState" where
  "NewBucketState now userID backendID bucketType capacity refillRate =
     \<lparr>bs_UserID = userID, bs_BackendID = backendID, bs_BucketType = bucketType,
      bs_Capacity = capacity, bs_RefillRate = refillRate, bs_CurrentLevel = capacity,
      bs_LastRefillAt = now\<rparr>"

definition BucketState_Refill :: "gotime \<Rightarrow> BucketState \<Rightarrow> BucketState" where
  "BucketState_Refill now b =
     (let amount = refillAmount now (bs_LastRefillAt b) (bs_RefillRate b)
      in if amount > 0
         then b\<lparr>bs_CurrentLevel := min (bs_Capacity b) (goadd (bs_CurrentLevel b) amount),
                bs_LastRefillAt := now\<rparr>
         else b)"

definition BucketState_CanConsume :: "gotime \<Rightarrow> int \<Rightarrow> BucketState \<Rightarrow> bool \<times> BucketState" where
  "BucketState_CanConsume now cost b =
     (let b' = BucketState_Refill now b in (bs_CurrentLevel b' \<ge> cost, b'))"

definition BucketState_Consume :: "gotime \<Rightarrow> int \<Rightarrow> BucketState \<Rightarrow> bool \<times> BucketState" where
  "BucketState_Consume now cost b =
     (case BucketState_CanConsume now cost b of
        (False, b') \<Rightarrow> (False, b')
      | (True, b') \<Rightarrow> (True, b'\<lparr>bs_CurrentLevel := gosub (bs_CurrentLevel b') cost\<rparr>))"

text \<open>The withdrawal is the check and then, without a lock in between, the debit.\<close>

definition Consume_debit :: "int \<Rightarrow> BucketState \<Rightarrow> BucketState" where
  "Consume_debit cost b = b\<lparr>bs_CurrentLevel := gosub (bs_CurrentLevel b) cost\<rparr>"

lemma BucketState_Consume_steps:
  "BucketState_Consume now cost b =
     (let (granted, b') = BucketState_CanConsume now cost b in (granted, if granted then Consume_debit cost b' else b'))"
  by (simp add: BucketState_Consume_def Consume_debit_def split: prod.split bool.split)

section \<open>The bucket manager\<close>

record BucketConfig =
  bc_Capacity :: int
  bc_RefillRate :: int

record UserBucketConfig =
  ubc_UserID :: string
  ubc_BackendID :: string
  ubc_RiskCapacity :: int
  ubc_RiskRefill :: int
  ubc_ResCapacity :: int
  ubc_ResRefill :: int
  ubc_CostMultiplier :: int

record BucketManager =
  bm_buckets :: "(string, BucketState) gomap"
  bm_config :: "(string, BucketConfig) gomap"
  bm_userConfigs :: "(string, UserBucketConfig) gomap"

definition NewBucketManager :: BucketManager where
  "NewBucketManager = \<lparr>bm_buckets = [], bm_config = [], bm_userConfigs = []\<rparr>"

definition bucketKey :: "string \<Rightarrow> string \<Rightarrow> string \<Rightarrow> string" where
  "bucketKey userID backendID bucketType = userID @ '':'' @ backendID @ '':'' @ bucketType"

definition configKey :: "string \<Rightarrow> string \<Rightarrow> string" where
  "configKey backendID bucketType = backendID @ '':'' @ bucketType"

definition SetConfig :: "string \<Rightarrow> string \<Rightarrow> int \<Rightarrow> int \<Rightarrow> BucketManager \<Rightarrow> BucketManager" where
  "SetConfig backendID bucketType capacity refillRate m =
     m\<lparr>bm_config := AList.update (configKey backendID bucketType)
         \<lparr>bc_Capacity = capacity, bc_RefillRate = refillRate\<rparr> (bm_config m)\<rparr>"

definition GetConfig :: "BucketManager \<Rightarrow> string \<Rightarrow> string \<Rightarrow> BucketConfig option" where
  "GetConfig m backendID bucketType = map_of (bm_config m) (configKey backendID bucketType)"

definition defaultBucketConfig :: BucketConfig where
  "defaultBucketConfig = \<lparr>bc_Capacity = 100, bc_RefillRate = 20\<rparr>"

definition GetOrCreate ::
    "gotime \<Rightarrow> string \<Rightarrow> string \<Rightarrow> string \<Rightarrow> BucketManager \<Rightarrow> BucketState \<times> BucketManager" where
  "GetOrCreate now userID backendID bucketType m =
     (let key = bucketKey userID backendID bucketType
      in case map_of (bm_buckets m) key of
           Some b \<Rightarrow> (b, m)
         | None \<Rightarrow>
             let cfg = (case map_of (bm_config m) (configKey backendID bucketType) of
                          Some c \<Rightarrow> c | None \<Rightarrow> defaultBucketConfig);
                 b = NewBucketState now userID backendID bucketType (bc_Capacity cfg) (bc_RefillRate cfg)
             in (b, m\<lparr>bm_buckets := AList.update key b (bm_buckets m)\<rparr>))"

text \<open>Writing through the pointer \<open>GetOrCreate\<close> returned.\<close>

definition put_bucket :: "string \<Rightarrow> BucketState \<Rightarrow> BucketManager \<Rightarrow> BucketManager" where
  "put_bucket key b m = m\<lparr>bm_buckets := AList.update key b (bm_buckets m)\<rparr>"

definition Manager_CheckAndConsume ::
    "gotime \<Rightarrow> string \<Rightarrow> string \<Rightarrow> int \<Rightarrow> int \<Rightarrow> BucketManager \<Rightarrow> (bool \<times> bool) \<times> BucketManager" where
  "Manager_CheckAndConsume now userID backendID riskCost resourceCost m =
     (let (riskBucket, m1) = GetOrCreate now userID backendID ''risk'' m;
          (resourceBucket, m2) = GetOrCreate now userID backendID ''resource'' m1;
          (riskAllowed, riskBucket') = BucketState_Consume now riskCost riskBucket;
          m3 = put_bucket (bucketKey userID backendID ''risk'') riskBucket' m2;
          (resourceAllowed, resourceBucket') = BucketState_Consume now resourceCost resourceBucket;
          m4 = put_bucket (bucketKey userID backendID ''resource'') resourceBucket' m3
      in ((riskAllowed, resourceAllowed), m4))"

definition GetStatus ::
    "BucketManager \<Rightarrow> string \<Rightarrow> string \<Rightarrow> BucketState option \<times> BucketState option" where
  "GetStatus m userID backendID =
     (map_of (bm_buckets m) (bucketKey userID backendID ''risk''),
      map_of (bm_buckets m) (bucketKey userID backendID ''resource''))"

definition Manager_RefillAll :: "gotime \<Rightarrow> BucketManager \<Rightarrow> BucketManager" where
  "Manager_RefillAll now m =
     m\<lparr>bm_buckets := gomap_map (\<lambda>_. BucketState_Refill now) (bm_buckets m)\<rparr>"

definition GetAllBuckets :: "BucketManager \<Rightarrow> BucketState list" where
  "GetAllBuckets m = map snd (bm_buckets m)"

record BackendConfig =
  bk_BackendID :: string
  bk_RiskCapacity :: int
  bk_RiskRefill :: int
  bk_ResCapacity :: int
  bk_ResRefill :: int

fun splitConfigKey :: "string \<Rightarrow> (string \<times> string) option" where
  "splitConfigKey [] = None"
| "splitConfigKey (c # cs) =
     (if c = CHR '':'' then Some ([], cs)
      else map_option (\<lambda>(a, b). (c # a, b)) (splitConfigKey cs))"

text \<open>The loop body of \<open>GetAllConfigs\<close> on one entry of \<open>m.config\<close>.\<close>

definition add_config ::
    "string \<times> BucketConfig \<Rightarrow> (string, BackendConfig) gomap \<Rightarrow> (string, BackendConfig) gomap" where
  "add_config e configMap =
     (case splitConfigKey (fst e) of
        None \<Rightarrow> configMap
      | Some (backendID, bucketType) \<Rightarrow>
          let existing = (case map_of configMap backendID of
                 Some c \<Rightarrow> c
               | None \<Rightarrow> \<lparr>bk_BackendID = backendID, bk_RiskCapacity = 0, bk_RiskRefill = 0,
                          bk_ResCapacity = 0, bk_ResRefill = 0\<rparr>);
              updated = (if bucketType = ''risk'' then
                   existing\<lparr>bk_RiskCapacity := bc_Capacity (snd e), bk_RiskRefill := bc_RefillRate (snd e)\<rparr>
                 else if bucketType = ''resource'' then
                   existing\<lparr>bk_ResCapacity := bc_Capacity (snd e), bk_ResRefill := bc_RefillRate (snd e)\<rparr>
                 else existing)
          in AList.update backendID updated configMap)"

definition Manager_GetAllConfigs :: "BucketManager \<Rightarrow> BackendConfig list" where
  "Manager_GetAllConfigs m = map snd (fold add_config (bm_config m) [])"

definition hasPrefix :: "string \<Rightarrow> string \<Rightarrow> bool" where
  "hasPrefix s prefix \<longleftrightarrow> length prefix \<le> length s \<and> take (length prefix) s = prefix"

definition Manager_ResetUserBuckets :: "gotime \<Rightarrow> string \<Rightarrow> string \<Rightarrow> BucketManager \<Rightarrow> BucketManager" where
  "Manager_ResetUserBuckets now userID backendID m =
     (let prefix = (if backendID \<noteq> [] then userID @ '':'' @ backendID @ '':'' else userID @ '':'')
      in m\<lparr>bm_buckets := gomap_map
             (\<lambda>key b. if hasPrefix key prefix
                then b\<lparr>bs_CurrentLevel := bs_Capacity b, bs_LastRefillAt := now\<rparr> else b)
             (bm_buckets m)\<rparr>)"

definition userConfigKey :: "string \<Rightarrow> string \<Rightarrow> string" where
  "userConfigKey userID backendID = userID @ '':'' @ backendID"

definition Manager_SetUserConfig :: "UserBucketConfig \<Rightarrow> BucketManager \<Rightarrow> BucketManager" where
  "Manager_SetUserConfig cfg m =
     m\<lparr>bm_userConfigs := AList.update (userConfigKey (ubc_UserID cfg) (ubc_BackendID cfg)) cfg
         (bm_userConfigs m)\<rparr>"

definition Manager_GetUserConfig :: "BucketManager \<Rightarrow> string \<Rightarrow> string \<Rightarrow> UserBucketConfig option" where
  "Manager_GetUserConfig m userID backendID = map_of (bm_userConfigs m) (userConfigKey userID backendID)"

definition Manager_DeleteUserConfig :: "string \<Rightarrow> string \<Rightarrow> BucketManager \<Rightarrow> BucketManager" where
  "Manager_DeleteUserConfig userID backendID m =
     m\<lparr>bm_userConfigs := AList.delete (userConfigKey userID backendID) (bm_userConfigs m)\<rparr>"

section \<open>The rate limit manager\<close>

text \<open>\<open>stopCh\<close> and \<open>persistStopCh\<close> are used only by closing them, so each is the flag
  whether it is closed; \<open>persistSaveFn\<close> is whether it is set.\<close>

record RateLimitManager =
  rl_manager :: BucketManager
  rl_stopClosed :: bool
  rl_persistStopClosed :: bool
  rl_persistSet :: bool

definition NewRateLimitManager :: RateLimitManager where
  "NewRateLimitManager = \<lparr>rl_manager = NewBucketManager, rl_stopClosed = False,
     rl_persistStopClosed = False, rl_persistSet = False\<rparr>"

definition SetPersistFunc :: "RateLimitManager \<Rightarrow> RateLimitManager" where
  "SetPersistFunc m = m\<lparr>rl_persistSet := True\<rparr>"

definition rl_lift :: "(BucketManager \<Rightarrow> BucketManager) \<Rightarrow> RateLimitManager \<Rightarrow> RateLimitManager" where
  "rl_lift f m = m\<lparr>rl_manager := f (rl_manager m)\<rparr>"

definition RefillAll :: "gotime \<Rightarrow> RateLimitManager \<Rightarrow> RateLimitManager" where
  "RefillAll now = rl_lift (Manager_RefillAll now)"

definition Stop :: "RateLimitManager \<Rightarrow> RateLimitManager" where
  "Stop m = (if rl_stopClosed m then m else m\<lparr>rl_stopClosed := True\<rparr>)"

definition StopPersist :: "RateLimitManager \<Rightarrow> RateLimitManager" where
  "StopPersist m = (if rl_persistStopClosed m then m else m\<lparr>rl_persistStopClosed := True\<rparr>)"

text \<open>One round of the loop \<open>StartRefillTicker\<close> starts: \<open>None\<close> when the goroutine returns, the
  manager after \<open>RefillAll\<close> when the ticker fires.\<close>

definition refill_ticker_round :: "gotime \<Rightarrow> bool \<Rightarrow> RateLimitManager \<Rightarrow> RateLimitManager option" where
  "refill_ticker_round now ctxDone m =
     (if ctxDone \<or> rl_stopClosed m then None else Some (RefillAll now m))"

record BucketStateForDB =
  sd_UserID :: string
  sd_BackendID :: string
  sd_BucketType :: string
  sd_CurrentLevel :: int
  sd_Capacity :: int
  sd_RefillRate :: int
  sd_LastRefillAt :: gotime

definition load_state :: "gotime \<Rightarrow> BucketStateForDB \<Rightarrow> BucketManager \<Rightarrow> BucketManager" where
  "load_state now state m =
     (let (bucket, m') = GetOrCreate now (sd_UserID state) (sd_BackendID state) (sd_BucketType state) m
      in put_bucket (bucketKey (sd_UserID state) (sd_BackendID state) (sd_BucketType state))
           (bucket\<lparr>bs_CurrentLevel := sd_CurrentLevel state, bs_LastRefillAt := sd_LastRefillAt state\<rparr>) m')"

definition LoadStates :: "gotime \<Rightarrow> BucketStateForDB list \<Rightarrow> RateLimitManager \<Rightarrow> RateLimitManager" where
  "LoadStates now states = rl_lift (fold (load_state now) states)"

definition state_for_db :: "BucketState \<Rightarrow> BucketStateForDB" where
  "state_for_db b = \<lparr>sd_UserID = bs_UserID b, sd_BackendID = bs_BackendID b,
     sd_BucketType = bs_BucketType b, sd_CurrentLevel = bs_CurrentLevel b,
     sd_Capacity = bs_Capacity b, sd_RefillRate = bs_RefillRate b,
     sd_LastRefillAt = bs_LastRefillAt b\<rparr>"

definition GetAllStates :: "RateLimitManager \<Rightarrow> BucketStateForDB list" where
  "GetAllStates m = map state_for_db (GetAllBuckets (rl_manager m))"

record ConfigDisplay =
  cd_BackendID :: string
  cd_RiskCapacity :: int
  cd_RiskRefill :: int
  cd_ResCapacity :: int
  cd_ResRefill :: int

definition GetAllConfigs :: "RateLimitManager \<Rightarrow> ConfigDisplay list" where
  "GetAllConfigs m = map (\<lambda>c. \<lparr>cd_BackendID = bk_BackendID c, cd_RiskCapacity = bk_RiskCapacity c,
     cd_RiskRefill = bk_RiskRefill c, cd_ResCapacity = bk_ResCapacity c,
     cd_ResRefill = bk_ResRefill c\<rparr>) (Manager_GetAllConfigs (rl_manager m))"

definition ResetUserBuckets :: "gotime \<Rightarrow> string \<Rightarrow> string \<Rightarrow> RateLimitManager \<Rightarrow> RateLimitManager" where
  "ResetUserBuckets now userID backendID = rl_lift (Manager_ResetUserBuckets now userID backendID)"

definition SetUserConfig :: "UserBucketConfig \<Rightarrow> RateLimitManager \<Rightarrow> RateLimitManager" where
  "SetUserConfig cfg = rl_lift (Manager_SetUserConfig cfg)"

definition GetUserConfig :: "RateLimitManager \<Rightarrow> string \<Rightarrow> string \<Rightarrow> UserBucketConfig option" where
  "GetUserConfig m userID backendID = Manager_GetUserConfig (rl_manager m) userID backendID"

definition DeleteUserConfig :: "string \<Rightarrow> string \<Rightarrow> RateLimitManager \<Rightarrow> RateLimitManager" where
  "DeleteUserConfig userID backendID = rl_lift (Manager_DeleteUserConfig userID backendID)"

definition SetDefaultConfig ::
    "string \<Rightarrow> int \<Rightarrow> int \<Rightarrow> int \<Rightarrow> int \<Rightarrow> RateLimitManager \<Rightarrow> RateLimitManager" where
  "SetDefaultConfig backendID riskCapacity riskRefill resourceCapacity resourceRefill =
     rl_lift (SetConfig backendID ''resource'' resourceCapacity resourceRefill \<circ>
              SetConfig backendID ''risk'' riskCapacity riskRefill)"

definition GetDefaultConfig :: "RateLimitManager \<Rightarrow> string \<Rightarrow> int \<times> int \<times> int \<times> int" where
  "GetDefaultConfig m backendID =
     (let riskCfg = GetConfig (rl_manager m) backendID ''risk'';
          resCfg = GetConfig (rl_manager m) backendID ''resource''
      in (case riskCfg of Some c \<Rightarrow> bc_Capacity c | None \<Rightarrow> 0,
          case riskCfg of Some c \<Rightarrow> bc_RefillRate c | None \<Rightarrow> 0,
          case resCfg of Some c \<Rightarrow> bc_Capacity c | None \<Rightarrow> 0,
          case resCfg of Some c \<Rightarrow> bc_RefillRate c | None \<Rightarrow> 0))"

definition CheckAndConsume ::
    "gotime \<Rightarrow> string \<Rightarrow> string \<Rightarrow> int \<Rightarrow> int \<Rightarrow> RateLimitManager \<Rightarrow> (bool \<times> bool) \<times> RateLimitManager" where
  "CheckAndConsume now userID backendID riskCost resourceCost m =
     (let (allowed, bm) = Manager_CheckAndConsume now userID backendID riskCost resourceCost (rl_manager m)
      in (allowed, m\<lparr>rl_manager := bm\<rparr>))"

definition GetBucketStatus ::
    "RateLimitManager \<Rightarrow> string \<Rightarrow> string \<Rightarrow> (int \<times> int \<times> int) \<times> (int \<times> int \<times> int)" where
  "GetBucketStatus m userID backendID =
     (let (risk, resource) = GetStatus (rl_manager m) userID backendID;
          read = (\<lambda>s. case s of Some b \<Rightarrow> (bs_CurrentLevel b, bs_Capacity b, bs_RefillRate b)
                    | None \<Rightarrow> (0, 0, 0))
      in (read risk, read resource))"

definition bucket_json :: "int \<times> int \<times> int \<Rightarrow> json" where
  "bucket_json s = (case s of (avail, cap, refill) \<Rightarrow>
     JObj [(''available'', JNum (of_int avail)), (''capacity'', JNum (of_int cap)),
           (''refill_rate'', JNum (of_int refill))])"

definition GetStatusMap :: "RateLimitManager \<Rightarrow> string \<Rightarrow> string \<Rightarrow> (string, json) gomap" where
  "GetStatusMap m userID backendID =
     (let (risk, resource) = GetBucketStatus m userID backendID
      in [(''risk_bucket'', bucket_json risk), (''resource_bucket'', bucket_json resource)])"

section \<open>The contract of a token bucket\<close>

text \<open>A history of a bucket: at each instant a background refill (\<open>None\<close>) or a request for
  tokens (\<open>Some cost\<close>). \<open>grant_run\<close> is the sum granted and the bucket it leaves.\<close>

fun grant_run ::
    "(gotime \<Rightarrow> 'b \<Rightarrow> 'b) \<Rightarrow> (gotime \<Rightarrow> int \<Rightarrow> 'b \<Rightarrow> bool \<times> 'b) \<Rightarrow> (gotime \<times> int option) list \<Rightarrow>
     'b \<Rightarrow> int \<times> 'b" where
  "grant_run refill request [] b = (0, b)"
| "grant_run refill request ((now, None) # es) b = grant_run refill request es (refill now b)"
| "grant_run refill request ((now, Some cost) # es) b =
     (let (granted, b') = request now cost b; (granted_sum, b'') = grant_run refill request es b'
      in ((if granted then cost else 0) + granted_sum, b''))"

definition history_ok :: "gotime \<Rightarrow> gotime \<Rightarrow> (gotime \<times> int option) list \<Rightarrow> bool" where
  "history_ok t0 t1 es \<longleftrightarrow> t0 \<le> t1 \<and> sorted (map fst es) \<and>
     list_all (\<lambda>(t, c). t0 \<le> t \<and> t \<le> t1 \<and> (case c of None \<Rightarrow> True | Some cost \<Rightarrow> 0 \<le> cost)) es"

text \<open>One refill or request at \<open>now\<close> turns bucket \<open>b\<close> into \<open>b'\<close> and hands out \<open>g\<close> tokens:
  the level stays within the capacity and rises by no more than the elapsed time earns at
  \<open>rate\<close> tokens a minute.\<close>

locale token_bucket =
  fixes level cap rate last_refill :: "'b \<Rightarrow> int"
    and refill :: "gotime \<Rightarrow> 'b \<Rightarrow> 'b"
    and request :: "gotime \<Rightarrow> int \<Rightarrow> 'b \<Rightarrow> bool \<times> 'b"
    and valid :: "'b \<Rightarrow> bool"
  assumes valid_level: "valid b \<Longrightarrow> 0 \<le> level b \<and> level b \<le> cap b"
    and valid_rate: "valid b \<Longrightarrow> 0 \<le> rate b"
    and valid_refill: "valid b \<Longrightarrow> valid (refill now b)"
    and valid_request: "valid b \<Longrightarrow> 0 \<le> cost \<Longrightarrow> request now cost b = (g, b') \<Longrightarrow> valid b'"
    and rate_refill: "rate (refill now b) = rate b"
    and rate_request: "request now cost b = (g, b') \<Longrightarrow> rate b' = rate b"
    and last_refill_refill: "last_refill b \<le> now \<Longrightarrow>
      last_refill b \<le> last_refill (refill now b) \<and> last_refill (refill now b) \<le> now"
    and last_refill_request: "last_refill b \<le> now \<Longrightarrow> request now cost b = (g, b') \<Longrightarrow>
      last_refill b \<le> last_refill b' \<and> last_refill b' \<le> now"
    and earn_refill: "valid b \<Longrightarrow> last_refill b \<le> now \<Longrightarrow>
      60000000000 * (level (refill now b) - level b)
        \<le> rate b * (last_refill (refill now b) - last_refill b)"
    and earn_request: "valid b \<Longrightarrow> last_refill b \<le> now \<Longrightarrow> 0 \<le> cost \<Longrightarrow> request now cost b = (g, b') \<Longrightarrow>
      60000000000 * ((if g then cost else 0) + level b' - level b)
        \<le> rate b * (last_refill b' - last_refill b)"
begin

lemma run_invariant:
  assumes "valid b" and "history_ok (last_refill b) t1 es"
    and "grant_run refill request es b = (granted_sum, b')"
  shows "valid b' \<and> rate b' = rate b \<and> last_refill b \<le> last_refill b' \<and> last_refill b' \<le> t1 \<and>
    60000000000 * (granted_sum + level b' - level b) \<le> rate b * (last_refill b' - last_refill b)"
  using assms
proof (induction es arbitrary: b granted_sum)
  case Nil
  then show ?case by (simp add: history_ok_def)
next
  case (Cons e es)
  obtain now c where e: "e = (now, c)" by (cases e)
  from Cons.prems(2) have t: "last_refill b \<le> now" "now \<le> t1" "sorted (map fst es)"
    "\<And>t d. (t, d) \<in> set es \<Longrightarrow> now \<le> t \<and> t \<le> t1 \<and> (case d of None \<Rightarrow> True | Some x \<Rightarrow> 0 \<le> x)"
    by (auto simp: history_ok_def e list_all_iff split_beta)
  have hist: "history_ok l t1 es" if "l \<le> now" for l
    using t that by (fastforce simp: history_ok_def list_all_iff)
  show ?case
  proof (cases c)
    case None
    let ?b = "refill now b"
    have "grant_run refill request es ?b = (granted_sum, b')" using Cons.prems(3) e None by simp
    moreover have "valid ?b" using Cons.prems(1) by (rule valid_refill)
    moreover have l: "last_refill b \<le> last_refill ?b" "last_refill ?b \<le> now"
      using last_refill_refill [OF t(1)] by auto
    ultimately have ih: "valid b' \<and> rate b' = rate ?b \<and> last_refill ?b \<le> last_refill b' \<and>
        last_refill b' \<le> t1 \<and>
        60000000000 * (granted_sum + level b' - level ?b) \<le> rate ?b * (last_refill b' - last_refill ?b)"
      using Cons.IH hist by blast
    have "60000000000 * (level ?b - level b) \<le> rate b * (last_refill ?b - last_refill b)"
      using Cons.prems(1) t(1) by (rule earn_refill)
    with ih l rate_refill show ?thesis by (auto simp: right_diff_distrib)
  next
    case (Some cost)
    obtain g b1 where r: "request now cost b = (g, b1)" by fastforce
    obtain tot where run: "grant_run refill request es b1 = (tot, b')"
      and granted_sum: "granted_sum = (if g then cost else 0) + tot"
      using Cons.prems(3) e Some r by (auto split: prod.splits)
    have cost: "0 \<le> cost" using Cons.prems(2) e Some by (simp add: history_ok_def)
    have "valid b1" using Cons.prems(1) cost r by (rule valid_request)
    moreover have l: "last_refill b \<le> last_refill b1" "last_refill b1 \<le> now"
      using last_refill_request [OF t(1) r] by auto
    ultimately have ih: "valid b' \<and> rate b' = rate b1 \<and> last_refill b1 \<le> last_refill b' \<and>
        last_refill b' \<le> t1 \<and>
        60000000000 * (tot + level b' - level b1) \<le> rate b1 * (last_refill b' - last_refill b1)"
      using Cons.IH [OF _ _ run] hist by blast
    have "60000000000 * ((if g then cost else 0) + level b1 - level b)
        \<le> rate b * (last_refill b1 - last_refill b)"
      using Cons.prems(1) t(1) cost r by (rule earn_request)
    with ih l rate_request [OF r] granted_sum show ?thesis by (auto simp: right_diff_distrib)
  qed
qed

lemma run_granted:
  assumes "valid b" and "history_ok (last_refill b) t1 es"
  shows "60000000000 * fst (grant_run refill request es b)
    \<le> 60000000000 * cap b + rate b * (t1 - last_refill b)"
proof -
  obtain granted_sum b' where run: "grant_run refill request es b = (granted_sum, b')" by fastforce
  with run_invariant [OF assms] have inv: "valid b'" "last_refill b' \<le> t1"
    "60000000000 * (granted_sum + level b' - level b) \<le> rate b * (last_refill b' - last_refill b)"
    by blast+
  have "rate b * (last_refill b' - last_refill b) \<le> rate b * (t1 - last_refill b)"
    using inv(2) valid_rate [OF assms(1)] by (intro mult_left_mono) auto
  with inv(3) valid_level [OF inv(1)] valid_level [OF assms(1)] run show ?thesis by simp
qed

lemma run_level:
  assumes "valid b" and "history_ok (last_refill b) t1 es"
  shows "0 \<le> level (snd (grant_run refill request es b)) \<and>
    level (snd (grant_run refill request es b)) \<le> cap (snd (grant_run refill request es b))"
proof -
  obtain granted_sum b' where run: "grant_run refill request es b = (granted_sum, b')" by fastforce
  with run_invariant [OF assms] have "valid b'" by blast
  with run show ?thesis by (simp add: valid_level)
qed

end

section \<open>Both buckets fulfil it\<close>

text \<open>The sizes for which no step of the computation wraps: a capacity of at most \<open>2 ^ 62\<close> and a
  rate of at most \<open>2 ^ 28\<close> tokens a minute.\<close>

definition bucket_valid :: "int \<Rightarrow> int \<Rightarrow> int \<Rightarrow> bool" where
  "bucket_valid capacity rate current \<longleftrightarrow>
     0 \<le> current \<and> current \<le> capacity \<and> capacity \<le> 2 ^ 62 \<and> 0 \<le> rate \<and> rate \<le> 2 ^ 28"

lemma whole_seconds_Since:
  assumes "t \<le> now"
  shows "0 \<le> whole_seconds (Since now t)" "whole_seconds (Since now t) \<le> 9223372036"
    "1000000000 * whole_seconds (Since now t) \<le> now - t"
proof -
  define d where "d = Since now t"
  have d: "0 \<le> d" "d \<le> 9223372036854775807" "d \<le> now - t"
    using assms by (auto simp: Since_def d_def)
  have w: "whole_seconds d = d div 1000000000"
    using d by (simp add: whole_seconds_def sdiv_nonneg)
  show "0 \<le> whole_seconds (Since now t)" "whole_seconds (Since now t) \<le> 9223372036"
    "1000000000 * whole_seconds (Since now t) \<le> now - t"
    using d w by (simp_all add: d_def [symmetric])
qed

lemma refillAmount_bounds:
  assumes "t \<le> now" and "0 \<le> rate" and "rate \<le> 2 ^ 28"
  shows "0 \<le> refillAmount now t rate" "refillAmount now t rate \<le> 2 ^ 60"
    "60000000000 * refillAmount now t rate \<le> rate * (now - t)"
proof -
  define s where "s = whole_seconds (Since now t)"
  have s: "0 \<le> s" "s \<le> 9223372036" "1000000000 * s \<le> now - t"
    using whole_seconds_Since [OF assms(1)] by (simp_all add: s_def)
  have p: "0 \<le> s * rate" "s * rate \<le> 9223372036 * 2 ^ 28"
    using s assms by (simp, intro mult_mono) simp_all
  then have a: "refillAmount now t rate = s * rate div 60"
    by (simp add: refillAmount_def s_def [symmetric] gomul_exact int64_def sdiv_nonneg)
  show "0 \<le> refillAmount now t rate" using p by (simp add: a)
  show "refillAmount now t rate \<le> 2 ^ 60" using p by (simp add: a)
  have "60 * (s * rate div 60) \<le> s * rate" by simp
  then have "60000000000 * (s * rate div 60) \<le> rate * (1000000000 * s)"
    by (simp add: mult.commute)
  also have "\<dots> \<le> rate * (now - t)" using s(3) assms(2) by (rule mult_left_mono)
  finally show "60000000000 * refillAmount now t rate \<le> rate * (now - t)" by (simp add: a)
qed

lemma refillAmount_past: "now < t \<Longrightarrow> 0 \<le> rate \<Longrightarrow> rate \<le> 2 ^ 28 \<Longrightarrow> refillAmount now t rate \<le> 0"
proof -
  assume a: "now < t" "0 \<le> rate" "rate \<le> 2 ^ 28"
  define d where "d = - Since now t"
  have d: "0 < d" "d \<le> 9223372036854775808" using a by (auto simp: Since_def d_def)
  define s where "s = d div 1000000000"
  have s: "0 \<le> s" "s \<le> 9223372036" using d by (simp_all add: s_def)
  have w: "whole_seconds (Since now t) = - s"
    using d by (simp add: whole_seconds_def signed_divide_int_def d_def s_def)
  have p: "0 \<le> s * rate" "s * rate \<le> 9223372036 * 2 ^ 28"
    using s a by (simp, intro mult_mono) simp_all
  then have "gomul (- s) rate = - (s * rate)" by (simp add: gomul_exact int64_def)
  moreover have "0 \<le> s * rate div 60" using p by simp
  ultimately show ?thesis using w
    by (simp add: refillAmount_def signed_divide_int_def sgn_if)
qed

text \<open>What a refill does to the level, for either bucket.\<close>

lemma refilled_level:
  assumes "bucket_valid c r l" and "0 < refillAmount now t r"
  shows "bucket_valid c r (min c (goadd l (refillAmount now t r)))"
    "t < now" "60000000000 * (min c (goadd l (refillAmount now t r)) - l) \<le> r * (now - t)"
proof -
  have v: "0 \<le> l" "l \<le> c" "c \<le> 2 ^ 62" "0 \<le> r" "r \<le> 2 ^ 28"
    using assms(1) by (simp_all add: bucket_valid_def)
  have "\<not> now < t" using refillAmount_past [of now t r] v assms(2) by force
  then have t: "t \<le> now" by simp
  note b = refillAmount_bounds [OF t v(4,5)]
  have g: "goadd l (refillAmount now t r) = l + refillAmount now t r"
    using v b assms(2) by (intro goadd_exact) (simp add: int64_def)
  show "bucket_valid c r (min c (goadd l (refillAmount now t r)))"
    using v b g by (simp add: bucket_valid_def)
  show "t < now" using b(3) assms(2) t v(4) by (cases "t = now") auto
  show "60000000000 * (min c (goadd l (refillAmount now t r)) - l) \<le> r * (now - t)"
    using b(3) v g by (simp add: min_def)
qed

abbreviation Bucket_valid :: "Bucket \<Rightarrow> bool" where
  "Bucket_valid b \<equiv> bucket_valid (b_capacity b) (b_refillRate b) (b_current b)"

abbreviation BucketState_valid :: "BucketState \<Rightarrow> bool" where
  "BucketState_valid b \<equiv> bucket_valid (bs_Capacity b) (bs_RefillRate b) (bs_CurrentLevel b)"

lemma spend_level:
  "bucket_valid c r l \<Longrightarrow> 0 \<le> x \<Longrightarrow> x \<le> l \<Longrightarrow> gosub l x = l - x \<and> bucket_valid c r (l - x)"
  by (simp add: bucket_valid_def gosub_exact int64_def)

lemma RefillForElapsed_frame [simp]:
  "b_capacity (RefillForElapsed now b) = b_capacity b"
  "b_refillRate (RefillForElapsed now b) = b_refillRate b"
  by (simp_all add: RefillForElapsed_def Let_def)

lemma BucketState_Refill_frame [simp]:
  "bs_Capacity (BucketState_Refill now b) = bs_Capacity b"
  "bs_RefillRate (BucketState_Refill now b) = bs_RefillRate b"
  "bs_UserID (BucketState_Refill now b) = bs_UserID b"
  "bs_BackendID (BucketState_Refill now b) = bs_BackendID b"
  "bs_BucketType (BucketState_Refill now b) = bs_BucketType b"
  by (simp_all add: BucketState_Refill_def Let_def)

lemma RefillForElapsed_earn:
  assumes "Bucket_valid b"
  shows "Bucket_valid (RefillForElapsed now b)"
    "60000000000 * (b_current (RefillForElapsed now b) - b_current b)
       \<le> b_refillRate b * (b_lastRefill (RefillForElapsed now b) - b_lastRefill b)"
  using assms refilled_level [OF assms, of now "b_lastRefill b"]
  by (simp_all add: RefillForElapsed_def Let_def)

lemma BucketState_Refill_earn:
  assumes "BucketState_valid b"
  shows "BucketState_valid (BucketState_Refill now b)"
    "60000000000 * (bs_CurrentLevel (BucketState_Refill now b) - bs_CurrentLevel b)
       \<le> bs_RefillRate b * (bs_LastRefillAt (BucketState_Refill now b) - bs_LastRefillAt b)"
  using assms refilled_level [OF assms, of now "bs_LastRefillAt b"]
  by (simp_all add: BucketState_Refill_def Let_def)

lemmas BucketState_Refill_valid = BucketState_Refill_earn(1) [simplified]

lemma BucketState_Consume_cases:
  "BucketState_Consume now cost b =
     (let b' = BucketState_Refill now b
      in if cost \<le> bs_CurrentLevel b'
         then (True, b'\<lparr>bs_CurrentLevel := gosub (bs_CurrentLevel b') cost\<rparr>) else (False, b'))"
  by (simp add: BucketState_Consume_def BucketState_CanConsume_def Let_def)

interpretation mb: token_bucket b_current b_capacity b_refillRate b_lastRefill
  RefillForElapsed "\<lambda>_. Bucket_Consume" Bucket_valid
proof unfold_locales
  fix b :: Bucket and now cost g b'
  assume "Bucket_valid b" "0 \<le> cost" "Bucket_Consume cost b = (g, b')"
  then show "Bucket_valid b'"
    using spend_level [of "b_capacity b" "b_refillRate b" "b_current b" cost]
    by (auto simp: Bucket_Consume_def split: if_splits)
next
  fix b :: Bucket and now cost g b'
  assume "Bucket_valid b" "b_lastRefill b \<le> now" "0 \<le> cost" "Bucket_Consume cost b = (g, b')"
  then show "60000000000 * ((if g then cost else 0) + b_current b' - b_current b)
      \<le> b_refillRate b * (b_lastRefill b' - b_lastRefill b)"
    using spend_level [of "b_capacity b" "b_refillRate b" "b_current b" cost]
    by (auto simp: Bucket_Consume_def split: if_splits)
next
  fix b :: Bucket and now
  assume v: "Bucket_valid b"
  show "Bucket_valid (RefillForElapsed now b)" using v by (rule RefillForElapsed_earn(1))
next
  fix b :: Bucket and now
  assume v: "Bucket_valid b"
  show "60000000000 * (b_current (RefillForElapsed now b) - b_current b)
      \<le> b_refillRate b * (b_lastRefill (RefillForElapsed now b) - b_lastRefill b)"
    using v by (rule RefillForElapsed_earn(2))
qed (auto simp: bucket_valid_def Bucket_Consume_def RefillForElapsed_def Let_def split: if_splits)

interpretation sb: token_bucket bs_CurrentLevel bs_Capacity bs_RefillRate bs_LastRefillAt
  BucketState_Refill BucketState_Consume BucketState_valid
proof unfold_locales
  fix b :: BucketState and now cost g b'
  assume v: "BucketState_valid b" and c: "0 \<le> cost" "BucketState_Consume now cost b = (g, b')"
  from BucketState_Refill_earn(1) [OF v] have "BucketState_valid (BucketState_Refill now b)" .
  with c show "BucketState_valid b'"
    using spend_level [of "bs_Capacity b" "bs_RefillRate b"
        "bs_CurrentLevel (BucketState_Refill now b)" cost]
    by (auto simp: BucketState_Consume_cases Let_def split: if_splits)
next
  fix b :: BucketState and now cost g b'
  assume v: "BucketState_valid b" and "bs_LastRefillAt b \<le> now"
    and c: "0 \<le> cost" "BucketState_Consume now cost b = (g, b')"
  note e = BucketState_Refill_earn [OF v, of now]
  with c show "60000000000 * ((if g then cost else 0) + bs_CurrentLevel b' - bs_CurrentLevel b)
      \<le> bs_RefillRate b * (bs_LastRefillAt b' - bs_LastRefillAt b)"
    using spend_level [of "bs_Capacity b" "bs_RefillRate b"
        "bs_CurrentLevel (BucketState_Refill now b)" cost]
    by (auto simp: BucketState_Consume_cases Let_def split: if_splits)
next
  fix b :: BucketState and now
  assume v: "BucketState_valid b"
  show "BucketState_valid (BucketState_Refill now b)" using v by (rule BucketState_Refill_earn(1))
next
  fix b :: BucketState and now
  assume v: "BucketState_valid b"
  show "60000000000 * (bs_CurrentLevel (BucketState_Refill now b) - bs_CurrentLevel b)
      \<le> bs_RefillRate b * (bs_LastRefillAt (BucketState_Refill now b) - bs_LastRefillAt b)"
    using v by (rule BucketState_Refill_earn(2))
qed (auto simp: bucket_valid_def BucketState_Consume_cases BucketState_Refill_def Let_def
    split: if_splits)

section \<open>The manager's invariant\<close>

definition manager_ok :: "BucketManager \<Rightarrow> bool" where
  "manager_ok m \<longleftrightarrow> gomap_wf (bm_buckets m) \<and>
     list_all (\<lambda>(k, b). k = bucketKey (bs_UserID b) (bs_BackendID b) (bs_BucketType b) \<and>
                 BucketState_valid b) (bm_buckets m) \<and>
     list_all (\<lambda>(k, c). bucket_valid (bc_Capacity c) (bc_RefillRate c) (bc_Capacity c)) (bm_config m)"

lemma list_all_update: "list_all P m \<Longrightarrow> P (k, v) \<Longrightarrow> list_all P (AList.update k v m)"
  by (induction m) auto

lemma list_all_map_of: "list_all P m \<Longrightarrow> map_of m k = Some v \<Longrightarrow> P (k, v)"
  by (auto simp: list_all_iff dest: map_of_SomeD)

lemma list_all_gomap_map:
  "list_all P m \<Longrightarrow> (\<And>k v. P (k, v) \<Longrightarrow> Q (k, f k v)) \<Longrightarrow> list_all Q (gomap_map f m)"
  by (induction m) (auto simp: gomap_map_def)

lemma manager_ok_bucketD:
  assumes "manager_ok m" and "map_of (bm_buckets m) k = Some b"
  shows "k = bucketKey (bs_UserID b) (bs_BackendID b) (bs_BucketType b)" "BucketState_valid b"
  using assms list_all_map_of [of _ "bm_buckets m" k b] by (auto simp: manager_ok_def)

lemma manager_ok_put_bucket:
  "manager_ok m \<Longrightarrow> BucketState_valid b \<Longrightarrow>
   k = bucketKey (bs_UserID b) (bs_BackendID b) (bs_BucketType b) \<Longrightarrow> manager_ok (put_bucket k b m)"
  by (simp add: manager_ok_def put_bucket_def list_all_update gm.wf_insert)

lemma manager_ok_SetConfig:
  "manager_ok m \<Longrightarrow> bucket_valid capacity rate capacity \<Longrightarrow>
   manager_ok (SetConfig backendID bucketType capacity rate m)"
  by (simp add: manager_ok_def SetConfig_def list_all_update)

lemma GetOrCreate_config [simp]: "bm_config (snd (GetOrCreate now u be ty m)) = bm_config m"
  by (simp add: GetOrCreate_def Let_def split: option.splits)

lemma GetOrCreate_lookup:
  assumes "GetOrCreate now u be ty m = (b, m')"
  shows "map_of (bm_buckets m') k =
    (if k = bucketKey u be ty then Some b else map_of (bm_buckets m) k)"
  using assms by (auto simp: GetOrCreate_def Let_def gomap_simps split: option.splits)

lemma GetOrCreate_existing:
  "map_of (bm_buckets m) (bucketKey u be ty) = Some b \<Longrightarrow> GetOrCreate now u be ty m = (b, m)"
  by (simp add: GetOrCreate_def)

lemma configured_valid:
  assumes "manager_ok m"
  shows "let cfg = (case map_of (bm_config m) key of Some c \<Rightarrow> c | None \<Rightarrow> defaultBucketConfig)
    in bucket_valid (bc_Capacity cfg) (bc_RefillRate cfg) (bc_Capacity cfg)"
  using assms
  by (auto simp: manager_ok_def Let_def bucket_valid_def defaultBucketConfig_def
      dest: list_all_map_of split: option.splits)

lemma GetOrCreate_ok:
  assumes ok: "manager_ok m" and g: "GetOrCreate now u be ty m = (b, m')"
  shows "manager_ok m'" "BucketState_valid b"
proof -
  let ?key = "bucketKey u be ty"
  show "manager_ok m'"
  proof (cases "map_of (bm_buckets m) ?key")
    case None
    with g have "bs_UserID b = u" "bs_BackendID b = be" "bs_BucketType b = ty"
      and "m' = put_bucket ?key b m" and "BucketState_valid b"
      using configured_valid [OF ok, of "configKey be ty"]
      by (auto simp: GetOrCreate_def Let_def put_bucket_def NewBucketState_def)
    with ok show ?thesis by (simp add: manager_ok_put_bucket)
  qed (use ok g GetOrCreate_existing in auto)
  with GetOrCreate_lookup [OF g, of ?key] show "BucketState_valid b"
    using manager_ok_bucketD(2) by (metis (full_types))
qed

lemma GetOrCreate_ids:
  assumes ok: "manager_ok m" and g: "GetOrCreate now u be ty m = (b, m')"
  shows "bucketKey (bs_UserID b) (bs_BackendID b) (bs_BucketType b) = bucketKey u be ty"
  using GetOrCreate_ok(1) [OF assms] GetOrCreate_lookup [OF g, of "bucketKey u be ty"]
    manager_ok_bucketD(1) by metis

lemma BucketState_Consume_ids [simp]:
  "bs_UserID (snd (BucketState_Consume now c b)) = bs_UserID b"
  "bs_BackendID (snd (BucketState_Consume now c b)) = bs_BackendID b"
  "bs_BucketType (snd (BucketState_Consume now c b)) = bs_BucketType b"
  "bs_Capacity (snd (BucketState_Consume now c b)) = bs_Capacity b"
  "bs_RefillRate (snd (BucketState_Consume now c b)) = bs_RefillRate b"
  by (simp_all add: BucketState_Consume_cases Let_def)

lemma risk_resource_keys [simp]:
  "bucketKey u be ''risk'' \<noteq> bucketKey u be ''resource''"
  "bucketKey u be ''resource'' \<noteq> bucketKey u be ''risk''"
  by (simp_all add: bucketKey_def)

text \<open>\<open>CheckAndConsume\<close> as two independent withdrawals.\<close>

lemma Manager_CheckAndConsume_eq:
  assumes "GetOrCreate now u be ''risk'' m = (rb, m1)"
    and "GetOrCreate now u be ''resource'' m1 = (sb, m2)"
  shows "Manager_CheckAndConsume now u be rc sc m =
    ((fst (BucketState_Consume now rc rb), fst (BucketState_Consume now sc sb)),
     put_bucket (bucketKey u be ''resource'') (snd (BucketState_Consume now sc sb))
       (put_bucket (bucketKey u be ''risk'') (snd (BucketState_Consume now rc rb)) m2))"
  using assms by (simp add: Manager_CheckAndConsume_def Let_def split_beta)

lemma put_bucket_lookup:
  "map_of (bm_buckets (put_bucket k b m)) k' = (if k' = k then Some b else map_of (bm_buckets m) k')"
  by (simp add: put_bucket_def gomap_simps)

lemma manager_ok_CheckAndConsume:
  assumes ok: "manager_ok m" and "0 \<le> rc" "0 \<le> sc"
  shows "manager_ok (snd (Manager_CheckAndConsume now u be rc sc m))"
proof -
  obtain rb m1 where g1: "GetOrCreate now u be ''risk'' m = (rb, m1)" by fastforce
  obtain sb m2 where g2: "GetOrCreate now u be ''resource'' m1 = (sb, m2)" by fastforce
  note ok1 = GetOrCreate_ok [OF ok g1] and id1 = GetOrCreate_ids [OF ok g1]
  note ok2 = GetOrCreate_ok [OF ok1(1) g2] and id2 = GetOrCreate_ids [OF ok1(1) g2]
  have "BucketState_valid (snd (BucketState_Consume now rc rb))"
    "BucketState_valid (snd (BucketState_Consume now sc sb))"
    using sb.valid_request [OF ok1(2) assms(2)] sb.valid_request [OF ok2(2) assms(3)]
    by (metis prod.collapse)+
  with ok2(1) id1 id2 show ?thesis
    by (simp add: Manager_CheckAndConsume_eq [OF g1 g2] manager_ok_put_bucket)
qed

lemma manager_ok_RefillAll: "manager_ok m \<Longrightarrow> manager_ok (Manager_RefillAll now m)"
  by (auto simp: manager_ok_def Manager_RefillAll_def BucketState_Refill_valid
      elim: list_all_gomap_map)

lemma manager_ok_Reset: "manager_ok m \<Longrightarrow> manager_ok (Manager_ResetUserBuckets now u be m)"
  by (auto simp: manager_ok_def Manager_ResetUserBuckets_def Let_def bucket_valid_def
      elim!: list_all_gomap_map)

lemma manager_ok_user_config:
  "manager_ok (Manager_SetUserConfig cfg m) = manager_ok m"
  "manager_ok (Manager_DeleteUserConfig u be m) = manager_ok m"
  by (simp_all add: manager_ok_def Manager_SetUserConfig_def Manager_DeleteUserConfig_def)

text \<open>\<open>LoadStates\<close> sets levels that were saved under another configuration, so a level may exceed the capacity of its bucket until
  the next refill. \<open>ceil\<close> bounds the levels that are loaded.\<close>

definition level_ok :: "int \<Rightarrow> BucketState \<Rightarrow> bool" where
  "level_ok ceil b \<longleftrightarrow> 0 \<le> bs_CurrentLevel b \<and> bs_CurrentLevel b \<le> max (bs_Capacity b) ceil \<and> ceil \<le> 2 ^ 62 \<and>
     bucket_valid (bs_Capacity b) (bs_RefillRate b) (bs_Capacity b)"

definition levels_ok :: "int \<Rightarrow> BucketManager \<Rightarrow> bool" where
  "levels_ok ceil m \<longleftrightarrow> gomap_wf (bm_buckets m) \<and>
     list_all (\<lambda>(k, b). k = bucketKey (bs_UserID b) (bs_BackendID b) (bs_BucketType b) \<and> level_ok ceil b) (bm_buckets m) \<and>
     list_all (\<lambda>(k, c). bucket_valid (bc_Capacity c) (bc_RefillRate c) (bc_Capacity c)) (bm_config m)"

lemma level_ok_Refill:
  assumes "level_ok ceil b"
  shows "level_ok ceil (BucketState_Refill now b)"
proof (cases "refillAmount now (bs_LastRefillAt b) (bs_RefillRate b) > 0")
  case True
  let ?a = "refillAmount now (bs_LastRefillAt b) (bs_RefillRate b)"
  have v: "0 \<le> bs_CurrentLevel b" "bs_CurrentLevel b \<le> 2 ^ 62" "0 \<le> bs_Capacity b" "0 \<le> bs_RefillRate b" "bs_RefillRate b \<le> 2 ^ 28"
    using assms by (auto simp: level_ok_def bucket_valid_def max_def split: if_splits)
  have "bs_LastRefillAt b \<le> now" using refillAmount_past [of now "bs_LastRefillAt b" "bs_RefillRate b"] v True by force
  then have "?a \<le> 2 ^ 60" using refillAmount_bounds(2) v by blast
  then have "goadd (bs_CurrentLevel b) ?a = bs_CurrentLevel b + ?a" using v True by (intro goadd_exact) (simp add: int64_def)
  then show ?thesis using assms True v by (simp add: level_ok_def BucketState_Refill_def)
qed (use assms in \<open>simp add: BucketState_Refill_def Let_def\<close>)

lemma level_ok_Consume:
  assumes "level_ok ceil b" and "0 \<le> cost"
  shows "level_ok ceil (snd (BucketState_Consume now cost b))"
proof -
  let ?b = "BucketState_Refill now b"
  have ok: "level_ok ceil ?b" using level_ok_Refill [OF assms(1)] .
  then have "bs_CurrentLevel ?b \<le> 2 ^ 62" by (auto simp: level_ok_def bucket_valid_def max_def split: if_splits)
  then have "gosub (bs_CurrentLevel ?b) cost = bs_CurrentLevel ?b - cost" if "cost \<le> bs_CurrentLevel ?b"
    using ok that assms(2) by (intro gosub_exact) (simp add: level_ok_def int64_def)
  then show ?thesis using ok assms(2) by (auto simp: BucketState_Consume_cases level_ok_def Let_def)
qed

lemma levels_ok_bucketD:
  assumes "levels_ok ceil m" and "map_of (bm_buckets m) k = Some b"
  shows "k = bucketKey (bs_UserID b) (bs_BackendID b) (bs_BucketType b)" "level_ok ceil b"
  using assms list_all_map_of [of _ "bm_buckets m" k b] by (auto simp: levels_ok_def)

lemma levels_ok_put_bucket:
  "levels_ok ceil m \<Longrightarrow> level_ok ceil b \<Longrightarrow>
   k = bucketKey (bs_UserID b) (bs_BackendID b) (bs_BucketType b) \<Longrightarrow> levels_ok ceil (put_bucket k b m)"
  by (simp add: levels_ok_def put_bucket_def list_all_update gm.wf_insert)

lemma levels_ok_SetConfig:
  "levels_ok ceil m \<Longrightarrow> bucket_valid capacity rate capacity \<Longrightarrow> levels_ok ceil (SetConfig backendID bucketType capacity rate m)"
  by (simp add: levels_ok_def SetConfig_def list_all_update)

lemma GetOrCreate_levels:
  assumes ok: "levels_ok ceil m" and "ceil \<le> 2 ^ 62" and g: "GetOrCreate now u be ty m = (b, m')"
  shows "levels_ok ceil m'" "level_ok ceil b" "bucketKey (bs_UserID b) (bs_BackendID b) (bs_BucketType b) = bucketKey u be ty"
proof -
  let ?key = "bucketKey u be ty"
  show l: "levels_ok ceil m'"
  proof (cases "map_of (bm_buckets m) ?key")
    case None
    define cfg where "cfg = (case map_of (bm_config m) (configKey be ty) of Some c \<Rightarrow> c | None \<Rightarrow> defaultBucketConfig)"
    have "b = NewBucketState now u be ty (bc_Capacity cfg) (bc_RefillRate cfg)" "m' = put_bucket ?key b m"
      using g None by (auto simp: GetOrCreate_def Let_def put_bucket_def cfg_def NewBucketState_def)
    moreover have "bucket_valid (bc_Capacity cfg) (bc_RefillRate cfg) (bc_Capacity cfg)"
      using ok list_all_map_of [of _ "bm_config m" "configKey be ty"]
      by (force simp: cfg_def levels_ok_def defaultBucketConfig_def bucket_valid_def split: option.splits)
    ultimately have cfg: "b = NewBucketState now u be ty (bc_Capacity cfg) (bc_RefillRate cfg)" "m' = put_bucket ?key b m"
      "bucket_valid (bc_Capacity cfg) (bc_RefillRate cfg) (bc_Capacity cfg)" by blast+
    then have "level_ok ceil b" using assms(2) by (auto simp: level_ok_def NewBucketState_def bucket_valid_def)
    with ok cfg show ?thesis by (simp add: levels_ok_put_bucket NewBucketState_def)
  qed (use ok g GetOrCreate_existing in auto)
  have "map_of (bm_buckets m') ?key = Some b" using GetOrCreate_lookup [OF g, of ?key] by simp
  from levels_ok_bucketD [OF l this]
  show "level_ok ceil b" "bucketKey (bs_UserID b) (bs_BackendID b) (bs_BucketType b) = ?key" by simp_all
qed

lemma levels_ok_CheckAndConsume:
  assumes ok: "levels_ok ceil m" and "ceil \<le> 2 ^ 62" and "0 \<le> rc" "0 \<le> sc"
  shows "levels_ok ceil (snd (Manager_CheckAndConsume now u be rc sc m))"
proof -
  obtain rb m1 where g1: "GetOrCreate now u be ''risk'' m = (rb, m1)" by fastforce
  obtain sb m2 where g2: "GetOrCreate now u be ''resource'' m1 = (sb, m2)" by fastforce
  note ok1 = GetOrCreate_levels [OF ok assms(2) g1]
  note ok2 = GetOrCreate_levels [OF ok1(1) assms(2) g2]
  from ok1(3) ok2 level_ok_Consume [OF ok1(2) assms(3)] level_ok_Consume [OF ok2(2) assms(4)] show ?thesis
    by (simp add: Manager_CheckAndConsume_eq [OF g1 g2] levels_ok_put_bucket)
qed

lemma levels_ok_RefillAll: "levels_ok ceil m \<Longrightarrow> levels_ok ceil (Manager_RefillAll now m)"
  by (auto simp: levels_ok_def Manager_RefillAll_def level_ok_Refill elim: list_all_gomap_map)

lemma levels_ok_Reset: "levels_ok ceil m \<Longrightarrow> levels_ok ceil (Manager_ResetUserBuckets now u be m)"
  by (auto simp: levels_ok_def Manager_ResetUserBuckets_def Let_def level_ok_def bucket_valid_def elim!: list_all_gomap_map)

lemma levels_ok_user_config:
  "levels_ok ceil (Manager_SetUserConfig cfg m) = levels_ok ceil m"
  "levels_ok ceil (Manager_DeleteUserConfig u be m) = levels_ok ceil m"
  by (simp_all add: levels_ok_def Manager_SetUserConfig_def Manager_DeleteUserConfig_def)

lemma levels_ok_load:
  assumes "levels_ok ceil m" and "ceil \<le> 2 ^ 62" and "list_all (\<lambda>s. 0 \<le> sd_CurrentLevel s \<and> sd_CurrentLevel s \<le> ceil) states"
  shows "levels_ok ceil (fold (load_state now) states m)"
  using assms(1,3)
proof (induction states arbitrary: m)
  case (Cons s states)
  obtain b m1 where g: "GetOrCreate now (sd_UserID s) (sd_BackendID s) (sd_BucketType s) m = (b, m1)" by fastforce
  note l = GetOrCreate_levels [OF Cons.prems(1) assms(2) g]
  have "levels_ok ceil (load_state now s m)"
    using Cons.prems(2) l g by (auto simp: load_state_def level_ok_def intro!: levels_ok_put_bucket)
  with Cons show ?case by simp
qed simp

text \<open>The runs of a manager: what start-up, the background tickers, the administrators and the calls of
  the users do to it, one after the other in any order.\<close>

inductive rl_step :: "int \<Rightarrow> RateLimitManager \<Rightarrow> RateLimitManager \<Rightarrow> bool" for ceil where
  rl_consume: "0 \<le> rc \<Longrightarrow> 0 \<le> sc \<Longrightarrow> rl_step ceil m (snd (CheckAndConsume now u be rc sc m))"
| rl_tick: "refill_ticker_round now done m = Some m' \<Longrightarrow> rl_step ceil m m'"
| rl_load: "list_all (\<lambda>s. 0 \<le> sd_CurrentLevel s \<and> sd_CurrentLevel s \<le> ceil) states \<Longrightarrow> rl_step ceil m (LoadStates now states m)"
| rl_reset: "rl_step ceil m (ResetUserBuckets now u be m)"
| rl_default: "bucket_valid rcap rref rcap \<Longrightarrow> bucket_valid scap sref scap \<Longrightarrow>
    rl_step ceil m (SetDefaultConfig be rcap rref scap sref m)"
| rl_set_user: "rl_step ceil m (SetUserConfig cfg m)"
| rl_delete_user: "rl_step ceil m (DeleteUserConfig u be m)"
| rl_stop: "rl_step ceil m (Stop m)"
| rl_stop_persist: "rl_step ceil m (StopPersist m)"
| rl_persist: "rl_step ceil m (SetPersistFunc m)"

inductive rl_reachable :: "int \<Rightarrow> RateLimitManager \<Rightarrow> bool" for ceil where
  rl_init: "rl_reachable ceil NewRateLimitManager"
| rl_next: "rl_reachable ceil m \<Longrightarrow> rl_step ceil m m' \<Longrightarrow> rl_reachable ceil m'"

inductive_cases rl_stepE: "rl_step ceil m m'"

lemma CheckAndConsume_manager [simp]:
  "rl_manager (snd (CheckAndConsume now u be rc sc m)) =
     snd (Manager_CheckAndConsume now u be rc sc (rl_manager m))"
  "fst (CheckAndConsume now u be rc sc m) = fst (Manager_CheckAndConsume now u be rc sc (rl_manager m))"
  by (simp_all add: CheckAndConsume_def Let_def split_beta)

lemmas rl_op_defs = ResetUserBuckets_def SetDefaultConfig_def SetUserConfig_def
  DeleteUserConfig_def RefillAll_def rl_lift_def Stop_def StopPersist_def SetPersistFunc_def LoadStates_def

lemma rl_step_ok:
  assumes "rl_step ceil m m'" and "levels_ok ceil (rl_manager m)" and "ceil \<le> 2 ^ 62"
  shows "levels_ok ceil (rl_manager m')"
  using assms
proof (induction rule: rl_step.induct)
  case (rl_tick now "done" m m')
  then show ?case
    by (auto simp: refill_ticker_round_def rl_op_defs levels_ok_RefillAll split: if_splits)
qed (auto simp: rl_op_defs levels_ok_CheckAndConsume levels_ok_Reset levels_ok_user_config levels_ok_SetConfig levels_ok_load)

lemma rl_reachable_ok:
  assumes "rl_reachable ceil m" and "ceil \<le> 2 ^ 62"
  shows "levels_ok ceil (rl_manager m)"
  using assms(1)
proof (induction rule: rl_reachable.induct)
  case rl_init
  show ?case by (simp add: NewRateLimitManager_def NewBucketManager_def levels_ok_def)
next
  case (rl_next m m')
  from rl_next.hyps(2) rl_next.IH assms(2) show ?case by (rule rl_step_ok)
qed

section \<open>What the rate limiter guarantees\<close>



text \<open>the same bound for the in-memory \<open>Bucket\<close>, whose requests do not refill.\<close>

theorem memory_bucket_grants_bounded:
  assumes "Bucket_valid b" and "history_ok (b_lastRefill b) t1 es"
  shows "60000000000 * fst (grant_run RefillForElapsed (\<lambda>_. Bucket_Consume) es b)
    \<le> 60000000000 * b_capacity b + b_refillRate b * (t1 - b_lastRefill b)"
  using assms by (rule mb.run_granted)

theorem memory_bucket_grants_bounded_witness:
  "60000000000 * fst (grant_run RefillForElapsed (\<lambda>_. Bucket_Consume)
       [(3000000000, Some 2), (6000000000, None), (9000000000, Some 2)] (NewBucket 0 3 20))
    \<le> 60000000000 * 3 + 20 * (9000000000 - 0)"
  using memory_bucket_grants_bounded [of "NewBucket 0 3 20" 9000000000
      "[(3000000000, Some 2), (6000000000, None), (9000000000, Some 2)]"]
  by (simp add: NewBucket_def bucket_valid_def history_ok_def)

lemma BucketState_Refill_idem:
  "BucketState_Refill now (BucketState_Refill now b) = BucketState_Refill now b"
proof -
  have "refillAmount now now r = 0" for r
    by (simp add: refillAmount_def Since_def whole_seconds_def gomul_def int64_def)
  then show ?thesis by (simp add: BucketState_Refill_def Let_def)
qed

text \<open>C24: the methods of a persisted bucket are not synchronised: of two requests that both pass the check before either is debited, both are
  granted, although the bucket covers their costs only one by one, and the level falls below zero by what is missing.\<close>

theorem interleaved_overdraft:
  assumes "BucketState_valid b" and "0 \<le> c1" "c1 \<le> bs_CurrentLevel (BucketState_Refill now b)"
    and "0 \<le> c2" "c2 \<le> bs_CurrentLevel (BucketState_Refill now b)"
    and "BucketState_CanConsume now c1 b = (g1, b1)" and "BucketState_CanConsume now c2 b1 = (g2, b2)"
  shows "g1 \<and> g2 \<and> bs_CurrentLevel (Consume_debit c2 (Consume_debit c1 b2)) = bs_CurrentLevel (BucketState_Refill now b) - c1 - c2"
proof -
  let ?b = "BucketState_Refill now b"
  have b: "b1 = ?b" "b2 = ?b" "g1" "g2"
    using assms(2-7) by (auto simp: BucketState_CanConsume_def Let_def BucketState_Refill_idem)
  have v: "bs_CurrentLevel ?b \<le> 2 ^ 62" using BucketState_Refill_earn(1) [OF assms(1), of now] by (auto simp: bucket_valid_def)
  have "gosub (bs_CurrentLevel ?b) c1 = bs_CurrentLevel ?b - c1" using v assms(2,3) by (intro gosub_exact) (simp add: int64_def)
  moreover have "gosub (bs_CurrentLevel ?b - c1) c2 = bs_CurrentLevel ?b - c1 - c2" using v assms(2-5) by (intro gosub_exact) (simp add: int64_def)
  ultimately show ?thesis using b by (simp add: Consume_debit_def)
qed

theorem interleaved_overdraft_witness:
  "bs_CurrentLevel (Consume_debit 3 (Consume_debit 3 (NewBucketState 0 ''u'' ''slack'' ''risk'' 3 20))) = - 3"
  using interleaved_overdraft [of "NewBucketState 0 ''u'' ''slack'' ''risk'' 3 20" 3 0 3 True "NewBucketState 0 ''u'' ''slack'' ''risk'' 3 20"
    True "NewBucketState 0 ''u'' ''slack'' ''risk'' 3 20"]
  by (simp add: NewBucketState_def bucket_valid_def BucketState_CanConsume_def BucketState_Refill_def refillAmount_def Since_def whole_seconds_def
      gomul_def wrap64_def)


definition used_once :: RateLimitManager where
  "used_once = snd (CheckAndConsume 0 ''u'' ''slack'' 4 1 NewRateLimitManager)"

lemma new_manager_ok: "manager_ok (rl_manager NewRateLimitManager)"
  by (simp add: NewRateLimitManager_def NewBucketManager_def manager_ok_def)

lemma used_once_ok: "manager_ok (rl_manager used_once)"
  by (simp add: used_once_def manager_ok_CheckAndConsume new_manager_ok)

lemma used_once_eval:
  "map_of (bm_buckets (rl_manager used_once)) ''u:slack:risk'' =
     Some ((NewBucketState 0 ''u'' ''slack'' ''risk'' 100 20)\<lparr>bs_CurrentLevel := 96\<rparr>)"
  by (simp add: used_once_def CheckAndConsume_def Manager_CheckAndConsume_def GetOrCreate_def
      NewRateLimitManager_def NewBucketManager_def defaultBucketConfig_def NewBucketState_def
      bucketKey_def configKey_def put_bucket_def BucketState_Consume_def BucketState_CanConsume_def
      BucketState_Refill_def refillAmount_def Since_def whole_seconds_def gomul_def gosub_def
      wrap64_def Let_def)

text \<open>A level saved under a capacity of 500 and loaded under one of 100.\<close>

definition loaded_high :: RateLimitManager where
  "loaded_high = LoadStates 0 [\<lparr>sd_UserID = ''u'', sd_BackendID = ''slack'', sd_BucketType = ''risk'', sd_CurrentLevel = 500, sd_Capacity = 500,
     sd_RefillRate = 20, sd_LastRefillAt = 0\<rparr>] NewRateLimitManager"

lemma loaded_high_eval:
  "map_of (bm_buckets (rl_manager loaded_high)) ''u:slack:risk'' = Some ((NewBucketState 0 ''u'' ''slack'' ''risk'' 100 20)\<lparr>bs_CurrentLevel := 500\<rparr>)"
  by (simp add: loaded_high_def LoadStates_def rl_lift_def load_state_def GetOrCreate_def NewRateLimitManager_def NewBucketManager_def
      defaultBucketConfig_def NewBucketState_def bucketKey_def configKey_def put_bucket_def Let_def)


text \<open>The bucket a request at \<open>now\<close> meets: the stored one or a new full one, refilled.\<close>

definition bucket_at :: "gotime \<Rightarrow> string \<Rightarrow> string \<Rightarrow> string \<Rightarrow> BucketManager \<Rightarrow> BucketState" where
  "bucket_at now u be ty m = BucketState_Refill now (fst (GetOrCreate now u be ty m))"

lemma GetOrCreate_other:
  assumes "GetOrCreate now u be ty m = (b, m1)" and "bucketKey u be ty' \<noteq> bucketKey u be ty"
  shows "fst (GetOrCreate now u be ty' m1) = fst (GetOrCreate now u be ty' m)"
  using GetOrCreate_lookup [OF assms(1), of "bucketKey u be ty'"] assms
    GetOrCreate_config [of now u be ty m]
  by (simp add: GetOrCreate_def Let_def split: option.splits)

text \<open>C23: \<open>CheckAndConsume\<close> allows each side exactly when that side's refilled bucket covers its
  cost, debits each allowed side whatever the other side answered, and touches no bucket of another
  user or backend.\<close>

theorem check_and_consume_outcome:
  assumes ok: "manager_ok (rl_manager m)" and "0 \<le> rc" "0 \<le> sc"
    and run: "CheckAndConsume now u be rc sc m = ((ra, sa), m')"
  shows "(ra \<longleftrightarrow> rc \<le> bs_CurrentLevel (bucket_at now u be ''risk'' (rl_manager m))) \<and>
    (sa \<longleftrightarrow> sc \<le> bs_CurrentLevel (bucket_at now u be ''resource'' (rl_manager m))) \<and>
    map_of (bm_buckets (rl_manager m')) (bucketKey u be ''risk'') =
      (let b = bucket_at now u be ''risk'' (rl_manager m)
       in Some (b\<lparr>bs_CurrentLevel := bs_CurrentLevel b - (if ra then rc else 0)\<rparr>)) \<and>
    map_of (bm_buckets (rl_manager m')) (bucketKey u be ''resource'') =
      (let b = bucket_at now u be ''resource'' (rl_manager m)
       in Some (b\<lparr>bs_CurrentLevel := bs_CurrentLevel b - (if sa then sc else 0)\<rparr>)) \<and>
    (\<forall>k. k \<noteq> bucketKey u be ''risk'' \<and> k \<noteq> bucketKey u be ''resource'' \<longrightarrow>
       map_of (bm_buckets (rl_manager m')) k = map_of (bm_buckets (rl_manager m)) k)"
proof -
  let ?m = "rl_manager m"
  obtain rb m1 where g1: "GetOrCreate now u be ''risk'' ?m = (rb, m1)" by fastforce
  obtain sb m2 where g2: "GetOrCreate now u be ''resource'' m1 = (sb, m2)" by fastforce
  have rb: "bucket_at now u be ''risk'' ?m = BucketState_Refill now rb"
    using g1 by (simp add: bucket_at_def)
  have sb: "bucket_at now u be ''resource'' ?m = BucketState_Refill now sb"
    using GetOrCreate_other [OF g1, of "''resource''"] g2 by (simp add: bucket_at_def)
  note ok1 = GetOrCreate_ok [OF ok g1] and ok2 = GetOrCreate_ok [OF GetOrCreate_ok(1) [OF ok g1] g2]
  have eq: "((ra, sa), rl_manager m') = Manager_CheckAndConsume now u be rc sc ?m"
    using run by (metis CheckAndConsume_manager fst_conv snd_conv prod.collapse)
  have spend: "BucketState_Consume now c b =
      (c \<le> bs_CurrentLevel (BucketState_Refill now b),
       (BucketState_Refill now b)\<lparr>bs_CurrentLevel := bs_CurrentLevel (BucketState_Refill now b) -
          (if c \<le> bs_CurrentLevel (BucketState_Refill now b) then c else 0)\<rparr>)"
    if "BucketState_valid b" "0 \<le> c" for c b
    using spend_level [OF BucketState_Refill_valid [OF that(1)] that(2)]
    by (auto simp: BucketState_Consume_cases Let_def)
  show ?thesis
    using eq spend [OF ok1(2) assms(2)] spend [OF ok2(2) assms(3)]
    by (simp add: Manager_CheckAndConsume_eq [OF g1 g2] rb sb put_bucket_lookup Let_def
        GetOrCreate_lookup [OF g1] GetOrCreate_lookup [OF g2])
qed

theorem check_and_consume_outcome_witness:
  "\<exists>m'. CheckAndConsume 0 ''u'' ''slack'' 4 500 NewRateLimitManager = ((True, False), m') \<and>
    map_of (bm_buckets (rl_manager m')) (bucketKey ''u'' ''slack'' ''risk'') =
      Some ((NewBucketState 0 ''u'' ''slack'' ''risk'' 100 20)\<lparr>bs_CurrentLevel := 96\<rparr>)"
proof -
  obtain ra sa m' where run: "CheckAndConsume 0 ''u'' ''slack'' 4 500 NewRateLimitManager = ((ra, sa), m')"
    by (metis prod.collapse)
  have ok: "manager_ok (rl_manager NewRateLimitManager)" by (rule new_manager_ok)
  have "bucket_at 0 ''u'' ''slack'' ty (rl_manager NewRateLimitManager) =
      NewBucketState 0 ''u'' ''slack'' ty 100 20" for ty
    by (simp add: bucket_at_def GetOrCreate_def NewRateLimitManager_def NewBucketManager_def
        defaultBucketConfig_def NewBucketState_def BucketState_Refill_def refillAmount_def Since_def
        whole_seconds_def gomul_def wrap64_def Let_def)
  with check_and_consume_outcome [OF ok _ _ run] run show ?thesis
    by (auto simp: NewBucketState_def)
qed

text \<open>Splitting at the first colon, the inverse of the key concatenations.\<close>

lemma splitConfigKey_append:
  "CHR '':'' \<notin> set a \<Longrightarrow> splitConfigKey (a @ CHR '':'' # b) = Some (a, b)"
  by (induction a) auto

lemma colon_split:
  "CHR '':'' \<notin> set a \<Longrightarrow> CHR '':'' \<notin> set a' \<Longrightarrow>
   a @ CHR '':'' # b = a' @ CHR '':'' # b' \<longleftrightarrow> a = a' \<and> b = b'"
  by (metis splitConfigKey_append option.inject prod.inject)

text \<open>user and backend identifiers without a colon give every user, backend and bucket type
  a key of its own, so no two users ever share a bucket.\<close>

theorem bucketKey_injective:
  assumes "CHR '':'' \<notin> set u" "CHR '':'' \<notin> set u'" "CHR '':'' \<notin> set be" "CHR '':'' \<notin> set be'"
  shows "bucketKey u be ty = bucketKey u' be' ty' \<longleftrightarrow> u = u' \<and> be = be' \<and> ty = ty'"
  using assms colon_split [of u u'] colon_split [of be be'] by (auto simp: bucketKey_def)

theorem bucketKey_injective_witness:
  "bucketKey ''u'' ''slack'' ''risk'' \<noteq> bucketKey ''v'' ''slack'' ''risk''"
  using bucketKey_injective [of "''u''" "''v''" "''slack''" "''slack''" "''risk''" "''risk''"] by simp

lemma hasPrefix_HasPrefix: "hasPrefix s p = HasPrefix s p"
  by (auto simp: hasPrefix_def HasPrefix_take) (metis length_take min_def nat_le_linear)

text \<open>resetting a user's buckets, for one backend or for all, fills that user's buckets and
  leaves those of every other user as they were.\<close>

theorem reset_isolated:
  assumes "CHR '':'' \<notin> set u" "CHR '':'' \<notin> set v" "v \<noteq> u"
  shows "map_of (bm_buckets (rl_manager (ResetUserBuckets now u be m))) (bucketKey v be' ty) =
      map_of (bm_buckets (rl_manager m)) (bucketKey v be' ty) \<and>
    map_of (bm_buckets (rl_manager (ResetUserBuckets now u be m))) (bucketKey u be ty) =
      map_option (\<lambda>b. b\<lparr>bs_CurrentLevel := bs_Capacity b, bs_LastRefillAt := now\<rparr>)
        (map_of (bm_buckets (rl_manager m)) (bucketKey u be ty))"
proof -
  have own: "hasPrefix (bucketKey u be ty) (if be \<noteq> [] then u @ '':'' @ be @ '':'' else u @ '':'')"
    by (auto simp: hasPrefix_HasPrefix HasPrefix_iff bucketKey_def)
  have other: "\<not> hasPrefix (bucketKey v be' ty) (if be \<noteq> [] then u @ '':'' @ be @ '':'' else u @ '':'')"
  proof
    assume "hasPrefix (bucketKey v be' ty) (if be \<noteq> [] then u @ '':'' @ be @ '':'' else u @ '':'')"
    then obtain t where "v @ CHR '':'' # be' @ CHR '':'' # ty = u @ CHR '':'' # t"
      by (auto simp: hasPrefix_HasPrefix HasPrefix_iff bucketKey_def split: if_splits)
    with colon_split [OF assms(2,1)] assms(3) show False by simp
  qed
  show ?thesis using own other
    by (simp add: ResetUserBuckets_def rl_lift_def Manager_ResetUserBuckets_def Let_def
        option.map_ident)
qed

theorem reset_isolated_witness:
  "map_of (bm_buckets (rl_manager (ResetUserBuckets 5 ''u'' ''slack'' used_once))) ''u:slack:risk'' =
     Some ((NewBucketState 0 ''u'' ''slack'' ''risk'' 100 20)\<lparr>bs_LastRefillAt := 5\<rparr>)"
  using reset_isolated [of "''u''" "''v''" 5 "''slack''" used_once _ "''risk''"] used_once_eval
  by (simp add: bucketKey_def NewBucketState_def)

text \<open>Loading the states of a list of buckets into a manager that has none of them.\<close>

definition reconfigured :: "BucketManager \<Rightarrow> BucketState \<Rightarrow> BucketState" where
  "reconfigured m b =
     (let cfg = (case GetConfig m (bs_BackendID b) (bs_BucketType b) of
                   Some c \<Rightarrow> c | None \<Rightarrow> defaultBucketConfig)
      in b\<lparr>bs_Capacity := bc_Capacity cfg, bs_RefillRate := bc_RefillRate cfg\<rparr>)"

lemma load_state_new:
  assumes "map_of (bm_buckets m) (bucketKey (bs_UserID b) (bs_BackendID b) (bs_BucketType b)) = None"
  shows "map_of (bm_buckets (load_state now (state_for_db b) m)) k =
      (if k = bucketKey (bs_UserID b) (bs_BackendID b) (bs_BucketType b) then Some (reconfigured m b)
       else map_of (bm_buckets m) k)"
    "bm_config (load_state now (state_for_db b) m) = bm_config m"
  using assms
  by (simp_all add: load_state_def state_for_db_def GetOrCreate_def Let_def put_bucket_def gomap_simps
      NewBucketState_def reconfigured_def GetConfig_def)

lemma load_states_fold:
  assumes "gomap_wf al" and "\<And>k. k \<in> set (map fst al) \<Longrightarrow> map_of (bm_buckets m) k = None"
    and "list_all (\<lambda>(k, b). k = bucketKey (bs_UserID b) (bs_BackendID b) (bs_BucketType b)) al"
  shows "map_of (bm_buckets (fold (load_state now) (map state_for_db (map snd al)) m)) k =
    (case map_of al k of Some b \<Rightarrow> Some (reconfigured m b) | None \<Rightarrow> map_of (bm_buckets m) k)"
  using assms
proof (induction al arbitrary: m)
  case Nil
  then show ?case by simp
next
  case (Cons e al)
  obtain j b where e: "e = (j, b)" by (cases e)
  with Cons.prems(3) have j: "j = bucketKey (bs_UserID b) (bs_BackendID b) (bs_BucketType b)" by simp
  define m1 where "m1 = load_state now (state_for_db b) m"
  have "map_of (bm_buckets m) j = None" using Cons.prems(2) e by simp
  note new = load_state_new [OF this [unfolded j], of now, folded m1_def j]
  have same: "reconfigured m1 = reconfigured m"
    using new(2) by (simp add: reconfigured_def GetConfig_def fun_eq_iff)
  have "map_of (bm_buckets m1) k = None" if "k \<in> set (map fst al)" for k
    using that Cons.prems(1,2) e new(1) by (auto simp: gomap_wf_def)
  with Cons.IH [of m1] Cons.prems e
  have "map_of (bm_buckets (fold (load_state now) (map state_for_db (map snd al)) m1)) k =
      (case map_of al k of Some b \<Rightarrow> Some (reconfigured m b) | None \<Rightarrow> map_of (bm_buckets m1) k)"
    unfolding same [symmetric] by (simp add: gomap_wf_def)
  moreover have "map_of al j = None"
    using Cons.prems(1) e by (simp add: gomap_wf_def map_of_eq_None_iff)
  ultimately show ?case
    using e new(1) by (auto simp: m1_def [symmetric] split: option.splits)
qed

text \<open>saving the states of a manager and loading them into a fresh manager (a restart)
  restores every bucket's level and refill time under the same key; capacity and refill rate come from
  the configuration in force at the restart.\<close>

theorem save_load_roundtrip:
  assumes "manager_ok (rl_manager m)" and "bm_buckets (rl_manager m0) = []"
  shows "map_of (bm_buckets (rl_manager (LoadStates now (GetAllStates m) m0))) k =
    map_option (reconfigured (rl_manager m0)) (map_of (bm_buckets (rl_manager m)) k)"
proof -
  have "list_all (\<lambda>(k, b). k = bucketKey (bs_UserID b) (bs_BackendID b) (bs_BucketType b))
      (bm_buckets (rl_manager m))"
    using assms(1) by (auto simp: manager_ok_def list_all_iff)
  with load_states_fold [of "bm_buckets (rl_manager m)" "rl_manager m0" now k] assms
  show ?thesis
    by (simp add: LoadStates_def rl_lift_def GetAllStates_def GetAllBuckets_def manager_ok_def
        split: option.splits)
qed

theorem save_load_roundtrip_witness:
  "map_of (bm_buckets (rl_manager (LoadStates 7 (GetAllStates used_once) NewRateLimitManager)))
     ''u:slack:risk'' = Some ((NewBucketState 0 ''u'' ''slack'' ''risk'' 100 20)\<lparr>bs_CurrentLevel := 96\<rparr>)"
  using save_load_roundtrip [OF used_once_ok, of NewRateLimitManager 7
      "''u:slack:risk''"] used_once_eval
  by (simp add: NewRateLimitManager_def NewBucketManager_def reconfigured_def GetConfig_def
      NewBucketState_def defaultBucketConfig_def Let_def)

lemma gomap_map_comp: "gomap_map f (gomap_map g m) = gomap_map (\<lambda>k. f k \<circ> g k) m"
  by (simp add: gomap_map_def split_beta)

text \<open>Refilling every bucket twice at the same instant is the same as refilling once, so the
  background ticker and a request that refills on its own do not earn tokens twice.\<close>

theorem RefillAll_idempotent: "RefillAll now (RefillAll now m) = RefillAll now m"
  by (simp add: RefillAll_def rl_lift_def Manager_RefillAll_def gomap_map_comp
      BucketState_Refill_idem o_def)

text \<open>a per-user override of the bucket configuration changes neither the answers of
  \<open>CheckAndConsume\<close> nor any bucket: the override is stored and shown, but never consulted when a call
  is charged.\<close>

theorem user_override_not_consulted:
  "fst (CheckAndConsume now u be rc sc (SetUserConfig cfg m)) = fst (CheckAndConsume now u be rc sc m) \<and>
   bm_buckets (rl_manager (snd (CheckAndConsume now u be rc sc (SetUserConfig cfg m)))) =
     bm_buckets (rl_manager (snd (CheckAndConsume now u be rc sc m)))"
  by (simp add: CheckAndConsume_def SetUserConfig_def rl_lift_def Manager_SetUserConfig_def
      Manager_CheckAndConsume_def GetOrCreate_def put_bucket_def Let_def split_beta
      split: option.splits)

text \<open>with the one-second ticker the bridge starts, an empty bucket configured for 40 tokens a
  minute has earned 30 after a minute: each refill drops the fraction of a token and restarts the
  clock.\<close>

theorem refill_ticker_undershoots:
  "bs_CurrentLevel (fold (\<lambda>s. BucketState_Refill (s * 1000000000)) [1..60]
     ((NewBucketState 0 ''u'' ''slack'' ''resource'' 200 40)\<lparr>bs_CurrentLevel := 0\<rparr>)) = 30"
  by code_simp

text \<open>\<open>NextFullIn\<close> panics exactly on a bucket that is not full and has refill rate zero.\<close>

theorem next_full_panics:
  "NextFullIn b = None \<longleftrightarrow> b_current b < b_capacity b \<and> b_refillRate b = 0"
  by (simp add: NextFullIn_def goquot_def Let_def)

end
