(* ===== verification/EnforcerTypes.thy ===== *)
theory EnforcerTypes
  imports Prelude
begin

text \<open>
  The data of the enforcer (src/enforcer/types.go): actions, severities, safety profiles, decisions,
  decision contexts, policies, the configuration, and the registries that classify actions. The
  string-typed enumerations of the source are strings here too, since their values come from the
  database unchecked; the constants keep their names.
\<close>

type_synonym Action = string
type_synonym MatchContext = string
type_synonym SeverityLevel = string
type_synonym ImpactScope = string
type_synonym RiskLevel = string

definition MatchContextPolicyHit :: MatchContext where [simp]: "MatchContextPolicyHit = ''policy_hit''"
definition MatchContextRiskLimit :: MatchContext where [simp]: "MatchContextRiskLimit = ''risk_limit''"
definition MatchContextResourceLimit :: MatchContext where
  [simp]: "MatchContextResourceLimit = ''resource_limit''"

definition ActionAllow :: Action where [simp]: "ActionAllow = ''ALLOW''"
definition ActionDeny :: Action where [simp]: "ActionDeny = ''DENY''"
definition ActionWarn :: Action where [simp]: "ActionWarn = ''WARN''"
definition ActionPendingApproval :: Action where [simp]: "ActionPendingApproval = ''PENDING_APPROVAL''"
definition ActionPendingUserApproval :: Action where
  [simp]: "ActionPendingUserApproval = ''PENDING_USER_APPROVAL''"
definition ActionPendingAdminApproval :: Action where
  [simp]: "ActionPendingAdminApproval = ''PENDING_ADMIN_APPROVAL''"

definition SeverityCritical :: SeverityLevel where [simp]: "SeverityCritical = ''CRITICAL''"
definition SeverityHigh :: SeverityLevel where [simp]: "SeverityHigh = ''HIGH''"
definition SeverityMedium :: SeverityLevel where [simp]: "SeverityMedium = ''MEDIUM''"
definition SeverityLow :: SeverityLevel where [simp]: "SeverityLow = ''LOW''"

definition ImpactRead :: ImpactScope where [simp]: "ImpactRead = ''read''"
definition ImpactWrite :: ImpactScope where [simp]: "ImpactWrite = ''write''"
definition ImpactDelete :: ImpactScope where [simp]: "ImpactDelete = ''delete''"
definition ImpactAdmin :: ImpactScope where [simp]: "ImpactAdmin = ''admin''"

definition RiskLow :: RiskLevel where [simp]: "RiskLow = ''low''"
definition RiskMedium :: RiskLevel where [simp]: "RiskMedium = ''medium''"
definition RiskHigh :: RiskLevel where [simp]: "RiskHigh = ''high''"
definition RiskCritical :: RiskLevel where [simp]: "RiskCritical = ''critical''"

record SafetyProfile =
  sp_ToolName :: string
  sp_BackendID :: string
  sp_BackendName :: string
  sp_Risk :: RiskLevel
  sp_Impact :: ImpactScope
  sp_Cost :: int
  sp_RequiresHITL :: bool
  sp_PIIExposure :: bool
  sp_Idempotent :: bool
  sp_Source :: string
  sp_Metadata :: "(string, json) gomap"

text \<open>The zero value of the struct.\<close>

definition zeroSafetyProfile :: SafetyProfile where
  "zeroSafetyProfile = \<lparr>sp_ToolName = [], sp_BackendID = [], sp_BackendName = [], sp_Risk = [],
     sp_Impact = [], sp_Cost = 0, sp_RequiresHITL = False, sp_PIIExposure = False,
     sp_Idempotent = False, sp_Source = [], sp_Metadata = []\<rparr>"

record EnforcerDecision =
  ed_Action :: Action
  ed_Severity :: SeverityLevel
  ed_Message :: string
  ed_PolicyID :: string
  ed_Violations :: "string list"
  ed_Timestamp :: gotime
  ed_Priority :: int
  ed_ApprovalID :: string
  ed_MatchContext :: MatchContext

definition zeroDecision :: EnforcerDecision where
  "zeroDecision = \<lparr>ed_Action = [], ed_Severity = [], ed_Message = [], ed_PolicyID = [],
     ed_Violations = [], ed_Timestamp = 0, ed_Priority = 0, ed_ApprovalID = [], ed_MatchContext = []\<rparr>"

record BucketStatus =
  bst_Available :: int
  bst_Capacity :: int
  bst_RefillRate :: int

record RateLimitInfo =
  rli_RiskBucket :: BucketStatus
  rli_ResourceBucket :: BucketStatus

definition NewRateLimitInfo :: "int \<Rightarrow> int \<Rightarrow> int \<Rightarrow> int \<Rightarrow> int \<Rightarrow> int \<Rightarrow> RateLimitInfo" where
  "NewRateLimitInfo riskAvailable riskCapacity riskRefill resourceAvailable resourceCapacity resourceRefill =
     \<lparr>rli_RiskBucket = \<lparr>bst_Available = riskAvailable, bst_Capacity = riskCapacity,
                        bst_RefillRate = riskRefill\<rparr>,
      rli_ResourceBucket = \<lparr>bst_Available = resourceAvailable, bst_Capacity = resourceCapacity,
                            bst_RefillRate = resourceRefill\<rparr>\<rparr>"

record DecisionContext =
  dc_UserID :: string
  dc_UserRole :: string
  dc_UserEmail :: string
  dc_TrustLevel :: int
  dc_Tool :: string
  dc_Args :: "(string, json) gomap"
  dc_Justification :: string
  dc_Safety :: SafetyProfile
  dc_SystemLoad :: rat
  dc_CallRate :: int
  dc_Timestamp :: gotime
  dc_BackendID :: string
  dc_BackendType :: string
  dc_RateLimit :: RateLimitInfo
  dc_RequestBody :: string

definition zeroContext :: DecisionContext where
  "zeroContext = \<lparr>dc_UserID = [], dc_UserRole = [], dc_UserEmail = [], dc_TrustLevel = 0, dc_Tool = [],
     dc_Args = [], dc_Justification = [], dc_Safety = zeroSafetyProfile, dc_SystemLoad = 0,
     dc_CallRate = 0, dc_Timestamp = 0, dc_BackendID = [], dc_BackendType = [],
     dc_RateLimit = NewRateLimitInfo 0 0 0 0 0 0, dc_RequestBody = []\<rparr>"

text \<open>\<open>Dispositions\<close> is a map that may be nil: \<open>None\<close> is nil.\<close>

record CELPolicy =
  cp_ID :: string
  cp_Description :: string
  cp_Expression :: string
  cp_Action :: Action
  cp_Message :: string
  cp_Severity :: SeverityLevel
  cp_Enabled :: bool
  cp_Priority :: int
  cp_Dispositions :: "(MatchContext, Action) gomap option"

record ApprovalRequest =
  ar_ID :: string
  ar_DecisionContext :: DecisionContext
  ar_RequestedAt :: gotime
  ar_ExpiresAt :: gotime
  ar_Status :: string
  ar_ApprovedBy :: string
  ar_ApprovedAt :: "gotime option"
  ar_DenialReason :: string
  ar_Comments :: string

definition IsExpired :: "gotime \<Rightarrow> ApprovalRequest \<Rightarrow> bool" where
  "IsExpired now r \<longleftrightarrow> now > ar_ExpiresAt r"

section \<open>Descriptions\<close>

definition Decorate :: "string \<Rightarrow> SafetyProfile \<Rightarrow> string" where
  "Decorate description profile =
     (let prefix = ''[POLICY: '' @ ToUpper (sp_Impact profile) @ '' | RISK: '' @
                   ToUpper (sp_Risk profile) @ '']'';
          prefix = (if sp_RequiresHITL profile then prefix @ '' [REQUIRES HUMAN APPROVAL]'' else prefix)
      in prefix @ '' '' @ description)"

definition DecorateWithDecision :: "string \<Rightarrow> EnforcerDecision \<Rightarrow> string" where
  "DecorateWithDecision description decision =
     (if ed_Action decision = ActionWarn
      then ''[WARNING: '' @ ed_Severity decision @ ''] '' @ description @ '' - '' @ ed_Message decision
      else description)"

section \<open>Configuration\<close>

definition seconds :: "int \<Rightarrow> duration" where
  "seconds n = n * 1000000000"

record EnforcerConfig =
  ec_Enabled :: bool
  ec_DefaultAction :: Action
  ec_PolicyFile :: string
  ec_ApprovalTimeout :: duration
  ec_AdminApprovalTimeout :: duration
  ec_UserApprovalTimeout :: duration
  ec_CleanupInterval :: duration
  ec_RetentionPeriod :: duration
  ec_EnableDescriptionDecoration :: bool
  ec_EnableKillSwitch :: bool
  ec_MinJustificationLength :: int
  ec_RateWindowDuration :: duration
  ec_RateDefaultThreshold :: int
  ec_InferredCostMultiplier :: int

definition DefaultEnforcerConfig :: EnforcerConfig where
  "DefaultEnforcerConfig = \<lparr>ec_Enabled = True, ec_DefaultAction = ActionAllow, ec_PolicyFile = [],
     ec_ApprovalTimeout = seconds (24 * 3600), ec_AdminApprovalTimeout = 0,
     ec_UserApprovalTimeout = seconds 600, ec_CleanupInterval = seconds 60,
     ec_RetentionPeriod = seconds (7 * 24 * 3600), ec_EnableDescriptionDecoration = True,
     ec_EnableKillSwitch = True, ec_MinJustificationLength = 40, ec_RateWindowDuration = seconds 60,
     ec_RateDefaultThreshold = 10, ec_InferredCostMultiplier = 0\<rparr>"

record CallOptions =
  co_SkipJustification :: bool

section \<open>Classes of actions\<close>

record action_registry =
  adminApprovalActions :: "(Action, bool) gomap"
  userApprovalActions :: "(Action, bool) gomap"
  approvalActions :: "(Action, bool) gomap"
  warningActions :: "(Action, bool) gomap"
  denyActions :: "(Action, bool) gomap"

definition RegisterAdminApprovalAction :: "Action \<Rightarrow> action_registry \<Rightarrow> action_registry" where
  "RegisterAdminApprovalAction a r =
     r\<lparr>adminApprovalActions := AList.update a True (adminApprovalActions r),
       approvalActions := AList.update a True (approvalActions r)\<rparr>"

definition RegisterUserApprovalAction :: "Action \<Rightarrow> action_registry \<Rightarrow> action_registry" where
  "RegisterUserApprovalAction a r =
     r\<lparr>userApprovalActions := AList.update a True (userApprovalActions r),
       approvalActions := AList.update a True (approvalActions r)\<rparr>"

definition RegisterDenyAction :: "Action \<Rightarrow> action_registry \<Rightarrow> action_registry" where
  "RegisterDenyAction a r = r\<lparr>denyActions := AList.update a True (denyActions r)\<rparr>"

definition RegisterWarningAction :: "Action \<Rightarrow> action_registry \<Rightarrow> action_registry" where
  "RegisterWarningAction a r = r\<lparr>warningActions := AList.update a True (warningActions r)\<rparr>"

text \<open>The registries after the package's \<open>init\<close>; nothing in the program registers more.\<close>

definition registry_init :: action_registry where
  "registry_init =
     RegisterWarningAction ActionWarn (RegisterDenyAction ActionDeny
       (RegisterUserApprovalAction ActionPendingUserApproval
         (RegisterAdminApprovalAction ActionPendingAdminApproval
           (RegisterAdminApprovalAction ActionPendingApproval
             \<lparr>adminApprovalActions = [], userApprovalActions = [], approvalActions = [],
              warningActions = [], denyActions = []\<rparr>))))"

definition registered :: "(Action, bool) gomap \<Rightarrow> Action \<Rightarrow> bool" where
  "registered m a = (case map_of m a of Some b \<Rightarrow> b | None \<Rightarrow> False)"

definition IsDenyAction :: "Action \<Rightarrow> bool" where
  "IsDenyAction a = registered (denyActions registry_init) a"

definition RequiresApproval :: "Action \<Rightarrow> bool" where
  "RequiresApproval a = registered (approvalActions registry_init) a"

definition RequiresUserApproval :: "Action \<Rightarrow> bool" where
  "RequiresUserApproval a = registered (userApprovalActions registry_init) a"

definition RequiresAdminApproval :: "Action \<Rightarrow> bool" where
  "RequiresAdminApproval a = registered (adminApprovalActions registry_init) a"

definition RequiresWarning :: "Action \<Rightarrow> bool" where
  "RequiresWarning a = registered (warningActions registry_init) a"

lemmas registry_defs = registry_init_def registered_def RegisterAdminApprovalAction_def
  RegisterUserApprovalAction_def RegisterDenyAction_def RegisterWarningAction_def

lemma IsDenyAction_iff [simp]: "IsDenyAction a \<longleftrightarrow> a = ActionDeny"
  by (auto simp: IsDenyAction_def registry_defs)

lemma RequiresUserApproval_iff [simp]: "RequiresUserApproval a \<longleftrightarrow> a = ActionPendingUserApproval"
  by (auto simp: RequiresUserApproval_def registry_defs)

lemma RequiresAdminApproval_iff [simp]:
  "RequiresAdminApproval a \<longleftrightarrow> a = ActionPendingApproval \<or> a = ActionPendingAdminApproval"
  by (auto simp: RequiresAdminApproval_def registry_defs)

lemma RequiresApproval_iff [simp]:
  "RequiresApproval a \<longleftrightarrow>
     a = ActionPendingApproval \<or> a = ActionPendingAdminApproval \<or> a = ActionPendingUserApproval"
  by (auto simp: RequiresApproval_def registry_defs)

lemma RequiresWarning_iff [simp]: "RequiresWarning a \<longleftrightarrow> a = ActionWarn"
  by (auto simp: RequiresWarning_def registry_defs)

text \<open>The classes the registries build are disjoint, and the actions that need approval are
  exactly those of the user queue and those of the admin queue.\<close>

theorem action_classes:
  "(RequiresApproval a \<longleftrightarrow> RequiresUserApproval a \<or> RequiresAdminApproval a) \<and>
   \<not> (RequiresUserApproval a \<and> RequiresAdminApproval a) \<and>
   \<not> (IsDenyAction a \<and> RequiresApproval a) \<and> \<not> (RequiresWarning a \<and> (IsDenyAction a \<or> RequiresApproval a)) \<and>
   \<not> IsDenyAction ActionAllow \<and> \<not> RequiresApproval ActionAllow"
  by auto

end
