(* ===== verification/Heuristics.thy ===== *)
theory Heuristics
  imports EnforcerTypes
begin

text \<open>
  Inferring a safety profile from a tool's name, description and input schema
  (src/enforcer/heuristics.go). The scan of \<open>containsWordOrPrefix\<close> is the loop of the source over the
  occurrences of the pattern; \<open>containsWordOrPrefix_iff\<close> is what it decides. Patterns are nonempty, as
  all of the source's tables are; on an empty one the source can slice past the end of the string.
\<close>

definition PromoteRisk :: "RiskLevel \<Rightarrow> RiskLevel" where
  "PromoteRisk current =
     (if current = RiskLow then RiskMedium
      else if current = RiskMedium then RiskHigh
      else if current = RiskHigh then RiskCritical
      else RiskCritical)"

record heuristicRule =
  hr_patterns :: "string list"
  hr_risk :: RiskLevel
  hr_impact :: ImpactScope
  hr_idempotent :: bool
  hr_requiresHITL :: bool
  hr_cost :: int

definition classificationRules :: "heuristicRule list" where
  "classificationRules = [
    \<lparr>hr_patterns = [''delete_all'', ''purge'', ''drop_database'', ''drop_table'', ''wipe'',
       ''terminate_cluster'', ''decommission'', ''factory_reset'', ''hard_delete''],
     hr_risk = RiskCritical, hr_impact = ImpactDelete, hr_idempotent = False, hr_requiresHITL = True,
     hr_cost = 20\<rparr>,
    \<lparr>hr_patterns = [''delete'', ''remove'', ''destroy'', ''revoke'', ''deactivate'', ''disable'', ''ban'',
       ''block'', ''archive'', ''unsubscribe'', ''cancel'', ''terminate'', ''kill'', ''stop_service'',
       ''deprovision'', ''offboard''],
     hr_risk = RiskHigh, hr_impact = ImpactDelete, hr_idempotent = False, hr_requiresHITL = False,
     hr_cost = 10\<rparr>,
    \<lparr>hr_patterns = [''grant'', ''assign_role'', ''elevate'', ''promote'', ''impersonate'', ''sudo'',
       ''reset_password'', ''rotate_key'', ''generate_token'', ''create_api_key'', ''set_permission''],
     hr_risk = RiskHigh, hr_impact = ImpactAdmin, hr_idempotent = False, hr_requiresHITL = False,
     hr_cost = 10\<rparr>,
    \<lparr>hr_patterns = [''charge'', ''invoice'', ''refund'', ''transfer'', ''withdraw'', ''purchase'', ''pay'',
       ''billing'', ''subscribe'', ''checkout''],
     hr_risk = RiskHigh, hr_impact = ImpactAdmin, hr_idempotent = False, hr_requiresHITL = True,
     hr_cost = 10\<rparr>,
    \<lparr>hr_patterns = [''create'', ''add'', ''insert'', ''write'', ''post'', ''publish'', ''send'', ''submit'',
       ''upload'', ''import'', ''deploy'', ''provision'', ''onboard'', ''register'', ''invite'', ''put''],
     hr_risk = RiskMedium, hr_impact = ImpactWrite, hr_idempotent = False, hr_requiresHITL = False,
     hr_cost = 5\<rparr>,
    \<lparr>hr_patterns = [''update'', ''edit'', ''modify'', ''patch'', ''set'', ''change'', ''rename'', ''move'',
       ''migrate'', ''replace'', ''upsert'', ''merge''],
     hr_risk = RiskMedium, hr_impact = ImpactWrite, hr_idempotent = False, hr_requiresHITL = False,
     hr_cost = 5\<rparr>,
    \<lparr>hr_patterns = [''run'', ''execute'', ''trigger'', ''start'', ''launch'', ''fire'', ''invoke'', ''call'',
       ''process'', ''enqueue'', ''schedule''],
     hr_risk = RiskMedium, hr_impact = ImpactWrite, hr_idempotent = False, hr_requiresHITL = False,
     hr_cost = 7\<rparr>,
    \<lparr>hr_patterns = [''get'', ''fetch'', ''read'', ''list'', ''search'', ''find'', ''query'', ''lookup'',
       ''retrieve'', ''describe'', ''explain'', ''show'', ''view'', ''inspect'', ''check'', ''status'',
       ''health'', ''ping'', ''count'', ''summarize'', ''report'', ''export'', ''download''],
     hr_risk = RiskLow, hr_impact = ImpactRead, hr_idempotent = True, hr_requiresHITL = False,
     hr_cost = 1\<rparr>]"

definition piiSchemaPatterns :: "string list" where
  "piiSchemaPatterns = [''email'', ''phone'', ''mobile'', ''address'', ''postcode'', ''zip'', ''ssn'',
     ''national_id'', ''passport'', ''dob'', ''birth'',
     ''credit_card'', ''card_number'', ''iban'', ''bank_account'', ''salary'', ''income'', ''tax'',
     ''password'', ''secret'', ''token'', ''api_key'', ''access_key'', ''private_key'']"

definition piiDescriptionSignals :: "string list" where
  "piiDescriptionSignals = [''personal data'', ''pii'', ''gdpr'', ''email address'', ''phone number'',
     ''credit card'', ''social security'', ''passport'', ''date of birth'']"

definition irreversibilitySignals :: "string list" where
  "irreversibilitySignals = [''permanent'', ''irreversible'', ''cannot be undone'',
     ''cannot be recovered'', ''destroy'', ''wipe'', ''purge'', ''terminates all'', ''drops all'',
     ''truncates'', ''hard delete'', ''force delete'']"

definition bulkSignals :: "string list" where
  "bulkSignals = [''bulk'', ''batch'', ''all records'', ''entire'', ''mass '', ''fleet'',
     ''all users'', ''all items'', ''all tickets'', ''all issues'']"

text \<open>The loop from the occurrence at \<open>idx\<close>. The guard \<open>idx < length s\<close> holds whenever the pattern
  is nonempty and occurs at \<open>idx\<close>.\<close>

function word_loop :: "string \<Rightarrow> string \<Rightarrow> nat \<Rightarrow> bool" where
  "word_loop s pat idx =
     (let e = idx + length pat;
          leftOK = (idx = 0 \<or> s ! (idx - 1) = CHR ''_'');
          rightOK = (e = length s \<or> s ! e = CHR ''_'')
      in if leftOK \<and> rightOK then True
         else if idx < length s then
           (case Index (drop (idx + 1) s) pat of
              None \<Rightarrow> False
            | Some nxt \<Rightarrow> word_loop s pat (idx + 1 + nxt))
         else False)"
  by pat_completeness auto
termination
  by (relation "measure (\<lambda>(s, pat, idx). Suc (length s) - idx)") auto

declare word_loop.simps [simp del]

definition containsWordOrPrefix :: "string \<Rightarrow> string \<Rightarrow> bool" where
  "containsWordOrPrefix s pat =
     (case Index s pat of None \<Rightarrow> False | Some idx \<Rightarrow> word_loop s pat idx)"

definition schema_pii :: "(string, json) gomap option \<Rightarrow> bool" where
  "schema_pii inputSchema =
     (case inputSchema of
        None \<Rightarrow> False
      | Some props \<Rightarrow> list_ex (\<lambda>(key, _). list_ex (Contains (ToLower key)) piiSchemaPatterns) props)"

definition piiDetected :: "string \<Rightarrow> (string, json) gomap option \<Rightarrow> bool" where
  "piiDetected description inputSchema =
     (schema_pii inputSchema \<or>
      description \<noteq> [] \<and> list_ex (Contains (ToLower description)) piiDescriptionSignals)"

definition isIrreversible :: "string \<Rightarrow> bool" where
  "isIrreversible description \<longleftrightarrow>
     description \<noteq> [] \<and> list_ex (Contains (ToLower description)) irreversibilitySignals"

definition isBulk :: "string \<Rightarrow> string \<Rightarrow> bool" where
  "isBulk toolName description \<longleftrightarrow>
     list_ex (\<lambda>sig. containsWordOrPrefix (ToLower toolName) sig \<or>
                     description \<noteq> [] \<and> Contains (ToLower description) sig) bulkSignals"

definition matchedRule :: "string \<Rightarrow> heuristicRule option" where
  "matchedRule toolName =
     find (\<lambda>rule. list_ex (containsWordOrPrefix (ToLower toolName)) (hr_patterns rule)) classificationRules"

definition classified :: "heuristicRule option \<Rightarrow> SafetyProfile" where
  "classified matched =
     (case matched of
        Some r \<Rightarrow> zeroSafetyProfile\<lparr>sp_Source := ''inferred'', sp_Risk := hr_risk r, sp_Impact := hr_impact r,
          sp_Idempotent := hr_idempotent r, sp_RequiresHITL := hr_requiresHITL r, sp_Cost := hr_cost r\<rparr>
      | None \<Rightarrow> zeroSafetyProfile\<lparr>sp_Source := ''inferred'', sp_Risk := RiskHigh, sp_Impact := ImpactDelete,
          sp_Idempotent := False, sp_RequiresHITL := True, sp_Cost := 10\<rparr>)"

definition promoted :: "bool \<Rightarrow> bool \<Rightarrow> bool \<Rightarrow> SafetyProfile \<Rightarrow> SafetyProfile" where
  "promoted irreversible bulk pii p =
     (let p1 = (if irreversible
                then p\<lparr>sp_Risk := PromoteRisk (sp_Risk p), sp_RequiresHITL := True, sp_Idempotent := False\<rparr>
                else p);
          p2 = (if bulk
                then p1\<lparr>sp_Risk := PromoteRisk (sp_Risk p1), sp_RequiresHITL := True,
                        sp_Cost := gomul (sp_Cost p1) 3\<rparr>
                else p1);
          p3 = (if pii \<and> sp_Risk p2 = RiskLow then p2\<lparr>sp_Risk := RiskMedium\<rparr> else p2)
      in p3\<lparr>sp_PIIExposure := pii\<rparr>)"

definition HeuristicProfile :: "string \<Rightarrow> string \<Rightarrow> (string, json) gomap option \<Rightarrow> SafetyProfile" where
  "HeuristicProfile toolName description inputSchema =
     promoted (isIrreversible description) (isBulk toolName description)
       (piiDetected description inputSchema) (classified (matchedRule toolName))"

section \<open>What the token scan decides\<close>

definition token_at :: "string \<Rightarrow> string \<Rightarrow> nat \<Rightarrow> bool" where
  "token_at s pat i \<longleftrightarrow> HasPrefix (drop i s) pat \<and> (i = 0 \<or> s ! (i - 1) = CHR ''_'') \<and>
     (i + length pat = length s \<or> s ! (i + length pat) = CHR ''_'')"

lemma word_loop_iff:
  "pat \<noteq> [] \<Longrightarrow> HasPrefix (drop idx s) pat \<Longrightarrow> word_loop s pat idx \<longleftrightarrow> (\<exists>i\<ge>idx. token_at s pat i)"
proof (induction s pat idx rule: word_loop.induct)
  case (1 s pat idx)
  have lt: "idx < length s"
    using "1.prems" by (metis HasPrefix_iff append_is_Nil_conv drop_all not_le)
  show ?case
  proof (cases "token_at s pat idx")
    case True
    then show ?thesis by (auto simp: word_loop.simps [of s pat idx] token_at_def Let_def)
  next
    case False
    then have no: "\<not> ((idx = 0 \<or> s ! (idx - 1) = CHR ''_'') \<and>
        (idx + length pat = length s \<or> s ! (idx + length pat) = CHR ''_''))"
      using "1.prems"(2) by (simp add: token_at_def)
    show ?thesis
    proof (cases "Index (drop (idx + 1) s) pat")
      case None
      have "\<not> token_at s pat i" if "i > idx" for i
        using Index_NoneD [OF None, of "i - (idx + 1)"] that by (simp add: token_at_def)
      with False have "\<not> (\<exists>i\<ge>idx. token_at s pat i)" by (metis le_neq_implies_less)
      with None no lt show ?thesis by (auto simp: word_loop.simps [of s pat idx] Let_def)
    next
      case (Some nxt)
      have here: "HasPrefix (drop (idx + 1 + nxt) s) pat"
        using Index_SomeD [OF Some] by (simp add: add.commute)
      have gap: "\<not> token_at s pat i" if "idx < i" "i < idx + 1 + nxt" for i
        using Index_least [OF Some, of "i - (idx + 1)"] that by (simp add: token_at_def)
      have "word_loop s pat idx = word_loop s pat (idx + 1 + nxt)"
        using Some no lt by (auto simp: word_loop.simps [of s pat idx] Let_def)
      also have "\<dots> \<longleftrightarrow> (\<exists>i\<ge>idx + 1 + nxt. token_at s pat i)"
        using "1.IH" [OF refl refl refl no lt Some] "1.prems"(1) here by simp
      also have "\<dots> \<longleftrightarrow> (\<exists>i\<ge>idx. token_at s pat i)"
        using gap False by (metis add_leD1 le_neq_implies_less not_le)
      finally show ?thesis .
    qed
  qed
qed

lemma containsWordOrPrefix_token:
  assumes "pat \<noteq> []"
  shows "containsWordOrPrefix s pat \<longleftrightarrow> (\<exists>i. token_at s pat i)"
proof (cases "Index s pat")
  case None
  then show ?thesis using Index_NoneD by (auto simp: containsWordOrPrefix_def token_at_def)
next
  case (Some idx)
  have "word_loop s pat idx \<longleftrightarrow> (\<exists>i\<ge>idx. token_at s pat i)"
    using assms Index_SomeD [OF Some] by (intro word_loop_iff) auto
  moreover have "\<not> token_at s pat i" if "i < idx" for i
    using Index_least [OF Some that] by (simp add: token_at_def)
  ultimately show ?thesis using Some by (auto simp: containsWordOrPrefix_def) (metis not_le)
qed

lemma token_at_decompose:
  assumes "pat \<noteq> []"
  shows "(\<exists>i. token_at s pat i) \<longleftrightarrow> (\<exists>a b. s = a @ pat @ b \<and>
     (a = [] \<or> last a = CHR ''_'') \<and> (b = [] \<or> hd b = CHR ''_''))" (is "?L \<longleftrightarrow> ?R")
proof
  assume ?L
  then obtain i b where b: "drop i s = pat @ b" and l: "i = 0 \<or> s ! (i - 1) = CHR ''_''"
    and r: "i + length pat = length s \<or> s ! (i + length pat) = CHR ''_''"
    by (auto simp: token_at_def HasPrefix_iff)
  show ?R
  proof (cases "i \<le> length s")
    case True
    have s: "s = take i s @ pat @ b" using b by (metis append_take_drop_id)
    have len: "length s = i + length pat + length b" using True arg_cong [OF b, of length] by simp
    have "take i s = [] \<or> last (take i s) = CHR ''_''"
      using l True by (cases "take i s = []") (auto simp: last_conv_nth min_def)
    moreover have "b = [] \<or> hd b = CHR ''_''"
    proof (cases b)
      case (Cons x xs)
      have "s ! (i + length pat) = x"
        using b Cons True by (metis add.commute append_Cons nth_append_length nth_drop)
      with r len Cons show ?thesis by simp
    qed simp
    ultimately show ?thesis using s by blast
  next
    case False
    with b assms show ?thesis by simp
  qed
next
  assume ?R
  then obtain a b where s: "s = a @ pat @ b" and l: "a = [] \<or> last a = CHR ''_''"
    and r: "b = [] \<or> hd b = CHR ''_''" by blast
  have "length a = 0 \<or> s ! (length a - 1) = CHR ''_''"
    using s l by (cases "a = []") (simp_all add: last_conv_nth nth_append)
  moreover have "length a + length pat = length s \<or> s ! (length a + length pat) = CHR ''_''"
    using s r by (cases b) (simp_all add: nth_append)
  ultimately have "token_at s pat (length a)"
    using s by (simp add: token_at_def)
  then show ?L by blast
qed

text \<open>\<open>containsWordOrPrefix\<close> decides that the pattern occurs as a whole run of
  underscore-delimited tokens; a token that only starts with the pattern does not match.\<close>

theorem containsWordOrPrefix_iff:
  assumes "pat \<noteq> []"
  shows "containsWordOrPrefix s pat \<longleftrightarrow> (\<exists>a b. s = a @ pat @ b \<and>
     (a = [] \<or> last a = CHR ''_'') \<and> (b = [] \<or> hd b = CHR ''_''))"
  using containsWordOrPrefix_token [OF assms] token_at_decompose [OF assms] by simp

theorem containsWordOrPrefix_iff_witness:
  "containsWordOrPrefix ''jira_delete_issue'' ''delete'' \<and>
   \<not> containsWordOrPrefix ''jira_deletes_issue'' ''delete''"
proof
  have "\<exists>a b. ''jira_delete_issue'' = a @ ''delete'' @ b \<and>
      (a = [] \<or> last a = CHR ''_'') \<and> (b = [] \<or> hd b = CHR ''_'')"
    by (intro exI [of _ "''jira_''"] exI [of _ "''_issue''"]) simp
  then show "containsWordOrPrefix ''jira_delete_issue'' ''delete''"
    using containsWordOrPrefix_iff [of "''delete''" "''jira_delete_issue''"] by simp
  show "\<not> containsWordOrPrefix ''jira_deletes_issue'' ''delete''"
    by (simp add: containsWordOrPrefix_def word_loop.simps)
qed

section \<open>Profiles\<close>

fun risk_rank :: "RiskLevel \<Rightarrow> nat" where
  "risk_rank r = (if r = RiskLow then 1 else if r = RiskMedium then 2
     else if r = RiskHigh then 3 else if r = RiskCritical then 4 else 0)"

definition known_risk :: "RiskLevel \<Rightarrow> bool" where
  "known_risk r \<longleftrightarrow> r \<in> {RiskLow, RiskMedium, RiskHigh, RiskCritical}"

lemma PromoteRisk_known [simp]: "known_risk (PromoteRisk r)"
  by (simp add: PromoteRisk_def known_risk_def)

lemma PromoteRisk_rank: "known_risk r \<Longrightarrow> risk_rank (PromoteRisk r) = min 4 (risk_rank r + 1)"
  by (auto simp: PromoteRisk_def known_risk_def)

lemma rule_facts:
  "rule \<in> set classificationRules \<Longrightarrow> known_risk (hr_risk rule) \<and> 1 \<le> hr_cost rule \<and> hr_cost rule \<le> 20"
  by (auto simp: classificationRules_def known_risk_def)

lemma matchedRule_in: "matchedRule t = Some r \<Longrightarrow> r \<in> set classificationRules"
  by (auto simp: matchedRule_def find_Some_iff)

lemma classified_facts:
  "known_risk (sp_Risk (classified (matchedRule t)))"
  "1 \<le> sp_Cost (classified (matchedRule t))" "sp_Cost (classified (matchedRule t)) \<le> 20"
  using rule_facts [OF matchedRule_in, of t]
  by (auto simp: classified_def known_risk_def split: option.splits)

lemma promoted_facts:
  assumes "known_risk (sp_Risk p)" "1 \<le> sp_Cost p" "sp_Cost p \<le> 20"
  shows "known_risk (sp_Risk (promoted i b pii p))"
    "sp_Cost (promoted i b pii p) = (if b then 3 * sp_Cost p else sp_Cost p)"
    "sp_RequiresHITL (promoted i b pii p) \<longleftrightarrow> i \<or> b \<or> sp_RequiresHITL p"
    "sp_Source (promoted i b pii p) = sp_Source p" "sp_PIIExposure (promoted i b pii p) = pii"
    "sp_Idempotent (promoted i b pii p) \<longleftrightarrow> \<not> i \<and> sp_Idempotent p"
  using assms
  by (auto simp: promoted_def Let_def gomul_exact int64_def known_risk_def [of "''medium''"])

lemma promoted_rank:
  assumes "known_risk (sp_Risk p)"
  shows "risk_rank (sp_Risk (promoted i b pii p)) =
    max (if pii then 2 else 0) (min 4 (risk_rank (sp_Risk p) + (if i then 1 else 0) + (if b then 1 else 0)))"
  using assms
  by (cases i; cases b; cases pii)
    (auto simp: promoted_def Let_def PromoteRisk_def known_risk_def)

text \<open>every inferred profile has one of the four risk levels, a cost between 1 and 60 and the
  source "inferred"; an irreversible or bulk tool always requires human approval.\<close>

theorem inferred_profile_bounds:
  "known_risk (sp_Risk (HeuristicProfile t d sch)) \<and>
   1 \<le> sp_Cost (HeuristicProfile t d sch) \<and> sp_Cost (HeuristicProfile t d sch) \<le> 60 \<and>
   sp_Source (HeuristicProfile t d sch) = ''inferred'' \<and>
   (sp_RequiresHITL (HeuristicProfile t d sch) \<longleftrightarrow>
      isIrreversible d \<or> isBulk t d \<or> sp_RequiresHITL (classified (matchedRule t)))"
  using promoted_facts [OF classified_facts, of "isIrreversible d" "isBulk t d" "piiDetected d sch" t]
    classified_facts [of t]
  by (auto simp: HeuristicProfile_def classified_def split: option.splits)

text \<open>the description and the input schema only ever make the inferred profile more cautious
  than the name alone: risk and cost do not fall, and an approval requirement is not lost.\<close>

theorem context_only_tightens:
  "risk_rank (sp_Risk (HeuristicProfile t [] None)) \<le> risk_rank (sp_Risk (HeuristicProfile t d sch)) \<and>
   sp_Cost (HeuristicProfile t [] None) \<le> sp_Cost (HeuristicProfile t d sch) \<and>
   (sp_RequiresHITL (HeuristicProfile t [] None) \<longrightarrow> sp_RequiresHITL (HeuristicProfile t d sch))"
proof -
  have bulk: "isBulk t [] \<Longrightarrow> isBulk t d" by (auto simp: isBulk_def list_ex_iff)
  have none: "\<not> isIrreversible []" "\<not> piiDetected [] None"
    by (simp_all add: isIrreversible_def piiDetected_def schema_pii_def)
  let ?p = "classified (matchedRule t)"
  note cf = classified_facts [of t]
  have "risk_rank (sp_Risk (promoted False (isBulk t []) False ?p)) \<le>
      risk_rank (sp_Risk (promoted (isIrreversible d) (isBulk t d) (piiDetected d sch) ?p))"
    using bulk unfolding promoted_rank [OF cf(1)] by (auto simp del: risk_rank.simps)
  moreover have "sp_Cost (promoted False (isBulk t []) False ?p) \<le>
      sp_Cost (promoted (isIrreversible d) (isBulk t d) (piiDetected d sch) ?p)"
    using bulk cf(2) by (simp add: promoted_facts(2) [OF cf])
  moreover have "sp_RequiresHITL (promoted False (isBulk t []) False ?p) \<Longrightarrow>
      sp_RequiresHITL (promoted (isIrreversible d) (isBulk t d) (piiDetected d sch) ?p)"
    using bulk by (auto simp: promoted_facts(3) [OF cf])
  ultimately show ?thesis using none by (simp add: HeuristicProfile_def del: risk_rank.simps)
qed

theorem context_only_tightens_witness:
  "risk_rank (sp_Risk (HeuristicProfile ''get_user'' [] None))
     \<le> risk_rank (sp_Risk (HeuristicProfile ''get_user'' ''returns personal data'' None))"
  using context_only_tightens [of "''get_user''" "''returns personal data''" None] by blast

text \<open>a tool whose name holds none of the table's tokens gets the cautious fall-through
  profile: high risk, delete impact, human approval.\<close>

theorem unknown_tool_is_cautious:
  assumes "\<forall>rule\<in>set classificationRules. \<forall>pat\<in>set (hr_patterns rule).
      \<not> containsWordOrPrefix (ToLower t) pat"
  shows "risk_rank (sp_Risk (HeuristicProfile t d sch)) \<ge> risk_rank RiskHigh \<and>
    sp_Impact (HeuristicProfile t d sch) = ImpactDelete \<and> sp_RequiresHITL (HeuristicProfile t d sch)"
proof -
  have "matchedRule t = None"
    using assms by (auto simp: matchedRule_def find_None_iff list_ex_iff)
  then show ?thesis
    using promoted_rank [OF classified_facts(1), of "isIrreversible d" "isBulk t d" "piiDetected d sch" t]
      promoted_facts(3) [OF classified_facts, of "isIrreversible d" "isBulk t d" "piiDetected d sch" t]
    by (simp add: HeuristicProfile_def classified_def del: risk_rank.simps)
      (simp add: promoted_def Let_def)
qed

theorem unknown_tool_is_cautious_witness:
  "sp_RequiresHITL (HeuristicProfile ''frobnicate'' [] None)"
proof -
  have "list_all (\<lambda>rule. list_all (\<lambda>pat. \<not> containsWordOrPrefix (ToLower ''frobnicate'') pat)
      (hr_patterns rule)) classificationRules"
    by code_simp
  then have "\<forall>rule\<in>set classificationRules. \<forall>pat\<in>set (hr_patterns rule).
      \<not> containsWordOrPrefix (ToLower ''frobnicate'') pat"
    by (simp add: list_all_iff)
  from unknown_tool_is_cautious [OF this] show ?thesis by blast
qed

end
