(* ===== verification/Schema.thy ===== *)
theory Schema
  imports Prelude
begin

text \<open>
  The database schema and its migrations (src/store/store.go). A schema maps each table to its
  columns in order; a statement of the migration succeeds or fails on it, and \<open>migrate\<close> ignores every
  failure but that of the base schema, which cannot fail: it only creates tables that do not exist. Column
  types, defaults and constraints are not part of the schema here; the constraints are in the operations
  of the store theories. \<open>CREATE INDEX\<close> changes no column.
\<close>

type_synonym schema = "(string, string list) gomap"

datatype ddl = CreateTable string "string list" | AddColumn string string

text \<open>\<open>CREATE TABLE IF NOT EXISTS\<close> and \<open>ALTER TABLE ... ADD COLUMN\<close>; the latter fails on a
  missing table and on a duplicate column, and the error is dropped.\<close>

fun exec_ddl :: "ddl \<Rightarrow> schema \<Rightarrow> schema" where
  "exec_ddl (CreateTable t cs) s = (case map_of s t of Some _ \<Rightarrow> s | None \<Rightarrow> s @ [(t, cs)])"
| "exec_ddl (AddColumn t c) s =
     (case map_of s t of
        None \<Rightarrow> s
      | Some cs \<Rightarrow> if c \<in> set cs then s else AList.update t (cs @ [c]) s)"

definition base_schema :: "ddl list" where
  "base_schema =
    [ CreateTable ''backends'' [''id'', ''command'', ''pool_size'', ''tool_prefix'', ''env'',
       ''encrypted_env'', ''env_mappings'', ''tool_hints'', ''backend_instructions'', ''enabled'',
       ''is_system'', ''stdio_framing''],
    CreateTable ''users'' [''id'', ''name'', ''email'', ''password'', ''role'', ''password_salt'',
       ''created_at''],
    CreateTable ''user_tokens'' [''user_id'', ''backend_id'', ''env_key'', ''value'', ''encrypted_dek'',
       ''encryption_type''],
    CreateTable ''oauth_clients'' [''client_id'', ''client_secret'', ''redirect_uris'', ''client_name'',
       ''created_at''],
    CreateTable ''oauth_codes'' [''code'', ''user_id'', ''client_id'', ''redirect_uri'',
       ''code_challenge'', ''scope'', ''expires_at''],
    CreateTable ''oauth_sessions'' [''access_token'', ''refresh_token'', ''user_id'', ''client_id'',
       ''scope'', ''expires_at'', ''created_at''],
    CreateTable ''web_sessions'' [''session_id'', ''user_id'', ''expires_at'', ''created_at''],
    CreateTable ''api_keys'' [''id'', ''user_id'', ''name'', ''key_hash'', ''expires_at'',
       ''last_used_at'', ''created_at''],
    CreateTable ''backend_capabilities'' [''backend_id'', ''tools'', ''tool_count'', ''updated_at''],
    CreateTable ''settings'' [''key'', ''value''] ]"

definition migrations_before_sessions :: "ddl list" where
  "migrations_before_sessions =
    [ AddColumn ''users'' ''role'',
    AddColumn ''backends'' ''env_mappings'',
    AddColumn ''backends'' ''is_system'',
    AddColumn ''backends'' ''min_pool_size'',
    AddColumn ''backends'' ''max_pool_size'',
    AddColumn ''backends'' ''tool_hints'',
    AddColumn ''backends'' ''backend_instructions'',
    AddColumn ''backends'' ''self_reporting'',
    AddColumn ''backends'' ''no_keys_required'',
    AddColumn ''backends'' ''skip_justification'',
    AddColumn ''backends'' ''encrypted_env'',
    AddColumn ''backends'' ''stdio_framing'',
    AddColumn ''backends'' ''precache_error'',
    AddColumn ''backends'' ''precache_error_at'',
    AddColumn ''enforcer_audit_log'' ''arguments'',
    CreateTable ''settings'' [''key'', ''value''],
    CreateTable ''rate_limit_buckets'' [''id'', ''backend_id'', ''bucket_type'', ''capacity'',
       ''refill_rate'', ''created_at'', ''updated_at''],
    CreateTable ''rate_limit_states'' [''id'', ''user_id'', ''backend_id'', ''bucket_type'',
       ''current_level'', ''last_refill_at'', ''created_at''],
    CreateTable ''rate_limit_overrides'' [''id'', ''user_id'', ''backend_id'', ''bucket_type'',
       ''capacity_multiplier'', ''created_at''] ]"

definition web_sessions_columns :: "string list" where
  "web_sessions_columns = [''session_id'', ''user_id'', ''expires_at'', ''created_at'']"

text \<open>The table of web sessions is rebuilt when it still has the column \<open>token\<close>.\<close>

definition migrate_sessions :: "schema \<Rightarrow> schema" where
  "migrate_sessions s =
     (case map_of s ''web_sessions'' of
        None \<Rightarrow> s
      | Some cs \<Rightarrow> if ''token'' \<in> set cs then AList.delete ''web_sessions'' s @ [(''web_sessions'', web_sessions_columns)]
                   else s)"

definition migrations_after_sessions :: "ddl list" where
  "migrations_after_sessions =
    [ AddColumn ''users'' ''password_salt'',
    AddColumn ''user_tokens'' ''encrypted_dek'',
    AddColumn ''user_tokens'' ''encryption_type'',
    AddColumn ''enforcer_approvals'' ''queue_type'',
    AddColumn ''enforcer_approvals'' ''justification'',
    AddColumn ''enforcer_audit_log'' ''justification'',
    AddColumn ''enforcer_audit_log'' ''rejection_reason'',
    AddColumn ''enforcer_overrides'' ''user_id'',
    AddColumn ''enforcer_overrides'' ''locked'',
    AddColumn ''enforcer_policies'' ''locked'',
    AddColumn ''enforcer_policies'' ''dispositions'',
    CreateTable ''enforcer_policies'' [''id'', ''name'', ''description'', ''scope'', ''expression'',
       ''action'', ''severity'', ''message'', ''enabled'', ''priority'', ''locked'', ''dispositions'',
       ''created_at'', ''updated_at''],
    CreateTable ''enforcer_overrides'' [''id'', ''tool_name'', ''backend_id'', ''risk_level'',
       ''impact_scope'', ''resource_cost'', ''requires_hitl'', ''pii_exposure'', ''user_id'', ''locked'',
       ''created_at'', ''updated_at''],
    CreateTable ''enforcer_approvals'' [''id'', ''user_id'', ''user_email'', ''user_role'',
       ''trust_level'', ''tool_name'', ''tool_args'', ''backend_id'', ''safety_profile'', ''status'',
       ''queue_type'', ''justification'', ''requested_at'', ''expires_at'', ''approved_by'',
       ''approved_at'', ''denial_reason'', ''comments'', ''policy_id'', ''violation_msg'',
       ''request_body'', ''response_status'', ''response_body'', ''executed_at'', ''error_msg''],
    CreateTable ''enforcer_kill_switches'' [''id'', ''name'', ''scope'', ''enabled'', ''enabled_at'',
       ''enabled_by'', ''reason'', ''created_at'', ''updated_at''],
    CreateTable ''enforcer_audit_log'' [''id'', ''request_id'', ''user_id'', ''tool_name'', ''action'',
       ''policy_id'', ''message'', ''context'', ''justification'', ''rejection_reason'', ''created_at'',
       ''updated_at''],
    CreateTable ''enforcer_tool_profiles'' [''id'', ''backend_id'', ''tool_name'', ''risk_level'',
       ''impact_scope'', ''resource_cost'', ''requires_hitl'', ''pii_exposure'', ''idempotent'',
       ''raw_profile'', ''scanned_at''],
    CreateTable ''enforcer_rate_buckets'' [''id'', ''user_id'', ''tool_name'', ''window_start'',
       ''count''],
    CreateTable ''enforcer_user_rate_limit_overrides'' [''id'', ''user_id'', ''backend_id'', ''set_by'',
       ''risk_capacity'', ''resource_capacity'', ''cost_multiplier'', ''created_at'', ''updated_at''],
    CreateTable ''backend_status'' [''backend_id'', ''status'', ''last_attempt'', ''last_success'',
       ''retry_count'', ''next_retry'', ''error_message'', ''updated_at''],
    AddColumn ''user_tokens'' ''encrypted_value'',
    CreateTable ''invitations'' [''id'', ''email'', ''name'', ''role'', ''token_hash'', ''status'',
       ''invited_by'', ''token_expires_at'', ''accepted_at'', ''accepted_user_id'', ''created_at''],
    CreateTable ''user_2fa'' [''user_id'', ''method'', ''secret'', ''enabled'', ''created_at'',
       ''updated_at''] ]"

definition migrate :: "schema \<Rightarrow> schema" where
  "migrate s = fold exec_ddl migrations_after_sessions (migrate_sessions
     (fold exec_ddl migrations_before_sessions (fold exec_ddl base_schema s)))"

definition has_column :: "schema \<Rightarrow> string \<Rightarrow> string \<Rightarrow> bool" where
  "has_column s t c \<longleftrightarrow> (case map_of s t of None \<Rightarrow> False | Some cs \<Rightarrow> c \<in> set cs)"

section \<open>Migrations keep what is there\<close>

lemma exec_ddl_keeps: "has_column s t c \<Longrightarrow> has_column (exec_ddl d s) t c"
  by (cases d) (auto simp: has_column_def gomap_simps map_add_def split: option.splits)

lemma fold_ddl_keeps: "has_column s t c \<Longrightarrow> has_column (fold exec_ddl ds s) t c"
  by (induction ds arbitrary: s) (auto intro: exec_ddl_keeps)

lemma migrate_sessions_keeps:
  "has_column s t c \<Longrightarrow> t \<noteq> ''web_sessions'' \<Longrightarrow> has_column (migrate_sessions s) t c"
  by (auto simp: migrate_sessions_def has_column_def gomap_simps map_add_def split: option.splits)

text \<open>starting the program on an existing database loses no column of any table but the table of web
  sessions, which is rebuilt.\<close>

theorem migrate_keeps_columns:
  assumes "has_column s t c" and "t \<noteq> ''web_sessions''"
  shows "has_column (migrate s) t c"
  using assms unfolding migrate_def by (intro fold_ddl_keeps migrate_sessions_keeps)

theorem migrate_keeps_columns_witness:
  "has_column (migrate [(''users'', [''id'', ''nickname''])]) ''users'' ''nickname''"
  by (rule migrate_keeps_columns) (simp_all add: has_column_def)

text \<open>Only the statements on a table matter for it.\<close>

fun on_table :: "string \<Rightarrow> ddl \<Rightarrow> bool" where
  "on_table t (CreateTable u _) \<longleftrightarrow> u = t"
| "on_table t (AddColumn u _) \<longleftrightarrow> u = t"

lemma exec_ddl_other: "\<not> on_table t d \<Longrightarrow> map_of (exec_ddl d s) t = map_of s t"
  by (cases d) (auto simp: gomap_simps map_add_def split: option.splits)

lemma exec_ddl_local: "map_of s t = map_of s' t \<Longrightarrow> map_of (exec_ddl d s) t = map_of (exec_ddl d s') t"
proof (cases "on_table t d")
  case True
  assume "map_of s t = map_of s' t"
  with True show ?thesis by (cases d) (auto simp: gomap_simps map_add_def split: option.splits)
qed (simp add: exec_ddl_other)

lemma fold_ddl_local:
  "map_of s t = map_of s' t \<Longrightarrow>
   map_of (fold exec_ddl ds s) t = map_of (fold exec_ddl (filter (on_table t) ds) s') t"
proof (induction ds arbitrary: s s')
  case (Cons d ds)
  show ?case
  proof (cases "on_table t d")
    case True
    with Cons.IH [OF exec_ddl_local [OF Cons.prems]] show ?thesis by simp
  next
    case False
    then have "map_of (exec_ddl d s) t = map_of s' t" using Cons.prems by (simp add: exec_ddl_other)
    with Cons.IH [OF this] False show ?thesis by simp
  qed
qed simp

lemma migrate_sessions_other: "t \<noteq> ''web_sessions'' \<Longrightarrow> map_of (migrate_sessions s) t = map_of s t"
  by (auto simp: migrate_sessions_def gomap_simps map_add_def split: option.splits)

definition migrations_of :: "string \<Rightarrow> ddl list" where
  "migrations_of t = filter (on_table t) (base_schema @ migrations_before_sessions @ migrations_after_sessions)"

lemma migrate_table:
  assumes "t \<noteq> ''web_sessions''" and "map_of s t = map_of s' t"
  shows "map_of (migrate s) t = map_of (fold exec_ddl (migrations_of t) s') t"
proof -
  let ?f = "\<lambda>ds. fold exec_ddl (filter (on_table t) ds)"
  have "map_of (fold exec_ddl migrations_before_sessions (fold exec_ddl base_schema s)) t =
      map_of (?f migrations_before_sessions (?f base_schema s')) t"
    by (intro fold_ddl_local assms)
  then have "map_of (migrate_sessions (fold exec_ddl migrations_before_sessions (fold exec_ddl base_schema s))) t =
      map_of (?f migrations_before_sessions (?f base_schema s')) t"
    unfolding migrate_sessions_other [OF assms(1)] .
  from fold_ddl_local [OF this, of migrations_after_sessions]
  show ?thesis by (simp add: migrate_def migrations_of_def)
qed

lemma audit_migrations:
  "migrations_of ''enforcer_audit_log'' =
     [AddColumn ''enforcer_audit_log'' ''arguments'', AddColumn ''enforcer_audit_log'' ''justification'',
      AddColumn ''enforcer_audit_log'' ''rejection_reason'',
      CreateTable ''enforcer_audit_log'' [''id'', ''request_id'', ''user_id'', ''tool_name'', ''action'',
        ''policy_id'', ''message'', ''context'', ''justification'', ''rejection_reason'', ''created_at'',
        ''updated_at'']]"
  by (simp add: migrations_of_def base_schema_def migrations_before_sessions_def migrations_after_sessions_def)

lemma audit_columns_first:
  assumes "map_of s ''enforcer_audit_log'' = None"
  shows "map_of (migrate s) ''enforcer_audit_log'' = Some [''id'', ''request_id'', ''user_id'', ''tool_name'',
    ''action'', ''policy_id'', ''message'', ''context'', ''justification'', ''rejection_reason'', ''created_at'',
    ''updated_at'']"
  using migrate_table [of "''enforcer_audit_log''" s "[]"] assms by (simp add: audit_migrations)

text \<open>a database that has no audit log yet gets one without the column \<open>arguments\<close>, since the
  statement that adds the column precedes the one that creates the table; only the second start of the
  program adds it.\<close>

theorem first_start_lacks_arguments:
  assumes "map_of s ''enforcer_audit_log'' = None"
  shows "\<not> has_column (migrate s) ''enforcer_audit_log'' ''arguments'' \<and>
    has_column (migrate (migrate s)) ''enforcer_audit_log'' ''arguments''"
proof
  show "\<not> has_column (migrate s) ''enforcer_audit_log'' ''arguments''"
    using audit_columns_first [OF assms] by (simp add: has_column_def)
  have "map_of (migrate (migrate s)) ''enforcer_audit_log'' = map_of (fold exec_ddl
      (migrations_of ''enforcer_audit_log'') [(''enforcer_audit_log'', the (map_of (migrate s) ''enforcer_audit_log''))])
      ''enforcer_audit_log''"
    using audit_columns_first [OF assms] by (intro migrate_table) simp_all
  then show "has_column (migrate (migrate s)) ''enforcer_audit_log'' ''arguments''"
    using audit_columns_first [OF assms] by (simp add: audit_migrations has_column_def)
qed

theorem first_start_lacks_arguments_witness:
  "\<not> has_column (migrate []) ''enforcer_audit_log'' ''arguments'' \<and>
   has_column (migrate (migrate [])) ''enforcer_audit_log'' ''arguments''"
  using first_start_lacks_arguments [of "[]"] by simp

end
