(* ===== verification/Db.thy ===== *)
theory Db
  imports Schema "HOL-Library.Char_ord" "HOL-Library.List_Lexorder" "HOL-Library.Product_Lexorder"
begin

text \<open>
  The tables the modelled operations use, as lists of rows in insertion order, and the SQL
  statements the store issues on them. The database engine is the language's environment here:
  a statement either fails as a whole with an I/O error (\<open>db_faults\<close>, per operation, so that every error
  branch of the callers is reachable), fails with a constraint, or takes effect. Foreign keys are enforced
  (the connection string turns them on). Times compare as instants. Rows SQL leaves unordered come in
  insertion order, and rows equal in the \<open>ORDER BY\<close> key keep it.

  Random identifiers (\<open>generateID\<close>, \<open>uuid.New\<close>) are drawn from the supply \<open>db_ids\<close>.
\<close>

section \<open>Statements\<close>

definition query_row :: "('r \<Rightarrow> bool) \<Rightarrow> 'r list \<Rightarrow> goerr + 'r" where
  "query_row P t = (case filter P t of [] \<Rightarrow> Inl ErrNoRows | r # _ \<Rightarrow> Inr r)"

definition count_rows :: "('r \<Rightarrow> bool) \<Rightarrow> 'r list \<Rightarrow> int" where
  "count_rows P t = int (length (filter P t))"

definition insert_row :: "('r \<Rightarrow> 'i) \<Rightarrow> 'r \<Rightarrow> 'r list \<Rightarrow> goerr + 'r list" where
  "insert_row pk r t =
     (if pk r \<in> pk ` set t then Inl (ErrConstraint ''UNIQUE constraint failed'') else Inr (t @ [r]))"

text \<open>\<open>INSERT ... ON CONFLICT(key) DO UPDATE\<close>: the conflict target is checked before the
  primary key. \<open>INSERT OR REPLACE\<close> first deletes every row in conflict.\<close>

definition upsert_row ::
    "('r \<Rightarrow> 'i) \<Rightarrow> ('r \<Rightarrow> 'k) \<Rightarrow> ('r \<Rightarrow> 'r \<Rightarrow> 'r) \<Rightarrow> 'r \<Rightarrow> 'r list \<Rightarrow> goerr + 'r list" where
  "upsert_row pk key merge r t =
     (if key r \<in> key ` set t then Inr (map (\<lambda>x. if key x = key r then merge r x else x) t)
      else insert_row pk r t)"

definition replace_row :: "('r \<Rightarrow> 'i) \<Rightarrow> ('r \<Rightarrow> 'k) \<Rightarrow> 'r \<Rightarrow> 'r list \<Rightarrow> 'r list" where
  "replace_row pk key r t = filter (\<lambda>x. pk x \<noteq> pk r \<and> key x \<noteq> key r) t @ [r]"

definition update_where :: "('r \<Rightarrow> bool) \<Rightarrow> ('r \<Rightarrow> 'r) \<Rightarrow> 'r list \<Rightarrow> 'r list" where
  "update_where P f t = map (\<lambda>x. if P x then f x else x) t"

definition delete_where :: "('r \<Rightarrow> bool) \<Rightarrow> 'r list \<Rightarrow> 'r list" where
  "delete_where P t = filter (\<lambda>x. \<not> P x) t"

definition order_by :: "('r \<Rightarrow> 'k::linorder) \<Rightarrow> 'r list \<Rightarrow> 'r list" where
  "order_by f t = sort_key f t"

lemma set_order_by [simp]: "set (order_by f t) = set t"
  by (simp add: order_by_def)

lemma in_update_where:
  "y \<in> set (update_where P f t) \<longleftrightarrow> (\<exists>x \<in> set t. y = (if P x then f x else x))"
  by (auto simp: update_where_def)

lemma in_delete_where [simp]: "x \<in> set (delete_where P t) \<longleftrightarrow> x \<in> set t \<and> \<not> P x"
  by (auto simp: delete_where_def)

section \<open>Unique keys\<close>

text \<open>A table with a primary key \<open>pk\<close> and a unique key \<open>key\<close>, and the row a conflicting insert
  leaves. The laws are that the update part of the upsert does not touch either key.\<close>

definition unique_on :: "('r \<Rightarrow> 'k) \<Rightarrow> 'r list \<Rightarrow> bool" where
  "unique_on f t \<longleftrightarrow> distinct (map f t)"

lemma unique_on_Nil [simp]: "unique_on f []"
  by (simp add: unique_on_def)

lemma unique_on_eq: "unique_on f t \<Longrightarrow> x \<in> set t \<Longrightarrow> y \<in> set t \<Longrightarrow> f x = f y \<Longrightarrow> x = y"
  by (metis distinct_map inj_on_eq_iff unique_on_def)

lemma unique_on_map: "(\<And>x. f (g x) = f x) \<Longrightarrow> unique_on f (map g t) = unique_on f t"
  by (simp add: unique_on_def comp_def)

lemma unique_on_filter: "unique_on f t \<Longrightarrow> unique_on f (filter P t)"
  by (simp add: unique_on_def distinct_map_filter)

lemma unique_on_snoc: "unique_on f (t @ [r]) \<longleftrightarrow> unique_on f t \<and> f r \<notin> f ` set t"
  by (auto simp: unique_on_def)

lemma query_row_SomeD: "query_row P t = Inr r \<Longrightarrow> r \<in> set t \<and> P r"
  by (auto simp: query_row_def filter_eq_Cons_iff split: list.splits)

lemma query_row_None: "query_row P t = Inl e \<longleftrightarrow> e = ErrNoRows \<and> (\<forall>r \<in> set t. \<not> P r)"
  unfolding query_row_def filter_empty_conv [symmetric] by (auto split: list.splits)

lemma query_row_unique:
  assumes "unique_on f t" and "r \<in> set t" and "\<And>x. P x \<longleftrightarrow> f x = f r"
  shows "query_row P t = Inr r"
proof (cases "query_row P t")
  case (Inl e)
  with assms show ?thesis by (auto simp: query_row_None)
next
  case (Inr x)
  with query_row_SomeD [OF Inr] assms show ?thesis by (metis unique_on_eq)
qed

lemma unique_on_replace_row:
  "unique_on pk t \<Longrightarrow> unique_on pk (replace_row pk key r t)"
  "unique_on key t \<Longrightarrow> unique_on key (replace_row pk key r t)"
  by (auto simp: replace_row_def unique_on_snoc unique_on_filter)

locale keyed_table =
  fixes pk :: "'r \<Rightarrow> 'i" and key :: "'r \<Rightarrow> 'k" and merge :: "'r \<Rightarrow> 'r \<Rightarrow> 'r"
  assumes merge_pk: "pk (merge new old) = pk old"
    and merge_key: "key (merge new old) = key old"
begin

lemma upsert_unique:
  assumes "upsert_row pk key merge r t = Inr t'" and "unique_on pk t" and "unique_on key t"
  shows "unique_on pk t'" and "unique_on key t'"
proof -
  have "key (if key x = key r then merge r x else x) = key x"
    and "pk (if key x = key r then merge r x else x) = pk x" for x
    by (simp_all add: merge_key merge_pk)
  then show "unique_on pk t'" and "unique_on key t'"
    using assms by (auto simp: upsert_row_def insert_row_def unique_on_snoc unique_on_map split: if_splits)
qed

lemma upsert_lookup:
  assumes "upsert_row pk key merge r t = Inr t'" and "unique_on key t"
  shows "query_row (\<lambda>x. key x = key r) t' =
    Inr (case query_row (\<lambda>x. key x = key r) t of Inl _ \<Rightarrow> r | Inr old \<Rightarrow> merge r old)"
proof (cases "query_row (\<lambda>x. key x = key r) t")
  case (Inl e)
  then have "\<forall>x \<in> set t. key x \<noteq> key r" by (auto simp: query_row_None)
  then have "key r \<notin> key ` set t" and "filter (\<lambda>x. key x = key r) t = []"
    by (force simp: filter_empty_conv)+
  with Inl assms show ?thesis
    by (auto simp: upsert_row_def insert_row_def query_row_def split: if_splits)
next
  case (Inr old)
  then have old: "old \<in> set t" "key old = key r" by (auto dest: query_row_SomeD)
  then have t': "t' = map (\<lambda>x. if key x = key r then merge r x else x) t"
    using assms(1) imageI [OF old(1), of key] by (simp add: upsert_row_def)
  have "unique_on key t'" using assms(2) by (simp add: t' unique_on_map merge_key)
  moreover have "merge r old \<in> set t'" using old by (force simp: t')
  ultimately show ?thesis using Inr old(2) query_row_unique [of key t' "merge r old"] by (simp add: merge_key)
qed

lemma upsert_other:
  assumes "upsert_row pk key merge r t = Inr t'" and "k \<noteq> key r"
  shows "query_row (\<lambda>x. key x = k) t' = query_row (\<lambda>x. key x = k) t"
proof -
  have "filter (\<lambda>x. key x = k) (map (\<lambda>x. if key x = key r then merge r x else x) t) = filter (\<lambda>x. key x = k) t"
    using assms(2) by (induction t) (auto simp: merge_key)
  then show ?thesis
    using assms by (auto simp: upsert_row_def insert_row_def query_row_def split: if_splits)
qed

lemma upsert_total:
  "pk r \<notin> pk ` set t \<Longrightarrow> \<exists>t'. upsert_row pk key merge r t = Inr t'"
  by (simp add: upsert_row_def insert_row_def)

end

section \<open>Rows\<close>

record PolicyRow =
  pr_ID :: string
  pr_Name :: string
  pr_Description :: string
  pr_Scope :: string
  pr_Expression :: string
  pr_Action :: string
  pr_Severity :: string
  pr_Message :: string
  pr_Enabled :: bool
  pr_Priority :: int
  pr_Locked :: bool
  pr_CreatedAt :: gotime
  pr_UpdatedAt :: gotime
  pr_DispositionsJSON :: string

record ApprovalRequestRow =
  aq_ID :: string
  aq_UserID :: string
  aq_UserEmail :: string
  aq_UserRole :: string
  aq_TrustLevel :: int
  aq_ToolName :: string
  aq_ToolArgs :: string
  aq_BackendID :: string
  aq_SafetyProfile :: string
  aq_Status :: string
  aq_QueueType :: string
  aq_Justification :: string
  aq_RequestedAt :: gotime
  aq_ExpiresAt :: gotime
  aq_ApprovedBy :: "string option"
  aq_ApprovedAt :: "gotime option"
  aq_DenialReason :: string
  aq_Comments :: string
  aq_PolicyID :: string
  aq_ViolationMsg :: string
  aq_MatchContext :: string
  aq_RequestBody :: string
  aq_ResponseStatus :: int
  aq_ResponseBody :: string
  aq_ExecutedAt :: "gotime option"
  aq_ErrorMsg :: string

record EnforcerOverrideRow =
  eo_ID :: string
  eo_ToolName :: string
  eo_BackendID :: string
  eo_RiskLevel :: string
  eo_ImpactScope :: string
  eo_ResourceCost :: int
  eo_RequiresHITL :: bool
  eo_PIIExposure :: bool
  eo_UserID :: string
  eo_CreatedAt :: gotime
  eo_UpdatedAt :: gotime

record UserRateLimitOverrideRow =
  uo_ID :: string
  uo_UserID :: string
  uo_BackendID :: string
  uo_SetBy :: string
  uo_RiskCapacity :: int
  uo_ResourceCapacity :: int
  uo_CostMultiplier :: int
  uo_CreatedAt :: gotime
  uo_UpdatedAt :: gotime

record RateLimitBucketConfigRow =
  rc_ID :: string
  rc_BackendID :: string
  rc_BucketType :: string
  rc_Capacity :: int
  rc_RefillRate :: int
  rc_CreatedAt :: gotime
  rc_UpdatedAt :: gotime

record RateLimitStateRow =
  rs_ID :: string
  rs_UserID :: string
  rs_BackendID :: string
  rs_BucketType :: string
  rs_CurrentLevel :: int
  rs_LastRefillAt :: gotime
  rs_CreatedAt :: gotime

record KillSwitchRow =
  ks_ID :: string
  ks_Name :: string
  ks_Scope :: string
  ks_Enabled :: bool
  ks_EnabledAt :: "gotime option"
  ks_EnabledBy :: "string option"
  ks_Reason :: string
  ks_CreatedAt :: gotime
  ks_UpdatedAt :: gotime

record AuditRow =
  al_ID :: string
  al_RequestID :: string
  al_UserID :: string
  al_ToolName :: string
  al_Action :: string
  al_PolicyID :: string
  al_Message :: string
  al_Context :: string
  al_Justification :: string
  al_RejectionReason :: "string option"
  al_Arguments :: string
  al_CreatedAt :: gotime

record RateBucketRow =
  rb_ID :: string
  rb_UserID :: string
  rb_ToolName :: string
  rb_WindowStart :: gotime
  rb_Count :: int

record ToolProfileRow =
  tp_ID :: string
  tp_BackendID :: string
  tp_ToolName :: string
  tp_RiskLevel :: string
  tp_ImpactScope :: string
  tp_ResourceCost :: int
  tp_RequiresHITL :: bool
  tp_PIIExposure :: bool
  tp_Idempotent :: bool
  tp_RawProfile :: string
  tp_ScannedAt :: gotime

record User =
  us_ID :: string
  us_Name :: string
  us_Email :: string
  us_Password :: string
  us_PasswordSalt :: string
  us_Role :: string
  us_CreatedAt :: gotime

record Backend =
  be_ID :: string
  be_Command :: string
  be_PoolSize :: int
  be_ToolPrefix :: string
  be_Env :: string
  be_EnvMappings :: string
  be_ToolHints :: string
  be_BackendInstructions :: string
  be_Enabled :: bool
  be_IsSystem :: bool
  be_MinPoolSize :: int
  be_MaxPoolSize :: int
  be_SelfReporting :: bool
  be_NoKeysRequired :: bool
  be_SkipJustification :: bool
  be_StdioFraming :: string
  be_EncryptedEnv :: string
  be_PrecacheError :: string
  be_PrecacheErrorAt :: "gotime option"

record UserToken =
  ut_UserID :: string
  ut_BackendID :: string
  ut_EnvKey :: string
  ut_Value :: string
  ut_Encrypted :: string
  ut_EncryptedDEK :: string
  ut_EncryptionType :: string

text \<open>A row of \<open>backend_capabilities\<close>: the tools as JSON text.\<close>

record CapabilitiesRow =
  cr_BackendID :: string
  cr_Tools :: string
  cr_ToolCount :: int
  cr_UpdatedAt :: gotime

record BackendStatus =
  bt_BackendID :: string
  bt_Status :: string
  bt_LastAttempt :: "gotime option"
  bt_LastSuccess :: "gotime option"
  bt_RetryCount :: int
  bt_NextRetry :: "gotime option"
  bt_ErrorMessage :: string
  bt_UpdatedAt :: gotime

record OAuthClient =
  oc_ClientID :: string
  oc_ClientSecret :: string
  oc_RedirectURIs :: string
  oc_ClientName :: string
  oc_CreatedAt :: gotime

record OAuthCode =
  od_Code :: string
  od_UserID :: string
  od_ClientID :: string
  od_RedirectURI :: string
  od_CodeChallenge :: string
  od_Scope :: string
  od_ExpiresAt :: gotime

record OAuthSession =
  on_AccessToken :: string
  on_RefreshToken :: string
  on_UserID :: string
  on_ClientID :: string
  on_Scope :: string
  on_ExpiresAt :: gotime
  on_CreatedAt :: gotime

record WebSession =
  ws_Token :: string
  ws_UserID :: string
  ws_ExpiresAt :: gotime
  ws_CreatedAt :: gotime

record APIKey =
  ak_ID :: string
  ak_UserID :: string
  ak_Name :: string
  ak_KeyHash :: string
  ak_ExpiresAt :: "gotime option"
  ak_LastUsedAt :: "gotime option"
  ak_CreatedAt :: gotime

record Invite =
  iv_ID :: string
  iv_Email :: string
  iv_Name :: string
  iv_Role :: string
  iv_TokenHash :: string
  iv_Status :: string
  iv_InvitedBy :: string
  iv_TokenExpiresAt :: gotime
  iv_AcceptedAt :: gotime
  iv_AcceptedUserID :: string
  iv_CreatedAt :: gotime

text \<open>A row of \<open>user_2fa\<close>.\<close>

record User2FARow =
  tf_UserID :: string
  tf_Method :: string
  tf_Secret :: string
  tf_Enabled :: bool

section \<open>The database\<close>

text \<open>The tables of accounts, credentials and sessions are grouped in \<open>core_tables\<close>.\<close>

record core_tables =
  ct_user_tokens :: "UserToken list"
  ct_capabilities :: "CapabilitiesRow list"
  ct_settings :: "(string, string) gomap"
  ct_backend_status :: "BackendStatus list"
  ct_oauth_clients :: "OAuthClient list"
  ct_oauth_codes :: "OAuthCode list"
  ct_oauth_sessions :: "OAuthSession list"
  ct_web_sessions :: "WebSession list"
  ct_api_keys :: "APIKey list"
  ct_invitations :: "Invite list"
  ct_user_2fa :: "User2FARow list"

record db =
  db_schema :: schema
  db_users :: "User list"
  db_backends :: "Backend list"
  db_policies :: "PolicyRow list"
  db_approvals :: "ApprovalRequestRow list"
  db_kill_switches :: "KillSwitchRow list"
  db_audit_log :: "AuditRow list"
  db_tool_profiles :: "ToolProfileRow list"
  db_overrides :: "EnforcerOverrideRow list"
  db_rate_buckets :: "RateBucketRow list"
  db_bucket_configs :: "RateLimitBucketConfigRow list"
  db_rate_states :: "RateLimitStateRow list"
  db_user_overrides :: "UserRateLimitOverrideRow list"
  db_core :: core_tables
  db_faults :: "string \<Rightarrow> string option"
  db_ids :: "nat \<Rightarrow> string"
  db_next :: nat

definition generateID :: "db \<Rightarrow> string \<times> db" where
  "generateID db = (db_ids db (db_next db), db\<lparr>db_next := Suc (db_next db)\<rparr>)"

text \<open>A statement of operation \<open>op\<close>: an I/O failure leaves the database as it is.\<close>

definition stmt :: "string \<Rightarrow> db \<Rightarrow> goerr + 'a \<Rightarrow> goerr + 'a" where
  "stmt op db r = (case db_faults db op of Some msg \<Rightarrow> Inl (ErrIO msg) | None \<Rightarrow> r)"

definition fault_free :: "db \<Rightarrow> bool" where
  "fault_free db \<longleftrightarrow> db_faults db = (\<lambda>_. None)"

lemma stmt_ok [simp]: "fault_free db \<Longrightarrow> stmt op db r = r"
  by (simp add: stmt_def fault_free_def)

lemma fault_free_update [simp]:
  "fault_free (db\<lparr>db_policies := a\<rparr>) = fault_free db" "fault_free (db\<lparr>db_approvals := b\<rparr>) = fault_free db"
  "fault_free (db\<lparr>db_kill_switches := c\<rparr>) = fault_free db" "fault_free (db\<lparr>db_audit_log := d\<rparr>) = fault_free db"
  "fault_free (db\<lparr>db_tool_profiles := e\<rparr>) = fault_free db" "fault_free (db\<lparr>db_overrides := f\<rparr>) = fault_free db"
  "fault_free (db\<lparr>db_rate_buckets := g\<rparr>) = fault_free db" "fault_free (db\<lparr>db_bucket_configs := h\<rparr>) = fault_free db"
  "fault_free (db\<lparr>db_rate_states := i\<rparr>) = fault_free db" "fault_free (db\<lparr>db_user_overrides := j\<rparr>) = fault_free db"
  "fault_free (db\<lparr>db_next := n\<rparr>) = fault_free db" "fault_free (db\<lparr>db_users := k\<rparr>) = fault_free db"
  "fault_free (db\<lparr>db_backends := l\<rparr>) = fault_free db" "fault_free (db\<lparr>db_schema := m\<rparr>) = fault_free db"
  "fault_free (db\<lparr>db_core := ct\<rparr>) = fault_free db"
  by (simp_all add: fault_free_def)

lemma stmt_InrD: "stmt op db r = Inr x \<Longrightarrow> r = Inr x"
  by (simp add: stmt_def split: option.splits)

definition empty_core :: core_tables where
  "empty_core = \<lparr>ct_user_tokens = [], ct_capabilities = [], ct_settings = [], ct_backend_status = [],
     ct_oauth_clients = [], ct_oauth_codes = [], ct_oauth_sessions = [], ct_web_sessions = [], ct_api_keys = [],
     ct_invitations = [], ct_user_2fa = []\<rparr>"

definition empty_db :: db where
  "empty_db = \<lparr>db_schema = migrate [], db_users = [], db_backends = [], db_policies = [], db_approvals = [],
     db_kill_switches = [], db_audit_log = [], db_tool_profiles = [], db_overrides = [], db_rate_buckets = [],
     db_bucket_configs = [], db_rate_states = [], db_user_overrides = [], db_core = empty_core, db_faults = (\<lambda>_. None),
     db_ids = (\<lambda>n. ''id'' @ itoa (int n)), db_next = 0\<rparr>"

lemma empty_db_sel [simp]:
  "db_faults empty_db = (\<lambda>_. None)" "fault_free empty_db"
  by (simp_all add: empty_db_def fault_free_def)

end
