(* ===== verification/EnforcerStore.thy ===== *)
theory EnforcerStore
  imports Db EnforcerTypes
begin

text \<open>
  The database operations of the enforcer (src/store/enforcer_store.go and
  src/store/rate_limit_store.go). A method that writes returns \<open>goerr + db\<close>: on an error the database is
  as before. A method that reads returns \<open>goerr + 'a\<close>. The names carry the prefix \<open>ES\<close>, since the
  enforcer has methods of the same names. The clock is the argument \<open>now\<close>; the scan of a row into the
  struct is the identity on the record.
\<close>

section \<open>Policies\<close>

definition ES_CreatePolicy :: "PolicyRow \<Rightarrow> db \<Rightarrow> goerr + db" where
  "ES_CreatePolicy policy db = stmt ''CreatePolicy'' db
     (case insert_row pr_ID policy (db_policies db) of
        Inl err \<Rightarrow> Inl err | Inr t \<Rightarrow> Inr (db\<lparr>db_policies := t\<rparr>))"

definition ES_GetPolicy :: "string \<Rightarrow> db \<Rightarrow> goerr + PolicyRow" where
  "ES_GetPolicy rid db = stmt ''GetPolicy'' db (query_row (\<lambda>p. pr_ID p = rid) (db_policies db))"

definition ES_ListPolicies :: "db \<Rightarrow> goerr + PolicyRow list" where
  "ES_ListPolicies db = stmt ''ListPolicies'' db
     (Inr (order_by (\<lambda>p. (pr_Priority p, pr_CreatedAt p)) (filter pr_Enabled (db_policies db))))"

definition ES_DeletePolicy :: "string \<Rightarrow> db \<Rightarrow> goerr + db" where
  "ES_DeletePolicy rid db = stmt ''DeletePolicy'' db
     (Inr (db\<lparr>db_policies := delete_where (\<lambda>p. pr_ID p = rid) (db_policies db)\<rparr>))"

definition ES_UpdatePolicy :: "PolicyRow \<Rightarrow> db \<Rightarrow> goerr + db" where
  "ES_UpdatePolicy policy db = stmt ''UpdatePolicy'' db
     (Inr (db\<lparr>db_policies := update_where (\<lambda>p. pr_ID p = pr_ID policy)
        (\<lambda>p. policy\<lparr>pr_ID := pr_ID p, pr_CreatedAt := pr_CreatedAt p\<rparr>) (db_policies db)\<rparr>))"

section \<open>Approvals\<close>

text \<open>The columns the insert does not name take their defaults; \<open>MatchContext\<close> has no column.\<close>

definition ES_CreateApprovalRequest :: "ApprovalRequestRow \<Rightarrow> db \<Rightarrow> goerr + db" where
  "ES_CreateApprovalRequest req db = stmt ''CreateApprovalRequest'' db
     (if aq_UserID req \<notin> us_ID ` set (db_users db) then Inl (ErrConstraint ''FOREIGN KEY constraint failed'')
      else case insert_row aq_ID (req\<lparr>aq_ApprovedBy := None, aq_ApprovedAt := None, aq_DenialReason := [],
             aq_Comments := [], aq_MatchContext := [], aq_ResponseStatus := 0, aq_ResponseBody := [],
             aq_ExecutedAt := None, aq_ErrorMsg := []\<rparr>) (db_approvals db) of
             Inl err \<Rightarrow> Inl err | Inr t \<Rightarrow> Inr (db\<lparr>db_approvals := t\<rparr>))"

definition ES_GetApprovalRequest :: "string \<Rightarrow> db \<Rightarrow> goerr + ApprovalRequestRow" where
  "ES_GetApprovalRequest rid db = stmt ''GetApprovalRequest'' db
     (query_row (\<lambda>r. aq_ID r = rid) (db_approvals db))"

definition pending_where :: "(ApprovalRequestRow \<Rightarrow> bool) \<Rightarrow> db \<Rightarrow> ApprovalRequestRow list" where
  "pending_where P db = order_by aq_RequestedAt
     (filter (\<lambda>r. aq_Status r = ''PENDING'' \<and> P r) (db_approvals db))"

definition ES_ListPendingApprovals :: "db \<Rightarrow> goerr + ApprovalRequestRow list" where
  "ES_ListPendingApprovals db = stmt ''ListPendingApprovals'' db (Inr (pending_where (\<lambda>_. True) db))"

definition ES_ListAllApprovals :: "db \<Rightarrow> goerr + ApprovalRequestRow list" where
  "ES_ListAllApprovals db = stmt ''ListAllApprovals'' db
     (Inr (take 100 (order_by (\<lambda>r. - aq_RequestedAt r) (db_approvals db))))"

definition ES_ListUserPendingApprovals :: "db \<Rightarrow> goerr + ApprovalRequestRow list" where
  "ES_ListUserPendingApprovals db = stmt ''ListUserPendingApprovals'' db
     (Inr (pending_where (\<lambda>r. aq_QueueType r = ''user'') db))"

definition ES_ListAdminPendingApprovals :: "db \<Rightarrow> goerr + ApprovalRequestRow list" where
  "ES_ListAdminPendingApprovals db = stmt ''ListAdminPendingApprovals'' db
     (Inr (pending_where (\<lambda>r. aq_QueueType r = ''admin'') db))"

definition ES_ListUserAllApprovals :: "string \<Rightarrow> db \<Rightarrow> goerr + ApprovalRequestRow list" where
  "ES_ListUserAllApprovals userID db = stmt ''ListUserAllApprovals'' db
     (Inr (order_by (\<lambda>r. - aq_RequestedAt r)
        (filter (\<lambda>r. aq_UserID r = userID \<and> aq_QueueType r = ''user'') (db_approvals db))))"

definition ES_CountUserPendingApprovals :: "db \<Rightarrow> goerr + int" where
  "ES_CountUserPendingApprovals db = stmt ''CountUserPendingApprovals'' db
     (Inr (count_rows (\<lambda>r. aq_Status r = ''PENDING'' \<and> aq_QueueType r = ''user'') (db_approvals db)))"

definition ES_CountAdminPendingApprovals :: "db \<Rightarrow> goerr + int" where
  "ES_CountAdminPendingApprovals db = stmt ''CountAdminPendingApprovals'' db
     (Inr (count_rows (\<lambda>r. aq_Status r = ''PENDING'' \<and> aq_QueueType r = ''admin'') (db_approvals db)))"

text \<open>The updates of one approval: \<open>UPDATE enforcer_approvals SET ... WHERE id = ?\<close>.\<close>

definition set_approval :: "string \<Rightarrow> (ApprovalRequestRow \<Rightarrow> ApprovalRequestRow) \<Rightarrow> db \<Rightarrow> db" where
  "set_approval rid f db = db\<lparr>db_approvals := update_where (\<lambda>r. aq_ID r = rid) f (db_approvals db)\<rparr>"

definition ES_MarkExecuting :: "string \<Rightarrow> db \<Rightarrow> goerr + db" where
  "ES_MarkExecuting rid db = stmt ''MarkExecuting'' db
     (Inr (set_approval rid (\<lambda>r. r\<lparr>aq_Status := ''EXECUTING''\<rparr>) db))"

definition ES_MarkCompleted :: "gotime \<Rightarrow> string \<Rightarrow> int \<Rightarrow> string \<Rightarrow> db \<Rightarrow> goerr + db" where
  "ES_MarkCompleted now rid responseStatus responseBody db = stmt ''MarkCompleted'' db
     (Inr (set_approval rid (\<lambda>r. r\<lparr>aq_Status := ''COMPLETED'', aq_ResponseStatus := responseStatus,
        aq_ResponseBody := responseBody, aq_ExecutedAt := Some now\<rparr>) db))"

definition ES_MarkFailed :: "gotime \<Rightarrow> string \<Rightarrow> string \<Rightarrow> db \<Rightarrow> goerr + db" where
  "ES_MarkFailed now rid errorMsg db = stmt ''MarkFailed'' db
     (Inr (set_approval rid (\<lambda>r. r\<lparr>aq_Status := ''FAILED'', aq_ErrorMsg := errorMsg,
        aq_ExecutedAt := Some now\<rparr>) db))"

definition ES_ApproveRequest :: "gotime \<Rightarrow> string \<Rightarrow> string \<Rightarrow> string \<Rightarrow> db \<Rightarrow> goerr + db" where
  "ES_ApproveRequest now rid approverID comments db = stmt ''ApproveRequest'' db
     (Inr (set_approval rid (\<lambda>r. r\<lparr>aq_Status := ''APPROVED'', aq_ApprovedBy := Some approverID,
        aq_ApprovedAt := Some now, aq_Comments := comments\<rparr>) db))"

definition ES_DenyRequest :: "gotime \<Rightarrow> string \<Rightarrow> string \<Rightarrow> string \<Rightarrow> db \<Rightarrow> goerr + db" where
  "ES_DenyRequest now rid approverID reason db = stmt ''DenyRequest'' db
     (Inr (set_approval rid (\<lambda>r. r\<lparr>aq_Status := ''DENIED'', aq_ApprovedBy := Some approverID,
        aq_ApprovedAt := Some now, aq_DenialReason := reason\<rparr>) db))"

definition ES_CleanupExpiredApprovals :: "gotime \<Rightarrow> db \<Rightarrow> goerr + db" where
  "ES_CleanupExpiredApprovals now db = stmt ''CleanupExpiredApprovals'' db
     (Inr (db\<lparr>db_approvals := update_where (\<lambda>r. aq_Status r = ''PENDING'' \<and> aq_ExpiresAt r < now)
        (\<lambda>r. r\<lparr>aq_Status := ''EXPIRED''\<rparr>) (db_approvals db)\<rparr>))"

definition ES_CleanupOldApprovals :: "gotime \<Rightarrow> duration \<Rightarrow> db \<Rightarrow> goerr + db" where
  "ES_CleanupOldApprovals now olderThan db =
     (let cutoff = now - olderThan
      in stmt ''CleanupOldApprovals'' db
        (Inr (db\<lparr>db_approvals := delete_where
           (\<lambda>r. aq_Status r \<in> {''COMPLETED'', ''DENIED'', ''EXPIRED'', ''FAILED''} \<and> aq_RequestedAt r < cutoff)
           (db_approvals db)\<rparr>)))"

definition ES_IsApprovalPending :: "gotime \<Rightarrow> string \<Rightarrow> db \<Rightarrow> goerr + bool" where
  "ES_IsApprovalPending now rid db = stmt ''IsApprovalPending'' db
     (Inr (0 < count_rows (\<lambda>r. aq_ID r = rid \<and> aq_Status r = ''PENDING'' \<and> aq_ExpiresAt r > now) (db_approvals db)))"

section \<open>Kill switches\<close>

definition ES_GetKillSwitch :: "string \<Rightarrow> db \<Rightarrow> goerr + KillSwitchRow" where
  "ES_GetKillSwitch scope db = stmt ''GetKillSwitch'' db
     (query_row (\<lambda>k. ks_Scope k = scope) (db_kill_switches db))"

definition switch_count :: "string \<Rightarrow> db \<Rightarrow> int" where
  "switch_count scope db = count_rows (\<lambda>k. ks_Scope k = scope \<and> ks_Enabled k) (db_kill_switches db)"

definition ES_IsKillSwitchActive :: "string \<Rightarrow> db \<Rightarrow> goerr + bool" where
  "ES_IsKillSwitchActive scope db =
     (case stmt ''IsKillSwitchActive'' db (Inr (switch_count scope db)) of
        Inl err \<Rightarrow> Inl err
      | Inr count \<Rightarrow>
          if count > 0 then Inr True
          else (case stmt ''IsKillSwitchActive.global'' db (Inr (switch_count ''global'' db)) of
                  Inl err \<Rightarrow> Inl err
                | Inr count \<Rightarrow> Inr (count > 0)))"

definition ES_EnableKillSwitch :: "gotime \<Rightarrow> string \<Rightarrow> string \<Rightarrow> string \<Rightarrow> db \<Rightarrow> goerr + db" where
  "ES_EnableKillSwitch now scope userID reason db = stmt ''EnableKillSwitch'' db
     (let (rid, db) = generateID db
      in Inr (db\<lparr>db_kill_switches := replace_row ks_ID ks_Scope
           \<lparr>ks_ID = rid, ks_Name = scope @ ''_kill'', ks_Scope = scope, ks_Enabled = True,
            ks_EnabledAt = Some now, ks_EnabledBy = Some userID, ks_Reason = reason,
            ks_CreatedAt = now, ks_UpdatedAt = now\<rparr> (db_kill_switches db)\<rparr>))"

definition ES_DisableKillSwitch :: "gotime \<Rightarrow> string \<Rightarrow> db \<Rightarrow> goerr + db" where
  "ES_DisableKillSwitch now scope db = stmt ''DisableKillSwitch'' db
     (Inr (db\<lparr>db_kill_switches := update_where (\<lambda>k. ks_Scope k = scope)
        (\<lambda>k. k\<lparr>ks_Enabled := False, ks_UpdatedAt := now\<rparr>) (db_kill_switches db)\<rparr>))"

definition ES_ListKillSwitches :: "db \<Rightarrow> goerr + KillSwitchRow list" where
  "ES_ListKillSwitches db = stmt ''ListKillSwitches'' db
     (Inr (order_by (\<lambda>k. - ks_CreatedAt k) (db_kill_switches db)))"

section \<open>The audit log\<close>

text \<open>\<open>marshal\<close> is \<open>json.Marshal\<close>, which does not fail on decoded values; the insert names the
  column \<open>arguments\<close> and fails where the table lacks it.\<close>

definition ES_LogAuditEvent ::
    "gotime \<Rightarrow> (json \<Rightarrow> string) \<Rightarrow> string \<Rightarrow> string \<Rightarrow> string \<Rightarrow> string \<Rightarrow> string \<Rightarrow> string \<Rightarrow>
     (string, json) gomap \<Rightarrow> string \<Rightarrow> (string, json) gomap \<Rightarrow> db \<Rightarrow> goerr + db" where
  "ES_LogAuditEvent now marshal requestID userID toolName action policyID message context justification arguments db =
     (let contextJSON = marshal (JObj context);
          argsJSON = (if arguments = [] then ''{}'' else marshal (JObj arguments));
          (rid, db) = generateID db
      in stmt ''LogAuditEvent'' db
        (if \<not> has_column (db_schema db) ''enforcer_audit_log'' ''arguments''
         then Inl (ErrIO ''table enforcer_audit_log has no column named arguments'')
         else case insert_row al_ID \<lparr>al_ID = rid, al_RequestID = requestID, al_UserID = userID, al_ToolName = toolName,
                al_Action = action, al_PolicyID = policyID, al_Message = message, al_Context = contextJSON,
                al_Justification = justification, al_RejectionReason = None, al_Arguments = argsJSON,
                al_CreatedAt = now\<rparr> (db_audit_log db) of
                Inl err \<Rightarrow> Inl err | Inr t \<Rightarrow> Inr (db\<lparr>db_audit_log := t\<rparr>)))"

definition ES_LogAuditRejection ::
    "gotime \<Rightarrow> string \<Rightarrow> string \<Rightarrow> string \<Rightarrow> string \<Rightarrow> string \<Rightarrow> db \<Rightarrow> goerr + db" where
  "ES_LogAuditRejection now requestID userID toolName justification rejectionReason db =
     (let message = ''Tool call rejected before policy evaluation: '' @ rejectionReason;
          (rid, db) = generateID db
      in stmt ''LogAuditRejection'' db
        (case insert_row al_ID \<lparr>al_ID = rid, al_RequestID = requestID, al_UserID = userID, al_ToolName = toolName,
                al_Action = ''DENY'', al_PolicyID = rejectionReason, al_Message = message, al_Context = ''{}'',
                al_Justification = justification, al_RejectionReason = Some rejectionReason, al_Arguments = [],
                al_CreatedAt = now\<rparr> (db_audit_log db) of
           Inl err \<Rightarrow> Inl err | Inr t \<Rightarrow> Inr (db\<lparr>db_audit_log := t\<rparr>)))"

section \<open>Tool profiles and overrides\<close>

definition profile_key :: "ToolProfileRow \<Rightarrow> string \<times> string" where
  "profile_key p = (tp_BackendID p, tp_ToolName p)"

definition profile_merge :: "ToolProfileRow \<Rightarrow> ToolProfileRow \<Rightarrow> ToolProfileRow" where
  "profile_merge new old = old\<lparr>tp_RiskLevel := tp_RiskLevel new, tp_ImpactScope := tp_ImpactScope new,
     tp_ResourceCost := tp_ResourceCost new, tp_RequiresHITL := tp_RequiresHITL new,
     tp_PIIExposure := tp_PIIExposure new, tp_Idempotent := tp_Idempotent new,
     tp_RawProfile := tp_RawProfile new, tp_ScannedAt := tp_ScannedAt new\<rparr>"

definition ES_UpsertToolProfile :: "ToolProfileRow \<Rightarrow> db \<Rightarrow> goerr + db" where
  "ES_UpsertToolProfile profile db = stmt ''UpsertToolProfile'' db
     (case upsert_row tp_ID profile_key profile_merge profile (db_tool_profiles db) of
        Inl err \<Rightarrow> Inl err | Inr t \<Rightarrow> Inr (db\<lparr>db_tool_profiles := t\<rparr>))"

definition ES_GetToolProfile :: "string \<Rightarrow> string \<Rightarrow> db \<Rightarrow> goerr + ToolProfileRow" where
  "ES_GetToolProfile backendID toolName db = stmt ''GetToolProfile'' db
     (query_row (\<lambda>p. profile_key p = (backendID, toolName)) (db_tool_profiles db))"

definition ES_ListAllToolProfiles :: "db \<Rightarrow> goerr + ToolProfileRow list" where
  "ES_ListAllToolProfiles db = stmt ''ListAllToolProfiles'' db
     (Inr (order_by profile_key (db_tool_profiles db)))"

definition ES_GetToolPrefix :: "string \<Rightarrow> db \<Rightarrow> goerr + string" where
  "ES_GetToolPrefix backendID db = stmt ''GetToolPrefix'' db
     (case query_row (\<lambda>b. be_ID b = backendID) (db_backends db) of
        Inl err \<Rightarrow> Inl err | Inr b \<Rightarrow> Inr (be_ToolPrefix b))"

definition override_key :: "EnforcerOverrideRow \<Rightarrow> string \<times> string" where
  "override_key ov = (eo_ToolName ov, eo_BackendID ov)"

text \<open>The empty \<open>UserID\<close> is stored as NULL, and read back as empty.\<close>

definition override_merge :: "EnforcerOverrideRow \<Rightarrow> EnforcerOverrideRow \<Rightarrow> EnforcerOverrideRow" where
  "override_merge new old = old\<lparr>eo_RiskLevel := eo_RiskLevel new, eo_ImpactScope := eo_ImpactScope new,
     eo_ResourceCost := eo_ResourceCost new, eo_RequiresHITL := eo_RequiresHITL new,
     eo_PIIExposure := eo_PIIExposure new, eo_UserID := eo_UserID new, eo_UpdatedAt := eo_UpdatedAt new\<rparr>"

definition ES_UpsertOverride :: "EnforcerOverrideRow \<Rightarrow> db \<Rightarrow> goerr + db" where
  "ES_UpsertOverride override db = stmt ''UpsertOverride'' db
     (case upsert_row eo_ID override_key override_merge override (db_overrides db) of
        Inl err \<Rightarrow> Inl err | Inr t \<Rightarrow> Inr (db\<lparr>db_overrides := t\<rparr>))"

definition ES_GetOverride :: "string \<Rightarrow> string \<Rightarrow> db \<Rightarrow> goerr + EnforcerOverrideRow" where
  "ES_GetOverride toolName backendID db = stmt ''GetOverride'' db
     (query_row (\<lambda>ov. override_key ov = (toolName, backendID)) (db_overrides db))"

definition ES_ListOverrides :: "db \<Rightarrow> goerr + EnforcerOverrideRow list" where
  "ES_ListOverrides db = stmt ''ListOverrides'' db (Inr (order_by override_key (db_overrides db)))"

text \<open>\<open>user_id = ?\<close> is never true of NULL.\<close>

definition ES_ListUserOverrides :: "string \<Rightarrow> db \<Rightarrow> goerr + EnforcerOverrideRow list" where
  "ES_ListUserOverrides userID db = stmt ''ListUserOverrides'' db
     (Inr (order_by override_key (filter (\<lambda>ov. eo_UserID ov \<noteq> [] \<and> eo_UserID ov = userID) (db_overrides db))))"

definition ES_DeleteOverride :: "string \<Rightarrow> string \<Rightarrow> db \<Rightarrow> goerr + db" where
  "ES_DeleteOverride toolName backendID db = stmt ''DeleteOverride'' db
     (Inr (db\<lparr>db_overrides := delete_where (\<lambda>ov. eo_ToolName ov = toolName \<and> eo_BackendID ov = backendID) (db_overrides db)\<rparr>))"

section \<open>User rate limit overrides\<close>

definition user_override_key :: "UserRateLimitOverrideRow \<Rightarrow> string \<times> string \<times> string" where
  "user_override_key ov = (uo_UserID ov, uo_BackendID ov, uo_SetBy ov)"

definition user_override_merge ::
    "UserRateLimitOverrideRow \<Rightarrow> UserRateLimitOverrideRow \<Rightarrow> UserRateLimitOverrideRow" where
  "user_override_merge new old = old\<lparr>uo_RiskCapacity := uo_RiskCapacity new,
     uo_ResourceCapacity := uo_ResourceCapacity new, uo_CostMultiplier := uo_CostMultiplier new,
     uo_UpdatedAt := uo_UpdatedAt new\<rparr>"

definition ES_UpsertUserRateLimitOverride :: "gotime \<Rightarrow> UserRateLimitOverrideRow \<Rightarrow> db \<Rightarrow> goerr + db" where
  "ES_UpsertUserRateLimitOverride now override db =
     (let (override, db) = (if uo_ID override = [] then (let (rid, db) = generateID db in (override\<lparr>uo_ID := rid\<rparr>, db))
                            else (override, db));
          override = (if uo_CreatedAt override = 0 then override\<lparr>uo_CreatedAt := now\<rparr> else override);
          override = (if uo_UpdatedAt override = 0 then override\<lparr>uo_UpdatedAt := now\<rparr> else override);
          override = (if uo_SetBy override = [] then override\<lparr>uo_SetBy := ''user''\<rparr> else override)
      in stmt ''UpsertUserRateLimitOverride'' db
        (case upsert_row uo_ID user_override_key user_override_merge override (db_user_overrides db) of
           Inl err \<Rightarrow> Inl err | Inr t \<Rightarrow> Inr (db\<lparr>db_user_overrides := t\<rparr>)))"

definition ES_GetUserRateLimitOverride :: "string \<Rightarrow> string \<Rightarrow> db \<Rightarrow> goerr + UserRateLimitOverrideRow" where
  "ES_GetUserRateLimitOverride userID backendID db = stmt ''GetUserRateLimitOverride'' db
     (query_row (\<lambda>ov. uo_UserID ov = userID \<and> uo_BackendID ov = backendID) (db_user_overrides db))"

definition ES_ListUserRateLimitOverrides :: "string \<Rightarrow> db \<Rightarrow> goerr + UserRateLimitOverrideRow list" where
  "ES_ListUserRateLimitOverrides userID db = stmt ''ListUserRateLimitOverrides'' db
     (Inr (order_by uo_BackendID (filter (\<lambda>ov. uo_UserID ov = userID) (db_user_overrides db))))"

definition ES_ListAllRateLimitOverrides :: "db \<Rightarrow> goerr + UserRateLimitOverrideRow list" where
  "ES_ListAllRateLimitOverrides db = stmt ''ListAllRateLimitOverrides'' db
     (Inr (order_by (\<lambda>ov. (uo_UserID ov, uo_BackendID ov)) (db_user_overrides db)))"

definition ES_DeleteUserRateLimitOverride :: "string \<Rightarrow> string \<Rightarrow> db \<Rightarrow> goerr + db" where
  "ES_DeleteUserRateLimitOverride userID backendID db = stmt ''DeleteUserRateLimitOverride'' db
     (Inr (db\<lparr>db_user_overrides := delete_where (\<lambda>ov. uo_UserID ov = userID \<and> uo_BackendID ov = backendID)
        (db_user_overrides db)\<rparr>))"

section \<open>Call rates\<close>

text \<open>\<open>Time.Truncate\<close> rounds down to a multiple of the duration since the zero time, and returns
  the time itself for a duration that is not positive.\<close>

definition Truncate :: "gotime \<Rightarrow> duration \<Rightarrow> gotime" where
  "Truncate t d = (if d \<le> 0 then t else t - t mod d)"

definition rate_key :: "RateBucketRow \<Rightarrow> string \<times> string \<times> gotime" where
  "rate_key b = (rb_UserID b, rb_ToolName b, rb_WindowStart b)"

definition rate_merge :: "RateBucketRow \<Rightarrow> RateBucketRow \<Rightarrow> RateBucketRow" where
  "rate_merge new old = old\<lparr>rb_Count := rb_Count old + 1\<rparr>"

definition ES_IncrementRateBucket ::
    "gotime \<Rightarrow> (gotime \<Rightarrow> string) \<Rightarrow> string \<Rightarrow> string \<Rightarrow> duration \<Rightarrow> db \<Rightarrow> (goerr + int) \<times> db" where
  "ES_IncrementRateBucket now rfc3339 userID toolName windowDuration db =
     (let windowStart = Truncate now windowDuration;
          rid = userID @ ''|'' @ toolName @ ''|'' @ rfc3339 windowStart
      in case stmt ''IncrementRateBucket'' db
             (upsert_row rb_ID rate_key rate_merge
               \<lparr>rb_ID = rid, rb_UserID = userID, rb_ToolName = toolName, rb_WindowStart = windowStart, rb_Count = 1\<rparr>
               (db_rate_buckets db)) of
           Inl err \<Rightarrow> (Inl err, db)
         | Inr t \<Rightarrow>
             (stmt ''IncrementRateBucket.count'' db
               (case query_row (\<lambda>b. rate_key b = (userID, toolName, windowStart)) t of
                  Inl err \<Rightarrow> Inl err | Inr b \<Rightarrow> Inr (rb_Count b)),
              db\<lparr>db_rate_buckets := t\<rparr>))"

definition ES_GetCallRate :: "gotime \<Rightarrow> string \<Rightarrow> string \<Rightarrow> duration \<Rightarrow> db \<Rightarrow> goerr + int" where
  "ES_GetCallRate now userID toolName windowDuration db =
     (let windowStart = Truncate now windowDuration
      in case stmt ''GetCallRate'' db
             (query_row (\<lambda>b. rate_key b = (userID, toolName, windowStart)) (db_rate_buckets db)) of
           Inl ErrNoRows \<Rightarrow> Inr 0
         | Inl err \<Rightarrow> Inl err
         | Inr b \<Rightarrow> Inr (rb_Count b))"

definition ES_CleanupExpiredRateBuckets :: "gotime \<Rightarrow> duration \<Rightarrow> db \<Rightarrow> goerr + db" where
  "ES_CleanupExpiredRateBuckets now windowDuration db =
     (let cutoff = now - windowDuration
      in stmt ''CleanupExpiredRateBuckets'' db
        (Inr (db\<lparr>db_rate_buckets := delete_where (\<lambda>b. rb_WindowStart b < cutoff) (db_rate_buckets db)\<rparr>)))"

section \<open>Token buckets\<close>

definition bucket_types :: "string set" where
  "bucket_types = {''risk'', ''resource''}"

definition config_row_key :: "RateLimitBucketConfigRow \<Rightarrow> string \<times> string" where
  "config_row_key c = (rc_BackendID c, rc_BucketType c)"

definition config_row_merge ::
    "RateLimitBucketConfigRow \<Rightarrow> RateLimitBucketConfigRow \<Rightarrow> RateLimitBucketConfigRow" where
  "config_row_merge new old = old\<lparr>rc_Capacity := rc_Capacity new, rc_RefillRate := rc_RefillRate new,
     rc_UpdatedAt := rc_UpdatedAt new\<rparr>"

definition ES_ListRateLimitBucketConfigs :: "db \<Rightarrow> goerr + RateLimitBucketConfigRow list" where
  "ES_ListRateLimitBucketConfigs db = stmt ''ListRateLimitBucketConfigs'' db
     (Inr (order_by config_row_key (db_bucket_configs db)))"

definition ES_UpsertRateLimitBucketConfig :: "RateLimitBucketConfigRow \<Rightarrow> db \<Rightarrow> goerr + db" where
  "ES_UpsertRateLimitBucketConfig config db = stmt ''UpsertRateLimitBucketConfig'' db
     (if rc_BucketType config \<notin> bucket_types then Inl (ErrConstraint ''CHECK constraint failed'')
      else if rc_BackendID config \<notin> be_ID ` set (db_backends db)
      then Inl (ErrConstraint ''FOREIGN KEY constraint failed'')
      else case upsert_row rc_ID config_row_key config_row_merge config (db_bucket_configs db) of
             Inl err \<Rightarrow> Inl err | Inr t \<Rightarrow> Inr (db\<lparr>db_bucket_configs := t\<rparr>))"

definition state_row_key :: "RateLimitStateRow \<Rightarrow> string \<times> string \<times> string" where
  "state_row_key s = (rs_UserID s, rs_BackendID s, rs_BucketType s)"

definition state_row_merge :: "RateLimitStateRow \<Rightarrow> RateLimitStateRow \<Rightarrow> RateLimitStateRow" where
  "state_row_merge new old = old\<lparr>rs_CurrentLevel := rs_CurrentLevel new, rs_LastRefillAt := rs_LastRefillAt new\<rparr>"

definition ES_ListRateLimitStates :: "db \<Rightarrow> goerr + RateLimitStateRow list" where
  "ES_ListRateLimitStates db = stmt ''ListRateLimitStates'' db (Inr (db_rate_states db))"

definition ES_UpsertRateLimitState :: "RateLimitStateRow \<Rightarrow> db \<Rightarrow> goerr + db" where
  "ES_UpsertRateLimitState state db = stmt ''UpsertRateLimitState'' db
     (if rs_BucketType state \<notin> bucket_types then Inl (ErrConstraint ''CHECK constraint failed'')
      else if rs_UserID state \<notin> us_ID ` set (db_users db) \<or> rs_BackendID state \<notin> be_ID ` set (db_backends db)
      then Inl (ErrConstraint ''FOREIGN KEY constraint failed'')
      else case upsert_row rs_ID state_row_key state_row_merge state (db_rate_states db) of
             Inl err \<Rightarrow> Inl err | Inr t \<Rightarrow> Inr (db\<lparr>db_rate_states := t\<rparr>))"

section \<open>The tables keep their keys\<close>

interpretation profiles: keyed_table tp_ID profile_key profile_merge
  by unfold_locales (simp_all add: profile_key_def profile_merge_def)

interpretation overrides: keyed_table eo_ID override_key override_merge
  by unfold_locales (simp_all add: override_key_def override_merge_def)

interpretation user_overrides: keyed_table uo_ID user_override_key user_override_merge
  by unfold_locales (simp_all add: user_override_key_def user_override_merge_def)

interpretation rate_buckets: keyed_table rb_ID rate_key rate_merge
  by unfold_locales (simp_all add: rate_key_def rate_merge_def)

interpretation bucket_configs: keyed_table rc_ID config_row_key config_row_merge
  by unfold_locales (simp_all add: config_row_key_def config_row_merge_def)

interpretation rate_states: keyed_table rs_ID state_row_key state_row_merge
  by unfold_locales (simp_all add: state_row_key_def state_row_merge_def)

definition db_ok :: "db \<Rightarrow> bool" where
  "db_ok db \<longleftrightarrow>
     unique_on pr_ID (db_policies db) \<and> unique_on aq_ID (db_approvals db) \<and>
     unique_on ks_ID (db_kill_switches db) \<and> unique_on ks_Scope (db_kill_switches db) \<and>
     unique_on al_ID (db_audit_log db) \<and>
     unique_on tp_ID (db_tool_profiles db) \<and> unique_on profile_key (db_tool_profiles db) \<and>
     unique_on eo_ID (db_overrides db) \<and> unique_on override_key (db_overrides db) \<and>
     unique_on uo_ID (db_user_overrides db) \<and> unique_on user_override_key (db_user_overrides db) \<and>
     unique_on rb_ID (db_rate_buckets db) \<and> unique_on rate_key (db_rate_buckets db) \<and>
     unique_on rc_ID (db_bucket_configs db) \<and> unique_on config_row_key (db_bucket_configs db) \<and>
     unique_on rs_ID (db_rate_states db) \<and> unique_on state_row_key (db_rate_states db) \<and>
     (\<forall>r \<in> set (db_approvals db). aq_UserID r \<in> us_ID ` set (db_users db)) \<and>
     (\<forall>s \<in> set (db_rate_states db). rs_UserID s \<in> us_ID ` set (db_users db) \<and>
        rs_BackendID s \<in> be_ID ` set (db_backends db) \<and> rs_BucketType s \<in> bucket_types)"

text \<open>One write of the store.\<close>

inductive es_step :: "db \<Rightarrow> db \<Rightarrow> bool" where
  CreatePolicy: "ES_CreatePolicy p db = Inr db' \<Longrightarrow> es_step db db'"
| DeletePolicy: "ES_DeletePolicy i db = Inr db' \<Longrightarrow> es_step db db'"
| UpdatePolicy: "ES_UpdatePolicy p db = Inr db' \<Longrightarrow> es_step db db'"
| CreateApproval: "ES_CreateApprovalRequest r db = Inr db' \<Longrightarrow> es_step db db'"
| MarkExecuting: "ES_MarkExecuting i db = Inr db' \<Longrightarrow> es_step db db'"
| MarkCompleted: "ES_MarkCompleted now i st body db = Inr db' \<Longrightarrow> es_step db db'"
| MarkFailed: "ES_MarkFailed now i msg db = Inr db' \<Longrightarrow> es_step db db'"
| Approve: "ES_ApproveRequest now i u c db = Inr db' \<Longrightarrow> es_step db db'"
| Deny: "ES_DenyRequest now i u c db = Inr db' \<Longrightarrow> es_step db db'"
| CleanupExpired: "ES_CleanupExpiredApprovals now db = Inr db' \<Longrightarrow> es_step db db'"
| CleanupOld: "ES_CleanupOldApprovals now d db = Inr db' \<Longrightarrow> es_step db db'"
| EnableKill: "ES_EnableKillSwitch now sc u rsn db = Inr db' \<Longrightarrow> es_step db db'"
| DisableKill: "ES_DisableKillSwitch now sc db = Inr db' \<Longrightarrow> es_step db db'"
| AuditEvent: "ES_LogAuditEvent now mar rq u t a pol msg ctx j args db = Inr db' \<Longrightarrow> es_step db db'"
| AuditRejection: "ES_LogAuditRejection now rq u t j rsn db = Inr db' \<Longrightarrow> es_step db db'"
| UpsertProfile: "ES_UpsertToolProfile pf db = Inr db' \<Longrightarrow> es_step db db'"
| UpsertOverride: "ES_UpsertOverride ov db = Inr db' \<Longrightarrow> es_step db db'"
| DeleteOverride: "ES_DeleteOverride t b db = Inr db' \<Longrightarrow> es_step db db'"
| UpsertUserOverride: "ES_UpsertUserRateLimitOverride now uo db = Inr db' \<Longrightarrow> es_step db db'"
| DeleteUserOverride: "ES_DeleteUserRateLimitOverride u b db = Inr db' \<Longrightarrow> es_step db db'"
| IncrementRate: "ES_IncrementRateBucket now fmt u t d db = (res, db') \<Longrightarrow> es_step db db'"
| CleanupRate: "ES_CleanupExpiredRateBuckets now d db = Inr db' \<Longrightarrow> es_step db db'"
| UpsertConfig: "ES_UpsertRateLimitBucketConfig c db = Inr db' \<Longrightarrow> es_step db db'"
| UpsertState: "ES_UpsertRateLimitState st db = Inr db' \<Longrightarrow> es_step db db'"

inductive es_reachable :: "db \<Rightarrow> db \<Rightarrow> bool" for db0 where
  start: "es_reachable db0 db0"
| step: "es_reachable db0 db \<Longrightarrow> es_step db db' \<Longrightarrow> es_reachable db0 db'"

lemma unique_on_update_where: "(\<And>x. f (g x) = f x) \<Longrightarrow> unique_on f (update_where P g t) = unique_on f t"
  unfolding update_where_def by (rule unique_on_map) simp

lemma unique_on_delete_where: "unique_on f t \<Longrightarrow> unique_on f (delete_where P t)"
  by (simp add: delete_where_def unique_on_filter)

lemma unique_on_update_pk:
  assumes "\<And>x. P x \<Longrightarrow> f (g x) = f x"
  shows "unique_on f (update_where P g t) = unique_on f t"
  unfolding update_where_def by (rule unique_on_map) (simp add: assms)

lemma insert_row_InrD: "insert_row pk r t = Inr t' \<Longrightarrow> t' = t @ [r] \<and> pk r \<notin> pk ` set t"
  by (auto simp: insert_row_def split: if_splits)

lemma insert_row_unique: "insert_row pk r t = Inr t' \<Longrightarrow> unique_on pk t \<Longrightarrow> unique_on pk t'"
  by (auto dest: insert_row_InrD simp: unique_on_snoc)

lemma db_sum_case_InrD:
  "(case x of Inl err \<Rightarrow> Inl err | Inr t \<Rightarrow> Inr (f t)) = Inr y \<Longrightarrow> \<exists>t. x = Inr t \<and> y = f t"
  by (auto split: sum.splits)

lemmas table_unique = profiles.upsert_unique overrides.upsert_unique user_overrides.upsert_unique
  rate_buckets.upsert_unique bucket_configs.upsert_unique rate_states.upsert_unique insert_row_unique
  unique_on_replace_row unique_on_delete_where

lemma upsert_rows:
  assumes "upsert_row pk key merge r t = Inr t'" and "s \<in> set t'"
  shows "s = r \<or> s \<in> set t \<or> (\<exists>old \<in> set t. key old = key r \<and> s = merge r old)"
  using assms by (auto simp: upsert_row_def insert_row_def split: if_splits)

lemma set_approval_ok:
  assumes "db_ok db" and "\<And>r. aq_ID (f r) = aq_ID r" and "\<And>r. aq_UserID (f r) = aq_UserID r"
  shows "db_ok (set_approval i f db)"
  using assms by (auto simp: db_ok_def set_approval_def unique_on_update_where in_update_where)

lemma policy_steps_ok:
  "ES_CreatePolicy p db = Inr db' \<Longrightarrow> db_ok db \<Longrightarrow> db_ok db'"
  "ES_DeletePolicy i db = Inr db' \<Longrightarrow> db_ok db \<Longrightarrow> db_ok db'"
  "ES_UpdatePolicy p db = Inr db' \<Longrightarrow> db_ok db \<Longrightarrow> db_ok db'"
  by (auto simp: ES_CreatePolicy_def ES_DeletePolicy_def ES_UpdatePolicy_def db_ok_def
      unique_on_update_where
      dest!: stmt_InrD db_sum_case_InrD intro: table_unique)

lemma approval_steps_ok:
  "ES_CreateApprovalRequest r db = Inr db' \<Longrightarrow> db_ok db \<Longrightarrow> db_ok db'"
  "ES_MarkExecuting i db = Inr db' \<Longrightarrow> db_ok db \<Longrightarrow> db_ok db'"
  "ES_MarkCompleted now i st body db = Inr db' \<Longrightarrow> db_ok db \<Longrightarrow> db_ok db'"
  "ES_MarkFailed now i msg db = Inr db' \<Longrightarrow> db_ok db \<Longrightarrow> db_ok db'"
  "ES_ApproveRequest now i u c db = Inr db' \<Longrightarrow> db_ok db \<Longrightarrow> db_ok db'"
  "ES_DenyRequest now i u c db = Inr db' \<Longrightarrow> db_ok db \<Longrightarrow> db_ok db'"
  "ES_CleanupExpiredApprovals now db = Inr db' \<Longrightarrow> db_ok db \<Longrightarrow> db_ok db'"
  "ES_CleanupOldApprovals now d db = Inr db' \<Longrightarrow> db_ok db \<Longrightarrow> db_ok db'"
proof -
  assume "ES_CreateApprovalRequest r db = Inr db'" and "db_ok db"
  then show "db_ok db'"
    unfolding ES_CreateApprovalRequest_def
    by (auto simp: db_ok_def insert_row_def unique_on_snoc dest!: stmt_InrD split: if_splits)
next
  assume "ES_CleanupExpiredApprovals now db = Inr db'" and "db_ok db"
  then show "db_ok db'"
    by (auto simp: ES_CleanupExpiredApprovals_def db_ok_def unique_on_update_where in_update_where dest!: stmt_InrD)
next
  assume "ES_CleanupOldApprovals now d db = Inr db'" and "db_ok db"
  then show "db_ok db'"
    by (auto simp: ES_CleanupOldApprovals_def Let_def db_ok_def unique_on_delete_where dest!: stmt_InrD)
qed (auto simp: ES_MarkExecuting_def ES_MarkCompleted_def ES_MarkFailed_def ES_ApproveRequest_def
      ES_DenyRequest_def dest!: stmt_InrD intro!: set_approval_ok)

lemma switch_steps_ok:
  "ES_EnableKillSwitch now sc u rsn db = Inr db' \<Longrightarrow> db_ok db \<Longrightarrow> db_ok db'"
  "ES_DisableKillSwitch now sc db = Inr db' \<Longrightarrow> db_ok db \<Longrightarrow> db_ok db'"
  by (auto simp: ES_EnableKillSwitch_def ES_DisableKillSwitch_def generateID_def db_ok_def
      unique_on_update_where dest!: stmt_InrD intro: unique_on_replace_row)

lemma audit_steps_ok:
  "ES_LogAuditEvent now mar rq u t a pol msg ctx j args db = Inr db' \<Longrightarrow> db_ok db \<Longrightarrow> db_ok db'"
  "ES_LogAuditRejection now rq u t j rsn db = Inr db' \<Longrightarrow> db_ok db \<Longrightarrow> db_ok db'"
  by (auto simp: ES_LogAuditEvent_def ES_LogAuditRejection_def generateID_def Let_def db_ok_def
      dest!: stmt_InrD db_sum_case_InrD split: if_splits intro: insert_row_unique)

lemma profile_steps_ok:
  "ES_UpsertToolProfile pf db = Inr db' \<Longrightarrow> db_ok db \<Longrightarrow> db_ok db'"
  "ES_UpsertOverride ov db = Inr db' \<Longrightarrow> db_ok db \<Longrightarrow> db_ok db'"
  "ES_DeleteOverride t b db = Inr db' \<Longrightarrow> db_ok db \<Longrightarrow> db_ok db'"
  by (auto simp: ES_UpsertToolProfile_def ES_UpsertOverride_def ES_DeleteOverride_def db_ok_def
      dest!: stmt_InrD db_sum_case_InrD intro: table_unique)

text \<open>An upsert of user overrides writes one row into that table, whatever defaults it fills in.\<close>

lemma user_override_upsertD:
  assumes "ES_UpsertUserRateLimitOverride now uo db = Inr db'"
  obtains row t n where "upsert_row uo_ID user_override_key user_override_merge row (db_user_overrides db) = Inr t"
    and "db' = db\<lparr>db_next := n, db_user_overrides := t\<rparr>"
proof -
  define r where "r = (if uo_ID uo = [] then uo\<lparr>uo_ID := db_ids db (db_next db)\<rparr> else uo)"
  define n where "n = (if uo_ID uo = [] then Suc (db_next db) else db_next db)"
  have "(if uo_ID uo = [] then (let (id, db) = generateID db in (uo\<lparr>uo_ID := id\<rparr>, db)) else (uo, db)) =
      (r, db\<lparr>db_next := n\<rparr>)"
    by (simp add: r_def n_def generateID_def)
  with assms show thesis
    unfolding ES_UpsertUserRateLimitOverride_def by (auto simp: Let_def intro: that dest!: stmt_InrD db_sum_case_InrD)
qed

lemma user_override_steps_ok:
  "ES_UpsertUserRateLimitOverride now uo db = Inr db' \<Longrightarrow> db_ok db \<Longrightarrow> db_ok db'"
  "ES_DeleteUserRateLimitOverride u b db = Inr db' \<Longrightarrow> db_ok db \<Longrightarrow> db_ok db'"
  by (auto simp: db_ok_def ES_DeleteUserRateLimitOverride_def unique_on_delete_where
      elim!: user_override_upsertD dest!: stmt_InrD dest: user_overrides.upsert_unique)

lemma increment_step_ok:
  assumes "ES_IncrementRateBucket now fmt u t d db = (res, db')" and "db_ok db"
  shows "db_ok db'"
proof -
  have "db' = db \<or> (\<exists>row ts. upsert_row rb_ID rate_key rate_merge row (db_rate_buckets db) = Inr ts \<and>
      db' = db\<lparr>db_rate_buckets := ts\<rparr>)"
    using assms(1) by (auto simp: ES_IncrementRateBucket_def Let_def dest!: stmt_InrD split: sum.splits)
  with assms(2) show ?thesis by (auto simp: db_ok_def rate_buckets.upsert_unique)
qed

lemma rate_steps_ok:
  "ES_CleanupExpiredRateBuckets now d db = Inr db' \<Longrightarrow> db_ok db \<Longrightarrow> db_ok db'"
  "ES_UpsertRateLimitBucketConfig c db = Inr db' \<Longrightarrow> db_ok db \<Longrightarrow> db_ok db'"
  by (auto simp: ES_CleanupExpiredRateBuckets_def ES_UpsertRateLimitBucketConfig_def Let_def db_ok_def
      unique_on_delete_where bucket_configs.upsert_unique
      dest!: stmt_InrD db_sum_case_InrD split: if_splits)

lemma state_step_ok:
  assumes "ES_UpsertRateLimitState st db = Inr db'" and "db_ok db"
  shows "db_ok db'"
proof -
  obtain t where t: "upsert_row rs_ID state_row_key state_row_merge st (db_rate_states db) = Inr t"
    and db': "db' = db\<lparr>db_rate_states := t\<rparr>"
    and st: "rs_UserID st \<in> us_ID ` set (db_users db)" "rs_BackendID st \<in> be_ID ` set (db_backends db)"
      "rs_BucketType st \<in> bucket_types"
    using assms(1) unfolding ES_UpsertRateLimitState_def
    by (auto dest!: stmt_InrD db_sum_case_InrD split: if_splits)
  have "rs_UserID s \<in> us_ID ` set (db_users db) \<and> rs_BackendID s \<in> be_ID ` set (db_backends db) \<and>
      rs_BucketType s \<in> bucket_types" if "s \<in> set t" for s
    using upsert_rows [OF t that] assms(2) st by (auto simp: db_ok_def state_row_merge_def)
  with assms(2) t show ?thesis
    by (simp add: db' db_ok_def rate_states.upsert_unique)
qed

lemma es_step_ok: "es_step db db' \<Longrightarrow> db_ok db \<Longrightarrow> db_ok db'"
  by (erule es_step.cases) (simp_all only: policy_steps_ok approval_steps_ok switch_steps_ok audit_steps_ok
      profile_steps_ok user_override_steps_ok increment_step_ok rate_steps_ok state_step_ok)

text \<open>whatever sequence of writes the enforcer issues, every table keeps its primary key and its
  unique key, and approvals and bucket states always belong to users and backends that exist.\<close>

theorem es_reachable_ok:
  assumes "es_reachable db0 db" and "db_ok db0"
  shows "db_ok db"
  using assms by (induction rule: es_reachable.induct) (auto intro: es_step_ok)

lemma empty_db_ok: "db_ok empty_db"
  by (simp add: db_ok_def empty_db_def)

theorem es_reachable_ok_witness:
  "\<exists>db. ES_EnableKillSwitch 5 ''global'' ''u'' ''r'' empty_db = Inr db \<and> es_reachable empty_db db \<and> db_ok db"
proof -
  obtain db where db: "ES_EnableKillSwitch 5 ''global'' ''u'' ''r'' empty_db = Inr db"
    by (simp add: ES_EnableKillSwitch_def generateID_def)
  then have "es_reachable empty_db db"
    by (blast intro: es_reachable.intros es_step.EnableKill)
  with db es_reachable_ok [OF _ empty_db_ok] show ?thesis by blast
qed

section \<open>Kill switches, once and for both places they live in\<close>

text \<open>A board of switches: the table of the store and the map of the enforcer are both one. A scope is
  stopped when its own switch or the global one is on.\<close>

locale switch_board =
  fixes enable disable :: "string \<Rightarrow> 's \<Rightarrow> 's" and on :: "'s \<Rightarrow> string \<Rightarrow> bool" and ok :: "'s \<Rightarrow> bool"
  assumes on_enable: "ok s \<Longrightarrow> on (enable sc s) sc' \<longleftrightarrow> sc' = sc \<or> on s sc'"
    and on_disable: "ok s \<Longrightarrow> on (disable sc s) sc' \<longleftrightarrow> sc' \<noteq> sc \<and> on s sc'"
    and ok_enable: "ok s \<Longrightarrow> ok (enable sc s)"
    and ok_disable: "ok s \<Longrightarrow> ok (disable sc s)"
begin

lemma scopes_enable: "ok s \<Longrightarrow> Collect (on (enable sc s)) = insert sc (Collect (on s))"
  by (auto simp: on_enable)

lemma scopes_disable: "ok s \<Longrightarrow> Collect (on (disable sc s)) = Collect (on s) - {sc}"
  by (auto simp: on_disable)

lemma last_wins:
  "ok s \<Longrightarrow> on (disable sc (enable sc s)) sc' \<longleftrightarrow> sc' \<noteq> sc \<and> on s sc'"
  by (auto simp: on_enable on_disable ok_enable)

end

definition switch_on :: "db \<Rightarrow> string \<Rightarrow> bool" where
  "switch_on db scope \<longleftrightarrow> (\<exists>k \<in> set (db_kill_switches db). ks_Scope k = scope \<and> ks_Enabled k)"

text \<open>No statement fails, and the supply never repeats an identifier in the table.\<close>

definition switches_ok :: "db \<Rightarrow> bool" where
  "switches_ok db \<longleftrightarrow> fault_free db \<and> inj (db_ids db) \<and>
     ks_ID ` set (db_kill_switches db) \<subseteq> db_ids db ` {..<db_next db}"

definition enabled_db :: "gotime \<Rightarrow> string \<Rightarrow> string \<Rightarrow> string \<Rightarrow> db \<Rightarrow> db" where
  "enabled_db now u rsn sc db = (case ES_EnableKillSwitch now sc u rsn db of Inl _ \<Rightarrow> db | Inr db' \<Rightarrow> db')"

definition disabled_db :: "gotime \<Rightarrow> string \<Rightarrow> db \<Rightarrow> db" where
  "disabled_db now sc db = (case ES_DisableKillSwitch now sc db of Inl _ \<Rightarrow> db | Inr db' \<Rightarrow> db')"

lemma switch_count_pos: "0 < switch_count scope db \<longleftrightarrow> switch_on db scope"
  by (auto simp: switch_count_def switch_on_def count_rows_def filter_empty_conv length_greater_0_conv
      simp del: length_greater_0_conv)

lemma IsKillSwitchActive_ok:
  "fault_free db \<Longrightarrow> ES_IsKillSwitchActive sc db = Inr (switch_on db sc \<or> switch_on db ''global'')"
  by (simp add: ES_IsKillSwitchActive_def switch_count_pos)

lemma fresh_switch_id:
  assumes "switches_ok db" and "k \<in> set (db_kill_switches db)"
  shows "ks_ID k \<noteq> db_ids db (db_next db)"
proof -
  have "ks_ID k \<in> db_ids db ` {..<db_next db}"
    using assms unfolding switches_ok_def by blast
  then obtain n where n: "n < db_next db" "ks_ID k = db_ids db n" by blast
  have "inj (db_ids db)" using assms(1) unfolding switches_ok_def by blast
  with n show ?thesis by (simp add: inj_eq)
qed

interpretation store_switches: switch_board "enabled_db now u rsn" "disabled_db now" switch_on switches_ok
proof
  fix s sc sc'
  assume s: "switches_ok s"
  then have ff: "fault_free s" by (simp add: switches_ok_def)
  show "switch_on (enabled_db now u rsn sc s) sc' \<longleftrightarrow> sc' = sc \<or> switch_on s sc'"
    using ff fresh_switch_id [OF s]
    by (auto simp: enabled_db_def ES_EnableKillSwitch_def generateID_def switch_on_def replace_row_def)
  show "switch_on (disabled_db now sc s) sc' \<longleftrightarrow> sc' \<noteq> sc \<and> switch_on s sc'"
    using ff by (simp add: disabled_db_def ES_DisableKillSwitch_def switch_on_def update_where_def) auto
  show "switches_ok (enabled_db now u rsn sc s)"
    using s ff by (auto simp: enabled_db_def ES_EnableKillSwitch_def generateID_def switches_ok_def
        fault_free_def replace_row_def lessThan_Suc)
  show "switches_ok (disabled_db now sc s)"
    using s ff by (force simp: disabled_db_def ES_DisableKillSwitch_def switches_ok_def fault_free_def in_update_where)
qed

interpretation memory_switches: switch_board "\<lambda>sc m. AList.update sc True m" AList.delete
    "\<lambda>m sc. map_of m sc = Some True" "\<lambda>_. True"
  by unfold_locales (auto simp: gomap_simps)

text \<open>C28: after a kill switch is enabled in the store its scope is reported active, and every scope is when
  it is the global one; disabling a switch re-opens its scope unless the global switch is on. Other scopes
  keep their state.\<close>

theorem kill_switch_store:
  assumes "switches_ok db"
  shows "ES_IsKillSwitchActive sc' (enabled_db now u rsn sc db) =
      Inr (sc' = sc \<or> sc = ''global'' \<or> switch_on db sc' \<or> switch_on db ''global'') \<and>
    ES_IsKillSwitchActive sc' (disabled_db now sc db) =
      Inr (sc' \<noteq> sc \<and> switch_on db sc' \<or> sc \<noteq> ''global'' \<and> switch_on db ''global'')"
proof
  have "fault_free (enabled_db now u rsn sc db)" and "fault_free (disabled_db now sc db)"
    using store_switches.ok_enable [OF assms] store_switches.ok_disable [OF assms]
    by (simp_all add: switches_ok_def)
  then show "ES_IsKillSwitchActive sc' (enabled_db now u rsn sc db) =
      Inr (sc' = sc \<or> sc = ''global'' \<or> switch_on db sc' \<or> switch_on db ''global'')"
    and "ES_IsKillSwitchActive sc' (disabled_db now sc db) =
      Inr (sc' \<noteq> sc \<and> switch_on db sc' \<or> sc \<noteq> ''global'' \<and> switch_on db ''global'')"
    using assms by (auto simp: IsKillSwitchActive_ok store_switches.on_enable store_switches.on_disable)
qed

definition sample_db :: db where
  "sample_db = empty_db\<lparr>db_ids := (\<lambda>n. replicate n (CHR ''x''))\<rparr>"

lemma sample_db_ok [simp]: "switches_ok sample_db" "fault_free sample_db"
  by (auto simp: switches_ok_def fault_free_def sample_db_def empty_db_def inj_def replicate_eq_replicate)

theorem kill_switch_store_witness:
  "ES_IsKillSwitchActive ''slack'' (enabled_db 7 ''u'' ''r'' ''global'' sample_db) = Inr True"
  using kill_switch_store [of sample_db "''slack''" 7 "''u''" "''r''" "''global''"] by simp

section \<open>What reads see of writes\<close>

text \<open>the profile stored for a tool is the one a lookup returns, and the profiles of all other tools
  are unchanged; only the identifier of an existing row survives the update.\<close>

theorem profile_roundtrip:
  assumes "ES_UpsertToolProfile p db = Inr db'" and "db_ok db" and "fault_free db"
  shows "(\<exists>i. ES_GetToolProfile (tp_BackendID p) (tp_ToolName p) db' = Inr (p\<lparr>tp_ID := i\<rparr>)) \<and>
    (\<forall>b t. (b, t) \<noteq> (tp_BackendID p, tp_ToolName p) \<longrightarrow> ES_GetToolProfile b t db' = ES_GetToolProfile b t db)"
proof -
  obtain t where t: "upsert_row tp_ID profile_key profile_merge p (db_tool_profiles db) = Inr t"
    and db': "db' = db\<lparr>db_tool_profiles := t\<rparr>"
    using assms(1,3) by (auto simp: ES_UpsertToolProfile_def dest!: db_sum_case_InrD)
  have merge: "profile_key old = profile_key p \<Longrightarrow> profile_merge p old = p\<lparr>tp_ID := tp_ID old\<rparr>" for old
    by (cases p, cases old) (simp add: profile_key_def profile_merge_def)
  have "unique_on profile_key (db_tool_profiles db)" using assms(2) by (simp add: db_ok_def)
  from profiles.upsert_lookup [OF t this]
  have "\<exists>i. query_row (\<lambda>x. profile_key x = profile_key p) t = Inr (p\<lparr>tp_ID := i\<rparr>)"
  proof (cases "query_row (\<lambda>x. profile_key x = profile_key p) (db_tool_profiles db)")
    case (Inl e)
    moreover have "p = p\<lparr>tp_ID := tp_ID p\<rparr>" by simp
    ultimately show ?thesis using profiles.upsert_lookup [OF t \<open>unique_on profile_key _\<close>] by (metis old.sum.simps(5))
  next
    case (Inr old)
    then have "profile_merge p old = p\<lparr>tp_ID := tp_ID old\<rparr>" using merge query_row_SomeD [OF Inr] by blast
    with Inr profiles.upsert_lookup [OF t \<open>unique_on profile_key _\<close>] show ?thesis by auto
  qed
  moreover have "query_row (\<lambda>x. profile_key x = k) t = query_row (\<lambda>x. profile_key x = k) (db_tool_profiles db)"
    if "k \<noteq> profile_key p" for k
    using profiles.upsert_other [OF t that] .
  ultimately show ?thesis using assms(3) by (simp add: ES_GetToolProfile_def db' profile_key_def [of p])
qed

definition sample_profile :: ToolProfileRow where
  "sample_profile = \<lparr>tp_ID = ''1'', tp_BackendID = ''slack'', tp_ToolName = ''post'', tp_RiskLevel = ''high'',
     tp_ImpactScope = ''write'', tp_ResourceCost = 5, tp_RequiresHITL = False, tp_PIIExposure = False,
     tp_Idempotent = False, tp_RawProfile = ''{}'', tp_ScannedAt = 3\<rparr>"

theorem profile_roundtrip_witness:
  "\<exists>db' i. ES_UpsertToolProfile sample_profile empty_db = Inr db' \<and>
     ES_GetToolProfile ''slack'' ''post'' db' = Inr (sample_profile\<lparr>tp_ID := i\<rparr>)"
proof -
  obtain db' where db': "ES_UpsertToolProfile sample_profile empty_db = Inr db'"
    by (simp add: ES_UpsertToolProfile_def upsert_row_def insert_row_def empty_db_def fault_free_def stmt_def)
  from profile_roundtrip [OF this empty_db_ok] db' show ?thesis by (auto simp: sample_profile_def)
qed

text \<open>tool overrides are keyed by tool and backend alone, so storing a personal override for a tool
  that has one, whoever owns it, takes the row over: the previous owner no longer has an override.\<close>

theorem override_takes_row_over:
  assumes "ES_UpsertOverride new db = Inr db'" and "db_ok db" and "fault_free db"
    and "ES_GetOverride (eo_ToolName new) (eo_BackendID new) db = Inr old" and "eo_UserID old \<noteq> eo_UserID new"
  shows "\<exists>row. ES_GetOverride (eo_ToolName new) (eo_BackendID new) db' = Inr row \<and> eo_UserID row = eo_UserID new \<and>
    eo_ID row = eo_ID old \<and>
    (\<forall>o' \<in> set (db_overrides db'). override_key o' = override_key new \<longrightarrow> eo_UserID o' \<noteq> eo_UserID old)"
proof -
  obtain t where t: "upsert_row eo_ID override_key override_merge new (db_overrides db) = Inr t"
    and db': "db' = db\<lparr>db_overrides := t\<rparr>"
    using assms(1,3) by (auto simp: ES_UpsertOverride_def dest!: db_sum_case_InrD)
  have u: "unique_on override_key (db_overrides db)" "unique_on eo_ID (db_overrides db)"
    using assms(2) by (simp_all add: db_ok_def)
  have old: "query_row (\<lambda>x. override_key x = override_key new) (db_overrides db) = Inr old"
    using assms(3,4) by (simp add: ES_GetOverride_def override_key_def)
  have row: "query_row (\<lambda>x. override_key x = override_key new) t = Inr (override_merge new old)"
    using overrides.upsert_lookup [OF t u(1)] by (simp add: old)
  have "eo_UserID o' = eo_UserID new" if "o' \<in> set t" "override_key o' = override_key new" for o'
    using unique_on_eq [OF overrides.upsert_unique(2) [OF t u(2) u(1)] that(1)] that(2) query_row_SomeD [OF row]
    by (auto simp: override_merge_def)
  moreover have "eo_UserID (override_merge new old) = eo_UserID new" "eo_ID (override_merge new old) = eo_ID old"
    by (simp_all add: override_merge_def)
  ultimately show ?thesis using row assms(3,5)
    by (auto simp: ES_GetOverride_def db' override_key_def [of new])
qed

definition sample_override :: "string \<Rightarrow> string \<Rightarrow> EnforcerOverrideRow" where
  "sample_override i u = \<lparr>eo_ID = i, eo_ToolName = ''post'', eo_BackendID = ''slack'', eo_RiskLevel = ''high'',
     eo_ImpactScope = ''write'', eo_ResourceCost = 5, eo_RequiresHITL = True, eo_PIIExposure = False,
     eo_UserID = u, eo_CreatedAt = 1, eo_UpdatedAt = 1\<rparr>"

definition override_db :: db where
  "override_db = empty_db\<lparr>db_overrides := [sample_override ''1'' []]\<rparr>"

theorem override_takes_row_over_witness:
  "\<exists>db' row. ES_UpsertOverride (sample_override ''2'' ''bob'') override_db = Inr db' \<and>
     ES_GetOverride ''post'' ''slack'' db' = Inr row \<and> eo_UserID row = ''bob''"
proof -
  have ok: "db_ok override_db" and ff: "fault_free override_db"
    using empty_db_ok by (simp_all add: override_db_def db_ok_def unique_on_def)
  obtain db' where db': "ES_UpsertOverride (sample_override ''2'' ''bob'') override_db = Inr db'"
    using ff by (simp add: ES_UpsertOverride_def upsert_row_def override_db_def override_key_def sample_override_def)
  have "ES_GetOverride ''post'' ''slack'' override_db = Inr (sample_override ''1'' [])"
    using ff by (simp add: ES_GetOverride_def override_db_def query_row_def override_key_def sample_override_def)
  with override_takes_row_over [OF db' ok ff] db' show ?thesis by (fastforce simp: sample_override_def)
qed

lemma get_after_set_approval:
  assumes "unique_on aq_ID (db_approvals db)" and "query_row (\<lambda>r. aq_ID r = i) (db_approvals db) = Inr r"
    and "\<And>x. aq_ID (f x) = aq_ID x"
  shows "query_row (\<lambda>r. aq_ID r = i) (db_approvals (set_approval i f db)) = Inr (f r)"
proof -
  have r: "r \<in> set (db_approvals db)" "aq_ID r = i" using query_row_SomeD [OF assms(2)] by auto
  then have "f r \<in> set (db_approvals (set_approval i f db))"
    unfolding set_approval_def by (simp add: in_update_where) (metis assms(3))
  moreover have "unique_on aq_ID (db_approvals (set_approval i f db))"
    using assms by (simp add: set_approval_def unique_on_update_where)
  ultimately show ?thesis
    using query_row_unique [of aq_ID _ "f r" "\<lambda>r. aq_ID r = i"] by (simp add: assms(3) r)
qed

text \<open>The identifiers of the buckets, which are rendered from the key, do not clash.\<close>

definition rate_ids_ok :: "(gotime \<Rightarrow> string) \<Rightarrow> string \<Rightarrow> string \<Rightarrow> gotime \<Rightarrow> db \<Rightarrow> bool" where
  "rate_ids_ok rfc3339 u t w db \<longleftrightarrow> (\<forall>b \<in> set (db_rate_buckets db).
     rb_ID b = u @ ''|'' @ t @ ''|'' @ rfc3339 w \<longrightarrow> rate_key b = (u, t, w))"

lemma GetCallRate_query:
  "fault_free db \<Longrightarrow> ES_GetCallRate now u t d db =
     (case query_row (\<lambda>b. rate_key b = (u, t, Truncate now d)) (db_rate_buckets db) of
        Inl _ \<Rightarrow> Inr 0 | Inr b \<Rightarrow> Inr (rb_Count b))"
proof (cases "query_row (\<lambda>b. rate_key b = (u, t, Truncate now d)) (db_rate_buckets db)")
  case (Inl e)
  moreover from this have "e = ErrNoRows" by (simp add: query_row_None)
  ultimately show "fault_free db \<Longrightarrow> ?thesis" by (simp add: ES_GetCallRate_def Let_def)
qed (simp add: ES_GetCallRate_def Let_def)

text \<open>counting a call returns one more than the rate of the current window, and leaves the rate of
  every other user, tool and window as it is.\<close>

theorem rate_window_counts:
  assumes "db_ok db" and "fault_free db" and "rate_ids_ok fmt u t (Truncate now d) db"
  shows "\<exists>n db'. ES_GetCallRate now u t d db = Inr n \<and>
    ES_IncrementRateBucket now fmt u t d db = (Inr (n + 1), db') \<and>
    ES_GetCallRate now u t d db' = Inr (n + 1) \<and>
    (\<forall>u' t' now'. (u', t', Truncate now' d) \<noteq> (u, t, Truncate now d) \<longrightarrow>
       ES_GetCallRate now' u' t' d db' = ES_GetCallRate now' u' t' d db)"
proof -
  let ?k = "(u, t, Truncate now d)"
  let ?row = "\<lparr>rb_ID = u @ ''|'' @ t @ ''|'' @ fmt (Truncate now d), rb_UserID = u, rb_ToolName = t,
    rb_WindowStart = Truncate now d, rb_Count = 1\<rparr>"
  have k: "rate_key ?row = ?k" by (simp add: rate_key_def)
  obtain ts where ts: "upsert_row rb_ID rate_key rate_merge ?row (db_rate_buckets db) = Inr ts"
  proof -
    have "rb_ID ?row \<notin> rb_ID ` set (db_rate_buckets db)" if "?k \<notin> rate_key ` set (db_rate_buckets db)"
    proof
      assume "rb_ID ?row \<in> rb_ID ` set (db_rate_buckets db)"
      then obtain b where "b \<in> set (db_rate_buckets db)" and "rb_ID b = rb_ID ?row" by (metis imageE)
      with assms(3) have "rate_key b = ?k" by (simp add: rate_ids_ok_def)
      with \<open>b \<in> set _\<close> that show False by (metis imageI)
    qed
    then have "\<exists>ts. upsert_row rb_ID rate_key rate_merge ?row (db_rate_buckets db) = Inr ts"
      unfolding upsert_row_def insert_row_def k by simp
    with that show thesis by blast
  qed
  define n where "n = (case query_row (\<lambda>b. rate_key b = ?k) (db_rate_buckets db) of Inl _ \<Rightarrow> 0 | Inr b \<Rightarrow> rb_Count b)"
  have u: "unique_on rate_key (db_rate_buckets db)" using assms(1) by (simp add: db_ok_def)
  obtain b where b: "query_row (\<lambda>b. rate_key b = ?k) ts = Inr b" "rb_Count b = n + 1"
    using rate_buckets.upsert_lookup [OF ts u] unfolding k n_def
    by (auto simp: rate_merge_def split: sum.splits)
  have "ES_GetCallRate now u t d db = Inr n"
    using assms(2) by (simp add: GetCallRate_query n_def split: sum.splits)
  moreover have "ES_IncrementRateBucket now fmt u t d db = (Inr (n + 1), db\<lparr>db_rate_buckets := ts\<rparr>)"
    using assms(2) ts b by (simp add: ES_IncrementRateBucket_def Let_def)
  moreover have "ES_GetCallRate now u t d (db\<lparr>db_rate_buckets := ts\<rparr>) = Inr (n + 1)"
    using assms(2) b by (simp add: GetCallRate_query)
  moreover have "ES_GetCallRate now' u' t' d (db\<lparr>db_rate_buckets := ts\<rparr>) = ES_GetCallRate now' u' t' d db"
    if "(u', t', Truncate now' d) \<noteq> ?k" for u' t' now'
    using rate_buckets.upsert_other [OF ts, unfolded k, OF that] assms(2) by (simp add: GetCallRate_query)
  ultimately show ?thesis by blast
qed

theorem rate_window_counts_witness:
  "\<exists>n db'. ES_GetCallRate 65 ''u'' ''t'' 60 empty_db = Inr n \<and>
    ES_IncrementRateBucket 65 itoa ''u'' ''t'' 60 empty_db = (Inr (n + 1), db')"
  using rate_window_counts [of empty_db itoa "''u''" "''t''" 65 60] empty_db_ok
  by (auto simp: rate_ids_ok_def empty_db_def fault_free_def)

text \<open>the cleanup leaves no pending request past its deadline, marks exactly those expired, and
  deletes only settled requests that are older than the retention period.\<close>

theorem cleanup_expires_exactly:
  assumes "ES_CleanupExpiredApprovals now db = Inr db1" and "ES_CleanupOldApprovals now keep db1 = Inr db2"
  shows "(\<forall>r \<in> set (db_approvals db2). aq_Status r = ''PENDING'' \<longrightarrow> now \<le> aq_ExpiresAt r) \<and>
    (\<forall>r \<in> set (db_approvals db). (aq_Status r \<in> {''APPROVED'', ''EXECUTING''} \<or>
        aq_Status r = ''PENDING'' \<and> now \<le> aq_ExpiresAt r \<or> now - keep \<le> aq_RequestedAt r) \<longrightarrow>
      (r \<in> set (db_approvals db2) \<or>
       aq_Status r = ''PENDING'' \<and> aq_ExpiresAt r < now \<and> r\<lparr>aq_Status := ''EXPIRED''\<rparr> \<in> set (db_approvals db2)))"
proof -
  have db1: "db1 = db\<lparr>db_approvals := update_where (\<lambda>r. aq_Status r = ''PENDING'' \<and> aq_ExpiresAt r < now)
      (\<lambda>r. r\<lparr>aq_Status := ''EXPIRED''\<rparr>) (db_approvals db)\<rparr>"
    using assms(1) by (auto simp: ES_CleanupExpiredApprovals_def dest!: stmt_InrD)
  have db2: "db2 = db1\<lparr>db_approvals := delete_where (\<lambda>r. aq_Status r \<in> {''COMPLETED'', ''DENIED'', ''EXPIRED'', ''FAILED''} \<and>
      aq_RequestedAt r < now - keep) (db_approvals db1)\<rparr>"
    using assms(2) by (auto simp: ES_CleanupOldApprovals_def Let_def dest!: stmt_InrD)
  show ?thesis
    by (auto simp: db1 db2 update_where_def)
qed

definition sample_approval :: "string \<Rightarrow> string \<Rightarrow> gotime \<Rightarrow> ApprovalRequestRow" where
  "sample_approval i st ex = \<lparr>aq_ID = i, aq_UserID = ''bob'', aq_UserEmail = [], aq_UserRole = [], aq_TrustLevel = 50,
     aq_ToolName = ''post'', aq_ToolArgs = ''{}'', aq_BackendID = ''slack'', aq_SafetyProfile = ''{}'', aq_Status = st,
     aq_QueueType = ''admin'', aq_Justification = [], aq_RequestedAt = 100, aq_ExpiresAt = ex, aq_ApprovedBy = None,
     aq_ApprovedAt = None, aq_DenialReason = [], aq_Comments = [], aq_PolicyID = [], aq_ViolationMsg = [],
     aq_MatchContext = [], aq_RequestBody = ''{call}'', aq_ResponseStatus = 0, aq_ResponseBody = [],
     aq_ExecutedAt = None, aq_ErrorMsg = []\<rparr>"

definition approvals_db :: db where
  "approvals_db = empty_db\<lparr>db_users := [\<lparr>us_ID = ''bob'', us_Name = [], us_Email = ''b'', us_Password = [],
       us_PasswordSalt = [], us_Role = ''user'', us_CreatedAt = 0\<rparr>],
     db_approvals := [sample_approval ''a1'' ''PENDING'' 150, sample_approval ''a2'' ''DENIED'' 999]\<rparr>"

theorem cleanup_expires_exactly_witness:
  "\<exists>db1 db2. ES_CleanupExpiredApprovals 200 approvals_db = Inr db1 \<and> ES_CleanupOldApprovals 200 1000 db1 = Inr db2 \<and>
     (\<forall>r \<in> set (db_approvals db2). aq_Status r = ''PENDING'' \<longrightarrow> 200 \<le> aq_ExpiresAt r)"
proof -
  obtain db1 where db1: "ES_CleanupExpiredApprovals 200 approvals_db = Inr db1"
    by (simp add: ES_CleanupExpiredApprovals_def approvals_db_def)
  then have "fault_free db1" by (auto simp: ES_CleanupExpiredApprovals_def approvals_db_def)
  then obtain db2 where "ES_CleanupOldApprovals 200 1000 db1 = Inr db2" by (simp add: ES_CleanupOldApprovals_def Let_def)
  with db1 cleanup_expires_exactly [OF db1] show ?thesis by blast
qed

end
