(* ===== verification/Scanner.thy ===== *)
theory Scanner
  imports Heuristics RateLimit Db
begin

text \<open>
  Scanning a backend for the safety profiles of its tools (src/enforcer/scanner.go). The spawned
  backend is the parameter \<open>scanBackend\<close>, \<open>encoding/json\<close> the parameters \<open>unmarshal\<close> and
  \<open>marshal\<close> (whose text the program only searches), \<open>uuid.New\<close> the parameter \<open>newID\<close>.
\<close>

record EnforcerProfileFromFramework =
  ep_RiskLevel :: string
  ep_ImpactScope :: string
  ep_ResourceCost :: int
  ep_PIIExposure :: bool
  ep_Idempotent :: bool
  ep_ApprovalReq :: bool

record ScannedProfile =
  sc_BackendID :: string
  sc_ToolName :: string
  sc_Profile :: EnforcerProfileFromFramework
  sc_RawJSON :: string

definition normalizeRisk :: "string \<Rightarrow> string" where
  "normalizeRisk s =
     (if s = ''critical'' \<or> s = ''crit'' then ''critical''
      else if s = ''high'' \<or> s = ''hi'' then ''high''
      else if s = ''medium'' \<or> s = ''med'' \<or> s = ''mid'' then ''medium''
      else if s = ''low'' \<or> s = ''lo'' then ''low''
      else ''medium'')"

text \<open>Type assertions on decoded values: \<open>v.(string)\<close> and its kin.\<close>

fun as_string :: "json option \<Rightarrow> string option" where
  "as_string (Some (JStr s)) = Some s"
| "as_string _ = None"

fun as_bool :: "json option \<Rightarrow> bool option" where
  "as_bool (Some (JBool b)) = Some b"
| "as_bool _ = None"

fun as_obj :: "json option \<Rightarrow> (string, json) gomap option" where
  "as_obj (Some (JObj m)) = Some m"
| "as_obj _ = None"

text \<open>\<open>int(v)\<close> of a float64, for values in the range of \<open>int\<close>.\<close>

definition int_of_float :: "rat \<Rightarrow> int" where
  "int_of_float r = (if r < 0 then - \<lfloor>- r\<rfloor> else \<lfloor>r\<rfloor>)"

fun as_int :: "json option \<Rightarrow> int option" where
  "as_int (Some (JNum r)) = Some (int_of_float r)"
| "as_int _ = None"

definition or_default :: "'a option \<Rightarrow> 'a \<Rightarrow> 'a" where
  "or_default x d = (case x of Some v \<Rightarrow> v | None \<Rightarrow> d)"

definition profile_of_raw :: "(string, json) gomap \<Rightarrow> EnforcerProfileFromFramework" where
  "profile_of_raw raw = \<lparr>
     ep_RiskLevel = or_default (map_option normalizeRisk (as_string (map_of raw ''risk_level''))) [],
     ep_ImpactScope = or_default (as_string (map_of raw ''impact_scope'')) [],
     ep_ResourceCost = or_default (as_int (map_of raw ''resource_cost'')) 5,
     ep_PIIExposure = or_default (as_bool (map_of raw ''pii_exposure'')) False,
     ep_Idempotent = or_default (as_bool (map_of raw ''idempotent'')) False,
     ep_ApprovalReq = or_default (as_bool (map_of raw ''approval_req'')) False\<rparr>"

definition extractProfile ::
    "(json \<Rightarrow> string) \<Rightarrow> string \<Rightarrow> (string, json) gomap \<Rightarrow> ScannedProfile option" where
  "extractProfile marshal backendID tool =
     (case as_string (map_of tool ''name'') of
        None \<Rightarrow> None
      | Some toolName \<Rightarrow>
          if toolName = [] then None
          else case as_obj (map_of tool ''_meta'') of
                 None \<Rightarrow> None
               | Some metaMap \<Rightarrow>
                   (case as_obj (map_of metaMap ''enforcer_profile'') of
                      None \<Rightarrow> None
                    | Some ep \<Rightarrow> Some \<lparr>sc_BackendID = backendID, sc_ToolName = toolName,
                        sc_Profile = profile_of_raw ep, sc_RawJSON = marshal (JObj ep)\<rparr>))"

definition inferredRaw :: string where
  "inferredRaw = ''{'' @ [CHR 0x22] @ ''source'' @ [CHR 0x22] @ '':'' @ [CHR 0x22] @ ''inferred'' @ [CHR 0x22] @ ''}''"

definition inferProfile :: "string \<Rightarrow> (string, json) gomap \<Rightarrow> ScannedProfile option" where
  "inferProfile backendID tool =
     (case as_string (map_of tool ''name'') of
        None \<Rightarrow> None
      | Some toolName \<Rightarrow>
          if toolName = [] then None
          else let desc = or_default (as_string (map_of tool ''description'')) [];
                   schema = (case as_obj (map_of tool ''inputSchema'') of
                       None \<Rightarrow> None
                     | Some raw \<Rightarrow> as_obj (map_of raw ''properties''));
                   p = HeuristicProfile toolName desc schema
               in Some \<lparr>sc_BackendID = backendID, sc_ToolName = toolName,
                    sc_Profile = \<lparr>ep_RiskLevel = sp_Risk p, ep_ImpactScope = sp_Impact p,
                      ep_ResourceCost = sp_Cost p, ep_PIIExposure = sp_PIIExposure p,
                      ep_Idempotent = sp_Idempotent p, ep_ApprovalReq = sp_RequiresHITL p\<rparr>,
                    sc_RawJSON = inferredRaw\<rparr>)"

record tools_response =
  tr_Tools :: "(string, json) gomap list"
  tr_Error :: "(string, json) gomap option"

definition scan_tool ::
    "(json \<Rightarrow> string) \<Rightarrow> string \<Rightarrow> (string, json) gomap \<Rightarrow> ScannedProfile option" where
  "scan_tool marshal backendID tool =
     (case extractProfile marshal backendID tool of
        Some p \<Rightarrow> Some p
      | None \<Rightarrow> inferProfile backendID tool)"

definition ScanBackend ::
    "(string \<Rightarrow> string list \<Rightarrow> duration \<Rightarrow> goerr + string) \<Rightarrow> (string \<Rightarrow> goerr + tools_response) \<Rightarrow>
     (json \<Rightarrow> string) \<Rightarrow> string \<Rightarrow> string \<Rightarrow> string list \<Rightarrow> goerr + ScannedProfile list" where
  "ScanBackend scanBackend unmarshal marshal backendID command env =
     (case scanBackend command env (seconds 30) of
        Inl e \<Rightarrow> Inl (ErrWrap (''backend '' @ backendID @ '' scan failed'') e)
      | Inr result \<Rightarrow>
          (case unmarshal result of
             Inl e \<Rightarrow> Inl (ErrWrap (''backend '' @ backendID @ '': failed to parse tools/list response'') e)
           | Inr resp \<Rightarrow>
               if tr_Error resp \<noteq> None
               then Inl (ErrNew (''backend '' @ backendID @ '' tools/list error''))
               else Inr (List.map_filter (scan_tool marshal backendID) (tr_Tools resp))))"

definition row_of_scan :: "gotime \<Rightarrow> string \<Rightarrow> string \<Rightarrow> ScannedProfile \<Rightarrow> ToolProfileRow" where
  "row_of_scan now newID backendID p = \<lparr>tp_ID = newID, tp_BackendID = backendID,
     tp_ToolName = sc_ToolName p, tp_RiskLevel = ep_RiskLevel (sc_Profile p),
     tp_ImpactScope = ep_ImpactScope (sc_Profile p), tp_ResourceCost = ep_ResourceCost (sc_Profile p),
     tp_RequiresHITL = ep_ApprovalReq (sc_Profile p), tp_PIIExposure = ep_PIIExposure (sc_Profile p),
     tp_Idempotent = ep_Idempotent (sc_Profile p), tp_RawProfile = sc_RawJSON p, tp_ScannedAt = now\<rparr>"

fun rows_from :: "gotime \<Rightarrow> (nat \<Rightarrow> string) \<Rightarrow> nat \<Rightarrow> string \<Rightarrow> ScannedProfile list \<Rightarrow> ToolProfileRow list" where
  "rows_from now newID i backendID [] = []"
| "rows_from now newID i backendID (p # ps) =
     row_of_scan now (newID i) backendID p # rows_from now newID (Suc i) backendID ps"

definition ScanResultsToRows ::
    "gotime \<Rightarrow> (nat \<Rightarrow> string) \<Rightarrow> string \<Rightarrow> ScannedProfile list \<Rightarrow> ToolProfileRow list" where
  "ScanResultsToRows now newID backendID profiles = rows_from now newID 0 backendID profiles"

section \<open>Facts\<close>

lemma normalizeRisk_known: "known_risk (normalizeRisk s)"
  by (simp add: normalizeRisk_def known_risk_def)

lemma scan_tool_None_iff:
  "scan_tool marshal be tool = None \<longleftrightarrow>
     (case as_string (map_of tool ''name'') of None \<Rightarrow> True | Some n \<Rightarrow> n = [])"
  by (auto simp: scan_tool_def extractProfile_def inferProfile_def Let_def split: option.splits)

lemma scan_tool_name:
  "scan_tool marshal be tool = Some p \<Longrightarrow>
   as_string (map_of tool ''name'') = Some (sc_ToolName p) \<and> sc_ToolName p \<noteq> [] \<and> sc_BackendID p = be"
  by (auto simp: scan_tool_def extractProfile_def inferProfile_def Let_def split: option.splits if_splits)

definition named_tool :: "(string, json) gomap \<Rightarrow> bool" where
  "named_tool tool \<longleftrightarrow> (case as_string (map_of tool ''name'') of None \<Rightarrow> False | Some n \<Rightarrow> n \<noteq> [])"

lemma scan_tool_named: "named_tool tool \<longleftrightarrow> scan_tool marshal be tool \<noteq> None"
  using scan_tool_None_iff [of marshal be tool] by (auto simp: named_tool_def split: option.splits)

text \<open>a successful scan yields exactly one profile for every tool that has a name, in the
  order of the response, so no named tool is left without a profile.\<close>

theorem scan_covers_named_tools:
  assumes "ScanBackend spawn unmarshal marshal be cmd env = Inr ps"
    and "spawn cmd env (seconds 30) = Inr out" and "unmarshal out = Inr resp"
  shows "map (Some \<circ> sc_ToolName) ps = map (\<lambda>t. as_string (map_of t ''name'')) (filter named_tool (tr_Tools resp))"
proof -
  have ps: "ps = List.map_filter (scan_tool marshal be) (tr_Tools resp)"
    using assms by (simp add: ScanBackend_def split: if_splits)
  have "map (Some \<circ> sc_ToolName) (List.map_filter (scan_tool marshal be) ts) =
      map (\<lambda>t. as_string (map_of t ''name'')) (filter named_tool ts)" for ts
  proof (induction ts)
    case (Cons t ts)
    then show ?case
      using scan_tool_named [of t marshal be] scan_tool_name [of marshal be t]
      by (cases "scan_tool marshal be t") (auto simp: List.map_filter_simps)
  qed (simp add: List.map_filter_simps)
  then show ?thesis by (simp add: ps)
qed

definition scan_example :: tools_response where
  "scan_example = \<lparr>tr_Tools = [[(''name'', JStr ''get_user'')], [(''title'', JStr ''x'')]], tr_Error = None\<rparr>"

theorem scan_covers_named_tools_witness:
  "\<exists>ps. ScanBackend (\<lambda>_ _ _. Inr []) (\<lambda>_. Inr scan_example) (\<lambda>_. []) ''b'' ''cmd'' [] = Inr ps \<and>
     map (Some \<circ> sc_ToolName) ps = [Some ''get_user'']"
proof -
  obtain ps where ps: "ScanBackend (\<lambda>_ _ _. Inr []) (\<lambda>_. Inr scan_example) (\<lambda>_. []) ''b'' ''cmd'' [] = Inr ps"
    by (simp add: ScanBackend_def scan_example_def)
  from scan_covers_named_tools [OF ps refl refl] ps show ?thesis
    by (simp add: scan_example_def named_tool_def)
qed

text \<open>of the risk levels the scanner stores, only "high" is charged more than the base cost:
  "medium" and "critical" are not keys of the multiplier table, so a critical tool costs a quarter of
  a high one.\<close>

theorem normalized_risk_multiplier:
  "GetRiskMultiplier (normalizeRisk s) = (if normalizeRisk s = ''high'' then 4 else 1)"
  by (simp add: GetRiskMultiplier_def riskMultipliers_def normalizeRisk_def)

end
