(* ===== verification/CelEngine.thy ===== *)
theory CelEngine
  imports EnforcerTypes "HOL-Library.Multiset"
begin

text \<open>
  The policy engine (src/enforcer/cel_engine.go). The CEL library is a parameter, the record
  \<open>cel_lib\<close>: parsing, checking, compiling and evaluating an expression, each of which may fail. Its
  handles are the type variable \<open>'p\<close>. The activation is the set of variables \<open>buildActivation\<close> binds;
  creating it from a map does not fail. \<open>Evaluate\<close> folds over the compiled programs in the order of the
  map, which the runtime does not fix; \<open>evaluate_order_independent\<close> shows what does not depend on it.
\<close>

datatype cel_value = CelBool bool | CelOther

datatype cval =
    VStr string
  | VInt int
  | VBool bool
  | VDouble rat
  | VTime gotime
  | VJson json
  | VMap "(string \<times> cval) list"

type_synonym activation = "(string, cval) gomap"

record 'p cel_lib =
  cel_Parse :: "string \<Rightarrow> string + 'p"
  cel_Check :: "'p \<Rightarrow> string + 'p"
  cel_Program :: "'p \<Rightarrow> string + 'p"
  cel_Eval :: "'p \<Rightarrow> activation \<Rightarrow> string + cel_value"

record prioritisedDisposition =
  pd_priority :: int
  pd_action :: Action
  pd_message :: string

record 'p CELEngine =
  ce_programs :: "(string, 'p) gomap"
  ce_policies :: "(string, CELPolicy) gomap"
  ce_dispositions :: "(MatchContext, prioritisedDisposition list) gomap"

definition NewCELEngine :: "'p CELEngine" where
  "NewCELEngine = \<lparr>ce_programs = [], ce_policies = [], ce_dispositions = []\<rparr>"

definition dispositions_at ::
    "(MatchContext, prioritisedDisposition list) gomap \<Rightarrow> MatchContext \<Rightarrow> prioritisedDisposition list" where
  "dispositions_at m ctx = (case map_of m ctx of Some es \<Rightarrow> es | None \<Rightarrow> [])"

definition add_dispositions ::
    "string \<times> CELPolicy \<Rightarrow> (MatchContext, prioritisedDisposition list) gomap \<Rightarrow>
     (MatchContext, prioritisedDisposition list) gomap" where
  "add_dispositions e acc =
     (case cp_Dispositions (snd e) of
        None \<Rightarrow> acc
      | Some ds \<Rightarrow>
          fold (\<lambda>(ctx, action) m. AList.update ctx
                 (dispositions_at m ctx @ [\<lparr>pd_priority = cp_Priority (snd e), pd_action = action,
                                            pd_message = cp_Message (snd e)\<rparr>]) m) ds acc)"

definition loadDispositions :: "'p CELEngine \<Rightarrow> 'p CELEngine" where
  "loadDispositions e = e\<lparr>ce_dispositions := fold add_dispositions (ce_policies e) []\<rparr>"

definition compile_expression :: "'p cel_lib \<Rightarrow> CELPolicy \<Rightarrow> goerr + 'p" where
  "compile_expression lib policy =
     (case cel_Parse lib (cp_Expression policy) of
        Inl msg \<Rightarrow> Inl (ErrWrap (''policy '' @ cp_ID policy @ '' parse error'') (ErrNew msg))
      | Inr ast \<Rightarrow>
          (case cel_Check lib ast of
             Inl msg \<Rightarrow> Inl (ErrWrap (''policy '' @ cp_ID policy @ '' type check error'') (ErrNew msg))
           | Inr checked \<Rightarrow>
               (case cel_Program lib checked of
                  Inl msg \<Rightarrow> Inl (ErrWrap (''policy '' @ cp_ID policy @ '' compile error'') (ErrNew msg))
                | Inr program \<Rightarrow> Inr program)))"

definition AddPolicy :: "'p cel_lib \<Rightarrow> CELPolicy \<Rightarrow> 'p CELEngine \<Rightarrow> goerr option \<times> 'p CELEngine" where
  "AddPolicy lib policy e =
     (if \<not> cp_Enabled policy then (None, e)
      else case compile_expression lib policy of
             Inl err \<Rightarrow> (Some err, e)
           | Inr program \<Rightarrow>
               (None, loadDispositions (e\<lparr>ce_programs := AList.update (cp_ID policy) program (ce_programs e),
                                          ce_policies := AList.update (cp_ID policy) policy (ce_policies e)\<rparr>)))"

definition RemovePolicy :: "string \<Rightarrow> 'p CELEngine \<Rightarrow> 'p CELEngine" where
  "RemovePolicy policyID e =
     e\<lparr>ce_programs := AList.delete policyID (ce_programs e),
       ce_policies := AList.delete policyID (ce_policies e)\<rparr>"

section \<open>Evaluation\<close>

definition severityPriority :: "SeverityLevel \<Rightarrow> int" where
  "severityPriority s =
     (case map_of [(SeverityCritical, 4), (SeverityHigh, 3), (SeverityMedium, 2), (SeverityLow, 1)] s of
        Some n \<Rightarrow> n | None \<Rightarrow> 0)"

definition actionPriority :: "Action \<Rightarrow> int" where
  "actionPriority a =
     (case map_of [(ActionDeny, 5), (ActionPendingAdminApproval, 4), (ActionPendingApproval, 4),
                   (ActionPendingUserApproval, 3), (ActionWarn, 2), (ActionAllow, 1)] a of
        Some n \<Rightarrow> n | None \<Rightarrow> 0)"

definition shouldUpdateDecision :: "EnforcerDecision \<Rightarrow> EnforcerDecision \<Rightarrow> bool" where
  "shouldUpdateDecision current new =
     (let newPriority = actionPriority (ed_Action new);
          currentPriority = actionPriority (ed_Action current)
      in if newPriority > currentPriority then True
         else if newPriority = currentPriority then
           (let newSev = severityPriority (ed_Severity new);
                currentSev = severityPriority (ed_Severity current)
            in if newSev > currentSev then True
               else if newSev = currentSev \<and> ed_Priority new > 0 \<and> ed_Priority current > 0
                    then ed_Priority new < ed_Priority current
               else False)
         else False)"

definition user_map :: "DecisionContext \<Rightarrow> cval" where
  "user_map ctx = VMap [(''id'', VStr (dc_UserID ctx)), (''role'', VStr (dc_UserRole ctx)),
     (''email'', VStr (dc_UserEmail ctx)), (''trust_level'', VInt (dc_TrustLevel ctx))]"

definition safety_map :: "SafetyProfile \<Rightarrow> cval" where
  "safety_map s = VMap [(''risk_level'', VStr (sp_Risk s)), (''impact_scope'', VStr (sp_Impact s)),
     (''resource_cost'', VInt (sp_Cost s)), (''requires_hitl'', VBool (sp_RequiresHITL s)),
     (''pii_exposure'', VBool (sp_PIIExposure s))]"

definition bucket_map :: "BucketStatus \<Rightarrow> cval" where
  "bucket_map b = VMap [(''available'', VInt (bst_Available b)), (''capacity'', VInt (bst_Capacity b)),
     (''refill_rate'', VInt (bst_RefillRate b))]"

definition buildActivation :: "DecisionContext \<Rightarrow> activation" where
  "buildActivation ctx =
     (let s = dc_Safety ctx; risk = rli_RiskBucket (dc_RateLimit ctx);
          resource = rli_ResourceBucket (dc_RateLimit ctx)
      in [(''user'', user_map ctx), (''user_id'', VStr (dc_UserID ctx)), (''user_role'', VStr (dc_UserRole ctx)),
          (''user_email'', VStr (dc_UserEmail ctx)), (''trust_level'', VInt (dc_TrustLevel ctx)),
          (''tool'', VStr (dc_Tool ctx)), (''tool_name'', VStr (dc_Tool ctx)),
          (''args'', VJson (JObj (dc_Args ctx))),
          (''call'', VMap [(''justification'', VStr (dc_Justification ctx))]),
          (''justification'', VStr (dc_Justification ctx)),
          (''safety'', safety_map s), (''risk_level'', VStr (sp_Risk s)), (''impact_scope'', VStr (sp_Impact s)),
          (''resource_cost'', VInt (sp_Cost s)), (''requires_hitl'', VBool (sp_RequiresHITL s)),
          (''pii_exposure'', VBool (sp_PIIExposure s)),
          (''system'', VMap [(''load_avg'', VDouble (dc_SystemLoad ctx)), (''call_rate'', VInt (dc_CallRate ctx))]),
          (''system_load'', VDouble (dc_SystemLoad ctx)), (''system_call_rate'', VInt (dc_CallRate ctx)),
          (''timestamp'', VTime (dc_Timestamp ctx)),
          (''backend_id'', VStr (dc_BackendID ctx)), (''backend_type'', VStr (dc_BackendType ctx)),
          (''risk_bucket'', bucket_map risk), (''risk_available'', VInt (bst_Available risk)),
          (''risk_capacity'', VInt (bst_Capacity risk)), (''risk_refill_rate'', VInt (bst_RefillRate risk)),
          (''resource_bucket'', bucket_map resource), (''resource_available'', VInt (bst_Available resource)),
          (''resource_capacity'', VInt (bst_Capacity resource)),
          (''resource_refill_rate'', VInt (bst_RefillRate resource))])"

text \<open>The variables \<open>NewCELEngine\<close> declares, with their types.\<close>

datatype cel_type = TString | TInt | TBool | TDouble | TTimestamp | TMap

definition cel_declarations :: "(string \<times> cel_type) list" where
  "cel_declarations =
     [(''user'', TMap), (''user_id'', TString), (''user_role'', TString), (''user_email'', TString), (''trust_level'', TInt),
      (''tool'', TString), (''tool_name'', TString), (''args'', TMap), (''call'', TMap), (''justification'', TString),
      (''safety'', TMap), (''risk_level'', TString), (''impact_scope'', TString), (''resource_cost'', TInt),
      (''requires_hitl'', TBool), (''pii_exposure'', TBool),
      (''system'', TMap), (''system_load'', TDouble), (''system_call_rate'', TInt), (''timestamp'', TTimestamp),
      (''backend_id'', TString), (''backend_type'', TString),
      (''risk_bucket'', TMap), (''risk_available'', TInt), (''risk_capacity'', TInt), (''risk_refill_rate'', TInt),
      (''resource_bucket'', TMap), (''resource_available'', TInt), (''resource_capacity'', TInt),
      (''resource_refill_rate'', TInt)]"

fun cval_type :: "cval \<Rightarrow> cel_type" where
  "cval_type (VStr _) = TString"
| "cval_type (VInt _) = TInt"
| "cval_type (VBool _) = TBool"
| "cval_type (VDouble _) = TDouble"
| "cval_type (VTime _) = TTimestamp"
| "cval_type (VJson _) = TMap"
| "cval_type (VMap _) = TMap"

definition zeroPolicy :: CELPolicy where
  "zeroPolicy = \<lparr>cp_ID = [], cp_Description = [], cp_Expression = [], cp_Action = [], cp_Message = [],
     cp_Severity = [], cp_Enabled = False, cp_Priority = 0, cp_Dispositions = None\<rparr>"

definition policy_at :: "'p CELEngine \<Rightarrow> string \<Rightarrow> CELPolicy" where
  "policy_at e policyID = (case map_of (ce_policies e) policyID of Some p \<Rightarrow> p | None \<Rightarrow> zeroPolicy)"

definition policy_decision :: "gotime \<Rightarrow> string \<Rightarrow> CELPolicy \<Rightarrow> EnforcerDecision" where
  "policy_decision now policyID policy = zeroDecision\<lparr>ed_Action := cp_Action policy,
     ed_Severity := cp_Severity policy, ed_Message := cp_Message policy, ed_PolicyID := policyID,
     ed_Timestamp := now, ed_Priority := cp_Priority policy\<rparr>"

definition add_violation :: "string \<Rightarrow> EnforcerDecision \<Rightarrow> EnforcerDecision" where
  "add_violation v d = d\<lparr>ed_Violations := ed_Violations d @ [v]\<rparr>"

text \<open>The body of the loop over \<open>e.programs\<close>.\<close>

definition eval_step ::
    "'p cel_lib \<Rightarrow> gotime \<Rightarrow> activation \<Rightarrow> 'p CELEngine \<Rightarrow> string \<times> 'p \<Rightarrow> EnforcerDecision \<Rightarrow> EnforcerDecision" where
  "eval_step lib now act e pr d =
     (let policyID = fst pr; policy = policy_at e policyID
      in case cel_Eval lib (snd pr) act of
           Inl err \<Rightarrow> add_violation (''policy '' @ policyID @ '' evaluation error: '' @ err) d
         | Inr (CelBool True) \<Rightarrow>
             (let decision = policy_decision now policyID policy;
                  d' = (if shouldUpdateDecision d decision then decision else d)
              in add_violation (policyID @ '': '' @ cp_Description policy) d')
         | Inr _ \<Rightarrow> d)"

definition Engine_Evaluate :: "'p cel_lib \<Rightarrow> gotime \<Rightarrow> 'p CELEngine \<Rightarrow> DecisionContext \<Rightarrow> EnforcerDecision" where
  "Engine_Evaluate lib now e ctx =
     fold (eval_step lib now (buildActivation ctx) e) (ce_programs e) (zeroDecision\<lparr>ed_Timestamp := now\<rparr>)"

definition ValidateExpression :: "'p cel_lib \<Rightarrow> string \<Rightarrow> goerr option" where
  "ValidateExpression lib expression =
     (case cel_Parse lib expression of
        Inl msg \<Rightarrow> Some (ErrWrap ''parse error'' (ErrNew msg))
      | Inr ast \<Rightarrow>
          (case cel_Check lib ast of
             Inl msg \<Rightarrow> Some (ErrWrap ''type check error'' (ErrNew msg))
           | Inr _ \<Rightarrow> None))"

definition Engine_ListPolicies :: "'p CELEngine \<Rightarrow> CELPolicy list" where
  "Engine_ListPolicies e = map snd (ce_policies e)"

fun best_disposition :: "prioritisedDisposition \<Rightarrow> prioritisedDisposition list \<Rightarrow> prioritisedDisposition" where
  "best_disposition best [] = best"
| "best_disposition best (x # xs) =
     best_disposition (if pd_priority x < pd_priority best then x else best) xs"

definition LookupDisposition :: "'p CELEngine \<Rightarrow> MatchContext \<Rightarrow> (Action \<times> string) option" where
  "LookupDisposition e ctx =
     (case map_of (ce_dispositions e) ctx of
        None \<Rightarrow> None
      | Some [] \<Rightarrow> None
      | Some (x # xs) \<Rightarrow> let best = best_disposition x xs in Some (pd_action best, pd_message best))"

lemma best_disposition_min:
  "best_disposition x xs \<in> set (x # xs) \<and> (\<forall>y \<in> set (x # xs). pd_priority (best_disposition x xs) \<le> pd_priority y)"
  by (induction x xs rule: best_disposition.induct) (auto split: if_splits)

section \<open>The most restrictive decision\<close>

text \<open>The order \<open>shouldUpdateDecision\<close> climbs: action first, then severity.\<close>

definition rank :: "EnforcerDecision \<Rightarrow> int" where
  "rank d = 5 * actionPriority (ed_Action d) + severityPriority (ed_Severity d)"

definition policy_rank :: "CELPolicy \<Rightarrow> int" where
  "policy_rank p = 5 * actionPriority (cp_Action p) + severityPriority (cp_Severity p)"

lemma severityPriority_range: "0 \<le> severityPriority s" "severityPriority s \<le> 4"
  by (simp_all add: severityPriority_def)

lemma actionPriority_range: "0 \<le> actionPriority a" "actionPriority a \<le> 5"
  by (simp_all add: actionPriority_def)

lemma actionPriority_5 [simp]: "actionPriority a = 5 \<longleftrightarrow> a = ActionDeny"
  by (simp add: actionPriority_def)

lemma rank_less_iff:
  "rank c < rank d \<longleftrightarrow> actionPriority (ed_Action c) < actionPriority (ed_Action d) \<or>
     actionPriority (ed_Action c) = actionPriority (ed_Action d) \<and>
     severityPriority (ed_Severity c) < severityPriority (ed_Severity d)"
  using severityPriority_range [of "ed_Severity c"] severityPriority_range [of "ed_Severity d"]
  by (auto simp: rank_def)

lemma rank_eq_iff:
  "rank c = rank d \<longleftrightarrow> actionPriority (ed_Action c) = actionPriority (ed_Action d) \<and>
     severityPriority (ed_Severity c) = severityPriority (ed_Severity d)"
  using severityPriority_range [of "ed_Severity c"] severityPriority_range [of "ed_Severity d"]
  unfolding rank_def by presburger

lemma shouldUpdate_rank:
  "shouldUpdateDecision c d \<longleftrightarrow> rank c < rank d \<or>
     rank c = rank d \<and> 0 < ed_Priority d \<and> ed_Priority d < ed_Priority c"
  unfolding rank_less_iff rank_eq_iff shouldUpdateDecision_def Let_def by auto

definition matches :: "'p cel_lib \<Rightarrow> activation \<Rightarrow> 'p \<Rightarrow> bool" where
  "matches lib act p \<longleftrightarrow> cel_Eval lib p act = Inr (CelBool True)"

lemma add_violation_simps [simp]:
  "ed_Action (add_violation v d) = ed_Action d" "ed_Severity (add_violation v d) = ed_Severity d"
  "ed_PolicyID (add_violation v d) = ed_PolicyID d" "ed_Priority (add_violation v d) = ed_Priority d"
  "ed_Message (add_violation v d) = ed_Message d" "rank (add_violation v d) = rank d"
  by (simp_all add: add_violation_def rank_def)

lemma policy_decision_simps [simp]:
  "ed_Action (policy_decision now i p) = cp_Action p" "ed_Severity (policy_decision now i p) = cp_Severity p"
  "ed_PolicyID (policy_decision now i p) = i" "ed_Priority (policy_decision now i p) = cp_Priority p"
  "rank (policy_decision now i p) = policy_rank p"
  by (simp_all add: policy_decision_def rank_def policy_rank_def)

lemma eval_step_cases:
  "eval_step lib now act e (i, p) d =
     (if matches lib act p
      then add_violation (i @ '': '' @ cp_Description (policy_at e i))
             (if shouldUpdateDecision d (policy_decision now i (policy_at e i))
              then policy_decision now i (policy_at e i) else d)
      else case cel_Eval lib p act of
             Inl err \<Rightarrow> add_violation (''policy '' @ i @ '' evaluation error: '' @ err) d
           | Inr _ \<Rightarrow> d)"
  by (auto simp: eval_step_def matches_def Let_def split: sum.splits cel_value.splits bool.splits)

lemma eval_step_rank:
  "rank (eval_step lib now act e (i, p) d) =
     (if matches lib act p then max (rank d) (policy_rank (policy_at e i)) else rank d)"
  unfolding eval_step_cases shouldUpdate_rank by (auto split: sum.splits)

lemma eval_fold_rank:
  "rank (fold (eval_step lib now act e) ps d) =
     fold (\<lambda>(i, p). if matches lib act p then max (policy_rank (policy_at e i)) else id) ps (rank d)"
proof (induction ps arbitrary: d)
  case (Cons ip ps)
  obtain i p where "ip = (i, p)" by (cases ip)
  with Cons.IH [of "eval_step lib now act e ip d"] show ?case
    by (simp add: eval_step_rank max.commute)
qed simp

text \<open>Where a decision that is not the initial one comes from.\<close>

definition decided_by :: "'p cel_lib \<Rightarrow> activation \<Rightarrow> 'p CELEngine \<Rightarrow> (string \<times> 'p) list \<Rightarrow> EnforcerDecision \<Rightarrow> bool" where
  "decided_by lib act e ps d \<longleftrightarrow> (\<exists>i p. (i, p) \<in> set ps \<and> matches lib act p \<and> ed_PolicyID d = i \<and>
     ed_Action d = cp_Action (policy_at e i) \<and> ed_Severity d = cp_Severity (policy_at e i) \<and>
     ed_Priority d = cp_Priority (policy_at e i))"

definition undecided :: "EnforcerDecision \<Rightarrow> bool" where
  "undecided d \<longleftrightarrow> ed_Action d = [] \<and> ed_Severity d = [] \<and> ed_PolicyID d = [] \<and> ed_Priority d = 0"

lemma eval_fold_origin:
  assumes "undecided d \<or> decided_by lib act e qs d"
  shows "undecided (fold (eval_step lib now act e) ps d) \<or>
    decided_by lib act e (qs @ ps) (fold (eval_step lib now act e) ps d)"
  using assms
proof (induction ps arbitrary: d qs)
  case (Cons ip ps)
  obtain i p where ip: "ip = (i, p)" by (cases ip)
  have "undecided (eval_step lib now act e ip d) \<or> decided_by lib act e (qs @ [ip]) (eval_step lib now act e ip d)"
    using Cons.prems unfolding ip eval_step_cases
    by (auto simp: undecided_def decided_by_def split: sum.splits)
  from Cons.IH [OF this] show ?case by simp
qed auto

lemma fold_max_le:
  "(x :: int) \<le> fold (\<lambda>(i, p). if P p then max (f i) else id) ps x \<and>
   ((i, p) \<in> set ps \<longrightarrow> P p \<longrightarrow> f i \<le> fold (\<lambda>(i, p). if P p then max (f i) else id) ps x)"
proof (induction ps arbitrary: x)
  case (Cons jq ps)
  obtain j q where "jq = (j, q)" by (cases jq)
  with Cons.IH [of "if P q then max (f j) x else x"] show ?case by fastforce
qed simp

lemma rank_initial [simp]: "rank (zeroDecision\<lparr>ed_Timestamp := now\<rparr>) = 0"
  by (simp add: rank_def zeroDecision_def actionPriority_def severityPriority_def)

lemma undecided_initial [simp]: "undecided (zeroDecision\<lparr>ed_Timestamp := now\<rparr>)"
  by (simp add: undecided_def zeroDecision_def)

lemma engine_rank_le:
  assumes "(i, p) \<in> set (ce_programs e)" and "matches lib (buildActivation ctx) p"
  shows "policy_rank (policy_at e i) \<le> rank (Engine_Evaluate lib now e ctx)"
  unfolding Engine_Evaluate_def eval_fold_rank rank_initial using fold_max_le assms by fastforce

text \<open>C9: the decision of the engine is at least as restrictive (by action, then severity) as every
  policy whose expression is true, and it is the decision of one of these policies or the empty one.\<close>

theorem evaluate_most_restrictive:
  "(\<forall>(i, p) \<in> set (ce_programs e). matches lib (buildActivation ctx) p \<longrightarrow>
      policy_rank (policy_at e i) \<le> rank (Engine_Evaluate lib now e ctx)) \<and>
   (undecided (Engine_Evaluate lib now e ctx) \<or>
    decided_by lib (buildActivation ctx) e (ce_programs e) (Engine_Evaluate lib now e ctx))"
proof
  show "\<forall>(i, p) \<in> set (ce_programs e). matches lib (buildActivation ctx) p \<longrightarrow>
      policy_rank (policy_at e i) \<le> rank (Engine_Evaluate lib now e ctx)"
    using engine_rank_le by fast
  show "undecided (Engine_Evaluate lib now e ctx) \<or>
      decided_by lib (buildActivation ctx) e (ce_programs e) (Engine_Evaluate lib now e ctx)"
    unfolding Engine_Evaluate_def using eval_fold_origin [of _ lib "buildActivation ctx" e "[]"] by simp
qed

text \<open>every call is evaluated with exactly the variables the engine declares, each bound to a value of
  its declared type, so no policy that type checks meets an unbound variable.\<close>

theorem activation_matches_declarations:
  "map (\<lambda>(x, v). (x, cval_type v)) (buildActivation ctx) = cel_declarations \<and> distinct (map fst cel_declarations)"
  by (simp add: buildActivation_def cel_declarations_def Let_def user_map_def safety_map_def bucket_map_def)

text \<open>an exhausted budget is answered by the configured disposition of the smallest priority number,
  and by none exactly when no loaded policy configures the context.\<close>

theorem disposition_smallest_priority:
  "case LookupDisposition e ctx of
     None \<Rightarrow> dispositions_at (ce_dispositions e) ctx = []
   | Some (a, msg) \<Rightarrow> \<exists>x \<in> set (dispositions_at (ce_dispositions e) ctx). pd_action x = a \<and> pd_message x = msg \<and>
       (\<forall>y \<in> set (dispositions_at (ce_dispositions e) ctx). pd_priority x \<le> pd_priority y)"
  using best_disposition_min
  by (auto simp: LookupDisposition_def dispositions_at_def Let_def split: option.splits list.splits)

text \<open>A CEL library whose only expressions are the literals, for the witnesses.\<close>

definition literal_cel :: "bool cel_lib" where
  "literal_cel = \<lparr>cel_Parse = (\<lambda>s. if s = ''true'' then Inr True else if s = ''false'' then Inr False
       else Inl ''undeclared reference''),
     cel_Check = Inr, cel_Program = Inr, cel_Eval = (\<lambda>p _. Inr (CelBool p))\<rparr>"

definition sample_policy :: "string \<Rightarrow> Action \<Rightarrow> SeverityLevel \<Rightarrow> int \<Rightarrow> CELPolicy" where
  "sample_policy i a sev prio = zeroPolicy\<lparr>cp_ID := i, cp_Expression := ''true'', cp_Action := a,
     cp_Severity := sev, cp_Enabled := True, cp_Priority := prio\<rparr>"

definition sample_engine :: "bool CELEngine" where
  "sample_engine = snd (AddPolicy literal_cel (sample_policy ''p2'' ActionDeny SeverityLow 20)
     (snd (AddPolicy literal_cel (sample_policy ''p1'' ActionAllow SeverityCritical 10) NewCELEngine)))"

lemmas sample_engine_defs = sample_engine_def sample_policy_def literal_cel_def AddPolicy_def
  compile_expression_def loadDispositions_def NewCELEngine_def zeroPolicy_def add_dispositions_def

definition disposition_engine :: "bool CELEngine" where
  "disposition_engine = snd (AddPolicy literal_cel ((sample_policy ''d'' ActionDeny SeverityLow 20)
     \<lparr>cp_Dispositions := Some [(MatchContextRiskLimit, ActionWarn)]\<rparr>) NewCELEngine)"

theorem disposition_smallest_priority_witness:
  "LookupDisposition disposition_engine MatchContextRiskLimit = Some (ActionWarn, []) \<and>
   (\<exists>x \<in> set (dispositions_at (ce_dispositions disposition_engine) MatchContextRiskLimit). pd_action x = ActionWarn)"
proof -
  have l: "LookupDisposition disposition_engine MatchContextRiskLimit = Some (ActionWarn, [])"
    by (simp add: disposition_engine_def sample_engine_defs LookupDisposition_def dispositions_at_def Let_def)
  with disposition_smallest_priority [of disposition_engine MatchContextRiskLimit] show ?thesis by auto
qed

theorem evaluate_most_restrictive_witness:
  "policy_rank (policy_at sample_engine ''p2'') \<le> rank (Engine_Evaluate literal_cel 0 sample_engine zeroContext)"
  using evaluate_most_restrictive [of sample_engine literal_cel zeroContext 0]
  by (simp add: sample_engine_defs matches_def policy_at_def)

text \<open>A DENY policy whose expression is true always decides: no other policy can turn the
  call into anything else.\<close>

theorem deny_wins:
  assumes "(i, p) \<in> set (ce_programs e)" and "matches lib (buildActivation ctx) p"
    and "cp_Action (policy_at e i) = ActionDeny"
  shows "ed_Action (Engine_Evaluate lib now e ctx) = ActionDeny"
proof -
  let ?d = "Engine_Evaluate lib now e ctx"
  have "policy_rank (policy_at e i) \<le> rank ?d" by (rule engine_rank_le [OF assms(1,2)])
  moreover have "25 \<le> policy_rank (policy_at e i)"
    using assms(3) severityPriority_range [of "cp_Severity (policy_at e i)"]
    by (simp add: policy_rank_def actionPriority_def)
  ultimately have "25 \<le> rank ?d" by simp
  then have "actionPriority (ed_Action ?d) = 5"
    using actionPriority_range [of "ed_Action ?d"] severityPriority_range [of "ed_Severity ?d"]
    unfolding rank_def by linarith
  then show ?thesis by (simp only: actionPriority_5)
qed

theorem deny_wins_witness:
  "ed_Action (Engine_Evaluate literal_cel 0 sample_engine zeroContext) = ActionDeny"
  using deny_wins [of "''p2''" True sample_engine literal_cel zeroContext 0]
  by (simp add: sample_engine_defs matches_def policy_at_def)

lemma fold_max_mset:
  fixes f :: "'a \<Rightarrow> int"
  assumes "mset xs = mset ys"
  shows "fold (\<lambda>a. if P a then max (f a) else id) xs x = fold (\<lambda>a. if P a then max (f a) else id) ys x"
  using assms by (intro fold_permuted_eq [where P = "\<lambda>_. True"]) (auto simp: max.left_commute)

text \<open>The actions that have a place in the order of restrictiveness; the two requests for an administrator's approval share one.\<close>

definition knownActions :: "Action list" where
  "knownActions = [ActionDeny, ActionPendingAdminApproval, ActionPendingApproval, ActionPendingUserApproval, ActionWarn, ActionAllow]"

lemma same_priority:
  assumes "actionPriority a = actionPriority a'"
  shows "a = a' \<or> {a, a'} \<subseteq> {ActionPendingApproval, ActionPendingAdminApproval} \<or> a \<notin> set knownActions \<and> a' \<notin> set knownActions"
proof (cases "a \<in> set knownActions")
  case True
  then show ?thesis using assms by (auto simp: actionPriority_def knownActions_def split: if_splits)
next
  case False
  then show ?thesis using assms by (auto simp: actionPriority_def knownActions_def split: if_splits)
qed

text \<open>C10: the order in which the runtime iterates over the programs decides nothing but ties: the decision has the same rank of action and
  severity, and the same action, unless it is one of the two spellings of a request for an administrator's approval or an action the
  engine does not know.\<close>

theorem evaluate_order_independent:
  assumes "mset ps = mset (ce_programs e)"
  shows "let d = Engine_Evaluate lib now (e\<lparr>ce_programs := ps\<rparr>) ctx; d' = Engine_Evaluate lib now e ctx
    in actionPriority (ed_Action d) = actionPriority (ed_Action d') \<and> severityPriority (ed_Severity d) = severityPriority (ed_Severity d') \<and>
       (ed_Action d = ed_Action d' \<or> {ed_Action d, ed_Action d'} \<subseteq> {ActionPendingApproval, ActionPendingAdminApproval} \<or>
        ed_Action d \<notin> set knownActions \<and> ed_Action d' \<notin> set knownActions)"
proof -
  have [simp]: "policy_at (e\<lparr>ce_programs := ps\<rparr>) i = policy_at e i" for i by (simp add: policy_at_def)
  from fold_max_mset [OF assms, of "\<lambda>a. matches lib (buildActivation ctx) (snd a)"
      "\<lambda>a. policy_rank (policy_at e (fst a))" 0]
  have "rank (Engine_Evaluate lib now (e\<lparr>ce_programs := ps\<rparr>) ctx) = rank (Engine_Evaluate lib now e ctx)"
    by (simp add: Engine_Evaluate_def eval_fold_rank split_def cong: if_cong)
  then show ?thesis using same_priority unfolding rank_eq_iff Let_def by blast
qed

theorem evaluate_order_independent_witness:
  "ed_Action (Engine_Evaluate literal_cel 0 (sample_engine\<lparr>ce_programs := [(''p2'', True), (''p1'', True)]\<rparr>) zeroContext) = ActionDeny"
proof -
  have d: "ed_Action (Engine_Evaluate literal_cel 0 sample_engine zeroContext) = ActionDeny"
    by (rule deny_wins_witness)
  have "mset [(''p2'', True), (''p1'', True)] = mset (ce_programs sample_engine)" by (simp add: sample_engine_defs)
  from evaluate_order_independent [OF this, of literal_cel 0 zeroContext] show ?thesis unfolding d Let_def by (simp add: knownActions_def)
qed

end
