(* ===== verification/Resolver.thy ===== *)
theory Resolver
  imports Heuristics EnforcerStore
begin

text \<open>
  Resolving the safety profile of a tool (src/enforcer/resolver.go). The resolver keeps the overrides an
  administrator registered; the store it consults is passed as \<open>db option\<close>, \<open>None\<close> being a nil
  store. A resolution always succeeds: every lookup failure falls through to the next tier, and the last tier
  infers a profile from the tool's name.
\<close>

definition strip_underscore :: "string \<Rightarrow> string" where
  "strip_underscore s = (if HasPrefix s ''_'' then drop 1 s else s)"

definition stripNamespacePrefix :: "db \<Rightarrow> string \<Rightarrow> string \<Rightarrow> string" where
  "stripNamespacePrefix db toolName backendID =
     (let prefix = (case ES_GetToolPrefix backendID db of
                      Inl _ \<Rightarrow> backendID @ ''_''
                    | Inr p \<Rightarrow> if p = [] then backendID @ ''_'' else p)
      in if HasPrefix toolName prefix then strip_underscore (drop (length prefix) toolName) else toolName)"

record MetadataResolver =
  mr_overrides :: "(string, SafetyProfile) gomap"

definition NewMetadataResolver :: MetadataResolver where
  "NewMetadataResolver = \<lparr>mr_overrides = []\<rparr>"

definition resolver_key :: "string \<Rightarrow> string \<Rightarrow> string" where
  "resolver_key toolName backendID = toolName @ ''|'' @ backendID"

definition sourceFromRawProfile :: "string \<Rightarrow> string" where
  "sourceFromRawProfile raw =
     (if Contains raw ''\"source\":\"inferred\"'' then ''inferred'' else ''self_reported'')"

definition inferDefaults :: "string \<Rightarrow> SafetyProfile" where
  "inferDefaults toolName = HeuristicProfile toolName [] None"

definition admin_profile :: "string \<Rightarrow> string \<Rightarrow> SafetyProfile \<Rightarrow> SafetyProfile" where
  "admin_profile toolName backendID override =
     override\<lparr>sp_ToolName := toolName, sp_BackendID := backendID, sp_Source := ''override''\<rparr>"

definition stored_profile :: "string \<Rightarrow> string \<Rightarrow> ToolProfileRow \<Rightarrow> SafetyProfile" where
  "stored_profile toolName backendID p = zeroSafetyProfile\<lparr>sp_ToolName := toolName, sp_BackendID := backendID,
     sp_Risk := tp_RiskLevel p, sp_Impact := tp_ImpactScope p, sp_Cost := tp_ResourceCost p,
     sp_RequiresHITL := tp_RequiresHITL p, sp_PIIExposure := tp_PIIExposure p,
     sp_Source := sourceFromRawProfile (tp_RawProfile p)\<rparr>"

definition user_profile :: "string \<Rightarrow> string \<Rightarrow> EnforcerOverrideRow \<Rightarrow> SafetyProfile" where
  "user_profile toolName backendID ov = zeroSafetyProfile\<lparr>sp_ToolName := toolName, sp_BackendID := backendID,
     sp_Risk := eo_RiskLevel ov, sp_Impact := eo_ImpactScope ov, sp_Cost := eo_ResourceCost ov,
     sp_RequiresHITL := eo_RequiresHITL ov, sp_PIIExposure := eo_PIIExposure ov, sp_Source := ''user_override''\<rparr>"

definition inferred_profile :: "string \<Rightarrow> string \<Rightarrow> SafetyProfile" where
  "inferred_profile toolName backendID =
     (inferDefaults toolName)\<lparr>sp_ToolName := toolName, sp_BackendID := backendID, sp_Source := ''inferred''\<rparr>"

text \<open>The two last tiers, which \<open>Resolve\<close> and \<open>ResolveForUser\<close> share.\<close>

definition resolve_stored :: "db option \<Rightarrow> string \<Rightarrow> string \<Rightarrow> SafetyProfile" where
  "resolve_stored store toolName backendID =
     (case store of
        None \<Rightarrow> inferred_profile toolName backendID
      | Some db \<Rightarrow>
          (let lookupName = stripNamespacePrefix db toolName backendID
           in case ES_GetToolProfile backendID lookupName db of
                Inr profile \<Rightarrow> stored_profile toolName backendID profile
              | Inl _ \<Rightarrow> inferred_profile toolName backendID))"

definition Resolve :: "db option \<Rightarrow> MetadataResolver \<Rightarrow> string \<Rightarrow> string \<Rightarrow> goerr + SafetyProfile" where
  "Resolve store r toolName backendID =
     (case map_of (mr_overrides r) (resolver_key toolName backendID) of
        Some override \<Rightarrow> Inr (admin_profile toolName backendID override)
      | None \<Rightarrow> Inr (resolve_stored store toolName backendID))"

definition user_override_of :: "db \<Rightarrow> string \<Rightarrow> string \<Rightarrow> string \<Rightarrow> EnforcerOverrideRow option" where
  "user_override_of db toolName backendID userID =
     (case ES_ListUserOverrides userID db of
        Inl _ \<Rightarrow> None
      | Inr userOverrides \<Rightarrow> List.find (\<lambda>ov. eo_ToolName ov = toolName \<and> eo_BackendID ov = backendID) userOverrides)"

definition ResolveForUser ::
    "db option \<Rightarrow> MetadataResolver \<Rightarrow> string \<Rightarrow> string \<Rightarrow> string \<Rightarrow> goerr + SafetyProfile" where
  "ResolveForUser store r toolName backendID userID =
     (case map_of (mr_overrides r) (resolver_key toolName backendID) of
        Some override \<Rightarrow> Inr (admin_profile toolName backendID override)
      | None \<Rightarrow>
          (case (if userID = [] then None else Option.bind store (\<lambda>db. user_override_of db toolName backendID userID)) of
             Some ov \<Rightarrow> Inr (user_profile toolName backendID ov)
           | None \<Rightarrow> Inr (resolve_stored store toolName backendID)))"

definition RegisterOverride :: "string \<Rightarrow> string \<Rightarrow> SafetyProfile \<Rightarrow> MetadataResolver \<Rightarrow> goerr + MetadataResolver" where
  "RegisterOverride toolName backendID profile r =
     (if sp_Risk profile = [] then Inl (ErrNew ''risk level is required'')
      else if sp_Impact profile = [] then Inl (ErrNew ''impact scope is required'')
      else Inr (r\<lparr>mr_overrides := AList.update (resolver_key toolName backendID) profile (mr_overrides r)\<rparr>))"

definition RemoveOverride :: "string \<Rightarrow> string \<Rightarrow> MetadataResolver \<Rightarrow> goerr + MetadataResolver" where
  "RemoveOverride toolName backendID r =
     (case map_of (mr_overrides r) (resolver_key toolName backendID) of
        None \<Rightarrow> Inl (ErrNew (''no override found for tool: '' @ toolName))
      | Some _ \<Rightarrow> Inr (r\<lparr>mr_overrides := AList.delete (resolver_key toolName backendID) (mr_overrides r)\<rparr>))"

definition GetOverride :: "string \<Rightarrow> string \<Rightarrow> MetadataResolver \<Rightarrow> SafetyProfile option" where
  "GetOverride toolName backendID r = map_of (mr_overrides r) (resolver_key toolName backendID)"

definition ListOverrides :: "MetadataResolver \<Rightarrow> (string, SafetyProfile) gomap" where
  "ListOverrides r = fold (\<lambda>(k, v) result. AList.update k v result) (mr_overrides r) []"

definition ClearOverrides :: "MetadataResolver \<Rightarrow> MetadataResolver" where
  "ClearOverrides r = r\<lparr>mr_overrides := []\<rparr>"

definition GetProfile :: "db option \<Rightarrow> MetadataResolver \<Rightarrow> string \<Rightarrow> SafetyProfile \<times> bool" where
  "GetProfile store r toolName =
     (case Resolve store r toolName [] of Inr profile \<Rightarrow> (profile, True) | Inl _ \<Rightarrow> (zeroSafetyProfile, False))"

section \<open>The tiers\<close>

lemma sourceFromRawProfile_cases: "sourceFromRawProfile raw \<in> {''inferred'', ''self_reported''}"
  by (simp add: sourceFromRawProfile_def)

lemma resolve_stored_fields [simp]:
  "sp_ToolName (resolve_stored s t b) = t" "sp_BackendID (resolve_stored s t b) = b"
  by (simp_all add: resolve_stored_def stored_profile_def inferred_profile_def split: option.splits sum.splits)

lemma resolve_stored_source: "sp_Source (resolve_stored s t b) \<in> {''inferred'', ''self_reported''}"
  using sourceFromRawProfile_cases
  by (auto simp: resolve_stored_def stored_profile_def inferred_profile_def Let_def split: option.splits sum.splits)

text \<open>The profiles that come from an override are exactly those whose \<open>Source\<close> says so.\<close>

definition resolved :: "db option \<Rightarrow> MetadataResolver \<Rightarrow> string \<Rightarrow> string \<Rightarrow> string \<Rightarrow> SafetyProfile" where
  "resolved store r toolName backendID userID =
     (case ResolveForUser store r toolName backendID userID of Inr p \<Rightarrow> p | Inl _ \<Rightarrow> zeroSafetyProfile)"

lemma ResolveForUser_total: "ResolveForUser s r t b u = Inr (resolved s r t b u)"
  by (auto simp: ResolveForUser_def resolved_def split: option.splits)

text \<open>resolution always succeeds, names the tool and backend it was asked for, and its source tells
  the tier: an administrator's override wins over everything, then the user's own, and only then the stored or
  inferred profile, which do not depend on the user.\<close>

theorem resolution_tiers:
  "\<exists>p. ResolveForUser store r t b u = Inr p \<and> sp_ToolName p = t \<and> sp_BackendID p = b \<and>
     (sp_Source p = ''override'' \<longleftrightarrow> GetOverride t b r \<noteq> None) \<and>
     (sp_Source p = ''user_override'' \<longleftrightarrow> GetOverride t b r = None \<and> u \<noteq> [] \<and>
        Option.bind store (\<lambda>db. user_override_of db t b u) \<noteq> None) \<and>
     (sp_Source p \<in> {''self_reported'', ''inferred''} \<longrightarrow> Resolve store r t b = Inr p)"
proof (cases "GetOverride t b r")
  case (Some ov)
  then show ?thesis
    by (simp add: ResolveForUser_def GetOverride_def admin_profile_def)
next
  case None
  define ov where "ov = (if u = [] then None else Option.bind store (\<lambda>db. user_override_of db t b u))"
  show ?thesis
  proof (cases ov)
    case (Some o')
    with None show ?thesis
      unfolding ResolveForUser_def GetOverride_def ov_def [symmetric]
      by (auto simp: ov_def user_profile_def split: if_splits)
  next
    case ov_None: None
    from None have "ResolveForUser store r t b u = Inr (resolve_stored store t b)"
      and "Resolve store r t b = Inr (resolve_stored store t b)"
      using ov_None by (simp_all add: ResolveForUser_def GetOverride_def Resolve_def flip: ov_def)
    with None ov_None resolve_stored_source [of store t b] show ?thesis
      by (auto simp: ov_def split: if_splits)
  qed
qed

theorem resolution_tiers_witness:
  "\<exists>p. ResolveForUser (Some override_db) NewMetadataResolver ''post'' ''slack'' ''bob'' = Inr p \<and>
     sp_Source p \<noteq> ''override'' \<and> sp_ToolName p = ''post''"
  using resolution_tiers [of "Some override_db" NewMetadataResolver "''post''" "''slack''" "''bob''"]
  by (auto simp: NewMetadataResolver_def GetOverride_def)

text \<open>an override that is accepted is what resolution returns for its tool, whatever the store says,
  until it is removed; an override without a risk level or an impact scope is refused.\<close>

theorem override_roundtrip:
  "(sp_Risk p = [] \<or> sp_Impact p = [] \<longleftrightarrow> (\<exists>e. RegisterOverride t b p r = Inl e)) \<and>
    (\<forall>r'. RegisterOverride t b p r = Inr r' \<longrightarrow>
       ResolveForUser store r' t b u = Inr (p\<lparr>sp_ToolName := t, sp_BackendID := b, sp_Source := ''override''\<rparr>) \<and>
       (\<exists>r''. RemoveOverride t b r' = Inr r'' \<and> GetOverride t b r'' = None))"
  by (simp add: RegisterOverride_def ResolveForUser_def RemoveOverride_def GetOverride_def admin_profile_def gomap_simps)

theorem override_roundtrip_witness:
  "\<exists>r'. RegisterOverride ''post'' ''slack'' (zeroSafetyProfile\<lparr>sp_Risk := ''low'', sp_Impact := ''read''\<rparr>)
      NewMetadataResolver = Inr r' \<and>
     ResolveForUser None r' ''post'' ''slack'' ''bob'' = Inr (zeroSafetyProfile\<lparr>sp_ToolName := ''post'',
       sp_BackendID := ''slack'', sp_Risk := ''low'', sp_Impact := ''read'', sp_Source := ''override''\<rparr>)"
  using override_roundtrip [of "zeroSafetyProfile\<lparr>sp_Risk := ''low'', sp_Impact := ''read''\<rparr>"
      "''post''" "''slack''" NewMetadataResolver None "''bob''"]
  by (simp add: NewMetadataResolver_def RegisterOverride_def zeroSafetyProfile_def)

end
