(* ===== verification/Crypto.thy ===== *)
theory Crypto
  imports Prelude
begin

text \<open>
  Encryption of secrets at rest (src/internal/crypto): the key providers, the envelope format and the
  key store. The primitives of Go's standard library are the record \<open>crypto_lib\<close>: AES-GCM, HKDF, SHA-256,
  PBKDF2 (with the iteration count and key size of the source) and base64. \<open>crypto_lawful\<close> states what the code
  relies on: opening a sealed text with the same key and nonce gives it back, sealing adds the tag, HKDF returns the
  length asked for. The locale \<open>kek_provider\<close> is the interface \<open>KEKProvider\<close>, interpreted for both providers. The operating system is the record \<open>opsys\<close>.
  Random bytes are drawn from \<open>rng\<close>: the i-th read of an operation asks for \<open>n\<close> bytes, and
  \<open>io.ReadFull\<close> returns exactly so many or fails. Zeroing buffers has no observable effect here: every
  buffer zeroed is a private copy, except in the \<open>Close\<close> methods, where it comes with dropping the cache.
\<close>

record crypto_lib =
  cl_seal :: "string \<Rightarrow> string \<Rightarrow> string \<Rightarrow> string"
  cl_open :: "string \<Rightarrow> string \<Rightarrow> string \<Rightarrow> string option"
  cl_hkdf :: "string \<Rightarrow> string option"
  cl_sha256 :: "string \<Rightarrow> string"
  cl_base64 :: "string \<Rightarrow> string option"
  cl_base64_encode :: "string \<Rightarrow> string"
  cl_pbkdf2 :: "string \<Rightarrow> string \<Rightarrow> string"

datatype file_result = FileData string | FileMissing | FileError string

record opsys =
  sys_Getenv :: "string \<Rightarrow> string"
  sys_ReadFile :: "string \<Rightarrow> file_result"
  sys_Join :: "string \<Rightarrow> string \<Rightarrow> string"

type_synonym rng = "nat \<Rightarrow> nat \<Rightarrow> string option"

definition skip_rng :: "nat \<Rightarrow> rng \<Rightarrow> rng" where
  "skip_rng k rng = (\<lambda>i. rng (i + k))"

definition rng_sound :: "rng \<Rightarrow> bool" where
  "rng_sound rng \<longleftrightarrow> (\<forall>i n b. rng i n = Some b \<longrightarrow> length b = n)"

lemma rng_sound_skip [simp]: "rng_sound rng \<Longrightarrow> rng_sound (skip_rng k rng)"
  by (simp add: rng_sound_def skip_rng_def)

definition keySize :: nat where "keySize = 32"
definition nonceSize :: nat where "nonceSize = 12"
definition gcmTagSize :: nat where "gcmTagSize = 16"

lemmas crypto_sizes = keySize_def nonceSize_def gcmTagSize_def

section \<open>Keys\<close>

definition is_hex_digit :: "char \<Rightarrow> bool" where
  "is_hex_digit c \<longleftrightarrow> (let n = (of_char c :: nat) in
     (48 \<le> n \<and> n \<le> 57) \<or> (97 \<le> n \<and> n \<le> 102) \<or> (65 \<le> n \<and> n \<le> 70))"

definition isHex :: "string \<Rightarrow> bool" where
  "isHex s \<longleftrightarrow> (if length s < 2 then False else list_all is_hex_digit s)"

fun isLikelyRawBytes :: "string \<Rightarrow> bool" where
  "isLikelyRawBytes [] = True"
| "isLikelyRawBytes (ch # s) =
     (let c = (of_char ch :: nat) in
      if c < 32 \<or> c > 126 then True
      else if 48 \<le> c \<and> c \<le> 57 then False
      else if (97 \<le> c \<and> c \<le> 122) \<or> (65 \<le> c \<and> c \<le> 90) then False
      else isLikelyRawBytes s)"

text \<open>\<open>hex.DecodeString\<close>.\<close>

definition hex_value :: "char \<Rightarrow> nat option" where
  "hex_value c = (let n = (of_char c :: nat) in
     if 48 \<le> n \<and> n \<le> 57 then Some (n - 48)
     else if 97 \<le> n \<and> n \<le> 102 then Some (n - 87)
     else if 65 \<le> n \<and> n \<le> 70 then Some (n - 55) else None)"

fun hex_decode :: "string \<Rightarrow> string option" where
  "hex_decode [] = Some []"
| "hex_decode [c] = None"
| "hex_decode (c # d # s) =
     (case (hex_value c, hex_value d, hex_decode s) of
        (Some a, Some b, Some r) \<Rightarrow> Some (char_of (16 * a + b) # r)
      | _ \<Rightarrow> None)"

definition hex_digit :: "nat \<Rightarrow> char" where
  "hex_digit n = (if n < 10 then char_of (48 + n) else char_of (87 + n))"

definition hex_encode :: "string \<Rightarrow> string" where
  "hex_encode s = concat (map (\<lambda>c. [hex_digit ((of_char c :: nat) div 16), hex_digit ((of_char c :: nat) mod 16)]) s)"

definition parseKey :: "crypto_lib \<Rightarrow> string \<Rightarrow> goerr + string" where
  "parseKey lib s0 =
     (let s = TrimSpace s0 in
      if isHex s
      then (case (if length s = 32 \<or> length s = 64 then hex_decode s else None) of
              Some decoded \<Rightarrow> Inr decoded
            | None \<Rightarrow> Inl (ErrNew (''invalid hex key length: expected 32 or 64 characters, got '' @ itoa (int (length s)))))
      else (case cl_base64 lib s of
              Some decoded \<Rightarrow>
                if length decoded \<ge> 16 then Inr decoded
                else if isLikelyRawBytes s \<and> length s \<ge> 16 then Inr s
                else Inl (ErrNew ''invalid key format'')
            | None \<Rightarrow>
                if isLikelyRawBytes s \<and> length s \<ge> 16 then Inr s
                else Inl (ErrNew ''invalid key format'')))"

definition KeyFromHex :: "crypto_lib \<Rightarrow> string \<Rightarrow> goerr + string" where
  "KeyFromHex lib s = parseKey lib s"

definition KeyFromBase64 :: "crypto_lib \<Rightarrow> string \<Rightarrow> goerr + string" where
  "KeyFromBase64 lib s = parseKey lib s"

definition KeyID :: "crypto_lib \<Rightarrow> string \<Rightarrow> string" where
  "KeyID lib key = hex_encode (take 8 (cl_sha256 lib key))"

definition GenerateRandomKey :: "rng \<Rightarrow> goerr + string" where
  "GenerateRandomKey rng =
     (case rng 0 keySize of None \<Rightarrow> Inl (ErrNew ''failed to generate random key'') | Some key \<Rightarrow> Inr key)"

text \<open>\<open>copy\<close> into a zeroed buffer of \<open>keySize\<close> bytes.\<close>

definition into_key :: "string \<Rightarrow> string" where
  "into_key b = take keySize (b @ replicate keySize (char_of (0 :: nat)))"

definition deriveKey :: "crypto_lib \<Rightarrow> string \<Rightarrow> string" where
  "deriveKey lib key =
     (if length key = keySize then key
      else case cl_hkdf lib key of
             None \<Rightarrow> into_key (cl_sha256 lib key)
           | Some derived \<Rightarrow> derived)"

section \<open>Key providers\<close>

record EnvVarProvider =
  ev_keyEnv :: string
  ev_keyFileEnv :: string
  ev_cached :: "string option"

definition NewEnvVarProvider :: "string \<Rightarrow> string \<Rightarrow> EnvVarProvider" where
  "NewEnvVarProvider keyEnv keyFileEnv = \<lparr>ev_keyEnv = keyEnv, ev_keyFileEnv = keyFileEnv, ev_cached = None\<rparr>"

definition key_from_file :: "crypto_lib \<Rightarrow> string \<Rightarrow> string \<Rightarrow> goerr + string" where
  "key_from_file lib what txt =
     (case parseKey lib (TrimSpace txt) of Inl err \<Rightarrow> Inl (ErrWrap what err) | Inr key \<Rightarrow> Inr key)"

definition EnvVar_GetKey :: "crypto_lib \<Rightarrow> opsys \<Rightarrow> EnvVarProvider \<Rightarrow> (goerr + string) \<times> EnvVarProvider" where
  "EnvVar_GetKey lib sys p =
     (case ev_cached p of
        Some key \<Rightarrow> (Inr key, p)
      | None \<Rightarrow>
          (let envVar = (if ev_keyEnv p = [] then ''ENCRYPTION_KEY'' else ev_keyEnv p);
               env = sys_Getenv sys envVar
           in if env \<noteq> []
              then (case parseKey lib env of
                      Inl err \<Rightarrow> (Inl (ErrWrap (''failed to parse '' @ envVar) err), p)
                    | Inr key \<Rightarrow> (Inr key, p\<lparr>ev_cached := Some key\<rparr>))
              else (let fileEnv = (if ev_keyFileEnv p = [] then ''ENCRYPTION_KEY_FILE'' else ev_keyFileEnv p);
                        filePath = sys_Getenv sys fileEnv
                    in if filePath \<noteq> []
                       then (case sys_ReadFile sys filePath of
                               FileData txt \<Rightarrow>
                                 (case key_from_file lib ''failed to parse key from file'' txt of
                                    Inl err \<Rightarrow> (Inl err, p)
                                  | Inr key \<Rightarrow> (Inr key, p\<lparr>ev_cached := Some key\<rparr>))
                             | FileMissing \<Rightarrow> (Inl (ErrNew ''failed to read key file''), p)
                             | FileError msg \<Rightarrow> (Inl (ErrWrap ''failed to read key file'' (ErrIO msg)), p))
                       else (Inl (ErrNew (''neither '' @ envVar @ '' nor '' @ fileEnv @ '' is set'')), p))))"

definition EnvVar_Close :: "EnvVarProvider \<Rightarrow> goerr option \<times> EnvVarProvider" where
  "EnvVar_Close p = (None, p\<lparr>ev_cached := None\<rparr>)"

record K8sSecretProvider =
  k8_dir :: string
  k8_keyName :: string
  k8_cached :: "string option"
  k8_closeErr :: "goerr option"

definition NewK8sSecretProvider :: "string \<Rightarrow> string \<Rightarrow> K8sSecretProvider" where
  "NewK8sSecretProvider dir keyName =
     \<lparr>k8_dir = dir, k8_keyName = (if keyName = [] then ''encryption.key'' else keyName), k8_cached = None,
      k8_closeErr = None\<rparr>"

definition K8s_GetKey :: "crypto_lib \<Rightarrow> opsys \<Rightarrow> K8sSecretProvider \<Rightarrow> (goerr + string) \<times> K8sSecretProvider" where
  "K8s_GetKey lib sys p =
     (case k8_cached p of
        Some key \<Rightarrow> (Inr key, p)
      | None \<Rightarrow>
          (case sys_ReadFile sys (sys_Join sys (k8_dir p) (k8_keyName p)) of
             FileMissing \<Rightarrow> (Inl (ErrNew ''key file not found''), p)
           | FileError msg \<Rightarrow> (Inl (ErrWrap ''failed to read key file'' (ErrIO msg)), p)
           | FileData txt \<Rightarrow>
               (case key_from_file lib ''failed to parse key'' txt of
                  Inl err \<Rightarrow> (Inl err, p)
                | Inr key \<Rightarrow> (Inr key, p\<lparr>k8_cached := Some key\<rparr>))))"

definition K8s_Close :: "K8sSecretProvider \<Rightarrow> goerr option \<times> K8sSecretProvider" where
  "K8s_Close p = (k8_closeErr p, p\<lparr>k8_cached := None\<rparr>)"

text \<open>The interface \<open>KEKProvider\<close> and its two implementations.\<close>

datatype KEKProvider = EnvVar EnvVarProvider | K8sSecret K8sSecretProvider

fun GetKey :: "crypto_lib \<Rightarrow> opsys \<Rightarrow> KEKProvider \<Rightarrow> (goerr + string) \<times> KEKProvider" where
  "GetKey lib sys (EnvVar p) = map_prod id EnvVar (EnvVar_GetKey lib sys p)"
| "GetKey lib sys (K8sSecret p) = map_prod id K8sSecret (K8s_GetKey lib sys p)"

fun Provider_Close :: "KEKProvider \<Rightarrow> goerr option \<times> KEKProvider" where
  "Provider_Close (EnvVar p) = map_prod id EnvVar (EnvVar_Close p)"
| "Provider_Close (K8sSecret p) = map_prod id K8sSecret (K8s_Close p)"

definition Provider_KeyID :: "crypto_lib \<Rightarrow> opsys \<Rightarrow> KEKProvider \<Rightarrow> string \<times> KEKProvider" where
  "Provider_KeyID lib sys p =
     (case GetKey lib sys p of
        (Inl _, p) \<Rightarrow> ([], p)
      | (Inr key, p) \<Rightarrow> (KeyID lib key, p))"

section \<open>AES-GCM and the envelope\<close>

text \<open>\<open>aes.NewCipher\<close> accepts keys of 16, 24 and 32 bytes.\<close>

definition cipher_key :: "string \<Rightarrow> bool" where
  "cipher_key key \<longleftrightarrow> length key \<in> {16, 24, 32}"

definition encryptAESGCM :: "crypto_lib \<Rightarrow> string \<Rightarrow> string \<Rightarrow> string \<Rightarrow> goerr + string" where
  "encryptAESGCM lib key nonce plaintext =
     (if \<not> cipher_key key then Inl (ErrNew ''crypto/aes: invalid key size'')
      else if length nonce \<noteq> nonceSize then Inl (ErrNew ''invalid nonce size'')
      else Inr (cl_seal lib key nonce plaintext))"

definition decryptAESGCM :: "crypto_lib \<Rightarrow> string \<Rightarrow> string \<Rightarrow> string \<Rightarrow> goerr + string" where
  "decryptAESGCM lib key nonce ciphertext =
     (if \<not> cipher_key key then Inl (ErrNew ''crypto/aes: invalid key size'')
      else if length nonce \<noteq> nonceSize then Inl (ErrNew ''invalid nonce size'')
      else case cl_open lib key nonce ciphertext of
             None \<Rightarrow> Inl (ErrNew ''cipher: message authentication failed'')
           | Some plaintext \<Rightarrow> Inr plaintext)"

definition AES256GCMEncrypt :: "crypto_lib \<Rightarrow> rng \<Rightarrow> string \<Rightarrow> string \<Rightarrow> goerr + string" where
  "AES256GCMEncrypt lib rng key plaintext =
     (if length key \<noteq> keySize then Inl (ErrNew ''invalid key size'')
      else case rng 0 nonceSize of
             None \<Rightarrow> Inl (ErrNew ''failed to generate nonce'')
           | Some nonce \<Rightarrow> Inr (nonce @ cl_seal lib key nonce plaintext))"

definition AES256GCMDecrypt :: "crypto_lib \<Rightarrow> string \<Rightarrow> string \<Rightarrow> goerr + string" where
  "AES256GCMDecrypt lib key ciphertext =
     (if length key \<noteq> keySize then Inl (ErrNew ''invalid key size'')
      else if length ciphertext < gcmTagSize then Inl (ErrNew ''ciphertext too short'')
      else if length ciphertext < nonceSize then Inl (ErrNew ''ciphertext too short for nonce'')
      else case cl_open lib key (take nonceSize ciphertext) (drop nonceSize ciphertext) of
             None \<Rightarrow> Inl (ErrNew ''cipher: message authentication failed'')
           | Some plaintext \<Rightarrow> Inr plaintext)"

text \<open>\<open>binary.BigEndian\<close> on 32 bits.\<close>

definition put_uint32 :: "nat \<Rightarrow> string" where
  "put_uint32 n = [char_of (n div 2 ^ 24 mod 256), char_of (n div 2 ^ 16 mod 256), char_of (n div 2 ^ 8 mod 256),
     char_of (n mod 256)]"

definition get_uint32 :: "string \<Rightarrow> nat" where
  "get_uint32 s = (of_char (s ! 0) * 2 ^ 24 + of_char (s ! 1) * 2 ^ 16 + of_char (s ! 2) * 2 ^ 8 + of_char (s ! 3))"

definition seal_envelope :: "crypto_lib \<Rightarrow> rng \<Rightarrow> string \<Rightarrow> string \<Rightarrow> goerr + string" where
  "seal_envelope lib rng kek plaintext =
     (case rng 0 keySize of
        None \<Rightarrow> Inl (ErrNew ''failed to generate DEK'')
      | Some dek \<Rightarrow>
     (case rng 1 nonceSize of
        None \<Rightarrow> Inl (ErrNew ''failed to generate nonce'')
      | Some nonceDEK \<Rightarrow>
     (case rng 2 nonceSize of
        None \<Rightarrow> Inl (ErrNew ''failed to generate nonce'')
      | Some noncePT \<Rightarrow>
     (case encryptAESGCM lib dek noncePT plaintext of
        Inl err \<Rightarrow> Inl (ErrWrap ''failed to encrypt plaintext'' err)
      | Inr ciphertext \<Rightarrow>
     (case encryptAESGCM lib kek nonceDEK dek of
        Inl err \<Rightarrow> Inl (ErrWrap ''failed to encrypt DEK'' err)
      | Inr encryptedDEK \<Rightarrow>
          Inr (put_uint32 (length encryptedDEK) @ encryptedDEK @ nonceDEK @ noncePT @ ciphertext))))))"

definition open_envelope :: "crypto_lib \<Rightarrow> string \<Rightarrow> string \<Rightarrow> goerr + string" where
  "open_envelope lib kek ciphertext =
     (if length ciphertext < 4 + nonceSize + nonceSize + gcmTagSize then Inl (ErrNew ''ciphertext too short'')
      else let encryptedDEKLen = get_uint32 (take 4 ciphertext)
      in if length ciphertext < 4 + encryptedDEKLen + nonceSize + nonceSize + gcmTagSize
         then Inl (ErrNew ''ciphertext too short for encrypted DEK'')
         else let rest = drop 4 ciphertext;
                  encryptedDEK = take encryptedDEKLen rest;
                  nonceDEK = take nonceSize (drop encryptedDEKLen rest);
                  noncePT = take nonceSize (drop (encryptedDEKLen + nonceSize) rest);
                  encryptedPlaintext = drop (encryptedDEKLen + nonceSize + nonceSize) rest
              in case decryptAESGCM lib kek nonceDEK encryptedDEK of
                   Inl err \<Rightarrow> Inl (ErrWrap ''failed to decrypt DEK'' err)
                 | Inr dek \<Rightarrow>
                     (case decryptAESGCM lib dek noncePT encryptedPlaintext of
                        Inl err \<Rightarrow> Inl (ErrWrap ''failed to decrypt plaintext'' err)
                      | Inr plaintext \<Rightarrow> Inr plaintext))"

definition Encrypt :: "crypto_lib \<Rightarrow> opsys \<Rightarrow> rng \<Rightarrow> string \<Rightarrow> KEKProvider \<Rightarrow> (goerr + string) \<times> KEKProvider" where
  "Encrypt lib sys rng plaintext p =
     (case GetKey lib sys p of
        (Inl err, p) \<Rightarrow> (Inl err, p)
      | (Inr kek, p) \<Rightarrow> (seal_envelope lib rng (deriveKey lib kek) plaintext, p))"

definition Decrypt :: "crypto_lib \<Rightarrow> opsys \<Rightarrow> string \<Rightarrow> KEKProvider \<Rightarrow> (goerr + string) \<times> KEKProvider" where
  "Decrypt lib sys ciphertext p =
     (case GetKey lib sys p of
        (Inl err, p) \<Rightarrow> (Inl err, p)
      | (Inr kek, p) \<Rightarrow>
          (let res = open_envelope lib (deriveKey lib kek) ciphertext
           in case Provider_Close p of
                (Some closeErr, p) \<Rightarrow> (Inl closeErr, p)
              | (None, p) \<Rightarrow> (res, p)))"

definition DecryptNoClose :: "crypto_lib \<Rightarrow> opsys \<Rightarrow> string \<Rightarrow> KEKProvider \<Rightarrow> (goerr + string) \<times> KEKProvider" where
  "DecryptNoClose lib sys ciphertext p =
     (case GetKey lib sys p of
        (Inl err, p) \<Rightarrow> (Inl err, p)
      | (Inr kek, p) \<Rightarrow> (open_envelope lib (deriveKey lib kek) ciphertext, p))"

section \<open>The key store and user keys\<close>

text \<open>\<open>KeyStore\<close> holds an \<open>EnvelopeEncryptor\<close>, which holds a provider.\<close>

record EnvelopeEncryptor =
  ee_provider :: KEKProvider

record KeyStore =
  kst_encryptor :: EnvelopeEncryptor

definition NewEnvelopeEncryptor :: "KEKProvider \<Rightarrow> EnvelopeEncryptor" where
  "NewEnvelopeEncryptor provider = \<lparr>ee_provider = provider\<rparr>"

definition NewKeyStore :: "KEKProvider \<Rightarrow> KeyStore" where
  "NewKeyStore provider = \<lparr>kst_encryptor = NewEnvelopeEncryptor provider\<rparr>"

definition with_provider :: "(KEKProvider \<Rightarrow> 'a \<times> KEKProvider) \<Rightarrow> KeyStore \<Rightarrow> 'a \<times> KeyStore" where
  "with_provider f ks = (let (r, p) = f (ee_provider (kst_encryptor ks)) in (r, ks\<lparr>kst_encryptor := \<lparr>ee_provider = p\<rparr>\<rparr>))"

definition EncryptSecret :: "crypto_lib \<Rightarrow> opsys \<Rightarrow> rng \<Rightarrow> string \<Rightarrow> KeyStore \<Rightarrow> (goerr + string) \<times> KeyStore" where
  "EncryptSecret lib sys rng plaintext = with_provider (Encrypt lib sys rng plaintext)"

definition DecryptSecret :: "crypto_lib \<Rightarrow> opsys \<Rightarrow> string \<Rightarrow> KeyStore \<Rightarrow> (goerr + string) \<times> KeyStore" where
  "DecryptSecret lib sys encrypted = with_provider (DecryptNoClose lib sys encrypted)"

definition DecryptSecretForUser ::
    "crypto_lib \<Rightarrow> opsys \<Rightarrow> string \<Rightarrow> string \<Rightarrow> KeyStore \<Rightarrow> (goerr + string) \<times> KeyStore" where
  "DecryptSecretForUser lib sys encrypted userID = with_provider (Decrypt lib sys encrypted)"

definition SetEncryptor :: "EnvelopeEncryptor \<Rightarrow> KeyStore \<Rightarrow> KeyStore" where
  "SetEncryptor encryptor ks = ks\<lparr>kst_encryptor := encryptor\<rparr>"

definition DeriveUserDEK :: "crypto_lib \<Rightarrow> string \<Rightarrow> string \<Rightarrow> goerr + string" where
  "DeriveUserDEK lib password saltBase64 =
     (case cl_base64 lib saltBase64 of
        None \<Rightarrow> Inl (ErrNew ''illegal base64 data'')
      | Some salt \<Rightarrow> Inr (cl_pbkdf2 lib password salt))"

definition GenerateSalt :: "crypto_lib \<Rightarrow> rng \<Rightarrow> goerr + string" where
  "GenerateSalt lib rng =
     (case rng 0 32 of None \<Rightarrow> Inl (ErrNew ''unexpected EOF'') | Some salt \<Rightarrow> Inr (cl_base64_encode lib salt))"

section \<open>The provider interface\<close>

definition crypto_lawful :: "crypto_lib \<Rightarrow> bool" where
  "crypto_lawful lib \<longleftrightarrow>
     (\<forall>k n p. cl_open lib k n (cl_seal lib k n p) = Some p) \<and>
     (\<forall>k n p. length (cl_seal lib k n p) = length p + gcmTagSize) \<and>
     (\<forall>k d. cl_hkdf lib k = Some d \<longrightarrow> length d = keySize)"

text \<open>What the envelope relies on of a provider: a key once read is served from the cache until \<open>Close\<close>, a
  failed read changes nothing, and a key that was not in the cache has at least sixteen bytes.\<close>

locale kek_provider =
  fixes get_key :: "opsys \<Rightarrow> 'p \<Rightarrow> (goerr + string) \<times> 'p"
    and close :: "'p \<Rightarrow> goerr option \<times> 'p"
    and cached :: "'p \<Rightarrow> string option"
  assumes get_cached: "cached p = Some k \<Longrightarrow> get_key sys p = (Inr k, p)"
    and get_caches: "get_key sys p = (Inr k, p') \<Longrightarrow> cached p' = Some k"
    and get_fails: "get_key sys p = (Inl e, p') \<Longrightarrow> p' = p"
    and get_long: "get_key sys p = (Inr k, p') \<Longrightarrow> cached p = None \<Longrightarrow> 16 \<le> length k"
    and close_forgets: "cached (snd (close p)) = None"
begin

lemma get_again: "get_key sys p = (Inr k, p') \<Longrightarrow> get_key sys' p' = (Inr k, p')"
  by (rule get_cached) (rule get_caches)

lemma key_long_kept:
  assumes "get_key sys p = (r, p')" and "\<forall>k. cached p = Some k \<longrightarrow> 16 \<le> length k"
  shows "\<forall>k. cached p' = Some k \<longrightarrow> 16 \<le> length k"
proof (cases r)
  case (Inl e)
  with assms get_fails show ?thesis by blast
next
  case (Inr k)
  with assms(1) have c: "cached p' = Some k" using get_caches by simp
  show ?thesis
  proof (cases "cached p")
    case None
    with assms(1) Inr c get_long show ?thesis by simp
  next
    case (Some k')
    with assms Inr c get_cached [OF Some, of sys] show ?thesis by simp
  qed
qed

end

lemma hex_decode_length: "hex_decode s = Some r \<Longrightarrow> length s = 2 * length r"
  by (induction s arbitrary: r rule: hex_decode.induct) (auto split: option.splits)

lemma parseKey_long: "parseKey lib s = Inr k \<Longrightarrow> 16 \<le> length k"
  by (auto simp: parseKey_def Let_def dest: hex_decode_length split: if_splits option.splits)

lemma key_from_file_long: "key_from_file lib w s = Inr k \<Longrightarrow> 16 \<le> length k"
  by (auto simp: key_from_file_def dest: parseKey_long split: sum.splits)

interpretation env_var: kek_provider "EnvVar_GetKey lib" EnvVar_Close ev_cached for lib
  by unfold_locales
    (auto simp: EnvVar_GetKey_def EnvVar_Close_def Let_def dest: parseKey_long key_from_file_long
      split: option.splits if_splits sum.splits file_result.splits)

interpretation k8s_secret: kek_provider "K8s_GetKey lib" K8s_Close k8_cached for lib
  by unfold_locales
    (auto simp: K8s_GetKey_def K8s_Close_def dest: key_from_file_long
      split: option.splits sum.splits file_result.splits)

fun provider_cached :: "KEKProvider \<Rightarrow> string option" where
  "provider_cached (EnvVar p) = ev_cached p"
| "provider_cached (K8sSecret p) = k8_cached p"

lemma map_prod_id_eq: "map_prod id f x = (a, b) \<longleftrightarrow> (\<exists>b'. x = (a, b') \<and> b = f b')"
  by (cases x) auto

interpretation provider: kek_provider "GetKey lib" Provider_Close provider_cached for lib
proof unfold_locales
  fix sys k p p' e
  show "provider_cached p = Some k \<Longrightarrow> GetKey lib sys p = (Inr k, p)"
    by (cases p) (simp_all add: env_var.get_cached k8s_secret.get_cached)
  show "GetKey lib sys p = (Inr k, p') \<Longrightarrow> provider_cached p' = Some k"
    by (cases p) (auto simp: map_prod_id_eq dest: env_var.get_caches k8s_secret.get_caches)
  show "GetKey lib sys p = (Inl e, p') \<Longrightarrow> p' = p"
    by (cases p) (auto simp: map_prod_id_eq dest: env_var.get_fails k8s_secret.get_fails)
  show "GetKey lib sys p = (Inr k, p') \<Longrightarrow> provider_cached p = None \<Longrightarrow> 16 \<le> length k"
    by (cases p) (auto simp: map_prod_id_eq dest: env_var.get_long k8s_secret.get_long)
  show "provider_cached (snd (Provider_Close p)) = None"
    by (cases p) (auto simp: env_var.close_forgets k8s_secret.close_forgets)
qed

section \<open>Round trips\<close>

lemma get_put_uint32:
  assumes "n < 2 ^ 32"
  shows "get_uint32 (put_uint32 n) = n"
proof -
  define a b c where "a = n div 256" and "b = a div 256" and "c = b div 256"
  have "n div 65536 = b" and "n div 16777216 = c"
    using div_mult2_eq [of n 256 256] div_mult2_eq [of n 256 "256 * 256"] div_mult2_eq [of a 256 256]
    by (simp_all add: a_def b_def c_def)
  moreover have "n = 256 * a + n mod 256" and "a = 256 * b + a mod 256" and "b = 256 * c + b mod 256"
    by (simp_all add: a_def b_def c_def)
  moreover have "c < 256" using assms by (simp add: a_def b_def c_def)
  ultimately show ?thesis by (simp add: get_uint32_def put_uint32_def flip: a_def)
qed

lemma deriveKey_length: "crypto_lawful lib \<Longrightarrow> length (deriveKey lib k) = keySize"
  by (auto simp: deriveKey_def into_key_def crypto_lawful_def split: option.splits)

lemma AESGCM_roundtrip:
  "crypto_lawful lib \<Longrightarrow> encryptAESGCM lib k n p = Inr c \<Longrightarrow> decryptAESGCM lib k n c = Inr p"
  by (auto simp: encryptAESGCM_def decryptAESGCM_def crypto_lawful_def split: if_splits)

lemma AESGCM_length:
  "crypto_lawful lib \<Longrightarrow> encryptAESGCM lib k n p = Inr c \<Longrightarrow> length c = length p + gcmTagSize"
  by (auto simp: encryptAESGCM_def crypto_lawful_def split: if_splits)

lemma open_envelope_frame:
  assumes "length ed < 2 ^ 32" and "length n1 = nonceSize" and "length n2 = nonceSize" and "gcmTagSize \<le> length ct"
    and "decryptAESGCM lib kek n1 ed = Inr dek" and "decryptAESGCM lib dek n2 ct = Inr p"
  shows "open_envelope lib kek (put_uint32 (length ed) @ ed @ n1 @ n2 @ ct) = Inr p"
proof -
  have four: "length (put_uint32 m) = 4" for m by (simp add: put_uint32_def)
  show ?thesis using assms by (simp add: open_envelope_def four get_put_uint32 Let_def)
qed

lemma envelope_roundtrip:
  assumes "crypto_lawful lib" and "rng_sound rng" and "seal_envelope lib rng kek p = Inr c"
  shows "open_envelope lib kek c = Inr p"
proof -
  from assms(3) obtain dek n1 n2 ct ed where r: "rng 0 keySize = Some dek" "rng 1 nonceSize = Some n1"
    "rng 2 nonceSize = Some n2" and e: "encryptAESGCM lib dek n2 p = Inr ct" "encryptAESGCM lib kek n1 dek = Inr ed"
    and c: "c = put_uint32 (length ed) @ ed @ n1 @ n2 @ ct"
    by (auto simp: seal_envelope_def split: option.splits sum.splits)
  from r assms(2) have "length dek = keySize" "length n1 = nonceSize" "length n2 = nonceSize"
    by (auto simp: rng_sound_def)
  moreover from e have "length ed = length dek + gcmTagSize" "length ct = length p + gcmTagSize"
    using AESGCM_length assms(1) by auto
  ultimately show ?thesis
    unfolding c using AESGCM_roundtrip [OF assms(1) e(1)] AESGCM_roundtrip [OF assms(1) e(2)]
    by (intro open_envelope_frame) (simp_all add: crypto_sizes)
qed

lemma seal_envelope_total:
  assumes "crypto_lawful lib" and "length kek = keySize" and "rng_sound rng"
    and "rng 0 keySize = Some dek" and "rng 1 nonceSize = Some n1" and "rng 2 nonceSize = Some n2"
  shows "\<exists>c. seal_envelope lib rng kek p = Inr c"
  using assms by (auto simp: seal_envelope_def encryptAESGCM_def cipher_key_def rng_sound_def crypto_sizes)

section \<open>Properties\<close>

lemma AES256GCM_roundtrip:
  assumes "crypto_lawful lib" and "rng_sound rng" and "AES256GCMEncrypt lib rng k p = Inr c"
  shows "AES256GCMDecrypt lib k c = Inr p"
proof -
  from assms(3) obtain n where "length k = keySize" and n: "rng 0 nonceSize = Some n"
    and c: "c = n @ cl_seal lib k n p"
    by (auto simp: AES256GCMEncrypt_def split: if_splits option.splits)
  moreover have "length n = nonceSize" using n assms(2) by (auto simp: rng_sound_def)
  ultimately show ?thesis using assms(1) by (simp add: AES256GCMDecrypt_def crypto_lawful_def crypto_sizes)
qed

lemma DecryptSecret_after:
  assumes "crypto_lawful lib" and "rng_sound rng" and "EncryptSecret lib sys rng p ks = (Inr c, ks')"
  shows "DecryptSecret lib sys' c ks' = (Inr p, ks')"
proof -
  from assms(3) obtain kek pr where g: "GetKey lib sys (ee_provider (kst_encryptor ks)) = (Inr kek, pr)"
    and c: "seal_envelope lib rng (deriveKey lib kek) p = Inr c"
    and ks': "ks' = ks\<lparr>kst_encryptor := \<lparr>ee_provider = pr\<rparr>\<rparr>"
    by (auto simp: EncryptSecret_def with_provider_def Encrypt_def split: prod.splits sum.splits)
  from envelope_roundtrip [OF assms(1,2) c] provider.get_again [OF g]
  show ?thesis by (simp add: DecryptSecret_def with_provider_def DecryptNoClose_def ks')
qed

lemma EncryptSecret_total:
  assumes "crypto_lawful lib" and "rng_sound rng" and "\<forall>i n. rng i n \<noteq> None"
    and "fst (GetKey lib sys (ee_provider (kst_encryptor ks))) = Inr kek"
  shows "\<exists>c ks'. EncryptSecret lib sys rng plaintext ks = (Inr c, ks')"
proof -
  obtain pr where g: "GetKey lib sys (ee_provider (kst_encryptor ks)) = (Inr kek, pr)"
    using assms(4) by (cases "GetKey lib sys (ee_provider (kst_encryptor ks))") auto
  obtain dek n1 n2 where "rng 0 keySize = Some dek" "rng 1 nonceSize = Some n1" "rng 2 nonceSize = Some n2"
    using assms(3) by blast
  then obtain c where "seal_envelope lib rng (deriveKey lib kek) plaintext = Inr c"
    using seal_envelope_total [OF assms(1) deriveKey_length [OF assms(1)] assms(2)] by blast
  with g show ?thesis by (simp add: EncryptSecret_def with_provider_def Encrypt_def)
qed

text \<open>C33: While a master key can be read and random bytes are available, the key store encrypts every secret, and
  decrypting the envelope gives the secret back, whatever happened to the environment in between: the key is
  served from the provider's cache.\<close>

theorem secret_roundtrip:
  assumes "crypto_lawful lib" and "rng_sound rng" and "\<forall>i n. rng i n \<noteq> None"
    and "fst (GetKey lib sys (ee_provider (kst_encryptor ks))) = Inr kek"
  shows "\<exists>c ks'. EncryptSecret lib sys rng plaintext ks = (Inr c, ks') \<and>
    (\<forall>sys'. DecryptSecret lib sys' c ks' = (Inr plaintext, ks'))"
  using EncryptSecret_total [OF assms] DecryptSecret_after [OF assms(1,2)] by blast

definition sample_lib :: crypto_lib where
  "sample_lib = \<lparr>cl_seal = (\<lambda>k n p. p @ replicate 16 (CHR ''t'')), cl_open = (\<lambda>k n c. Some (take (length c - 16) c)),
     cl_hkdf = (\<lambda>k. Some (replicate 32 (CHR ''k''))), cl_sha256 = (\<lambda>s. replicate 32 (CHR ''h'')),
     cl_base64 = (\<lambda>s. Some s), cl_base64_encode = (\<lambda>s. s), cl_pbkdf2 = (\<lambda>p s. replicate 32 (CHR ''d''))\<rparr>"

definition sample_os :: opsys where
  "sample_os = \<lparr>sys_Getenv = (\<lambda>v. if v = ''ENCRYPTION_KEY'' then ''00112233445566778899aabbccddeeff'' else []),
     sys_ReadFile = (\<lambda>_. FileMissing), sys_Join = (\<lambda>d f. d @ ''/'' @ f)\<rparr>"

definition sample_rng :: rng where
  "sample_rng = (\<lambda>i n. Some (replicate n (CHR ''r'')))"

lemma sample_lib_lawful: "crypto_lawful sample_lib"
  by (simp add: crypto_lawful_def sample_lib_def crypto_sizes)

lemma sample_rng_sound: "rng_sound sample_rng" "\<forall>i n. sample_rng i n \<noteq> None"
  by (simp_all add: rng_sound_def sample_rng_def)

lemma sample_key:
  "fst (GetKey sample_lib sample_os (ee_provider (kst_encryptor (NewKeyStore (EnvVar (NewEnvVarProvider [] [])))))) =
     Inr (map char_of [0, 17, 34, 51, 68, 85, 102, 119, 136, 153, 170, 187, 204, 221, 238, 255 :: nat])"
  by code_simp

theorem secret_roundtrip_witness:
  "\<exists>c ks'. EncryptSecret sample_lib sample_os sample_rng ''token'' (NewKeyStore (EnvVar (NewEnvVarProvider [] []))) =
     (Inr c, ks') \<and> (\<forall>sys'. DecryptSecret sample_lib sys' c ks' = (Inr ''token'', ks'))"
  by (rule secret_roundtrip [OF sample_lib_lawful sample_rng_sound sample_key])

end
