(* ===== verification/AccountStore.thy ===== *)
theory AccountStore
  imports EnforcerStore Crypto
begin

text \<open>
  Accounts, credentials and sessions in the database (src/store/user.go, apikey.go, oauth.go, invite.go, twofa.go).
  The record \<open>Store\<close> is the struct: the database and the key store, \<open>None\<close> being a nil pointer. A method
  that does not touch the key store is a function on \<open>db\<close>; one that creates an identifier or mutates the struct it
  is passed returns that too. \<open>bcrypt\<close> is a parameter, the record of its two functions. The names carry the prefix
  \<open>Store\<close>. \<open>CURRENT_TIMESTAMP\<close> is the argument \<open>now\<close>.
\<close>

record Store =
  st_db :: db
  st_keyStore :: "KeyStore option"

record bcrypt =
  bcrypt_generate :: "string \<Rightarrow> goerr + string"
  bcrypt_matches :: "string \<Rightarrow> string \<Rightarrow> bool"

definition core_upd :: "(core_tables \<Rightarrow> core_tables) \<Rightarrow> db \<Rightarrow> db" where
  "core_upd f db = db\<lparr>db_core := f (db_core db)\<rparr>"

definition has_user :: "db \<Rightarrow> string \<Rightarrow> bool" where
  "has_user db i \<longleftrightarrow> i \<in> us_ID ` set (db_users db)"

definition has_backend :: "db \<Rightarrow> string \<Rightarrow> bool" where
  "has_backend db i \<longleftrightarrow> i \<in> be_ID ` set (db_backends db)"

definition fk_failed :: goerr where
  "fk_failed = ErrConstraint ''FOREIGN KEY constraint failed''"

definition unique_failed :: goerr where
  "unique_failed = ErrConstraint ''UNIQUE constraint failed''"

text \<open>The guard \<open>if x.ID == "" { x.ID = generateID() }\<close> of the create methods.\<close>

definition fill_id :: "('r \<Rightarrow> string) \<Rightarrow> (string \<Rightarrow> 'r \<Rightarrow> 'r) \<Rightarrow> 'r \<Rightarrow> db \<Rightarrow> 'r \<times> db" where
  "fill_id key set_key r db =
     (if key r = [] then let (i, db) = generateID db in (set_key i r, db) else (r, db))"

section \<open>Passwords\<close>

definition IsBcrypt :: "string \<Rightarrow> bool" where
  "IsBcrypt s \<longleftrightarrow> length s > 4 \<and> take 4 s \<in> {''$2a$'', ''$2b$'', ''$2y$''}"

definition HashPassword :: "bcrypt \<Rightarrow> string \<Rightarrow> goerr + string" where
  "HashPassword bc plain = bcrypt_generate bc plain"

definition CheckPassword :: "bcrypt \<Rightarrow> string \<Rightarrow> string \<Rightarrow> goerr option" where
  "CheckPassword bc stored plain =
     (if IsBcrypt stored
      then (if bcrypt_matches bc stored plain then None else Some (ErrNew ''mismatched hash and password''))
      else if stored \<noteq> plain then Some (ErrNew ''mismatched hash and password'') else None)"

text \<open>The hashing step of \<open>CreateUser\<close> and \<open>UpdateUser\<close>.\<close>

definition hashed_password :: "bcrypt \<Rightarrow> string \<Rightarrow> goerr + string" where
  "hashed_password bc pw = (if \<not> IsBcrypt pw \<and> pw \<noteq> [] then HashPassword bc pw else Inr pw)"

section \<open>Users\<close>

definition insert_user :: "gotime \<Rightarrow> User \<Rightarrow> db \<Rightarrow> goerr + db" where
  "insert_user now u db = stmt ''CreateUser'' db
     (if us_ID u \<in> us_ID ` set (db_users db) \<or> us_Email u \<in> us_Email ` set (db_users db) then Inl unique_failed
      else Inr (db\<lparr>db_users := db_users db @ [u\<lparr>us_CreatedAt := now\<rparr>]\<rparr>))"

definition Store_CreateUser ::
    "gotime \<Rightarrow> bcrypt \<Rightarrow> crypto_lib \<Rightarrow> rng \<Rightarrow> User \<Rightarrow> db \<Rightarrow> (goerr + User) \<times> db" where
  "Store_CreateUser now bc lib rng u db =
     (let (u, db) = fill_id us_ID (\<lambda>i r. r\<lparr>us_ID := i\<rparr>) u db;
          u = (if us_Role u = [] then u\<lparr>us_Role := ''user''\<rparr> else u)
      in case hashed_password bc (us_Password u) of
           Inl err \<Rightarrow> (Inl err, db)
         | Inr hash \<Rightarrow>
             (case (if us_PasswordSalt u = [] then GenerateSalt lib rng else Inr (us_PasswordSalt u)) of
                Inl err \<Rightarrow> (Inl err, db)
              | Inr salt \<Rightarrow>
                  (let u = u\<lparr>us_Password := hash, us_PasswordSalt := salt\<rparr>
                   in case insert_user now u db of
                        Inl err \<Rightarrow> (Inl err, db)
                      | Inr db \<Rightarrow> (Inr u, db))))"

definition Store_GetUser :: "string \<Rightarrow> db \<Rightarrow> goerr + User" where
  "Store_GetUser i db = stmt ''GetUser'' db (query_row (\<lambda>u. us_ID u = i) (db_users db))"

definition Store_FirstAdminUser :: "db \<Rightarrow> (string \<times> string \<times> string) option" where
  "Store_FirstAdminUser db =
     (case stmt ''FirstAdminUser'' db
         (query_row (\<lambda>_. True) (order_by us_CreatedAt (filter (\<lambda>u. us_Role u = ''admin'') (db_users db)))) of
        Inl _ \<Rightarrow> None | Inr u \<Rightarrow> Some (us_ID u, us_Email u, us_Role u))"

definition Store_GetUserByEmail :: "string \<Rightarrow> db \<Rightarrow> goerr + User" where
  "Store_GetUserByEmail email db = stmt ''GetUserByEmail'' db (query_row (\<lambda>u. us_Email u = email) (db_users db))"

definition Store_ListUsers :: "db \<Rightarrow> goerr + User list" where
  "Store_ListUsers db = stmt ''ListUsers'' db (Inr (order_by us_Email (db_users db)))"

definition Store_UpdateUser :: "bcrypt \<Rightarrow> User \<Rightarrow> db \<Rightarrow> goerr + db" where
  "Store_UpdateUser bc u db =
     (case hashed_password bc (us_Password u) of
        Inl err \<Rightarrow> Inl err
      | Inr hash \<Rightarrow> stmt ''UpdateUser'' db
          (if has_user db (us_ID u) \<and> (\<exists>x \<in> set (db_users db). us_Email x = us_Email u \<and> us_ID x \<noteq> us_ID u)
           then Inl unique_failed
           else Inr (db\<lparr>db_users := update_where (\<lambda>x. us_ID x = us_ID u)
             (\<lambda>x. x\<lparr>us_Name := us_Name u, us_Email := us_Email u, us_Password := hash,
                us_PasswordSalt := us_PasswordSalt u, us_Role := us_Role u\<rparr>) (db_users db)\<rparr>)))"

text \<open>\<open>DELETE FROM users\<close> takes along every row that references the user, as \<open>ON DELETE CASCADE\<close> says.\<close>

definition cascade_user :: "string \<Rightarrow> core_tables \<Rightarrow> core_tables" where
  "cascade_user i c = c\<lparr>ct_user_tokens := delete_where (\<lambda>t. ut_UserID t = i) (ct_user_tokens c),
     ct_oauth_codes := delete_where (\<lambda>t. od_UserID t = i) (ct_oauth_codes c),
     ct_oauth_sessions := delete_where (\<lambda>t. on_UserID t = i) (ct_oauth_sessions c),
     ct_web_sessions := delete_where (\<lambda>t. ws_UserID t = i) (ct_web_sessions c),
     ct_api_keys := delete_where (\<lambda>t. ak_UserID t = i) (ct_api_keys c),
     ct_user_2fa := delete_where (\<lambda>t. tf_UserID t = i) (ct_user_2fa c)\<rparr>"

definition Store_DeleteUser :: "string \<Rightarrow> db \<Rightarrow> goerr + db" where
  "Store_DeleteUser i db = stmt ''DeleteUser'' db
     (Inr (core_upd (cascade_user i) (db\<lparr>db_users := delete_where (\<lambda>u. us_ID u = i) (db_users db),
        db_approvals := delete_where (\<lambda>r. aq_UserID r = i) (db_approvals db),
        db_rate_states := delete_where (\<lambda>s. rs_UserID s = i) (db_rate_states db)\<rparr>)))"

definition Store_UpdateUserPasswordSalt :: "string \<Rightarrow> string \<Rightarrow> db \<Rightarrow> goerr + db" where
  "Store_UpdateUserPasswordSalt userID salt db = stmt ''UpdateUserPasswordSalt'' db
     (Inr (db\<lparr>db_users := update_where (\<lambda>u. us_ID u = userID) (\<lambda>u. u\<lparr>us_PasswordSalt := salt\<rparr>) (db_users db)\<rparr>))"

definition Store_GetUserPasswordSalt :: "string \<Rightarrow> db \<Rightarrow> goerr + string" where
  "Store_GetUserPasswordSalt userID db = stmt ''GetUserPasswordSalt'' db
     (case query_row (\<lambda>u. us_ID u = userID) (db_users db) of Inl err \<Rightarrow> Inl err | Inr u \<Rightarrow> Inr (us_PasswordSalt u))"

section \<open>User tokens\<close>

definition token_key :: "UserToken \<Rightarrow> string \<times> string \<times> string" where
  "token_key t = (ut_UserID t, ut_BackendID t, ut_EnvKey t)"

definition put_token :: "string \<Rightarrow> UserToken \<Rightarrow> db \<Rightarrow> goerr + db" where
  "put_token op t db = stmt op db
     (if \<not> has_user db (ut_UserID t) \<or> \<not> has_backend db (ut_BackendID t) then Inl fk_failed
      else Inr (core_upd (\<lambda>c. c\<lparr>ct_user_tokens := replace_row token_key token_key t (ct_user_tokens c)\<rparr>) db))"

definition Store_SetUserToken :: "UserToken \<Rightarrow> db \<Rightarrow> goerr + db" where
  "Store_SetUserToken t db = put_token ''SetUserToken''
     (t\<lparr>ut_Encrypted := [], ut_EncryptedDEK := [], ut_EncryptionType := ''legacy''\<rparr>) db"

definition Store_GetUserTokens :: "string \<Rightarrow> string \<Rightarrow> db \<Rightarrow> goerr + UserToken list" where
  "Store_GetUserTokens userID backendID db = stmt ''GetUserTokens'' db
     (Inr (filter (\<lambda>t. ut_UserID t = userID \<and> ut_BackendID t = backendID) (ct_user_tokens (db_core db))))"

definition Store_GetAllUserTokens :: "string \<Rightarrow> db \<Rightarrow> goerr + UserToken list" where
  "Store_GetAllUserTokens userID db = stmt ''GetAllUserTokens'' db
     (Inr (filter (\<lambda>t. ut_UserID t = userID) (ct_user_tokens (db_core db))))"

definition Store_DeleteUserToken :: "string \<Rightarrow> string \<Rightarrow> string \<Rightarrow> db \<Rightarrow> goerr + db" where
  "Store_DeleteUserToken userID backendID envKey db = stmt ''DeleteUserToken'' db
     (Inr (core_upd (\<lambda>c. c\<lparr>ct_user_tokens :=
        delete_where (\<lambda>t. token_key t = (userID, backendID, envKey)) (ct_user_tokens c)\<rparr>) db))"

definition get_token :: "string \<Rightarrow> string \<Rightarrow> string \<Rightarrow> string \<Rightarrow> db \<Rightarrow> goerr + UserToken" where
  "get_token op userID backendID envKey db = stmt op db
     (query_row (\<lambda>t. token_key t = (userID, backendID, envKey)) (ct_user_tokens (db_core db)))"

definition Store_GetUserTokenDecrypted ::
    "crypto_lib \<Rightarrow> opsys \<Rightarrow> string \<Rightarrow> string \<Rightarrow> string \<Rightarrow> Store \<Rightarrow> (goerr + string) \<times> Store" where
  "Store_GetUserTokenDecrypted lib sys userID backendID envKey s =
     (case st_keyStore s of
        None \<Rightarrow> (Inl (ErrNew ''keystore not initialized''), s)
      | Some ks \<Rightarrow>
          (case get_token ''GetUserTokenDecrypted'' userID backendID envKey (st_db s) of
             Inl err \<Rightarrow> (Inl err, s)
           | Inr t \<Rightarrow>
               if ut_Encrypted t \<noteq> []
               then (let (r, ks) = DecryptSecret lib sys (ut_Encrypted t) ks in (r, s\<lparr>st_keyStore := Some ks\<rparr>))
               else (Inr (ut_Value t), s)))"

text \<open>One round of the loop of \<open>GetUserTokensDecrypted\<close>: a token that does not decrypt keeps its plain value.\<close>

definition decrypt_token ::
    "crypto_lib \<Rightarrow> opsys \<Rightarrow> UserToken \<Rightarrow> KeyStore option \<Rightarrow> UserToken \<times> KeyStore option" where
  "decrypt_token lib sys t ks =
     (let token = t\<lparr>ut_EncryptedDEK := [], ut_EncryptionType := []\<rparr>
      in case ks of
           Some k \<Rightarrow>
             if ut_Encrypted t \<noteq> []
             then (case DecryptSecret lib sys (ut_Encrypted t) k of
                     (Inl _, k) \<Rightarrow> (token, Some k)
                   | (Inr plain, k) \<Rightarrow> (token\<lparr>ut_Value := plain\<rparr>, Some k))
             else (token, ks)
         | None \<Rightarrow> (token, ks))"

fun decrypt_tokens ::
    "crypto_lib \<Rightarrow> opsys \<Rightarrow> UserToken list \<Rightarrow> KeyStore option \<Rightarrow> UserToken list \<times> KeyStore option" where
  "decrypt_tokens lib sys [] ks = ([], ks)"
| "decrypt_tokens lib sys (t # ts) ks =
     (let (t', ks) = decrypt_token lib sys t ks; (ts', ks) = decrypt_tokens lib sys ts ks in (t' # ts', ks))"

definition Store_GetUserTokensDecrypted ::
    "crypto_lib \<Rightarrow> opsys \<Rightarrow> string \<Rightarrow> string \<Rightarrow> Store \<Rightarrow> (goerr + UserToken list) \<times> Store" where
  "Store_GetUserTokensDecrypted lib sys userID backendID s =
     (case Store_GetUserTokens userID backendID (st_db s) of
        Inl err \<Rightarrow> (Inl err, s)
      | Inr tokens \<Rightarrow>
          (let (res, ks) = decrypt_tokens lib sys tokens (st_keyStore s) in (Inr res, s\<lparr>st_keyStore := ks\<rparr>)))"

definition Store_HasEncryptedTokens :: "db \<Rightarrow> goerr + bool" where
  "Store_HasEncryptedTokens db = stmt ''HasEncryptedTokens'' db
     (Inr (count_rows (\<lambda>t. ut_Encrypted t \<noteq> []) (ct_user_tokens (db_core db)) > 0))"

text \<open>The loop of \<open>MigrateSecrets\<close> over the rows selected before it; it stops at the first error and keeps what
  it has written.\<close>

fun migrate_tokens ::
    "crypto_lib \<Rightarrow> opsys \<Rightarrow> rng \<Rightarrow> UserToken list \<Rightarrow> KeyStore \<Rightarrow> db \<Rightarrow> goerr option \<times> KeyStore \<times> db" where
  "migrate_tokens lib sys rng [] ks db = (None, ks, db)"
| "migrate_tokens lib sys rng (t # ts) ks db =
     (case EncryptSecret lib sys rng (ut_Value t) ks of
        (Inl err, ks) \<Rightarrow> (Some err, ks, db)
      | (Inr encrypted, ks) \<Rightarrow>
          (case stmt ''MigrateSecrets.update'' db
              (Inr (core_upd (\<lambda>c. c\<lparr>ct_user_tokens := update_where (\<lambda>x. token_key x = token_key t)
                 (\<lambda>x. x\<lparr>ut_Encrypted := encrypted\<rparr>) (ct_user_tokens c)\<rparr>) db)) of
             Inl err \<Rightarrow> (Some err, ks, db)
           | Inr db \<Rightarrow> migrate_tokens lib sys (skip_rng 3 rng) ts ks db))"

definition Store_MigrateSecrets :: "crypto_lib \<Rightarrow> opsys \<Rightarrow> rng \<Rightarrow> Store \<Rightarrow> goerr option \<times> Store" where
  "Store_MigrateSecrets lib sys rng s =
     (case st_keyStore s of
        None \<Rightarrow> (Some (ErrNew ''keystore not initialized''), s)
      | Some ks \<Rightarrow>
          (case stmt ''MigrateSecrets'' (st_db s)
              (Inr (filter (\<lambda>t. ut_Encrypted t = [] \<and> ut_Value t \<noteq> []) (ct_user_tokens (db_core (st_db s))))) of
             Inl err \<Rightarrow> (Some err, s)
           | Inr rows \<Rightarrow>
               (let (e, ks, db) = migrate_tokens lib sys rng rows ks (st_db s)
                in (e, \<lparr>st_db = db, st_keyStore = Some ks\<rparr>))))"

fun verify_tokens ::
    "crypto_lib \<Rightarrow> opsys \<Rightarrow> UserToken list \<Rightarrow> int \<times> int \<Rightarrow> KeyStore \<Rightarrow> (int \<times> int) \<times> KeyStore" where
  "verify_tokens lib sys [] (ok, bad) ks = ((ok, bad), ks)"
| "verify_tokens lib sys (t # ts) (ok, bad) ks =
     (if ut_Encrypted t = [] then verify_tokens lib sys ts (ok, bad + 1) ks
      else case DecryptSecret lib sys (ut_Encrypted t) ks of
             (Inl _, ks) \<Rightarrow> verify_tokens lib sys ts (ok, bad + 1) ks
           | (Inr _, ks) \<Rightarrow> verify_tokens lib sys ts (ok + 1, bad) ks)"

definition Store_VerifyEncryptedSecrets ::
    "crypto_lib \<Rightarrow> opsys \<Rightarrow> Store \<Rightarrow> (goerr + int \<times> int) \<times> Store" where
  "Store_VerifyEncryptedSecrets lib sys s =
     (case st_keyStore s of
        None \<Rightarrow> (Inl (ErrNew ''keystore not initialized''), s)
      | Some ks \<Rightarrow>
          (case stmt ''VerifyEncryptedSecrets'' (st_db s) (Inr (ct_user_tokens (db_core (st_db s)))) of
             Inl err \<Rightarrow> (Inl err, s)
           | Inr rows \<Rightarrow>
               (let (res, ks) = verify_tokens lib sys rows (0, 0) ks in (Inr res, s\<lparr>st_keyStore := Some ks\<rparr>))))"

text \<open>The layered scheme: the master-key envelope, wrapped once more with the key derived from the password.\<close>

definition wrap_for_user ::
    "crypto_lib \<Rightarrow> opsys \<Rightarrow> rng \<Rightarrow> string option \<Rightarrow> string \<Rightarrow> Store \<Rightarrow> (goerr + string \<times> string) \<times> Store" where
  "wrap_for_user lib sys rng userDEK secret s =
     (case userDEK of
        None \<Rightarrow> (Inl (ErrNew ''user DEK is required''), s)
      | Some dek \<Rightarrow>
     (case st_keyStore s of
        None \<Rightarrow> (Inl (ErrNew ''keystore not initialized''), s)
      | Some ks \<Rightarrow>
     (case EncryptSecret lib sys rng secret ks of
        (Inl err, ks) \<Rightarrow> (Inl err, s\<lparr>st_keyStore := Some ks\<rparr>)
      | (Inr masterCiphertext, ks) \<Rightarrow>
     (case AES256GCMEncrypt lib (skip_rng 3 rng) dek masterCiphertext of
        Inl err \<Rightarrow> (Inl err, s\<lparr>st_keyStore := Some ks\<rparr>)
      | Inr encryptedDEK \<Rightarrow> (Inr (masterCiphertext, encryptedDEK), s\<lparr>st_keyStore := Some ks\<rparr>)))))"

definition unwrap_for_user ::
    "crypto_lib \<Rightarrow> opsys \<Rightarrow> string \<Rightarrow> string \<Rightarrow> KeyStore \<Rightarrow> (goerr + string) \<times> KeyStore" where
  "unwrap_for_user lib sys dek encryptedDEK ks =
     (case AES256GCMDecrypt lib dek encryptedDEK of
        Inl err \<Rightarrow> (Inl (ErrWrap ''user-DEK unwrap failed'' err), ks)
      | Inr masterCiphertext \<Rightarrow>
          (case DecryptSecret lib sys masterCiphertext ks of
             (Inl err, ks) \<Rightarrow> (Inl (ErrWrap ''master-key decrypt failed'' err), ks)
           | (Inr plaintext, ks) \<Rightarrow> (Inr plaintext, ks)))"

definition Store_SetUserTokenWithUserDEK ::
    "crypto_lib \<Rightarrow> opsys \<Rightarrow> rng \<Rightarrow> string \<Rightarrow> string \<Rightarrow> string \<Rightarrow> string \<Rightarrow> string option \<Rightarrow> Store \<Rightarrow> goerr option \<times> Store" where
  "Store_SetUserTokenWithUserDEK lib sys rng userID backendID envKey tokenValue userDEK s =
     (case wrap_for_user lib sys rng userDEK tokenValue s of
        (Inl err, s) \<Rightarrow> (Some err, s)
      | (Inr (masterCiphertext, encryptedDEK), s) \<Rightarrow>
          (case put_token ''SetUserTokenWithUserDEK'' \<lparr>ut_UserID = userID, ut_BackendID = backendID, ut_EnvKey = envKey,
              ut_Value = [], ut_Encrypted = masterCiphertext, ut_EncryptedDEK = encryptedDEK,
              ut_EncryptionType = ''user''\<rparr> (st_db s) of
             Inl err \<Rightarrow> (Some err, s)
           | Inr db \<Rightarrow> (None, s\<lparr>st_db := db\<rparr>)))"

definition Store_GetUserTokenDecryptedWithUserDEK ::
    "crypto_lib \<Rightarrow> opsys \<Rightarrow> string \<Rightarrow> string \<Rightarrow> string \<Rightarrow> string option \<Rightarrow> Store \<Rightarrow> (goerr + string) \<times> Store" where
  "Store_GetUserTokenDecryptedWithUserDEK lib sys userID backendID envKey userDEK s =
     (case userDEK of
        None \<Rightarrow> (Inl (ErrNew ''user DEK is required''), s)
      | Some dek \<Rightarrow>
     (case st_keyStore s of
        None \<Rightarrow> (Inl (ErrNew ''keystore not initialized''), s)
      | Some ks \<Rightarrow>
     (case get_token ''GetUserTokenDecryptedWithUserDEK'' userID backendID envKey (st_db s) of
        Inl err \<Rightarrow> (Inl err, s)
      | Inr t \<Rightarrow>
          if ut_EncryptedDEK t = [] then (Inl (ErrNew ''token has no user-DEK layer''), s)
          else let (r, ks) = unwrap_for_user lib sys dek (ut_EncryptedDEK t) ks in (r, s\<lparr>st_keyStore := Some ks\<rparr>))))"

section \<open>API keys and web sessions\<close>

definition Store_CreateAPIKey :: "gotime \<Rightarrow> APIKey \<Rightarrow> db \<Rightarrow> (goerr + APIKey) \<times> db" where
  "Store_CreateAPIKey now key db =
     (let (key, db) = fill_id ak_ID (\<lambda>i r. r\<lparr>ak_ID := i\<rparr>) key db
      in case stmt ''CreateAPIKey'' db
             (if \<not> has_user db (ak_UserID key) then Inl fk_failed
              else insert_row ak_ID (key\<lparr>ak_LastUsedAt := None, ak_CreatedAt := now\<rparr>) (ct_api_keys (db_core db))) of
           Inl err \<Rightarrow> (Inl err, db)
         | Inr t \<Rightarrow> (Inr key, core_upd (\<lambda>c. c\<lparr>ct_api_keys := t\<rparr>) db))"

definition Store_GetAPIKeyByID :: "string \<Rightarrow> db \<Rightarrow> goerr + APIKey" where
  "Store_GetAPIKeyByID i db = stmt ''GetAPIKeyByID'' db (query_row (\<lambda>k. ak_ID k = i) (ct_api_keys (db_core db)))"

definition Store_GetAPIKeyByHash :: "string \<Rightarrow> db \<Rightarrow> goerr + APIKey" where
  "Store_GetAPIKeyByHash hash db = stmt ''GetAPIKeyByHash'' db
     (query_row (\<lambda>k. ak_KeyHash k = hash) (ct_api_keys (db_core db)))"

definition Store_ListAPIKeys :: "string \<Rightarrow> db \<Rightarrow> goerr + APIKey list" where
  "Store_ListAPIKeys userID db = stmt ''ListAPIKeys'' db
     (Inr (order_by (\<lambda>k. - ak_CreatedAt k) (filter (\<lambda>k. ak_UserID k = userID) (ct_api_keys (db_core db)))))"

definition Store_DeleteAPIKey :: "string \<Rightarrow> db \<Rightarrow> goerr + db" where
  "Store_DeleteAPIKey i db = stmt ''DeleteAPIKey'' db
     (Inr (core_upd (\<lambda>c. c\<lparr>ct_api_keys := delete_where (\<lambda>k. ak_ID k = i) (ct_api_keys c)\<rparr>) db))"

definition Store_UpdateAPIKeyLastUsed :: "gotime \<Rightarrow> string \<Rightarrow> db \<Rightarrow> goerr + db" where
  "Store_UpdateAPIKeyLastUsed now i db = stmt ''UpdateAPIKeyLastUsed'' db
     (Inr (core_upd (\<lambda>c. c\<lparr>ct_api_keys :=
        update_where (\<lambda>k. ak_ID k = i) (\<lambda>k. k\<lparr>ak_LastUsedAt := Some now\<rparr>) (ct_api_keys c)\<rparr>) db))"

definition ValidateAPIKeyHash :: "bcrypt \<Rightarrow> string \<Rightarrow> string \<Rightarrow> bool" where
  "ValidateAPIKeyHash bc key hash = bcrypt_matches bc hash key"

definition HashAPIKey :: "bcrypt \<Rightarrow> string \<Rightarrow> goerr + string" where
  "HashAPIKey bc key = bcrypt_generate bc key"

definition GenerateAPIKey :: "bcrypt \<Rightarrow> rng \<Rightarrow> goerr + string \<times> string" where
  "GenerateAPIKey bc rng =
     (case rng 0 32 of
        None \<Rightarrow> Inl (ErrNew ''rand'')
      | Some b \<Rightarrow>
          (let key = ''mcp_'' @ hex_encode b
           in case bcrypt_generate bc key of Inl err \<Rightarrow> Inl err | Inr hash \<Rightarrow> Inr (key, hash)))"

definition Store_ValidateAPIKey :: "bcrypt \<Rightarrow> string \<Rightarrow> db \<Rightarrow> goerr + APIKey" where
  "Store_ValidateAPIKey bc key db =
     (case stmt ''ValidateAPIKey'' db (Inr (ct_api_keys (db_core db))) of
        Inl err \<Rightarrow> Inl err
      | Inr rows \<Rightarrow>
          (case filter (\<lambda>k. ValidateAPIKeyHash bc key (ak_KeyHash k)) rows of
             [] \<Rightarrow> Inl (ErrNew ''invalid API key'')
           | k # _ \<Rightarrow> Store_GetAPIKeyByID (ak_ID k) db))"

definition Store_CreateWebSession :: "gotime \<Rightarrow> WebSession \<Rightarrow> db \<Rightarrow> (goerr + WebSession) \<times> db" where
  "Store_CreateWebSession now sess db =
     (let (sess, db) = fill_id ws_Token (\<lambda>i r. r\<lparr>ws_Token := i\<rparr>) sess db
      in case stmt ''CreateWebSession'' db
             (if \<not> has_user db (ws_UserID sess) then Inl fk_failed
              else insert_row ws_Token (sess\<lparr>ws_CreatedAt := now\<rparr>) (ct_web_sessions (db_core db))) of
           Inl err \<Rightarrow> (Inl err, db)
         | Inr t \<Rightarrow> (Inr sess, core_upd (\<lambda>c. c\<lparr>ct_web_sessions := t\<rparr>) db))"

definition Store_GetWebSession :: "string \<Rightarrow> db \<Rightarrow> goerr + WebSession" where
  "Store_GetWebSession token db = stmt ''GetWebSession'' db
     (query_row (\<lambda>s. ws_Token s = token) (ct_web_sessions (db_core db)))"

definition Store_DeleteWebSession :: "string \<Rightarrow> db \<Rightarrow> goerr + db" where
  "Store_DeleteWebSession token db = stmt ''DeleteWebSession'' db
     (Inr (core_upd (\<lambda>c. c\<lparr>ct_web_sessions := delete_where (\<lambda>s. ws_Token s = token) (ct_web_sessions c)\<rparr>) db))"

definition Store_DeleteExpiredWebSessions :: "gotime \<Rightarrow> db \<Rightarrow> goerr + int \<times> db" where
  "Store_DeleteExpiredWebSessions now db = stmt ''DeleteExpiredWebSessions'' db
     (Inr (count_rows (\<lambda>s. ws_ExpiresAt s < now) (ct_web_sessions (db_core db)),
        core_upd (\<lambda>c. c\<lparr>ct_web_sessions := delete_where (\<lambda>s. ws_ExpiresAt s < now) (ct_web_sessions c)\<rparr>) db))"

definition Store_RevokeWebSessions :: "string \<Rightarrow> db \<Rightarrow> goerr + db" where
  "Store_RevokeWebSessions userID db = stmt ''RevokeWebSessions'' db
     (Inr (core_upd (\<lambda>c. c\<lparr>ct_web_sessions := delete_where (\<lambda>s. ws_UserID s = userID) (ct_web_sessions c)\<rparr>) db))"

section \<open>OAuth clients, codes and sessions\<close>

definition Store_CreateOAuthClient :: "gotime \<Rightarrow> OAuthClient \<Rightarrow> db \<Rightarrow> (goerr + OAuthClient) \<times> db" where
  "Store_CreateOAuthClient now cl db =
     (let (cl, db) = fill_id oc_ClientID (\<lambda>i r. r\<lparr>oc_ClientID := i\<rparr>) cl db
      in case stmt ''CreateOAuthClient'' db
             (insert_row oc_ClientID (cl\<lparr>oc_CreatedAt := now\<rparr>) (ct_oauth_clients (db_core db))) of
           Inl err \<Rightarrow> (Inl err, db)
         | Inr t \<Rightarrow> (Inr cl, core_upd (\<lambda>c. c\<lparr>ct_oauth_clients := t\<rparr>) db))"

definition Store_GetOAuthClient :: "string \<Rightarrow> db \<Rightarrow> goerr + OAuthClient" where
  "Store_GetOAuthClient clientID db = stmt ''GetOAuthClient'' db
     (query_row (\<lambda>c. oc_ClientID c = clientID) (ct_oauth_clients (db_core db)))"

definition Store_ListOAuthClients :: "db \<Rightarrow> goerr + OAuthClient list" where
  "Store_ListOAuthClients db = stmt ''ListOAuthClients'' db
     (Inr (order_by (\<lambda>c. - oc_CreatedAt c) (ct_oauth_clients (db_core db))))"

definition Store_DeleteOAuthClient :: "string \<Rightarrow> db \<Rightarrow> goerr + db" where
  "Store_DeleteOAuthClient clientID db = stmt ''DeleteOAuthClient'' db
     (Inr (core_upd (\<lambda>c. c\<lparr>ct_oauth_clients := delete_where (\<lambda>x. oc_ClientID x = clientID) (ct_oauth_clients c)\<rparr>) db))"

definition Store_CreateOAuthCode :: "OAuthCode \<Rightarrow> db \<Rightarrow> (goerr + OAuthCode) \<times> db" where
  "Store_CreateOAuthCode cd db =
     (let (cd, db) = fill_id od_Code (\<lambda>i r. r\<lparr>od_Code := i\<rparr>) cd db
      in case stmt ''CreateOAuthCode'' db
             (if \<not> has_user db (od_UserID cd) then Inl fk_failed
              else insert_row od_Code cd (ct_oauth_codes (db_core db))) of
           Inl err \<Rightarrow> (Inl err, db)
         | Inr t \<Rightarrow> (Inr cd, core_upd (\<lambda>c. c\<lparr>ct_oauth_codes := t\<rparr>) db))"

definition Store_GetOAuthCode :: "string \<Rightarrow> db \<Rightarrow> goerr + OAuthCode" where
  "Store_GetOAuthCode cd db = stmt ''GetOAuthCode'' db
     (query_row (\<lambda>c. od_Code c = cd) (ct_oauth_codes (db_core db)))"

definition Store_DeleteOAuthCode :: "string \<Rightarrow> db \<Rightarrow> goerr + db" where
  "Store_DeleteOAuthCode cd db = stmt ''DeleteOAuthCode'' db
     (Inr (core_upd (\<lambda>c. c\<lparr>ct_oauth_codes := delete_where (\<lambda>x. od_Code x = cd) (ct_oauth_codes c)\<rparr>) db))"

definition Store_DeleteExpiredCodes :: "gotime \<Rightarrow> db \<Rightarrow> goerr + int \<times> db" where
  "Store_DeleteExpiredCodes now db = stmt ''DeleteExpiredCodes'' db
     (Inr (count_rows (\<lambda>x. od_ExpiresAt x < now) (ct_oauth_codes (db_core db)),
        core_upd (\<lambda>c. c\<lparr>ct_oauth_codes := delete_where (\<lambda>x. od_ExpiresAt x < now) (ct_oauth_codes c)\<rparr>) db))"

definition Store_CreateOAuthSession :: "gotime \<Rightarrow> OAuthSession \<Rightarrow> db \<Rightarrow> (goerr + OAuthSession) \<times> db" where
  "Store_CreateOAuthSession now sess db =
     (let (sess, db) = fill_id on_AccessToken (\<lambda>i r. r\<lparr>on_AccessToken := i\<rparr>) sess db;
          (sess, db) = fill_id on_RefreshToken (\<lambda>i r. r\<lparr>on_RefreshToken := i\<rparr>) sess db
      in case stmt ''CreateOAuthSession'' db
             (if \<not> has_user db (on_UserID sess) then Inl fk_failed
              else insert_row on_AccessToken (sess\<lparr>on_CreatedAt := now\<rparr>) (ct_oauth_sessions (db_core db))) of
           Inl err \<Rightarrow> (Inl err, db)
         | Inr t \<Rightarrow> (Inr sess, core_upd (\<lambda>c. c\<lparr>ct_oauth_sessions := t\<rparr>) db))"

definition Store_GetOAuthSession :: "string \<Rightarrow> db \<Rightarrow> goerr + OAuthSession" where
  "Store_GetOAuthSession accessToken db = stmt ''GetOAuthSession'' db
     (query_row (\<lambda>s. on_AccessToken s = accessToken) (ct_oauth_sessions (db_core db)))"

definition Store_GetOAuthSessionByRefresh :: "string \<Rightarrow> db \<Rightarrow> goerr + OAuthSession" where
  "Store_GetOAuthSessionByRefresh refreshToken db = stmt ''GetOAuthSessionByRefresh'' db
     (query_row (\<lambda>s. on_RefreshToken s = refreshToken) (ct_oauth_sessions (db_core db)))"

definition Store_DeleteOAuthSession :: "string \<Rightarrow> db \<Rightarrow> goerr + db" where
  "Store_DeleteOAuthSession accessToken db = stmt ''DeleteOAuthSession'' db
     (Inr (core_upd (\<lambda>c. c\<lparr>ct_oauth_sessions :=
        delete_where (\<lambda>s. on_AccessToken s = accessToken) (ct_oauth_sessions c)\<rparr>) db))"

definition Store_DeleteExpiredSessions :: "gotime \<Rightarrow> db \<Rightarrow> goerr + int \<times> db" where
  "Store_DeleteExpiredSessions now db = stmt ''DeleteExpiredSessions'' db
     (Inr (count_rows (\<lambda>s. on_ExpiresAt s < now) (ct_oauth_sessions (db_core db)),
        core_upd (\<lambda>c. c\<lparr>ct_oauth_sessions := delete_where (\<lambda>s. on_ExpiresAt s < now) (ct_oauth_sessions c)\<rparr>) db))"

section \<open>Invitations\<close>

definition InvitePending :: string where [simp]: "InvitePending = ''pending''"
definition InviteAccepted :: string where [simp]: "InviteAccepted = ''accepted''"
definition InviteRevoked :: string where [simp]: "InviteRevoked = ''revoked''"

definition HashInviteToken :: "crypto_lib \<Rightarrow> string \<Rightarrow> string" where
  "HashInviteToken lib raw = hex_encode (cl_sha256 lib raw)"

definition GenerateInviteToken :: "crypto_lib \<Rightarrow> rng \<Rightarrow> goerr + string \<times> string" where
  "GenerateInviteToken lib rng =
     (case rng 0 32 of
        None \<Rightarrow> Inl (ErrNew ''rand'')
      | Some b \<Rightarrow> (let raw = ''inv_'' @ hex_encode b in Inr (raw, HashInviteToken lib raw)))"

definition Invite_Expired :: "gotime \<Rightarrow> Invite \<Rightarrow> bool" where
  "Invite_Expired now i = (if iv_Status i = InviteAccepted then False else now > iv_TokenExpiresAt i)"

definition Store_CreateInvite :: "gotime \<Rightarrow> Invite \<Rightarrow> db \<Rightarrow> (goerr + Invite) \<times> db" where
  "Store_CreateInvite now invt db =
     (let (invt, db) = fill_id iv_ID (\<lambda>i r. r\<lparr>iv_ID := i\<rparr>) invt db;
          invt = (if iv_Status invt = [] then invt\<lparr>iv_Status := InvitePending\<rparr> else invt);
          t = ct_invitations (db_core db)
      in case stmt ''CreateInvite'' db
             (if iv_TokenHash invt \<in> iv_TokenHash ` set t then Inl unique_failed
              else insert_row iv_ID (invt\<lparr>iv_AcceptedAt := 0, iv_AcceptedUserID := [], iv_CreatedAt := now\<rparr>) t) of
           Inl err \<Rightarrow> (Inl err, db)
         | Inr t \<Rightarrow> (Inr invt, core_upd (\<lambda>c. c\<lparr>ct_invitations := t\<rparr>) db))"

definition Store_GetInviteByTokenHash :: "string \<Rightarrow> db \<Rightarrow> goerr + Invite" where
  "Store_GetInviteByTokenHash hash db = stmt ''GetInviteByTokenHash'' db
     (query_row (\<lambda>i. iv_TokenHash i = hash) (ct_invitations (db_core db)))"

definition Store_GetInviteByID :: "string \<Rightarrow> db \<Rightarrow> goerr + Invite" where
  "Store_GetInviteByID i db = stmt ''GetInviteByID'' db
     (query_row (\<lambda>x. iv_ID x = i) (ct_invitations (db_core db)))"

definition Store_ListInvites :: "db \<Rightarrow> goerr + Invite list" where
  "Store_ListInvites db = stmt ''ListInvites'' db
     (Inr (order_by (\<lambda>i. - iv_CreatedAt i) (ct_invitations (db_core db))))"

definition Store_MarkInviteAccepted :: "gotime \<Rightarrow> string \<Rightarrow> string \<Rightarrow> db \<Rightarrow> goerr + db" where
  "Store_MarkInviteAccepted now i userID db = stmt ''MarkInviteAccepted'' db
     (Inr (core_upd (\<lambda>c. c\<lparr>ct_invitations := update_where (\<lambda>x. iv_ID x = i)
        (\<lambda>x. x\<lparr>iv_Status := InviteAccepted, iv_AcceptedAt := now, iv_AcceptedUserID := userID\<rparr>) (ct_invitations c)\<rparr>) db))"

definition Store_RevokeInvite :: "string \<Rightarrow> db \<Rightarrow> goerr + db" where
  "Store_RevokeInvite i db = stmt ''RevokeInvite'' db
     (Inr (core_upd (\<lambda>c. c\<lparr>ct_invitations := update_where (\<lambda>x. iv_ID x = i \<and> iv_Status x = InvitePending)
        (\<lambda>x. x\<lparr>iv_Status := InviteRevoked\<rparr>) (ct_invitations c)\<rparr>) db))"

section \<open>Two-factor secrets\<close>

definition twofa_merge :: "User2FARow \<Rightarrow> User2FARow \<Rightarrow> User2FARow" where
  "twofa_merge new old = old\<lparr>tf_Method := tf_Method new, tf_Secret := tf_Secret new, tf_Enabled := True\<rparr>"

definition Store_SetUser2FA ::
    "crypto_lib \<Rightarrow> opsys \<Rightarrow> rng \<Rightarrow> string \<Rightarrow> string \<Rightarrow> string \<Rightarrow> string option \<Rightarrow> Store \<Rightarrow> goerr option \<times> Store" where
  "Store_SetUser2FA lib sys rng userID twofa_method secret userDEK s =
     (case wrap_for_user lib sys rng userDEK secret s of
        (Inl err, s) \<Rightarrow> (Some err, s)
      | (Inr (masterCiphertext, encryptedDEK), s) \<Rightarrow>
          (case stmt ''SetUser2FA'' (st_db s)
              (if \<not> has_user (st_db s) userID then Inl fk_failed
               else upsert_row tf_UserID tf_UserID twofa_merge
                 \<lparr>tf_UserID = userID, tf_Method = twofa_method, tf_Secret = encryptedDEK, tf_Enabled = True\<rparr>
                 (ct_user_2fa (db_core (st_db s)))) of
             Inl err \<Rightarrow> (Some err, s)
           | Inr t \<Rightarrow> (None, s\<lparr>st_db := core_upd (\<lambda>c. c\<lparr>ct_user_2fa := t\<rparr>) (st_db s)\<rparr>)))"

definition get_2fa :: "string \<Rightarrow> string \<Rightarrow> db \<Rightarrow> goerr + User2FARow" where
  "get_2fa op userID db = stmt op db (query_row (\<lambda>r. tf_UserID r = userID) (ct_user_2fa (db_core db)))"

definition Store_GetUser2FA :: "string \<Rightarrow> db \<Rightarrow> goerr + string \<times> bool" where
  "Store_GetUser2FA userID db =
     (case get_2fa ''GetUser2FA'' userID db of
        Inl err \<Rightarrow> if err = ErrNoRows then Inr ([], False) else Inl err
      | Inr r \<Rightarrow> Inr (tf_Method r, tf_Enabled r))"

definition ErrNo2FA :: goerr where "ErrNo2FA = ErrNew ''no 2FA configured for user''"

definition Store_GetUser2FASecret ::
    "crypto_lib \<Rightarrow> opsys \<Rightarrow> string \<Rightarrow> string option \<Rightarrow> Store \<Rightarrow> (goerr + string) \<times> Store" where
  "Store_GetUser2FASecret lib sys userID userDEK s =
     (case userDEK of
        None \<Rightarrow> (Inl (ErrNew ''user DEK is required''), s)
      | Some dek \<Rightarrow>
     (case st_keyStore s of
        None \<Rightarrow> (Inl (ErrNew ''keystore not initialized''), s)
      | Some ks \<Rightarrow>
     (case get_2fa ''GetUser2FASecret'' userID (st_db s) of
        Inl err \<Rightarrow> (Inl (if err = ErrNoRows then ErrNo2FA else err), s)
      | Inr r \<Rightarrow>
          if tf_Secret r = [] then (Inl ErrNo2FA, s)
          else let (res, ks) = unwrap_for_user lib sys dek (tf_Secret r) ks in (res, s\<lparr>st_keyStore := Some ks\<rparr>))))"

definition Store_DeleteUser2FA :: "string \<Rightarrow> db \<Rightarrow> goerr + db" where
  "Store_DeleteUser2FA userID db = stmt ''DeleteUser2FA'' db
     (Inr (core_upd (\<lambda>c. c\<lparr>ct_user_2fa := delete_where (\<lambda>r. tf_UserID r = userID) (ct_user_2fa c)\<rparr>) db))"

end
