(* ===== verification/Enforcer.thy ===== *)
theory Enforcer
  imports Scanner CelEngine Resolver RateLimit AccountStore
begin

text \<open>
  The orchestrator of policy enforcement (src/enforcer/enforcer.go). The record \<open>Enforcer\<close> is the
  struct; the database behind its store is the field \<open>ef_store\<close>. What the source reads from its environment
  is the record \<open>env\<close>: the clock, the CEL library, \<open>json.Marshal\<close>, the rendering of times, and the
  decoding of the dispositions column. An operation returns its result and the enforcer after it; a Go pair
  \<open>(decision, error)\<close> is a pair with \<open>goerr option\<close>, since callers read the decision even when the
  error is set. Logging to the console has no model.
\<close>

record 'p env =
  env_now :: gotime
  env_cel :: "'p cel_lib"
  env_marshal :: "json \<Rightarrow> string"
  env_marshal_profile :: "SafetyProfile \<Rightarrow> string"
  env_rfc3339 :: "gotime \<Rightarrow> string"
  env_dispositions :: "string \<Rightarrow> string + (MatchContext, Action) gomap option"

text \<open>The executor of approved requests, an interface: user, backend and request body to status and
  response, or an error with its text.\<close>

type_synonym executor = "string \<Rightarrow> string \<Rightarrow> string \<Rightarrow> string + (int \<times> string)"

record 'p Enforcer =
  ef_config :: EnforcerConfig
  ef_resolver :: MetadataResolver
  ef_engine :: "'p CELEngine"
  ef_store :: db
  ef_userStore :: bool
  ef_executor :: "executor option"
  ef_killSwitches :: "(string, bool) gomap"
  ef_rateLimit :: RateLimitManager
  ef_executed :: "(string \<times> string \<times> string) list"

section \<open>Policies\<close>

definition ToCELPolicy :: "'p env \<Rightarrow> PolicyRow \<Rightarrow> CELPolicy" where
  "ToCELPolicy env row =
     \<lparr>cp_ID = pr_ID row, cp_Description = pr_Description row, cp_Expression = pr_Expression row,
      cp_Action = pr_Action row, cp_Message = pr_Message row, cp_Severity = pr_Severity row,
      cp_Enabled = pr_Enabled row, cp_Priority = pr_Priority row,
      cp_Dispositions =
        (if pr_DispositionsJSON row = [] then None
         else case env_dispositions env (pr_DispositionsJSON row) of Inl _ \<Rightarrow> None | Inr d \<Rightarrow> d)\<rparr>"

definition load_policy :: "'p env \<Rightarrow> PolicyRow \<Rightarrow> 'p CELEngine \<Rightarrow> 'p CELEngine" where
  "load_policy env p engine = snd (AddPolicy (env_cel env) (ToCELPolicy env p) engine)"

definition loadPolicies :: "'p env \<Rightarrow> 'p Enforcer \<Rightarrow> goerr option \<times> 'p Enforcer" where
  "loadPolicies env e =
     (case ES_ListPolicies (ef_store e) of
        Inl err \<Rightarrow> (Some err, e)
      | Inr policies \<Rightarrow> (None, e\<lparr>ef_engine := fold (load_policy env) policies (ef_engine e)\<rparr>))"

definition Enforcer_AddPolicy :: "'p env \<Rightarrow> PolicyRow \<Rightarrow> 'p Enforcer \<Rightarrow> goerr option \<times> 'p Enforcer" where
  "Enforcer_AddPolicy env policy e =
     (case ES_CreatePolicy policy (ef_store e) of
        Inl err \<Rightarrow> (Some err, e)
      | Inr db \<Rightarrow>
          (let e = e\<lparr>ef_store := db\<rparr>;
               (err, engine) = AddPolicy (env_cel env) (ToCELPolicy env policy) (ef_engine e)
           in (err, e\<lparr>ef_engine := engine\<rparr>)))"

definition ListPolicies :: "'p Enforcer \<Rightarrow> goerr + PolicyRow list" where
  "ListPolicies e = ES_ListPolicies (ef_store e)"

definition GetPolicy :: "string \<Rightarrow> 'p Enforcer \<Rightarrow> goerr + PolicyRow" where
  "GetPolicy i e = ES_GetPolicy i (ef_store e)"

definition Enforcer_UpdatePolicy :: "'p env \<Rightarrow> PolicyRow \<Rightarrow> 'p Enforcer \<Rightarrow> goerr option \<times> 'p Enforcer" where
  "Enforcer_UpdatePolicy env policy e =
     (case ES_UpdatePolicy policy (ef_store e) of
        Inl err \<Rightarrow> (Some err, e)
      | Inr db \<Rightarrow> loadPolicies env (e\<lparr>ef_store := db\<rparr>))"

definition Enforcer_DeletePolicy :: "'p env \<Rightarrow> string \<Rightarrow> 'p Enforcer \<Rightarrow> goerr option \<times> 'p Enforcer" where
  "Enforcer_DeletePolicy env i e =
     (case ES_DeletePolicy i (ef_store e) of
        Inl err \<Rightarrow> (Some err, e)
      | Inr db \<Rightarrow> loadPolicies env (e\<lparr>ef_store := db\<rparr>))"

section \<open>Rate limit configuration and persistence\<close>

definition default_rate_limits :: "(string \<times> int \<times> int \<times> int \<times> int) list" where
  "default_rate_limits =
     [(''slack'', 100, 20, 200, 40), (''newrelic'', 150, 30, 300, 60), (''oracle'', 50, 10, 100, 20),
      (''github'', 100, 20, 200, 40), (''circleci'', 80, 16, 160, 32), (''k8s'', 100, 20, 200, 40),
      (''aws'', 100, 20, 200, 40), (''atlassian'', 100, 20, 200, 40), (''qdrant'', 80, 15, 160, 30),
      (''mongodb'', 60, 12, 120, 24), (''appscan_asoc'', 40, 8, 80, 16), (''mcpbridge'', 200, 40, 400, 80)]"

definition SetBackendRateLimit :: "string \<Rightarrow> int \<Rightarrow> int \<Rightarrow> int \<Rightarrow> int \<Rightarrow> 'p Enforcer \<Rightarrow> 'p Enforcer" where
  "SetBackendRateLimit backendID riskCapacity riskRefill resourceCapacity resourceRefill e =
     e\<lparr>ef_rateLimit := SetDefaultConfig backendID riskCapacity riskRefill resourceCapacity resourceRefill (ef_rateLimit e)\<rparr>"

definition SetRateLimitConfig :: "string \<Rightarrow> int \<Rightarrow> int \<Rightarrow> int \<Rightarrow> int \<Rightarrow> 'p Enforcer \<Rightarrow> 'p Enforcer" where
  "SetRateLimitConfig backendID riskCapacity riskRefill resourceCapacity resourceRefill e =
     e\<lparr>ef_rateLimit := SetDefaultConfig backendID riskCapacity riskRefill resourceCapacity resourceRefill (ef_rateLimit e)\<rparr>"

definition SetDefaultRateLimits :: "'p Enforcer \<Rightarrow> 'p Enforcer" where
  "SetDefaultRateLimits e = e\<lparr>ef_rateLimit :=
     fold (\<lambda>(b, rc, rr, sc, sr). SetDefaultConfig b rc rr sc sr) default_rate_limits (ef_rateLimit e)\<rparr>"

definition GetMinJustificationLength :: "'p Enforcer \<Rightarrow> int" where
  "GetMinJustificationLength e = ec_MinJustificationLength (ef_config e)"

definition GetRateLimitStatus :: "string \<Rightarrow> string \<Rightarrow> 'p Enforcer \<Rightarrow> (string, json) gomap" where
  "GetRateLimitStatus userID backendID e = GetStatusMap (ef_rateLimit e) userID backendID"

definition state_of_row :: "RateLimitStateRow \<Rightarrow> BucketStateForDB" where
  "state_of_row s = \<lparr>sd_UserID = rs_UserID s, sd_BackendID = rs_BackendID s, sd_BucketType = rs_BucketType s,
     sd_CurrentLevel = rs_CurrentLevel s, sd_Capacity = 0, sd_RefillRate = 0, sd_LastRefillAt = rs_LastRefillAt s\<rparr>"

definition LoadRateLimitStates :: "'p env \<Rightarrow> 'p Enforcer \<Rightarrow> goerr option \<times> 'p Enforcer" where
  "LoadRateLimitStates env e =
     (case ES_ListRateLimitStates (ef_store e) of
        Inl err \<Rightarrow> (Some err, e)
      | Inr states \<Rightarrow>
          (None, e\<lparr>ef_rateLimit := LoadStates (env_now env) (map state_of_row states) (ef_rateLimit e)\<rparr>))"

definition row_of_state :: "gotime \<Rightarrow> string \<Rightarrow> BucketStateForDB \<Rightarrow> RateLimitStateRow" where
  "row_of_state now i s = \<lparr>rs_ID = i, rs_UserID = sd_UserID s, rs_BackendID = sd_BackendID s,
     rs_BucketType = sd_BucketType s, rs_CurrentLevel = sd_CurrentLevel s, rs_LastRefillAt = sd_LastRefillAt s,
     rs_CreatedAt = now\<rparr>"

fun save_states :: "gotime \<Rightarrow> BucketStateForDB list \<Rightarrow> db \<Rightarrow> goerr option \<times> db" where
  "save_states now [] db = (None, db)"
| "save_states now (s # ss) db =
     (let (i, db) = generateID db
      in case ES_UpsertRateLimitState (row_of_state now i s) db of
           Inl err \<Rightarrow> (Some err, db)
         | Inr db \<Rightarrow> save_states now ss db)"

definition SaveRateLimitStates :: "'p env \<Rightarrow> 'p Enforcer \<Rightarrow> goerr option \<times> 'p Enforcer" where
  "SaveRateLimitStates env e =
     (let (err, db) = save_states (env_now env) (GetAllStates (ef_rateLimit e)) (ef_store e)
      in (err, e\<lparr>ef_store := db\<rparr>))"

definition StopRateLimitRefill :: "'p env \<Rightarrow> 'p Enforcer \<Rightarrow> 'p Enforcer" where
  "StopRateLimitRefill env e =
     snd (SaveRateLimitStates env (e\<lparr>ef_rateLimit := StopPersist (Stop (ef_rateLimit e))\<rparr>))"

record RateLimitStateDisplay =
  sdd_UserID :: string
  sdd_BackendID :: string
  sdd_BucketType :: string
  sdd_Capacity :: int
  sdd_CurrentLevel :: int
  sdd_RefillRate :: int

record RateLimitConfigDisplay =
  cdd_BackendID :: string
  cdd_RiskCapacity :: int
  cdd_RiskRefill :: int
  cdd_ResCapacity :: int
  cdd_ResRefill :: int

definition GetAllRateLimitStates :: "'p Enforcer \<Rightarrow> RateLimitStateDisplay list" where
  "GetAllRateLimitStates e = map (\<lambda>s. \<lparr>sdd_UserID = sd_UserID s, sdd_BackendID = sd_BackendID s,
     sdd_BucketType = sd_BucketType s, sdd_Capacity = sd_Capacity s, sdd_CurrentLevel = sd_CurrentLevel s,
     sdd_RefillRate = sd_RefillRate s\<rparr>) (GetAllStates (ef_rateLimit e))"

definition GetRateLimitConfigs :: "'p Enforcer \<Rightarrow> RateLimitConfigDisplay list" where
  "GetRateLimitConfigs e = map (\<lambda>c. \<lparr>cdd_BackendID = cd_BackendID c, cdd_RiskCapacity = cd_RiskCapacity c,
     cdd_RiskRefill = cd_RiskRefill c, cdd_ResCapacity = cd_ResCapacity c, cdd_ResRefill = cd_ResRefill c\<rparr>)
     (GetAllConfigs (ef_rateLimit e))"

definition ResetUserRateLimit :: "'p env \<Rightarrow> string \<Rightarrow> string \<Rightarrow> 'p Enforcer \<Rightarrow> 'p Enforcer" where
  "ResetUserRateLimit env userID backendID e =
     e\<lparr>ef_rateLimit := ResetUserBuckets (env_now env) userID backendID (ef_rateLimit e)\<rparr>"

definition Enforcer_RegisterOverride :: "string \<Rightarrow> string \<Rightarrow> SafetyProfile \<Rightarrow> 'p Enforcer \<Rightarrow> goerr option \<times> 'p Enforcer" where
  "Enforcer_RegisterOverride toolName backendID profile e =
     (case RegisterOverride toolName backendID profile (ef_resolver e) of
        Inl err \<Rightarrow> (Some err, e) | Inr r \<Rightarrow> (None, e\<lparr>ef_resolver := r\<rparr>))"

definition Enforcer_RemoveOverride :: "string \<Rightarrow> string \<Rightarrow> 'p Enforcer \<Rightarrow> goerr option \<times> 'p Enforcer" where
  "Enforcer_RemoveOverride toolName backendID e =
     (case RemoveOverride toolName backendID (ef_resolver e) of
        Inl err \<Rightarrow> (Some err, e) | Inr r \<Rightarrow> (None, e\<lparr>ef_resolver := r\<rparr>))"

definition SetUserRateLimitOverride :: "'p env \<Rightarrow> UserRateLimitOverrideRow \<Rightarrow> 'p Enforcer \<Rightarrow> goerr option \<times> 'p Enforcer" where
  "SetUserRateLimitOverride env override e =
     (let (globalRiskCap, _, globalResCap, _) = GetDefaultConfig (ef_rateLimit e) (uo_BackendID override);
          mult = (if uo_CostMultiplier override = 0 then 1 else uo_CostMultiplier override);
          riskCap = (if uo_RiskCapacity override = 0 then globalRiskCap else uo_RiskCapacity override);
          resCap = (if uo_ResourceCapacity override = 0 then globalResCap else uo_ResourceCapacity override)
      in if gomul riskCap mult > globalRiskCap \<or> gomul resCap mult > globalResCap
         then (Some ErrOverrideTooPermissive, e)
         else case ES_UpsertUserRateLimitOverride (env_now env) override (ef_store e) of
                Inl err \<Rightarrow> (Some err, e)
              | Inr db \<Rightarrow>
                  (None, e\<lparr>ef_store := db,
                     ef_rateLimit := SetUserConfig \<lparr>ubc_UserID = uo_UserID override, ubc_BackendID = uo_BackendID override,
                        ubc_RiskCapacity = uo_RiskCapacity override, ubc_RiskRefill = 0,
                        ubc_ResCapacity = uo_ResourceCapacity override, ubc_ResRefill = 0,
                        ubc_CostMultiplier = uo_CostMultiplier override\<rparr> (ef_rateLimit e)\<rparr>))"

definition GetEffectiveBucketConfig :: "string \<Rightarrow> string \<Rightarrow> 'p Enforcer \<Rightarrow> int \<times> int \<times> int \<times> int \<times> int" where
  "GetEffectiveBucketConfig userID backendID e =
     (case GetUserConfig (ef_rateLimit e) userID backendID of
        None \<Rightarrow> (0, 0, 0, 0, 0)
      | Some cfg \<Rightarrow> (ubc_RiskCapacity cfg, ubc_RiskRefill cfg, ubc_ResCapacity cfg, ubc_ResRefill cfg, ubc_CostMultiplier cfg))"

section \<open>Construction\<close>

text \<open>The CEL environment \<open>NewCELEngine\<close> declares is fixed, and creating it does not fail.\<close>

definition NewEnforcer :: "'p env \<Rightarrow> EnforcerConfig \<Rightarrow> db \<Rightarrow> bool \<Rightarrow> goerr + 'p Enforcer" where
  "NewEnforcer env config store userStore =
     (let e = \<lparr>ef_config = config, ef_resolver = NewMetadataResolver, ef_engine = NewCELEngine, ef_store = store,
               ef_userStore = userStore, ef_executor = None, ef_killSwitches = [], ef_rateLimit = NewRateLimitManager,
               ef_executed = []\<rparr>
      in case loadPolicies env e of
           (Some err, _) \<Rightarrow> Inl (ErrWrap ''failed to load policies'' err)
         | (None, e) \<Rightarrow>
             (let e = SetDefaultRateLimits e;
                  e = (if ec_InferredCostMultiplier (ef_config e) = 0
                       then e\<lparr>ef_config := (ef_config e)\<lparr>ec_InferredCostMultiplier := 3\<rparr>\<rparr> else e)
              in Inr (snd (LoadRateLimitStates env e))))"

definition SetExecutor :: "executor \<Rightarrow> 'p Enforcer \<Rightarrow> 'p Enforcer" where
  "SetExecutor ex e = e\<lparr>ef_executor := Some ex\<rparr>"

section \<open>Kill switches\<close>

definition EnableKillSwitch :: "'p env \<Rightarrow> string \<Rightarrow> string \<Rightarrow> string \<Rightarrow> 'p Enforcer \<Rightarrow> goerr option \<times> 'p Enforcer" where
  "EnableKillSwitch env scope userID reason e =
     (case ES_EnableKillSwitch (env_now env) scope userID reason (ef_store e) of
        Inl err \<Rightarrow> (Some err, e)
      | Inr db \<Rightarrow> (None, e\<lparr>ef_store := db, ef_killSwitches := AList.update scope True (ef_killSwitches e)\<rparr>))"

definition DisableKillSwitch :: "'p env \<Rightarrow> string \<Rightarrow> 'p Enforcer \<Rightarrow> goerr option \<times> 'p Enforcer" where
  "DisableKillSwitch env scope e =
     (case ES_DisableKillSwitch (env_now env) scope (ef_store e) of
        Inl err \<Rightarrow> (Some err, e)
      | Inr db \<Rightarrow> (None, e\<lparr>ef_store := db, ef_killSwitches := AList.delete scope (ef_killSwitches e)\<rparr>))"

definition map_flag :: "(string, bool) gomap \<Rightarrow> string \<Rightarrow> bool" where
  "map_flag m k \<longleftrightarrow> map_of m k = Some True"

definition IsKillSwitchActive :: "string \<Rightarrow> 'p Enforcer \<Rightarrow> bool" where
  "IsKillSwitchActive scope e = (map_flag (ef_killSwitches e) scope \<or> map_flag (ef_killSwitches e) ''global'')"

text \<open>The check of the evaluation asks the database; an error of the query counts as inactive.\<close>

definition isKillSwitchActive :: "string \<Rightarrow> 'p Enforcer \<Rightarrow> bool" where
  "isKillSwitchActive scope e =
     (if \<not> ec_EnableKillSwitch (ef_config e) then False
      else case ES_IsKillSwitchActive scope (ef_store e) of Inl _ \<Rightarrow> False | Inr active \<Rightarrow> active)"

section \<open>Evaluating a call\<close>

definition decision_context :: "DecisionContext \<Rightarrow> (string, json) gomap" where
  "decision_context ctx = [(''risk'', JStr (sp_Risk (dc_Safety ctx))), (''impact'', JStr (sp_Impact (dc_Safety ctx))),
     (''cost'', JNum (of_int (sp_Cost (dc_Safety ctx)))), (''requires_hitl'', JBool (sp_RequiresHITL (dc_Safety ctx)))]"

definition logDecision :: "'p env \<Rightarrow> DecisionContext \<Rightarrow> EnforcerDecision \<Rightarrow> 'p Enforcer \<Rightarrow> 'p Enforcer" where
  "logDecision env ctx decision e =
     (let (rid, db) = generateID (ef_store e)
      in case ES_LogAuditEvent (env_now env) (env_marshal env) rid (dc_UserID ctx) (dc_Tool ctx) (ed_Action decision)
             (ed_PolicyID decision) (ed_Message decision) (decision_context ctx) (dc_Justification ctx) (dc_Args ctx) db of
           Inl _ \<Rightarrow> e\<lparr>ef_store := db\<rparr>
         | Inr db \<Rightarrow> e\<lparr>ef_store := db\<rparr>)"

definition Enforcer_Evaluate ::
    "'p env \<Rightarrow> DecisionContext \<Rightarrow> 'p Enforcer \<Rightarrow> (EnforcerDecision \<times> goerr option) \<times> 'p Enforcer" where
  "Enforcer_Evaluate env ctx e =
     (if isKillSwitchActive (dc_BackendID ctx) e
      then ((zeroDecision\<lparr>ed_Action := ActionDeny, ed_Severity := SeverityCritical,
               ed_Message := ''Emergency kill switch is active''\<rparr>, Some ErrKillSwitchActive), e)
      else (let decision = Engine_Evaluate (env_cel env) (env_now env) (ef_engine e) ctx
            in ((decision, None), logDecision env ctx decision e)))"

definition resolveDisposition :: "MatchContext \<Rightarrow> 'p Enforcer \<Rightarrow> Action \<times> string" where
  "resolveDisposition ctx e =
     (case LookupDisposition (ef_engine e) ctx of
        None \<Rightarrow> (ActionDeny, ''Rate limit exceeded: no disposition policy configured for context '' @ [CHR 0x27] @ ctx @ [CHR 0x27])
      | Some (action, msg) \<Rightarrow> (action, msg))"

section \<open>Handling a tool call\<close>

definition user_context :: "'p Enforcer \<Rightarrow> string \<Rightarrow> DecisionContext \<Rightarrow> DecisionContext" where
  "user_context e userID ctx =
     (if ef_userStore e \<and> userID \<noteq> []
      then case Store_GetUser userID (ef_store e) of
             Inl _ \<Rightarrow> ctx
           | Inr user \<Rightarrow> ctx\<lparr>dc_UserEmail := us_Email user, dc_UserRole := us_Role user,
                            dc_TrustLevel := (if us_Role user = ''admin'' then 100 else 50)\<rparr>
      else ctx)"

definition audit_rejection :: "'p env \<Rightarrow> string \<Rightarrow> string \<Rightarrow> string \<Rightarrow> string \<Rightarrow> 'p Enforcer \<Rightarrow> 'p Enforcer" where
  "audit_rejection env userID toolName justification reason e =
     (let (rid, db) = generateID (ef_store e)
      in case ES_LogAuditRejection (env_now env) rid userID toolName justification reason db of
           Inl _ \<Rightarrow> e\<lparr>ef_store := db\<rparr>
         | Inr db \<Rightarrow> e\<lparr>ef_store := db\<rparr>)"

definition justification_gate :: "EnforcerConfig \<Rightarrow> CallOptions \<Rightarrow> string \<Rightarrow> (EnforcerDecision \<times> string) option" where
  "justification_gate config opts justification =
     (if \<not> co_SkipJustification opts \<and> ec_MinJustificationLength config > 0
      then if justification = []
           then Some (zeroDecision\<lparr>ed_Action := ActionDeny, ed_Severity := SeverityMedium,
                  ed_Message := ''Tool call rejected: justification is required.'',
                  ed_PolicyID := ''justification_required''\<rparr>, ''missing_justification'')
           else if int (length justification) < ec_MinJustificationLength config
           then Some (zeroDecision\<lparr>ed_Action := ActionDeny, ed_Severity := SeverityMedium,
                  ed_Message := ''Tool call rejected: justification must be at least '' @
                    itoa (ec_MinJustificationLength config) @ '' characters. Provided: '' @
                    itoa (int (length justification)) @ '' characters.'',
                  ed_PolicyID := ''justification_too_short''\<rparr>, ''justification_too_short'')
           else None
      else None)"

definition call_cost :: "EnforcerConfig \<Rightarrow> SafetyProfile \<Rightarrow> int \<times> int" where
  "call_cost config profile =
     (let (riskCost, resourceCost) = CalculateCost (sp_Cost profile) (sp_Risk profile) (sp_Impact profile)
      in if sp_Source profile = ''inferred'' \<and> ec_InferredCostMultiplier config > 1
         then (gomul riskCost (ec_InferredCostMultiplier config), gomul resourceCost (ec_InferredCostMultiplier config))
         else (riskCost, resourceCost))"

definition rate_info :: "'p Enforcer \<Rightarrow> string \<Rightarrow> string \<Rightarrow> RateLimitInfo" where
  "rate_info e userID backendID =
     (case GetBucketStatus (ef_rateLimit e) userID backendID of
        ((riskAvail, riskCap, riskRefill), (resAvail, resCap, resRefill)) \<Rightarrow>
          NewRateLimitInfo riskAvail riskCap riskRefill resAvail resCap resRefill)"

definition count_call ::
    "'p env \<Rightarrow> string \<Rightarrow> string \<Rightarrow> DecisionContext \<Rightarrow> 'p Enforcer \<Rightarrow> DecisionContext \<times> 'p Enforcer" where
  "count_call env userID toolName ctx e =
     (if ec_RateWindowDuration (ef_config e) > 0
      then (case ES_IncrementRateBucket (env_now env) (env_rfc3339 env) userID toolName
                   (ec_RateWindowDuration (ef_config e)) (ef_store e) of
              (Inl _, db) \<Rightarrow> (ctx, e\<lparr>ef_store := db\<rparr>)
            | (Inr callRate, db) \<Rightarrow> (ctx\<lparr>dc_CallRate := callRate\<rparr>, e\<lparr>ef_store := db\<rparr>))
      else (ctx, e))"

text \<open>The deny-unless-permitted gate: \<open>Inl\<close> when it settles the call, \<open>Inr\<close> with the decision the call
  goes on with.\<close>

definition permit_gate ::
    "SafetyProfile \<Rightarrow> EnforcerDecision \<Rightarrow> (EnforcerDecision \<times> goerr option) + EnforcerDecision" where
  "permit_gate profile decision =
     (if ed_Action decision = []
      then if sp_Source profile \<in> {''self_reported'', ''override'', ''user_override''}
           then Inr (decision\<lparr>ed_Action := ActionAllow\<rparr>)
           else if sp_Source profile = ''inferred''
           then Inl (zeroDecision\<lparr>ed_Action := ActionPendingAdminApproval, ed_Severity := SeverityMedium,
                  ed_Message := ''Tool requires admin approval: inferred profile, no explicit policy.'',
                  ed_PolicyID := ''inferred_profile_gate''\<rparr>, None)
           else Inl (zeroDecision\<lparr>ed_Action := ActionDeny, ed_Severity := SeverityHigh,
                  ed_Message := ''Tool call denied: no safety profile and no explicit policy.'',
                  ed_PolicyID := ''unknown_tool_no_profile''\<rparr>, Some ErrPolicyViolation)
      else Inr decision)"

definition hitl_override :: "SafetyProfile \<Rightarrow> EnforcerDecision \<Rightarrow> bool" where
  "hitl_override profile decision \<longleftrightarrow>
     \<not> IsDenyAction (ed_Action decision) \<and> \<not> RequiresApproval (ed_Action decision) \<and> sp_RequiresHITL profile \<and>
     (sp_Source profile = ''override'' \<or> sp_Source profile = ''user_override'')"

definition hitl_decision :: EnforcerDecision where
  "hitl_decision = zeroDecision\<lparr>ed_Action := ActionPendingUserApproval, ed_Severity := SeverityMedium,
     ed_Message := ''Tool requires your approval per override profile.'', ed_PolicyID := ''override_requires_hitl''\<rparr>"

definition limited_decision :: "gotime \<Rightarrow> MatchContext \<Rightarrow> 'p Enforcer \<Rightarrow> EnforcerDecision" where
  "limited_decision now matchCtx e =
     (case resolveDisposition matchCtx e of
        (action, msg) \<Rightarrow> zeroDecision\<lparr>ed_Action := action, ed_Severity := SeverityMedium, ed_Message := msg,
          ed_PolicyID := ''rate_limit_disposition'', ed_MatchContext := matchCtx, ed_Timestamp := now\<rparr>)"

definition charge_call ::
    "'p env \<Rightarrow> string \<Rightarrow> string \<Rightarrow> int \<times> int \<Rightarrow> EnforcerDecision \<Rightarrow> 'p Enforcer \<Rightarrow>
     (EnforcerDecision \<times> goerr option) \<times> 'p Enforcer" where
  "charge_call env userID backendID cost decision e =
     (if ed_Action decision = ActionAllow
      then (let ((riskAllowed, resourceAllowed), rl) =
                  CheckAndConsume (env_now env) userID backendID (fst cost) (snd cost) (ef_rateLimit e);
                e = e\<lparr>ef_rateLimit := rl\<rparr>
            in if \<not> riskAllowed \<or> \<not> resourceAllowed
               then (let matchCtx = (if \<not> resourceAllowed then MatchContextResourceLimit else MatchContextRiskLimit)
                     in ((limited_decision (env_now env) matchCtx e, None), e))
               else ((decision, None), e))
      else ((decision, None), e))"

definition settle_call ::
    "'p env \<Rightarrow> string \<Rightarrow> string \<Rightarrow> string \<Rightarrow> string \<Rightarrow> SafetyProfile \<Rightarrow> EnforcerDecision \<Rightarrow> 'p Enforcer \<Rightarrow>
     (EnforcerDecision \<times> goerr option) \<times> 'p Enforcer" where
  "settle_call env userID toolName backendID justification profile decision e =
     (case permit_gate profile decision of
        Inl (d, None) \<Rightarrow> ((d, None), e)
      | Inl (d, Some err) \<Rightarrow>
          ((d, Some err), audit_rejection env userID toolName justification ''unknown_tool_no_profile'' e)
      | Inr decision \<Rightarrow>
          (if hitl_override profile decision then ((hitl_decision, None), e)
           else charge_call env userID backendID (call_cost (ef_config e) profile) decision e))"

definition call_context ::
    "string \<Rightarrow> string \<Rightarrow> (string, json) gomap \<Rightarrow> string \<Rightarrow> string \<Rightarrow> SafetyProfile \<Rightarrow> 'p Enforcer \<Rightarrow> DecisionContext" where
  "call_context userID toolName args backendID justification profile e =
     (user_context e userID (zeroContext\<lparr>dc_UserID := userID, dc_Tool := toolName, dc_Args := args,
        dc_BackendID := backendID, dc_Justification := justification\<rparr>))
     \<lparr>dc_Safety := profile, dc_RateLimit := rate_info e userID backendID\<rparr>"

definition HandleToolCall ::
    "'p env \<Rightarrow> string \<Rightarrow> string \<Rightarrow> (string, json) gomap \<Rightarrow> string \<Rightarrow> string \<Rightarrow> CallOptions \<Rightarrow> 'p Enforcer \<Rightarrow>
     (EnforcerDecision \<times> goerr option) \<times> 'p Enforcer" where
  "HandleToolCall env userID toolName args backendID justification opts e =
     (case ResolveForUser (Some (ef_store e)) (ef_resolver e) toolName backendID userID of
        Inl err \<Rightarrow> ((zeroDecision, Some (ErrWrap ''failed to resolve safety profile'' err)), e)
      | Inr profile \<Rightarrow>
          (case justification_gate (ef_config e) opts justification of
             Some (decision, reason) \<Rightarrow>
               ((decision, Some ErrPolicyViolation), audit_rejection env userID toolName justification reason e)
           | None \<Rightarrow>
               (let ctx = call_context userID toolName args backendID justification profile e;
                    (ctx, e) = count_call env userID toolName ctx e
                in case Enforcer_Evaluate env ctx e of
                     ((_, Some err), e) \<Rightarrow> ((zeroDecision, Some err), e)
                   | ((decision, None), e) \<Rightarrow>
                       settle_call env userID toolName backendID justification profile decision e)))"

section \<open>Approvals\<close>

definition approval_timeout :: "EnforcerConfig \<Rightarrow> string \<Rightarrow> duration" where
  "approval_timeout config queueType =
     (if queueType = ''user''
      then if ec_UserApprovalTimeout config = 0 then seconds 600 else ec_UserApprovalTimeout config
      else if ec_AdminApprovalTimeout config = 0 then ec_ApprovalTimeout config else ec_AdminApprovalTimeout config)"

definition approval_row ::
    "'p env \<Rightarrow> EnforcerConfig \<Rightarrow> string \<Rightarrow> DecisionContext \<Rightarrow> string \<Rightarrow> string \<Rightarrow> string \<Rightarrow> MatchContext \<Rightarrow> ApprovalRequestRow" where
  "approval_row env config i ctx policyID message queueType matchCtx =
     \<lparr>aq_ID = i, aq_UserID = dc_UserID ctx, aq_UserEmail = dc_UserEmail ctx, aq_UserRole = dc_UserRole ctx,
      aq_TrustLevel = dc_TrustLevel ctx, aq_ToolName = dc_Tool ctx, aq_ToolArgs = env_marshal env (JObj (dc_Args ctx)),
      aq_BackendID = dc_BackendID ctx, aq_SafetyProfile = env_marshal_profile env (dc_Safety ctx),
      aq_Status = ''PENDING'', aq_QueueType = queueType, aq_Justification = dc_Justification ctx,
      aq_RequestedAt = env_now env, aq_ExpiresAt = env_now env + approval_timeout config queueType,
      aq_ApprovedBy = None, aq_ApprovedAt = None, aq_DenialReason = [], aq_Comments = [], aq_PolicyID = policyID,
      aq_ViolationMsg = message, aq_MatchContext = matchCtx, aq_RequestBody = dc_RequestBody ctx,
      aq_ResponseStatus = 0, aq_ResponseBody = [], aq_ExecutedAt = None, aq_ErrorMsg = []\<rparr>"

definition RequestApproval ::
    "'p env \<Rightarrow> DecisionContext \<Rightarrow> string \<Rightarrow> string \<Rightarrow> string \<Rightarrow> MatchContext \<Rightarrow> 'p Enforcer \<Rightarrow>
     (goerr + string) \<times> 'p Enforcer" where
  "RequestApproval env ctx policyID message queueType matchCtx e =
     (let (i, db) = generateID (ef_store e);
          req = approval_row env (ef_config e) i ctx policyID message queueType matchCtx
      in case ES_CreateApprovalRequest req db of
           Inl err \<Rightarrow> (Inl (ErrWrap ''failed to create approval request'' err), e\<lparr>ef_store := db\<rparr>)
         | Inr db \<Rightarrow> (Inr i, e\<lparr>ef_store := db\<rparr>))"

definition ListPendingApprovals :: "'p Enforcer \<Rightarrow> goerr + ApprovalRequestRow list" where
  "ListPendingApprovals e = ES_ListPendingApprovals (ef_store e)"

definition ListUserPendingApprovals :: "'p Enforcer \<Rightarrow> goerr + ApprovalRequestRow list" where
  "ListUserPendingApprovals e = ES_ListUserPendingApprovals (ef_store e)"

definition ListUserAllApprovals :: "string \<Rightarrow> 'p Enforcer \<Rightarrow> goerr + ApprovalRequestRow list" where
  "ListUserAllApprovals userID e = ES_ListUserAllApprovals userID (ef_store e)"

definition ListAdminPendingApprovals :: "'p Enforcer \<Rightarrow> goerr + ApprovalRequestRow list" where
  "ListAdminPendingApprovals e = ES_ListAdminPendingApprovals (ef_store e)"

definition CountUserPendingApprovals :: "'p Enforcer \<Rightarrow> goerr + int" where
  "CountUserPendingApprovals e = ES_CountUserPendingApprovals (ef_store e)"

definition CountAdminPendingApprovals :: "'p Enforcer \<Rightarrow> goerr + int" where
  "CountAdminPendingApprovals e = ES_CountAdminPendingApprovals (ef_store e)"

definition ListAllApprovals :: "'p Enforcer \<Rightarrow> goerr + ApprovalRequestRow list" where
  "ListAllApprovals e = ES_ListAllApprovals (ef_store e)"

definition GetApprovalRequest :: "string \<Rightarrow> 'p Enforcer \<Rightarrow> goerr + ApprovalRequestRow" where
  "GetApprovalRequest i e = ES_GetApprovalRequest i (ef_store e)"

definition CheckApproval :: "'p env \<Rightarrow> string \<Rightarrow> 'p Enforcer \<Rightarrow> bool \<times> goerr option" where
  "CheckApproval env approvalID e =
     (case ES_GetApprovalRequest approvalID (ef_store e) of
        Inl err \<Rightarrow> (False, Some err)
      | Inr req \<Rightarrow>
          if aq_Status req = ''APPROVED'' then (True, None)
          else if aq_Status req = ''DENIED'' then (False, Some (ErrNew (''request was denied: '' @ aq_DenialReason req)))
          else if aq_Status req = ''EXPIRED'' \<or> env_now env > aq_ExpiresAt req
          then (False, Some (ErrNew ''approval request expired''))
          else (False, None))"

definition ApproveRequest :: "'p env \<Rightarrow> string \<Rightarrow> string \<Rightarrow> string \<Rightarrow> 'p Enforcer \<Rightarrow> (goerr + string) \<times> 'p Enforcer" where
  "ApproveRequest env approvalID approverID comments e =
     (case ES_ApproveRequest (env_now env) approvalID approverID comments (ef_store e) of
        Inl err \<Rightarrow> (Inl err, e)
      | Inr db \<Rightarrow>
          (case ES_GetApprovalRequest approvalID db of
             Inl err \<Rightarrow> (Inl err, e\<lparr>ef_store := db\<rparr>)
           | Inr req \<Rightarrow> (Inr (aq_RequestBody req), e\<lparr>ef_store := db\<rparr>)))"

definition DenyRequest :: "'p env \<Rightarrow> string \<Rightarrow> string \<Rightarrow> string \<Rightarrow> 'p Enforcer \<Rightarrow> goerr option \<times> 'p Enforcer" where
  "DenyRequest env approvalID approverID reason e =
     (case ES_DenyRequest (env_now env) approvalID approverID reason (ef_store e) of
        Inl err \<Rightarrow> (Some err, e)
      | Inr db \<Rightarrow> (None, e\<lparr>ef_store := db\<rparr>))"

text \<open>Recording the outcome of an execution, and running an approved request.\<close>

definition record_outcome :: "gotime \<Rightarrow> string \<Rightarrow> string + (int \<times> string) \<Rightarrow> db \<Rightarrow> goerr + db" where
  "record_outcome now approvalID outcome db =
     (case outcome of
        Inl errMsg \<Rightarrow>
          (case ES_MarkFailed now approvalID errMsg db of
             Inl err \<Rightarrow> Inl (ErrWrap ''failed to mark failed'' err) | Inr db \<Rightarrow> Inr db)
      | Inr (statusCode, responseBody) \<Rightarrow>
          (case ES_MarkCompleted now approvalID statusCode responseBody db of
             Inl err \<Rightarrow> Inl (ErrWrap ''failed to mark completed'' err) | Inr db \<Rightarrow> Inr db))"

text \<open>Calling the executor leaves a trace in \<open>ef_executed\<close>: the user, the backend and the body of every call, in order.\<close>

definition call_executor ::
    "executor \<Rightarrow> string \<Rightarrow> string \<Rightarrow> string \<Rightarrow> 'p Enforcer \<Rightarrow> (string + int \<times> string) \<times> 'p Enforcer" where
  "call_executor ex userID backendID body e =
     (ex userID backendID body, e\<lparr>ef_executed := ef_executed e @ [(userID, backendID, body)]\<rparr>)"

definition run_approved ::
    "gotime \<Rightarrow> executor \<Rightarrow> string \<Rightarrow> ApprovalRequestRow \<Rightarrow> 'p Enforcer \<Rightarrow> (goerr + ApprovalRequestRow) \<times> 'p Enforcer" where
  "run_approved now ex approvalID req e =
     (case ES_MarkExecuting approvalID (ef_store e) of
        Inl err \<Rightarrow> (Inl (ErrWrap ''failed to mark executing'' err), e)
      | Inr db \<Rightarrow>
          (let (outcome, e) = call_executor ex (aq_UserID req) (aq_BackendID req) (aq_RequestBody req) e
           in case record_outcome now approvalID outcome db of
                Inl err \<Rightarrow> (Inl err, e\<lparr>ef_store := db\<rparr>)
              | Inr db \<Rightarrow>
                  (case ES_GetApprovalRequest approvalID db of
                     Inl err \<Rightarrow> (Inl (ErrWrap ''failed to get updated request'' err), e\<lparr>ef_store := db\<rparr>)
                   | Inr updatedReq \<Rightarrow> (Inr updatedReq, e\<lparr>ef_store := db\<rparr>))))"

definition ExecuteApprovedRequest ::
    "'p env \<Rightarrow> string \<Rightarrow> string \<Rightarrow> string \<Rightarrow> 'p Enforcer \<Rightarrow> (goerr + ApprovalRequestRow) \<times> 'p Enforcer" where
  "ExecuteApprovedRequest env approvalID approverID comments e =
     (case ES_ApproveRequest (env_now env) approvalID approverID comments (ef_store e) of
        Inl err \<Rightarrow> (Inl (ErrWrap ''failed to approve request'' err), e)
      | Inr db \<Rightarrow>
          (case ES_GetApprovalRequest approvalID db of
             Inl err \<Rightarrow> (Inl (ErrWrap ''failed to get request'' err), e\<lparr>ef_store := db\<rparr>)
           | Inr req \<Rightarrow>
               (case ef_executor e of
                  None \<Rightarrow> (Inr req, e\<lparr>ef_store := db\<rparr>)
                | Some ex \<Rightarrow> run_approved (env_now env) ex approvalID req (e\<lparr>ef_store := db\<rparr>))))"

definition DecorateDescription :: "string \<Rightarrow> string \<Rightarrow> string \<Rightarrow> 'p Enforcer \<Rightarrow> string" where
  "DecorateDescription description toolName backendID e =
     (if \<not> ec_EnableDescriptionDecoration (ef_config e) then description
      else case Resolve (Some (ef_store e)) (ef_resolver e) toolName backendID of
             Inl _ \<Rightarrow> description
           | Inr profile \<Rightarrow> Decorate description profile)"

text \<open>One round of the loop \<open>cleanupLoop\<close>.\<close>

definition cleanup_round :: "'p env \<Rightarrow> 'p Enforcer \<Rightarrow> 'p Enforcer" where
  "cleanup_round env e =
     (let db = (case ES_CleanupExpiredApprovals (env_now env) (ef_store e) of Inl _ \<Rightarrow> ef_store e | Inr db \<Rightarrow> db);
          db = (if ec_RetentionPeriod (ef_config e) > 0
                then case ES_CleanupOldApprovals (env_now env) (ec_RetentionPeriod (ef_config e)) db of
                       Inl _ \<Rightarrow> db | Inr db \<Rightarrow> db
                else db)
      in e\<lparr>ef_store := db\<rparr>)"

section \<open>What a step leaves alone\<close>

lemma logDecision_frame [simp]:
  "ef_rateLimit (logDecision env ctx d e) = ef_rateLimit e" "ef_engine (logDecision env ctx d e) = ef_engine e"
  "ef_config (logDecision env ctx d e) = ef_config e" "ef_resolver (logDecision env ctx d e) = ef_resolver e"
  by (simp_all add: logDecision_def generateID_def split: sum.splits)

lemma audit_rejection_frame [simp]:
  "ef_rateLimit (audit_rejection env u t j r e) = ef_rateLimit e" "ef_engine (audit_rejection env u t j r e) = ef_engine e"
  "ef_config (audit_rejection env u t j r e) = ef_config e" "ef_resolver (audit_rejection env u t j r e) = ef_resolver e"
  by (simp_all add: audit_rejection_def generateID_def split: sum.splits)

lemma IncrementRateBucket_frame:
  "ES_IncrementRateBucket now fmt u t d db = (r, db') \<Longrightarrow> \<exists>ts. db' = db\<lparr>db_rate_buckets := ts\<rparr>"
  by (auto simp: ES_IncrementRateBucket_def Let_def split: sum.splits intro: exI [of _ "db_rate_buckets db"])

lemma count_call_frame:
  assumes "count_call env u t ctx e = (ctx', e')"
  obtains ts n where "e' = e\<lparr>ef_store := (ef_store e)\<lparr>db_rate_buckets := ts\<rparr>\<rparr>" and "ctx' = ctx\<lparr>dc_CallRate := n\<rparr>"
proof (cases "ec_RateWindowDuration (ef_config e) > 0")
  case True
  obtain r db where r: "ES_IncrementRateBucket (env_now env) (env_rfc3339 env) u t
      (ec_RateWindowDuration (ef_config e)) (ef_store e) = (r, db)" by fastforce
  from IncrementRateBucket_frame [OF r] obtain ts where "db = (ef_store e)\<lparr>db_rate_buckets := ts\<rparr>" by blast
  with True r assms that [of ts "dc_CallRate ctx"] that [of ts] show thesis
    by (cases r) (auto simp: count_call_def)
next
  case False
  with assms that [of "db_rate_buckets (ef_store e)" "dc_CallRate ctx"] show thesis
    by (auto simp: count_call_def)
qed

lemma stmt_rate_buckets: "stmt op (db\<lparr>db_rate_buckets := ts\<rparr>) r = stmt op db r"
  by (simp add: stmt_def)

lemma switch_count_rate_buckets: "switch_count sc (db\<lparr>db_rate_buckets := ts\<rparr>) = switch_count sc db"
  by (simp add: switch_count_def)

lemma store_check_local: "ES_IsKillSwitchActive sc (db\<lparr>db_rate_buckets := ts\<rparr>) = ES_IsKillSwitchActive sc db"
  unfolding ES_IsKillSwitchActive_def stmt_rate_buckets switch_count_rate_buckets ..

lemma kill_switch_check_local:
  "isKillSwitchActive sc (e\<lparr>ef_store := (ef_store e)\<lparr>db_rate_buckets := ts\<rparr>\<rparr>) = isKillSwitchActive sc e"
  by (simp add: isKillSwitchActive_def store_check_local)

lemma call_context_sel [simp]:
  "dc_BackendID (call_context u t args b j p e) = b" "dc_Safety (call_context u t args b j p e) = p"
  "dc_Tool (call_context u t args b j p e) = t" "dc_UserID (call_context u t args b j p e) = u"
  by (simp_all add: call_context_def user_context_def zeroContext_def split: sum.splits)

section \<open>The course of a call\<close>

text \<open>The profile, the context and the policy decision of a call.\<close>

definition call_profile :: "string \<Rightarrow> string \<Rightarrow> string \<Rightarrow> 'p Enforcer \<Rightarrow> SafetyProfile" where
  "call_profile u t b e = resolved (Some (ef_store e)) (ef_resolver e) t b u"

definition evaluated_context ::
    "'p env \<Rightarrow> string \<Rightarrow> string \<Rightarrow> (string, json) gomap \<Rightarrow> string \<Rightarrow> string \<Rightarrow> 'p Enforcer \<Rightarrow> DecisionContext" where
  "evaluated_context env u t args b j e =
     fst (count_call env u t (call_context u t args b j (call_profile u t b e) e) e)"

definition policy_decision_of ::
    "'p env \<Rightarrow> string \<Rightarrow> string \<Rightarrow> (string, json) gomap \<Rightarrow> string \<Rightarrow> string \<Rightarrow> 'p Enforcer \<Rightarrow> EnforcerDecision" where
  "policy_decision_of env u t args b j e =
     Engine_Evaluate (env_cel env) (env_now env) (ef_engine e) (evaluated_context env u t args b j e)"

lemma handle_rejected:
  assumes "justification_gate (ef_config e) opts j = Some (d, r)"
  shows "HandleToolCall env u t args b j opts e = ((d, Some ErrPolicyViolation), audit_rejection env u t j r e)"
  using assms by (simp add: HandleToolCall_def ResolveForUser_total)

lemma handle_killed:
  assumes "justification_gate (ef_config e) opts j = None" and "isKillSwitchActive b e"
  shows "\<exists>ts. HandleToolCall env u t args b j opts e =
    ((zeroDecision, Some ErrKillSwitchActive), e\<lparr>ef_store := (ef_store e)\<lparr>db_rate_buckets := ts\<rparr>\<rparr>)"
proof -
  let ?ctx = "call_context u t args b j (resolved (Some (ef_store e)) (ef_resolver e) t b u) e"
  obtain ctx e1 where c: "count_call env u t ?ctx e = (ctx, e1)" by fastforce
  from count_call_frame [OF c] obtain ts n
    where "e1 = e\<lparr>ef_store := (ef_store e)\<lparr>db_rate_buckets := ts\<rparr>\<rparr>" and "ctx = ?ctx\<lparr>dc_CallRate := n\<rparr>" by blast
  with assms c show ?thesis
    by (auto simp: HandleToolCall_def ResolveForUser_total Enforcer_Evaluate_def kill_switch_check_local)
qed

lemma handle_evaluated:
  assumes "justification_gate (ef_config e) opts j = None" and "\<not> isKillSwitchActive b e"
  obtains e1 where "HandleToolCall env u t args b j opts e =
      settle_call env u t b j (call_profile u t b e) (policy_decision_of env u t args b j e) e1"
    and "ef_rateLimit e1 = ef_rateLimit e" "ef_engine e1 = ef_engine e" "ef_config e1 = ef_config e"
proof -
  let ?ctx = "call_context u t args b j (call_profile u t b e) e"
  obtain ctx e1 where c: "count_call env u t ?ctx e = (ctx, e1)" by fastforce
  from count_call_frame [OF c] obtain ts n
    where e1: "e1 = e\<lparr>ef_store := (ef_store e)\<lparr>db_rate_buckets := ts\<rparr>\<rparr>" and "ctx = ?ctx\<lparr>dc_CallRate := n\<rparr>" by blast
  with assms c have "HandleToolCall env u t args b j opts e =
      settle_call env u t b j (call_profile u t b e) (policy_decision_of env u t args b j e)
        (logDecision env ctx (policy_decision_of env u t args b j e) e1)"
    by (simp add: HandleToolCall_def ResolveForUser_total Enforcer_Evaluate_def kill_switch_check_local Let_def
        policy_decision_of_def evaluated_context_def call_profile_def)
  from that [OF this] show thesis by (simp add: e1)
qed

text \<open>How a call ends once its policy decision is known.\<close>

lemma settle_call_cases:
  assumes "settle_call env u t b j p d e1 = ((r, err), e')"
  obtains (gate) "permit_gate p d = Inl (r, err)" "ef_rateLimit e' = ef_rateLimit e1"
  | (hitl) d' where "permit_gate p d = Inr d'" "hitl_override p d'" "r = hitl_decision" "err = None" "e' = e1"
  | (free) d' where "permit_gate p d = Inr d'" "\<not> hitl_override p d'" "ed_Action d' \<noteq> ActionAllow" "r = d'"
      "err = None" "e' = e1"
  | (charged) d' where "permit_gate p d = Inr d'" "\<not> hitl_override p d'" "ed_Action d' = ActionAllow" "r = d'" "err = None"
      "CheckAndConsume (env_now env) u b (fst (call_cost (ef_config e1) p)) (snd (call_cost (ef_config e1) p)) (ef_rateLimit e1) =
         ((True, True), ef_rateLimit e')"
  | (limited) d' c ra sa where "permit_gate p d = Inr d'" "\<not> hitl_override p d'" "ed_Action d' = ActionAllow" "err = None"
      "CheckAndConsume (env_now env) u b (fst (call_cost (ef_config e1) p)) (snd (call_cost (ef_config e1) p)) (ef_rateLimit e1) =
         ((ra, sa), ef_rateLimit e')" "\<not> (ra \<and> sa)"
      "c = (if \<not> sa then MatchContextResourceLimit else MatchContextRiskLimit)"
      "ed_Action r = fst (resolveDisposition c e1)" "ed_PolicyID r = ''rate_limit_disposition''"
proof (cases "permit_gate p d")
  case (Inl x)
  then show thesis using assms gate
    by (cases "snd x") (auto simp: settle_call_def split: prod.splits)
next
  case (Inr d')
  show thesis
  proof (cases "hitl_override p d'")
    case True
    with Inr assms hitl show thesis by (simp add: settle_call_def)
  next
    case no: False
    obtain ra sa rl where c: "CheckAndConsume (env_now env) u b (fst (call_cost (ef_config e1) p))
        (snd (call_cost (ef_config e1) p)) (ef_rateLimit e1) = ((ra, sa), rl)" by (metis surj_pair)
    have charge: "charge_call env u b (call_cost (ef_config e1) p) d' e1 = ((r, err), e')"
      using assms Inr no by (simp add: settle_call_def)
    have limited_sel: "ed_Action (limited_decision now m (e1\<lparr>ef_rateLimit := rl\<rparr>)) = fst (resolveDisposition m e1)"
      "ed_PolicyID (limited_decision now m e2) = ''rate_limit_disposition''" for now m and e2 :: "'a Enforcer"
      by (simp_all add: limited_decision_def resolveDisposition_def split: prod.splits option.splits)
    show thesis
    proof (cases "ed_Action d' = ActionAllow \<and> \<not> (ra \<and> sa)")
      case True
      with charge c have "r = limited_decision (env_now env) (if \<not> sa then MatchContextResourceLimit else MatchContextRiskLimit)
          (e1\<lparr>ef_rateLimit := rl\<rparr>)" and "err = None" and "ef_rateLimit e' = rl"
        by (auto simp: charge_call_def Let_def split: if_splits)
      with True Inr no c show thesis
        by (intro limited [of d' ra sa "if \<not> sa then MatchContextResourceLimit else MatchContextRiskLimit"])
          (simp_all add: limited_sel)
    next
      case False
      with charge c no Inr show thesis
        by (cases "ed_Action d' = ActionAllow") (auto simp: charge_call_def intro: free charged)
    qed
  qed
qed

text \<open>The policies that decided: none of the policies whose expression holds is stricter than the
  decision.\<close>

lemma policy_decision_rank:
  assumes "(i, q) \<in> set (ce_programs (ef_engine e))"
    and "matches (env_cel env) (buildActivation (evaluated_context env u t args b j e)) q"
  shows "actionPriority (cp_Action (policy_at (ef_engine e) i)) \<le>
    actionPriority (ed_Action (policy_decision_of env u t args b j e))"
proof -
  have "policy_rank (policy_at (ef_engine e) i) \<le> rank (policy_decision_of env u t args b j e)"
    unfolding policy_decision_of_def by (rule engine_rank_le [OF assms])
  then show ?thesis
    using severityPriority_range [of "cp_Severity (policy_at (ef_engine e) i)"]
      severityPriority_range [of "ed_Severity (policy_decision_of env u t args b j e)"]
    unfolding policy_rank_def rank_def by linarith
qed

lemma permit_gate_Inr:
  assumes "permit_gate p d = Inr d'"
  shows "d' = d \<and> ed_Action d \<noteq> [] \<or>
    ed_Action d = [] \<and> ed_Action d' = ActionAllow \<and> sp_Source p \<in> {''self_reported'', ''override'', ''user_override''}"
  using assms by (auto simp: permit_gate_def split: if_splits)

text \<open>C1: a call is allowed only if no kill switch is seen, the justification suffices, no policy that
  holds of the call asks for more than to allow it, the tool is vouched for by a policy or by a profile that is not
  inferred, no override of the profile asks for approval, and the cost was charged to the buckets: both covered it, or the disposition
  for the limit that was exceeded, the resource limit first, explicitly allows such calls.\<close>

theorem allowed_calls:
  assumes "HandleToolCall env u t args b j opts e = ((d, None), e')" and "ed_Action d = ActionAllow"
  shows "\<not> isKillSwitchActive b e \<and> justification_gate (ef_config e) opts j = None \<and>
    (\<forall>(i, q) \<in> set (ce_programs (ef_engine e)).
       matches (env_cel env) (buildActivation (evaluated_context env u t args b j e)) q \<longrightarrow>
       actionPriority (cp_Action (policy_at (ef_engine e) i)) \<le> actionPriority ActionAllow) \<and>
    (ed_Action (policy_decision_of env u t args b j e) = ActionAllow \<or>
       ed_Action (policy_decision_of env u t args b j e) = [] \<and> sp_Source (call_profile u t b e) \<noteq> ''inferred'') \<and>
    \<not> (sp_RequiresHITL (call_profile u t b e) \<and> sp_Source (call_profile u t b e) \<in> {''override'', ''user_override''}) \<and>
    (\<exists>ra sa. CheckAndConsume (env_now env) u b (fst (call_cost (ef_config e) (call_profile u t b e)))
       (snd (call_cost (ef_config e) (call_profile u t b e))) (ef_rateLimit e) = ((ra, sa), ef_rateLimit e') \<and>
       (ra \<and> sa \<or> fst (resolveDisposition (if \<not> sa then MatchContextResourceLimit else MatchContextRiskLimit) e) = ActionAllow))"
proof -
  have gate: "justification_gate (ef_config e) opts j = None"
    using assms(1) handle_rejected [of e opts j _ _ env u t args b]
    by (cases "justification_gate (ef_config e) opts j") auto
  have ks: "\<not> isKillSwitchActive b e"
    using assms(1) handle_killed [OF gate, of b env u t args] by auto
  obtain e1 where e1: "settle_call env u t b j (call_profile u t b e) (policy_decision_of env u t args b j e) e1 = ((d, None), e')"
    and same: "ef_rateLimit e1 = ef_rateLimit e" "ef_engine e1 = ef_engine e" "ef_config e1 = ef_config e"
    using handle_evaluated [OF gate ks, of env u t args] assms(1) by metis
  have disp: "resolveDisposition c e1 = resolveDisposition c e" for c
    by (simp add: resolveDisposition_def same)
  let ?d = "policy_decision_of env u t args b j e"
  have decided: "(ed_Action ?d = ActionAllow \<or> ed_Action ?d = [] \<and> sp_Source (call_profile u t b e) \<noteq> ''inferred'') \<and>
    \<not> (sp_RequiresHITL (call_profile u t b e) \<and> sp_Source (call_profile u t b e) \<in> {''override'', ''user_override''}) \<and>
    (\<exists>ra sa. CheckAndConsume (env_now env) u b (fst (call_cost (ef_config e) (call_profile u t b e)))
       (snd (call_cost (ef_config e) (call_profile u t b e))) (ef_rateLimit e) = ((ra, sa), ef_rateLimit e') \<and>
       (ra \<and> sa \<or> fst (resolveDisposition (if \<not> sa then MatchContextResourceLimit else MatchContextRiskLimit) e) = ActionAllow))"
    using e1
  proof (cases rule: settle_call_cases)
    case gate
    with assms(2) show ?thesis by (auto simp: permit_gate_def split: if_splits)
  next
    case (charged d')
    with permit_gate_Inr [OF charged(1)] assms(2) show ?thesis
      by (auto simp: same hitl_override_def)
  next
    case (limited d' c ra sa)
    with permit_gate_Inr [OF limited(1)] assms(2) show ?thesis by (auto simp: same disp hitl_override_def)
  qed (use assms(2) in \<open>auto simp: hitl_decision_def\<close>)
  then have "actionPriority (ed_Action ?d) \<le> actionPriority ActionAllow"
    by (auto simp: actionPriority_def)
  then have "\<forall>(i, q) \<in> set (ce_programs (ef_engine e)).
       matches (env_cel env) (buildActivation (evaluated_context env u t args b j e)) q \<longrightarrow>
       actionPriority (cp_Action (policy_at (ef_engine e) i)) \<le> actionPriority ActionAllow"
    using policy_decision_rank order_trans by fastforce
  with ks gate decided show ?thesis by blast
qed

text \<open>A small enforcer for the witnesses: one registered override, policies by argument.\<close>

definition sample_env :: "bool env" where
  "sample_env = \<lparr>env_now = 1000, env_cel = literal_cel, env_marshal = (\<lambda>_. ''{}''), env_marshal_profile = (\<lambda>_. ''{}''),
     env_rfc3339 = itoa, env_dispositions = (\<lambda>_. Inl ''unused'')\<rparr>"

definition sample_config :: EnforcerConfig where
  "sample_config = DefaultEnforcerConfig\<lparr>ec_RateWindowDuration := 0\<rparr>"

definition sample_enforcer :: "bool CELEngine \<Rightarrow> db \<Rightarrow> bool Enforcer" where
  "sample_enforcer engine db = \<lparr>ef_config = sample_config,
     ef_resolver = \<lparr>mr_overrides = [(''post|slack'', zeroSafetyProfile\<lparr>sp_Risk := ''low'', sp_Impact := ''read'', sp_Cost := 5\<rparr>)]\<rparr>,
     ef_engine = engine, ef_store = db, ef_userStore = True, ef_executor = None, ef_killSwitches = [],
     ef_rateLimit = NewRateLimitManager, ef_executed = []\<rparr>"

lemmas sample_enforcer_defs = sample_enforcer_def sample_env_def sample_config_def DefaultEnforcerConfig_def

lemma sample_profile_source:
  "call_profile ''bob'' ''post'' ''slack'' (sample_enforcer eng db) = zeroSafetyProfile\<lparr>sp_ToolName := ''post'',
     sp_BackendID := ''slack'', sp_Risk := ''low'', sp_Impact := ''read'', sp_Cost := 5, sp_Source := ''override''\<rparr>"
  by (simp add: call_profile_def resolved_def ResolveForUser_def sample_enforcer_def resolver_key_def admin_profile_def
      zeroSafetyProfile_def)

lemma sample_call_settles:
  assumes "ES_IsKillSwitchActive ''slack'' db = Inr False"
  shows "\<exists>e1. HandleToolCall sample_env ''bob'' ''post'' [] ''slack'' [] \<lparr>co_SkipJustification = True\<rparr> (sample_enforcer eng db) =
      settle_call sample_env ''bob'' ''post'' ''slack'' [] (call_profile ''bob'' ''post'' ''slack'' (sample_enforcer eng db))
        (policy_decision_of sample_env ''bob'' ''post'' [] ''slack'' [] (sample_enforcer eng db)) e1 \<and>
      ef_rateLimit e1 = NewRateLimitManager \<and> ef_config e1 = sample_config"
proof -
  have "justification_gate (ef_config (sample_enforcer eng db)) \<lparr>co_SkipJustification = True\<rparr> [] = None"
    by (simp add: justification_gate_def)
  moreover have "\<not> isKillSwitchActive ''slack'' (sample_enforcer eng db)"
    using assms by (simp add: isKillSwitchActive_def sample_enforcer_def)
  ultimately obtain e1 where "HandleToolCall sample_env ''bob'' ''post'' [] ''slack'' [] \<lparr>co_SkipJustification = True\<rparr> (sample_enforcer eng db) =
      settle_call sample_env ''bob'' ''post'' ''slack'' [] (call_profile ''bob'' ''post'' ''slack'' (sample_enforcer eng db))
        (policy_decision_of sample_env ''bob'' ''post'' [] ''slack'' [] (sample_enforcer eng db)) e1"
      "ef_rateLimit e1 = ef_rateLimit (sample_enforcer eng db)" "ef_config e1 = ef_config (sample_enforcer eng db)"
    by (rule handle_evaluated)
  then show ?thesis by (auto simp: sample_enforcer_def)
qed

lemma sample_db_switches: "ES_IsKillSwitchActive ''slack'' empty_db = Inr False"
proof -
  have "\<not> switch_on empty_db sc" for sc by (simp add: switch_on_def empty_db_def)
  then show ?thesis by (simp add: IsKillSwitchActive_ok)
qed

lemma sample_consume:
  "\<exists>m. CheckAndConsume 1000 ''bob'' ''slack'' 0 5 NewRateLimitManager = ((True, True), m)"
  by (simp add: CheckAndConsume_def Manager_CheckAndConsume_def GetOrCreate_def
      NewRateLimitManager_def NewBucketManager_def defaultBucketConfig_def NewBucketState_def
      bucketKey_def configKey_def put_bucket_def BucketState_Consume_def BucketState_CanConsume_def
      BucketState_Refill_def refillAmount_def Since_def whole_seconds_def gomul_def gosub_def
      wrap64_def Let_def)

lemma sample_call_allowed:
  "\<exists>d e'. HandleToolCall sample_env ''bob'' ''post'' [] ''slack'' [] \<lparr>co_SkipJustification = True\<rparr>
     (sample_enforcer NewCELEngine empty_db) = ((d, None), e') \<and> ed_Action d = ActionAllow"
proof -
  obtain e1 where e1: "HandleToolCall sample_env ''bob'' ''post'' [] ''slack'' [] \<lparr>co_SkipJustification = True\<rparr> (sample_enforcer NewCELEngine empty_db) =
      settle_call sample_env ''bob'' ''post'' ''slack'' [] (call_profile ''bob'' ''post'' ''slack'' (sample_enforcer NewCELEngine empty_db))
        (policy_decision_of sample_env ''bob'' ''post'' [] ''slack'' [] (sample_enforcer NewCELEngine empty_db)) e1"
      "ef_rateLimit e1 = NewRateLimitManager" "ef_config e1 = sample_config"
    using sample_call_settles [OF sample_db_switches] by blast
  have "ed_Action (policy_decision_of sample_env ''bob'' ''post'' [] ''slack'' [] (sample_enforcer NewCELEngine empty_db)) = []"
    by (simp add: policy_decision_of_def sample_enforcer_def Engine_Evaluate_def NewCELEngine_def zeroDecision_def)
  moreover have "call_cost (ef_config e1) (call_profile ''bob'' ''post'' ''slack'' (sample_enforcer NewCELEngine empty_db)) = (0, 5)"
    by (simp add: call_cost_def CalculateCost_def IsRiskScoped_def impactScopesRequiringRisk_def sample_profile_source
        zeroSafetyProfile_def)
  moreover obtain m where "CheckAndConsume (env_now sample_env) ''bob'' ''slack'' 0 5 (ef_rateLimit e1) = ((True, True), m)"
    using sample_consume by (auto simp: sample_env_def e1)
  ultimately show ?thesis unfolding e1(1)
    by (simp add: settle_call_def permit_gate_def sample_profile_source zeroSafetyProfile_def hitl_override_def charge_call_def)
qed

theorem allowed_calls_witness:
  "\<exists>d e'. HandleToolCall sample_env ''bob'' ''post'' [] ''slack'' [] \<lparr>co_SkipJustification = True\<rparr>
     (sample_enforcer NewCELEngine empty_db) = ((d, None), e') \<and> ed_Action d = ActionAllow \<and>
     \<not> isKillSwitchActive ''slack'' (sample_enforcer NewCELEngine empty_db)"
proof -
  obtain d e' where "HandleToolCall sample_env ''bob'' ''post'' [] ''slack'' [] \<lparr>co_SkipJustification = True\<rparr>
     (sample_enforcer NewCELEngine empty_db) = ((d, None), e')" and "ed_Action d = ActionAllow"
    using sample_call_allowed by blast
  with allowed_calls [OF this] show ?thesis by blast
qed

section \<open>Calls that are not allowed\<close>

text \<open>C7: once a call has passed the kill switches and the justification gate, a policy that denies and holds of the call denies it, whatever
  other policies, profiles or budgets say, and the call costs no budget.\<close>

theorem deny_policy_denies:
  assumes "justification_gate (ef_config e) opts j = None" and "\<not> isKillSwitchActive b e"
    and "(i, q) \<in> set (ce_programs (ef_engine e))"
    and "matches (env_cel env) (buildActivation (evaluated_context env u t args b j e)) q"
    and "cp_Action (policy_at (ef_engine e) i) = ActionDeny"
  shows "\<exists>d e'. HandleToolCall env u t args b j opts e = ((d, None), e') \<and> ed_Action d = ActionDeny \<and>
    ef_rateLimit e' = ef_rateLimit e"
proof -
  let ?d = "policy_decision_of env u t args b j e"
  have "5 \<le> actionPriority (ed_Action ?d)"
    using policy_decision_rank [OF assms(3,4)] assms(5) by (simp add: actionPriority_def)
  then have deny: "ed_Action ?d = ActionDeny"
    using actionPriority_range(2) [of "ed_Action ?d"] by (metis actionPriority_5 antisym)
  obtain e1 where "HandleToolCall env u t args b j opts e = settle_call env u t b j (call_profile u t b e) ?d e1"
    and "ef_rateLimit e1 = ef_rateLimit e"
    using handle_evaluated [OF assms(1,2), of env u t args] by metis
  with deny show ?thesis
    by (simp add: settle_call_def permit_gate_def hitl_override_def charge_call_def)
qed

theorem deny_policy_denies_witness:
  "\<exists>d e'. HandleToolCall sample_env ''bob'' ''post'' [] ''slack'' [] \<lparr>co_SkipJustification = True\<rparr>
     (sample_enforcer sample_engine empty_db) = ((d, None), e') \<and> ed_Action d = ActionDeny"
proof -
  have "justification_gate (ef_config (sample_enforcer sample_engine empty_db)) \<lparr>co_SkipJustification = True\<rparr> [] = None"
    by (simp add: justification_gate_def)
  moreover have "\<not> isKillSwitchActive ''slack'' (sample_enforcer sample_engine empty_db)"
    by (simp add: isKillSwitchActive_def sample_enforcer_def sample_db_switches)
  moreover have "(''p2'', True) \<in> set (ce_programs (ef_engine (sample_enforcer sample_engine empty_db)))"
    and "cp_Action (policy_at (ef_engine (sample_enforcer sample_engine empty_db)) ''p2'') = ActionDeny"
    by (simp_all add: sample_enforcer_def sample_engine_defs policy_at_def)
  moreover have "matches (env_cel sample_env) act True" for act
    by (simp add: matches_def sample_env_def literal_cel_def)
  ultimately show ?thesis
    using deny_policy_denies [of "sample_enforcer sample_engine empty_db" "\<lparr>co_SkipJustification = True\<rparr>" "[]"
        "''slack''" "''p2''" True sample_env "''bob''" "''post''" "[]"] by blast
qed

text \<open>A tool known only by an inferred profile and addressed by no policy is to wait for an administrator,
  and the call costs no budget.\<close>

lemma inferred_tool_waits:
  assumes "justification_gate (ef_config e) opts j = None" and "\<not> isKillSwitchActive b e"
    and "ed_Action (policy_decision_of env u t args b j e) = []" and "sp_Source (call_profile u t b e) = ''inferred''"
  shows "\<exists>d e'. HandleToolCall env u t args b j opts e = ((d, None), e') \<and> RequiresAdminApproval (ed_Action d) \<and>
    ef_rateLimit e' = ef_rateLimit e"
proof -
  obtain e1 where "HandleToolCall env u t args b j opts e =
      settle_call env u t b j (call_profile u t b e) (policy_decision_of env u t args b j e) e1"
    and "ef_rateLimit e1 = ef_rateLimit e"
    using handle_evaluated [OF assms(1,2), of env u t args] by metis
  with assms(3,4) show ?thesis by (simp add: settle_call_def permit_gate_def)
qed

text \<open>where justifications are required, a call with a shorter one is denied with an error before any
  policy is looked at, and neither budgets nor policies change.\<close>

theorem short_justification_denied:
  assumes "\<not> co_SkipJustification opts" and "int (length j) < ec_MinJustificationLength (ef_config e)"
  shows "\<exists>d e'. HandleToolCall env u t args b j opts e = ((d, Some ErrPolicyViolation), e') \<and>
    ed_Action d = ActionDeny \<and> ed_PolicyID d \<in> {''justification_required'', ''justification_too_short''} \<and>
    ef_rateLimit e' = ef_rateLimit e \<and> ef_engine e' = ef_engine e"
proof -
  from assms obtain d r where "justification_gate (ef_config e) opts j = Some (d, r)"
    and "ed_Action d = ActionDeny" and "ed_PolicyID d \<in> {''justification_required'', ''justification_too_short''}"
    by (cases "j = []") (auto simp: justification_gate_def)
  with handle_rejected [OF this(1)] show ?thesis by auto
qed

theorem short_justification_denied_witness:
  "\<exists>d e'. HandleToolCall sample_env ''bob'' ''post'' [] ''slack'' ''because'' \<lparr>co_SkipJustification = False\<rparr>
     (sample_enforcer NewCELEngine empty_db) = ((d, Some ErrPolicyViolation), e') \<and> ed_Action d = ActionDeny"
  using short_justification_denied [of "\<lparr>co_SkipJustification = False\<rparr>" "''because''" "sample_enforcer NewCELEngine empty_db"]
  by (fastforce simp: sample_enforcer_defs)

text \<open>a call a policy only warns about is executed by the callers, but it is charged to no bucket:
  the budget of the user is the same after it.\<close>

theorem warned_calls_free:
  assumes "justification_gate (ef_config e) opts j = None" and "\<not> isKillSwitchActive b e"
    and "ed_Action (policy_decision_of env u t args b j e) = ActionWarn" and "\<not> sp_RequiresHITL (call_profile u t b e)"
  shows "\<exists>d e'. HandleToolCall env u t args b j opts e = ((d, None), e') \<and> ed_Action d = ActionWarn \<and>
    ef_rateLimit e' = ef_rateLimit e"
proof -
  obtain e1 where "HandleToolCall env u t args b j opts e =
      settle_call env u t b j (call_profile u t b e) (policy_decision_of env u t args b j e) e1"
    and "ef_rateLimit e1 = ef_rateLimit e"
    using handle_evaluated [OF assms(1,2), of env u t args] by metis
  with assms(3,4) show ?thesis by (simp add: settle_call_def permit_gate_def hitl_override_def charge_call_def)
qed

definition warn_engine :: "bool CELEngine" where
  "warn_engine = snd (AddPolicy literal_cel (sample_policy ''w'' ActionWarn SeverityLow 10) NewCELEngine)"

theorem warned_calls_free_witness:
  "\<exists>d e'. HandleToolCall sample_env ''bob'' ''post'' [] ''slack'' [] \<lparr>co_SkipJustification = True\<rparr>
     (sample_enforcer warn_engine empty_db) = ((d, None), e') \<and> ed_Action d = ActionWarn"
proof -
  let ?e = "sample_enforcer warn_engine empty_db"
  have "justification_gate (ef_config ?e) \<lparr>co_SkipJustification = True\<rparr> [] = None"
    by (simp add: justification_gate_def)
  moreover have "\<not> isKillSwitchActive ''slack'' ?e"
    by (simp add: isKillSwitchActive_def sample_enforcer_def sample_db_switches)
  moreover have "ed_Action (policy_decision_of sample_env ''bob'' ''post'' [] ''slack'' [] ?e) = ActionWarn"
    by (simp add: policy_decision_of_def sample_enforcer_def sample_env_def Engine_Evaluate_def warn_engine_def
        sample_engine_defs eval_step_cases matches_def shouldUpdateDecision_def actionPriority_def severityPriority_def
        policy_at_def zeroDecision_def)
  moreover have "\<not> sp_RequiresHITL (call_profile ''bob'' ''post'' ''slack'' ?e)"
    by (simp add: sample_profile_source zeroSafetyProfile_def)
  ultimately show ?thesis
    using warned_calls_free [of ?e "\<lparr>co_SkipJustification = True\<rparr>" "[]" "''slack''" sample_env "''bob''" "''post''" "[]"]
    by blast
qed

section \<open>Changing policies\<close>

lemma AddPolicy_other:
  assumes "cp_ID p \<noteq> i"
  shows "map_of (ce_programs (snd (AddPolicy lib p eng))) i = map_of (ce_programs eng) i"
    and "map_of (ce_policies (snd (AddPolicy lib p eng))) i = map_of (ce_policies eng) i"
  using assms by (auto simp: AddPolicy_def loadDispositions_def gomap_simps split: sum.splits)

lemma load_policies_other:
  assumes "\<forall>p \<in> set ps. pr_ID p \<noteq> i"
  shows "map_of (ce_programs (fold (load_policy env) ps eng)) i = map_of (ce_programs eng) i \<and>
    map_of (ce_policies (fold (load_policy env) ps eng)) i = map_of (ce_policies eng) i"
  using assms
proof (induction ps arbitrary: eng)
  case (Cons p ps)
  then have "cp_ID (ToCELPolicy env p) \<noteq> i" by (simp add: ToCELPolicy_def)
  with Cons show ?case by (simp add: load_policy_def AddPolicy_other [OF \<open>cp_ID _ \<noteq> i\<close>])
qed simp

text \<open>deleting a policy, or disabling it, removes it from the database only. The engine keeps its program
  and its policy, so the policy goes on being enforced until the program is restarted.\<close>

theorem removed_policy_still_enforced:
  assumes "Enforcer_DeletePolicy env i e = (None, e') \<or>
      (\<exists>p. pr_ID p = i \<and> \<not> pr_Enabled p \<and> Enforcer_UpdatePolicy env p e = (None, e'))"
    and "fault_free (ef_store e)"
  shows "(\<exists>ps. ListPolicies e' = Inr ps \<and> (\<forall>p \<in> set ps. pr_ID p \<noteq> i)) \<and>
    map_of (ce_programs (ef_engine e')) i = map_of (ce_programs (ef_engine e)) i \<and>
    map_of (ce_policies (ef_engine e')) i = map_of (ce_policies (ef_engine e)) i"
proof -
  obtain db where db: "loadPolicies env (e\<lparr>ef_store := db\<rparr>) = (None, e')" "fault_free db"
    and gone: "\<forall>p \<in> set (filter pr_Enabled (db_policies db)). pr_ID p \<noteq> i"
    using assms(1)
  proof
    assume "Enforcer_DeletePolicy env i e = (None, e')"
    then show thesis
      using assms(2) by (intro that [of "(ef_store e)\<lparr>db_policies := delete_where (\<lambda>p. pr_ID p = i) (db_policies (ef_store e))\<rparr>"])
        (simp_all add: Enforcer_DeletePolicy_def ES_DeletePolicy_def)
  next
    assume "\<exists>p. pr_ID p = i \<and> \<not> pr_Enabled p \<and> Enforcer_UpdatePolicy env p e = (None, e')"
    then obtain p where p: "pr_ID p = i" "\<not> pr_Enabled p" "Enforcer_UpdatePolicy env p e = (None, e')" by blast
    then show thesis
      using assms(2) by (intro that [of "(ef_store e)\<lparr>db_policies := update_where (\<lambda>q. pr_ID q = pr_ID p)
          (\<lambda>q. p\<lparr>pr_ID := pr_ID q, pr_CreatedAt := pr_CreatedAt q\<rparr>) (db_policies (ef_store e))\<rparr>"])
        (auto simp: Enforcer_UpdatePolicy_def ES_UpdatePolicy_def update_where_def)
  qed
  define ps where "ps = order_by (\<lambda>p. (pr_Priority p, pr_CreatedAt p)) (filter pr_Enabled (db_policies db))"
  have "ES_ListPolicies db = Inr ps" using db(2) by (simp add: ES_ListPolicies_def ps_def)
  then have e': "e' = e\<lparr>ef_store := db, ef_engine := fold (load_policy env) ps (ef_engine e)\<rparr>"
    using db(1) by (simp add: loadPolicies_def)
  have "\<forall>p \<in> set ps. pr_ID p \<noteq> i" using gone by (simp add: ps_def)
  with load_policies_other [OF this, of env "ef_engine e"] \<open>ES_ListPolicies db = Inr ps\<close> show ?thesis
    by (simp add: e' ListPolicies_def)
qed

definition policy_db :: db where
  "policy_db = empty_db\<lparr>db_policies := [\<lparr>pr_ID = ''p2'', pr_Name = [], pr_Description = [], pr_Scope = ''global'',
     pr_Expression = ''true'', pr_Action = ''DENY'', pr_Severity = ''LOW'', pr_Message = [], pr_Enabled = True,
     pr_Priority = 20, pr_Locked = False, pr_CreatedAt = 0, pr_UpdatedAt = 0, pr_DispositionsJSON = []\<rparr>]\<rparr>"

theorem removed_policy_still_enforced_witness:
  "\<exists>e'. Enforcer_DeletePolicy sample_env ''p2'' (sample_enforcer sample_engine policy_db) = (None, e') \<and>
     map_of (ce_programs (ef_engine e')) ''p2'' = Some True \<and> ListPolicies e' \<noteq> Inr (db_policies policy_db)"
proof -
  let ?e = "sample_enforcer sample_engine policy_db"
  have ff: "fault_free (ef_store ?e)" by (simp add: sample_enforcer_def policy_db_def)
  obtain e' where e': "Enforcer_DeletePolicy sample_env ''p2'' ?e = (None, e')"
    using ff by (simp add: Enforcer_DeletePolicy_def ES_DeletePolicy_def loadPolicies_def ES_ListPolicies_def)
  have "map_of (ce_programs (ef_engine ?e)) ''p2'' = Some True"
    by (simp add: sample_enforcer_def sample_engine_defs)
  with removed_policy_still_enforced [OF disjI1 [OF e'] ff] e' show ?thesis
    by (auto simp: policy_db_def)
qed

section \<open>User limits\<close>

text \<open>C32: an accepted user limit stays within the backend's ceiling: capacity times multiplier does not
  exceed the global capacity, for both buckets, provided the products fit 64 bits.\<close>

theorem user_limit_ceiling:
  assumes "SetUserRateLimitOverride env ov e = (None, e')"
    and "GetDefaultConfig (ef_rateLimit e) (uo_BackendID ov) = (rc, rr, sc, sr)"
    and "k = (if uo_CostMultiplier ov = 0 then 1 else uo_CostMultiplier ov)"
    and "risk = (if uo_RiskCapacity ov = 0 then rc else uo_RiskCapacity ov)"
    and "res = (if uo_ResourceCapacity ov = 0 then sc else uo_ResourceCapacity ov)"
    and "int64 (risk * k)" and "int64 (res * k)"
  shows "risk * k \<le> rc \<and> res * k \<le> sc \<and>
    GetEffectiveBucketConfig (uo_UserID ov) (uo_BackendID ov) e' =
      (uo_RiskCapacity ov, 0, uo_ResourceCapacity ov, 0, uo_CostMultiplier ov)"
proof -
  have "\<not> (gomul risk k > rc \<or> gomul res k > sc)"
    using assms(1) unfolding SetUserRateLimitOverride_def assms(2-5)
    by (simp add: Let_def split: if_splits)
  moreover have "GetEffectiveBucketConfig (uo_UserID ov) (uo_BackendID ov) e' =
      (uo_RiskCapacity ov, 0, uo_ResourceCapacity ov, 0, uo_CostMultiplier ov)"
    using assms(1) unfolding SetUserRateLimitOverride_def assms(2)
    by (auto simp: Let_def GetEffectiveBucketConfig_def GetUserConfig_def SetUserConfig_def rl_lift_def
        Manager_SetUserConfig_def Manager_GetUserConfig_def userConfigKey_def gomap_simps split: if_splits sum.splits)
  ultimately show ?thesis using assms(6,7) by (simp add: gomul_exact)
qed

definition sample_limit :: "int \<Rightarrow> int \<Rightarrow> UserRateLimitOverrideRow" where
  "sample_limit cap m = \<lparr>uo_ID = ''1'', uo_UserID = ''bob'', uo_BackendID = ''slack'', uo_SetBy = ''user'',
     uo_RiskCapacity = cap, uo_ResourceCapacity = cap, uo_CostMultiplier = m, uo_CreatedAt = 1, uo_UpdatedAt = 1\<rparr>"

definition limit_enforcer :: "bool Enforcer" where
  "limit_enforcer = SetBackendRateLimit ''slack'' 100 20 200 40 (sample_enforcer NewCELEngine empty_db)"

lemma limit_enforcer_config: "GetDefaultConfig (ef_rateLimit limit_enforcer) ''slack'' = (100, 20, 200, 40)"
  by (simp add: limit_enforcer_def SetBackendRateLimit_def sample_enforcer_def SetDefaultConfig_def GetDefaultConfig_def
      rl_lift_def SetConfig_def GetConfig_def configKey_def gomap_simps NewRateLimitManager_def NewBucketManager_def)

lemma empty_user_overrides: "db_user_overrides empty_db = []"
  by (simp add: empty_db_def)

lemma limit_upsert_ok: "\<exists>db. ES_UpsertUserRateLimitOverride 1000 (sample_limit c m) (ef_store limit_enforcer) = Inr db"
  by (simp add: ES_UpsertUserRateLimitOverride_def sample_limit_def limit_enforcer_def SetBackendRateLimit_def
      sample_enforcer_def upsert_row_def insert_row_def empty_user_overrides)

theorem user_limit_ceiling_witness:
  "\<exists>e'. SetUserRateLimitOverride sample_env (sample_limit 20 4) limit_enforcer = (None, e') \<and>
     GetEffectiveBucketConfig ''bob'' ''slack'' e' = (20, 0, 20, 0, 4)"
proof -
  obtain e' where e': "SetUserRateLimitOverride sample_env (sample_limit 20 4) limit_enforcer = (None, e')"
    using limit_upsert_ok [of 20 4] limit_enforcer_config
    by (auto simp: SetUserRateLimitOverride_def sample_limit_def gomul_def wrap64_def sample_env_def Let_def)
  have c: "GetDefaultConfig (ef_rateLimit limit_enforcer) (uo_BackendID (sample_limit 20 4)) = (100, 20, 200, 40)"
    by (simp add: limit_enforcer_config sample_limit_def)
  from user_limit_ceiling [OF e' c refl refl refl] e' show ?thesis
    by (auto simp: sample_limit_def int64_def)
qed

text \<open>the ceiling test multiplies with wrap-around, so a limit with a capacity of \<open>2^40\<close> and a
  multiplier of \<open>2^24\<close> is accepted for a backend whose capacity is 100.\<close>

theorem user_limit_overflow:
  "fst (SetUserRateLimitOverride sample_env (sample_limit (2 ^ 40) (2 ^ 24)) limit_enforcer) = None"
  using limit_upsert_ok [of "2 ^ 40" "2 ^ 24"] limit_enforcer_config
  by (auto simp: SetUserRateLimitOverride_def sample_limit_def gomul_def wrap64_def sample_env_def Let_def)

section \<open>The life of an approval\<close>

text \<open>a request for approval is stored as pending in the queue asked for, with the caller's request
  body and a deadline of the queue's timeout, and it is found under the identifier returned. The match context
  is not stored.\<close>

theorem approval_request_stored:
  assumes "fault_free (ef_store e)" and "dc_UserID ctx \<in> us_ID ` set (db_users (ef_store e))"
    and "db_ids (ef_store e) (db_next (ef_store e)) \<notin> aq_ID ` set (db_approvals (ef_store e))"
  shows "\<exists>i e' r. RequestApproval env ctx pol msg queue mc e = (Inr i, e') \<and> GetApprovalRequest i e' = Inr r \<and>
    r = (approval_row env (ef_config e) i ctx pol msg queue mc)\<lparr>aq_MatchContext := []\<rparr> \<and>
    CheckApproval (env\<lparr>env_now := now\<rparr>) i e' =
      (False, if now > env_now env + approval_timeout (ef_config e) queue
              then Some (ErrNew ''approval request expired'') else None)"
proof -
  let ?i = "db_ids (ef_store e) (db_next (ef_store e))"
  let ?r = "(approval_row env (ef_config e) ?i ctx pol msg queue mc)\<lparr>aq_MatchContext := []\<rparr>"
  let ?db = "(ef_store e)\<lparr>db_next := Suc (db_next (ef_store e)), db_approvals := db_approvals (ef_store e) @ [?r]\<rparr>"
  have "RequestApproval env ctx pol msg queue mc e = (Inr ?i, e\<lparr>ef_store := ?db\<rparr>)"
    using assms by (simp add: RequestApproval_def generateID_def ES_CreateApprovalRequest_def insert_row_def approval_row_def)
  moreover have "filter (\<lambda>r. aq_ID r = ?i) (db_approvals (ef_store e)) = []"
    using assms(3) unfolding filter_empty_conv by (metis imageI)
  then have q: "ES_GetApprovalRequest ?i ?db = Inr ?r"
    using assms(1) by (simp add: ES_GetApprovalRequest_def query_row_def approval_row_def)
  then have "CheckApproval (env\<lparr>env_now := now\<rparr>) ?i (e\<lparr>ef_store := ?db\<rparr>) =
      (False, if now > env_now env + approval_timeout (ef_config e) queue
              then Some (ErrNew ''approval request expired'') else None)"
    by (simp add: CheckApproval_def approval_row_def)
  ultimately show ?thesis using q by (auto simp: GetApprovalRequest_def)
qed

definition approvals_enforcer :: "bool Enforcer" where
  "approvals_enforcer = (sample_enforcer NewCELEngine approvals_db)
     \<lparr>ef_executor := Some (\<lambda>u b body. if body = ''{call}'' then Inr (200, ''ok'') else Inl ''bad'')\<rparr>"

lemma approvals_db_sel:
  "fault_free approvals_db" "db_users approvals_db = [\<lparr>us_ID = ''bob'', us_Name = [], us_Email = ''b'', us_Password = [],
       us_PasswordSalt = [], us_Role = ''user'', us_CreatedAt = 0\<rparr>]"
  "db_approvals approvals_db = [sample_approval ''a1'' ''PENDING'' 150, sample_approval ''a2'' ''DENIED'' 999]"
  by (simp_all add: approvals_db_def)

theorem approval_request_stored_witness:
  "\<exists>i e' r. RequestApproval sample_env (zeroContext\<lparr>dc_UserID := ''bob'', dc_RequestBody := ''{call}''\<rparr>) [] [] ''user'' []
      approvals_enforcer = (Inr i, e') \<and> GetApprovalRequest i e' = Inr r \<and> aq_Status r = ''PENDING''"
proof -
  have "db_ids approvals_db (db_next approvals_db) \<notin> aq_ID ` set (db_approvals approvals_db)"
    by (auto simp: approvals_db_sel sample_approval_def) (simp_all add: approvals_db_def empty_db_def itoa_def digits_of.simps)
  with approval_request_stored [of approvals_enforcer "zeroContext\<lparr>dc_UserID := ''bob'', dc_RequestBody := ''{call}''\<rparr>"
      sample_env "[]" "[]" "''user''" "[]" 0]
  show ?thesis
    by (auto simp: approvals_enforcer_def sample_enforcer_def approvals_db_sel approval_row_def zeroContext_def)
qed

lemma get_after_update:
  assumes "fault_free db" and "unique_on aq_ID (db_approvals db)" and "ES_GetApprovalRequest i db = Inr r"
    and "\<And>x. aq_ID (f x) = aq_ID x"
  shows "ES_GetApprovalRequest i (set_approval i f db) = Inr (f r)" "fault_free (set_approval i f db)"
    "unique_on aq_ID (db_approvals (set_approval i f db))"
  using get_after_set_approval [of db i r f] assms
  by (auto simp: ES_GetApprovalRequest_def set_approval_def unique_on_update_where)

lemma execute_approved:
  assumes "fault_free (ef_store e)" and "unique_on aq_ID (db_approvals (ef_store e))"
    and "GetApprovalRequest i e = Inr r" and "ef_executor e = Some ex"
  shows "\<exists>r' e'. ExecuteApprovedRequest env i approver comments e = (Inr r', e') \<and> GetApprovalRequest i e' = Inr r' \<and>
    aq_ApprovedBy r' = Some approver \<and> aq_RequestBody r' = aq_RequestBody r \<and>
    ef_executed e' = ef_executed e @ [(aq_UserID r, aq_BackendID r, aq_RequestBody r)] \<and>
    (case ex (aq_UserID r) (aq_BackendID r) (aq_RequestBody r) of
       Inl msg \<Rightarrow> aq_Status r' = ''FAILED'' \<and> aq_ErrorMsg r' = msg
     | Inr (status, body) \<Rightarrow> aq_Status r' = ''COMPLETED'' \<and> aq_ResponseStatus r' = status \<and> aq_ResponseBody r' = body)"
proof -
  let ?fa = "\<lambda>r. r\<lparr>aq_Status := ''APPROVED'', aq_ApprovedBy := Some approver, aq_ApprovedAt := Some (env_now env),
    aq_Comments := comments\<rparr>"
  let ?fe = "\<lambda>r. r\<lparr>aq_Status := ''EXECUTING''\<rparr>"
  define db1 where "db1 = set_approval i ?fa (ef_store e)"
  define db2 where "db2 = set_approval i ?fe db1"
  have g0: "ES_GetApprovalRequest i (ef_store e) = Inr r" using assms(3) by (simp add: GetApprovalRequest_def)
  have g1: "ES_GetApprovalRequest i db1 = Inr (?fa r)" "fault_free db1" "unique_on aq_ID (db_approvals db1)"
    unfolding db1_def by (rule get_after_update [OF assms(1,2) g0]; simp)+
  have g2: "ES_GetApprovalRequest i db2 = Inr (?fe (?fa r))" "fault_free db2" "unique_on aq_ID (db_approvals db2)"
    unfolding db2_def by (rule get_after_update [OF g1(2,3,1)]; simp)+
  have run: "ExecuteApprovedRequest env i approver comments e =
      run_approved (env_now env) ex i (?fa r) (e\<lparr>ef_store := db1\<rparr>)"
    using assms(1,4) g1 by (simp add: ExecuteApprovedRequest_def ES_ApproveRequest_def db1_def)
  have exec: "ES_MarkExecuting i db1 = Inr db2" using g1(2) by (simp add: ES_MarkExecuting_def db2_def)
  show ?thesis
  proof (cases "ex (aq_UserID r) (aq_BackendID r) (aq_RequestBody r)")
    case (Inl msg)
    let ?f = "\<lambda>r. r\<lparr>aq_Status := ''FAILED'', aq_ErrorMsg := msg, aq_ExecutedAt := Some (env_now env)\<rparr>"
    have "ES_GetApprovalRequest i (set_approval i ?f db2) = Inr (?f (?fe (?fa r)))"
      by (rule get_after_update [OF g2(2,3,1)]) simp
    with Inl exec g2 show ?thesis unfolding run
      by (simp add: run_approved_def call_executor_def record_outcome_def ES_MarkFailed_def GetApprovalRequest_def)
  next
    case (Inr o')
    let ?f = "\<lambda>r. r\<lparr>aq_Status := ''COMPLETED'', aq_ResponseStatus := fst o', aq_ResponseBody := snd o',
      aq_ExecutedAt := Some (env_now env)\<rparr>"
    have "ES_GetApprovalRequest i (set_approval i ?f db2) = Inr (?f (?fe (?fa r)))"
      by (rule get_after_update [OF g2(2,3,1)]) simp
    with Inr exec g2 show ?thesis unfolding run
      by (simp add: run_approved_def call_executor_def record_outcome_def ES_MarkCompleted_def GetApprovalRequest_def split_beta)
  qed
qed

text \<open>C6: on a database whose statements succeed and whose requests have distinct identifiers, and with an executor set, approving a request calls the executor
  exactly once, with the stored body, the user who made it and its backend, and ends it as completed or failed after the executor's answer. The request's status is not looked at: a request
  that was denied, has expired or was already executed is run all the same.\<close>

theorem approved_request_runs:
  assumes "fault_free (ef_store e)" and "unique_on aq_ID (db_approvals (ef_store e))"
    and "GetApprovalRequest i e = Inr r" and "ef_executor e = Some ex"
  shows "\<exists>r' e'. ExecuteApprovedRequest env i approver comments e = (Inr r', e') \<and> GetApprovalRequest i e' = Inr r' \<and>
    aq_ApprovedBy r' = Some approver \<and> aq_RequestBody r' = aq_RequestBody r \<and>
    ef_executed e' = ef_executed e @ [(aq_UserID r, aq_BackendID r, aq_RequestBody r)] \<and>
    (case ex (aq_UserID r) (aq_BackendID r) (aq_RequestBody r) of
       Inl msg \<Rightarrow> aq_Status r' = ''FAILED'' \<and> aq_ErrorMsg r' = msg
     | Inr (status, body) \<Rightarrow> aq_Status r' = ''COMPLETED'' \<and> aq_ResponseStatus r' = status \<and> aq_ResponseBody r' = body)"
  by (rule execute_approved [OF assms])

theorem approved_request_runs_witness:
  "\<exists>r' e'. GetApprovalRequest ''a2'' approvals_enforcer = Inr (sample_approval ''a2'' ''DENIED'' 999) \<and>
     ExecuteApprovedRequest sample_env ''a2'' ''root'' [] approvals_enforcer = (Inr r', e') \<and> aq_Status r' = ''COMPLETED''"
proof -
  have get: "GetApprovalRequest ''a2'' approvals_enforcer = Inr (sample_approval ''a2'' ''DENIED'' 999)"
    by (simp add: GetApprovalRequest_def ES_GetApprovalRequest_def query_row_def approvals_enforcer_def
        sample_enforcer_def approvals_db_sel) (simp add: sample_approval_def)
  have "unique_on aq_ID (db_approvals (ef_store approvals_enforcer))" and "fault_free (ef_store approvals_enforcer)"
    by (simp_all add: approvals_enforcer_def sample_enforcer_def approvals_db_sel unique_on_def sample_approval_def)
  from approved_request_runs [OF this(2,1) get, of _ sample_env "''root''" "[]"] get show ?thesis
    by (fastforce simp: approvals_enforcer_def sample_approval_def)
qed

end
