(* ===== verification/BackendStore.thy ===== *)
theory BackendStore
  imports AccountStore
begin

text \<open>
  Backends in the database (src/store/backend.go and src/store/backend_status.go): their configuration with the
  encrypted environment, the cached tool lists, settings, availability with its retry back-off, and the tool profiles
  as the main store accesses them. JSON coding of the tool list is the pair of parameters \<open>marshal\<close> and
  \<open>unmarshal\<close>. Booleans are stored as 0 and 1 and read back with \<open>!= 0\<close>, so they are booleans here.
\<close>

section \<open>Backends\<close>

definition encryptBackendEnv ::
    "crypto_lib \<Rightarrow> opsys \<Rightarrow> rng \<Rightarrow> Backend \<Rightarrow> KeyStore option \<Rightarrow> (goerr + Backend) \<times> KeyStore option" where
  "encryptBackendEnv lib sys rng b ks =
     (if be_Env b = [] \<or> be_Env b = ''{}'' then (Inr b, ks)
      else case ks of
             None \<Rightarrow> (Inl (ErrNew ''no keystore configured for env encryption''), None)
           | Some k \<Rightarrow>
               (case EncryptSecret lib sys rng (be_Env b) k of
                  (Inl err, k) \<Rightarrow> (Inl (ErrWrap ''encrypt backend env'' err), Some k)
                | (Inr encrypted, k) \<Rightarrow> (Inr (b\<lparr>be_EncryptedEnv := encrypted, be_Env := ''{}''\<rparr>), Some k)))"

definition decryptBackendEnv ::
    "crypto_lib \<Rightarrow> opsys \<Rightarrow> Backend \<Rightarrow> KeyStore option \<Rightarrow> Backend \<times> KeyStore option" where
  "decryptBackendEnv lib sys b ks =
     (case ks of
        None \<Rightarrow> (b, None)
      | Some k \<Rightarrow>
          if be_EncryptedEnv b = [] then (b, ks)
          else case DecryptSecret lib sys (be_EncryptedEnv b) k of
                 (Inl _, k) \<Rightarrow> (b, Some k)
               | (Inr decrypted, k) \<Rightarrow> (b\<lparr>be_Env := decrypted\<rparr>, Some k))"

text \<open>The loop of \<open>MigrateAdminEnv\<close>; a nil key store is dereferenced at the first row, a panic (\<open>None\<close>).\<close>

fun migrate_envs ::
    "crypto_lib \<Rightarrow> opsys \<Rightarrow> rng \<Rightarrow> Backend list \<Rightarrow> int \<Rightarrow> Store \<Rightarrow> ((int \<times> goerr option) \<times> Store) option" where
  "migrate_envs lib sys rng [] n s = Some ((n, None), s)"
| "migrate_envs lib sys rng (b # bs) n s =
     (case st_keyStore s of
        None \<Rightarrow> None
      | Some ks \<Rightarrow>
          (case EncryptSecret lib sys rng (be_Env b) ks of
             (Inl err, ks) \<Rightarrow> Some ((n, Some err), s\<lparr>st_keyStore := Some ks\<rparr>)
           | (Inr encrypted, ks) \<Rightarrow>
               (case stmt ''MigrateAdminEnv.update'' (st_db s)
                   (Inr ((st_db s)\<lparr>db_backends := update_where (\<lambda>x. be_ID x = be_ID b)
                      (\<lambda>x. x\<lparr>be_EncryptedEnv := encrypted, be_Env := ''{}''\<rparr>) (db_backends (st_db s))\<rparr>)) of
                  Inl err \<Rightarrow> Some ((n, Some err), s\<lparr>st_keyStore := Some ks\<rparr>)
                | Inr db \<Rightarrow> migrate_envs lib sys (skip_rng 3 rng) bs (n + 1) (s\<lparr>st_db := db, st_keyStore := Some ks\<rparr>))))"

definition Store_MigrateAdminEnv ::
    "crypto_lib \<Rightarrow> opsys \<Rightarrow> rng \<Rightarrow> Store \<Rightarrow> ((int \<times> goerr option) \<times> Store) option" where
  "Store_MigrateAdminEnv lib sys rng s =
     (case stmt ''MigrateAdminEnv'' (st_db s)
         (Inr (filter (\<lambda>b. be_EncryptedEnv b = [] \<and> be_Env b \<noteq> ''{}'') (db_backends (st_db s)))) of
        Inl err \<Rightarrow> Some ((0, Some err), s)
      | Inr rows \<Rightarrow> migrate_envs lib sys rng rows 0 s)"

text \<open>\<open>SUM\<close> over no rows is NULL, which does not scan into an int.\<close>

definition Store_VerifyAdminEnvEncryption :: "db \<Rightarrow> goerr + int \<times> int" where
  "Store_VerifyAdminEnvEncryption db = stmt ''VerifyAdminEnvEncryption'' db
     (if db_backends db = [] then Inl (ErrNew ''converting NULL to int is unsupported'')
      else let total = int (length (db_backends db));
               encrypted = count_rows (\<lambda>b. be_EncryptedEnv b \<noteq> []) (db_backends db)
           in Inr (encrypted, total - encrypted))"

definition with_backend_defaults :: "Backend \<Rightarrow> Backend" where
  "with_backend_defaults b =
     (let b = (if be_EnvMappings b = [] then b\<lparr>be_EnvMappings := ''{}''\<rparr> else b)
      in if be_MinPoolSize b = 0 then b\<lparr>be_MinPoolSize := 1\<rparr> else b)"

definition Store_CreateBackend ::
    "crypto_lib \<Rightarrow> opsys \<Rightarrow> rng \<Rightarrow> Backend \<Rightarrow> Store \<Rightarrow> goerr option \<times> Store" where
  "Store_CreateBackend lib sys rng b s =
     (let b = with_backend_defaults b;
          b = (if be_StdioFraming b = [] then b\<lparr>be_StdioFraming := ''newline''\<rparr> else b)
      in case encryptBackendEnv lib sys rng b (st_keyStore s) of
           (Inl err, ks) \<Rightarrow> (Some err, s\<lparr>st_keyStore := ks\<rparr>)
         | (Inr b, ks) \<Rightarrow>
             (let s = s\<lparr>st_keyStore := ks\<rparr>; db = st_db s
              in case stmt ''CreateBackend'' db
                     (insert_row be_ID (b\<lparr>be_PrecacheError := [], be_PrecacheErrorAt := None\<rparr>) (db_backends db)) of
                   Inl err \<Rightarrow> (Some err, s)
                 | Inr t \<Rightarrow> (None, s\<lparr>st_db := db\<lparr>db_backends := t\<rparr>\<rparr>)))"

definition Store_GetBackend ::
    "crypto_lib \<Rightarrow> opsys \<Rightarrow> string \<Rightarrow> Store \<Rightarrow> (goerr + Backend) \<times> Store" where
  "Store_GetBackend lib sys i s =
     (case stmt ''GetBackend'' (st_db s) (query_row (\<lambda>b. be_ID b = i) (db_backends (st_db s))) of
        Inl err \<Rightarrow> (Inl err, s)
      | Inr b \<Rightarrow> (let (b, ks) = decryptBackendEnv lib sys b (st_keyStore s) in (Inr b, s\<lparr>st_keyStore := ks\<rparr>)))"

fun decrypt_backends ::
    "crypto_lib \<Rightarrow> opsys \<Rightarrow> Backend list \<Rightarrow> KeyStore option \<Rightarrow> Backend list \<times> KeyStore option" where
  "decrypt_backends lib sys [] ks = ([], ks)"
| "decrypt_backends lib sys (b # bs) ks =
     (let b = (if be_MinPoolSize b = 0 then b\<lparr>be_MinPoolSize := 1\<rparr> else b);
          (b, ks) = decryptBackendEnv lib sys b ks;
          (bs, ks) = decrypt_backends lib sys bs ks
      in (b # bs, ks))"

definition Store_ListBackends ::
    "crypto_lib \<Rightarrow> opsys \<Rightarrow> Store \<Rightarrow> (goerr + Backend list) \<times> Store" where
  "Store_ListBackends lib sys s =
     (case stmt ''ListBackends'' (st_db s) (Inr (order_by be_ID (db_backends (st_db s)))) of
        Inl err \<Rightarrow> (Inl err, s)
      | Inr rows \<Rightarrow>
          (let (bs, ks) = decrypt_backends lib sys rows (st_keyStore s) in (Inr bs, s\<lparr>st_keyStore := ks\<rparr>)))"

definition Store_UpdateBackend ::
    "crypto_lib \<Rightarrow> opsys \<Rightarrow> rng \<Rightarrow> Backend \<Rightarrow> Store \<Rightarrow> goerr option \<times> Store" where
  "Store_UpdateBackend lib sys rng b s =
     (case encryptBackendEnv lib sys rng (with_backend_defaults b) (st_keyStore s) of
        (Inl err, ks) \<Rightarrow> (Some err, s\<lparr>st_keyStore := ks\<rparr>)
      | (Inr b, ks) \<Rightarrow>
          (let s = s\<lparr>st_keyStore := ks\<rparr>; db = st_db s
           in case stmt ''UpdateBackend'' db
                  (Inr (db\<lparr>db_backends := update_where (\<lambda>x. be_ID x = be_ID b)
                     (\<lambda>x. b\<lparr>be_ID := be_ID x, be_PrecacheError := be_PrecacheError x,
                        be_PrecacheErrorAt := be_PrecacheErrorAt x\<rparr>) (db_backends db)\<rparr>)) of
                Inl err \<Rightarrow> (Some err, s)
              | Inr db \<Rightarrow> (None, s\<lparr>st_db := db\<rparr>)))"

text \<open>\<open>DELETE FROM backends\<close> cascades to the tables that reference a backend.\<close>

definition cascade_backend :: "string \<Rightarrow> core_tables \<Rightarrow> core_tables" where
  "cascade_backend i c = c\<lparr>ct_user_tokens := delete_where (\<lambda>t. ut_BackendID t = i) (ct_user_tokens c),
     ct_capabilities := delete_where (\<lambda>t. cr_BackendID t = i) (ct_capabilities c),
     ct_backend_status := delete_where (\<lambda>t. bt_BackendID t = i) (ct_backend_status c)\<rparr>"

definition Store_DeleteBackend :: "string \<Rightarrow> db \<Rightarrow> goerr + db" where
  "Store_DeleteBackend i db = stmt ''DeleteBackend'' db
     (Inr (core_upd (cascade_backend i) (db\<lparr>db_backends := delete_where (\<lambda>b. be_ID b = i) (db_backends db),
        db_bucket_configs := delete_where (\<lambda>c. rc_BackendID c = i) (db_bucket_configs db),
        db_rate_states := delete_where (\<lambda>s. rs_BackendID s = i) (db_rate_states db)\<rparr>)))"

section \<open>Cached capabilities and settings\<close>

record BackendCapabilities =
  bp_BackendID :: string
  bp_Tools :: "json list"
  bp_ToolCount :: int
  bp_UpdatedAt :: gotime

definition capabilities_merge :: "CapabilitiesRow \<Rightarrow> CapabilitiesRow \<Rightarrow> CapabilitiesRow" where
  "capabilities_merge new old = old\<lparr>cr_Tools := cr_Tools new, cr_ToolCount := cr_ToolCount new, cr_UpdatedAt := cr_UpdatedAt new\<rparr>"

definition Store_SetBackendCapabilities ::
    "gotime \<Rightarrow> (json list \<Rightarrow> goerr + string) \<Rightarrow> string \<Rightarrow> json list \<Rightarrow> db \<Rightarrow> goerr + db" where
  "Store_SetBackendCapabilities now marshal backendID tools db =
     (case marshal tools of
        Inl err \<Rightarrow> Inl err
      | Inr toolsJSON \<Rightarrow> stmt ''SetBackendCapabilities'' db
          (if \<not> has_backend db backendID then Inl fk_failed
           else case upsert_row cr_BackendID cr_BackendID capabilities_merge
               \<lparr>cr_BackendID = backendID, cr_Tools = toolsJSON, cr_ToolCount = int (length tools), cr_UpdatedAt = now\<rparr>
               (ct_capabilities (db_core db)) of
             Inl err \<Rightarrow> Inl err
           | Inr t \<Rightarrow> Inr (core_upd (\<lambda>c. c\<lparr>ct_capabilities := t\<rparr>) db)))"

definition capabilities_of_row ::
    "(string \<Rightarrow> goerr + json list) \<Rightarrow> CapabilitiesRow \<Rightarrow> goerr + BackendCapabilities" where
  "capabilities_of_row unmarshal r =
     (case unmarshal (cr_Tools r) of
        Inl err \<Rightarrow> Inl err
      | Inr tools \<Rightarrow> Inr \<lparr>bp_BackendID = cr_BackendID r, bp_Tools = tools, bp_ToolCount = cr_ToolCount r,
          bp_UpdatedAt = cr_UpdatedAt r\<rparr>)"

definition Store_GetBackendCapabilities ::
    "(string \<Rightarrow> goerr + json list) \<Rightarrow> string \<Rightarrow> db \<Rightarrow> goerr + BackendCapabilities" where
  "Store_GetBackendCapabilities unmarshal backendID db =
     (case stmt ''GetBackendCapabilities'' db
         (query_row (\<lambda>r. cr_BackendID r = backendID) (ct_capabilities (db_core db))) of
        Inl err \<Rightarrow> Inl err | Inr r \<Rightarrow> capabilities_of_row unmarshal r)"

fun all_capabilities ::
    "(string \<Rightarrow> goerr + json list) \<Rightarrow> CapabilitiesRow list \<Rightarrow> (string, BackendCapabilities) gomap \<Rightarrow>
     goerr + (string, BackendCapabilities) gomap" where
  "all_capabilities unmarshal [] m = Inr m"
| "all_capabilities unmarshal (r # rs) m =
     (case capabilities_of_row unmarshal r of
        Inl err \<Rightarrow> Inl err
      | Inr c \<Rightarrow> all_capabilities unmarshal rs (AList.update (bp_BackendID c) c m))"

definition Store_GetAllBackendCapabilities ::
    "(string \<Rightarrow> goerr + json list) \<Rightarrow> db \<Rightarrow> goerr + (string, BackendCapabilities) gomap" where
  "Store_GetAllBackendCapabilities unmarshal db =
     (case stmt ''GetAllBackendCapabilities'' db (Inr (ct_capabilities (db_core db))) of
        Inl err \<Rightarrow> Inl err | Inr rows \<Rightarrow> all_capabilities unmarshal rows [])"

definition Store_DeleteBackendCapabilities :: "string \<Rightarrow> db \<Rightarrow> goerr + db" where
  "Store_DeleteBackendCapabilities backendID db = stmt ''DeleteBackendCapabilities'' db
     (Inr (core_upd (\<lambda>c. c\<lparr>ct_capabilities := delete_where (\<lambda>r. cr_BackendID r = backendID) (ct_capabilities c)\<rparr>) db))"

text \<open>\<open>MigrateDefaultBackend\<close> runs with foreign keys off, so neither update is checked against or cascades to
  other tables.\<close>

definition rename_token :: "UserToken \<Rightarrow> UserToken" where
  "rename_token t = (if ut_BackendID t = ''default'' then t\<lparr>ut_BackendID := ''mcpbridge''\<rparr> else t)"

definition rename_backend :: "Backend \<Rightarrow> Backend" where
  "rename_backend b = (if be_ID b = ''default'' then b\<lparr>be_ID := ''mcpbridge'', be_IsSystem := True\<rparr> else b)"

definition Store_MigrateDefaultBackend :: "db \<Rightarrow> goerr option \<times> db" where
  "Store_MigrateDefaultBackend db =
     (case stmt ''MigrateDefaultBackend'' db (Inr (count_rows (\<lambda>b. be_ID b = ''default'') (db_backends db))) of
        Inl err \<Rightarrow> (Some err, db)
      | Inr n \<Rightarrow>
          if n = 0 then (None, db)
          else case stmt ''MigrateDefaultBackend.pragma'' db (Inr ()) of
            Inl err \<Rightarrow> (Some err, db)
          | Inr _ \<Rightarrow>
              (let tokens = map rename_token (ct_user_tokens (db_core db))
               in case stmt ''MigrateDefaultBackend.tokens'' db
                      (if distinct (map token_key tokens) then Inr (core_upd (\<lambda>c. c\<lparr>ct_user_tokens := tokens\<rparr>) db)
                       else Inl unique_failed) of
                    Inl err \<Rightarrow> (Some err, db)
                  | Inr db \<Rightarrow>
                      (let backends = map rename_backend (db_backends db)
                       in case stmt ''MigrateDefaultBackend.backends'' db
                              (if distinct (map be_ID backends) then Inr (db\<lparr>db_backends := backends\<rparr>)
                               else Inl unique_failed) of
                            Inl err \<Rightarrow> (Some err, db)
                          | Inr db \<Rightarrow> (None, db))))"

definition Store_GetSetting :: "string \<Rightarrow> db \<Rightarrow> goerr + string" where
  "Store_GetSetting key db = stmt ''GetSetting'' db
     (Inr (case map_of (ct_settings (db_core db)) key of None \<Rightarrow> [] | Some v \<Rightarrow> v))"

definition Store_SetSetting :: "string \<Rightarrow> string \<Rightarrow> db \<Rightarrow> goerr + db" where
  "Store_SetSetting key val db = stmt ''SetSetting'' db
     (Inr (core_upd (\<lambda>c. c\<lparr>ct_settings := AList.update key val (ct_settings c)\<rparr>) db))"

section \<open>Tool profiles through the main store\<close>

definition Store_UpsertToolProfile :: "ToolProfileRow \<Rightarrow> db \<Rightarrow> goerr + db" where
  "Store_UpsertToolProfile profile db = stmt ''Store.UpsertToolProfile'' db
     (case upsert_row tp_ID profile_key profile_merge profile (db_tool_profiles db) of
        Inl err \<Rightarrow> Inl err | Inr t \<Rightarrow> Inr (db\<lparr>db_tool_profiles := t\<rparr>))"

definition Store_GetToolProfile :: "string \<Rightarrow> string \<Rightarrow> db \<Rightarrow> goerr + ToolProfileRow" where
  "Store_GetToolProfile backendID toolName db = stmt ''Store.GetToolProfile'' db
     (query_row (\<lambda>p. profile_key p = (backendID, toolName)) (db_tool_profiles db))"

definition Store_ListToolProfilesByBackend :: "string \<Rightarrow> db \<Rightarrow> goerr + ToolProfileRow list" where
  "Store_ListToolProfilesByBackend backendID db = stmt ''ListToolProfilesByBackend'' db
     (Inr (order_by tp_ToolName (filter (\<lambda>p. tp_BackendID p = backendID) (db_tool_profiles db))))"

definition Store_ListAllToolProfiles :: "db \<Rightarrow> goerr + ToolProfileRow list" where
  "Store_ListAllToolProfiles db = stmt ''Store.ListAllToolProfiles'' db (Inr (order_by profile_key (db_tool_profiles db)))"

definition Store_DeleteToolProfilesByBackend :: "string \<Rightarrow> db \<Rightarrow> goerr + db" where
  "Store_DeleteToolProfilesByBackend backendID db = stmt ''DeleteToolProfilesByBackend'' db
     (Inr (db\<lparr>db_tool_profiles := delete_where (\<lambda>p. tp_BackendID p = backendID) (db_tool_profiles db)\<rparr>))"

record BackendProfileSummary =
  ps_BackendID :: string
  ps_ToolCount :: int
  ps_HighRiskCount :: int
  ps_MediumRiskCount :: int
  ps_LowRiskCount :: int

definition summarise_backend :: "ToolProfileRow list \<Rightarrow> string \<Rightarrow> BackendProfileSummary" where
  "summarise_backend rows b =
     (let mine = filter (\<lambda>p. tp_BackendID p = b) rows
      in \<lparr>ps_BackendID = b, ps_ToolCount = int (length mine),
          ps_HighRiskCount = count_rows (\<lambda>p. tp_RiskLevel p = ''high'' \<or> tp_RiskLevel p = ''critical'') mine,
          ps_MediumRiskCount = count_rows (\<lambda>p. tp_RiskLevel p = ''medium'') mine,
          ps_LowRiskCount = count_rows (\<lambda>p. tp_RiskLevel p = ''low'') mine\<rparr>)"

definition Store_ListBackendProfileSummaries :: "db \<Rightarrow> goerr + BackendProfileSummary list" where
  "Store_ListBackendProfileSummaries db = stmt ''ListBackendProfileSummaries'' db
     (Inr (map (summarise_backend (db_tool_profiles db)) (order_by (\<lambda>b. b) (remdups (map tp_BackendID (db_tool_profiles db))))))"

definition Store_GetToolProfilesByBackend :: "string \<Rightarrow> db \<Rightarrow> goerr + ToolProfileRow list" where
  "Store_GetToolProfilesByBackend backendID db = stmt ''GetToolProfilesByBackend'' db
     (Inr (order_by tp_ToolName (filter (\<lambda>p. tp_BackendID p = backendID) (db_tool_profiles db))))"

section \<open>Availability\<close>

definition status_merge :: "BackendStatus \<Rightarrow> BackendStatus \<Rightarrow> BackendStatus" where
  "status_merge new old = new\<lparr>bt_BackendID := bt_BackendID old\<rparr>"

definition put_status ::
    "string \<Rightarrow> (BackendStatus \<Rightarrow> BackendStatus \<Rightarrow> BackendStatus) \<Rightarrow> BackendStatus \<Rightarrow> db \<Rightarrow> goerr + db" where
  "put_status op merge bs db = stmt op db
     (if \<not> has_backend db (bt_BackendID bs) then Inl fk_failed
      else case upsert_row bt_BackendID bt_BackendID merge bs (ct_backend_status (db_core db)) of
             Inl err \<Rightarrow> Inl err
           | Inr t \<Rightarrow> Inr (core_upd (\<lambda>c. c\<lparr>ct_backend_status := t\<rparr>) db))"

definition Store_ListBackendStatuses :: "db \<Rightarrow> goerr + BackendStatus list" where
  "Store_ListBackendStatuses db = stmt ''ListBackendStatuses'' db
     (Inr (order_by bt_BackendID (ct_backend_status (db_core db))))"

definition Store_GetBackendStatus :: "string \<Rightarrow> db \<Rightarrow> goerr + BackendStatus" where
  "Store_GetBackendStatus backendID db = stmt ''GetBackendStatus'' db
     (query_row (\<lambda>s. bt_BackendID s = backendID) (ct_backend_status (db_core db)))"

definition Store_UpdateBackendStatus :: "gotime \<Rightarrow> BackendStatus \<Rightarrow> db \<Rightarrow> goerr + db" where
  "Store_UpdateBackendStatus now bs db = put_status ''UpdateBackendStatus'' status_merge (bs\<lparr>bt_UpdatedAt := now\<rparr>) db"

definition Store_SetBackendPrecacheError :: "gotime \<Rightarrow> string \<Rightarrow> string \<Rightarrow> db \<Rightarrow> goerr + db" where
  "Store_SetBackendPrecacheError now backendID message db = stmt ''SetBackendPrecacheError'' db
     (Inr (db\<lparr>db_backends := update_where (\<lambda>b. be_ID b = backendID)
        (\<lambda>b. b\<lparr>be_PrecacheError := message, be_PrecacheErrorAt := Some now\<rparr>) (db_backends db)\<rparr>))"

definition available_merge :: "BackendStatus \<Rightarrow> BackendStatus \<Rightarrow> BackendStatus" where
  "available_merge new old = old\<lparr>bt_Status := ''available'', bt_LastSuccess := bt_LastSuccess new, bt_RetryCount := 0,
     bt_UpdatedAt := bt_UpdatedAt new\<rparr>"

definition Store_SetBackendAvailable :: "gotime \<Rightarrow> string \<Rightarrow> db \<Rightarrow> goerr option \<times> db" where
  "Store_SetBackendAvailable now backendID db =
     (case put_status ''SetBackendAvailable'' available_merge
         \<lparr>bt_BackendID = backendID, bt_Status = ''available'', bt_LastAttempt = None, bt_LastSuccess = Some now,
          bt_RetryCount = 0, bt_NextRetry = None, bt_ErrorMessage = [], bt_UpdatedAt = now\<rparr> db of
        Inl err \<Rightarrow> (Some err, db)
      | Inr db \<Rightarrow>
          (case stmt ''SetBackendAvailable.clear'' db
              (Inr (db\<lparr>db_backends := update_where (\<lambda>b. be_ID b = backendID)
                 (\<lambda>b. b\<lparr>be_PrecacheError := [], be_PrecacheErrorAt := None\<rparr>) (db_backends db)\<rparr>)) of
             Inl err \<Rightarrow> (Some err, db)
           | Inr db \<Rightarrow> (None, db)))"

text \<open>\<open>1 << retryCount\<close> on a 64-bit int: the bit falls off the end, and a negative count panics (\<open>None\<close>).\<close>

definition shift_one :: "int \<Rightarrow> int option" where
  "shift_one n = (if n < 0 then None else Some (wrap64 (2 ^ nat n)))"

definition backoffSeconds :: "int \<Rightarrow> int option" where
  "backoffSeconds retryCount = map_option (\<lambda>b. if b > 1800 then 1800 else b) (shift_one retryCount)"

definition unavailable_merge :: "BackendStatus \<Rightarrow> BackendStatus \<Rightarrow> BackendStatus" where
  "unavailable_merge new old = old\<lparr>bt_Status := ''unavailable'', bt_LastAttempt := bt_LastAttempt new,
     bt_RetryCount := bt_RetryCount new, bt_NextRetry := bt_NextRetry new, bt_ErrorMessage := bt_ErrorMessage new,
     bt_UpdatedAt := bt_UpdatedAt new\<rparr>"

definition retry_count_of :: "string \<Rightarrow> db \<Rightarrow> int" where
  "retry_count_of backendID db =
     (case stmt ''SetBackendUnavailable.count'' db
         (query_row (\<lambda>s. bt_BackendID s = backendID) (ct_backend_status (db_core db))) of
        Inl _ \<Rightarrow> 0 | Inr s \<Rightarrow> bt_RetryCount s)"

definition Store_SetBackendUnavailable :: "gotime \<Rightarrow> string \<Rightarrow> string \<Rightarrow> db \<Rightarrow> (goerr + db) option" where
  "Store_SetBackendUnavailable now backendID errMsg db =
     (let retryCount = retry_count_of backendID db
      in case backoffSeconds retryCount of
           None \<Rightarrow> None
         | Some backoff \<Rightarrow>
             Some (put_status ''SetBackendUnavailable'' unavailable_merge
               \<lparr>bt_BackendID = backendID, bt_Status = ''unavailable'', bt_LastAttempt = Some now, bt_LastSuccess = None,
                bt_RetryCount = goadd retryCount 1, bt_NextRetry = Some (now + gomul backoff 1000000000),
                bt_ErrorMessage = errMsg, bt_UpdatedAt = now\<rparr> db))"

definition Store_GetBackendsNeedingRetry :: "gotime \<Rightarrow> db \<Rightarrow> goerr + string list" where
  "Store_GetBackendsNeedingRetry now db = stmt ''GetBackendsNeedingRetry'' db
     (Inr (map bt_BackendID (order_by bt_RetryCount (filter (\<lambda>s. bt_Status s = ''unavailable'' \<and>
        (case bt_NextRetry s of None \<Rightarrow> True | Some t \<Rightarrow> t \<le> now)) (ct_backend_status (db_core db))))))"

definition Store_GetUncachedBackends :: "db \<Rightarrow> goerr + string list" where
  "Store_GetUncachedBackends db = stmt ''GetUncachedBackends'' db
     (Inr (order_by (\<lambda>i. i) (map be_ID (filter (\<lambda>b. be_Enabled b \<and> be_ID b \<notin> cr_BackendID ` set (ct_capabilities (db_core db)))
        (db_backends db)))))"

end
