(* ===== verification/CoreStore.thy ===== *)
theory CoreStore
  imports BackendStore
begin

text \<open>
  The database as a whole: every write of the three store theories keeps primary keys, unique keys and foreign keys,
  deleting a user or a backend leaves nothing behind that refers to it, and what the token and retry operations
  compute.
\<close>

section \<open>The invariant\<close>

text \<open>\<open>fk_ok f t S\<close>: every row of \<open>t\<close> refers by \<open>f\<close> to something in \<open>S\<close>.\<close>

definition fk_ok :: "('r \<Rightarrow> 'i) \<Rightarrow> 'r list \<Rightarrow> 'i set \<Rightarrow> bool" where
  "fk_ok f t S \<longleftrightarrow> f ` set t \<subseteq> S"

named_theorems table_rules \<open>how a statement keeps unique and foreign keys\<close>

lemma fk_ok_Nil [simp]: "fk_ok f [] S"
  by (simp add: fk_ok_def)

lemma fk_ok_snoc [simp]: "fk_ok f (t @ [r]) S \<longleftrightarrow> fk_ok f t S \<and> f r \<in> S"
  by (auto simp: fk_ok_def)

lemma fk_ok_delete [table_rules]: "fk_ok f t S \<Longrightarrow> fk_ok f (delete_where P t) S"
  by (auto simp: fk_ok_def)

lemma fk_ok_delete_refs [table_rules]: "fk_ok f t S \<Longrightarrow> fk_ok f (delete_where (\<lambda>x. f x = i) t) (S - {i})"
  by (auto simp: fk_ok_def)

lemma image_update_where: "(\<And>x. P x \<Longrightarrow> f (g x) = f x) \<Longrightarrow> f ` set (update_where P g t) = f ` set t"
  unfolding update_where_def set_map image_image by (rule image_cong) simp_all

lemma update_where_none: "\<forall>x \<in> set t. \<not> P x \<Longrightarrow> update_where P g t = t"
  by (induction t) (simp_all add: update_where_def)

lemma fk_ok_update: "(\<And>x. f (g x) = f x) \<Longrightarrow> fk_ok f (update_where P g t) S = fk_ok f t S"
  by (simp add: fk_ok_def image_update_where)

lemma fk_ok_replace [table_rules]: "fk_ok f t S \<Longrightarrow> f r \<in> S \<Longrightarrow> fk_ok f (replace_row pk key r t) S"
  by (auto simp: fk_ok_def replace_row_def)

lemma fk_ok_insert: "insert_row pk r t = Inr t' \<Longrightarrow> fk_ok f t S \<Longrightarrow> f r \<in> S \<Longrightarrow> fk_ok f t' S"
  using insert_row_InrD [of pk r t t'] by simp

lemma fk_ok_upsert:
  assumes "upsert_row pk key merge r t = Inr t'" and "fk_ok f t S" and "f r \<in> S" and "\<And>x. f (merge r x) = f x"
  shows "fk_ok f t' S"
  unfolding fk_ok_def
proof
  fix i
  assume "i \<in> f ` set t'"
  then obtain s where "s \<in> set t'" and "i = f s" by blast
  with upsert_rows [OF assms(1), of s] assms(2-4) show "i \<in> S" by (auto simp: fk_ok_def)
qed

lemma image_delete_where: "f ` set (delete_where (\<lambda>x. f x = i) t) = f ` set t - {i}"
  by auto

definition user_ids :: "db \<Rightarrow> string set" where "user_ids db = us_ID ` set (db_users db)"
definition backend_ids :: "db \<Rightarrow> string set" where "backend_ids db = be_ID ` set (db_backends db)"

definition keys_ok :: "core_tables \<Rightarrow> bool" where
  "keys_ok c \<longleftrightarrow> unique_on token_key (ct_user_tokens c) \<and> unique_on cr_BackendID (ct_capabilities c) \<and>
     gomap_wf (ct_settings c) \<and> unique_on bt_BackendID (ct_backend_status c) \<and>
     unique_on oc_ClientID (ct_oauth_clients c) \<and> unique_on od_Code (ct_oauth_codes c) \<and>
     unique_on on_AccessToken (ct_oauth_sessions c) \<and> unique_on ws_Token (ct_web_sessions c) \<and>
     unique_on ak_ID (ct_api_keys c) \<and> unique_on iv_ID (ct_invitations c) \<and>
     unique_on iv_TokenHash (ct_invitations c) \<and> unique_on tf_UserID (ct_user_2fa c)"

definition refs_ok :: "string set \<Rightarrow> string set \<Rightarrow> core_tables \<Rightarrow> bool" where
  "refs_ok us bs c \<longleftrightarrow> fk_ok ut_UserID (ct_user_tokens c) us \<and> fk_ok ut_BackendID (ct_user_tokens c) bs \<and>
     fk_ok cr_BackendID (ct_capabilities c) bs \<and> fk_ok bt_BackendID (ct_backend_status c) bs \<and>
     fk_ok od_UserID (ct_oauth_codes c) us \<and> fk_ok on_UserID (ct_oauth_sessions c) us \<and>
     fk_ok ws_UserID (ct_web_sessions c) us \<and> fk_ok ak_UserID (ct_api_keys c) us \<and>
     fk_ok tf_UserID (ct_user_2fa c) us"

definition core_ok :: "db \<Rightarrow> bool" where
  "core_ok db \<longleftrightarrow> unique_on us_ID (db_users db) \<and> unique_on us_Email (db_users db) \<and> unique_on be_ID (db_backends db) \<and>
     keys_ok (db_core db) \<and> refs_ok (user_ids db) (backend_ids db) (db_core db) \<and>
     fk_ok rc_BackendID (db_bucket_configs db) (backend_ids db)"

definition site_ok :: "db \<Rightarrow> bool" where
  "site_ok db \<longleftrightarrow> db_ok db \<and> core_ok db"

lemma has_user_ids: "has_user db i \<longleftrightarrow> i \<in> user_ids db"
  by (simp add: has_user_def user_ids_def)

lemma has_backend_ids: "has_backend db i \<longleftrightarrow> i \<in> backend_ids db"
  by (simp add: has_backend_def backend_ids_def)

lemma core_upd_sel [simp]:
  "db_users (core_upd f db) = db_users db" "db_backends (core_upd f db) = db_backends db"
  "db_core (core_upd f db) = f (db_core db)" "user_ids (core_upd f db) = user_ids db"
  "backend_ids (core_upd f db) = backend_ids db" "db_bucket_configs (core_upd f db) = db_bucket_configs db"
  "db_approvals (core_upd f db) = db_approvals db" "db_rate_states (core_upd f db) = db_rate_states db"
  by (simp_all add: core_upd_def user_ids_def backend_ids_def)

lemma db_ok_core_upd [simp]: "db_ok (core_upd f db) = db_ok db"
  by (simp add: db_ok_def core_upd_def)

lemma site_ok_core_upd:
  assumes "site_ok db" and "keys_ok (db_core db) \<Longrightarrow> keys_ok (f (db_core db))"
    and "refs_ok (user_ids db) (backend_ids db) (db_core db) \<Longrightarrow> refs_ok (user_ids db) (backend_ids db) (f (db_core db))"
  shows "site_ok (core_upd f db)"
  using assms by (simp add: site_ok_def core_ok_def)

section \<open>Tables with one key\<close>

context keyed_table
begin

lemma upsert_fk:
  assumes "upsert_row pk key merge r t = Inr t'" and "fk_ok pk t S" and "pk r \<in> S"
  shows "fk_ok pk t' S"
  by (rule fk_ok_upsert [OF assms]) (rule merge_pk)

end

interpretation capabilities: keyed_table cr_BackendID cr_BackendID capabilities_merge
  by unfold_locales (simp_all add: capabilities_merge_def)

interpretation twofa_rows: keyed_table tf_UserID tf_UserID twofa_merge
  by unfold_locales (simp_all add: twofa_merge_def)

interpretation status_rows: keyed_table bt_BackendID bt_BackendID status_merge
  by unfold_locales (simp_all add: status_merge_def)

interpretation available_rows: keyed_table bt_BackendID bt_BackendID available_merge
  by unfold_locales (simp_all add: available_merge_def)

interpretation unavailable_rows: keyed_table bt_BackendID bt_BackendID unavailable_merge
  by unfold_locales (simp_all add: unavailable_merge_def)

lemmas core_unique = table_unique capabilities.upsert_unique twofa_rows.upsert_unique status_rows.upsert_unique
  available_rows.upsert_unique unavailable_rows.upsert_unique

section \<open>Writes of the account tables\<close>

lemma put_token_ok: "put_token op t db = Inr db' \<Longrightarrow> site_ok db \<Longrightarrow> site_ok db'"
  by (auto simp: put_token_def keys_ok_def refs_ok_def has_user_ids has_backend_ids
      dest!: stmt_InrD split: if_splits intro!: site_ok_core_upd intro: table_rules core_unique)

lemma generateID_ok [simp]:
  "generateID db = (i, db') \<Longrightarrow> site_ok db' = site_ok db"
  by (auto simp: generateID_def site_ok_def db_ok_def core_ok_def user_ids_def backend_ids_def)

lemma delete_steps_ok:
  "Store_DeleteUserToken u b k db = Inr db' \<Longrightarrow> site_ok db \<Longrightarrow> site_ok db'"
  "Store_DeleteAPIKey i db = Inr db' \<Longrightarrow> site_ok db \<Longrightarrow> site_ok db'"
  "Store_DeleteWebSession t db = Inr db' \<Longrightarrow> site_ok db \<Longrightarrow> site_ok db'"
  "Store_RevokeWebSessions u db = Inr db' \<Longrightarrow> site_ok db \<Longrightarrow> site_ok db'"
  "Store_DeleteOAuthClient cl db = Inr db' \<Longrightarrow> site_ok db \<Longrightarrow> site_ok db'"
  "Store_DeleteOAuthCode cd db = Inr db' \<Longrightarrow> site_ok db \<Longrightarrow> site_ok db'"
  "Store_DeleteOAuthSession t db = Inr db' \<Longrightarrow> site_ok db \<Longrightarrow> site_ok db'"
  "Store_DeleteUser2FA u db = Inr db' \<Longrightarrow> site_ok db \<Longrightarrow> site_ok db'"
  "Store_DeleteBackendCapabilities b db = Inr db' \<Longrightarrow> site_ok db \<Longrightarrow> site_ok db'"
  "Store_DeleteExpiredWebSessions now db = Inr (n, db') \<Longrightarrow> site_ok db \<Longrightarrow> site_ok db'"
  "Store_DeleteExpiredCodes now db = Inr (n, db') \<Longrightarrow> site_ok db \<Longrightarrow> site_ok db'"
  "Store_DeleteExpiredSessions now db = Inr (n, db') \<Longrightarrow> site_ok db \<Longrightarrow> site_ok db'"
  unfolding Store_DeleteUserToken_def Store_DeleteAPIKey_def Store_DeleteWebSession_def Store_RevokeWebSessions_def
    Store_DeleteOAuthClient_def Store_DeleteOAuthCode_def Store_DeleteOAuthSession_def Store_DeleteUser2FA_def
    Store_DeleteBackendCapabilities_def Store_DeleteExpiredWebSessions_def Store_DeleteExpiredCodes_def
    Store_DeleteExpiredSessions_def
  by (auto simp: keys_ok_def refs_ok_def unique_on_delete_where dest!: stmt_InrD
      intro!: site_ok_core_upd intro: table_rules)

lemma field_steps_ok:
  "Store_UpdateAPIKeyLastUsed now i db = Inr db' \<Longrightarrow> site_ok db \<Longrightarrow> site_ok db'"
  "Store_MarkInviteAccepted now i u db = Inr db' \<Longrightarrow> site_ok db \<Longrightarrow> site_ok db'"
  "Store_RevokeInvite i db = Inr db' \<Longrightarrow> site_ok db \<Longrightarrow> site_ok db'"
  "Store_SetSetting k v db = Inr db' \<Longrightarrow> site_ok db \<Longrightarrow> site_ok db'"
  unfolding Store_UpdateAPIKeyLastUsed_def Store_MarkInviteAccepted_def Store_RevokeInvite_def Store_SetSetting_def
  by (auto simp: keys_ok_def refs_ok_def unique_on_update_where fk_ok_update gomap_simps dest!: stmt_InrD
      intro!: site_ok_core_upd intro: table_rules)

lemma site_ok_next [simp]: "site_ok (db\<lparr>db_next := n\<rparr>) = site_ok db"
  by (simp add: site_ok_def db_ok_def core_ok_def user_ids_def backend_ids_def)

lemma ids_next [simp]:
  "user_ids (db\<lparr>db_next := n\<rparr>) = user_ids db" "backend_ids (db\<lparr>db_next := n\<rparr>) = backend_ids db"
  by (simp_all add: user_ids_def backend_ids_def)

lemma fill_id_ok:
  "fill_id key set_key r db = (r', db') \<Longrightarrow> site_ok db' = site_ok db"
  by (auto simp: fill_id_def generateID_def split: if_splits)

lemma insert_steps_ok:
  "site_ok db \<Longrightarrow> site_ok (snd (Store_CreateAPIKey now k db))"
  "site_ok db \<Longrightarrow> site_ok (snd (Store_CreateWebSession now w db))"
  "site_ok db \<Longrightarrow> site_ok (snd (Store_CreateOAuthClient now cl db))"
  "site_ok db \<Longrightarrow> site_ok (snd (Store_CreateOAuthCode cd db))"
  "site_ok db \<Longrightarrow> site_ok (snd (Store_CreateOAuthSession now os db))"
  unfolding Store_CreateAPIKey_def Store_CreateWebSession_def Store_CreateOAuthClient_def Store_CreateOAuthCode_def
    Store_CreateOAuthSession_def
  by (auto simp: has_user_ids unique_on_snoc keys_ok_def refs_ok_def dest!: fill_id_ok stmt_InrD insert_row_InrD
      split: if_splits sum.splits prod.splits intro!: site_ok_core_upd)

lemma CreateInvite_ok: "site_ok db \<Longrightarrow> site_ok (snd (Store_CreateInvite now iv db))"
  by (auto simp: Store_CreateInvite_def Let_def unique_on_snoc keys_ok_def refs_ok_def
      dest!: fill_id_ok stmt_InrD insert_row_InrD split: if_splits sum.splits prod.splits intro!: site_ok_core_upd)

section \<open>Users and backends\<close>

lemma fk_ok_mono: "fk_ok f t S \<Longrightarrow> S \<subseteq> S' \<Longrightarrow> fk_ok f t S'"
  by (auto simp: fk_ok_def)

lemma refs_ok_mono: "refs_ok us bs c \<Longrightarrow> us \<subseteq> us' \<Longrightarrow> bs \<subseteq> bs' \<Longrightarrow> refs_ok us' bs' c"
  by (auto simp: refs_ok_def intro: fk_ok_mono)

lemma db_ok_rows:
  assumes "db_ok db" and "us_ID ` set (db_users db) \<subseteq> us_ID ` set us" and "be_ID ` set (db_backends db) \<subseteq> be_ID ` set bs"
  shows "db_ok (db\<lparr>db_users := us, db_backends := bs\<rparr>)"
  using assms unfolding db_ok_def by (simp add: subset_iff)

lemma site_ok_rows:
  assumes "site_ok db" and "unique_on us_ID us" and "unique_on us_Email us" and "unique_on be_ID bs"
    and "us_ID ` set (db_users db) \<subseteq> us_ID ` set us" and "be_ID ` set (db_backends db) \<subseteq> be_ID ` set bs"
  shows "site_ok (db\<lparr>db_users := us, db_backends := bs\<rparr>)"
  using assms db_ok_rows [of db us bs] refs_ok_mono [of "user_ids db" "backend_ids db" "db_core db"] fk_ok_mono
  by (auto simp: site_ok_def core_ok_def user_ids_def backend_ids_def)

lemma site_ok_users:
  "site_ok db \<Longrightarrow> unique_on us_ID us \<Longrightarrow> unique_on us_Email us \<Longrightarrow> us_ID ` set (db_users db) \<subseteq> us_ID ` set us \<Longrightarrow>
     site_ok (db\<lparr>db_users := us\<rparr>)"
  using site_ok_rows [of db us "db_backends db"] by (simp add: site_ok_def core_ok_def)

lemma site_ok_backends:
  "site_ok db \<Longrightarrow> unique_on be_ID bs \<Longrightarrow> be_ID ` set (db_backends db) \<subseteq> be_ID ` set bs \<Longrightarrow> site_ok (db\<lparr>db_backends := bs\<rparr>)"
  using site_ok_rows [of db "db_users db" bs] by (simp add: site_ok_def core_ok_def)

lemma site_ok_keys:
  "site_ok db \<Longrightarrow> unique_on us_ID (db_users db)" "site_ok db \<Longrightarrow> unique_on us_Email (db_users db)"
  "site_ok db \<Longrightarrow> unique_on be_ID (db_backends db)" "site_ok db \<Longrightarrow> keys_ok (db_core db)"
  "site_ok db \<Longrightarrow> refs_ok (user_ids db) (backend_ids db) (db_core db)"
  by (simp_all add: site_ok_def core_ok_def)

lemma insert_user_ok: "insert_user now u db = Inr db' \<Longrightarrow> site_ok db \<Longrightarrow> site_ok db'"
  by (auto simp: insert_user_def unique_on_snoc site_ok_keys dest!: stmt_InrD split: if_splits intro!: site_ok_users)

lemma CreateUser_ok: "site_ok db \<Longrightarrow> site_ok (snd (Store_CreateUser now bc lib rng u db))"
  by (auto simp: Store_CreateUser_def Let_def dest!: fill_id_ok dest: insert_user_ok split: sum.splits prod.splits)

lemma unique_on_update_one:
  assumes "unique_on f t" and "unique_on pk t" and "\<forall>x \<in> set t. f x = v \<longrightarrow> pk x = i"
    and "\<And>x. f (g x) = v"
  shows "unique_on f (update_where (\<lambda>x. pk x = i) g t)"
proof -
  let ?h = "\<lambda>x. if pk x = i then v else f x"
  have "map f (update_where (\<lambda>x. pk x = i) g t) = map ?h t"
    by (simp add: update_where_def assms(4))
  moreover have "inj_on ?h (set t)"
  proof (rule inj_onI)
    fix x y
    assume "x \<in> set t" and "y \<in> set t" and "?h x = ?h y"
    then show "x = y"
      using unique_on_eq [OF assms(1), of x y] unique_on_eq [OF assms(2), of x y] assms(3) by (metis (full_types))
  qed
  moreover have "distinct t" using assms(1) by (simp add: unique_on_def distinct_map)
  ultimately show ?thesis by (simp add: unique_on_def distinct_map)
qed

lemma UpdateUser_ok:
  assumes step: "Store_UpdateUser bc u db = Inr db'" and ok: "site_ok db"
  shows "site_ok db'"
proof -
  from step obtain h where db': "db' = db\<lparr>db_users := update_where (\<lambda>x. us_ID x = us_ID u)
      (\<lambda>x. x\<lparr>us_Name := us_Name u, us_Email := us_Email u, us_Password := h, us_PasswordSalt := us_PasswordSalt u,
        us_Role := us_Role u\<rparr>) (db_users db)\<rparr>"
    and u: "has_user db (us_ID u) \<longrightarrow> (\<forall>x \<in> set (db_users db). us_Email x = us_Email u \<longrightarrow> us_ID x = us_ID u)"
    by (auto simp: Store_UpdateUser_def dest!: stmt_InrD split: sum.splits if_splits)
  show ?thesis
  proof (cases "has_user db (us_ID u)")
    case True
    then have "unique_on us_Email (db_users db')" unfolding db'
      using u ok by (auto simp: site_ok_keys intro!: unique_on_update_one [where v = "us_Email u"])
    with ok show ?thesis unfolding db'
      by (intro site_ok_users) (simp_all add: unique_on_update_where image_update_where site_ok_keys)
  next
    case False
    then have "\<forall>x \<in> set (db_users db). us_ID x \<noteq> us_ID u" by (metis has_user_def imageI)
    then have "db_users db' = db_users db" by (simp add: db' update_where_none)
    with ok show ?thesis by (simp add: db')
  qed
qed

lemma UpdateUserPasswordSalt_ok: "Store_UpdateUserPasswordSalt u salt db = Inr db' \<Longrightarrow> site_ok db \<Longrightarrow> site_ok db'"
  by (auto simp: Store_UpdateUserPasswordSalt_def unique_on_update_where image_update_where site_ok_keys
      dest!: stmt_InrD intro!: site_ok_users)

text \<open>Deleting a user or a backend: the cascade removes every reference.\<close>

lemma DeleteUser_ok:
  assumes "Store_DeleteUser i db = Inr db'" and "site_ok db"
  shows "site_ok db'"
proof -
  let ?d = "db\<lparr>db_users := delete_where (\<lambda>u. us_ID u = i) (db_users db),
      db_approvals := delete_where (\<lambda>r. aq_UserID r = i) (db_approvals db),
      db_rate_states := delete_where (\<lambda>s. rs_UserID s = i) (db_rate_states db)\<rparr>"
  have db': "db' = core_upd (cascade_user i) ?d" using assms(1) by (auto simp: Store_DeleteUser_def dest: stmt_InrD)
  have ids: "user_ids ?d = user_ids db - {i}" "backend_ids ?d = backend_ids db"
    by (auto simp: user_ids_def backend_ids_def)
  have "db_ok ?d" using assms(2) by (simp add: site_ok_def db_ok_def unique_on_delete_where image_delete_where)
  moreover have "keys_ok (cascade_user i (db_core db))"
    using site_ok_keys(4) [OF assms(2)] by (simp add: keys_ok_def cascade_user_def unique_on_delete_where)
  moreover have "refs_ok (user_ids ?d) (backend_ids ?d) (cascade_user i (db_core db))"
    using site_ok_keys(5) [OF assms(2)] by (simp add: refs_ok_def cascade_user_def ids table_rules)
  ultimately show ?thesis
    using assms(2) ids by (simp add: db' site_ok_def core_ok_def unique_on_delete_where)
qed

lemma DeleteBackend_ok:
  assumes "Store_DeleteBackend i db = Inr db'" and "site_ok db"
  shows "site_ok db'"
proof -
  let ?d = "db\<lparr>db_backends := delete_where (\<lambda>b. be_ID b = i) (db_backends db),
      db_bucket_configs := delete_where (\<lambda>c. rc_BackendID c = i) (db_bucket_configs db),
      db_rate_states := delete_where (\<lambda>s. rs_BackendID s = i) (db_rate_states db)\<rparr>"
  have db': "db' = core_upd (cascade_backend i) ?d" using assms(1) by (auto simp: Store_DeleteBackend_def dest: stmt_InrD)
  have ids: "user_ids ?d = user_ids db" "backend_ids ?d = backend_ids db - {i}"
    by (auto simp: user_ids_def backend_ids_def)
  have "db_ok ?d" using assms(2) by (simp add: site_ok_def db_ok_def unique_on_delete_where image_delete_where)
  moreover have "keys_ok (cascade_backend i (db_core db))"
    using site_ok_keys(4) [OF assms(2)] by (simp add: keys_ok_def cascade_backend_def unique_on_delete_where)
  moreover have "refs_ok (user_ids ?d) (backend_ids ?d) (cascade_backend i (db_core db))"
    using site_ok_keys(5) [OF assms(2)] by (simp add: refs_ok_def cascade_backend_def ids table_rules)
  moreover have "fk_ok rc_BackendID (db_bucket_configs ?d) (backend_ids ?d)"
    using assms(2) by (simp add: site_ok_def core_ok_def ids table_rules)
  ultimately show ?thesis
    using assms(2) by (simp add: db' site_ok_def core_ok_def unique_on_delete_where)
qed

section \<open>Operations that use the key store\<close>

lemma wrap_for_user_db: "wrap_for_user lib sys rng dek x s = (r, s') \<Longrightarrow> st_db s' = st_db s"
  by (auto simp: wrap_for_user_def split: option.splits prod.splits sum.splits)

lemma SetUserTokenWithUserDEK_ok:
  "site_ok (st_db s) \<Longrightarrow> site_ok (st_db (snd (Store_SetUserTokenWithUserDEK lib sys rng u b k v dek s)))"
  by (auto simp: Store_SetUserTokenWithUserDEK_def dest!: wrap_for_user_db dest: put_token_ok split: prod.splits sum.splits)

lemma SetUser2FA_ok:
  "site_ok (st_db s) \<Longrightarrow> site_ok (st_db (snd (Store_SetUser2FA lib sys rng u m x dek s)))"
  by (auto simp: Store_SetUser2FA_def keys_ok_def refs_ok_def has_user_ids dest!: wrap_for_user_db stmt_InrD
      split: prod.splits sum.splits if_splits intro!: site_ok_core_upd
      intro: twofa_rows.upsert_unique elim!: twofa_rows.upsert_fk)

lemma migrate_tokens_ok: "site_ok db \<Longrightarrow> site_ok (snd (snd (migrate_tokens lib sys rng ts ks db)))"
proof (induction ts arbitrary: rng ks db)
  case (Cons t ts)
  have "site_ok (core_upd (\<lambda>c. c\<lparr>ct_user_tokens := update_where (\<lambda>x. token_key x = token_key t)
      (\<lambda>x. x\<lparr>ut_Encrypted := e\<rparr>) (ct_user_tokens c)\<rparr>) db)" for e
    using Cons.prems by (auto simp: keys_ok_def refs_ok_def unique_on_update_where fk_ok_update token_key_def
        intro!: site_ok_core_upd)
  with Cons show ?case by (auto split: prod.splits sum.splits dest!: stmt_InrD)
qed simp

lemma MigrateSecrets_ok: "site_ok (st_db s) \<Longrightarrow> site_ok (st_db (snd (Store_MigrateSecrets lib sys rng s)))"
  by (auto simp: Store_MigrateSecrets_def split: option.splits sum.splits prod.splits)
    (metis migrate_tokens_ok snd_conv)

lemma put_status_ok:
  assumes "put_status op merge bs db = Inr db'" and "site_ok db" and "keyed_table bt_BackendID bt_BackendID merge"
  shows "site_ok db'"
  using assms(1,2)
  by (auto simp: put_status_def keys_ok_def refs_ok_def has_backend_ids dest!: stmt_InrD
      split: sum.splits if_splits intro!: site_ok_core_upd
      intro: keyed_table.upsert_unique [OF assms(3)] elim!: keyed_table.upsert_fk [OF assms(3)])

lemma site_ok_backend_update:
  "site_ok db \<Longrightarrow> (\<And>x. P x \<Longrightarrow> be_ID (g x) = be_ID x) \<Longrightarrow> site_ok (db\<lparr>db_backends := update_where P g (db_backends db)\<rparr>)"
  by (intro site_ok_backends) (simp_all add: unique_on_update_pk image_update_where site_ok_keys)

lemma backend_steps_ok:
  "Store_SetBackendCapabilities now mar b tools db = Inr db' \<Longrightarrow> site_ok db \<Longrightarrow> site_ok db'"
  "Store_UpdateBackendStatus now bs db = Inr db' \<Longrightarrow> site_ok db \<Longrightarrow> site_ok db'"
  "Store_SetBackendPrecacheError now b msg db = Inr db' \<Longrightarrow> site_ok db \<Longrightarrow> site_ok db'"
  "Store_SetBackendUnavailable now b msg db = Some (Inr db') \<Longrightarrow> site_ok db \<Longrightarrow> site_ok db'"
  by (auto simp: Store_SetBackendCapabilities_def Store_UpdateBackendStatus_def Store_SetBackendPrecacheError_def
      Store_SetBackendUnavailable_def Let_def keys_ok_def refs_ok_def has_backend_ids
      dest!: stmt_InrD put_status_ok split: sum.splits if_splits option.splits
      intro!: site_ok_core_upd site_ok_backend_update status_rows.keyed_table_axioms unavailable_rows.keyed_table_axioms
      intro: capabilities.upsert_unique elim!: capabilities.upsert_fk)

lemma SetBackendAvailable_ok: "site_ok db \<Longrightarrow> site_ok (snd (Store_SetBackendAvailable now b db))"
  using put_status_ok [OF _ _ available_rows.keyed_table_axioms]
  by (auto simp: Store_SetBackendAvailable_def split: sum.splits dest!: stmt_InrD intro!: site_ok_backend_update)

lemma CreateBackend_ok:
  "site_ok (st_db s) \<Longrightarrow> site_ok (st_db (snd (Store_CreateBackend lib sys rng b s)))"
  by (auto simp: Store_CreateBackend_def Let_def unique_on_snoc site_ok_keys split: sum.splits prod.splits
      dest!: stmt_InrD insert_row_InrD intro!: site_ok_backends)

lemma UpdateBackend_ok:
  "site_ok (st_db s) \<Longrightarrow> site_ok (st_db (snd (Store_UpdateBackend lib sys rng b s)))"
  by (auto simp: Store_UpdateBackend_def Let_def split: sum.splits prod.splits dest!: stmt_InrD
      intro!: site_ok_backend_update)

lemma migrate_envs_ok:
  "migrate_envs lib sys rng bs n s = Some (r, s') \<Longrightarrow> site_ok (st_db s) \<Longrightarrow> site_ok (st_db s')"
proof (induction bs arbitrary: rng n s)
  case (Cons b bs)
  from Cons.prems show ?case
    by (auto split: option.splits prod.splits sum.splits dest!: stmt_InrD
        intro!: site_ok_backend_update elim!: Cons.IH)
qed simp

lemma MigrateAdminEnv_ok:
  "Store_MigrateAdminEnv lib sys rng s = Some (r, s') \<Longrightarrow> site_ok (st_db s) \<Longrightarrow> site_ok (st_db s')"
  by (auto simp: Store_MigrateAdminEnv_def split: sum.splits dest: migrate_envs_ok)

lemma profile_store_steps_ok:
  "Store_UpsertToolProfile p db = Inr db' \<Longrightarrow> site_ok db \<Longrightarrow> site_ok db'"
  "Store_DeleteToolProfilesByBackend b db = Inr db' \<Longrightarrow> site_ok db \<Longrightarrow> site_ok db'"
  by (auto simp: Store_UpsertToolProfile_def Store_DeleteToolProfilesByBackend_def site_ok_def db_ok_def core_ok_def
      user_ids_def backend_ids_def unique_on_delete_where dest!: stmt_InrD db_sum_case_InrD intro: profiles.upsert_unique)

section \<open>Every write keeps the database consistent\<close>

text \<open>The enforcer's writes touch neither accounts nor backends; a bucket configuration refers to a backend.\<close>

lemma es_step_frame:
  "es_step db db' \<Longrightarrow> db_users db' = db_users db \<and> db_backends db' = db_backends db \<and> db_core db' = db_core db \<and>
     (db_bucket_configs db' = db_bucket_configs db \<or>
      (\<exists>c. rc_BackendID c \<in> backend_ids db \<and>
        upsert_row rc_ID config_row_key config_row_merge c (db_bucket_configs db) = Inr (db_bucket_configs db')))"
  by (erule es_step.cases)
    (auto simp: ES_CreatePolicy_def ES_DeletePolicy_def ES_UpdatePolicy_def ES_CreateApprovalRequest_def
      ES_MarkExecuting_def ES_MarkCompleted_def ES_MarkFailed_def ES_ApproveRequest_def ES_DenyRequest_def
      ES_CleanupExpiredApprovals_def ES_CleanupOldApprovals_def ES_EnableKillSwitch_def ES_DisableKillSwitch_def
      ES_LogAuditEvent_def ES_LogAuditRejection_def ES_UpsertToolProfile_def ES_UpsertOverride_def ES_DeleteOverride_def
      ES_UpsertUserRateLimitOverride_def ES_DeleteUserRateLimitOverride_def ES_IncrementRateBucket_def
      ES_CleanupExpiredRateBuckets_def ES_UpsertRateLimitBucketConfig_def ES_UpsertRateLimitState_def set_approval_def
      generateID_def Let_def backend_ids_def dest!: stmt_InrD split: if_splits sum.splits prod.splits)

lemma es_step_site_ok:
  assumes "es_step db db'" and "site_ok db"
  shows "site_ok db'"
proof -
  note fr = es_step_frame [OF assms(1)]
  then have ids: "user_ids db' = user_ids db" "backend_ids db' = backend_ids db"
    by (simp_all add: user_ids_def backend_ids_def)
  have "fk_ok rc_BackendID (db_bucket_configs db') (backend_ids db)"
    using fr assms(2) fk_ok_upsert [of rc_ID config_row_key config_row_merge _ "db_bucket_configs db" "db_bucket_configs db'" rc_BackendID]
    by (auto simp: site_ok_def core_ok_def config_row_merge_def)
  then show ?thesis
    using fr ids assms(2) es_step_ok [OF assms(1)] by (simp add: site_ok_def core_ok_def)
qed

text \<open>One write to the store, by any component.\<close>

inductive site_step :: "Store \<Rightarrow> Store \<Rightarrow> bool" where
  Enforcer: "es_step (st_db s) db \<Longrightarrow> site_step s (s\<lparr>st_db := db\<rparr>)"
| CreateUser: "Store_CreateUser now bc lib rng u (st_db s) = (r, db) \<Longrightarrow> site_step s (s\<lparr>st_db := db\<rparr>)"
| UpdateUser: "Store_UpdateUser bc u (st_db s) = Inr db \<Longrightarrow> site_step s (s\<lparr>st_db := db\<rparr>)"
| UpdateSalt: "Store_UpdateUserPasswordSalt uid salt (st_db s) = Inr db \<Longrightarrow> site_step s (s\<lparr>st_db := db\<rparr>)"
| DeleteUser: "Store_DeleteUser uid (st_db s) = Inr db \<Longrightarrow> site_step s (s\<lparr>st_db := db\<rparr>)"
| SetToken: "Store_SetUserToken t (st_db s) = Inr db \<Longrightarrow> site_step s (s\<lparr>st_db := db\<rparr>)"
| DeleteToken: "Store_DeleteUserToken uid b k (st_db s) = Inr db \<Longrightarrow> site_step s (s\<lparr>st_db := db\<rparr>)"
| SetTokenDEK: "Store_SetUserTokenWithUserDEK lib sys rng uid b k v dek s = (r, s') \<Longrightarrow> site_step s s'"
| MigrateSecrets: "Store_MigrateSecrets lib sys rng s = (r, s') \<Longrightarrow> site_step s s'"
| CreateAPIKey: "Store_CreateAPIKey now key (st_db s) = (r, db) \<Longrightarrow> site_step s (s\<lparr>st_db := db\<rparr>)"
| DeleteAPIKey: "Store_DeleteAPIKey i (st_db s) = Inr db \<Longrightarrow> site_step s (s\<lparr>st_db := db\<rparr>)"
| TouchAPIKey: "Store_UpdateAPIKeyLastUsed now i (st_db s) = Inr db \<Longrightarrow> site_step s (s\<lparr>st_db := db\<rparr>)"
| CreateWebSession: "Store_CreateWebSession now ws (st_db s) = (r, db) \<Longrightarrow> site_step s (s\<lparr>st_db := db\<rparr>)"
| DeleteWebSession: "Store_DeleteWebSession t (st_db s) = Inr db \<Longrightarrow> site_step s (s\<lparr>st_db := db\<rparr>)"
| ExpireWebSessions: "Store_DeleteExpiredWebSessions now (st_db s) = Inr (n, db) \<Longrightarrow> site_step s (s\<lparr>st_db := db\<rparr>)"
| RevokeWebSessions: "Store_RevokeWebSessions uid (st_db s) = Inr db \<Longrightarrow> site_step s (s\<lparr>st_db := db\<rparr>)"
| CreateClient: "Store_CreateOAuthClient now cl (st_db s) = (r, db) \<Longrightarrow> site_step s (s\<lparr>st_db := db\<rparr>)"
| DeleteClient: "Store_DeleteOAuthClient i (st_db s) = Inr db \<Longrightarrow> site_step s (s\<lparr>st_db := db\<rparr>)"
| CreateCode: "Store_CreateOAuthCode cd (st_db s) = (r, db) \<Longrightarrow> site_step s (s\<lparr>st_db := db\<rparr>)"
| DeleteCode: "Store_DeleteOAuthCode c (st_db s) = Inr db \<Longrightarrow> site_step s (s\<lparr>st_db := db\<rparr>)"
| ExpireCodes: "Store_DeleteExpiredCodes now (st_db s) = Inr (n, db) \<Longrightarrow> site_step s (s\<lparr>st_db := db\<rparr>)"
| CreateSession: "Store_CreateOAuthSession now os (st_db s) = (r, db) \<Longrightarrow> site_step s (s\<lparr>st_db := db\<rparr>)"
| DeleteSession: "Store_DeleteOAuthSession t (st_db s) = Inr db \<Longrightarrow> site_step s (s\<lparr>st_db := db\<rparr>)"
| ExpireSessions: "Store_DeleteExpiredSessions now (st_db s) = Inr (n, db) \<Longrightarrow> site_step s (s\<lparr>st_db := db\<rparr>)"
| CreateInvite: "Store_CreateInvite now iv (st_db s) = (r, db) \<Longrightarrow> site_step s (s\<lparr>st_db := db\<rparr>)"
| AcceptInvite: "Store_MarkInviteAccepted now i uid (st_db s) = Inr db \<Longrightarrow> site_step s (s\<lparr>st_db := db\<rparr>)"
| RevokeInvite: "Store_RevokeInvite i (st_db s) = Inr db \<Longrightarrow> site_step s (s\<lparr>st_db := db\<rparr>)"
| Set2FA: "Store_SetUser2FA lib sys rng uid m x dek s = (r, s') \<Longrightarrow> site_step s s'"
| Delete2FA: "Store_DeleteUser2FA uid (st_db s) = Inr db \<Longrightarrow> site_step s (s\<lparr>st_db := db\<rparr>)"
| CreateBackend: "Store_CreateBackend lib sys rng b s = (r, s') \<Longrightarrow> site_step s s'"
| UpdateBackend: "Store_UpdateBackend lib sys rng b s = (r, s') \<Longrightarrow> site_step s s'"
| DeleteBackend: "Store_DeleteBackend i (st_db s) = Inr db \<Longrightarrow> site_step s (s\<lparr>st_db := db\<rparr>)"
| MigrateEnv: "Store_MigrateAdminEnv lib sys rng s = Some (r, s') \<Longrightarrow> site_step s s'"
| SetCapabilities: "Store_SetBackendCapabilities now mar i tools (st_db s) = Inr db \<Longrightarrow> site_step s (s\<lparr>st_db := db\<rparr>)"
| DeleteCapabilities: "Store_DeleteBackendCapabilities i (st_db s) = Inr db \<Longrightarrow> site_step s (s\<lparr>st_db := db\<rparr>)"
| SetSetting: "Store_SetSetting k v (st_db s) = Inr db \<Longrightarrow> site_step s (s\<lparr>st_db := db\<rparr>)"
| StoreProfile: "Store_UpsertToolProfile p (st_db s) = Inr db \<Longrightarrow> site_step s (s\<lparr>st_db := db\<rparr>)"
| DeleteProfiles: "Store_DeleteToolProfilesByBackend i (st_db s) = Inr db \<Longrightarrow> site_step s (s\<lparr>st_db := db\<rparr>)"
| UpdateStatus: "Store_UpdateBackendStatus now bs (st_db s) = Inr db \<Longrightarrow> site_step s (s\<lparr>st_db := db\<rparr>)"
| PrecacheError: "Store_SetBackendPrecacheError now i msg (st_db s) = Inr db \<Longrightarrow> site_step s (s\<lparr>st_db := db\<rparr>)"
| Available: "Store_SetBackendAvailable now i (st_db s) = (r, db) \<Longrightarrow> site_step s (s\<lparr>st_db := db\<rparr>)"
| Unavailable: "Store_SetBackendUnavailable now i msg (st_db s) = Some (Inr db) \<Longrightarrow> site_step s (s\<lparr>st_db := db\<rparr>)"
| MigrateDefault: "\<not> has_backend (st_db s) ''default'' \<Longrightarrow> Store_MigrateDefaultBackend (st_db s) = (r, db) \<Longrightarrow> site_step s (s\<lparr>st_db := db\<rparr>)"

inductive site_reachable :: "Store \<Rightarrow> Store \<Rightarrow> bool" for s0 where
  start: "site_reachable s0 s0"
| step: "site_reachable s0 s \<Longrightarrow> site_step s s' \<Longrightarrow> site_reachable s0 s'"

lemma site_ok_sndI: "site_ok (snd f) \<Longrightarrow> f = (r, db) \<Longrightarrow> site_ok db"
  by simp

lemma store_ok_sndI: "site_ok (st_db (snd f)) \<Longrightarrow> f = (r, s) \<Longrightarrow> site_ok (st_db s)"
  by simp

lemmas pair_steps_ok = CreateUser_ok [THEN site_ok_sndI, rotated] insert_steps_ok [THEN site_ok_sndI, rotated]
  CreateInvite_ok [THEN site_ok_sndI, rotated] SetBackendAvailable_ok [THEN site_ok_sndI, rotated]
  SetUserTokenWithUserDEK_ok [THEN store_ok_sndI, rotated] MigrateSecrets_ok [THEN store_ok_sndI, rotated] SetUser2FA_ok [THEN store_ok_sndI, rotated]
  CreateBackend_ok [THEN store_ok_sndI, rotated] UpdateBackend_ok [THEN store_ok_sndI, rotated]

lemma SetUserToken_ok: "Store_SetUserToken t db = Inr db' \<Longrightarrow> site_ok db \<Longrightarrow> site_ok db'"
  by (auto simp: Store_SetUserToken_def dest: put_token_ok)

lemma no_default_migration:
  assumes "\<not> has_backend db ''default''" and "Store_MigrateDefaultBackend db = (r, db')" shows "db' = db"
proof -
  have "count_rows (\<lambda>b. be_ID b = ''default'') (db_backends db) = 0"
    using assms(1) by (auto simp: count_rows_def has_backend_def filter_empty_conv) (metis image_eqI)
  with assms(2) show ?thesis by (auto simp: Store_MigrateDefaultBackend_def stmt_def split: option.splits)
qed

lemma MigrateDefault_ok:
  "\<not> has_backend db ''default'' \<Longrightarrow> Store_MigrateDefaultBackend db = (r, db') \<Longrightarrow> site_ok db \<Longrightarrow> site_ok db'"
  using no_default_migration by blast

lemma site_step_ok: "site_step s s' \<Longrightarrow> site_ok (st_db s) \<Longrightarrow> site_ok (st_db s')"
  by (induction rule: site_step.induct)
    (simp_all add: es_step_site_ok UpdateUser_ok UpdateUserPasswordSalt_ok DeleteUser_ok SetUserToken_ok delete_steps_ok
      field_steps_ok DeleteBackend_ok MigrateAdminEnv_ok MigrateDefault_ok backend_steps_ok profile_store_steps_ok pair_steps_ok)

text \<open>C26: whatever sequence of writes the two stores make through their methods, the renaming of the legacy backend \<open>default\<close> excepted where there is one, every
  table keeps its primary and unique keys, and every
  token, cached capability, status, code, session, key, two-factor secret, bucket and approval belongs to a user and
  a backend that exist.\<close>

theorem site_reachable_ok:
  assumes "site_reachable s0 s" and "site_ok (st_db s0)"
  shows "site_ok (st_db s)"
  using assms by (induction rule: site_reachable.induct) (auto intro: site_step_ok)

lemma empty_site_ok: "site_ok empty_db"
  by (simp add: site_ok_def empty_db_ok)
    (simp add: core_ok_def keys_ok_def refs_ok_def empty_db_def empty_core_def)

section \<open>Deleting an account\<close>

lemma user_deleted:
  assumes "fault_free db"
  shows "\<exists>db'. Store_DeleteUser i db = Inr db' \<and> ct_user_tokens (db_core db') = filter (\<lambda>r. ut_UserID r \<noteq> i) (ct_user_tokens (db_core db))"
  using assms by (auto simp: Store_DeleteUser_def cascade_user_def delete_where_def core_upd_def)



section \<open>Retry back-off\<close>

lemma shift_one_exact: "0 \<le> n \<Longrightarrow> n \<le> 62 \<Longrightarrow> shift_one n = Some (2 ^ nat n)"
proof -
  assume "0 \<le> n" "n \<le> 62"
  then have "nat n \<le> 62" by simp
  then have "(2::int) ^ nat n \<le> 2 ^ 62" by (rule power_increasing) simp
  moreover have "- (2 ^ 63) \<le> (2::int) ^ nat n" by (rule order_trans [of _ 0]) simp_all
  ultimately have "int64 (2 ^ nat n)" by (simp add: int64_def)
  with \<open>0 \<le> n\<close> show ?thesis by (simp add: shift_one_def)
qed

lemma shift_one_overflow: "64 \<le> n \<Longrightarrow> shift_one n = Some 0"
proof -
  assume n: "64 \<le> n"
  then have "nat n = 64 + (nat n - 64)" by linarith
  then have "(2::int) ^ nat n = 2 ^ 64 * 2 ^ (nat n - 64)" by (metis power_add)
  then have "(2 ^ nat n + 2 ^ 63) mod 2 ^ 64 = (2 ^ 63 :: int)" by simp
  with n show ?thesis by (simp add: shift_one_def wrap64_def)
qed

text \<open>for the first 63 failures the delay before the next attempt doubles from one second and is capped at
  thirty minutes. From the 64th failure in a row on the shift overflows and the delay is zero.\<close>

theorem retry_backoff:
  assumes "0 \<le> n"
  shows "(n \<le> 62 \<longrightarrow> backoffSeconds n = Some (min (2 ^ nat n) 1800)) \<and>
    (63 \<le> n \<longrightarrow> (\<exists>b. backoffSeconds n = Some b \<and> b \<le> 0 \<and> gomul b 1000000000 = 0))"
proof (intro conjI impI)
  show "backoffSeconds n = Some (min (2 ^ nat n) 1800)" if "n \<le> 62"
    using shift_one_exact [OF assms that] by (simp add: backoffSeconds_def)
  show "\<exists>b. backoffSeconds n = Some b \<and> b \<le> 0 \<and> gomul b 1000000000 = 0" if "63 \<le> n"
  proof (cases "n = 63")
    case True
    then show ?thesis by (simp add: backoffSeconds_def shift_one_def wrap64_def gomul_def)
  next
    case False
    with that have "64 \<le> n" by simp
    then show ?thesis by (simp add: backoffSeconds_def shift_one_overflow gomul_def wrap64_def)
  qed
qed

theorem retry_backoff_witness:
  "backoffSeconds 4 = Some 16 \<and> backoffSeconds 20 = Some 1800 \<and> (\<exists>b. backoffSeconds 70 = Some b \<and> b \<le> 0)"
  using retry_backoff [of 4] retry_backoff [of 20] retry_backoff [of 70] by auto

section \<open>Stored credentials\<close>

lemma get_put_token:
  assumes "put_token op t db = Inr db'" and "fault_free db"
  shows "get_token op' (ut_UserID t) (ut_BackendID t) (ut_EnvKey t) db' = Inr t \<and> fault_free db'"
proof -
  have "filter (\<lambda>x. token_key x = token_key t) (replace_row token_key token_key t r) = [t]" for r
    by (simp add: replace_row_def filter_empty_conv)
  then show ?thesis
    using assms by (auto simp: put_token_def get_token_def query_row_def core_upd_def token_key_def split: if_splits)
qed

lemma wrap_for_user_InrD:
  assumes "wrap_for_user lib sys rng (Some dek) x s = (Inr (m, e), s')"
  shows "\<exists>ks ks'. st_keyStore s = Some ks \<and> EncryptSecret lib sys rng x ks = (Inr m, ks') \<and>
    AES256GCMEncrypt lib (skip_rng 3 rng) dek m = Inr e \<and> s' = s\<lparr>st_keyStore := Some ks'\<rparr>"
  using assms by (auto simp: wrap_for_user_def split: option.splits prod.splits sum.splits)

lemma EncryptSecret_nonempty: "EncryptSecret lib sys rng x ks = (Inr m, ks') \<Longrightarrow> m \<noteq> []"
  by (auto simp: EncryptSecret_def with_provider_def Encrypt_def seal_envelope_def put_uint32_def
      split: prod.splits sum.splits option.splits)

lemma AES256GCMEncrypt_nonempty:
  assumes "rng_sound rng" and "AES256GCMEncrypt lib rng k m = Inr e"
  shows "e \<noteq> []"
proof -
  from assms(2) obtain n where "rng 0 nonceSize = Some n" and "e = n @ cl_seal lib k n m"
    by (auto simp: AES256GCMEncrypt_def split: if_splits option.splits)
  moreover from this have "length n = nonceSize" using assms(1) by (simp add: rng_sound_def)
  ultimately show ?thesis by (auto simp: nonceSize_def)
qed

text \<open>a token stored under the two keys is stored without its plain text, and both ways of reading it give the
  value back: the user's, with the derived key and the master key, and the spawn-time one with the master key alone.\<close>

theorem user_token_roundtrip:
  assumes "crypto_lawful lib" and "rng_sound rng" and "fault_free (st_db s)"
    and "Store_SetUserTokenWithUserDEK lib sys rng userID backendID envKey val (Some dek) s = (None, s')"
  shows "fst (Store_GetUserTokenDecryptedWithUserDEK lib sys' userID backendID envKey (Some dek) s') = Inr val \<and>
    fst (Store_GetUserTokenDecrypted lib sys' userID backendID envKey s') = Inr val \<and>
    (\<exists>t. get_token op userID backendID envKey (st_db s') = Inr t \<and> ut_Value t = [])"
proof -
  from assms(4) obtain m e s1 db where w: "wrap_for_user lib sys rng (Some dek) val s = (Inr (m, e), s1)"
    and p: "put_token ''SetUserTokenWithUserDEK'' \<lparr>ut_UserID = userID, ut_BackendID = backendID, ut_EnvKey = envKey,
      ut_Value = [], ut_Encrypted = m, ut_EncryptedDEK = e, ut_EncryptionType = ''user''\<rparr> (st_db s1) = Inr db"
    and s': "s' = s1\<lparr>st_db := db\<rparr>"
    by (auto simp: Store_SetUserTokenWithUserDEK_def split: prod.splits sum.splits)
  from wrap_for_user_InrD [OF w] obtain ks' where e: "EncryptSecret lib sys rng val (the (st_keyStore s)) = (Inr m, ks')"
    and a: "AES256GCMEncrypt lib (skip_rng 3 rng) dek m = Inr e" and s1: "s1 = s\<lparr>st_keyStore := Some ks'\<rparr>" by force
  have g: "get_token op' userID backendID envKey db = Inr \<lparr>ut_UserID = userID, ut_BackendID = backendID,
      ut_EnvKey = envKey, ut_Value = [], ut_Encrypted = m, ut_EncryptedDEK = e, ut_EncryptionType = ''user''\<rparr>" for op'
    using get_put_token [OF p, of op'] assms(3) by (simp add: s1)
  have ne: "m \<noteq> []" "e \<noteq> []"
    using EncryptSecret_nonempty [OF e] AES256GCMEncrypt_nonempty [OF _ a] assms(2) by simp_all
  note d = DecryptSecret_after [OF assms(1,2) e, of sys'] AES256GCM_roundtrip [OF assms(1) _ a]
  show ?thesis
    using d assms(2) ne g
    by (simp add: Store_GetUserTokenDecryptedWithUserDEK_def Store_GetUserTokenDecrypted_def unwrap_for_user_def s' s1)
qed

definition token_store :: Store where
  "token_store = \<lparr>st_db = approvals_db\<lparr>db_backends := [\<lparr>be_ID = ''gh'', be_Command = ''c'', be_PoolSize = 1, be_ToolPrefix = ''gh'',
       be_Env = ''{}'', be_EnvMappings = ''{}'', be_ToolHints = [], be_BackendInstructions = [], be_Enabled = True,
       be_IsSystem = False, be_MinPoolSize = 1, be_MaxPoolSize = 1, be_SelfReporting = False, be_NoKeysRequired = False,
       be_SkipJustification = False, be_StdioFraming = ''newline'', be_EncryptedEnv = [], be_PrecacheError = [],
       be_PrecacheErrorAt = None\<rparr>]\<rparr>,
     st_keyStore = Some (NewKeyStore (EnvVar (NewEnvVarProvider [] [])))\<rparr>"

lemma sample_encrypt:
  "\<exists>c ks'. EncryptSecret sample_lib sample_os sample_rng ''tok'' (NewKeyStore (EnvVar (NewEnvVarProvider [] []))) = (Inr c, ks')"
  by (rule EncryptSecret_total [OF sample_lib_lawful sample_rng_sound sample_key])

theorem user_token_roundtrip_witness:
  "\<exists>s'. Store_SetUserTokenWithUserDEK sample_lib sample_os sample_rng ''bob'' ''gh'' ''K'' ''tok'' (Some (replicate 32 (CHR ''d''))) token_store
     = (None, s') \<and> fst (Store_GetUserTokenDecrypted sample_lib sample_os ''bob'' ''gh'' ''K'' s') = Inr ''tok''"
proof -
  obtain c ks' where e: "EncryptSecret sample_lib sample_os sample_rng ''tok'' (NewKeyStore (EnvVar (NewEnvVarProvider [] []))) = (Inr c, ks')"
    using sample_encrypt by blast
  have f: "fault_free (st_db token_store)" by (simp add: token_store_def approvals_db_def)
  have "\<exists>s'. Store_SetUserTokenWithUserDEK sample_lib sample_os sample_rng ''bob'' ''gh'' ''K'' ''tok''
      (Some (replicate 32 (CHR ''d''))) token_store = (None, s')"
    using e by (simp add: Store_SetUserTokenWithUserDEK_def wrap_for_user_def AES256GCMEncrypt_def keySize_def
        sample_rng_def skip_rng_def put_token_def has_user_def has_backend_def token_store_def approvals_db_def)
  with user_token_roundtrip [OF sample_lib_lawful sample_rng_sound(1) f] show ?thesis by blast
qed

section \<open>Renaming the legacy backend\<close>

lemma rename_tokens_unique:
  assumes "unique_on token_key t" and "\<forall>x \<in> set t. ut_BackendID x \<noteq> ''mcpbridge''"
  shows "unique_on token_key (map rename_token t)"
proof -
  have "inj_on (\<lambda>x. token_key (rename_token x)) (set t)"
  proof (rule inj_onI)
    fix x y
    assume xy: "x \<in> set t" "y \<in> set t" and k: "token_key (rename_token x) = token_key (rename_token y)"
    from k assms(2) xy have "token_key x = token_key y"
      by (auto simp: token_key_def rename_token_def split: if_splits)
    with unique_on_eq [OF assms(1)] xy show "x = y" by blast
  qed
  then show ?thesis using assms(1) by (simp add: unique_on_def distinct_map comp_def)
qed

lemma rename_backends_unique:
  assumes "unique_on be_ID t" and "''mcpbridge'' \<notin> be_ID ` set t"
  shows "unique_on be_ID (map rename_backend t)"
proof -
  have "inj_on (\<lambda>x. be_ID (rename_backend x)) (set t)"
  proof (rule inj_onI)
    fix x y
    assume xy: "x \<in> set t" "y \<in> set t" and k: "be_ID (rename_backend x) = be_ID (rename_backend y)"
    from k imageI [OF xy(1), of be_ID] imageI [OF xy(2), of be_ID] assms(2) have "be_ID x = be_ID y"
      by (auto simp: rename_backend_def split: if_splits)
    with unique_on_eq [OF assms(1)] xy show "x = y" by blast
  qed
  then show ?thesis using assms(1) by (simp add: unique_on_def distinct_map comp_def)
qed

lemma token_store_ok: "site_ok (st_db token_store)" "fault_free (st_db token_store)"
  by (simp_all add: token_store_def approvals_db_def)
    (simp add: site_ok_def db_ok_def core_ok_def keys_ok_def refs_ok_def empty_db_def empty_core_def unique_on_def
      fk_ok_def backend_ids_def user_ids_def sample_approval_def)

text \<open>A token is stored for a user, and the user is deleted: the token goes with him.\<close>

theorem site_reachable_ok_witness:
  "\<exists>t db1 db2. Store_SetUserToken t (st_db token_store) = Inr db1 \<and> Store_DeleteUser ''bob'' db1 = Inr db2 \<and>
     length (ct_user_tokens (db_core db1)) = 1 \<and> ct_user_tokens (db_core db2) = [] \<and> site_ok db1 \<and> site_ok db2"
proof -
  let ?t = "\<lparr>ut_UserID = ''bob'', ut_BackendID = ''gh'', ut_EnvKey = ''K'', ut_Value = ''v'', ut_Encrypted = [], ut_EncryptedDEK = [],
     ut_EncryptionType = ''legacy''\<rparr>"
  let ?db1 = "core_upd (\<lambda>c. c\<lparr>ct_user_tokens := [?t]\<rparr>) (st_db token_store)"
  let ?s1 = "token_store\<lparr>st_db := ?db1\<rparr>"
  have "ct_user_tokens (db_core (st_db token_store)) = []" by (simp add: token_store_def approvals_db_def empty_db_def empty_core_def)
  then have one: "Store_SetUserToken ?t (st_db token_store) = Inr ?db1"
    using token_store_ok(2)
    by (simp add: Store_SetUserToken_def put_token_def replace_row_def has_user_def has_backend_def core_upd_def)
      (simp add: token_store_def approvals_db_def)
  have "fault_free ?db1" using token_store_ok(2) by (simp add: core_upd_def)
  from user_deleted [OF this, of "''bob''"] obtain db2 where two: "Store_DeleteUser ''bob'' ?db1 = Inr db2" "ct_user_tokens (db_core db2) = []"
    by (auto simp: core_upd_def)
  have r1: "site_reachable token_store ?s1"
    by (rule site_reachable.step [OF site_reachable.start], rule site_step.SetToken [of ?t]) (simp add: one)
  have "site_reachable token_store (?s1\<lparr>st_db := db2\<rparr>)"
    by (rule site_reachable.step [OF r1], rule site_step.DeleteUser [of "''bob''"]) (simp add: two(1))
  from site_reachable_ok [OF this] site_reachable_ok [OF r1] token_store_ok(1) have "site_ok db2" "site_ok ?db1" by simp_all
  moreover have "length (ct_user_tokens (db_core ?db1)) = 1" by (simp add: core_upd_def)
  ultimately show ?thesis using one two by blast
qed

text \<open>on a consistent database whose only system backend is the legacy \<open>default\<close>, \<open>MigrateDefaultBackend\<close> renames
  it and moves its tokens, but whatever the other tables hold for \<open>default\<close> (cached capabilities here) keeps
  referring to a backend that no longer exists: the database is inconsistent from then on.\<close>

theorem default_migration_dangles:
  assumes "fault_free db" and "site_ok db" and "has_backend db ''default''" and "\<not> has_backend db ''mcpbridge''"
    and "r \<in> set (ct_capabilities (db_core db))" and "cr_BackendID r = ''default''"
  shows "\<exists>db'. Store_MigrateDefaultBackend db = (None, db') \<and> has_backend db' ''mcpbridge'' \<and>
    ct_user_tokens (db_core db') = map rename_token (ct_user_tokens (db_core db)) \<and>
    r \<in> set (ct_capabilities (db_core db')) \<and> \<not> site_ok db'"
proof -
  let ?t = "map rename_token (ct_user_tokens (db_core db))" and ?b = "map rename_backend (db_backends db)"
  let ?d = "core_upd (\<lambda>c. c\<lparr>ct_user_tokens := ?t\<rparr>) db"
  obtain d where d: "d \<in> set (db_backends db)" "be_ID d = ''default''" using assms(3) by (auto simp: has_backend_def)
  then have n: "count_rows (\<lambda>b. be_ID b = ''default'') (db_backends db) \<noteq> 0"
    by (auto simp: count_rows_def filter_empty_conv)
  have "\<forall>x \<in> set (ct_user_tokens (db_core db)). ut_BackendID x \<noteq> ''mcpbridge''"
    using site_ok_keys(5) [OF assms(2)] assms(4) by (fastforce simp: refs_ok_def fk_ok_def has_backend_ids)
  moreover have "unique_on token_key (ct_user_tokens (db_core db))"
    using site_ok_keys(4) [OF assms(2)] by (simp add: keys_ok_def)
  ultimately have t: "distinct (map token_key ?t)"
    using rename_tokens_unique unfolding unique_on_def by blast
  have b: "distinct (map be_ID ?b)"
    using rename_backends_unique [OF site_ok_keys(3) [OF assms(2)]] assms(4) by (simp add: unique_on_def has_backend_def)
  have "fault_free ?d" using assms(1) by (simp add: core_upd_def)
  with assms(1) n t b have m: "Store_MigrateDefaultBackend db = (None, ?d\<lparr>db_backends := ?b\<rparr>)"
    by (simp add: Store_MigrateDefaultBackend_def Let_def del: map_map)
  have "''default'' \<notin> backend_ids (?d\<lparr>db_backends := ?b\<rparr>)"
    by (auto simp: backend_ids_def rename_backend_def)
  then have "\<not> site_ok (?d\<lparr>db_backends := ?b\<rparr>)"
    using assms(5,6) by (auto simp: site_ok_def core_ok_def refs_ok_def fk_ok_def)
  moreover have "has_backend (?d\<lparr>db_backends := ?b\<rparr>) ''mcpbridge''"
    unfolding has_backend_def
    by (rule image_eqI [of _ _ "rename_backend d"]) (use d in \<open>simp_all add: rename_backend_def\<close>)
  ultimately show ?thesis using m assms(5) by simp
qed

definition legacy_db :: db where
  "legacy_db = (st_db token_store)\<lparr>db_users := [], db_approvals := [], db_backends := map (\<lambda>b. b\<lparr>be_ID := ''default''\<rparr>)
     (db_backends (st_db token_store)), db_core := empty_core\<lparr>ct_capabilities := [\<lparr>cr_BackendID = ''default'', cr_Tools = ''[]'',
     cr_ToolCount = 0, cr_UpdatedAt = 0\<rparr>]\<rparr>\<rparr>"

lemma legacy_db_ok: "site_ok legacy_db" "fault_free legacy_db"
  by (simp_all add: legacy_db_def token_store_def approvals_db_def)
    (simp add: site_ok_def db_ok_def core_ok_def keys_ok_def refs_ok_def empty_db_def empty_core_def unique_on_def
      fk_ok_def backend_ids_def)

theorem default_migration_dangles_witness:
  "\<exists>db'. Store_MigrateDefaultBackend legacy_db = (None, db') \<and> site_ok legacy_db \<and> \<not> site_ok db'"
proof -
  let ?r = "\<lparr>cr_BackendID = ''default'', cr_Tools = ''[]'', cr_ToolCount = 0, cr_UpdatedAt = 0\<rparr>"
  have "has_backend legacy_db ''default''" "\<not> has_backend legacy_db ''mcpbridge''" "?r \<in> set (ct_capabilities (db_core legacy_db))"
    by (simp_all add: has_backend_def legacy_db_def token_store_def)
  with default_migration_dangles [OF legacy_db_ok(2,1), of ?r] legacy_db_ok(1) show ?thesis by fastforce
qed

end
