(* ===== verification/Pool.thy ===== *)
theory Pool
  imports Process "HOL-Library.Multiset" "HOL-Library.Char_ord" "HOL-Library.List_Lexorder"
begin

text \<open>
  A pool of backend processes (src/poolmgr/pool.go). The record \<open>Pool\<close> is the struct. Its goroutines are counted:
  \<open>po_tasks\<close> runs of \<open>spawnAndHandshake\<close> that have not yet taken a slot of the channel \<open>Spawning\<close>,
  \<open>po_inflight\<close> runs that hold one, and \<open>po_retries\<close> timers that will start another run. The channel \<open>Warm\<close> is
  its buffer and the values of the senders blocked on it; such a sender is a run of \<open>spawnAndHandshake\<close> that keeps
  its slot. One run takes effect at two instants, when it takes a slot and when its process is ready or has failed.
  Killed processes are listed by identifier in \<open>po_killed\<close>.
\<close>

section \<open>Channels\<close>

record 'a chan =
  ch_buf :: "'a list"
  ch_cap :: nat
  ch_senders :: "'a list"
  ch_closed :: bool

definition make_chan :: "nat \<Rightarrow> 'a chan" where
  "make_chan n = \<lparr>ch_buf = [], ch_cap = n, ch_senders = [], ch_closed = False\<rparr>"

text \<open>A send panics on a closed channel (\<open>None\<close>) and blocks on a full one.\<close>

definition ch_send :: "'a \<Rightarrow> 'a chan \<Rightarrow> 'a chan option" where
  "ch_send v c =
     (if ch_closed c then None
      else if length (ch_buf c) < ch_cap c then Some (c\<lparr>ch_buf := ch_buf c @ [v]\<rparr>)
      else Some (c\<lparr>ch_senders := ch_senders c @ [v]\<rparr>))"

text \<open>A send in a \<open>select\<close> with a default: whether it happened.\<close>

definition ch_try_send :: "'a \<Rightarrow> 'a chan \<Rightarrow> (bool \<times> 'a chan) option" where
  "ch_try_send v c =
     (if ch_closed c then None
      else if length (ch_buf c) < ch_cap c then Some (True, c\<lparr>ch_buf := ch_buf c @ [v]\<rparr>)
      else Some (False, c))"

datatype 'a received = Value 'a | ZeroValue | NothingReady

text \<open>A receive in a \<open>select\<close> with a default; it lets the first blocked sender proceed. From a closed and empty
  channel the zero value is received.\<close>

definition ch_try_recv :: "'a chan \<Rightarrow> 'a received \<times> 'a chan" where
  "ch_try_recv c =
     (case ch_buf c of
        v # vs \<Rightarrow>
          (Value v, (case ch_senders c of
              [] \<Rightarrow> c\<lparr>ch_buf := vs\<rparr>
            | w # ws \<Rightarrow> c\<lparr>ch_buf := vs @ [w], ch_senders := ws\<rparr>))
      | [] \<Rightarrow> ((if ch_closed c then ZeroValue else NothingReady), c))"

text \<open>The contract of a bounded channel, which the pools rely on.\<close>

locale bounded_channel =
  fixes contents :: "'c \<Rightarrow> 'a list"
    and send :: "'a \<Rightarrow> 'c \<Rightarrow> 'c option"
    and recv :: "'c \<Rightarrow> 'a received \<times> 'c"
    and wf :: "'c \<Rightarrow> bool"
    and open_chan :: "'c \<Rightarrow> bool"
  assumes send_contents: "wf c \<Longrightarrow> send v c = Some c' \<Longrightarrow> contents c' = contents c @ [v]"
    and send_open: "send v c = None \<longleftrightarrow> \<not> open_chan c"
    and send_keeps: "send v c = Some c' \<Longrightarrow> wf c \<Longrightarrow> wf c' \<and> open_chan c'"
    and recv_contents: "wf c \<Longrightarrow> contents c = v # vs \<Longrightarrow> fst (recv c) = Value v \<and> contents (snd (recv c)) = vs"
    and recv_keeps: "wf c \<Longrightarrow> wf (snd (recv c)) \<and> (open_chan (snd (recv c)) \<longleftrightarrow> open_chan c)"
begin

fun send_all :: "'a list \<Rightarrow> 'c \<Rightarrow> 'c option" where
  "send_all [] c = Some c"
| "send_all (v # vs) c = (case send v c of None \<Rightarrow> None | Some c \<Rightarrow> send_all vs c)"

fun recv_all :: "nat \<Rightarrow> 'c \<Rightarrow> 'a received list \<times> 'c" where
  "recv_all 0 c = ([], c)"
| "recv_all (Suc n) c = (let (r, c) = recv c; (rs, c) = recv_all n c in (r # rs, c))"

lemma send_all_contents:
  "send_all vs c = Some c' \<Longrightarrow> wf c \<Longrightarrow> contents c' = contents c @ vs \<and> wf c'"
proof (induction vs arbitrary: c)
  case (Cons v vs)
  then obtain d where d: "send v c = Some d" "send_all vs d = Some c'" by (auto split: option.splits)
  from Cons.IH [OF d(2)] send_keeps [OF d(1)] send_contents [OF Cons.prems(2) d(1)] Cons.prems(2) show ?case by simp
qed simp

lemma recv_all_contents: "wf c \<Longrightarrow> contents c = vs \<Longrightarrow> fst (recv_all (length vs) c) = map Value vs"
proof (induction vs arbitrary: c)
  case (Cons v vs)
  then have "fst (recv c) = Value v" "contents (snd (recv c)) = vs" "wf (snd (recv c))"
    using recv_contents recv_keeps by blast+
  with Cons.IH [of "snd (recv c)"] show ?case by (simp add: split_beta Let_def)
qed simp

lemma fifo:
  "wf c \<Longrightarrow> contents c = [] \<Longrightarrow> send_all vs c = Some c' \<Longrightarrow> fst (recv_all (length vs) c') = map Value vs"
  using send_all_contents recv_all_contents by (metis append_Nil)

end

definition chan_contents :: "'a chan \<Rightarrow> 'a list" where
  "chan_contents c = ch_buf c @ ch_senders c"

definition chan_wf :: "'a chan \<Rightarrow> bool" where
  "chan_wf c \<longleftrightarrow> 0 < ch_cap c \<and> length (ch_buf c) \<le> ch_cap c \<and>
     (ch_senders c \<noteq> [] \<longrightarrow> length (ch_buf c) = ch_cap c)"

interpretation ch: bounded_channel chan_contents ch_send ch_try_recv chan_wf "\<lambda>c. \<not> ch_closed c"
proof unfold_locales
  fix c :: "'a chan" and v vs
  assume "chan_wf c" and "chan_contents c = v # vs"
  then show "fst (ch_try_recv c) = Value v \<and> chan_contents (snd (ch_try_recv c)) = vs"
    by (cases "ch_buf c") (auto simp: ch_try_recv_def chan_contents_def chan_wf_def split: list.splits)
qed (auto simp: ch_send_def ch_try_recv_def chan_contents_def chan_wf_def split: if_splits list.splits)

section \<open>The pool\<close>

text \<open>A pending request: the response channel has room for one response (\<open>pq_response\<close>); \<open>pq_timer\<close> names
  the timer started with it.\<close>

record PendingRequest =
  pq_ID :: string
  pq_response :: "string option"
  pq_closed :: bool
  pq_timer :: nat

record Pool =
  po_Warm :: "ManagedProcess chan"
  po_spawningCap :: nat
  po_Command :: string
  po_Env :: "string list option"
  po_EnvHash :: string
  po_backoffDelay :: duration
  po_tasks :: nat
  po_inflight :: nat
  po_retries :: nat
  po_pendingRequests :: "(string, PendingRequest) gomap"
  po_timers :: "(nat, string) gomap"
  po_nextTimer :: nat
  po_broadcastCh :: "string chan"
  po_closed :: bool
  po_BackendID :: string
  po_MinPoolSize :: int
  po_MaxPoolSize :: int
  po_CurrentSize :: int
  po_activeCount :: int
  po_dedicatedUser :: string
  po_lastUsed :: gotime
  po_Instructions :: string
  po_spawnAttempts :: int
  po_maxSpawnAttempts :: int
  po_lastFailureReason :: string
  po_secretInjector :: "string option"
  po_StdioFraming :: string
  po_killed :: "int list"

definition defaultSpawnChannel :: nat where
  "defaultSpawnChannel = 10"

definition defaultMaxSpawnAttempts :: int where
  "defaultMaxSpawnAttempts = 3"

definition millisecond :: duration where
  "millisecond = 1000000"

definition second :: duration where
  "second = 1000 * millisecond"

text \<open>The sort of \<open>hashEnv\<close>: for every \<open>i\<close>, every later \<open>j\<close> is compared with \<open>i\<close> and swapped.\<close>

definition swap_if_greater :: "nat \<Rightarrow> nat \<Rightarrow> string list \<Rightarrow> string list" where
  "swap_if_greater i j xs = (if xs ! i > xs ! j then xs[i := xs ! j, j := xs ! i] else xs)"

definition exchange_sort :: "string list \<Rightarrow> string list" where
  "exchange_sort xs =
     fold (\<lambda>i. fold (swap_if_greater i) [Suc i..<length xs]) [0..<length xs] xs"

definition hashEnv :: "string list \<Rightarrow> string" where
  "hashEnv env = concat (map (\<lambda>e. e @ ''|'') (exchange_sort env))"

text \<open>A nil environment hashes like an empty one.\<close>

definition env_list :: "string list option \<Rightarrow> string list" where
  "env_list env = (case env of None \<Rightarrow> [] | Some e \<Rightarrow> e)"

definition NewPoolWithEnv :: "gotime \<Rightarrow> string \<Rightarrow> int \<Rightarrow> int \<Rightarrow> string \<Rightarrow> string list option \<Rightarrow> Pool" where
  "NewPoolWithEnv now backendID minPoolSize maxPoolSize command env =
     (let maxPoolSize = (if maxPoolSize = 0 then minPoolSize else maxPoolSize);
          warmChannelSize = (if maxPoolSize < 1 then 1 else maxPoolSize)
      in \<lparr>po_Warm = make_chan (nat warmChannelSize), po_spawningCap = defaultSpawnChannel, po_Command = command,
          po_Env = env, po_EnvHash = hashEnv (env_list env), po_backoffDelay = 100 * millisecond,
          po_tasks = nat minPoolSize, po_inflight = 0, po_retries = 0, po_pendingRequests = [], po_timers = [],
          po_nextTimer = 0, po_broadcastCh = make_chan 100, po_closed = False, po_BackendID = backendID,
          po_MinPoolSize = minPoolSize, po_MaxPoolSize = maxPoolSize, po_CurrentSize = 0, po_activeCount = 0,
          po_dedicatedUser = [], po_lastUsed = now, po_Instructions = [], po_spawnAttempts = 0,
          po_maxSpawnAttempts = defaultMaxSpawnAttempts, po_lastFailureReason = [], po_secretInjector = None,
          po_StdioFraming = [], po_killed = []\<rparr>)"

definition NewPool :: "gotime \<Rightarrow> string \<Rightarrow> int \<Rightarrow> string \<Rightarrow> Pool" where
  "NewPool now backendID sz command = NewPoolWithEnv now backendID sz sz command None"

definition NewPoolWithSecrets ::
    "gotime \<Rightarrow> string \<Rightarrow> int \<Rightarrow> int \<Rightarrow> string \<Rightarrow> string list option \<Rightarrow> string \<Rightarrow> Pool" where
  "NewPoolWithSecrets now backendID minPoolSize maxPoolSize command env secretsPath =
     (NewPoolWithEnv now backendID minPoolSize maxPoolSize command env)\<lparr>po_secretInjector := Some secretsPath\<rparr>"

definition SetDedicated :: "string \<Rightarrow> Pool \<Rightarrow> Pool" where
  "SetDedicated userID p = p\<lparr>po_dedicatedUser := userID\<rparr>"

definition IsDedicated :: "Pool \<Rightarrow> bool" where
  "IsDedicated p \<longleftrightarrow> po_dedicatedUser p \<noteq> []"

definition IsUnavailable :: "Pool \<Rightarrow> bool" where
  "IsUnavailable p = (if po_maxSpawnAttempts p = 0 then False else po_spawnAttempts p \<ge> po_maxSpawnAttempts p)"

definition ResetSpawnAttempts :: "Pool \<Rightarrow> Pool" where
  "ResetSpawnAttempts p =
     (let reset = (po_spawnAttempts p \<ge> po_maxSpawnAttempts p);
          p = p\<lparr>po_spawnAttempts := 0\<rparr>
      in if reset then p\<lparr>po_tasks := Suc (po_tasks p)\<rparr> else p)"

definition ForceReconnect :: "Pool \<Rightarrow> Pool" where
  "ForceReconnect p = ResetSpawnAttempts p"

definition EnvMatches :: "string list option \<Rightarrow> Pool \<Rightarrow> bool" where
  "EnvMatches env p \<longleftrightarrow> po_EnvHash p = hashEnv (env_list env)"

definition TouchLastUsed :: "gotime \<Rightarrow> Pool \<Rightarrow> Pool" where
  "TouchLastUsed now p = p\<lparr>po_lastUsed := now\<rparr>"

definition IncrementActive :: "Pool \<Rightarrow> Pool" where
  "IncrementActive p = p\<lparr>po_activeCount := goadd (po_activeCount p) 1\<rparr>"

definition DecrementActive :: "Pool \<Rightarrow> Pool" where
  "DecrementActive p = p\<lparr>po_activeCount := gosub (po_activeCount p) 1\<rparr>"

section \<open>Requests and responses\<close>

text \<open>A request is registered with a timer of 30 seconds, number \<open>pq_timer\<close>. A registration under an identifier
  in use replaces the request; the old timer goes on.\<close>

definition RegisterRequest :: "string \<Rightarrow> Pool \<Rightarrow> Pool" where
  "RegisterRequest i p =
     (let t = po_nextTimer p
      in p\<lparr>po_nextTimer := Suc t, po_timers := AList.update t i (po_timers p),
           po_pendingRequests := AList.update i
             \<lparr>pq_ID = i, pq_response = None, pq_closed = False, pq_timer = t\<rparr> (po_pendingRequests p)\<rparr>)"

definition UnregisterRequest :: "string \<Rightarrow> Pool \<Rightarrow> Pool" where
  "UnregisterRequest i p =
     (case map_of (po_pendingRequests p) i of
        None \<Rightarrow> p
      | Some req \<Rightarrow> p\<lparr>po_timers := AList.delete (pq_timer req) (po_timers p),
          po_pendingRequests := AList.delete i (po_pendingRequests p)\<rparr>)"

text \<open>The timer's function: the request now registered under the identifier is closed and removed. The result is
  that request, whose waiter finds the channel closed.\<close>

definition request_timeout :: "nat \<Rightarrow> Pool \<Rightarrow> PendingRequest option \<times> Pool" where
  "request_timeout t p =
     (case map_of (po_timers p) t of
        None \<Rightarrow> (None, p)
      | Some i \<Rightarrow>
          (let p = p\<lparr>po_timers := AList.delete t (po_timers p)\<rparr>
           in case map_of (po_pendingRequests p) i of
                None \<Rightarrow> (None, p)
              | Some req \<Rightarrow> (Some (req\<lparr>pq_closed := True\<rparr>),
                  p\<lparr>po_pendingRequests := AList.delete i (po_pendingRequests p)\<rparr>)))"

text \<open>One round of \<open>responseDispatcher\<close>; a response that finds the channel full is dropped.\<close>

definition dispatch_response :: "json_lib \<Rightarrow> (json \<Rightarrow> string) \<Rightarrow> string \<Rightarrow> Pool \<Rightarrow> Pool" where
  "dispatch_response jl show_v data p =
     (case jl_Unmarshal jl data of
        Inl _ \<Rightarrow> p
      | Inr v \<Rightarrow>
          (case decode_response v of
             None \<Rightarrow> p
           | Some resp \<Rightarrow>
               if rr_ID resp = JNull then p
               else let i = show_v (rr_ID resp)
                    in case map_of (po_pendingRequests p) i of
                         None \<Rightarrow> p
                       | Some req \<Rightarrow>
                           if pq_response req = None
                           then p\<lparr>po_pendingRequests := AList.update i (req\<lparr>pq_response := Some data\<rparr>) (po_pendingRequests p)\<rparr>
                           else p))"

definition BroadcastToSSE :: "string \<Rightarrow> Pool \<Rightarrow> Pool option" where
  "BroadcastToSSE data p = map_option (\<lambda>(_, c). p\<lparr>po_broadcastCh := c\<rparr>) (ch_try_send data (po_broadcastCh p))"

section \<open>The handshake\<close>

text \<open>How the \<open>select\<close> of a waiter ends. The request was registered at \<open>t0\<close>, so its channel is closed at
  \<open>t0\<close> plus 30 seconds; the \<open>select\<close> with its own timer of length \<open>d\<close> begins at \<open>t1\<close>; \<open>reply\<close> is the instant
  and text of the response, if the process sends one. A response after the registration has expired is dropped. When
  both timers fire at one instant the runtime may choose; the model takes the waiter's timer.\<close>

datatype chan_event = Received string | ChanClosed | TimerFired

definition requestTimeout :: duration where
  "requestTimeout = 30 * second"

definition handshakeTimeout :: duration where
  "handshakeTimeout = 30 * second"

definition await_response :: "gotime \<Rightarrow> gotime \<Rightarrow> duration \<Rightarrow> (gotime \<times> string) option \<Rightarrow> chan_event" where
  "await_response t0 t1 d reply =
     (let closes = t0 + requestTimeout; fires = t1 + d;
          quiet = (if closes < fires then ChanClosed else TimerFired)
      in case reply of
           None \<Rightarrow> quiet
         | Some (t, data) \<Rightarrow> if t < closes \<and> t < fires then Received data else quiet)"

definition init_message :: "string \<Rightarrow> string \<Rightarrow> JSONRPCMessage" where
  "init_message initID client = \<lparr>rm_JSONRPC = ''2.0'', rm_Method = ''initialize'',
     rm_Params = JObj [(''protocolVersion'', JStr ''2024-11-05''), (''capabilities'', JObj []),
       (''clientInfo'', JObj [(''name'', JStr client), (''version'', JStr ''1.0.0'')])],
     rm_ID = JStr initID\<rparr>"

definition initialized_message :: JSONRPCMessage where
  "initialized_message = \<lparr>rm_JSONRPC = ''2.0'', rm_Method = ''notifications/initialized'', rm_Params = JNull, rm_ID = JNull\<rparr>"

text \<open>What is written to the process, in the pool's framing.\<close>

definition frame :: "string \<Rightarrow> string \<Rightarrow> string" where
  "frame framing body = (if framing = ''content_length'' then formatMCPPacket body else body @ [CHR 0x0A])"

definition instructions_of :: "json_lib \<Rightarrow> string \<Rightarrow> string" where
  "instructions_of jl resp =
     (if resp = [] then []
      else case jl_Unmarshal jl resp of
             Inl _ \<Rightarrow> []
           | Inr v \<Rightarrow>
               (case Option.bind (top_fields v) (object_field ''result'') of
                  None \<Rightarrow> []
                | Some r \<Rightarrow> (case string_field ''instructions'' r of None \<Rightarrow> [] | Some s \<Rightarrow> s)))"

text \<open>The request is registered before and removed after, so the pending requests are as they were. The result
  is whether the handshake succeeded, what the process was sent, and the pool with the instructions kept.\<close>

definition performMCPHandshake ::
    "json_lib \<Rightarrow> string \<Rightarrow> chan_event \<Rightarrow> Pool \<Rightarrow> bool \<times> string list \<times> Pool" where
  "performMCPHandshake jl initID ev p =
     (let init = frame (po_StdioFraming p) (jl_Marshal jl (encode_message (init_message initID ''mcp-bridge'')));
          notif = frame (po_StdioFraming p) (jl_Marshal jl (encode_message initialized_message))
      in case ev of
           TimerFired \<Rightarrow> (False, [init], p)
         | ChanClosed \<Rightarrow> (True, [init, notif], p)
         | Received resp \<Rightarrow>
             (True, [init, notif],
              if instructions_of jl resp = [] then p else p\<lparr>po_Instructions := instructions_of jl resp\<rparr>))"

section \<open>Spawning\<close>

definition dmin :: "duration \<Rightarrow> duration \<Rightarrow> duration" where
  "dmin a b = (if a < b then a else b)"

definition spawning_tokens :: "Pool \<Rightarrow> nat" where
  "spawning_tokens p = po_inflight p + length (ch_senders (po_Warm p))"

text \<open>The first half of \<open>spawnAndHandshake\<close>: a closed pool ends the run, a full \<open>Spawning\<close> channel starts it anew
  after 100 milliseconds, otherwise it takes a slot.\<close>

definition spawn_begin :: "Pool \<Rightarrow> Pool" where
  "spawn_begin p =
     (if po_closed p then p\<lparr>po_tasks := po_tasks p - 1\<rparr>
      else if spawning_tokens p < po_spawningCap p
      then p\<lparr>po_tasks := po_tasks p - 1, po_inflight := Suc (po_inflight p)\<rparr>
      else p)"

definition backoff :: "Pool \<Rightarrow> Pool" where
  "backoff p = p\<lparr>po_backoffDelay := dmin (gomul (po_backoffDelay p) 2) (5 * second)\<rparr>"

definition reset_backoff :: "Pool \<Rightarrow> Pool" where
  "reset_backoff p = p\<lparr>po_backoffDelay := 100 * millisecond\<rparr>"

definition attempts_exhausted :: "Pool \<Rightarrow> bool" where
  "attempts_exhausted p \<longleftrightarrow> po_maxSpawnAttempts p > 0 \<and> po_spawnAttempts p \<ge> po_maxSpawnAttempts p"

text \<open>A process that could not be started: count the attempt, double the delay, retry unless the attempts are used up.\<close>

definition spawn_failed :: "Pool \<Rightarrow> Pool" where
  "spawn_failed p =
     (if po_closed p then p
      else let p = backoff (p\<lparr>po_spawnAttempts := goadd (po_spawnAttempts p) 1\<rparr>)
           in if attempts_exhausted p then p else p\<lparr>po_retries := Suc (po_retries p)\<rparr>)"

definition add_warm :: "ManagedProcess \<Rightarrow> Pool \<Rightarrow> Pool option" where
  "add_warm proc p = map_option (\<lambda>w. p\<lparr>po_CurrentSize := goadd (po_CurrentSize p) 1, po_Warm := w\<rparr>) (ch_send proc (po_Warm p))"

text \<open>A process that failed the handshake. If it is known to have exited it is not retried; otherwise the
  attempt counts, and the delay doubles only when there is a retry.\<close>

definition handshake_failed :: "ManagedProcess \<Rightarrow> Pool \<Rightarrow> Pool" where
  "handshake_failed proc p =
     (let p = p\<lparr>po_killed := Kill proc (po_killed p)\<rparr>;
          stderr = mp_StderrBuf proc
      in if mp_ProcessState proc = Some True
         then reset_backoff (p\<lparr>po_lastFailureReason :=
                (if stderr \<noteq> [] then TrimSpace stderr else ''process exited immediately (no stderr output)'')\<rparr>)
         else let p = p\<lparr>po_lastFailureReason :=
                    (if stderr \<noteq> [] then TrimSpace stderr
                     else ''handshake timeout (process may be downloading or waiting for auth)''),
                    po_spawnAttempts := goadd (po_spawnAttempts p) 1\<rparr>
              in if attempts_exhausted p then p
                 else let p = backoff p in if po_closed p then p else p\<lparr>po_retries := Suc (po_retries p)\<rparr>)"

text \<open>The second half of \<open>spawnAndHandshake\<close>, with the outcome of \<open>SpawnProcess\<close> and of the handshake's wait. A run
  whose send on \<open>Warm\<close> blocks keeps its slot as a blocked sender. \<open>None\<close> is the panic of a send on a closed channel.\<close>

definition spawn_finish ::
    "json_lib \<Rightarrow> string \<Rightarrow> goerr + ManagedProcess \<Rightarrow> chan_event \<Rightarrow> Pool \<Rightarrow> Pool option" where
  "spawn_finish jl initID spawned ev p =
     (let p = p\<lparr>po_inflight := po_inflight p - 1\<rparr>
      in case spawned of
           Inl _ \<Rightarrow> Some (spawn_failed p)
         | Inr proc \<Rightarrow>
             if po_closed p then Some (p\<lparr>po_killed := Kill proc (po_killed p)\<rparr>)
             else if isSimpleCommand (po_Command p) then map_option reset_backoff (add_warm proc p)
             else (case performMCPHandshake jl initID ev p of
                     (True, _, p) \<Rightarrow> map_option (\<lambda>p. reset_backoff (p\<lparr>po_spawnAttempts := 0\<rparr>)) (add_warm proc p)
                   | (False, _, p) \<Rightarrow> Some (handshake_failed proc p)))"

text \<open>A retry timer fires.\<close>

definition retry_fires :: "Pool \<Rightarrow> Pool" where
  "retry_fires p = p\<lparr>po_retries := po_retries p - 1, po_tasks := Suc (po_tasks p)\<rparr>"

section \<open>Acquiring and releasing processes\<close>

text \<open>The zero value of a closed channel is a nil process, on which \<open>IsAlive\<close> panics (\<open>None\<close>).\<close>

definition TryAcquireWarm :: "Pool \<Rightarrow> (ManagedProcess option \<times> Pool) option" where
  "TryAcquireWarm p =
     (case ch_try_recv (po_Warm p) of
        (NothingReady, _) \<Rightarrow> Some (None, p)
      | (ZeroValue, _) \<Rightarrow> None
      | (Value proc, w) \<Rightarrow>
          if \<not> IsAlive proc then Some (None, p\<lparr>po_Warm := w, po_killed := Kill proc (po_killed p)\<rparr>)
          else Some (Some proc, p\<lparr>po_Warm := w, po_CurrentSize := gosub (po_CurrentSize p) 1\<rparr>))"

definition ReleaseWarm :: "ManagedProcess option \<Rightarrow> Pool \<Rightarrow> Pool option" where
  "ReleaseWarm proc p =
     (case proc of
        None \<Rightarrow> Some p
      | Some proc \<Rightarrow>
          (let p = p\<lparr>po_CurrentSize := goadd (po_CurrentSize p) 1\<rparr>
           in map_option (\<lambda>(sent, w). if sent then p\<lparr>po_Warm := w\<rparr> else p\<lparr>po_killed := Kill proc (po_killed p)\<rparr>)
                (ch_try_send proc (po_Warm p))))"

definition SetWarm :: "ManagedProcess \<Rightarrow> Pool \<Rightarrow> Pool option" where
  "SetWarm proc p = add_warm proc p"

text \<open>The bare send \<open>pool.Warm <- proc\<close> of several callers, which does not count the process.\<close>

definition put_back :: "ManagedProcess \<Rightarrow> Pool \<Rightarrow> Pool option" where
  "put_back proc p = map_option (\<lambda>w. p\<lparr>po_Warm := w\<rparr>) (ch_send proc (po_Warm p))"

definition WarmCount :: "Pool \<Rightarrow> int" where
  "WarmCount p = int (length (ch_buf (po_Warm p)))"

definition IsReady :: "Pool \<Rightarrow> (bool \<times> Pool) option" where
  "IsReady p =
     (case ch_try_recv (po_Warm p) of
        (NothingReady, _) \<Rightarrow> Some (False, p)
      | (ZeroValue, _) \<Rightarrow> None
      | (Value proc, w) \<Rightarrow> map_option (Pair (mp_isWarm proc)) (put_back proc (p\<lparr>po_Warm := w\<rparr>)))"

definition IsSpawning :: "Pool \<Rightarrow> bool" where
  "IsSpawning p \<longleftrightarrow> \<not> spawning_tokens p < po_spawningCap p"

definition unavailable_error :: "Pool \<Rightarrow> goerr" where
  "unavailable_error p =
     (if po_lastFailureReason p \<noteq> [] then ErrNew (''backend unavailable: '' @ po_BackendID p @ '': '' @ po_lastFailureReason p)
      else ErrNew (''backend unavailable: '' @ po_BackendID p))"

text \<open>The polling loop of \<open>WaitForWarmWithMax\<close>. Before each poll other goroutines may have changed the pool: the
  list holds what they did before the polls that come before the deadline, and \<open>final\<close> what they did before the last check.\<close>

fun poll_warm :: "(Pool \<Rightarrow> Pool) list \<Rightarrow> (Pool \<Rightarrow> Pool) \<Rightarrow> Pool \<Rightarrow> ((goerr + ManagedProcess) \<times> Pool) option" where
  "poll_warm [] final p =
     (let p = final p
      in Some (Inl (if IsUnavailable p then unavailable_error p else ErrNew ''timeout waiting for warm process''), p))"
| "poll_warm (others # polls) final p =
     (let p = others p
      in if IsUnavailable p then Some (Inl (unavailable_error p), p)
         else case TryAcquireWarm p of
                None \<Rightarrow> None
              | Some (Some proc, p) \<Rightarrow> Some (Inr proc, p)
              | Some (None, p) \<Rightarrow> poll_warm polls final p)"

definition WaitForWarmWithMax ::
    "(Pool \<Rightarrow> Pool) list \<Rightarrow> (Pool \<Rightarrow> Pool) \<Rightarrow> Pool \<Rightarrow> ((goerr + ManagedProcess) \<times> Pool) option" where
  "WaitForWarmWithMax polls final p =
     (if IsUnavailable p then Some (Inl (unavailable_error p), p)
      else case TryAcquireWarm p of
             None \<Rightarrow> None
           | Some (Some proc, p) \<Rightarrow> Some (Inr proc, p)
           | Some (None, p) \<Rightarrow> poll_warm polls final p)"

definition GetWarmWithRetry ::
    "(Pool \<Rightarrow> Pool) list \<Rightarrow> (Pool \<Rightarrow> Pool) \<Rightarrow> Pool \<Rightarrow> ((goerr + ManagedProcess) \<times> Pool) option" where
  "GetWarmWithRetry polls final p =
     (case TryAcquireWarm p of
        None \<Rightarrow> None
      | Some (Some proc, p) \<Rightarrow> Some (Inr proc, p)
      | Some (None, p) \<Rightarrow>
          (let p = (if \<not> IsUnavailable p \<and> \<not> IsSpawning p then p\<lparr>po_tasks := Suc (po_tasks p)\<rparr> else p)
           in case WaitForWarmWithMax polls final p of
                None \<Rightarrow> None
              | Some (Inr proc, p) \<Rightarrow> Some (Inr proc, p)
              | Some (Inl err, p) \<Rightarrow>
                  if po_lastFailureReason p \<noteq> [] then Some (Inl (unavailable_error p), p) else Some (Inl err, p)))"

text \<open>\<open>WaitForWarm\<close>: whether some poll before the deadline sees a process.\<close>

definition WaitForWarm :: "Pool list \<Rightarrow> bool" where
  "WaitForWarm polls \<longleftrightarrow> list_ex (\<lambda>p. WarmCount p > 0) polls"

text \<open>\<open>Shutdown\<close> sets the flag and waits for the runs of \<open>spawnAndHandshake\<close>. Those that have not finished see the
  flag; one that is blocked on \<open>Warm\<close> does not, and the call waits as long as it is (\<open>None\<close>).\<close>

definition Shutdown :: "Pool \<Rightarrow> Pool option" where
  "Shutdown p =
     (if po_closed p then Some p
      else if ch_senders (po_Warm p) \<noteq> [] then None
      else Some (p\<lparr>po_closed := True, po_tasks := 0, po_inflight := 0, po_Warm := (po_Warm p)\<lparr>ch_closed := True\<rparr>,
             po_broadcastCh := (po_broadcastCh p)\<lparr>ch_closed := True\<rparr>\<rparr>))"

text \<open>The loop drains \<open>Warm\<close> and puts every process back. It does not end on a closed channel, and the last send
  blocks when a blocked sender has come in between (\<open>None\<close>).\<close>

definition GetProcessMemory :: "(int \<Rightarrow> goerr + int) \<Rightarrow> Pool \<Rightarrow> int list option" where
  "GetProcessMemory rss p =
     (let processes = chan_contents (po_Warm p)
      in if ch_closed (po_Warm p) \<or> length processes > ch_cap (po_Warm p) then None
         else Some (concat (map (\<lambda>proc. case GetMemoryUsage rss proc of Inl _ \<Rightarrow> [] | Inr m \<Rightarrow> [m]) processes)))"

section \<open>The hash of an environment\<close>

lemma length_swap [simp]: "length (swap_if_greater i j xs) = length xs"
  by (simp add: swap_if_greater_def)

lemma mset_swap_if_greater:
  "i < length xs \<Longrightarrow> j < length xs \<Longrightarrow> mset (swap_if_greater i j xs) = mset xs"
  by (simp add: swap_if_greater_def mset_swap)

lemma nth_swap_if_greater:
  "i < j \<Longrightarrow> j < length xs \<Longrightarrow> swap_if_greater i j xs ! k =
     (if k = i then min (xs ! i) (xs ! j) else if k = j then max (xs ! i) (xs ! j) else xs ! k)"
  by (auto simp: swap_if_greater_def nth_list_update min_def max_def)

text \<open>The inner loop puts a minimum of the positions from \<open>i\<close> on at \<open>i\<close>, and only moves elements of these positions.\<close>

lemma inner_loop:
  assumes "i < length xs" and "m \<le> length xs" and "i < m"
  shows "let ys = fold (swap_if_greater i) [Suc i..<m] xs in
    length ys = length xs \<and> mset ys = mset xs \<and> (\<forall>k. k < i \<longrightarrow> ys ! k = xs ! k) \<and>
    (\<forall>k. i < k \<and> k < m \<longrightarrow> ys ! i \<le> ys ! k)"
  using assms(2,3)
proof (induction m)
  case (Suc m)
  show ?case
  proof (cases "i = m")
    case True
    then show ?thesis by (auto simp: less_Suc_eq)
  next
    case False
    with Suc.prems have im: "i < m" by simp
    define ys where "ys = fold (swap_if_greater i) [Suc i..<m] xs"
    have IH: "length ys = length xs" "mset ys = mset xs" "\<And>k. k < i \<Longrightarrow> ys ! k = xs ! k"
      "\<And>k. i < k \<Longrightarrow> k < m \<Longrightarrow> ys ! i \<le> ys ! k"
      using Suc.IH Suc.prems im by (simp_all add: ys_def Let_def)
    have step: "fold (swap_if_greater i) [Suc i..<Suc m] xs = swap_if_greater i m ys"
      using im by (simp add: ys_def)
    have m: "m < length ys" "i < length ys" using Suc.prems im IH(1) by simp_all
    have nth: "swap_if_greater i m ys ! k =
        (if k = i then min (ys ! i) (ys ! m) else if k = m then max (ys ! i) (ys ! m) else ys ! k)" for k
      using nth_swap_if_greater [OF im m(1)] .
    show ?thesis
      unfolding step Let_def
      using IH im mset_swap_if_greater [OF m(2) m(1)]
      by (auto simp: nth less_Suc_eq min.coboundedI1 min_le_iff_disj)
  qed
qed simp

lemma exchange_sort_invariant:
  assumes "n \<le> length xs"
  shows "let ys = fold (\<lambda>i. fold (swap_if_greater i) [Suc i..<length xs]) [0..<n] xs in
    length ys = length xs \<and> mset ys = mset xs \<and>
    (\<forall>i k. i < n \<and> i < k \<and> k < length xs \<longrightarrow> ys ! i \<le> ys ! k)"
  using assms
proof (induction n)
  case (Suc n)
  define ys where "ys = fold (\<lambda>i. fold (swap_if_greater i) [Suc i..<length xs]) [0..<n] xs"
  define zs where "zs = fold (swap_if_greater n) [Suc n..<length xs] ys"
  have IH: "length ys = length xs" "mset ys = mset xs"
      "\<And>i k. i < n \<Longrightarrow> i < k \<Longrightarrow> k < length xs \<Longrightarrow> ys ! i \<le> ys ! k"
    using Suc by (simp_all add: ys_def Let_def)
  have n: "n < length ys" using Suc.prems IH(1) by simp
  have zs: "length zs = length ys" "mset zs = mset ys" "\<And>k. k < n \<Longrightarrow> zs ! k = ys ! k"
      "\<And>k. n < k \<Longrightarrow> k < length xs \<Longrightarrow> zs ! n \<le> zs ! k"
    using inner_loop [OF n, of "length xs"] n IH(1) by (simp_all add: zs_def Let_def)
  have same: "set (drop n zs) = set (drop n ys)"
  proof -
    have "take n zs = take n ys" using zs(1,3) n by (intro nth_equalityI) simp_all
    then have "mset (drop n zs) = mset (drop n ys)"
      using zs(2) by (metis append_take_drop_id mset_append union_left_cancel)
    then show ?thesis by (metis set_mset_mset)
  qed
  have below: "zs ! i \<le> zs ! k" if "i < n" "n \<le> k" "k < length xs" for i k
  proof -
    have "zs ! k \<in> set (drop n zs)"
      using that zs(1) IH(1) by (auto simp: in_set_conv_nth intro!: exI [of _ "k - n"])
    then have "zs ! k \<in> set (drop n ys)" using same by simp
    then obtain l where l: "l < length ys - n" "zs ! k = ys ! (n + l)"
      by (auto simp: in_set_conv_nth)
    then obtain j where j: "n \<le> j" "j < length ys" "zs ! k = ys ! j"
      by (metis le_add1 less_diff_conv add.commute)
    then show ?thesis using IH(1) IH(3) [of i j] zs(3) that by simp
  qed
  have le: "zs ! i \<le> zs ! k" if "i < Suc n" "i < k" "k < length xs" for i k
  proof (cases "i = n")
    case True
    then show ?thesis using zs(4) that by simp
  next
    case False
    then show ?thesis using below zs(3) IH(3) that by (cases "k < n") (simp_all add: not_less)
  qed
  show ?case using zs IH le by (simp add: ys_def [symmetric] zs_def [symmetric] Let_def)
qed simp

lemma exchange_sort_sorts: "exchange_sort xs = sort xs"
proof -
  have inv: "length (exchange_sort xs) = length xs" "mset (exchange_sort xs) = mset xs"
      "\<And>i k. i < length xs \<Longrightarrow> i < k \<Longrightarrow> k < length xs \<Longrightarrow> exchange_sort xs ! i \<le> exchange_sort xs ! k"
    using exchange_sort_invariant [of "length xs" xs] by (simp_all add: exchange_sort_def Let_def)
  then have "sorted (exchange_sort xs)"
    by (auto simp: sorted_iff_nth_mono intro: le_neq_implies_less dest: le_neq_implies_less)
  then show ?thesis using inv(2) by (metis properties_for_sort)
qed

end
