(* ===== verification/PoolRuns.thy ===== *)
theory PoolRuns
  imports Pool
begin

text \<open>
  What the pools of src/poolmgr/pool.go guarantee over time: the retries of a backend that cannot be started end, a
  pool stays well formed under every interleaving of its operations, requests get their responses, and where the
  code falls short of its comments.
\<close>

section \<open>The hash of an environment\<close>

definition entry_ok :: "string \<Rightarrow> bool" where
  "entry_ok e \<longleftrightarrow> CHR ''|'' \<notin> set e"

lemma join_inj:
  "(\<And>e. e \<in> set xs \<union> set ys \<Longrightarrow> entry_ok e) \<Longrightarrow>
   concat (map (\<lambda>e. e @ ''|'') xs) = concat (map (\<lambda>e. e @ ''|'') ys) \<Longrightarrow> xs = ys"
proof (induction xs arbitrary: ys)
  case Nil
  then show ?case by (cases ys) auto
next
  case (Cons x xs)
  then obtain y zs where ys: "ys = y # zs" by (cases ys) auto
  have ok: "CHR ''|'' \<notin> set x" "CHR ''|'' \<notin> set y"
    using Cons.prems(1) [of x] Cons.prems(1) [of y] by (auto simp: entry_ok_def ys)
  have eq: "x @ CHR ''|'' # concat (map (\<lambda>e. e @ ''|'') xs) = y @ CHR ''|'' # concat (map (\<lambda>e. e @ ''|'') zs)"
    using Cons.prems(2) by (simp add: ys)
  have "x = y" and "concat (map (\<lambda>e. e @ ''|'') xs) = concat (map (\<lambda>e. e @ ''|'') zs)"
    using separator_inj [OF eq ok] by simp_all
  moreover have "xs = zs"
    using Cons.IH [of zs] Cons.prems(1) calculation(2) by (simp add: ys)
  ultimately show ?case by (simp add: ys)
qed

text \<open>The hand-written sort of \<open>hashEnv\<close> makes the hash a faithful fingerprint of an environment: as long as no
  entry contains the separator, two environments have the same hash exactly when they are the same up to order,
  so a pool is rebuilt on every real change and never for a mere reordering.\<close>

theorem env_hash_faithful:
  assumes "\<And>e. e \<in> set env \<union> set env' \<Longrightarrow> entry_ok e"
  shows "hashEnv env = hashEnv env' \<longleftrightarrow> mset env = mset env'"
proof -
  have "hashEnv env = hashEnv env' \<longleftrightarrow> sort env = sort env'"
    using assms join_inj [of "sort env" "sort env'"] by (auto simp: hashEnv_def exchange_sort_sorts)
  also have "\<dots> \<longleftrightarrow> mset env = mset env'" by (metis mset_sort properties_for_sort sorted_sort)
  finally show ?thesis .
qed

theorem env_hash_faithful_witness: "hashEnv [''B=2'', ''A=1''] = hashEnv [''A=1'', ''B=2'']"
  by (subst env_hash_faithful) (auto simp: entry_ok_def)

lemma env_hash_collision: "hashEnv [''A=1|B=2''] = hashEnv [''A=1'', ''B=2'']"
  by (simp add: hashEnv_def exchange_sort_sorts)

section \<open>A backend that cannot be started\<close>

text \<open>The steps of a pool whose spawns all fail.\<close>

inductive fail_step :: "Pool \<Rightarrow> Pool \<Rightarrow> bool" where
  started: "0 < po_tasks p \<Longrightarrow> spawning_tokens p < po_spawningCap p \<Longrightarrow> fail_step p (spawn_begin p)"
| failed: "0 < po_inflight p \<Longrightarrow> spawn_finish jl i (Inl err) ev p = Some q \<Longrightarrow> fail_step p q"
| retried: "0 < po_retries p \<Longrightarrow> fail_step p (retry_fires p)"

inductive fail_run :: "nat \<Rightarrow> Pool \<Rightarrow> Pool \<Rightarrow> bool" where
  stop: "fail_run 0 p p"
| step: "fail_run n p q \<Longrightarrow> fail_step q r \<Longrightarrow> fail_run (Suc n) p r"

inductive_cases fail_runE: "fail_run n p q"

definition runs :: "Pool \<Rightarrow> nat" where
  "runs p = po_tasks p + po_inflight p + po_retries p"

definition effort :: "Pool \<Rightarrow> nat" where
  "effort p = 2 * po_tasks p + po_inflight p + 3 * po_retries p + 3 * (3 - nat (po_spawnAttempts p))"

text \<open>While attempts remain every failed run is followed by a retry; after that each failure ends one.\<close>

definition fail_inv :: "nat \<Rightarrow> Pool \<Rightarrow> bool" where
  "fail_inv n p \<longleftrightarrow> \<not> po_closed p \<and> po_maxSpawnAttempts p = 3 \<and> 0 \<le> po_spawnAttempts p \<and> po_spawningCap p = 10 \<and>
     ch_senders (po_Warm p) = [] \<and>
     (if po_spawnAttempts p < 3 then runs p = n else int (runs p) + po_spawnAttempts p = int n + 2)"

lemmas fail_defs = fail_inv_def runs_def spawn_begin_def spawn_finish_def spawn_failed_def backoff_def
  retry_fires_def attempts_exhausted_def spawning_tokens_def effort_def

lemma attempts_incr: "fail_inv n p \<Longrightarrow> n < 2 ^ 62 \<Longrightarrow> goadd (po_spawnAttempts p) 1 = po_spawnAttempts p + 1"
  by (rule goadd_exact) (auto simp: fail_inv_def int64_def split: if_splits)

lemma fail_step_inv:
  assumes "fail_step p q" and "fail_inv n p" and "n < 2 ^ 62"
  shows "fail_inv n q \<and> effort q < effort p"
  using assms
proof cases
  case started
  then show ?thesis using assms(2) by (auto simp: fail_defs split: if_splits)
next
  case (failed jl i err ev)
  then show ?thesis
    using assms(2) attempts_incr [OF assms(2,3)] by (auto simp: fail_defs Let_def split: if_splits)
next
  case retried
  then show ?thesis using assms(2) by (auto simp: fail_defs split: if_splits)
qed

lemma fail_run_inv:
  "fail_run k p q \<Longrightarrow> fail_inv n p \<Longrightarrow> n < 2 ^ 62 \<Longrightarrow> fail_inv n q \<and> effort q + k \<le> effort p"
proof (induction rule: fail_run.induct)
  case (step k p q r)
  then show ?case using fail_step_inv [of q r n] by fastforce
qed simp

lemma fail_step_exists:
  assumes "fail_inv n p" and "0 < runs p"
  shows "\<exists>q. fail_step p q"
proof (cases "po_inflight p = 0")
  case False
  then show ?thesis using fail_step.failed [of p _ _ _ TimerFired] by (auto simp: spawn_finish_def Let_def)
next
  case True
  with assms show ?thesis
    using fail_step.started [of p] fail_step.retried [of p] by (cases "po_tasks p = 0") (auto simp: fail_defs)
qed

text \<open>C34: Retrying ends. When no process of a new pool can be started, then however the runs, failures and timers
  interleave, the pool comes to rest after at most a bounded number of steps; a pool at rest is marked unavailable,
  and exactly the minimum size plus two attempts were made.\<close>

theorem spawn_retries_end:
  assumes "fail_run k (NewPoolWithEnv now backendID (int n) m command env) p" and "1 \<le> n" and "n < 2 ^ 62"
  shows "k \<le> 2 * n + 9 \<and>
    (if \<exists>q. fail_step p q then k < 2 * n + 9
     else IsUnavailable p \<and> po_spawnAttempts p = int n + 2)"
proof -
  let ?p0 = "NewPoolWithEnv now backendID (int n) m command env"
  have inv0: "fail_inv n ?p0" and e0: "effort ?p0 = 2 * n + 9"
    by (simp_all add: fail_defs NewPoolWithEnv_def Let_def make_chan_def defaultSpawnChannel_def
        defaultMaxSpawnAttempts_def)
  from fail_run_inv [OF assms(1) inv0 assms(3)] have inv: "fail_inv n p" and k: "effort p + k \<le> 2 * n + 9"
    by (simp_all add: e0)
  show ?thesis
  proof (cases "\<exists>q. fail_step p q")
    case True
    then obtain q where "fail_step p q" by blast
    then have "effort q < effort p" using fail_step_inv inv assms(3) by blast
    with True k show ?thesis by auto
  next
    case False
    then have "runs p = 0" using fail_step_exists [OF inv] by auto
    with inv assms(2) have "po_spawnAttempts p = int n + 2" and "po_maxSpawnAttempts p = 3"
      by (auto simp: fail_inv_def split: if_splits)
    with False k assms(2) show ?thesis by (simp add: IsUnavailable_def)
  qed
qed

text \<open>Three failures of a pool of one process, each after taking a slot and before the retry.\<close>

definition failing_pool :: "nat \<Rightarrow> nat \<Rightarrow> nat \<Rightarrow> int \<Rightarrow> duration \<Rightarrow> Pool" where
  "failing_pool t i r a d = (NewPoolWithEnv 0 ''b'' 1 1 ''none'' None)
     \<lparr>po_tasks := t, po_inflight := i, po_retries := r, po_spawnAttempts := a, po_backoffDelay := d\<rparr>"

lemmas failing_pool_simps = failing_pool_def NewPoolWithEnv_def Let_def make_chan_def defaultSpawnChannel_def
  defaultMaxSpawnAttempts_def millisecond_def second_def

lemma failing_steps:
  "fail_step (failing_pool 1 0 0 a d) (failing_pool 0 1 0 a d)"
  "fail_step (failing_pool 0 0 1 a d) (failing_pool 1 0 0 a d)"
  "0 \<le> a \<Longrightarrow> a < 2 \<Longrightarrow> 0 \<le> d \<Longrightarrow> d < second \<Longrightarrow> fail_step (failing_pool 0 1 0 a d) (failing_pool 0 0 1 (a + 1) (2 * d))"
  "0 \<le> d \<Longrightarrow> d < second \<Longrightarrow> fail_step (failing_pool 0 1 0 2 d) (failing_pool 0 0 0 3 (2 * d))"
  subgoal using fail_step.started [of "failing_pool 1 0 0 a d"]
    by (simp add: failing_pool_simps spawning_tokens_def spawn_begin_def)
  subgoal using fail_step.retried [of "failing_pool 0 0 1 a d"]
    by (simp add: failing_pool_simps retry_fires_def)
  subgoal by (rule fail_step.failed [where err = ErrNoRows and ev = TimerFired])
      (simp_all add: failing_pool_simps fail_defs goadd_def gomul_def wrap64_id int64_def dmin_def)
  subgoal by (rule fail_step.failed [where err = ErrNoRows and ev = TimerFired])
      (simp_all add: failing_pool_simps fail_defs goadd_def gomul_def wrap64_id int64_def dmin_def)
  done

lemma failing_round:
  assumes "fail_run k p (failing_pool 1 0 0 a d)" and "0 \<le> a" "a < 2" "0 \<le> d" "d < second"
  shows "fail_run (Suc (Suc (Suc k))) p (failing_pool 1 0 0 (a + 1) (2 * d))"
  by (rule fail_run.step [OF fail_run.step [OF fail_run.step [OF assms(1) failing_steps(1)] failing_steps(3)]
    failing_steps(2)]) (use assms in auto)

theorem spawn_retries_end_witness:
  "fail_run 8 (NewPoolWithEnv 0 ''b'' 1 1 ''none'' None) (failing_pool 0 0 0 3 (800 * millisecond)) \<and>
   IsUnavailable (failing_pool 0 0 0 3 (800 * millisecond))"
proof -
  have start: "NewPoolWithEnv 0 ''b'' 1 1 ''none'' None = failing_pool 1 0 0 0 (100 * millisecond)"
    by (simp add: failing_pool_simps)
  note round1 = failing_round [OF fail_run.stop, of 0 "100 * millisecond"]
  note round2 = failing_round [of _ _ "0 + 1" "2 * (100 * millisecond)", OF round1]
  have "fail_run (Suc (Suc (Suc (Suc (Suc (Suc 0)))))) (failing_pool 1 0 0 0 (100 * millisecond))
      (failing_pool 1 0 0 (0 + 1 + 1) (2 * (2 * (100 * millisecond))))"
    by (rule round2) (simp_all add: second_def millisecond_def)
  then have "fail_run (Suc (Suc (Suc (Suc (Suc (Suc 0)))))) (failing_pool 1 0 0 0 (100 * millisecond))
      (failing_pool 1 0 0 2 (400 * millisecond))"
    by simp
  from fail_run.step [OF fail_run.step [OF this failing_steps(1)] failing_steps(4)]
  have "fail_run (Suc (Suc (Suc (Suc (Suc (Suc (Suc (Suc 0)))))))) (failing_pool 1 0 0 0 (100 * millisecond))
      (failing_pool 0 0 0 3 (800 * millisecond))"
    by (simp add: second_def millisecond_def)
  then have run: "fail_run 8 (NewPoolWithEnv 0 ''b'' (int 1) 1 ''none'' None) (failing_pool 0 0 0 3 (800 * millisecond))"
    by (simp add: start numeral_eq_Suc)
  have rest: "\<nexists>q. fail_step (failing_pool 0 0 0 3 (800 * millisecond)) q"
    by (auto simp: failing_pool_simps elim: fail_step.cases)
  from spawn_retries_end [OF run] rest run show ?thesis by simp
qed

section \<open>The handshake never times out\<close>

lemma quiet_handshake:
  assumes "t0 < t1" and "\<And>t data. reply = Some (t, data) \<Longrightarrow> t0 + requestTimeout \<le> t"
  shows "await_response t0 t1 handshakeTimeout reply = ChanClosed"
  using assms by (auto simp: await_response_def requestTimeout_def handshakeTimeout_def Let_def split: option.splits)

text \<open>A silent process counts as ready. The registration of the initialize request expires after the same 30
  seconds as the handshake's own timer and was started before it, so a process that never answers in time closes
  the response channel, which the handshake takes for a response: the process is added to the warm processes and
  the count of failed attempts is reset.\<close>

theorem silent_process_becomes_warm:
  assumes "t0 < t1" and "\<And>t data. reply = Some (t, data) \<Longrightarrow> t0 + requestTimeout \<le> t"
    and "\<not> po_closed p" and "\<not> ch_closed (po_Warm p)" and "chan_wf (po_Warm p)" and "\<not> isSimpleCommand (po_Command p)"
  shows "\<exists>q. spawn_finish jl i (Inr proc) (await_response t0 t1 handshakeTimeout reply) p = Some q \<and>
    chan_contents (po_Warm q) = chan_contents (po_Warm p) @ [proc] \<and> po_spawnAttempts q = 0 \<and>
    po_killed q = po_killed p"
proof -
  obtain w where w: "ch_send proc (po_Warm p) = Some w" using assms(4) ch.send_open by (metis option.exhaust)
  have "chan_contents w = chan_contents (po_Warm p) @ [proc]" using assms(5) w by (rule ch.send_contents)
  with w assms(3,6) show ?thesis
    by (simp add: quiet_handshake [OF assms(1,2)] spawn_finish_def performMCPHandshake_def add_warm_def reset_backoff_def
        Let_def)
qed

definition sample_proc :: "int \<Rightarrow> ManagedProcess" where
  "sample_proc pid = \<lparr>mp_Process = Some pid, mp_ProcessState = None, mp_isWarm = True, mp_UserID = [], mp_StderrBuf = [],
     mp_secretInjector = False\<rparr>"

definition sample_json :: json_lib where
  "sample_json = \<lparr>jl_Unmarshal = (\<lambda>s. if s = ''{}'' then Inr (JObj []) else Inl (ErrNew ''syntax'')), jl_Marshal = (\<lambda>_. ''{}'')\<rparr>"

theorem silent_process_becomes_warm_witness:
  "\<exists>q. spawn_finish sample_json ''init-1'' (Inr (sample_proc 7)) (await_response 0 1 handshakeTimeout None)
      (NewPoolWithEnv 0 ''b'' 1 1 ''node server.js'' None) = Some q \<and> chan_contents (po_Warm q) = [sample_proc 7]"
  using silent_process_becomes_warm [of 0 1 None "NewPoolWithEnv 0 ''b'' 1 1 ''node server.js'' None" sample_json
      "''init-1''" "sample_proc 7"]
  by (simp add: NewPoolWithEnv_def make_chan_def chan_wf_def isSimpleCommand_def chan_contents_def Let_def)
    (auto simp: chan_contents_def)

section \<open>Requests and their responses\<close>

lemma register_pending [simp]:
  "map_of (po_pendingRequests (RegisterRequest i p)) j =
     (if j = i then Some \<lparr>pq_ID = i, pq_response = None, pq_closed = False, pq_timer = po_nextTimer p\<rparr>
      else map_of (po_pendingRequests p) j)"
  by (simp add: RegisterRequest_def Let_def gomap_simps)

text \<open>A response reaches the request it answers, and no other: after a request is registered, the dispatcher puts
  the first response that carries its identifier into its channel, and whatever else it dispatches leaves the
  channel of every request with another identifier as it is.\<close>

theorem response_reaches_request:
  assumes "jl_Unmarshal jl data = Inr v" and "decode_response v = Some resp" and "rr_ID resp \<noteq> JNull"
    and "show_v (rr_ID resp) = i"
  shows "map_option pq_response (map_of (po_pendingRequests (dispatch_response jl show_v data (RegisterRequest i p))) i)
      = Some (Some data) \<and>
    (\<forall>j q. j \<noteq> i \<longrightarrow> map_of (po_pendingRequests (dispatch_response jl show_v data q)) j = map_of (po_pendingRequests q) j)"
  using assms by (auto simp: dispatch_response_def Let_def gomap_simps split: option.splits)

theorem response_reaches_request_witness:
  "map_option pq_response (map_of (po_pendingRequests (dispatch_response
     \<lparr>jl_Unmarshal = (\<lambda>_. Inr (JObj [(''jsonrpc'', JStr ''2.0''), (''id'', JStr ''r1''), (''result'', JObj [])])), jl_Marshal = (\<lambda>_. [])\<rparr>
     (\<lambda>v. case v of JStr s \<Rightarrow> s | _ \<Rightarrow> []) ''{reply}'' (RegisterRequest ''r1'' (NewPool 0 ''b'' 1 ''cat'')))) ''r1'') =
   Some (Some ''{reply}'')"
  by (rule response_reaches_request [where v = "JObj [(''jsonrpc'', JStr ''2.0''), (''id'', JStr ''r1''), (''result'', JObj [])]"
      and resp = "\<lparr>rr_JSONRPC = ''2.0'', rr_ID = JStr ''r1'', rr_Result = JObj [], rr_Error = None\<rparr>", THEN conjunct1])
    (simp_all add: decode_response_def string_field_def any_field_def members_def ToLower_def lower_char_def)

text \<open>Two calls of one user that pick the same identifier share one entry. The second registration takes the
  first one's place; when the first one's timer fires, it is the second request that is closed and removed.\<close>

lemma reused_identifier_closes_newer_request:
  assumes "p1 = RegisterRequest i p" and "p2 = RegisterRequest i p1"
  shows "fst (request_timeout (po_nextTimer p) p2) =
      Some \<lparr>pq_ID = i, pq_response = None, pq_closed = True, pq_timer = Suc (po_nextTimer p)\<rparr>"
    and "map_of (po_pendingRequests (snd (request_timeout (po_nextTimer p) p2))) i = None"
  by (simp_all add: assms request_timeout_def RegisterRequest_def Let_def gomap_simps)

section \<open>Every interleaving keeps a pool well formed\<close>

text \<open>A handle as \<open>spawnProcessRaw\<close> makes it: the process was started and nobody has waited for it.\<close>

definition handle_ok :: "ManagedProcess \<Rightarrow> bool" where
  "handle_ok proc \<longleftrightarrow> mp_Process proc \<noteq> None \<and> mp_ProcessState proc = None"

lemma spawned_handle_ok: "spawnProcessRaw start command env = Inr proc \<Longrightarrow> handle_ok proc"
  by (auto simp: spawnProcessRaw_def handle_ok_def split: if_splits option.splits sum.splits)

lemma handle_ok_alive [simp]: "handle_ok proc \<Longrightarrow> IsAlive proc"
  by (simp add: handle_ok_def IsAlive_def)

text \<open>The operations of a pool, as the goroutines of the program interleave them. A process that is released or put
  back was handed out before, so its handle is as the pool made it.\<close>

inductive pool_step :: "Pool \<Rightarrow> Pool \<Rightarrow> bool" where
  begin_spawn: "0 < po_tasks p \<Longrightarrow> pool_step p (spawn_begin p)"
| spawn_error: "0 < po_inflight p \<Longrightarrow> spawn_finish jl i (Inl err) ev p = Some q \<Longrightarrow> pool_step p q"
| spawn_done: "0 < po_inflight p \<Longrightarrow> spawnProcessRaw start (po_Command p) (po_Env p) = Inr proc \<Longrightarrow>
    spawn_finish jl i (Inr (proc\<lparr>mp_StderrBuf := err\<rparr>)) ev p = Some q \<Longrightarrow> pool_step p q"
| retry: "0 < po_retries p \<Longrightarrow> pool_step p (retry_fires p)"
| acquire: "TryAcquireWarm p = Some (r, q) \<Longrightarrow> pool_step p q"
| release: "handle_ok proc \<Longrightarrow> ReleaseWarm (Some proc) p = Some q \<Longrightarrow> pool_step p q"
| put: "handle_ok proc \<Longrightarrow> put_back proc p = Some q \<Longrightarrow> pool_step p q"
| trigger: "pool_step p (p\<lparr>po_tasks := Suc (po_tasks p)\<rparr>)"
| reset: "pool_step p (ResetSpawnAttempts p)"
| register: "pool_step p (RegisterRequest i p)"
| unregister: "pool_step p (UnregisterRequest i p)"
| expire: "pool_step p (snd (request_timeout t p))"
| dispatch: "pool_step p (dispatch_response jl show_v data p)"
| touch: "pool_step p (TouchLastUsed now p)"
| shutdown: "Shutdown p = Some q \<Longrightarrow> pool_step p q"

inductive pool_reachable :: "Pool \<Rightarrow> bool" where
  new: "pool_reachable (SetDedicated u (NewPoolWithEnv now b n m command env))"
| step: "pool_reachable p \<Longrightarrow> pool_step p q \<Longrightarrow> pool_reachable q"

definition warm_ok :: "Pool \<Rightarrow> bool" where
  "warm_ok p \<longleftrightarrow> chan_wf (po_Warm p) \<and> int (ch_cap (po_Warm p)) = max 1 (po_MaxPoolSize p) \<and>
     list_all handle_ok (chan_contents (po_Warm p)) \<and> ch_closed (po_Warm p) = po_closed p"

definition spawn_ok :: "Pool \<Rightarrow> bool" where
  "spawn_ok p \<longleftrightarrow> 100 * millisecond \<le> po_backoffDelay p \<and> po_backoffDelay p \<le> 5 * second"

definition pending_ok :: "Pool \<Rightarrow> bool" where
  "pending_ok p \<longleftrightarrow> (\<forall>i req. map_of (po_pendingRequests p) i = Some req \<longrightarrow>
     pq_ID req = i \<and> \<not> pq_closed req \<and> pq_timer req < po_nextTimer p)"

definition pool_ok :: "Pool \<Rightarrow> bool" where
  "pool_ok p \<longleftrightarrow> warm_ok p \<and> spawn_ok p \<and> pending_ok p"

lemma chan_send_keeps:
  assumes "ch_send proc w = Some w'" and "chan_wf w"
  shows "chan_wf w' \<and> ch_cap w' = ch_cap w \<and> ch_closed w' = ch_closed w \<and> chan_contents w' = chan_contents w @ [proc]"
  using ch.send_keeps [OF assms] ch.send_contents [OF assms(2,1)] assms(1) by (auto simp: ch_send_def split: if_splits)

lemma chan_try_send_keeps:
  assumes "ch_try_send proc w = Some (sent, w')" and "chan_wf w"
  shows "chan_wf w' \<and> ch_cap w' = ch_cap w \<and> ch_closed w' = ch_closed w \<and>
    chan_contents w' = (if sent then chan_contents w @ [proc] else chan_contents w)"
  using assms by (auto simp: ch_try_send_def chan_wf_def chan_contents_def split: if_splits)

lemma chan_recv_keeps:
  assumes "ch_try_recv w = (Value proc, w')" and "chan_wf w"
  shows "chan_wf w' \<and> ch_cap w' = ch_cap w \<and> ch_closed w' = ch_closed w \<and> chan_contents w = proc # chan_contents w'"
  using assms by (auto simp: ch_try_recv_def chan_wf_def chan_contents_def split: list.splits if_splits)

lemmas spawn_defs = spawn_begin_def spawn_failed_def backoff_def reset_backoff_def handshake_failed_def retry_fires_def
  performMCPHandshake_def Let_def

lemma add_warm_ok: "add_warm proc p = Some q \<Longrightarrow> warm_ok p \<Longrightarrow> handle_ok proc \<Longrightarrow> warm_ok q"
  by (auto simp: add_warm_def warm_ok_def dest!: chan_send_keeps)

lemma add_warm_pending: "add_warm proc p = Some q \<Longrightarrow> pending_ok p \<Longrightarrow> pending_ok q"
  by (auto simp: add_warm_def pending_ok_def)

lemma ok_irrelevant [simp]:
  "warm_ok (p\<lparr>po_inflight := a\<rparr>) = warm_ok p" "warm_ok (p\<lparr>po_backoffDelay := b\<rparr>) = warm_ok p"
  "warm_ok (p\<lparr>po_spawnAttempts := c\<rparr>) = warm_ok p" "warm_ok (p\<lparr>po_retries := d\<rparr>) = warm_ok p"
  "warm_ok (p\<lparr>po_killed := e\<rparr>) = warm_ok p" "warm_ok (p\<lparr>po_lastFailureReason := f\<rparr>) = warm_ok p"
  "warm_ok (p\<lparr>po_Instructions := g\<rparr>) = warm_ok p" "warm_ok (p\<lparr>po_tasks := h\<rparr>) = warm_ok p"
  "warm_ok (p\<lparr>po_CurrentSize := i\<rparr>) = warm_ok p" "warm_ok (p\<lparr>po_pendingRequests := j\<rparr>) = warm_ok p"
  "warm_ok (p\<lparr>po_timers := k\<rparr>) = warm_ok p" "warm_ok (p\<lparr>po_nextTimer := l\<rparr>) = warm_ok p"
  "warm_ok (p\<lparr>po_lastUsed := m\<rparr>) = warm_ok p"
  by (simp_all add: warm_ok_def)

lemma pending_irrelevant [simp]:
  "pending_ok (p\<lparr>po_inflight := a\<rparr>) = pending_ok p" "pending_ok (p\<lparr>po_backoffDelay := b\<rparr>) = pending_ok p"
  "pending_ok (p\<lparr>po_spawnAttempts := c\<rparr>) = pending_ok p" "pending_ok (p\<lparr>po_retries := d\<rparr>) = pending_ok p"
  "pending_ok (p\<lparr>po_killed := e\<rparr>) = pending_ok p" "pending_ok (p\<lparr>po_lastFailureReason := f\<rparr>) = pending_ok p"
  "pending_ok (p\<lparr>po_Instructions := g\<rparr>) = pending_ok p" "pending_ok (p\<lparr>po_tasks := h\<rparr>) = pending_ok p"
  "pending_ok (p\<lparr>po_CurrentSize := i\<rparr>) = pending_ok p" "pending_ok (p\<lparr>po_Warm := j\<rparr>) = pending_ok p"
  "pending_ok (p\<lparr>po_lastUsed := m\<rparr>) = pending_ok p" "pending_ok (p\<lparr>po_timers := n\<rparr>) = pending_ok p"
  by (simp_all add: pending_ok_def)

lemma backoff_doubles:
  "100 * millisecond \<le> d \<Longrightarrow> d \<le> 5 * second \<Longrightarrow>
   100 * millisecond \<le> dmin (gomul d 2) (5 * second) \<and> dmin (gomul d 2) (5 * second) \<le> 5 * second"
  by (auto simp: dmin_def gomul_def wrap64_id int64_def second_def millisecond_def)

lemma spawn_finish_ok:
  assumes "spawn_finish jl i spawned ev p = Some q" and "pool_ok p" and "\<And>proc. spawned = Inr proc \<Longrightarrow> handle_ok proc"
  shows "pool_ok q"
proof -
  have ok: "warm_ok p" "spawn_ok p" "pending_ok p" using assms(2) by (simp_all add: pool_ok_def)
  note d = backoff_doubles [of "po_backoffDelay p"]
  show ?thesis
  proof (cases spawned)
    case (Inl err)
    with assms(1) ok d show ?thesis
      by (auto simp: pool_ok_def spawn_finish_def spawn_defs spawn_ok_def split: if_splits)
  next
    case (Inr proc)
    have base: "100 * millisecond \<le> 5 * second" by (simp add: second_def millisecond_def)
    from Inr assms(3) have h: "handle_ok proc" by simp
    have warm: "warm_ok q" if "add_warm proc r = Some q" "warm_ok r" for r q
      using that h by (rule add_warm_ok)
    from assms(1) Inr ok d base show ?thesis
      by (auto simp: pool_ok_def spawn_finish_def spawn_defs spawn_ok_def dest: warm add_warm_pending
          split: if_splits chan_event.splits)
  qed
qed

lemma acquire_ok: "TryAcquireWarm p = Some (r, q) \<Longrightarrow> pool_ok p \<Longrightarrow> pool_ok q"
  by (auto simp: TryAcquireWarm_def pool_ok_def warm_ok_def spawn_ok_def split: prod.splits received.splits if_splits
      dest!: chan_recv_keeps)

lemma release_ok: "ReleaseWarm (Some proc) p = Some q \<Longrightarrow> handle_ok proc \<Longrightarrow> pool_ok p \<Longrightarrow> pool_ok q"
  by (auto simp: ReleaseWarm_def pool_ok_def warm_ok_def spawn_ok_def Let_def split: if_splits dest!: chan_try_send_keeps)

lemma put_back_ok: "put_back proc p = Some q \<Longrightarrow> handle_ok proc \<Longrightarrow> pool_ok p \<Longrightarrow> pool_ok q"
  by (auto simp: put_back_def pool_ok_def warm_ok_def spawn_ok_def dest!: chan_send_keeps)

lemma shutdown_ok: "Shutdown p = Some q \<Longrightarrow> pool_ok p \<Longrightarrow> pool_ok q"
  by (auto simp: Shutdown_def pool_ok_def warm_ok_def spawn_ok_def pending_ok_def chan_wf_def chan_contents_def split: if_splits)

lemma requests_ok:
  assumes "pool_ok p"
  shows "pool_ok (RegisterRequest i p)" "pool_ok (UnregisterRequest i p)" "pool_ok (snd (request_timeout t p))"
    "pool_ok (dispatch_response jl show_v data p)"
proof -
  have ok: "warm_ok p" "spawn_ok p" "pending_ok p" using assms by (simp_all add: pool_ok_def)
  show "pool_ok (RegisterRequest i p)"
    using ok by (auto simp: pool_ok_def RegisterRequest_def Let_def spawn_ok_def pending_ok_def gomap_simps less_SucI split: if_splits)
  show "pool_ok (UnregisterRequest i p)"
    using ok by (auto simp: pool_ok_def UnregisterRequest_def spawn_ok_def pending_ok_def gomap_simps split: option.splits if_splits)
  show "pool_ok (snd (request_timeout t p))"
    using ok by (auto simp: pool_ok_def request_timeout_def Let_def spawn_ok_def pending_ok_def gomap_simps split: option.splits if_splits)
  show "pool_ok (dispatch_response jl show_v data p)"
    using ok by (auto simp: pool_ok_def dispatch_response_def Let_def spawn_ok_def pending_ok_def gomap_simps split: option.splits sum.splits if_splits)
qed

lemma counters_ok [simp]:
  "pool_ok (spawn_begin p) = pool_ok p" "pool_ok (retry_fires p) = pool_ok p" "pool_ok (ResetSpawnAttempts p) = pool_ok p"
  "pool_ok (TouchLastUsed now p) = pool_ok p" "pool_ok (p\<lparr>po_tasks := n\<rparr>) = pool_ok p"
  by (simp_all add: pool_ok_def spawn_ok_def spawn_defs ResetSpawnAttempts_def TouchLastUsed_def)

lemma pool_step_ok: "pool_step p q \<Longrightarrow> pool_ok p \<Longrightarrow> pool_ok q"
proof (induction rule: pool_step.induct)
  case (spawn_done p start proc jl i err ev q)
  have "handle_ok (proc\<lparr>mp_StderrBuf := err\<rparr>)" using spawned_handle_ok [OF spawn_done(2)] by (simp add: handle_ok_def)
  then show ?case using spawn_finish_ok [OF spawn_done(3,4)] by blast
next
  case (spawn_error p jl i err ev q)
  then show ?case using spawn_finish_ok by blast
qed (simp_all add: requests_ok, (blast intro: acquire_ok release_ok put_back_ok shutdown_ok)+)

lemma pool_reachable_inv: "pool_reachable p \<Longrightarrow> pool_ok p"
proof (induction rule: pool_reachable.induct)
  case (new u now b n m command env)
  show ?case
    by (auto simp: pool_ok_def warm_ok_def spawn_ok_def pending_ok_def SetDedicated_def NewPoolWithEnv_def Let_def
        make_chan_def chan_wf_def chan_contents_def second_def millisecond_def)
qed (rule pool_step_ok)

text \<open>C25: However a pool's goroutines interleave, its warm channel never holds more processes than the maximum
  size (at least one), senders block only on a full channel, the back-off stays between 100 milliseconds and 5 seconds, and every
  pending request is open, filed under its own identifier. Moreover the liveness check of the code never finds a dead
  process, since nobody waits for one: whenever a process is warm, acquiring hands out the oldest.\<close>

theorem pool_reachable_ok:
  assumes "pool_reachable p"
  shows "WarmCount p \<le> max 1 (po_MaxPoolSize p) \<and> spawn_ok p \<and> pending_ok p \<and>
    (ch_senders (po_Warm p) \<noteq> [] \<longrightarrow> WarmCount p = max 1 (po_MaxPoolSize p)) \<and>
    (\<forall>proc procs. chan_contents (po_Warm p) = proc # procs \<longrightarrow>
       (\<exists>q. TryAcquireWarm p = Some (Some proc, q) \<and> chan_contents (po_Warm q) = procs \<and> po_killed q = po_killed p))"
proof -
  have ok: "pool_ok p" using assms by (rule pool_reachable_inv)
  have "\<exists>q. TryAcquireWarm p = Some (Some proc, q) \<and> chan_contents (po_Warm q) = procs \<and> po_killed q = po_killed p"
    if c: "chan_contents (po_Warm p) = proc # procs" for proc procs
  proof -
    obtain r w where r: "ch_try_recv (po_Warm p) = (r, w)" by (cases "ch_try_recv (po_Warm p)") auto
    have "r = Value proc" "chan_contents w = procs"
      using ch.recv_contents [OF _ c] ok r by (auto simp: pool_ok_def warm_ok_def)
    moreover have "IsAlive proc" using ok c by (simp add: pool_ok_def warm_ok_def)
    ultimately show ?thesis using r by (simp add: TryAcquireWarm_def)
  qed
  with ok show ?thesis by (auto simp: pool_ok_def warm_ok_def WarmCount_def chan_wf_def)
qed

text \<open>A pool of one \<open>cat\<close> process, whose environment does not matter, in the states of a run.\<close>

definition cat_pool :: "nat \<Rightarrow> nat \<Rightarrow> ManagedProcess list \<Rightarrow> ManagedProcess list \<Rightarrow> int \<Rightarrow> Pool" where
  "cat_pool t i buf senders n = (SetDedicated ''u'' (NewPoolWithEnv 0 ''b:u'' 1 1 ''cat'' None))
     \<lparr>po_tasks := t, po_inflight := i, po_Warm := \<lparr>ch_buf = buf, ch_cap = 1, ch_senders = senders, ch_closed = False\<rparr>,
      po_CurrentSize := n\<rparr>"

lemmas cat_simps = cat_pool_def SetDedicated_def NewPoolWithEnv_def Let_def make_chan_def defaultSpawnChannel_def
  spawning_tokens_def

lemma cat_spawns: "spawnProcessRaw (\<lambda>_ _. Inr pid) (po_Command (cat_pool t i b s n)) (po_Env (cat_pool t i b s n)) = Inr (sample_proc pid)"
proof -
  have "isAllowedCommand ''cat'' = None"
    by (simp add: isAllowedCommand_def dangerous_def Contains_def allowed_simple_def)
  then show ?thesis by (simp add: cat_simps spawnProcessRaw_def sample_proc_def)
qed

lemma cat_steps:
  "pool_step (cat_pool 1 0 b [] n) (cat_pool 0 1 b [] n)"
  "0 \<le> n \<Longrightarrow> n < 10 \<Longrightarrow> pool_step (cat_pool 0 1 [] [] n) (cat_pool 0 0 [sample_proc pid] [] (n + 1))"
  "0 \<le> n \<Longrightarrow> n < 10 \<Longrightarrow> pool_step (cat_pool 0 1 [c] [] n) (cat_pool 0 0 [c] [sample_proc pid] (n + 1))"
  "pool_step (cat_pool 0 0 [sample_proc pid] [] 1) (cat_pool 0 0 [] [] 0)"
  "pool_step (cat_pool 0 0 [] [] n) (cat_pool 1 0 [] [] n)"
  "pool_step (cat_pool 0 1 [] [] 0) (cat_pool 0 1 [sample_proc pid] [] 1)"
  subgoal using pool_step.begin_spawn [of "cat_pool 1 0 b [] n"] by (simp add: cat_simps spawn_begin_def)
  subgoal by (rule pool_step.spawn_done [OF _ cat_spawns, where err = "[]" and ev = TimerFired])
      (simp_all add: cat_simps spawn_finish_def isSimpleCommand_def add_warm_def ch_send_def reset_backoff_def
        sample_proc_def goadd_def int64_def)
  subgoal by (rule pool_step.spawn_done [OF _ cat_spawns, where err = "[]" and ev = TimerFired])
      (simp_all add: cat_simps spawn_finish_def isSimpleCommand_def add_warm_def ch_send_def reset_backoff_def
        sample_proc_def goadd_def int64_def)
  subgoal by (rule pool_step.acquire [where r = "Some (sample_proc pid)"])
      (simp add: cat_simps TryAcquireWarm_def ch_try_recv_def IsAlive_def sample_proc_def gosub_def int64_def)
  subgoal using pool_step.trigger [of "cat_pool 0 0 [] [] n"] by (simp add: cat_simps)
  subgoal by (rule pool_step.release [where proc = "sample_proc pid"])
      (simp_all add: cat_simps ReleaseWarm_def ch_try_send_def handle_ok_def sample_proc_def goadd_def int64_def)
  done

lemma cat_start: "pool_reachable (cat_pool 1 0 [] [] 0)"
proof -
  have "cat_pool 1 0 [] [] 0 = SetDedicated ''u'' (NewPoolWithEnv 0 ''b:u'' 1 1 ''cat'' None)" by (simp add: cat_simps)
  then show ?thesis by (simp only: pool_reachable.new)
qed

lemma cat_warm: "pool_reachable (cat_pool 0 0 [sample_proc 7] [] 1)"
  using pool_reachable.step [OF pool_reachable.step [OF cat_start cat_steps(1)] cat_steps(2) [of 0 7]] by simp

lemma cat_blocked: "pool_reachable (cat_pool 0 0 [sample_proc 7] [sample_proc 8] 2)"
proof -
  note two = pool_reachable.step [OF pool_reachable.step [OF cat_warm cat_steps(4)] cat_steps(5)]
  note four = pool_reachable.step [OF pool_reachable.step [OF two cat_steps(1)] cat_steps(6)]
  from pool_reachable.step [OF four cat_steps(3) [of 1 _ 8]] show ?thesis by simp
qed

theorem pool_reachable_ok_witness:
  "\<exists>q. TryAcquireWarm (cat_pool 0 0 [sample_proc 7] [] 1) = Some (Some (sample_proc 7), q) \<and> chan_contents (po_Warm q) = []"
proof -
  have "chan_contents (po_Warm (cat_pool 0 0 [sample_proc 7] [] 1)) = sample_proc 7 # []"
    by (simp add: cat_pool_def chan_contents_def)
  with pool_reachable_ok [OF cat_warm] show ?thesis by blast
qed

section \<open>Accounting and shutdown\<close>

text \<open>\<open>CurrentSize\<close> counts a process that finds the channel full although it is killed.\<close>

lemma release_on_full_drifts:
  assumes "\<not> ch_closed (po_Warm p)" and "length (ch_buf (po_Warm p)) = ch_cap (po_Warm p)"
  shows "ReleaseWarm (Some proc) p =
    Some (p\<lparr>po_CurrentSize := goadd (po_CurrentSize p) 1, po_killed := Kill proc (po_killed p)\<rparr>)"
  using assms by (simp add: ReleaseWarm_def ch_try_send_def Let_def)

text \<open>Shutting a pool down signals none of its processes.\<close>

lemma shutdown_kills_nothing:
  "Shutdown p = Some q \<Longrightarrow> po_killed q = po_killed p \<and> chan_contents (po_Warm q) = chan_contents (po_Warm p)"
  by (auto simp: Shutdown_def chan_contents_def split: if_splits)

text \<open>Shutting down can hang. A pool of one process has its process in use and is asked for another, so a
  second one is spawned. If the first comes back before the second is ready, the second blocks on the full channel
  and keeps the pool's wait group up, and \<open>Shutdown\<close> does not return while it does.\<close>

theorem shutdown_can_hang:
  "\<exists>p. pool_reachable p \<and> \<not> po_closed p \<and> po_MaxPoolSize p = 1 \<and> length (chan_contents (po_Warm p)) = 2 \<and> Shutdown p = None"
  by (rule exI [where x = "cat_pool 0 0 [sample_proc 7] [sample_proc 8] 2"])
    (simp add: cat_blocked, simp add: cat_simps chan_contents_def Shutdown_def)

end
