(* ===== verification/PoolManager.thy ===== *)
theory PoolManager
  imports PoolRuns
begin

text \<open>
  The manager of the pools (src/poolmgr/manager.go), the recycler (src/poolmgr/recycler.go) and the probes of a
  backend (src/poolmgr/probe.go). Pools are filed under \<open>backendID:userID\<close>; a pointer to a managed pool is its key.
  An operation that shuts a pool down does not return while the shutdown hangs: its result is an option. The
  manager's lock makes an operation one step, except \<open>GetOrCreateUserPoolWithSecrets\<close>, which gives the lock up between its first look at the map and the
  creation: it is the composition of \<open>find_user_pool\<close> and \<open>make_user_pool\<close>, and what another goroutine may do between them is the
  subject of a lemma of its own.
\<close>

record PoolManager =
  pm_pools :: "(string, Pool) gomap"
  pm_command :: string
  pm_poolSize :: int
  pm_idleTimeout :: duration

definition DefaultIdleTimeout :: duration where
  "DefaultIdleTimeout = 15 * 60 * second"

definition NewPoolManager :: "string \<Rightarrow> int \<Rightarrow> PoolManager" where
  "NewPoolManager command poolSize =
     \<lparr>pm_pools = [], pm_command = command, pm_poolSize = poolSize, pm_idleTimeout = 0\<rparr>"

definition NewPoolManagerWithGC :: "string \<Rightarrow> int \<Rightarrow> duration \<Rightarrow> PoolManager" where
  "NewPoolManagerWithGC command poolSize idleTimeout =
     \<lparr>pm_pools = [], pm_command = command, pm_poolSize = poolSize, pm_idleTimeout = idleTimeout\<rparr>"

definition put_pool :: "string \<Rightarrow> Pool \<Rightarrow> PoolManager \<Rightarrow> PoolManager" where
  "put_pool key p pm = pm\<lparr>pm_pools := AList.update key p (pm_pools pm)\<rparr>"

definition GetOrCreatePool :: "gotime \<Rightarrow> string \<Rightarrow> string \<Rightarrow> int \<Rightarrow> PoolManager \<Rightarrow> string \<times> PoolManager" where
  "GetOrCreatePool now backendID command poolSize pm =
     (case map_of (pm_pools pm) backendID of
        Some _ \<Rightarrow> (backendID, pm)
      | None \<Rightarrow> (backendID, put_pool backendID (NewPool now backendID poolSize command) pm))"

definition GetPool :: "gotime \<Rightarrow> string \<Rightarrow> PoolManager \<Rightarrow> string \<times> PoolManager" where
  "GetPool now backendID pm =
     (case map_of (pm_pools pm) backendID of
        Some _ \<Rightarrow> (backendID, pm)
      | None \<Rightarrow> (backendID, put_pool backendID (NewPool now backendID (pm_poolSize pm) (pm_command pm)) pm))"

definition user_pool_key :: "string \<Rightarrow> string \<Rightarrow> string" where
  "user_pool_key backendID userID = backendID @ '':'' @ userID"

text \<open>An existing pool serves the call if its environment matches and it can inject secrets when there are any.\<close>

definition pool_serves :: "string list option \<Rightarrow> (string, string) gomap option \<Rightarrow> Pool \<Rightarrow> bool" where
  "pool_serves env secrets p \<longleftrightarrow> EnvMatches env p \<and> (secrets = None \<or> po_secretInjector p \<noteq> None)"

definition new_user_pool ::
    "gotime \<Rightarrow> string \<Rightarrow> string \<Rightarrow> string \<Rightarrow> int \<Rightarrow> int \<Rightarrow> string list option \<Rightarrow> (string, string) gomap option \<Rightarrow> string \<Rightarrow> Pool" where
  "new_user_pool now key userID command minPoolSize maxPoolSize env secrets framing =
     (let minPoolSize = (if minPoolSize < 1 then 1 else minPoolSize);
          maxPoolSize = (if maxPoolSize < minPoolSize then minPoolSize else maxPoolSize);
          pool = (if secrets \<noteq> None
                  then NewPoolWithSecrets now key minPoolSize maxPoolSize command env ''/run/secrets/mcp-bridge''
                  else NewPoolWithEnv now key minPoolSize maxPoolSize command env)
      in TouchLastUsed now (SetDedicated userID (pool\<lparr>po_StdioFraming := framing\<rparr>)))"

text \<open>The first look, under the lock for reading: the key of a pool that serves, or nothing, after a pool that does not has been shut down and removed.\<close>

definition find_user_pool ::
    "gotime \<Rightarrow> string \<Rightarrow> string list option \<Rightarrow> (string, string) gomap option \<Rightarrow> PoolManager \<Rightarrow> (bool \<times> PoolManager) option" where
  "find_user_pool now key env secrets pm =
     (case map_of (pm_pools pm) key of
        Some pool \<Rightarrow>
          if pool_serves env secrets pool then Some (True, put_pool key (TouchLastUsed now pool) pm)
          else (case Shutdown pool of None \<Rightarrow> None | Some _ \<Rightarrow> Some (False, pm\<lparr>pm_pools := AList.delete key (pm_pools pm)\<rparr>))
      | None \<Rightarrow> Some (False, pm))"

text \<open>The second look and the creation, under the lock for writing.\<close>

definition make_user_pool ::
    "gotime \<Rightarrow> string \<Rightarrow> string list option \<Rightarrow> (string, string) gomap option \<Rightarrow> Pool \<Rightarrow> PoolManager \<Rightarrow> PoolManager option" where
  "make_user_pool now key env secrets new pm =
     (case map_of (pm_pools pm) key of
        Some pool \<Rightarrow>
          if EnvMatches env pool
          then if secrets = None \<or> po_secretInjector pool \<noteq> None then Some (put_pool key (TouchLastUsed now pool) pm)
               else (case Shutdown pool of
                       None \<Rightarrow> None
                     | Some _ \<Rightarrow> Some (put_pool key new (pm\<lparr>pm_pools := AList.delete key (pm_pools pm)\<rparr>)))
          else Some (put_pool key new pm)
      | None \<Rightarrow> Some (put_pool key new pm))"

definition GetOrCreateUserPoolWithSecrets ::
    "gotime \<Rightarrow> string \<Rightarrow> string \<Rightarrow> string \<Rightarrow> int \<Rightarrow> int \<Rightarrow> string list option \<Rightarrow> (string, string) gomap option \<Rightarrow> string \<Rightarrow>
     PoolManager \<Rightarrow> (string \<times> PoolManager) option" where
  "GetOrCreateUserPoolWithSecrets now backendID userID command minPoolSize maxPoolSize env secrets stdioFraming pm =
     (let key = user_pool_key backendID userID;
          framing = (if stdioFraming \<noteq> [] then stdioFraming else ''newline'');
          new = new_user_pool now key userID command minPoolSize maxPoolSize env secrets framing
      in case find_user_pool now key env secrets pm of
           None \<Rightarrow> None
         | Some (True, pm) \<Rightarrow> Some (key, pm)
         | Some (False, pm) \<Rightarrow> map_option (Pair key) (make_user_pool now key env secrets new pm))"

text \<open>When nothing comes between, the second look finds what the first left.\<close>

lemma GetOrCreateUserPoolWithSecrets_alone:
  "GetOrCreateUserPoolWithSecrets now backendID userID command minPoolSize maxPoolSize env secrets stdioFraming pm =
     (let key = user_pool_key backendID userID;
          framing = (if stdioFraming \<noteq> [] then stdioFraming else ''newline'');
          new = new_user_pool now key userID command minPoolSize maxPoolSize env secrets framing
      in case map_of (pm_pools pm) key of
           Some pool \<Rightarrow>
             if pool_serves env secrets pool then Some (key, put_pool key (TouchLastUsed now pool) pm)
             else (case Shutdown pool of
                     None \<Rightarrow> None
                   | Some _ \<Rightarrow> Some (key, put_pool key new (pm\<lparr>pm_pools := AList.delete key (pm_pools pm)\<rparr>)))
         | None \<Rightarrow> Some (key, put_pool key new pm))"
  by (simp add: GetOrCreateUserPoolWithSecrets_def find_user_pool_def make_user_pool_def Let_def gomap_simps split: option.split)

text \<open>A pool that another goroutine made in between for another environment is replaced without being shut down: its processes run on and nothing refers to them.\<close>

lemma other_pool_dropped:
  assumes "map_of (pm_pools pm) key = Some other" and "\<not> EnvMatches env other"
  shows "make_user_pool now key env secrets new pm = Some (put_pool key new pm)"
  using assms by (simp add: make_user_pool_def)

definition GetOrCreateUserPool ::
    "gotime \<Rightarrow> string \<Rightarrow> string \<Rightarrow> string \<Rightarrow> int \<Rightarrow> int \<Rightarrow> string list option \<Rightarrow> PoolManager \<Rightarrow> (string \<times> PoolManager) option" where
  "GetOrCreateUserPool now backendID userID command minPoolSize maxPoolSize env pm =
     GetOrCreateUserPoolWithSecrets now backendID userID command minPoolSize maxPoolSize env None [] pm"

definition GetOrCreateUserPoolWithFraming ::
    "gotime \<Rightarrow> string \<Rightarrow> string \<Rightarrow> string \<Rightarrow> int \<Rightarrow> int \<Rightarrow> string list option \<Rightarrow> string \<Rightarrow> PoolManager \<Rightarrow> (string \<times> PoolManager) option" where
  "GetOrCreateUserPoolWithFraming now backendID userID command minPoolSize maxPoolSize env stdioFraming pm =
     GetOrCreateUserPoolWithSecrets now backendID userID command minPoolSize maxPoolSize env None stdioFraming pm"

text \<open>Shutting down and removing every pool whose entry satisfies a condition: the number removed and the rest.\<close>

fun remove_pools :: "(string \<Rightarrow> Pool \<Rightarrow> bool) \<Rightarrow> (string, Pool) gomap \<Rightarrow> (int \<times> (string, Pool) gomap) option" where
  "remove_pools cond [] = Some (0, [])"
| "remove_pools cond ((key, pool) # rest) =
     (if cond key pool
      then (case Shutdown pool of
              None \<Rightarrow> None
            | Some _ \<Rightarrow> map_option (\<lambda>(n, ps). (n + 1, ps)) (remove_pools cond rest))
      else map_option (\<lambda>(n, ps). (n, (key, pool) # ps)) (remove_pools cond rest))"

definition RemovePool :: "string \<Rightarrow> PoolManager \<Rightarrow> PoolManager option" where
  "RemovePool backendID pm =
     (case map_of (pm_pools pm) backendID of
        None \<Rightarrow> Some pm
      | Some pool \<Rightarrow> map_option (\<lambda>_. pm\<lparr>pm_pools := AList.delete backendID (pm_pools pm)\<rparr>) (Shutdown pool))"

definition of_backend :: "string \<Rightarrow> string \<Rightarrow> bool" where
  "of_backend backendID key \<longleftrightarrow> key = backendID \<or> HasPrefix key (backendID @ '':'')"

definition RemovePoolsByBackend :: "string \<Rightarrow> PoolManager \<Rightarrow> (int \<times> PoolManager) option" where
  "RemovePoolsByBackend backendID pm =
     map_option (\<lambda>(n, ps). (n, pm\<lparr>pm_pools := ps\<rparr>)) (remove_pools (\<lambda>key _. of_backend backendID key) (pm_pools pm))"

definition ShutdownAll :: "PoolManager \<Rightarrow> PoolManager option" where
  "ShutdownAll pm = map_option (\<lambda>_. pm\<lparr>pm_pools := []\<rparr>) (remove_pools (\<lambda>_ _. True) (pm_pools pm))"

text \<open>One round of \<open>gcLoop\<close>.\<close>

definition idle :: "gotime \<Rightarrow> duration \<Rightarrow> Pool \<Rightarrow> bool" where
  "idle now timeout pool \<longleftrightarrow> IsDedicated pool \<and> now - po_lastUsed pool > timeout"

definition collectIdlePools :: "gotime \<Rightarrow> PoolManager \<Rightarrow> PoolManager option" where
  "collectIdlePools now pm =
     map_option (\<lambda>(_, ps). pm\<lparr>pm_pools := ps\<rparr>) (remove_pools (\<lambda>_ pool. idle now (pm_idleTimeout pm) pool) (pm_pools pm))"

definition PoolCount :: "PoolManager \<Rightarrow> int" where
  "PoolCount pm = int (length (pm_pools pm))"

record PoolStatus =
  pst_BackendID :: string
  pst_UserID :: string
  pst_Command :: string
  pst_WarmCount :: int
  pst_CurrentSize :: int
  pst_MinPoolSize :: int
  pst_MaxPoolSize :: int
  pst_Unavailable :: bool
  pst_MemoryBytes :: int
  pst_ProcessMemory :: "int list"

text \<open>\<open>strings.SplitN(key, \":\", 2)\<close> with both parts; the memory total is unsigned 64-bit.\<close>

definition split_key :: "string \<Rightarrow> (string \<times> string) option" where
  "split_key key = map_option (\<lambda>i. (take i key, drop (Suc i) key)) (Index key '':'')"

definition pool_status :: "(int \<Rightarrow> goerr + int) \<Rightarrow> string \<Rightarrow> Pool \<Rightarrow> PoolStatus list option" where
  "pool_status rss key pool =
     (case split_key key of
        None \<Rightarrow> Some []
      | Some (backendID, userID) \<Rightarrow>
          map_option (\<lambda>memory. [\<lparr>pst_BackendID = backendID, pst_UserID = userID, pst_Command = po_Command pool,
              pst_WarmCount = WarmCount pool, pst_CurrentSize = po_CurrentSize pool, pst_MinPoolSize = po_MinPoolSize pool,
              pst_MaxPoolSize = po_MaxPoolSize pool, pst_Unavailable = IsUnavailable pool,
              pst_MemoryBytes = sum_list memory mod 2 ^ 64, pst_ProcessMemory = memory\<rparr>])
            (GetProcessMemory rss pool))"

fun pool_statuses :: "(int \<Rightarrow> goerr + int) \<Rightarrow> (string \<Rightarrow> bool) \<Rightarrow> (string, Pool) gomap \<Rightarrow> PoolStatus list option" where
  "pool_statuses rss cond [] = Some []"
| "pool_statuses rss cond ((key, pool) # rest) =
     (if \<not> cond key then pool_statuses rss cond rest
      else case pool_status rss key pool of
             None \<Rightarrow> None
           | Some ss \<Rightarrow> map_option ((@) ss) (pool_statuses rss cond rest))"

definition GetPoolsForUser :: "(int \<Rightarrow> goerr + int) \<Rightarrow> string \<Rightarrow> PoolManager \<Rightarrow> PoolStatus list option" where
  "GetPoolsForUser rss userID pm = pool_statuses rss (\<lambda>key. HasSuffix key ('':'' @ userID)) (pm_pools pm)"

definition GetAllPools :: "(int \<Rightarrow> goerr + int) \<Rightarrow> PoolManager \<Rightarrow> PoolStatus list option" where
  "GetAllPools rss pm = pool_statuses rss (\<lambda>_. True) (pm_pools pm)"

definition ResetPool :: "string \<Rightarrow> string \<Rightarrow> PoolManager \<Rightarrow> PoolManager" where
  "ResetPool backendID userID pm =
     (let key = user_pool_key backendID userID
      in case map_of (pm_pools pm) key of
           None \<Rightarrow> pm
         | Some pool \<Rightarrow> put_pool key (ResetSpawnAttempts pool) pm)"

section \<open>The recycler\<close>

datatype RecyclePolicy = RecyclePolicyAlways | RecyclePolicyDedicated | RecyclePolicyOnError | OtherPolicy string

record SafetyRecycler =
  sr_dedicated :: "(string, (string, ManagedProcess) gomap) gomap"
  sr_recyclePolicy :: RecyclePolicy

definition NewSafetyRecycler :: SafetyRecycler where
  "NewSafetyRecycler = \<lparr>sr_dedicated = [], sr_recyclePolicy = RecyclePolicyDedicated\<rparr>"

definition dedicated_of :: "string \<Rightarrow> SafetyRecycler \<Rightarrow> (string, ManagedProcess) gomap" where
  "dedicated_of backendID sr = (case map_of (sr_dedicated sr) backendID of None \<Rightarrow> [] | Some m \<Rightarrow> m)"

definition shouldRecycle :: "goerr option \<Rightarrow> SafetyRecycler \<Rightarrow> bool" where
  "shouldRecycle err sr =
     (case sr_recyclePolicy sr of
        RecyclePolicyAlways \<Rightarrow> True
      | RecyclePolicyOnError \<Rightarrow> err \<noteq> None
      | RecyclePolicyDedicated \<Rightarrow> False
      | OtherPolicy _ \<Rightarrow> False)"

text \<open>\<open>None\<close> is the panic of a write through the nil process of a closed pool.\<close>

definition AcquireProcess ::
    "gotime \<Rightarrow> string \<Rightarrow> string \<Rightarrow> PoolManager \<Rightarrow> SafetyRecycler \<Rightarrow> (ManagedProcess option \<times> PoolManager \<times> SafetyRecycler) option" where
  "AcquireProcess now backendID userID pm sr =
     (let (key, pm) = GetPool now backendID pm
      in case map_of (pm_pools pm) key of
           None \<Rightarrow> None
         | Some pool \<Rightarrow>
             (case ch_try_recv (po_Warm pool) of
                (NothingReady, _) \<Rightarrow> Some (None, pm, sr)
              | (ZeroValue, _) \<Rightarrow> None
              | (Value proc, w) \<Rightarrow>
                  (let proc = proc\<lparr>mp_UserID := userID\<rparr>;
                       pm = put_pool key (IncrementActive (pool\<lparr>po_Warm := w\<rparr>)) pm
                   in if sr_recyclePolicy sr = RecyclePolicyDedicated
                      then Some (Some proc, pm, sr\<lparr>sr_dedicated :=
                             AList.update backendID (AList.update userID proc (dedicated_of backendID sr)) (sr_dedicated sr)\<rparr>)
                      else Some (Some proc, pm, sr))))"

definition ReleaseProcess ::
    "gotime \<Rightarrow> string \<Rightarrow> string \<Rightarrow> ManagedProcess \<Rightarrow> goerr option \<Rightarrow> PoolManager \<Rightarrow> SafetyRecycler \<Rightarrow>
     (PoolManager \<times> SafetyRecycler) option" where
  "ReleaseProcess now backendID userID proc err pm sr =
     (let (key, pm) = GetPool now backendID pm
      in case map_of (pm_pools pm) key of
           None \<Rightarrow> None
         | Some pool \<Rightarrow>
             if shouldRecycle err sr
             then Some (put_pool key (DecrementActive (pool\<lparr>po_killed := Kill proc (po_killed pool),
                    po_tasks := Suc (po_tasks pool)\<rparr>)) pm, sr)
             else let sr = (if sr_recyclePolicy sr = RecyclePolicyDedicated \<and> map_of (sr_dedicated sr) backendID \<noteq> None
                            then sr\<lparr>sr_dedicated := AList.update backendID (AList.delete userID (dedicated_of backendID sr))
                                     (sr_dedicated sr)\<rparr>
                            else sr)
                  in map_option (\<lambda>pool. (put_pool key (DecrementActive pool) pm, sr)) (put_back proc pool))"

definition SetRecyclePolicy :: "RecyclePolicy \<Rightarrow> SafetyRecycler \<Rightarrow> SafetyRecycler" where
  "SetRecyclePolicy policy sr = sr\<lparr>sr_recyclePolicy := policy\<rparr>"

definition GetDedicatedProcess :: "string \<Rightarrow> string \<Rightarrow> SafetyRecycler \<Rightarrow> ManagedProcess option" where
  "GetDedicatedProcess backendID userID sr = map_of (dedicated_of backendID sr) userID"

definition ReleaseDedicated :: "string \<Rightarrow> string \<Rightarrow> int list \<Rightarrow> SafetyRecycler \<Rightarrow> int list \<times> SafetyRecycler" where
  "ReleaseDedicated backendID userID killed sr =
     (case map_of (dedicated_of backendID sr) userID of
        None \<Rightarrow> (killed, sr)
      | Some proc \<Rightarrow> (Kill proc killed, sr\<lparr>sr_dedicated :=
          AList.update backendID (AList.delete userID (dedicated_of backendID sr)) (sr_dedicated sr)\<rparr>))"

section \<open>Probes\<close>

record ProbeResult =
  pbr_Status :: string
  pbr_Message :: string
  pbr_Stderr :: string
  pbr_DurationMs :: int

text \<open>The probe's outcome, from how the spawn and the wait for the response end; \<open>show_d\<close> prints a duration and
  \<open>err_text\<close> an error.\<close>

definition ProbeBackend ::
    "(duration \<Rightarrow> string) \<Rightarrow> (goerr \<Rightarrow> string) \<Rightarrow> goerr + ManagedProcess \<Rightarrow> chan_event \<Rightarrow> string \<Rightarrow> duration \<Rightarrow> duration \<Rightarrow> ProbeResult" where
  "ProbeBackend show_d err_text spawned ev stderr timeout elapsed =
     (let ms = elapsed div 1000000
      in case spawned of
           Inl err \<Rightarrow> \<lparr>pbr_Status = ''spawn_error'', pbr_Message = ''Failed to spawn: '' @ err_text err, pbr_Stderr = [],
               pbr_DurationMs = ms\<rparr>
         | Inr _ \<Rightarrow>
             (case ev of
                Received resp \<Rightarrow>
                  if resp = []
                  then \<lparr>pbr_Status = ''handshake_error'', pbr_Message = ''Initialize response channel closed with no data'',
                        pbr_Stderr = stderr, pbr_DurationMs = ms\<rparr>
                  else \<lparr>pbr_Status = ''ok'', pbr_Message = ''MCP handshake succeeded'', pbr_Stderr = stderr, pbr_DurationMs = ms\<rparr>
              | ChanClosed \<Rightarrow> \<lparr>pbr_Status = ''handshake_error'', pbr_Message = ''Initialize response channel closed with no data'',
                    pbr_Stderr = stderr, pbr_DurationMs = ms\<rparr>
              | TimerFired \<Rightarrow> \<lparr>pbr_Status = ''handshake_timeout'',
                    pbr_Message = ''No initialize response within '' @ show_d timeout, pbr_Stderr = stderr, pbr_DurationMs = ms\<rparr>))"

text \<open>\<open>ScanBackendTools\<close>, with the ends of its two waits.\<close>

definition ScanBackendTools ::
    "(duration \<Rightarrow> string) \<Rightarrow> goerr + ManagedProcess \<Rightarrow> chan_event \<Rightarrow> chan_event \<Rightarrow> duration \<Rightarrow> goerr + string" where
  "ScanBackendTools show_d spawned init tools timeout =
     (case spawned of
        Inl err \<Rightarrow> Inl (ErrWrap ''spawn error'' err)
      | Inr _ \<Rightarrow>
          (case init of
             ChanClosed \<Rightarrow> Inl (ErrNew ''initialize failed: channel closed'')
           | TimerFired \<Rightarrow> Inl (ErrNew (''initialize timeout after '' @ show_d timeout))
           | Received _ \<Rightarrow>
               (case tools of
                  ChanClosed \<Rightarrow> Inl (ErrNew ''tools/list: no response'')
                | TimerFired \<Rightarrow> Inl (ErrNew (''tools/list timeout after '' @ show_d timeout))
                | Received resp \<Rightarrow> if resp = [] then Inl (ErrNew ''tools/list: no response'') else Inr resp)))"

definition scan_command :: "string \<Rightarrow> string" where
  "scan_command command =
     (if \<not> Contains command '' --scan'' \<and> \<not> Contains command '' --scan-mode'' then command @ '' --scan'' else command)"

datatype run_result = RunOK string | RunTimeout | RunError goerr string

text \<open>\<open>ScanBackendToolsScanMode\<close>: the output of the command through the shell, decoded by \<open>decode\<close> into the error
  the backend reports and its tools.\<close>

definition ScanBackendToolsScanMode ::
    "(string list \<Rightarrow> string list option \<Rightarrow> run_result) \<Rightarrow> (string \<Rightarrow> goerr + (string \<times> 'a)) \<Rightarrow> (duration \<Rightarrow> string) \<Rightarrow>
     string \<Rightarrow> string list option \<Rightarrow> duration \<Rightarrow> goerr + 'a" where
  "ScanBackendToolsScanMode run decode show_d command env timeout =
     (case run [''sh'', ''-c'', scan_command command] env of
        RunTimeout \<Rightarrow> Inl (ErrNew (''scan timeout after '' @ show_d timeout))
      | RunError err stderr \<Rightarrow> Inl (ErrWrap (''scan error; stderr: '' @ stderr) err)
      | RunOK stdout \<Rightarrow>
          (case decode stdout of
             Inl err \<Rightarrow> Inl (ErrWrap (''failed to parse scan output; stdout: '' @ stdout) err)
           | Inr (error, output) \<Rightarrow>
               if error \<noteq> [] then Inl (ErrNew (''backend scan error: '' @ error)) else Inr output))"

section \<open>One pool per user and backend\<close>

lemma user_pool_key_inj:
  "CHR '':'' \<notin> set b \<Longrightarrow> CHR '':'' \<notin> set b' \<Longrightarrow> user_pool_key b u = user_pool_key b' u' \<longleftrightarrow> b = b' \<and> u = u'"
  using separator_inj [of b "CHR '':''" u b' u'] by (auto simp: user_pool_key_def)

lemma user_pool_key_collides: "user_pool_key ''a'' ''b:c'' = user_pool_key ''a:b'' ''c''"
  by (simp add: user_pool_key_def)

lemma put_pool_lookup [simp]:
  "map_of (pm_pools (put_pool key p pm)) k = (if k = key then Some p else map_of (pm_pools pm) k)"
  by (simp add: put_pool_def gomap_simps)

lemma new_user_pool_serves:
  "pool_serves env secrets (new_user_pool now key u command mn mx env secrets framing)"
  "po_dedicatedUser (new_user_pool now key u command mn mx env secrets framing) = u"
  "po_lastUsed (new_user_pool now key u command mn mx env secrets framing) = now"
  "\<not> po_closed (new_user_pool now key u command mn mx env secrets framing)"
  by (simp_all add: new_user_pool_def pool_serves_def EnvMatches_def TouchLastUsed_def SetDedicated_def
      NewPoolWithSecrets_def NewPoolWithEnv_def Let_def)

lemma user_pool_cases:
  assumes "GetOrCreateUserPoolWithSecrets now b u command mn mx env secrets framing pm = Some (key, pm')"
  obtains p where "key = user_pool_key b u" and "map_of (pm_pools pm') key = Some p" and "pool_serves env secrets p"
    and "po_lastUsed p = now" and "\<And>k. k \<noteq> key \<Longrightarrow> map_of (pm_pools pm') k = map_of (pm_pools pm) k"
proof -
  let ?key = "user_pool_key b u"
  let ?new = "new_user_pool now ?key u command mn mx env secrets (if framing \<noteq> [] then framing else ''newline'')"
  show thesis
  proof (cases "map_of (pm_pools pm) ?key")
    case None
    with assms show thesis
      by (intro that [of ?new])
        (auto simp: GetOrCreateUserPoolWithSecrets_alone Let_def new_user_pool_serves)
  next
    case (Some q)
    show thesis
    proof (cases "pool_serves env secrets q")
      case True
      with Some assms show thesis
        by (intro that [of "TouchLastUsed now q"])
          (auto simp: GetOrCreateUserPoolWithSecrets_alone Let_def TouchLastUsed_def pool_serves_def EnvMatches_def)
    next
      case False
      with Some assms show thesis
        by (intro that [of ?new])
          (auto simp: GetOrCreateUserPoolWithSecrets_alone Let_def new_user_pool_serves gomap_simps
            split: option.splits)
    qed
  qed
qed

text \<open>A user's call gets a pool of its own. When no backend identifier contains a colon, what is returned for a user and a
  backend is a pool built for exactly the environment of that call, and the pools of every other user and every
  other backend are as before.\<close>

theorem user_pool_isolated:
  assumes "GetOrCreateUserPoolWithSecrets now b u command mn mx env secrets framing pm = Some (key, pm')"
    and "CHR '':'' \<notin> set b"
  shows "(\<exists>p. map_of (pm_pools pm') key = Some p \<and> EnvMatches env p \<and> po_lastUsed p = now) \<and>
    (\<forall>b' u'. CHR '':'' \<notin> set b' \<longrightarrow> (b', u') \<noteq> (b, u) \<longrightarrow>
       map_of (pm_pools pm') (user_pool_key b' u') = map_of (pm_pools pm) (user_pool_key b' u'))"
  using assms(1)
proof (rule user_pool_cases)
  fix p
  assume p: "key = user_pool_key b u" "map_of (pm_pools pm') key = Some p" "pool_serves env secrets p"
    "po_lastUsed p = now" "\<And>k. k \<noteq> key \<Longrightarrow> map_of (pm_pools pm') k = map_of (pm_pools pm) k"
  then show ?thesis using user_pool_key_inj [OF _ assms(2)] by (auto simp: pool_serves_def)
qed

theorem user_pool_isolated_witness:
  "\<exists>pm. GetOrCreateUserPoolWithSecrets 5 ''git'' ''ann'' ''cat'' 1 2 (Some [''A=1'']) None [] (NewPoolManager ''cat'' 1) =
      Some (''git:ann'', pm) \<and>
    (\<exists>p. map_of (pm_pools pm) ''git:ann'' = Some p \<and> EnvMatches (Some [''A=1'']) p \<and> po_lastUsed p = 5)"
proof -
  obtain pm where pm: "GetOrCreateUserPoolWithSecrets 5 ''git'' ''ann'' ''cat'' 1 2 (Some [''A=1'']) None []
      (NewPoolManager ''cat'' 1) = Some (''git:ann'', pm)"
    by (simp add: GetOrCreateUserPoolWithSecrets_alone NewPoolManager_def user_pool_key_def Let_def)
  from user_pool_isolated [OF this] pm show ?thesis by simp
qed

lemma remove_pools_exact:
  "remove_pools cond ps = Some (n, qs) \<Longrightarrow>
   qs = filter (\<lambda>(k, p). \<not> cond k p) ps \<and> n = int (length (filter (\<lambda>(k, p). cond k p) ps))"
  by (induction ps arbitrary: n qs) (auto split: if_splits option.splits)

lemma remove_pools_keeps: "remove_pools cond ps = Some (n, qs) \<Longrightarrow> gomap_wf ps \<Longrightarrow>
   gomap_wf qs \<and> (\<forall>k. map_of qs k = (case map_of ps k of None \<Rightarrow> None | Some p \<Rightarrow> if cond k p then None else Some p))"
proof -
  assume r: "remove_pools cond ps = Some (n, qs)" and wf: "gomap_wf ps"
  have qs: "qs = filter (\<lambda>(k, p). \<not> cond k p) ps" using remove_pools_exact [OF r] by simp
  have "distinct (map fst (filter (\<lambda>(k, p). \<not> cond k p) ps))"
    using wf by (simp add: gomap_wf_def distinct_map_filter)
  moreover have "map_of (filter (\<lambda>(k, p). \<not> cond k p) ps) k =
      (case map_of ps k of None \<Rightarrow> None | Some p \<Rightarrow> if cond k p then None else Some p)" for k
    using wf by (induction ps) (auto simp: gomap_wf_def map_of_eq_None_iff image_iff split: option.splits)
  ultimately show ?thesis by (simp add: qs gomap_wf_def)
qed

text \<open>The idle collector removes the pools of users that have not been used for longer than the timeout and keeps
  every other pool as it is: shared pools, and pools in use within the timeout.\<close>

theorem idle_collection_exact:
  assumes "collectIdlePools now pm = Some pm'" and "gomap_wf (pm_pools pm)"
  shows "map_of (pm_pools pm') key =
    (case map_of (pm_pools pm) key of
       None \<Rightarrow> None
     | Some p \<Rightarrow> if po_dedicatedUser p \<noteq> [] \<and> now > po_lastUsed p + pm_idleTimeout pm then None else Some p)"
proof -
  obtain n qs where r: "remove_pools (\<lambda>_. idle now (pm_idleTimeout pm)) (pm_pools pm) = Some (n, qs)" and pm': "pm_pools pm' = qs"
    using assms(1) by (auto simp: collectIdlePools_def)
  from remove_pools_keeps [OF r assms(2)] show ?thesis
    by (auto simp: pm' idle_def IsDedicated_def split: option.splits)
qed

definition idle_manager :: PoolManager where
  "idle_manager = put_pool ''git:ann'' (SetDedicated ''ann'' (NewPool 0 ''git:ann'' 1 ''cat'')) (NewPoolManagerWithGC ''cat'' 1 10)"

theorem idle_collection_exact_witness:
  "\<exists>pm. collectIdlePools 11 idle_manager = Some pm \<and> map_of (pm_pools pm) ''git:ann'' = None"
proof -
  obtain pm where pm: "collectIdlePools 11 idle_manager = Some pm"
    by (simp add: collectIdlePools_def idle_manager_def put_pool_def NewPoolManagerWithGC_def idle_def IsDedicated_def
        SetDedicated_def NewPool_def NewPoolWithEnv_def Shutdown_def make_chan_def Let_def)
  have wf: "gomap_wf (pm_pools idle_manager)" by (simp add: idle_manager_def put_pool_def NewPoolManagerWithGC_def gomap_wf_def)
  have "map_of (pm_pools idle_manager) ''git:ann'' = Some (SetDedicated ''ann'' (NewPool 0 ''git:ann'' 1 ''cat''))"
    and "pm_idleTimeout idle_manager = 10"
    by (simp_all add: idle_manager_def put_pool_def NewPoolManagerWithGC_def)
  moreover have "po_dedicatedUser (SetDedicated ''ann'' (NewPool 0 ''git:ann'' 1 ''cat'')) = ''ann''"
    and "po_lastUsed (SetDedicated ''ann'' (NewPool 0 ''git:ann'' 1 ''cat'')) = 0"
    by (simp_all add: SetDedicated_def NewPool_def NewPoolWithEnv_def Let_def)
  ultimately show ?thesis using idle_collection_exact [OF pm wf, of "''git:ann''"] pm by simp
qed

text \<open>Removing the pools of a backend removes those filed under it, with the pools of any backend whose name begins
  with its name and a colon.\<close>

lemma backend_pools_removed:
  assumes "RemovePoolsByBackend b pm = Some (n, pm')" and "gomap_wf (pm_pools pm)"
  shows "map_of (pm_pools pm') (user_pool_key b u) = None"
    and "CHR '':'' \<notin> set b \<Longrightarrow> CHR '':'' \<notin> set b' \<Longrightarrow> b' \<noteq> b \<Longrightarrow>
      map_of (pm_pools pm') (user_pool_key b' u) = map_of (pm_pools pm) (user_pool_key b' u)"
proof -
  obtain qs where r: "remove_pools (\<lambda>k _. of_backend b k) (pm_pools pm) = Some (n, qs)" and pm': "pm_pools pm' = qs"
    using assms(1) by (auto simp: RemovePoolsByBackend_def)
  note k = remove_pools_keeps [OF r assms(2)]
  show "map_of (pm_pools pm') (user_pool_key b u) = None"
    using k by (auto simp: pm' of_backend_def user_pool_key_def HasPrefix_iff split: option.splits)
  assume "CHR '':'' \<notin> set b" "CHR '':'' \<notin> set b'" "b' \<noteq> b"
  then have "\<not> of_backend b (user_pool_key b' u)"
    using separator_inj [of b' "CHR '':''" u b] by (auto simp: of_backend_def user_pool_key_def HasPrefix_iff)
  then show "map_of (pm_pools pm') (user_pool_key b' u) = map_of (pm_pools pm) (user_pool_key b' u)"
    using k by (auto simp: pm' split: option.splits)
qed

end
