(* ===== verification/Config.thy ===== *)
theory Config
  imports Crypto
begin

text \<open>
  The configuration of the bridge (src/config/config.go) and the in-memory secret store (src/credential/secret.go). Decoding
  the YAML file is the parameter \<open>unmarshal\<close>, \<open>time.ParseDuration\<close> the parameter \<open>parse_std\<close> (\<open>None\<close> its error).
\<close>

section \<open>The structs\<close>

record ServerConfig =
  sv_Port :: string
  sv_LogLevel :: string
  sv_AuthCodeTTL :: string
  sv_AccessTokenTTL :: string
  sv_PublicURL :: string
  sv_InviteExpiry :: string
  sv_InviteAllowExisting :: bool
  sv_AuthCodeTTLParsed :: duration
  sv_AccessTokenTTLParsed :: duration
  sv_InviteExpiryParsed :: duration

record TwoFactorConfig =
  tw_Required :: "bool option"
  tw_Methods :: "string list"

record AuthConfig =
  au_Mode :: string
  au_TwoFactor :: TwoFactorConfig

record SMTPConfig =
  sm_Host :: string
  sm_Port :: int
  sm_User :: string
  sm_Password :: string
  sm_From :: string
  sm_FromName :: string
  sm_UseTLS :: bool
  sm_Timeout :: string
  sm_TimeoutParsed :: duration

record SecretRef =
  sf_Name :: string
  sf_EnvKey :: string
  sf_Context :: string

record ConfigBackend =
  cb_Command :: string
  cb_PoolSize :: int
  cb_MinPoolSize :: int
  cb_MaxPoolSize :: int
  cb_Env :: "(string, string) gomap"
  cb_Secrets :: "SecretRef list"
  cb_ToolPrefix :: string
  cb_SelfReporting :: bool
  cb_NoKeysRequired :: bool
  cb_SkipJustification :: bool
  cb_IsSystem :: bool
  cb_StdioFraming :: string
  cb_Enabled :: "bool option"

record EncryptionConfig =
  en_Provider :: string
  en_KeyEnv :: string
  en_KeyFileEnv :: string
  en_K8sSecretPath :: string
  en_K8sKeyName :: string
  en_RequireEncryption :: bool

record InternalConfig =
  ic_Server :: ServerConfig
  ic_Backends :: "(string, ConfigBackend) gomap"
  ic_Encryption :: EncryptionConfig
  ic_Auth :: AuthConfig
  ic_SMTP :: SMTPConfig

section \<open>Operations\<close>

definition TwoFactorRequired :: "TwoFactorConfig option \<Rightarrow> bool" where
  "TwoFactorRequired c =
     (case c of None \<Rightarrow> True | Some c \<Rightarrow> (case tw_Required c of None \<Rightarrow> True | Some b \<Rightarrow> b))"

definition EqualFold :: "string \<Rightarrow> string \<Rightarrow> bool" where
  "EqualFold a b \<longleftrightarrow> ToLower a = ToLower b"

definition IsInternalAuth :: "InternalConfig \<Rightarrow> bool" where
  "IsInternalAuth c \<longleftrightarrow> au_Mode (ic_Auth c) = [] \<or> EqualFold (au_Mode (ic_Auth c)) ''internal''"

definition Validate :: "EncryptionConfig \<Rightarrow> goerr option" where
  "Validate c =
     (if en_Provider c = ''envvar''
      then if en_KeyEnv c = [] \<and> en_KeyFileEnv c = []
           then Some (ErrNew ''encryption provider envvar requires keyEnv or keyFileEnv'') else None
      else if en_Provider c = ''k8s''
      then if en_K8sSecretPath c = [] then Some (ErrNew ''encryption provider k8s requires k8sSecretPath'') else None
      else if en_Provider c = []
      then if en_RequireEncryption c then Some (ErrNew ''encryption required but no provider configured'') else None
      else Some (ErrNew (''unknown encryption provider: '' @ en_Provider c)))"

definition NewKEKProvider :: "EncryptionConfig \<Rightarrow> goerr + KEKProvider" where
  "NewKEKProvider c =
     (if en_Provider c = ''envvar'' then Inr (EnvVar (NewEnvVarProvider (en_KeyEnv c) (en_KeyFileEnv c)))
      else if en_Provider c = ''k8s'' then Inr (K8sSecret (NewK8sSecretProvider (en_K8sSecretPath c) (en_K8sKeyName c)))
      else Inl (ErrNew (''unknown provider: '' @ en_Provider c)))"

definition hour :: duration where
  "hour = 3600 * 1000000000"

definition TrimSuffix :: "string \<Rightarrow> string \<Rightarrow> string" where
  "TrimSuffix s p = (if HasSuffix s p then take (length s - length p) s else s)"

definition parseDuration :: "(string \<Rightarrow> duration option) \<Rightarrow> string \<Rightarrow> duration" where
  "parseDuration parse_std s =
     (let s = TrimSpace s;
          std = (case parse_std s of None \<Rightarrow> 0 | Some d \<Rightarrow> d)
      in if s = [] then 0
         else if HasSuffix s ''d''
         then (case Atoi (TrimSuffix s ''d'') of Some n \<Rightarrow> gomul (gomul n 24) hour | None \<Rightarrow> std)
         else std)"

definition or_default :: "duration \<Rightarrow> duration \<Rightarrow> duration" where
  "or_default d def = (if d = 0 then def else d)"

text \<open>The defaults \<open>Load\<close> fills in.\<close>

definition with_defaults :: "(string \<Rightarrow> duration option) \<Rightarrow> InternalConfig \<Rightarrow> InternalConfig" where
  "with_defaults parse_std cfg =
     (let sv = ic_Server cfg; au = ic_Auth cfg; tf = au_TwoFactor au; sm = ic_SMTP cfg
      in cfg\<lparr>ic_Server := sv\<lparr>sv_Port := (if sv_Port sv = [] then ''8080'' else sv_Port sv),
               sv_LogLevel := (if sv_LogLevel sv = [] then ''info'' else sv_LogLevel sv),
               sv_AuthCodeTTLParsed := or_default (parseDuration parse_std (sv_AuthCodeTTL sv)) (hour div 6),
               sv_AccessTokenTTLParsed := or_default (parseDuration parse_std (sv_AccessTokenTTL sv)) (24 * hour),
               sv_InviteExpiryParsed := or_default (parseDuration parse_std (sv_InviteExpiry sv)) (7 * 24 * hour)\<rparr>,
             ic_Auth := au\<lparr>au_Mode := (if au_Mode au = [] then ''internal'' else au_Mode au),
               au_TwoFactor := tf\<lparr>tw_Methods := (if tw_Methods tf = [] then [''totp''] else tw_Methods tf)\<rparr>\<rparr>,
             ic_SMTP := sm\<lparr>sm_Port := (if sm_Port sm = 0 then 587 else sm_Port sm)\<rparr>\<rparr>)"

text \<open>The environment variables that override the file.\<close>

definition env_override :: "opsys \<Rightarrow> string \<Rightarrow> string \<Rightarrow> string" where
  "env_override sys name old = (if sys_Getenv sys name \<noteq> [] then sys_Getenv sys name else old)"

definition with_environment :: "opsys \<Rightarrow> InternalConfig \<Rightarrow> InternalConfig" where
  "with_environment sys cfg =
     (let sv = ic_Server cfg; sm = ic_SMTP cfg; allow = sys_Getenv sys ''INVITE_ALLOW_EXISTING''
      in cfg\<lparr>ic_Server := sv\<lparr>sv_PublicURL := env_override sys ''PUBLIC_URL'' (sv_PublicURL sv),
               sv_InviteAllowExisting :=
                 (if allow \<noteq> [] then EqualFold allow ''true'' \<or> allow = ''1'' else sv_InviteAllowExisting sv)\<rparr>,
             ic_SMTP := sm\<lparr>sm_Host := env_override sys ''SMTP_HOST'' (sm_Host sm),
               sm_Port := (case Atoi (sys_Getenv sys ''SMTP_PORT'') of Some n \<Rightarrow> n | None \<Rightarrow> sm_Port sm),
               sm_User := env_override sys ''SMTP_USER'' (sm_User sm),
               sm_Password := env_override sys ''SMTP_PASSWORD'' (sm_Password sm),
               sm_From := env_override sys ''SMTP_FROM'' (sm_From sm),
               sm_FromName := env_override sys ''SMTP_FROM_NAME'' (sm_FromName sm),
               sm_Timeout := env_override sys ''SMTP_TIMEOUT'' (sm_Timeout sm)\<rparr>\<rparr>)"

definition Load ::
    "(string \<Rightarrow> goerr + InternalConfig) \<Rightarrow> (string \<Rightarrow> duration option) \<Rightarrow> opsys \<Rightarrow> string \<Rightarrow> goerr + InternalConfig" where
  "Load unmarshal parse_std sys path =
     (case sys_ReadFile sys path of
        FileMissing \<Rightarrow> Inl (ErrIO ''no such file or directory'')
      | FileError e \<Rightarrow> Inl (ErrIO e)
      | FileData data \<Rightarrow>
          (case unmarshal data of
             Inl err \<Rightarrow> Inl err
           | Inr cfg \<Rightarrow>
               (let cfg = with_environment sys (with_defaults parse_std cfg);
                    sm = ic_SMTP cfg;
                    cfg = cfg\<lparr>ic_SMTP := sm\<lparr>sm_TimeoutParsed := parseDuration parse_std (sm_Timeout sm)\<rparr>\<rparr>
                in case Validate (ic_Encryption cfg) of
                     Some err \<Rightarrow> Inl (ErrWrap ''encryption config validation failed'' err)
                   | None \<Rightarrow> Inr cfg)))"

text \<open>What a loaded configuration guarantees: no lifetime is zero, and an encryption provider that is named can be
  made.\<close>

lemma with_environment_keeps [simp]:
  "sv_AuthCodeTTLParsed (ic_Server (with_environment sys c)) = sv_AuthCodeTTLParsed (ic_Server c)"
  "sv_AccessTokenTTLParsed (ic_Server (with_environment sys c)) = sv_AccessTokenTTLParsed (ic_Server c)"
  "sv_InviteExpiryParsed (ic_Server (with_environment sys c)) = sv_InviteExpiryParsed (ic_Server c)"
  "ic_Auth (with_environment sys c) = ic_Auth c" "ic_Encryption (with_environment sys c) = ic_Encryption c"
  by (simp_all add: with_environment_def Let_def)

lemma with_defaults_sets:
  "sv_AuthCodeTTLParsed (ic_Server (with_defaults ps c)) \<noteq> 0" "sv_AccessTokenTTLParsed (ic_Server (with_defaults ps c)) \<noteq> 0"
  "sv_InviteExpiryParsed (ic_Server (with_defaults ps c)) \<noteq> 0" "au_Mode (ic_Auth (with_defaults ps c)) \<noteq> []"
  by (simp_all add: with_defaults_def Let_def or_default_def hour_def)

lemma validated_provider:
  "Validate c = None \<Longrightarrow> en_Provider c \<noteq> [] \<or> en_RequireEncryption c \<Longrightarrow> \<exists>p. NewKEKProvider c = Inr p"
  by (auto simp: Validate_def NewKEKProvider_def split: if_splits)

lemma loaded_config:
  assumes "Load unmarshal parse_std sys path = Inr cfg"
  shows "sv_AuthCodeTTLParsed (ic_Server cfg) \<noteq> 0" "sv_AccessTokenTTLParsed (ic_Server cfg) \<noteq> 0"
    "sv_InviteExpiryParsed (ic_Server cfg) \<noteq> 0" "au_Mode (ic_Auth cfg) \<noteq> []"
    "en_Provider (ic_Encryption cfg) \<noteq> [] \<or> en_RequireEncryption (ic_Encryption cfg) \<Longrightarrow>
      \<exists>p. NewKEKProvider (ic_Encryption cfg) = Inr p"
proof -
  obtain raw where raw: "Validate (ic_Encryption cfg) = None"
      "cfg = (with_environment sys (with_defaults parse_std raw))\<lparr>ic_SMTP := ic_SMTP cfg\<rparr>"
    using assms by (auto simp: Load_def Let_def split: file_result.splits sum.splits option.splits)
  have "ic_Server cfg = ic_Server (with_environment sys (with_defaults parse_std raw))"
    and "ic_Auth cfg = ic_Auth (with_defaults parse_std raw)"
    by (subst raw(2), simp)+
  then show "sv_AuthCodeTTLParsed (ic_Server cfg) \<noteq> 0" "sv_AccessTokenTTLParsed (ic_Server cfg) \<noteq> 0"
    "sv_InviteExpiryParsed (ic_Server cfg) \<noteq> 0" "au_Mode (ic_Auth cfg) \<noteq> []"
    by (simp_all add: with_defaults_sets)
  show "en_Provider (ic_Encryption cfg) \<noteq> [] \<or> en_RequireEncryption (ic_Encryption cfg) \<Longrightarrow>
      \<exists>p. NewKEKProvider (ic_Encryption cfg) = Inr p"
    using validated_provider [OF raw(1)] .
qed

section \<open>The secret store\<close>

text \<open>The interface \<open>SecretStore\<close>: what is set for a user and a key is got for them and for nobody else. Users
  outside \<open>ok\<close> are not promised anything.\<close>

locale secret_store =
  fixes get :: "'s \<Rightarrow> string \<Rightarrow> string \<Rightarrow> goerr + string"
    and put :: "string \<Rightarrow> string \<Rightarrow> string \<Rightarrow> 's \<Rightarrow> 's"
    and remove :: "string \<Rightarrow> string \<Rightarrow> 's \<Rightarrow> 's"
    and ok :: "string \<Rightarrow> bool"
  assumes get_put: "ok u \<Longrightarrow> ok w \<Longrightarrow> get (put u k v s) w j = (if w = u \<and> j = k then Inr v else get s w j)"
    and get_remove: "ok u \<Longrightarrow> ok w \<Longrightarrow> (w = u \<and> j = k \<longrightarrow> (\<exists>e. get (remove u k s) w j = Inl e)) \<and>
      (\<not> (w = u \<and> j = k) \<longrightarrow> get (remove u k s) w j = get s w j)"
begin

lemma get_put_all:
  "ok u \<Longrightarrow> ok w \<Longrightarrow> w \<noteq> u \<Longrightarrow> get (fold (\<lambda>(k, v). put u k v) kvs s) w j = get s w j"
proof (induction kvs arbitrary: s)
  case (Cons kv kvs)
  then show ?case by (cases kv) (simp add: get_put)
qed simp

end

type_synonym MockSecretStore = "(string, string) gomap"

definition NewMockSecretStore :: MockSecretStore where
  "NewMockSecretStore = []"

definition Secret_key :: "string \<Rightarrow> string \<Rightarrow> string" where
  "Secret_key userID envKey = userID @ '':'' @ envKey"

definition Secret_Get :: "MockSecretStore \<Rightarrow> string \<Rightarrow> string \<Rightarrow> goerr + string" where
  "Secret_Get s userID envKey =
     (case map_of s (Secret_key userID envKey) of
        Some value \<Rightarrow> Inr value
      | None \<Rightarrow> Inl (ErrNew (''secret not found for user='' @ userID @ '' key='' @ envKey)))"

definition Secret_Set :: "string \<Rightarrow> string \<Rightarrow> string \<Rightarrow> MockSecretStore \<Rightarrow> MockSecretStore" where
  "Secret_Set userID envKey value s = AList.update (Secret_key userID envKey) value s"

definition Secret_Delete :: "string \<Rightarrow> string \<Rightarrow> MockSecretStore \<Rightarrow> MockSecretStore" where
  "Secret_Delete userID envKey s = AList.delete (Secret_key userID envKey) s"

definition SetFromMap :: "string \<Rightarrow> (string, string) gomap \<Rightarrow> MockSecretStore \<Rightarrow> MockSecretStore" where
  "SetFromMap userID envVars s = fold (\<lambda>(k, v). Secret_Set userID k v) envVars s"

lemma Secret_key_inj:
  "CHR '':'' \<notin> set u \<Longrightarrow> CHR '':'' \<notin> set w \<Longrightarrow> Secret_key u k = Secret_key w j \<longleftrightarrow> u = w \<and> k = j"
  using separator_inj [of u "CHR '':''" k w j] by (auto simp: Secret_key_def)

interpretation mss: secret_store Secret_Get Secret_Set Secret_Delete "\<lambda>u. CHR '':'' \<notin> set u"
  by unfold_locales (auto simp: Secret_Get_def Secret_Set_def Secret_Delete_def gomap_simps Secret_key_inj)

text \<open>The secrets of one user are out of reach of every other, as long as user identifiers have no colon.\<close>

lemma secrets_isolated:
  "CHR '':'' \<notin> set u \<Longrightarrow> CHR '':'' \<notin> set w \<Longrightarrow> w \<noteq> u \<Longrightarrow> Secret_Get (SetFromMap u kvs s) w j = Secret_Get s w j"
  unfolding SetFromMap_def by (rule mss.get_put_all)

end
