(* ===== verification/Template.thy ===== *)
theory Template
  imports Db Config
begin

text \<open>
  Templates in the environment of a backend (src/muxer/template.go), and the parameters the bridge adds to the
  schemas of tools (src/muxer/augment.go).
  \<open>quoted\<close> is the verb \<open>%q\<close> on text that needs no escaping.
\<close>

section \<open>Template expressions\<close>

definition quoted :: "string \<Rightarrow> string" where
  "quoted s = [CHR 0x22] @ s @ [CHR 0x22]"

definition open_braces :: string where "open_braces = ''{{''"
definition close_braces :: string where "close_braces = ''}}''"

text \<open>The match of \<open>templatePattern\<close> at the start of a text: two opening braces, at least one character other than
  a closing brace, as many as there are, and two closing braces. The result is what is between, and the rest.\<close>

definition match_template :: "string \<Rightarrow> (string \<times> string) option" where
  "match_template s =
     (if HasPrefix s open_braces
      then let r = drop 2 s; inner = takeWhile (\<lambda>c. c \<noteq> CHR 0x7D) r; rest = dropWhile (\<lambda>c. c \<noteq> CHR 0x7D) r
           in if inner \<noteq> [] \<and> HasPrefix rest close_braces then Some (inner, drop 2 rest) else None
      else None)"

lemma match_template_shorter: "match_template s = Some (inner, rest) \<Longrightarrow> length rest < length s"
proof -
  assume m: "match_template s = Some (inner, rest)"
  then have p: "HasPrefix s open_braces" by (auto simp: match_template_def split: if_splits)
  then have "2 \<le> length s" by (auto simp: HasPrefix_iff open_braces_def)
  moreover have "length rest \<le> length (drop 2 s)"
    using m length_dropWhile_le [of "\<lambda>c. c \<noteq> CHR 0x7D" "drop 2 s"]
    by (auto simp: match_template_def Let_def split: if_splits)
  ultimately show ?thesis by simp
qed

text \<open>\<open>ReplaceAllStringFunc\<close> with a function that can fail: the first failure is the result.\<close>

function replace_templates :: "(string \<Rightarrow> goerr + string) \<Rightarrow> string \<Rightarrow> goerr + string" where
  "replace_templates f s =
     (case match_template s of
        Some (inner, rest) \<Rightarrow>
          (case f inner of
             Inl err \<Rightarrow> Inl err
           | Inr v \<Rightarrow> map_sum id ((@) v) (replace_templates f rest))
      | None \<Rightarrow> (case s of [] \<Rightarrow> Inr [] | c # cs \<Rightarrow> map_sum id ((#) c) (replace_templates f cs)))"
  by auto
termination by (relation "measure (length \<circ> snd)") (auto dest: match_template_shorter)

declare replace_templates.simps [simp del]

definition escape_byte :: "char \<Rightarrow> string" where
  "escape_byte c =
     (let n = (of_char c :: nat); hex = (\<lambda>d. if d < 10 then char_of (48 + d) else char_of (55 + d))
      in if 48 \<le> n \<and> n \<le> 57 \<or> 65 \<le> n \<and> n \<le> 90 \<or> 97 \<le> n \<and> n \<le> 122 \<or> n \<in> {45, 46, 95, 126} then [c]
         else if n = 32 then ''+'' else [CHR ''%'', hex (n div 16), hex (n mod 16)])"

definition QueryEscape :: "string \<Rightarrow> string" where
  "QueryEscape s = concat (map escape_byte s)"

definition funcSanitised :: "string \<Rightarrow> string" where
  "funcSanitised s = ReplaceChar (ReplaceChar (ToLower s) (CHR ''@'') ''_at_'') (CHR ''.'') ''_''"

definition funcHashed :: "crypto_lib \<Rightarrow> string \<Rightarrow> string" where
  "funcHashed lib s = ''u'' @ hex_encode (take 8 (cl_sha256 lib (ToLower s)))"

definition templateFuncs :: "crypto_lib \<Rightarrow> (string, string \<Rightarrow> string) gomap" where
  "templateFuncs lib = [(''sanitised'', funcSanitised), (''hashed'', funcHashed lib), (''lower'', ToLower),
     (''upper'', ToUpper), (''urlencoded'', QueryEscape)]"

definition allowedFields :: "(string, User \<Rightarrow> string) gomap" where
  "allowedFields = [(''users.email'', us_Email), (''users.username'', us_Email), (''users.id'', us_ID),
     (''users.role'', us_Role)]"

fun apply_funcs :: "crypto_lib \<Rightarrow> string \<Rightarrow> string list \<Rightarrow> string \<Rightarrow> goerr + string" where
  "apply_funcs lib envKey [] v = Inr v"
| "apply_funcs lib envKey (fn # fns) v =
     (case map_of (templateFuncs lib) (TrimSpace fn) of
        None \<Rightarrow> Inl (ErrNew (''env var '' @ quoted envKey @ '': unknown template function '' @ quoted (TrimSpace fn)))
      | Some f \<Rightarrow> apply_funcs lib envKey fns (f v))"

text \<open>The function applied to each match.\<close>

definition resolve_expr :: "crypto_lib \<Rightarrow> string \<Rightarrow> User \<Rightarrow> string \<Rightarrow> goerr + string" where
  "resolve_expr lib envKey user raw =
     (let parts = Split (TrimSpace raw) (CHR ''|'');
          fieldKey = TrimSpace (hd parts)
      in case Index fieldKey ''.'' of
           None \<Rightarrow> Inl (ErrNew (''env var '' @ quoted envKey @ '': malformed template expression '' @
             quoted (open_braces @ raw @ close_braces) @ '' (missing source prefix)''))
         | Some dotIdx \<Rightarrow>
             if take dotIdx fieldKey \<noteq> ''users''
             then Inl (ErrNew (''env var '' @ quoted envKey @ '': unknown template source '' @ quoted (take dotIdx fieldKey)))
             else case map_of allowedFields fieldKey of
                    None \<Rightarrow> Inl (ErrNew (''env var '' @ quoted envKey @ '': unknown template field '' @ quoted fieldKey))
                  | Some extractor \<Rightarrow>
                      if extractor user = []
                      then Inl (ErrNew (''env var '' @ quoted envKey @ '': template '' @ open_braces @ fieldKey @ close_braces @
                             '' resolved to empty string''))
                      else apply_funcs lib envKey (tl parts) (extractor user))"

definition resolveValue :: "crypto_lib \<Rightarrow> string \<Rightarrow> string \<Rightarrow> User \<Rightarrow> goerr + string" where
  "resolveValue lib envKey val user =
     (if \<not> Contains val open_braces then Inr val
      else if Count val open_braces \<noteq> Count val close_braces
      then Inl (ErrNew (''env var '' @ quoted envKey @ '': malformed template expression (mismatched {{ }})''))
      else replace_templates (resolve_expr lib envKey user) val)"

fun ResolveEnvTemplates :: "crypto_lib \<Rightarrow> (string, string) gomap \<Rightarrow> User \<Rightarrow> goerr + (string, string) gomap" where
  "ResolveEnvTemplates lib [] user = Inr []"
| "ResolveEnvTemplates lib ((k, v) # env) user =
     (case resolveValue lib k v user of
        Inl err \<Rightarrow> Inl err
      | Inr resolved \<Rightarrow> map_sum id ((#) (k, resolved)) (ResolveEnvTemplates lib env user))"

definition envMapHasTemplates :: "(string, string) gomap \<Rightarrow> bool" where
  "envMapHasTemplates env \<longleftrightarrow> list_ex (\<lambda>(_, v). Contains v open_braces) env"

section \<open>Schemas\<close>

record AugmentSpec =
  as_Name :: string
  as_Type :: string
  as_Description :: string
  as_MinLength :: int
  as_Required :: bool
  as_ExemptBackends :: "(string, bool) gomap"

definition exempt :: "string \<Rightarrow> AugmentSpec \<Rightarrow> bool" where
  "exempt backendID spec \<longleftrightarrow> map_of (as_ExemptBackends spec) backendID = Some True"

definition spec_schema :: "AugmentSpec \<Rightarrow> json" where
  "spec_schema spec = JObj ([(''type'', JStr (as_Type spec)), (''description'', JStr (as_Description spec))] @
     (if as_MinLength spec > 0 then [(''minLength'', JNum (of_int (as_MinLength spec)))] else []))"

fun json_object :: "json option \<Rightarrow> (string, json) gomap option" where
  "json_object (Some (JObj m)) = Some m"
| "json_object _ = None"

fun json_array :: "json option \<Rightarrow> json list option" where
  "json_array (Some (JArr vs)) = Some vs"
| "json_array _ = None"

definition add_required :: "AugmentSpec \<Rightarrow> json list \<Rightarrow> json list" where
  "add_required spec required =
     (if as_Required spec \<and> \<not> List.member required (JStr (as_Name spec)) then required @ [JStr (as_Name spec)] else required)"

text \<open>The inner loop: the properties and the list of required names.\<close>

fun add_specs ::
    "string \<Rightarrow> AugmentSpec list \<Rightarrow> (string, json) gomap \<times> json list \<Rightarrow> (string, json) gomap \<times> json list" where
  "add_specs backendID [] pr = pr"
| "add_specs backendID (spec # specs) (props, required) =
     (if exempt backendID spec then add_specs backendID specs (props, required)
      else add_specs backendID specs
        (AList.update (as_Name spec) (spec_schema spec) props, add_required spec required))"

definition augment_tool :: "string \<Rightarrow> AugmentSpec list \<Rightarrow> (string, json) gomap \<Rightarrow> (string, json) gomap" where
  "augment_tool backendID specs tool =
     (let schema = (case json_object (map_of tool ''inputSchema'') of Some s \<Rightarrow> s | None \<Rightarrow> [(''type'', JStr ''object'')]);
          props = (case json_object (map_of schema ''properties'') of Some p \<Rightarrow> p | None \<Rightarrow> []);
          required = (case json_array (map_of schema ''required'') of Some r \<Rightarrow> r | None \<Rightarrow> []);
          (props, required) = add_specs backendID specs (props, required);
          schema = AList.update ''properties'' (JObj props) schema;
          schema = (if required \<noteq> [] then AList.update ''required'' (JArr required) schema else schema)
      in AList.update ''inputSchema'' (JObj schema) tool)"

definition AugmentToolList :: "(string, json) gomap list \<Rightarrow> string \<Rightarrow> AugmentSpec list \<Rightarrow> (string, json) gomap list" where
  "AugmentToolList tools backendID specs = map (augment_tool backendID specs) tools"

section \<open>What templates resolve to\<close>

text \<open>Text and expressions as the documentation of \<open>ResolveEnvTemplates\<close> describes them.\<close>

datatype segment = Lit string | Expr string "string list"

definition expr_text :: "string \<Rightarrow> string list \<Rightarrow> string" where
  "expr_text field fns = field @ concat (map (\<lambda>fn. ''|'' @ fn) fns)"

fun segment_text :: "segment \<Rightarrow> string" where
  "segment_text (Lit s) = s"
| "segment_text (Expr field fns) = open_braces @ expr_text field fns @ close_braces"

text \<open>What a segment stands for: functions are applied from left to right.\<close>

fun segment_value :: "crypto_lib \<Rightarrow> User \<Rightarrow> segment \<Rightarrow> string" where
  "segment_value lib user (Lit s) = s"
| "segment_value lib user (Expr field fns) =
     fold (\<lambda>fn. the (map_of (templateFuncs lib) fn)) fns (the (map_of allowedFields field) user)"

fun segment_ok :: "crypto_lib \<Rightarrow> User \<Rightarrow> segment \<Rightarrow> bool" where
  "segment_ok lib user (Lit s) \<longleftrightarrow> CHR 0x7B \<notin> set s \<and> CHR 0x7D \<notin> set s"
| "segment_ok lib user (Expr field fns) \<longleftrightarrow>
     (\<exists>get. map_of allowedFields field = Some get \<and> get user \<noteq> []) \<and> set fns \<subseteq> fst ` set (templateFuncs lib)"

definition name_char :: "char \<Rightarrow> bool" where
  "name_char c \<longleftrightarrow> \<not> is_space c \<and> c \<noteq> CHR ''|'' \<and> c \<noteq> CHR 0x7B \<and> c \<noteq> CHR 0x7D"

lemma field_names: "map_of allowedFields f = Some get \<Longrightarrow> list_all name_char f \<and> f \<noteq> [] \<and>
    (\<exists>i. Index f ''.'' = Some i \<and> take i f = ''users'')"
  by (auto simp: allowedFields_def name_char_def is_space_def split: if_splits)

lemma func_names: "fn \<in> fst ` set (templateFuncs lib) \<Longrightarrow> list_all name_char fn \<and> (\<exists>g. map_of (templateFuncs lib) fn = Some g)"
  by (auto simp: templateFuncs_def name_char_def is_space_def)

lemma Split_none: "sep \<notin> set w \<Longrightarrow> Split w sep = [w]"
  by (induction w) auto

lemma Split_append: "sep \<notin> set w \<Longrightarrow> Split (w @ sep # s) sep = w # Split s sep"
  by (induction w) auto

lemma name_no_bar: "list_all name_char w \<Longrightarrow> CHR ''|'' \<notin> set w"
  by (auto simp: list_all_iff name_char_def)

lemma Split_expr:
  "list_all name_char f \<Longrightarrow> (\<And>fn. fn \<in> set fns \<Longrightarrow> list_all name_char fn) \<Longrightarrow>
   Split (expr_text f fns) (CHR ''|'') = f # fns"
proof (induction fns arbitrary: f)
  case Nil
  then show ?case by (simp add: expr_text_def Split_none name_no_bar)
next
  case (Cons fn fns)
  have "expr_text f (fn # fns) = f @ CHR ''|'' # expr_text fn fns" by (simp add: expr_text_def)
  then show ?case using Cons by (simp add: Split_append name_no_bar)
qed

lemma TrimSpace_name: "list_all name_char w \<Longrightarrow> TrimSpace w = w"
  by (rule TrimSpace_no_space) (auto simp: list_all_iff name_char_def)

lemma expr_chars:
  assumes "list_all name_char f" and "\<And>fn. fn \<in> set fns \<Longrightarrow> list_all name_char fn"
  shows "TrimSpace (expr_text f fns) = expr_text f fns" and "CHR 0x7B \<notin> set (expr_text f fns)"
    and "CHR 0x7D \<notin> set (expr_text f fns)"
proof -
  have bar: "\<not> is_space (CHR ''|'')" by (simp add: is_space_def)
  have c: "\<not> is_space c \<and> c \<noteq> CHR 0x7B \<and> c \<noteq> CHR 0x7D" if "c \<in> set (expr_text f fns)" for c
  proof (cases "c = CHR ''|''")
    case False
    with that have "c \<in> set f \<or> (\<exists>fn \<in> set fns. c \<in> set fn)"
      by (auto simp: expr_text_def split: if_splits)
    then have "name_char c" using assms by (auto simp: list_all_iff)
    then show ?thesis by (simp add: name_char_def)
  qed (simp add: bar)
  show "TrimSpace (expr_text f fns) = expr_text f fns" using c by (intro TrimSpace_no_space) (simp add: list_all_iff)
  show "CHR 0x7B \<notin> set (expr_text f fns)" "CHR 0x7D \<notin> set (expr_text f fns)" using c by blast+
qed

lemma apply_funcs_ok:
  "(\<And>fn. fn \<in> set fns \<Longrightarrow> fn \<in> fst ` set (templateFuncs lib)) \<Longrightarrow>
   apply_funcs lib k fns v = Inr (fold (\<lambda>fn. the (map_of (templateFuncs lib) fn)) fns v)"
proof (induction fns arbitrary: v)
  case (Cons fn fns)
  obtain g where "list_all name_char fn" and g: "map_of (templateFuncs lib) fn = Some g"
    using func_names [OF Cons.prems [of fn]] by auto
  moreover have "apply_funcs lib k fns (g v) = Inr (fold (\<lambda>fn. the (map_of (templateFuncs lib) fn)) fns (g v))"
    by (rule Cons.IH) (simp add: Cons.prems)
  ultimately show ?case by (simp add: TrimSpace_name)
qed simp

lemma resolve_expr_ok:
  assumes "segment_ok lib user (Expr f fns)"
  shows "resolve_expr lib k user (expr_text f fns) = Inr (segment_value lib user (Expr f fns))"
proof -
  from assms obtain get where g: "map_of allowedFields f = Some get" "get user \<noteq> []"
    and fns: "\<And>fn. fn \<in> set fns \<Longrightarrow> fn \<in> fst ` set (templateFuncs lib)" by auto
  from field_names [OF g(1)] obtain i where f: "list_all name_char f" "Index f ''.'' = Some i" "take i f = ''users''"
    by auto
  have names: "\<And>fn. fn \<in> set fns \<Longrightarrow> list_all name_char fn" using func_names [OF fns] by blast
  show ?thesis
    using f g names
    by (simp add: resolve_expr_def expr_chars(1) Split_expr TrimSpace_name apply_funcs_ok [OF fns] Let_def)
qed

lemma Count_skip:
  "CHR 0x7B \<notin> set a \<Longrightarrow> Count (a @ b) open_braces = Count b open_braces"
  "CHR 0x7D \<notin> set a \<Longrightarrow> Count (a @ b) close_braces = Count b close_braces"
  by (induction a) (auto simp: open_braces_def close_braces_def)

lemma Count_expr:
  assumes "CHR 0x7B \<notin> set e" and "CHR 0x7D \<notin> set e"
  shows "Count (open_braces @ e @ close_braces @ b) open_braces = Suc (Count b open_braces)"
    and "Count (open_braces @ e @ close_braces @ b) close_braces = Suc (Count b close_braces)"
proof -
  have "Count (open_braces @ e @ close_braces @ b) open_braces = Suc (Count (e @ close_braces @ b) open_braces)"
    by (simp add: open_braces_def)
  also have "\<dots> = Suc (Count b open_braces)"
    using assms Count_skip(1) [of "e @ close_braces" b] by (simp add: close_braces_def)
  finally show "Count (open_braces @ e @ close_braces @ b) open_braces = Suc (Count b open_braces)" .
  have "Count (open_braces @ e @ close_braces @ b) close_braces = Count (close_braces @ b) close_braces"
    using assms Count_skip(2) [of "open_braces @ e" "close_braces @ b"] by (simp add: open_braces_def)
  then show "Count (open_braces @ e @ close_braces @ b) close_braces = Suc (Count b close_braces)"
    by (simp add: close_braces_def)
qed

lemma replace_literal:
  "CHR 0x7B \<notin> set a \<Longrightarrow> replace_templates f (a @ b) = map_sum id ((@) a) (replace_templates f b)"
proof (induction a)
  case Nil
  show ?case by (cases "replace_templates f b") simp_all
next
  case (Cons c a)
  then have "match_template ((c # a) @ b) = None" by (auto simp: match_template_def open_braces_def)
  then show ?case
    using Cons by (subst replace_templates.simps) (cases "replace_templates f b"; simp)
qed

lemma match_expr:
  assumes "e \<noteq> []" and "CHR 0x7D \<notin> set e"
  shows "match_template (open_braces @ e @ close_braces @ b) = Some (e, b)"
proof -
  have "takeWhile (\<lambda>c. c \<noteq> CHR 0x7D) (e @ close_braces @ b) = e"
    and "dropWhile (\<lambda>c. c \<noteq> CHR 0x7D) (e @ close_braces @ b) = close_braces @ b"
    using assms(2) by (subst takeWhile_append2 dropWhile_append2; auto simp: close_braces_def)+
  then show ?thesis using assms(1) by (simp add: match_template_def open_braces_def Let_def close_braces_def)
qed

lemma expr_ok_chars:
  assumes "segment_ok lib user (Expr f fns)"
  shows "expr_text f fns \<noteq> []" "CHR 0x7B \<notin> set (expr_text f fns)" "CHR 0x7D \<notin> set (expr_text f fns)"
proof -
  from assms obtain get where g: "map_of allowedFields f = Some get" by auto
  have f: "list_all name_char f" "f \<noteq> []" using field_names [OF g] by auto
  have "list_all name_char fn" if "fn \<in> set fns" for fn
  proof -
    have "fn \<in> fst ` set (templateFuncs lib)" using assms that by auto
    then show ?thesis using func_names by blast
  qed
  with f show "CHR 0x7B \<notin> set (expr_text f fns)" "CHR 0x7D \<notin> set (expr_text f fns)"
    using expr_chars [of f fns] by blast+
  show "expr_text f fns \<noteq> []" using f(2) by (simp add: expr_text_def)
qed

lemma segments_resolve:
  assumes "\<And>seg. seg \<in> set segs \<Longrightarrow> segment_ok lib user seg"
  shows "replace_templates (resolve_expr lib k user) (concat (map segment_text segs)) = Inr (concat (map (segment_value lib user) segs)) \<and>
    Count (concat (map segment_text segs)) open_braces = Count (concat (map segment_text segs)) close_braces"
  using assms
proof (induction segs)
  case Nil
  show ?case by (subst replace_templates.simps) (simp add: match_template_def open_braces_def)
next
  case (Cons seg segs)
  have IH: "replace_templates (resolve_expr lib k user) (concat (map segment_text segs)) = Inr (concat (map (segment_value lib user) segs))"
      "Count (concat (map segment_text segs)) open_braces = Count (concat (map segment_text segs)) close_braces"
    using Cons by simp_all
  show ?case
  proof (cases seg)
    case (Lit a)
    then show ?thesis using Cons.prems [of seg] IH by (simp add: replace_literal Count_skip)
  next
    case (Expr f fns)
    then have ok: "segment_ok lib user (Expr f fns)" using Cons.prems [of seg] by simp
    note chars = expr_ok_chars [OF ok]
    show ?thesis
      unfolding Expr using IH Count_expr [OF chars(2,3)] resolve_expr_ok [OF ok]
      by (subst replace_templates.simps) (simp add: match_expr [OF chars(1,3)])
  qed
qed

text \<open>Templates mean what their documentation says: a value made of literal text without braces and expressions
  over the allowed fields and known functions resolves to the text with each expression replaced by the user's field,
  the functions applied from left to right, whenever the fields are not empty.\<close>

theorem template_value:
  assumes "\<And>seg. seg \<in> set segs \<Longrightarrow> segment_ok lib user seg"
  shows "resolveValue lib k (concat (map segment_text segs)) user = Inr (concat (map (segment_value lib user) segs))"
proof (cases "Contains (concat (map segment_text segs)) open_braces")
  case True
  then show ?thesis using segments_resolve [OF assms] by (simp add: resolveValue_def)
next
  case False
  have "segment_text seg = segment_value lib user seg" if "seg \<in> set segs" for seg
  proof (cases seg)
    case (Expr f fns)
    from that obtain a b where "segs = a @ seg # b" by (meson split_list)
    then have "concat (map segment_text segs) = concat (map segment_text a) @ open_braces @
        (expr_text f fns @ close_braces @ concat (map segment_text b))"
      by (simp add: Expr)
    then have "Contains (concat (map segment_text segs)) open_braces" unfolding Contains_iff by blast
    with False show ?thesis by simp
  qed simp
  then have "concat (map segment_text segs) = concat (map (segment_value lib user) segs)"
    by (metis (no_types, lifting) map_eq_conv)
  with False show ?thesis by (simp add: resolveValue_def)
qed

definition sample_user :: User where
  "sample_user = \<lparr>us_ID = ''u1'', us_Name = ''Ann'', us_Email = ''ann@x.org'', us_Password = ''h'', us_PasswordSalt = ''s'',
     us_Role = ''user'', us_CreatedAt = 0\<rparr>"

theorem template_value_witness:
  "resolveValue sample_lib ''DB'' (concat (map segment_text [Lit ''db_'', Expr ''users.email'' [''sanitised''], Lit ''/x''])) sample_user =
     Inr ''db_ann_at_x_org/x''"
proof -
  have "resolveValue sample_lib ''DB'' (concat (map segment_text [Lit ''db_'', Expr ''users.email'' [''sanitised''], Lit ''/x''])) sample_user
      = Inr (concat (map (segment_value sample_lib sample_user) [Lit ''db_'', Expr ''users.email'' [''sanitised''], Lit ''/x'']))"
    by (rule template_value) (auto simp: allowedFields_def templateFuncs_def sample_user_def)
  then show ?thesis
    by (simp add: allowedFields_def templateFuncs_def sample_user_def funcSanitised_def ReplaceChar_def ToLower_def lower_char_def)
qed

text \<open>Malformed expressions pass. A comment says that a literal expression in double braces never reaches the
  backend process; an empty expression, or one with a lone closing brace in it, has matching pairs of braces but no
  match of the pattern, and is passed on as it is.\<close>

theorem malformed_template_passes:
  "resolveValue lib k ''{{}}'' user = Inr ''{{}}'' \<and> resolveValue lib k ''{{users.email}x}}'' user = Inr ''{{users.email}x}}''"
proof -
  have "replace_templates f ''{{}}'' = Inr ''{{}}''" for f
    by (simp add: replace_templates.simps match_template_def open_braces_def close_braces_def)
  moreover have "replace_templates f ''{{users.email}x}}'' = Inr ''{{users.email}x}}''" for f
    by (simp add: replace_templates.simps match_template_def open_braces_def close_braces_def)
  ultimately show ?thesis
    by (simp add: resolveValue_def Contains_def open_braces_def close_braces_def)
qed

section \<open>What augmented schemas contain\<close>

lemma add_specs_props_other:
  "(\<And>s. s \<in> set specs \<Longrightarrow> exempt b s \<or> as_Name s \<noteq> n) \<Longrightarrow>
   map_of (fst (add_specs b specs (props, req))) n = map_of props n"
proof (induction specs arbitrary: props req)
  case (Cons s specs)
  have "map_of (fst (add_specs b specs (ps, rq))) n = map_of ps n" for ps rq using Cons by simp
  then show ?case using Cons.prems [of s] by (auto simp: gomap_simps)
qed simp

lemma add_required_set:
  "set req \<subseteq> set (add_required spec req)" "as_Required spec \<Longrightarrow> JStr (as_Name spec) \<in> set (add_required spec req)"
  by (auto simp: add_required_def)

lemma add_specs_req_mono: "set req \<subseteq> set (snd (add_specs b specs (props, req)))"
proof (induction specs arbitrary: props req)
  case (Cons s specs)
  show ?case
    using Cons.IH [of req props] subset_trans [OF add_required_set(1) Cons.IH] by simp
qed simp

lemma add_specs_sets:
  "spec \<in> set specs \<Longrightarrow> \<not> exempt b spec \<Longrightarrow> distinct (map as_Name specs) \<Longrightarrow>
   map_of (fst (add_specs b specs (props, req))) (as_Name spec) = Some (spec_schema spec) \<and>
   (as_Required spec \<longrightarrow> JStr (as_Name spec) \<in> set (snd (add_specs b specs (props, req))))"
proof (induction specs arbitrary: props req)
  case (Cons s specs)
  show ?case
  proof (cases "s = spec")
    case True
    have "map_of (fst (add_specs b specs (ps, rq))) (as_Name spec) = map_of ps (as_Name spec)" for ps rq
      using Cons.prems(3) True by (intro add_specs_props_other) (auto intro: rev_image_eqI)
    then show ?thesis
      using Cons.prems(2) True add_specs_req_mono [of "add_required spec req" b specs] add_required_set(2) [of spec req]
      by (auto simp: gomap_simps)
  next
    case False
    then show ?thesis using Cons by auto
  qed
qed simp

text \<open>Every tool of a list the bridge serves asks for the bridge's own parameters: after augmentation its input
  schema is an object whose properties contain each parameter that does not exempt the backend, with the type and
  description of its specification; a required one is listed as required; and what else the schema described is kept.\<close>

theorem augmented_tool_schema:
  assumes "spec \<in> set specs" and "\<not> exempt b spec" and "distinct (map as_Name specs)" and "tool' \<in> set (AugmentToolList tools b specs)"
  shows "\<exists>schema props. map_of tool' ''inputSchema'' = Some (JObj schema) \<and> map_of schema ''properties'' = Some (JObj props) \<and>
    map_of props (as_Name spec) = Some (spec_schema spec) \<and>
    (as_Required spec \<longrightarrow> (\<exists>req. map_of schema ''required'' = Some (JArr req) \<and> JStr (as_Name spec) \<in> set req)) \<and>
    (\<exists>tool \<in> set tools. \<forall>sch ps n v. map_of tool ''inputSchema'' = Some (JObj sch) \<longrightarrow>
       map_of sch ''properties'' = Some (JObj ps) \<longrightarrow> n \<notin> as_Name ` set specs \<longrightarrow> map_of ps n = Some v \<longrightarrow> map_of props n = Some v)"
proof -
  from assms(4) obtain tool where tool: "tool \<in> set tools" "tool' = augment_tool b specs tool"
    by (auto simp: AugmentToolList_def)
  define sch where "sch = (case json_object (map_of tool ''inputSchema'') of Some s \<Rightarrow> s | None \<Rightarrow> [(''type'', JStr ''object'')])"
  define ps where "ps = (case json_object (map_of sch ''properties'') of Some p \<Rightarrow> p | None \<Rightarrow> [])"
  define rq where "rq = (case json_array (map_of sch ''required'') of Some r \<Rightarrow> r | None \<Rightarrow> [])"
  obtain props req where pr: "add_specs b specs (ps, rq) = (props, req)" by fastforce
  define schema where "schema = (let s = AList.update ''properties'' (JObj props) sch
    in if req \<noteq> [] then AList.update ''required'' (JArr req) s else s)"
  have tool': "tool' = AList.update ''inputSchema'' (JObj schema) tool"
    by (simp add: tool(2) augment_tool_def Let_def pr schema_def sch_def [symmetric] ps_def [symmetric] rq_def [symmetric])
  have props: "map_of props (as_Name spec) = Some (spec_schema spec)" and req: "as_Required spec \<longrightarrow> JStr (as_Name spec) \<in> set req"
    using add_specs_sets [OF assms(1-3), of ps rq] by (simp_all add: pr)
  have keep: "map_of props n = map_of ps n" if "n \<notin> as_Name ` set specs" for n
    using add_specs_props_other [of specs b n ps rq] that by (force simp: pr)
  have sp: "map_of schema ''properties'' = Some (JObj props)"
    and sr: "as_Required spec \<longrightarrow> (\<exists>req. map_of schema ''required'' = Some (JArr req) \<and> JStr (as_Name spec) \<in> set req)"
    using req by (auto simp: schema_def Let_def gomap_simps)
  have ti: "map_of tool' ''inputSchema'' = Some (JObj schema)" by (simp add: tool' gomap_simps)
  show ?thesis
    by (intro exI conjI bexI [OF _ tool(1)]) (use ti sp props sr keep in \<open>auto simp: sch_def ps_def\<close>)
qed

definition justification_spec :: AugmentSpec where
  "justification_spec = \<lparr>as_Name = ''justification'', as_Type = ''string'', as_Description = ''why'', as_MinLength = 10,
     as_Required = True, as_ExemptBackends = []\<rparr>"

theorem augmented_tool_schema_witness:
  "\<exists>tool' schema. AugmentToolList [[(''name'', JStr ''t'')]] ''b'' [justification_spec] = [tool'] \<and>
     map_of tool' ''inputSchema'' = Some (JObj schema) \<and> map_of schema ''required'' = Some (JArr [JStr ''justification''])"
proof -
  obtain tool' where t: "AugmentToolList [[(''name'', JStr ''t'')]] ''b'' [justification_spec] = [tool']"
    by (simp add: AugmentToolList_def)
  have "\<exists>schema. map_of tool' ''inputSchema'' = Some (JObj schema) \<and>
      (\<exists>req. map_of schema ''required'' = Some (JArr req) \<and> JStr ''justification'' \<in> set req)"
    using augmented_tool_schema [of justification_spec "[justification_spec]" "''b''" tool' "[[(''name'', JStr ''t'')]]"] t
    by (auto simp: justification_spec_def exempt_def)
  moreover have "map_of tool' ''inputSchema'' = Some (JObj [(''type'', JStr ''object''),
      (''properties'', JObj [(''justification'', spec_schema justification_spec)]), (''required'', JArr [JStr ''justification''])])"
    using t by (auto simp: AugmentToolList_def augment_tool_def justification_spec_def exempt_def Let_def add_required_def)
  ultimately show ?thesis using t by auto
qed

end
