(* ===== verification/Muxer.thy ===== *)
theory Muxer
  imports BackendStore PoolManager Template
begin

text \<open>
  Routing of tool calls to backends (src/muxer/muxer.go). The record \<open>ToolMuxer\<close> holds the prefix map, the legacy
  secret store and the configuration. The database store, which the muxer shares with the rest of the program, is an
  argument and result of the operations that use it, \<open>None\<close> where the pointer is nil, and so is the pool manager. A
  Go map is iterated in the order of its list; the operations that depend on that order are so here.
\<close>

section \<open>State\<close>

record ToolMuxer =
  tm_backendPrefixes :: "(string, string) gomap"
  tm_secrets :: "MockSecretStore option"
  tm_config :: InternalConfig

record PoolRouter =
  prt_Pool :: string
  prt_UserID :: string
  prt_Backend :: string
  prt_Prefix :: string
  prt_ShouldStrip :: bool
  prt_Dedicated :: bool

definition ListBackends_opt ::
    "crypto_lib \<Rightarrow> opsys \<Rightarrow> Store option \<Rightarrow> Backend list option \<times> Store option" where
  "ListBackends_opt lib sys st =
     (case st of
        None \<Rightarrow> (None, None)
      | Some s \<Rightarrow>
          (case Store_ListBackends lib sys s of
             (Inl _, s) \<Rightarrow> (None, Some s)
           | (Inr bs, s) \<Rightarrow> ((if bs = [] then None else Some bs), Some s)))"

definition prefixes_of_backends :: "Backend list \<Rightarrow> (string, string) gomap" where
  "prefixes_of_backends bs =
     fold (\<lambda>b m. if be_ToolPrefix b \<noteq> [] then AList.update (be_ToolPrefix b) (be_ID b) m else m) bs []"

definition prefixes_of_config :: "InternalConfig \<Rightarrow> (string, string) gomap" where
  "prefixes_of_config cfg =
     fold (\<lambda>(i, c) m. if cb_ToolPrefix c \<noteq> [] then AList.update (cb_ToolPrefix c) i m else m) (ic_Backends cfg) []"

definition load_prefixes ::
    "crypto_lib \<Rightarrow> opsys \<Rightarrow> InternalConfig \<Rightarrow> Store option \<Rightarrow> (string, string) gomap \<times> Store option" where
  "load_prefixes lib sys cfg st =
     (case ListBackends_opt lib sys st of
        (Some bs, st) \<Rightarrow> (prefixes_of_backends bs, st)
      | (None, st) \<Rightarrow> (prefixes_of_config cfg, st))"

definition NewToolMuxer :: "MockSecretStore option \<Rightarrow> InternalConfig \<Rightarrow> ToolMuxer" where
  "NewToolMuxer secrets cfg =
     \<lparr>tm_backendPrefixes = prefixes_of_config cfg, tm_secrets = secrets, tm_config = cfg\<rparr>"

definition NewToolMuxerWithStore ::
    "crypto_lib \<Rightarrow> opsys \<Rightarrow> InternalConfig \<Rightarrow> Store option \<Rightarrow> ToolMuxer \<times> Store option" where
  "NewToolMuxerWithStore lib sys cfg st =
     (let (prefixes, st) = load_prefixes lib sys cfg st
      in (\<lparr>tm_backendPrefixes = prefixes, tm_secrets = None, tm_config = cfg\<rparr>, st))"

definition RefreshPrefixes ::
    "crypto_lib \<Rightarrow> opsys \<Rightarrow> ToolMuxer \<Rightarrow> Store option \<Rightarrow> ToolMuxer \<times> Store option" where
  "RefreshPrefixes lib sys tm st =
     (let (prefixes, st) = load_prefixes lib sys (tm_config tm) st in (tm\<lparr>tm_backendPrefixes := prefixes\<rparr>, st))"

section \<open>Finding the backend\<close>

definition listBackendIDs :: "crypto_lib \<Rightarrow> opsys \<Rightarrow> ToolMuxer \<Rightarrow> Store option \<Rightarrow> string list \<times> Store option" where
  "listBackendIDs lib sys tm st =
     (case ListBackends_opt lib sys st of
        (Some bs, st) \<Rightarrow> (map be_ID bs, st)
      | (None, st) \<Rightarrow> (map fst (ic_Backends (tm_config tm)), st))"

definition prefix_matches :: "string \<Rightarrow> string \<Rightarrow> bool" where
  "prefix_matches toolName prefix \<longleftrightarrow> HasPrefix toolName (prefix @ ''_'') \<or> HasPrefix toolName (prefix @ ''/'')"

definition FindBackendForTool ::
    "crypto_lib \<Rightarrow> opsys \<Rightarrow> string \<Rightarrow> ToolMuxer \<Rightarrow> Store option \<Rightarrow> (goerr + (string \<times> string)) \<times> Store option" where
  "FindBackendForTool lib sys toolName tm st =
     (case find (\<lambda>(prefix, _). prefix_matches toolName prefix) (tm_backendPrefixes tm) of
        Some (prefix, backendID) \<Rightarrow> (Inr (backendID, prefix), st)
      | None \<Rightarrow>
          (case listBackendIDs lib sys tm st of
             ([i], st) \<Rightarrow> (Inr (i, []), st)
           | (_, st) \<Rightarrow> (Inl (ErrNew (''no backend found for tool: '' @ toolName)), st)))"

definition GetPrefixForBackend :: "string \<Rightarrow> ToolMuxer \<Rightarrow> string" where
  "GetPrefixForBackend backendID tm =
     (case find (\<lambda>(_, b). b = backendID) (tm_backendPrefixes tm) of Some (prefix, _) \<Rightarrow> prefix | None \<Rightarrow> [])"

section \<open>The configuration of a backend\<close>

text \<open>Decoding a column of the backend into a string map; null values are empty strings. A column that is a JSON
  string is decoded twice, and a column that does not decode counts as empty.\<close>

fun string_values :: "(string \<times> json) list \<Rightarrow> (string, string) gomap option" where
  "string_values [] = Some []"
| "string_values ((k, JStr s) # kvs) = map_option ((#) (k, s)) (string_values kvs)"
| "string_values ((k, JNull) # kvs) = map_option ((#) (k, [])) (string_values kvs)"
| "string_values ((k, _) # kvs) = None"

definition unquote :: "json_lib \<Rightarrow> string \<Rightarrow> string" where
  "unquote jl s =
     (if HasPrefix s [CHR 0x22] \<and> HasSuffix s [CHR 0x22]
      then case jl_Unmarshal jl s of Inr (JStr u) \<Rightarrow> u | _ \<Rightarrow> s
      else s)"

definition decode_string_map :: "json_lib \<Rightarrow> string \<Rightarrow> (string, string) gomap" where
  "decode_string_map jl column =
     (if column = [] \<or> column = ''{}'' then []
      else case jl_Unmarshal jl (unquote jl column) of
             Inr (JObj kvs) \<Rightarrow> (case string_values kvs of Some m \<Rightarrow> m | None \<Rightarrow> [])
           | _ \<Rightarrow> [])"

record backend_cfg =
  bg_command :: string
  bg_poolSize :: int
  bg_minPoolSize :: int
  bg_maxPoolSize :: int
  bg_env :: "(string, string) gomap"
  bg_envMappings :: "(string, string) gomap"
  bg_stdioFraming :: string

definition cfg_of_backend :: "json_lib \<Rightarrow> Backend \<Rightarrow> backend_cfg" where
  "cfg_of_backend jl b =
     (let minSize = (if be_MinPoolSize b = 0 then 1 else be_MinPoolSize b)
      in \<lparr>bg_command = be_Command b, bg_poolSize = be_PoolSize b, bg_minPoolSize = minSize,
          bg_maxPoolSize = (if be_MaxPoolSize b = 0 then minSize else be_MaxPoolSize b),
          bg_env = decode_string_map jl (be_Env b), bg_envMappings = decode_string_map jl (be_EnvMappings b),
          bg_stdioFraming = (if be_StdioFraming b = [] then ''newline'' else be_StdioFraming b)\<rparr>)"

definition cfg_of_config :: "ConfigBackend \<Rightarrow> backend_cfg" where
  "cfg_of_config c =
     \<lparr>bg_command = cb_Command c, bg_poolSize = cb_PoolSize c, bg_minPoolSize = cb_PoolSize c, bg_maxPoolSize = cb_PoolSize c,
      bg_env = cb_Env c, bg_envMappings = [],
      bg_stdioFraming = (if cb_StdioFraming c = [] then ''newline'' else cb_StdioFraming c)\<rparr>"

text \<open>The store first, then the configuration; \<open>None\<close> when the backend is in neither.\<close>

definition getBackendConfig ::
    "crypto_lib \<Rightarrow> opsys \<Rightarrow> json_lib \<Rightarrow> string \<Rightarrow> ToolMuxer \<Rightarrow> Store option \<Rightarrow> backend_cfg option \<times> Store option" where
  "getBackendConfig lib sys jl backendID tm st =
     (let from_config = map_option cfg_of_config (map_of (ic_Backends (tm_config tm)) backendID)
      in case st of
           None \<Rightarrow> (from_config, None)
         | Some s \<Rightarrow>
             (case Store_GetBackend lib sys backendID s of
                (Inr b, s) \<Rightarrow> (Some (cfg_of_backend jl b), Some s)
              | (Inl _, s) \<Rightarrow> (from_config, Some s)))"

section \<open>The environment of a backend\<close>

definition system_env :: "opsys \<Rightarrow> (string, string) gomap" where
  "system_env sys =
     fold (\<lambda>k m. if sys_Getenv sys k \<noteq> [] then AList.update k (sys_Getenv sys k) m else m) [''PATH'', ''HOME'', ''USER''] []"

definition set_tokens :: "UserToken list \<Rightarrow> (string, string) gomap \<Rightarrow> (string, string) gomap" where
  "set_tokens tokens env = fold (\<lambda>t. AList.update (ut_EnvKey t) (ut_Value t)) tokens env"

definition set_secret :: "MockSecretStore \<Rightarrow> string \<Rightarrow> SecretRef \<Rightarrow> (string, string) gomap \<Rightarrow> (string, string) gomap" where
  "set_secret secrets userID ref env =
     (case Secret_Get secrets userID (sf_EnvKey ref) of
        Inl _ \<Rightarrow> env | Inr v \<Rightarrow> AList.update (sf_EnvKey ref) v env)"

text \<open>The credentials of the user: from the store, or else from the legacy secret store. \<open>buildLegacyEnv\<close> and the
  first step of \<open>BuildEnvForUser\<close> are the same code.\<close>

definition buildLegacyEnv ::
    "crypto_lib \<Rightarrow> opsys \<Rightarrow> string \<Rightarrow> string \<Rightarrow> ToolMuxer \<Rightarrow> Store option \<Rightarrow> (string, string) gomap \<Rightarrow>
     (string, string) gomap \<times> Store option" where
  "buildLegacyEnv lib sys userID backendID tm st env =
     (case st of
        Some s \<Rightarrow>
          (case Store_GetUserTokensDecrypted lib sys userID backendID s of
             (Inl _, s) \<Rightarrow> (env, Some s)
           | (Inr tokens, s) \<Rightarrow> (set_tokens tokens env, Some s))
      | None \<Rightarrow>
          (case tm_secrets tm of
             None \<Rightarrow> (env, None)
           | Some secrets \<Rightarrow>
               (case map_of (ic_Backends (tm_config tm)) backendID of
                  None \<Rightarrow> (env, None)
                | Some c \<Rightarrow> (fold (set_secret secrets userID) (cb_Secrets c) env, None))))"

text \<open>Go ranges over the map of values in an order of its own each time; the list of \<open>env\<close> is that order. It matters only when two variables are
  given the same name: then the value of the later one stays, and two runs may differ.\<close>

definition apply_mappings :: "(string, string) gomap \<Rightarrow> (string, string) gomap \<Rightarrow> (string, string) gomap" where
  "apply_mappings mappings env =
     (if mappings = [] then env
      else fold (\<lambda>(k, v). AList.update (case map_of mappings k of Some b \<Rightarrow> b | None \<Rightarrow> k) v) env [])"

definition apply_systemwide :: "(string, string) gomap \<Rightarrow> (string, string) gomap \<Rightarrow> (string, string) gomap" where
  "apply_systemwide systemwide env = fold (\<lambda>(k, v). AList.update k v) systemwide env"

definition mapToSlice :: "(string, string) gomap \<Rightarrow> string list" where
  "mapToSlice m = map (\<lambda>(k, v). k @ ''='' @ v) m"

text \<open>The environment as a map, before \<open>mapToSlice\<close>.\<close>

definition user_env ::
    "crypto_lib \<Rightarrow> opsys \<Rightarrow> json_lib \<Rightarrow> string \<Rightarrow> string \<Rightarrow> ToolMuxer \<Rightarrow> Store option \<Rightarrow>
     (goerr + (string, string) gomap) \<times> Store option" where
  "user_env lib sys jl userID backendID tm st =
     (let env = system_env sys;
          (cfg, st) = getBackendConfig lib sys jl backendID tm st;
          (env, st) = buildLegacyEnv lib sys userID backendID tm st env
      in case cfg of
           None \<Rightarrow> (Inr env, st)
         | Some cfg \<Rightarrow>
             (let env = apply_systemwide (bg_env cfg) (apply_mappings (bg_envMappings cfg) env)
              in case st of
                   Some s \<Rightarrow>
                     if envMapHasTemplates env
                     then (case Store_GetUser userID (st_db s) of
                             Inl err \<Rightarrow> (Inl (ErrWrap (''BuildEnvForUser: failed to fetch user '' @ quoted userID) err), Some s)
                           | Inr user \<Rightarrow>
                               (case ResolveEnvTemplates lib env user of
                                  Inl err \<Rightarrow> (Inl (ErrWrap ''BuildEnvForUser: template resolution failed'' err), Some s)
                                | Inr resolved \<Rightarrow> (Inr resolved, Some s)))
                     else (Inr env, Some s)
                 | None \<Rightarrow> (Inr env, None)))"

definition BuildEnvForUser ::
    "crypto_lib \<Rightarrow> opsys \<Rightarrow> json_lib \<Rightarrow> string \<Rightarrow> string \<Rightarrow> ToolMuxer \<Rightarrow> Store option \<Rightarrow>
     (goerr + string list) \<times> Store option" where
  "BuildEnvForUser lib sys jl userID backendID tm st =
     map_prod (map_sum id mapToSlice) id (user_env lib sys jl userID backendID tm st)"

section \<open>Names in request bodies\<close>

definition strip_name :: "string \<Rightarrow> string \<Rightarrow> string" where
  "strip_name prefix name = TrimPrefix (TrimPrefix name (prefix @ ''_'')) (prefix @ ''/'')"

text \<open>Editing the name of the first entry of the legacy list \<open>params.tools\<close>; a body of another shape is left alone.\<close>

definition edit_first_tool :: "json_lib \<Rightarrow> (string \<Rightarrow> string) \<Rightarrow> string \<Rightarrow> string" where
  "edit_first_tool jl f body =
     (case jl_Unmarshal jl body of
        Inr (JObj req) \<Rightarrow>
          (case json_object (map_of req ''params'') of
             None \<Rightarrow> body
           | Some params \<Rightarrow>
               (case json_array (map_of params ''tools'') of
                  Some (JObj tool # tools) \<Rightarrow>
                    (let tool' = (case map_of tool ''name'' of
                           Some (JStr name) \<Rightarrow> AList.update ''name'' (JStr (f name)) tool
                         | _ \<Rightarrow> tool)
                     in jl_Marshal jl (JObj (AList.update ''params''
                          (JObj (AList.update ''tools'' (JArr (JObj tool' # tools)) params)) req)))
                | _ \<Rightarrow> body))
      | _ \<Rightarrow> body)"

definition stripPrefix :: "json_lib \<Rightarrow> string \<Rightarrow> string \<Rightarrow> string" where
  "stripPrefix jl body prefix = edit_first_tool jl (strip_name prefix) body"

definition stripPrefixFromName :: "json_lib \<Rightarrow> string \<Rightarrow> string \<Rightarrow> string" where
  "stripPrefixFromName jl body prefix =
     (case jl_Unmarshal jl body of
        Inr (JObj req) \<Rightarrow>
          (case json_object (map_of req ''params'') of
             None \<Rightarrow> body
           | Some params \<Rightarrow>
               (let params = (case map_of params ''name'' of
                      Some (JStr name) \<Rightarrow> AList.update ''name'' (JStr (strip_name prefix name)) params
                    | _ \<Rightarrow> params)
                in jl_Marshal jl (JObj (AList.update ''params'' (JObj params) req))))
      | _ \<Rightarrow> body)"

definition PoolRouter_StripPrefix :: "json_lib \<Rightarrow> string \<Rightarrow> PoolRouter \<Rightarrow> string" where
  "PoolRouter_StripPrefix jl body pr =
     (if \<not> prt_ShouldStrip pr \<or> prt_Prefix pr = [] then body else edit_first_tool jl (strip_name (prt_Prefix pr)) body)"

definition PoolRouter_AddPrefix :: "json_lib \<Rightarrow> string \<Rightarrow> PoolRouter \<Rightarrow> string" where
  "PoolRouter_AddPrefix jl body pr =
     (if prt_Prefix pr = [] then body else edit_first_tool jl (\<lambda>name. prt_Prefix pr @ ''_'' @ name) body)"

section \<open>Handling a call\<close>

text \<open>\<open>ToolsCallRequest\<close> as far as the code reads it: the name of the call, and of the first legacy entry.\<close>

definition tool_names :: "json list \<Rightarrow> string list option" where
  "tool_names tools =
     those (map (\<lambda>v. case top_fields v of None \<Rightarrow> None | Some kvs \<Rightarrow> string_field ''name'' kvs) tools)"

definition decode_tools_call :: "json \<Rightarrow> (string \<times> string list) option" where
  "decode_tools_call v =
     (case top_fields v of
        None \<Rightarrow> None
      | Some kvs \<Rightarrow>
          (case (string_field ''jsonrpc'' kvs, string_field ''method'' kvs, object_field ''params'' kvs) of
             (Some _, Some _, Some params) \<Rightarrow>
               (case (string_field ''name'' params, Option.bind (array_field ''tools'' params) tool_names) of
                  (Some name, Some tools) \<Rightarrow> Some (name, tools)
                | _ \<Rightarrow> None)
           | _ \<Rightarrow> None))"

definition called_tool :: "string \<times> string list \<Rightarrow> string" where
  "called_tool req = (case req of (name, tools) \<Rightarrow> if name = [] \<and> tools \<noteq> [] then hd tools else name)"

text \<open>The outer \<open>None\<close> is a pool manager that does not return.\<close>

definition HandleToolsCall ::
    "crypto_lib \<Rightarrow> opsys \<Rightarrow> json_lib \<Rightarrow> gotime \<Rightarrow> string \<Rightarrow> string \<Rightarrow> ToolMuxer \<Rightarrow> Store option \<Rightarrow> PoolManager \<Rightarrow>
     ((goerr + (string \<times> PoolRouter)) \<times> Store option \<times> PoolManager) option" where
  "HandleToolsCall lib sys jl now userID body tm st pm =
     (case jl_Unmarshal jl body of
        Inl err \<Rightarrow> Some (Inl (ErrWrap ''failed to parse tools/call request'' err), st, pm)
      | Inr v \<Rightarrow>
          (case decode_tools_call v of
             None \<Rightarrow> Some (Inl (ErrNew ''failed to parse tools/call request''), st, pm)
           | Some req \<Rightarrow>
               (let toolName = called_tool req
                in if toolName = [] then Some (Inl (ErrNew ''no tool name in request params''), st, pm)
                   else case FindBackendForTool lib sys toolName tm st of
                          (Inl err, st) \<Rightarrow> Some (Inl err, st, pm)
                        | (Inr (backendID, prefix), st) \<Rightarrow>
                            (case getBackendConfig lib sys jl backendID tm st of
                               (None, st) \<Rightarrow>
                                 Some (Inl (ErrNew (''backend '' @ quoted backendID @ '' not found in store or config'')), st, pm)
                             | (Some cfg, st) \<Rightarrow>
                                 (case BuildEnvForUser lib sys jl userID backendID tm st of
                                    (Inl err, st) \<Rightarrow>
                                      Some (Inl (ErrWrap (''failed to build env for user '' @ quoted userID @ '', backend '' @
                                        quoted backendID) err), st, pm)
                                  | (Inr env, st) \<Rightarrow>
                                      map_option (\<lambda>(pool, pm).
                                        (Inr ((if prefix \<noteq> [] then stripPrefixFromName jl body prefix else body),
                                           \<lparr>prt_Pool = pool, prt_UserID = userID, prt_Backend = backendID, prt_Prefix = prefix,
                                            prt_ShouldStrip = (prefix \<noteq> []), prt_Dedicated = True\<rparr>), st, pm))
                                        (GetOrCreateUserPoolWithFraming now backendID userID (bg_command cfg)
                                          (bg_minPoolSize cfg) (bg_maxPoolSize cfg) (Some env) (bg_stdioFraming cfg) pm))))))"

section \<open>Routing\<close>

text \<open>No registered prefix begins with another one and a separator.\<close>

definition separated :: "(string, string) gomap \<Rightarrow> bool" where
  "separated m \<longleftrightarrow> (\<forall>p \<in> fst ` set m. \<forall>q \<in> fst ` set m. p \<noteq> q \<longrightarrow> \<not> prefix_matches q p)"

lemma prefix_matches_shorter:
  assumes "prefix_matches t p" and "prefix_matches t q" and "length p < length q"
  shows "prefix_matches q p"
proof -
  obtain c u where t: "t = p @ c # u" "c = CHR ''_'' \<or> c = CHR ''/''"
    using assms(1) by (auto simp: prefix_matches_def HasPrefix_iff)
  obtain d w where t': "t = q @ d # w" using assms(2) by (auto simp: prefix_matches_def HasPrefix_iff)
  have "q = take (length q) (p @ c # u)" using t(1) t' by (metis append_eq_conv_conj)
  also have "\<dots> = p @ c # take (length q - length p - 1) u"
    using assms(3) by (cases "length q - length p") (simp_all add: take_Cons')
  finally show ?thesis using t(2) by (auto simp: prefix_matches_def HasPrefix_iff)
qed

lemma prefix_matches_take: "prefix_matches t p \<Longrightarrow> take (length p) t = p"
  by (auto simp: prefix_matches_def HasPrefix_iff)

lemma separated_unique:
  assumes "separated m" and "p \<in> fst ` set m" and "q \<in> fst ` set m" and "prefix_matches t p" and "prefix_matches t q"
  shows "p = q"
proof (rule ccontr)
  assume "p \<noteq> q"
  then have "\<not> prefix_matches q p" "\<not> prefix_matches p q" 
    using assms(1) [unfolded separated_def, THEN bspec, OF assms(2), THEN bspec, OF assms(3)]
      assms(1) [unfolded separated_def, THEN bspec, OF assms(3), THEN bspec, OF assms(2)] by simp_all
  then have "length p = length q" using prefix_matches_shorter assms(4,5) by (metis linorder_neqE_nat)
  moreover have "take (length p) t = p" "take (length q) t = q"
    using assms(4,5) by (simp_all add: prefix_matches_take)
  ultimately show False using \<open>p \<noteq> q\<close> by simp
qed

lemma find_SomeD: "find P xs = Some x \<Longrightarrow> x \<in> set xs \<and> P x"
  by (induction xs) (auto split: if_splits)

lemma find_unique:
  assumes "x \<in> set xs" and "P x" and "\<And>y. y \<in> set xs \<Longrightarrow> P y \<Longrightarrow> y = x"
  shows "find P xs = Some x"
proof (cases "find P xs")
  case None
  then show ?thesis using assms(1,2) unfolding find_None_iff by blast
next
  case (Some y)
  then show ?thesis using assms(3) find_SomeD by metis
qed

text \<open>Routing does not depend on chance. The runtime iterates the prefix map in no fixed order; when no registered prefix begins
  with another one and a separator, every order routes every tool to the same backend, or to none.\<close>

theorem routing_order_independent:
  assumes "gomap_wf (tm_backendPrefixes tm)" and "separated (tm_backendPrefixes tm)"
    and "mset m = mset (tm_backendPrefixes tm)"
  shows "FindBackendForTool lib sys toolName (tm\<lparr>tm_backendPrefixes := m\<rparr>) st = FindBackendForTool lib sys toolName tm st"
proof -
  let ?P = "\<lambda>(prefix, _). prefix_matches toolName prefix"
  have set: "set m = set (tm_backendPrefixes tm)" using assms(3) by (metis set_mset_mset)
  have "find ?P m = find ?P (tm_backendPrefixes tm)"
  proof (cases "find ?P (tm_backendPrefixes tm)")
    case None
    then have "find ?P m = None" using set by (auto simp: find_None_iff)
    with None show ?thesis by simp
  next
    case (Some x)
    then have x: "x \<in> set (tm_backendPrefixes tm)" "?P x" using find_SomeD by metis+
    have uniq: "y = x" if y: "y \<in> set m" "?P y" for y
    proof -
      have "prefix_matches toolName (fst y)" "prefix_matches toolName (fst x)"
        using x(2) y(2) by (cases x, cases y, simp)+
      then have "fst y = fst x"
        using x(1) y(1) set by (intro separated_unique [OF assms(2)]) simp_all
      then show ?thesis
        using eq_key_imp_eq_value [of "tm_backendPrefixes tm" "fst x" "snd y" "snd x"] assms(1) x(1) y(1) set
        by (cases x, cases y) (simp add: gomap_wf_def)
    qed
    have "x \<in> set m" using x(1) set by simp
    then have "find ?P m = Some x" using x(2) uniq by (rule find_unique)
    with Some show ?thesis by simp
  qed
  moreover have "listBackendIDs lib sys (tm\<lparr>tm_backendPrefixes := m\<rparr>) st = listBackendIDs lib sys tm st"
    by (simp add: listBackendIDs_def split: prod.splits option.splits)
  ultimately show ?thesis by (simp add: FindBackendForTool_def split: option.splits)
qed

definition empty_config :: InternalConfig where
  "empty_config = \<lparr>ic_Server = \<lparr>sv_Port = [], sv_LogLevel = [], sv_AuthCodeTTL = [], sv_AccessTokenTTL = [], sv_PublicURL = [],
       sv_InviteExpiry = [], sv_InviteAllowExisting = False, sv_AuthCodeTTLParsed = 0, sv_AccessTokenTTLParsed = 0, sv_InviteExpiryParsed = 0\<rparr>,
     ic_Backends = [], ic_Encryption = \<lparr>en_Provider = [], en_KeyEnv = [], en_KeyFileEnv = [], en_K8sSecretPath = [],
       en_K8sKeyName = [], en_RequireEncryption = False\<rparr>,
     ic_Auth = \<lparr>au_Mode = [], au_TwoFactor = \<lparr>tw_Required = None, tw_Methods = []\<rparr>\<rparr>,
     ic_SMTP = \<lparr>sm_Host = [], sm_Port = 0, sm_User = [], sm_Password = [], sm_From = [], sm_FromName = [], sm_UseTLS = False,
       sm_Timeout = [], sm_TimeoutParsed = 0\<rparr>\<rparr>"

definition muxer_with :: "(string, string) gomap \<Rightarrow> ToolMuxer" where
  "muxer_with m = \<lparr>tm_backendPrefixes = m, tm_secrets = None, tm_config = empty_config\<rparr>"

theorem routing_order_independent_witness:
  "FindBackendForTool sample_lib sample_os ''git_push'' (muxer_with [(''jira'', ''j''), (''git'', ''g'')]) None =
   FindBackendForTool sample_lib sample_os ''git_push'' (muxer_with [(''git'', ''g''), (''jira'', ''j'')]) None"
proof -
  have "gomap_wf (tm_backendPrefixes (muxer_with [(''git'', ''g''), (''jira'', ''j'')]))"
    "separated (tm_backendPrefixes (muxer_with [(''git'', ''g''), (''jira'', ''j'')]))"
    by (auto simp: muxer_with_def gomap_wf_def separated_def prefix_matches_def)
  from routing_order_independent [OF this, of "[(''jira'', ''j''), (''git'', ''g'')]"]
  show ?thesis by (simp add: muxer_with_def)
qed

text \<open>With overlapping prefixes two orders of the same map route one tool to two backends.\<close>

lemma overlapping_prefixes_ambiguous:
  "FindBackendForTool lib sys ''git_hub_push'' (muxer_with [(''git'', ''a''), (''git_hub'', ''b'')]) st = (Inr (''a'', ''git''), st)"
  "FindBackendForTool lib sys ''git_hub_push'' (muxer_with [(''git_hub'', ''b''), (''git'', ''a'')]) st = (Inr (''b'', ''git_hub''), st)"
  by (simp_all add: FindBackendForTool_def muxer_with_def prefix_matches_def)

section \<open>Renamed variables\<close>

definition mapped_key :: "(string, string) gomap \<Rightarrow> string \<Rightarrow> string" where
  "mapped_key mappings k = (case map_of mappings k of Some b \<Rightarrow> b | None \<Rightarrow> k)"

text \<open>While no two variables are given the same name, the renamed environment holds exactly the given values, so the order of the range does not matter.\<close>

lemma mappings_order_irrelevant:
  assumes "inj_on (mapped_key mappings) (fst ` set env)" and "distinct (map fst env)" and "(k, v) \<in> set env"
  shows "map_of (apply_mappings mappings env) (mapped_key mappings k) = Some v"
proof (cases "mappings = []")
  case True
  then show ?thesis using assms(2,3) by (simp add: apply_mappings_def mapped_key_def)
next
  case False
  have "map_of (fold (\<lambda>(k, v). AList.update (mapped_key mappings k) v) env acc) (mapped_key mappings k) = Some v" for acc
    using assms
  proof (induction env arbitrary: acc)
    case (Cons x env)
    obtain k' v' where x: "x = (k', v')" by (cases x)
    show ?case
    proof (cases "(k, v) \<in> set env")
      case True
      then show ?thesis using Cons by (simp add: x inj_on_insert)
    next
      case False
      then have kv: "k' = k" "v' = v" using Cons.prems(3) by (simp_all add: x)
      have "map_of (fold (\<lambda>(k, v). AList.update (mapped_key mappings k) v) ys acc') (mapped_key mappings k) = map_of acc' (mapped_key mappings k)"
        if "mapped_key mappings k \<notin> mapped_key mappings ` fst ` set ys" for ys and acc' :: "(string, string) gomap"
        using that by (induction ys arbitrary: acc') (auto simp: gomap_simps)
      from this [of env "AList.update (mapped_key mappings k) v acc"] show ?thesis
        using Cons.prems(1,2) by (force simp: x kv inj_on_def gomap_simps)
    qed
  qed simp
  then show ?thesis using False by (simp add: apply_mappings_def mapped_key_def case_prod_beta')
qed

section \<open>Names\<close>

text \<open>A tool advertised under its backend's prefix is called by its own name: taking the prefix off again gives the name exactly when the
  name does not itself begin with the prefix and a slash; a name that does loses that part too.\<close>

theorem prefix_roundtrip:
  "strip_name p (p @ ''_'' @ name) = (if HasPrefix name (p @ ''/'') then drop (length p + 1) name else name)"
proof -
  have "TrimPrefix ((p @ ''_'') @ name) (p @ ''_'') = name" by (rule TrimPrefix_append)
  then show ?thesis by (simp add: strip_name_def TrimPrefix_def)
qed

section \<open>The environment a call runs with\<close>

lemma fold_update_lookup:
  "gomap_wf m \<Longrightarrow> map_of (fold (\<lambda>(k, v). AList.update k v) m env) k =
     (case map_of m k of Some v \<Rightarrow> Some v | None \<Rightarrow> map_of env k)"
proof (induction m arbitrary: env)
  case (Cons kv m)
  obtain j v where kv: "kv = (j, v)" by (cases kv)
  with Cons.prems have wf: "gomap_wf m" and j: "map_of m j = None"
    by (auto simp: gomap_wf_def map_of_eq_None_iff)
  show ?case using Cons.IH [OF wf] j by (auto simp: kv gomap_simps split: option.splits)
qed simp

lemma resolved_lookup:
  "ResolveEnvTemplates lib env user = Inr env' \<Longrightarrow> map_of env k = Some v \<Longrightarrow>
   \<exists>v'. map_of env' k = Some v' \<and> resolveValue lib k v user = Inr v'"
proof (induction env arbitrary: env')
  case (Cons kv env)
  obtain j w where kv: "kv = (j, w)" by (cases kv)
  from Cons.prems(1) obtain w' rest where w: "resolveValue lib j w user = Inr w'" "ResolveEnvTemplates lib env user = Inr rest"
      "env' = (j, w') # rest"
    by (cases "ResolveEnvTemplates lib env user") (auto simp: kv split: sum.splits)
  show ?case using Cons.IH [OF w(2)] Cons.prems(2) w by (auto simp: kv split: if_splits)
qed simp

text \<open>What the administrator sets for a backend cannot be overridden: whenever the environment of a call is built, every variable of the
  backend's own environment has the administrator's value in it, whatever tokens the user has stored, however they are mapped, and
  whatever else is resolved; only a value that is itself a template is replaced by what it resolves to.\<close>

theorem systemwide_env_wins:
  assumes "getBackendConfig lib sys jl backendID tm st = (Some cfg, st1)" and "gomap_wf (bg_env cfg)"
    and "map_of (bg_env cfg) k = Some v" and "\<not> Contains v open_braces"
    and "user_env lib sys jl userID backendID tm st = (Inr env, st2)"
  shows "map_of env k = Some v"
proof -
  obtain env0 st0 where t: "buildLegacyEnv lib sys userID backendID tm st1 (system_env sys) = (env0, st0)" by fastforce
  let ?e = "apply_systemwide (bg_env cfg) (apply_mappings (bg_envMappings cfg) env0)"
  have e: "map_of ?e k = Some v"
    using fold_update_lookup [OF assms(2), of _ k] assms(3) by (simp add: apply_systemwide_def)
  from assms(5) consider "env = ?e" | user where "ResolveEnvTemplates lib ?e user = Inr env"
    by (auto simp: user_env_def assms(1) t Let_def split: option.splits if_splits sum.splits)
  then show ?thesis
  proof cases
    case 1
    with e show ?thesis by simp
  next
    case 2
    then show ?thesis using resolved_lookup [OF 2 e] assms(4) by (auto simp: resolveValue_def)
  qed
qed

definition git_config :: InternalConfig where
  "git_config = empty_config\<lparr>ic_Backends := [(''git'', \<lparr>cb_Command = ''cat'', cb_PoolSize = 1, cb_MinPoolSize = 0, cb_MaxPoolSize = 0,
     cb_Env = [(''MODE'', ''ro'')], cb_Secrets = [\<lparr>sf_Name = ''m'', sf_EnvKey = ''MODE'', sf_Context = []\<rparr>], cb_ToolPrefix = ''git'',
     cb_SelfReporting = False, cb_NoKeysRequired = False, cb_SkipJustification = False, cb_IsSystem = False, cb_StdioFraming = [],
     cb_Enabled = None\<rparr>)]\<rparr>"

definition git_muxer :: ToolMuxer where
  "git_muxer = NewToolMuxer (Some (Secret_Set ''ann'' ''MODE'' ''rw'' NewMockSecretStore)) git_config"

lemma git_env:
  "\<exists>env. user_env sample_lib sample_os jl ''ann'' ''git'' git_muxer None = (Inr env, None)"
proof -
  have "snd (buildLegacyEnv sample_lib sample_os ''ann'' ''git'' git_muxer None e) = None" for e
    by (simp add: buildLegacyEnv_def split: option.splits)
  then obtain e where "buildLegacyEnv sample_lib sample_os ''ann'' ''git'' git_muxer None (system_env sample_os) = (e, None)"
    by (metis prod.collapse)
  then show ?thesis
    by (simp add: user_env_def getBackendConfig_def git_muxer_def NewToolMuxer_def git_config_def empty_config_def Let_def)
qed

theorem systemwide_env_wins_witness:
  "\<exists>env. user_env sample_lib sample_os sample_json ''ann'' ''git'' git_muxer None = (Inr env, None) \<and> map_of env ''MODE'' = Some ''ro''"
proof -
  obtain cfg where c: "getBackendConfig sample_lib sample_os sample_json ''git'' git_muxer None = (Some cfg, None)"
      "bg_env cfg = [(''MODE'', ''ro'')]"
    by (simp add: getBackendConfig_def git_muxer_def NewToolMuxer_def git_config_def empty_config_def cfg_of_config_def)
  obtain env where e: "user_env sample_lib sample_os sample_json ''ann'' ''git'' git_muxer None = (Inr env, None)"
    using git_env by blast
  from systemwide_env_wins [OF c(1) _ _ _ e, of "''MODE''" "''ro''"] c(2) e show ?thesis
    by (simp add: gomap_wf_def Contains_def open_braces_def)
qed

text \<open>A routed call goes to its user's own processes: the pool that handles it is the one filed under the backend the tool
  was routed to and the calling user, it is built for exactly the environment computed for them, and the body passed on is the
  request with the backend's prefix taken off.\<close>

theorem call_runs_in_own_pool:
  assumes "HandleToolsCall lib sys jl now userID body tm st pm = Some (Inr (body', router), st', pm')"
  shows "\<exists>v req st1 st2 cfg env. jl_Unmarshal jl body = Inr v \<and> decode_tools_call v = Some req \<and>
    FindBackendForTool lib sys (called_tool req) tm st = (Inr (prt_Backend router, prt_Prefix router), st1) \<and>
    getBackendConfig lib sys jl (prt_Backend router) tm st1 = (Some cfg, st2) \<and>
    BuildEnvForUser lib sys jl userID (prt_Backend router) tm st2 = (Inr env, st') \<and>
    prt_Pool router = user_pool_key (prt_Backend router) userID \<and>
    (\<exists>p. map_of (pm_pools pm') (prt_Pool router) = Some p \<and> EnvMatches (Some env) p) \<and>
    body' = (if prt_Prefix router = [] then body else stripPrefixFromName jl body (prt_Prefix router))"
proof -
  obtain v req b prefix st1 cfg st2 env where h: "jl_Unmarshal jl body = Inr v" "decode_tools_call v = Some req"
      "FindBackendForTool lib sys (called_tool req) tm st = (Inr (b, prefix), st1)"
      "getBackendConfig lib sys jl b tm st1 = (Some cfg, st2)" "BuildEnvForUser lib sys jl userID b tm st2 = (Inr env, st')"
      "GetOrCreateUserPoolWithFraming now b userID (bg_command cfg) (bg_minPoolSize cfg) (bg_maxPoolSize cfg) (Some env)
         (bg_stdioFraming cfg) pm = Some (prt_Pool router, pm')"
      "prt_Backend router = b" "prt_Prefix router = prefix"
      "body' = (if prefix \<noteq> [] then stripPrefixFromName jl body prefix else body)"
    using assms
    by (auto simp: HandleToolsCall_def Let_def split: sum.splits option.splits prod.splits if_splits)
  from h(6) obtain p where p: "prt_Pool router = user_pool_key b userID" "map_of (pm_pools pm') (prt_Pool router) = Some p"
      "pool_serves (Some env) None p"
    unfolding GetOrCreateUserPoolWithFraming_def by (rule user_pool_cases)
  show ?thesis
    by (rule exI [where x = v], rule exI [where x = req], rule exI [where x = st1], rule exI [where x = st2],
        rule exI [where x = cfg], rule exI [where x = env])
      (use h p in \<open>simp add: pool_serves_def\<close>)
qed

definition call_value :: json where
  "call_value = JObj [(''jsonrpc'', JStr ''2.0''), (''method'', JStr ''tools/call''), (''params'', JObj [(''name'', JStr ''git_push'')])]"

definition call_json :: json_lib where
  "call_json = \<lparr>jl_Unmarshal = (\<lambda>s. if s = ''call'' then Inr call_value else Inl (ErrNew ''syntax'')), jl_Marshal = (\<lambda>_. ''stripped'')\<rparr>"

theorem call_runs_in_own_pool_witness:
  "\<exists>router st pm. HandleToolsCall sample_lib sample_os call_json 5 ''ann'' ''call'' git_muxer None (NewPoolManager ''cat'' 1) =
     Some (Inr (''stripped'', router), st, pm) \<and> prt_Pool router = ''git:ann'' \<and> prt_Prefix router = ''git''"
proof -
  obtain env where e: "user_env sample_lib sample_os call_json ''ann'' ''git'' git_muxer None = (Inr env, None)" using git_env by blast
  have d: "decode_tools_call call_value = Some (''git_push'', [])"
    by (simp add: decode_tools_call_def call_value_def string_field_def object_field_def array_field_def tool_names_def members_def
        ToLower_def lower_char_def)
  have f: "FindBackendForTool sample_lib sample_os ''git_push'' git_muxer None = (Inr (''git'', ''git''), None)"
    by (simp add: FindBackendForTool_def git_muxer_def NewToolMuxer_def git_config_def empty_config_def prefixes_of_config_def
        prefix_matches_def)
  have s: "stripPrefixFromName call_json ''call'' ''git'' = ''stripped''"
    by (simp add: stripPrefixFromName_def call_json_def call_value_def)
  obtain cfg where c: "getBackendConfig sample_lib sample_os call_json ''git'' git_muxer None = (Some cfg, None)"
    by (simp add: getBackendConfig_def git_muxer_def NewToolMuxer_def git_config_def empty_config_def)
  have b: "BuildEnvForUser sample_lib sample_os call_json ''ann'' ''git'' git_muxer None = (Inr (mapToSlice env), None)"
    by (simp add: BuildEnvForUser_def e)
  obtain pool pm where g: "GetOrCreateUserPoolWithFraming 5 ''git'' ''ann'' (bg_command cfg) (bg_minPoolSize cfg) (bg_maxPoolSize cfg)
      (Some (mapToSlice env)) (bg_stdioFraming cfg) (NewPoolManager ''cat'' 1) = Some (pool, pm)"
    by (simp add: GetOrCreateUserPoolWithFraming_def GetOrCreateUserPoolWithSecrets_alone NewPoolManager_def Let_def)
  have u: "jl_Unmarshal call_json ''call'' = Inr call_value" by (simp add: call_json_def)
  obtain router st where h: "HandleToolsCall sample_lib sample_os call_json 5 ''ann'' ''call'' git_muxer None (NewPoolManager ''cat'' 1) =
      Some (Inr (''stripped'', router), st, pm)" and r: "prt_Prefix router = ''git''" "prt_Backend router = ''git''"
    by (simp add: HandleToolsCall_def u d f called_tool_def c b g s)
  from call_runs_in_own_pool [OF h] r have "prt_Pool router = user_pool_key ''git'' ''ann''" by auto
  with h r show ?thesis by (simp add: user_pool_key_def)
qed

end
