(* ===== verification/Gateway.thy ===== *)
theory Gateway
  imports Enforcer Muxer
begin

text \<open>
  What the request gateways share (src/app.go, src/jsonrpc.go, src/shared/params.go, and the common parts of
  src/mcpbridge_routing.go, src/mcp_handlers.go and src/v2handler.go): the application state, replies, the enforcement of a
  call, and the exchange of one message with a process.

  The record \<open>App\<close> is the struct \<open>app\<close>. The enforcer and the muxer hold pointers to the same database; in the model
  it is \<open>app_store\<close>, and \<open>with_enforcer\<close> hands it to the enforcer and takes it back. \<open>app_sent\<close> logs what was written to the
  standard input of processes, each text with the key of the process's pool. The record \<open>world\<close> holds what is outside the program: the
  libraries, the clock, what other goroutines do to a pool while a handler polls it, and the instant and text of the answer a
  process gives to a request. A handler is one step with a single instant \<open>now\<close>. Its result is \<open>None\<close> when it panics or does not return.
\<close>

section \<open>Replies\<close>

text \<open>\<open>Encoded\<close> is what \<open>json.Encoder\<close> writes, \<open>Marshalled\<close> the text of \<open>json.Marshal\<close>. Headers are the ones the code
  sets before the status is written; the content length, which the server computes too, is left out.\<close>

datatype payload = Encoded json | Marshalled json | Raw string

record http_response =
  hr_status :: int
  hr_headers :: "(string \<times> string) list"
  hr_body :: payload

definition content_json :: "string \<times> string" where
  "content_json = (''Content-Type'', ''application/json'')"

text \<open>\<open>http.Error\<close>, on a writer whose headers \<open>hdrs\<close> are already set.\<close>

definition http_error :: "(string \<times> string) list \<Rightarrow> string \<Rightarrow> int \<Rightarrow> http_response" where
  "http_error hdrs msg code = \<lparr>hr_status = code,
     hr_headers = hdrs @ [(''Content-Type'', ''text/plain; charset=utf-8''), (''X-Content-Type-Options'', ''nosniff'')],
     hr_body = Raw (msg @ [CHR 0x0A])\<rparr>"

definition jsonRPCError :: "json \<Rightarrow> int \<Rightarrow> string \<Rightarrow> json option \<Rightarrow> json" where
  "jsonRPCError i code msg data =
     JObj ([(''jsonrpc'', JStr ''2.0''),
            (''error'', JObj ([(''code'', JNum (of_int code)), (''message'', JStr msg)] @
               (case data of None \<Rightarrow> [] | Some d \<Rightarrow> [(''data'', d)])))] @
           (if i = JNull then [] else [(''id'', i)]))"

definition writeJSONRPCError :: "json \<Rightarrow> int \<Rightarrow> string \<Rightarrow> json option \<Rightarrow> http_response" where
  "writeJSONRPCError i code msg data =
     \<lparr>hr_status = 200, hr_headers = [content_json], hr_body = Marshalled (jsonRPCError i code msg data)\<rparr>"

text \<open>The error replies the handlers encode in place.\<close>

definition rpc_error :: "json \<Rightarrow> (string \<times> json) list \<Rightarrow> json" where
  "rpc_error i fs = JObj [(''jsonrpc'', JStr ''2.0''), (''id'', i), (''error'', JObj fs)]"

definition error_fields :: "int \<Rightarrow> string \<Rightarrow> (string \<times> json) list" where
  "error_fields code msg = [(''code'', JNum (of_int code)), (''message'', JStr msg)]"

text \<open>The error replies the handlers write as text, with the message inserted as it is.\<close>

definition error_text :: "int \<Rightarrow> string \<Rightarrow> string" where
  "error_text code msg = ''{'' @ quoted ''jsonrpc'' @ '':'' @ quoted ''2.0'' @ '','' @ quoted ''error'' @ '':{'' @ quoted ''code'' @
     '':'' @ itoa code @ '','' @ quoted ''message'' @ '':'' @ quoted msg @ ''}}''"

text \<open>The verb \<open>%T\<close> on a decoded value; an absent one is nil.\<close>

fun go_type :: "json option \<Rightarrow> string" where
  "go_type None = ''<nil>''"
| "go_type (Some JNull) = ''<nil>''"
| "go_type (Some (JBool _)) = ''bool''"
| "go_type (Some (JNum _)) = ''float64''"
| "go_type (Some (JStr _)) = ''string''"
| "go_type (Some (JArr _)) = ''[]interface {}''"
| "go_type (Some (JObj _)) = ''map[string]interface {}''"

fun ParseArgsMap :: "json_lib \<Rightarrow> json option \<Rightarrow> goerr + (string, json) gomap" where
  "ParseArgsMap jl (Some (JObj m)) = Inr m"
| "ParseArgsMap jl (Some (JStr s)) =
     (case jl_Unmarshal jl s of
        Inl err \<Rightarrow> Inl (ErrWrap ''params was a JSON string but could not be parsed'' err)
      | Inr (JObj m) \<Rightarrow> Inr m
      | Inr JNull \<Rightarrow> Inr []
      | Inr _ \<Rightarrow> Inl (ErrWrap ''params was a JSON string but could not be parsed'' (ErrNew ''cannot unmarshal into a map'')))"
| "ParseArgsMap jl (Some JNull) = Inl (ErrNew ''params is missing (nil)'')"
| "ParseArgsMap jl None = Inl (ErrNew ''params is missing (nil)'')"
| "ParseArgsMap jl (Some v) = Inl (ErrNew (''params has unexpected type '' @ go_type (Some v) @ '' (expected a JSON object)''))"

text \<open>A type assertion to \<open>string\<close> whose failure is ignored.\<close>

definition string_or_empty :: "json option \<Rightarrow> string" where
  "string_or_empty v = (case v of Some (JStr s) \<Rightarrow> s | _ \<Rightarrow> [])"

section \<open>The application\<close>

record 'p world =
  w_lib :: crypto_lib
  w_sys :: opsys
  w_json :: json_lib
  w_compact :: "string \<Rightarrow> goerr + string"
  w_show :: "json \<Rightarrow> string"
  w_errtext :: "goerr \<Rightarrow> string"
  w_env :: "'p env"
  w_polls :: "string \<Rightarrow> (Pool \<Rightarrow> Pool) list"
  w_final :: "string \<Rightarrow> Pool \<Rightarrow> Pool"
  w_lag :: duration
  w_answer :: "string \<Rightarrow> (gotime \<times> string) option"

definition w_now :: "'p world \<Rightarrow> gotime" where
  "w_now w = env_now (w_env w)"

record 'p App =
  app_store :: Store
  app_enforcer :: "'p Enforcer option"
  app_muxer :: ToolMuxer
  app_pools :: PoolManager
  app_config :: InternalConfig
  app_sent :: "(string \<times> string) list"

definition put_store :: "Store option \<Rightarrow> 'p App \<Rightarrow> 'p App" where
  "put_store st a = (case st of None \<Rightarrow> a | Some s \<Rightarrow> a\<lparr>app_store := s\<rparr>)"

definition app_GetBackend :: "'p world \<Rightarrow> string \<Rightarrow> 'p App \<Rightarrow> (goerr + Backend) \<times> 'p App" where
  "app_GetBackend w i a = (let (r, s) = Store_GetBackend (w_lib w) (w_sys w) i (app_store a) in (r, a\<lparr>app_store := s\<rparr>))"

definition app_ListBackends :: "'p world \<Rightarrow> 'p App \<Rightarrow> (goerr + Backend list) \<times> 'p App" where
  "app_ListBackends w a = (let (r, s) = Store_ListBackends (w_lib w) (w_sys w) (app_store a) in (r, a\<lparr>app_store := s\<rparr>))"

definition with_enforcer :: "('p Enforcer \<Rightarrow> 'a \<times> 'p Enforcer) \<Rightarrow> 'p Enforcer \<Rightarrow> 'p App \<Rightarrow> 'a \<times> 'p App" where
  "with_enforcer f e a =
     (let (r, e) = f (e\<lparr>ef_store := st_db (app_store a)\<rparr>)
      in (r, a\<lparr>app_enforcer := Some e, app_store := (app_store a)\<lparr>st_db := ef_store e\<rparr>\<rparr>))"

text \<open>The command, sizes and framing of a backend: from the store, from the configuration, or the built-in default.\<close>

definition pool_settings :: "goerr + Backend \<Rightarrow> InternalConfig \<Rightarrow> string \<Rightarrow> string \<times> int \<times> int \<times> string" where
  "pool_settings r cfg backendID =
     (case r of
        Inr b \<Rightarrow>
          (let minSize = (if be_MinPoolSize b = 0 then 1 else be_MinPoolSize b);
               maxSize = (if be_MaxPoolSize b = 0 then minSize else be_MaxPoolSize b)
           in (be_Command b, minSize, maxSize, if be_StdioFraming b \<noteq> [] then be_StdioFraming b else ''newline''))
      | Inl _ \<Rightarrow>
          (case map_of (ic_Backends cfg) backendID of
             Some c \<Rightarrow> (cb_Command c, cb_PoolSize c, cb_PoolSize c, if cb_StdioFraming c \<noteq> [] then cb_StdioFraming c else ''newline'')
           | None \<Rightarrow> (''echo'', 1, 1, ''newline'')))"

text \<open>The pool, by its key; the inner \<open>None\<close> is a nil pool.\<close>

definition getPoolForUser :: "'p world \<Rightarrow> string \<Rightarrow> string \<Rightarrow> 'p App \<Rightarrow> (string option \<times> 'p App) option" where
  "getPoolForUser w userID backendID a =
     (let (r, a) = app_GetBackend w backendID a;
          (command, minSize, maxSize, framing) = pool_settings r (app_config a) backendID;
          (env, st) = BuildEnvForUser (w_lib w) (w_sys w) (w_json w) userID backendID (app_muxer a) (Some (app_store a));
          a = put_store st a
      in case env of
           Inl _ \<Rightarrow> Some (None, a)
         | Inr env \<Rightarrow>
             map_option (\<lambda>(key, pm). (Some key, a\<lparr>app_pools := pm\<rparr>))
               (GetOrCreateUserPoolWithFraming (w_now w) backendID userID command minSize maxSize (Some env) framing (app_pools a)))"

definition defaultBackendID :: "'p world \<Rightarrow> 'p App \<Rightarrow> string \<times> 'p App" where
  "defaultBackendID w a =
     (let (r, a) = app_ListBackends w a;
          from_config = (case ic_Backends (app_config a) of (i, _) # _ \<Rightarrow> i | [] \<Rightarrow> ''default'')
      in case r of
           Inr bs \<Rightarrow> ((case find be_Enabled bs of Some b \<Rightarrow> be_ID b | None \<Rightarrow> from_config), a)
         | Inl _ \<Rightarrow> (from_config, a))"

definition getBackendIDForRequest :: "'p world \<Rightarrow> string \<Rightarrow> 'p App \<Rightarrow> string \<times> 'p App" where
  "getBackendIDForRequest w requested a =
     (if requested = ''default''
      then case app_GetBackend w ''mcpbridge'' a of
             (r, a) \<Rightarrow>
               if (case r of Inr b \<Rightarrow> be_Enabled b | Inl _ \<Rightarrow> False) then (''mcpbridge'', a)
               else if map_of (ic_Backends (app_config a)) ''mcpbridge'' \<noteq> None then (''mcpbridge'', a)
               else (case app_ListBackends w a of
                       (Inr [], a) \<Rightarrow> (''mcpbridge'', a)
                     | (_, a) \<Rightarrow> (requested, a))
      else (requested, a))"

section \<open>One message to a process\<close>

definition pool_at :: "string \<Rightarrow> 'p App \<Rightarrow> Pool option" where
  "pool_at key a = map_of (pm_pools (app_pools a)) key"

definition set_pool :: "string \<Rightarrow> Pool \<Rightarrow> 'p App \<Rightarrow> 'p App" where
  "set_pool key p a = a\<lparr>app_pools := put_pool key p (app_pools a)\<rparr>"

definition acquire_warm :: "'p world \<Rightarrow> string \<Rightarrow> 'p App \<Rightarrow> ((goerr + ManagedProcess) \<times> 'p App) option" where
  "acquire_warm w key a =
     (case pool_at key a of
        None \<Rightarrow> None
      | Some p \<Rightarrow>
          map_option (\<lambda>(r, p). (r, set_pool key p a))
            (GetWarmWithRetry (w_polls w key) (w_final w key) (TouchLastUsed (w_now w) p)))"

text \<open>Register the request, write the text, wait, and remove the request again.\<close>

definition send_request :: "'p world \<Rightarrow> string \<Rightarrow> string \<Rightarrow> duration \<Rightarrow> string \<Rightarrow> 'p App \<Rightarrow> (chan_event \<times> 'p App) option" where
  "send_request w key reqID wait line a =
     (case pool_at key a of
        None \<Rightarrow> None
      | Some p \<Rightarrow>
          Some (await_response (w_now w) (w_now w + w_lag w) wait (w_answer w reqID),
                (set_pool key (UnregisterRequest reqID (RegisterRequest reqID p)) a)\<lparr>app_sent := app_sent a @ [(key, line)]\<rparr>))"

definition release_proc :: "string \<Rightarrow> ManagedProcess \<Rightarrow> 'p App \<Rightarrow> 'p App option" where
  "release_proc key proc a =
     (case pool_at key a of None \<Rightarrow> None | Some p \<Rightarrow> map_option (\<lambda>p. set_pool key p a) (ReleaseWarm (Some proc) p))"

definition kill_proc :: "string \<Rightarrow> ManagedProcess \<Rightarrow> 'p App \<Rightarrow> 'p App" where
  "kill_proc key proc a =
     (case pool_at key a of None \<Rightarrow> a | Some p \<Rightarrow> set_pool key (p\<lparr>po_killed := Kill proc (po_killed p)\<rparr>) a)"

fun answered :: "chan_event \<Rightarrow> string option" where
  "answered (Received data) = (if data = [] then None else Some data)"
| "answered _ = None"

text \<open>The line written for a body: compacted where that succeeds, with a newline.\<close>

definition compact_line :: "'p world \<Rightarrow> string \<Rightarrow> string" where
  "compact_line w body = (case w_compact w body of Inl _ \<Rightarrow> body | Inr c \<Rightarrow> c) @ [CHR 0x0A]"

text \<open>The request identifier and the line of a body; a body with no identifier is encoded anew with one.\<close>

definition request_line :: "'p world \<Rightarrow> string \<Rightarrow> (string \<times> string) option" where
  "request_line w body =
     (case jl_Unmarshal (w_json w) body of
        Inl _ \<Rightarrow> None
      | Inr v \<Rightarrow>
          (case decode_message v of
             None \<Rightarrow> None
           | Some msg \<Rightarrow>
               (let reqID = w_show w (rm_ID msg); auto = ''auto-'' @ itoa (w_now w)
                in if reqID = [] \<or> reqID = ''<nil>''
                   then Some (auto, compact_line w (jl_Marshal (w_json w) (encode_message (msg\<lparr>rm_ID := JStr auto\<rparr>))))
                   else Some (reqID, compact_line w body))))"

text \<open>The handlers differ in what they answer when there is no process, and in what they do when the response channel is closed.\<close>

record relay_style =
  rl_unavailable :: "goerr \<Rightarrow> http_response"
  rl_no_response :: http_response
  rl_kill_silent :: bool

definition relay ::
    "'p world \<Rightarrow> relay_style \<Rightarrow> (string \<times> string) list \<Rightarrow> string \<Rightarrow> string \<Rightarrow> 'p App \<Rightarrow> (http_response \<times> 'p App) option" where
  "relay w style hdrs key body a =
     (case acquire_warm w key a of
        None \<Rightarrow> None
      | Some (Inl err, a) \<Rightarrow> Some (rl_unavailable style err, a)
      | Some (Inr proc, a) \<Rightarrow>
          (case request_line w body of
             None \<Rightarrow> map_option (Pair (http_error hdrs ''Invalid JSON-RPC'' 400)) (release_proc key proc a)
           | Some (reqID, line) \<Rightarrow>
               (case send_request w key reqID (60 * second) line a of
                  None \<Rightarrow> None
                | Some (ev, a) \<Rightarrow>
                    (case answered ev of
                       Some data \<Rightarrow>
                         map_option (Pair \<lparr>hr_status = 200, hr_headers = hdrs @ [content_json], hr_body = Raw data\<rparr>) (release_proc key proc a)
                     | None \<Rightarrow>
                         if ev = TimerFired
                         then Some (\<lparr>hr_status = 504, hr_headers = hdrs,
                                hr_body = Raw (error_text (-32000) ''Request timeout after 60s'')\<rparr>, kill_proc key proc a)
                         else if rl_kill_silent style then Some (rl_no_response style, kill_proc key proc a)
                         else map_option (Pair (rl_no_response style)) (release_proc key proc a)))))"

definition default_style :: "(string \<times> string) list \<Rightarrow> relay_style" where
  "default_style hdrs = \<lparr>rl_unavailable = (\<lambda>_. \<lparr>hr_status = 503, hr_headers = hdrs, hr_body = Raw ''No warm processes available''\<rparr>),
     rl_no_response = \<lparr>hr_status = 504, hr_headers = hdrs, hr_body = Raw (error_text (-32000) ''No response received'')\<rparr>,
     rl_kill_silent = False\<rparr>"

definition call_style :: "'p world \<Rightarrow> string \<Rightarrow> (string \<times> string) list \<Rightarrow> relay_style" where
  "call_style w backendID hdrs = \<lparr>rl_unavailable = (\<lambda>err. \<lparr>hr_status = 503, hr_headers = hdrs,
       hr_body = Raw (error_text (-32003) (''Backend '' @ backendID @ '' unavailable: '' @ w_errtext w err))\<rparr>),
     rl_no_response = \<lparr>hr_status = 503, hr_headers = hdrs,
       hr_body = Raw (error_text (-32004) (''Backend '' @ backendID @ '' process crashed during request, please retry''))\<rparr>,
     rl_kill_silent = True\<rparr>"

text \<open>A nil pool is dereferenced.\<close>

definition handleDefaultBackend ::
    "'p world \<Rightarrow> (string \<times> string) list \<Rightarrow> string \<Rightarrow> string \<Rightarrow> 'p App \<Rightarrow> (http_response \<times> 'p App) option" where
  "handleDefaultBackend w hdrs userID body a =
     (let (backendID, a) = defaultBackendID w a
      in case getPoolForUser w userID backendID a of
           None \<Rightarrow> None
         | Some (None, _) \<Rightarrow> None
         | Some (Some key, a) \<Rightarrow> relay w (default_style hdrs) hdrs key body a)"

text \<open>A call that may run: the muxer routes it, and what it cannot route goes to the default backend.\<close>

definition route_call ::
    "'p world \<Rightarrow> (string \<times> string) list \<Rightarrow> string \<Rightarrow> string \<Rightarrow> string \<Rightarrow> 'p App \<Rightarrow> (http_response \<times> 'p App) option" where
  "route_call w hdrs userID backendID body a =
     (case HandleToolsCall (w_lib w) (w_sys w) (w_json w) (w_now w) userID body (app_muxer a) (Some (app_store a)) (app_pools a) of
        None \<Rightarrow> None
      | Some (Inl _, st, pm) \<Rightarrow> handleDefaultBackend w hdrs userID body ((put_store st a)\<lparr>app_pools := pm\<rparr>)
      | Some (Inr (body', router), st, pm) \<Rightarrow>
          relay w (call_style w backendID hdrs) hdrs (prt_Pool router) body' ((put_store st a)\<lparr>app_pools := pm\<rparr>))"

section \<open>Enforcement of a call\<close>

text \<open>What the gateways know of a call when they ask the enforcer.\<close>

record tool_call =
  tc_tool :: string
  tc_args :: "(string, json) gomap"
  tc_justification :: string
  tc_body :: string

definition guarded :: "string \<Rightarrow> bool" where
  "guarded toolName \<longleftrightarrow> toolName \<noteq> [] \<and> \<not> HasPrefix toolName ''mcpbridge_''"

definition backend_of_tool :: "'p world \<Rightarrow> string \<Rightarrow> 'p App \<Rightarrow> string \<times> 'p App" where
  "backend_of_tool w toolName a =
     (if guarded toolName
      then case FindBackendForTool (w_lib w) (w_sys w) toolName (app_muxer a) (Some (app_store a)) of
             (Inr (b, _), st) \<Rightarrow> (b, put_store st a)
           | (Inl _, st) \<Rightarrow> ([], put_store st a)
      else ([], a))"

definition backend_skip :: "'p world \<Rightarrow> string \<Rightarrow> 'p App \<Rightarrow> bool \<times> 'p App" where
  "backend_skip w backendID a =
     (if backendID \<noteq> []
      then case app_GetBackend w backendID a of (Inr b, a) \<Rightarrow> (be_SkipJustification b, a) | (Inl _, a) \<Rightarrow> (False, a)
      else (False, a))"

datatype verdict = Proceed "(string \<times> string) list" | Answer http_response

text \<open>The replies of a gateway to a refused call, a failed request for approval, and a pending one (status, approver,
  identifier).\<close>

record reply_style =
  ry_denied :: "EnforcerDecision \<Rightarrow> http_response"
  ry_failed :: "goerr \<Rightarrow> http_response"
  ry_pending :: "EnforcerDecision \<Rightarrow> string \<Rightarrow> string \<Rightarrow> http_response"

definition approval_context :: "string \<Rightarrow> string \<Rightarrow> tool_call \<Rightarrow> string \<Rightarrow> DecisionContext" where
  "approval_context userID backendID c body = zeroContext\<lparr>dc_UserID := userID, dc_Tool := tc_tool c, dc_Args := tc_args c,
     dc_BackendID := backendID, dc_Justification := tc_justification c, dc_RequestBody := body\<rparr>"

definition queue_call ::
    "'p world \<Rightarrow> reply_style \<Rightarrow> DecisionContext \<Rightarrow> EnforcerDecision \<Rightarrow> string \<Rightarrow> 'p Enforcer \<Rightarrow> 'p App \<Rightarrow> verdict \<times> 'p App" where
  "queue_call w style ctx d queue e a =
     (case with_enforcer (RequestApproval (w_env w) ctx (ed_PolicyID d) (ed_Message d) queue MatchContextPolicyHit) e a of
        (Inl err, a) \<Rightarrow> (Answer (ry_failed style err), a)
      | (Inr i, a) \<Rightarrow> (Answer (ry_pending style d queue i), a))"

text \<open>The switch on the enforcer's decision. An error without an action is only logged.\<close>

definition judge ::
    "'p world \<Rightarrow> reply_style \<Rightarrow> string \<Rightarrow> string \<Rightarrow> bool \<Rightarrow> tool_call \<Rightarrow> string \<Rightarrow> 'p Enforcer \<Rightarrow> 'p App \<Rightarrow> verdict \<times> 'p App" where
  "judge w style userID backendID skip c body e a =
     (let ((d, err), a) = with_enforcer (HandleToolCall (w_env w) userID (tc_tool c) (tc_args c) backendID
            (tc_justification c) \<lparr>co_SkipJustification = skip\<rparr>) e a;
          ctx = approval_context userID backendID c body;
          e = (case app_enforcer a of Some e \<Rightarrow> e | None \<Rightarrow> e)
      in if err \<noteq> None \<and> ed_Action d = [] then (Proceed [], a)
         else if ed_Action d = ActionDeny then (Answer (ry_denied style d), a)
         else if ed_Action d = ActionPendingApproval \<or> ed_Action d = ActionPendingAdminApproval
         then queue_call w style ctx d ''admin'' e a
         else if ed_Action d = ActionPendingUserApproval then queue_call w style ctx d ''user'' e a
         else if ed_Action d = ActionWarn then (Proceed [(''X-Enforcer-Warning'', ed_Message d)], a)
         else (Proceed [], a))"

definition check_call ::
    "'p world \<Rightarrow> reply_style \<Rightarrow> string \<Rightarrow> string \<Rightarrow> bool \<Rightarrow> tool_call \<Rightarrow> string \<Rightarrow> 'p App \<Rightarrow> verdict \<times> 'p App" where
  "check_call w style userID backendID skip c body a =
     (case app_enforcer a of
        Some e \<Rightarrow> if guarded (tc_tool c) then judge w style userID backendID skip c body e a else (Proceed [], a)
      | None \<Rightarrow> (Proceed [], a))"

section \<open>What a handler may touch\<close>

text \<open>A step that leaves the processes alone: neither the pools nor the log of writes change.\<close>

definition silent :: "'p App \<Rightarrow> 'p App \<Rightarrow> bool" where
  "silent a a' \<longleftrightarrow> app_sent a' = app_sent a \<and> app_pools a' = app_pools a \<and> app_muxer a' = app_muxer a \<and> app_config a' = app_config a"

text \<open>A step that writes at most one line, to a pool of the given user.\<close>

definition sends :: "string \<Rightarrow> 'p App \<Rightarrow> 'p App \<Rightarrow> bool" where
  "sends userID a a' \<longleftrightarrow> app_sent a' = app_sent a \<or>
     (\<exists>b line. app_sent a' = app_sent a @ [(user_pool_key b userID, line @ [CHR 0x0A])])"

lemma silent_refl [simp]: "silent a a"
  by (simp add: silent_def)

lemma silent_trans [trans]: "silent a b \<Longrightarrow> silent b c \<Longrightarrow> silent a c"
  by (simp add: silent_def)

lemma silent_put_store [simp]: "silent a (put_store st a)"
  by (simp add: silent_def put_store_def split: option.splits)

lemma sends_after_silent: "silent a b \<Longrightarrow> sends u b c \<Longrightarrow> sends u a c"
  by (auto simp: silent_def sends_def)

lemma silent_sends: "silent a b \<Longrightarrow> sends u a b"
  by (simp add: silent_def sends_def)

lemma app_sent_pools [simp]: "app_sent (a\<lparr>app_pools := pm\<rparr>) = app_sent a" "app_sent (set_pool k p a) = app_sent a"
    "app_sent (kill_proc k q a) = app_sent a" "app_sent (put_store st a) = app_sent a"
  by (simp_all add: set_pool_def kill_proc_def put_store_def split: option.splits)

lemma silent_store_ops:
  "app_GetBackend w i a = (r, a') \<Longrightarrow> silent a a'" "app_ListBackends w a = (r2, a') \<Longrightarrow> silent a a'"
  by (auto simp: app_GetBackend_def app_ListBackends_def silent_def Let_def split: prod.splits)

lemma silent_with_enforcer: "with_enforcer f e a = (r, a') \<Longrightarrow> silent a a'"
  by (auto simp: with_enforcer_def silent_def Let_def split: prod.splits)

lemma silent_backend_of_tool: "backend_of_tool w t a = (b, a') \<Longrightarrow> silent a a'"
  by (auto simp: backend_of_tool_def split: if_splits prod.splits sum.splits)

lemma silent_backend_skip: "backend_skip w b a = (s, a') \<Longrightarrow> silent a a'"
  by (auto simp: backend_skip_def dest: silent_store_ops split: if_splits prod.splits sum.splits)

lemma silent_queue_call: "queue_call w style ctx d q e a = (v, a') \<Longrightarrow> silent a a' \<and> (\<exists>r. v = Answer r)"
  by (auto simp: queue_call_def dest: silent_with_enforcer split: prod.splits sum.splits)

lemma silent_judge:
  assumes "judge w style u b skip c body e a = (v, a')" shows "silent a a'"
proof -
  obtain d err a1 where h: "with_enforcer (HandleToolCall (w_env w) u (tc_tool c) (tc_args c) b (tc_justification c)
      \<lparr>co_SkipJustification = skip\<rparr>) e a = ((d, err), a1)" by (metis prod.exhaust)
  from assms have "a' = a1 \<or> (\<exists>ctx q e. queue_call w style ctx d q e a1 = (v, a'))"
    unfolding judge_def h by (auto simp: Let_def split: if_splits)
  then show ?thesis using silent_with_enforcer [OF h] silent_trans silent_queue_call by metis
qed

lemma silent_check_call: "check_call w style u b skip c body a = (v, a') \<Longrightarrow> silent a a'"
  by (auto simp: check_call_def dest: silent_judge split: option.splits if_splits)

lemma silent_default: "defaultBackendID w a = (b, a') \<Longrightarrow> silent a a'"
  by (auto simp: defaultBackendID_def Let_def dest: silent_store_ops split: prod.splits sum.splits)

lemma framing_pool_key:
  "GetOrCreateUserPoolWithFraming now b u cmd mn mx env fr pm = Some (key, pm') \<Longrightarrow> key = user_pool_key b u"
  by (auto simp: GetOrCreateUserPoolWithFraming_def GetOrCreateUserPoolWithSecrets_alone Let_def split: option.splits if_splits)

lemma getPoolForUser_key:
  assumes "getPoolForUser w u b a = Some (key, a')"
  shows "app_sent a' = app_sent a" and "\<And>k. key = Some k \<Longrightarrow> k = user_pool_key b u"
proof -
  obtain r a1 where g: "app_GetBackend w b a = (r, a1)" by (metis prod.exhaust)
  from silent_store_ops(1) [OF g] have "app_sent a1 = app_sent a" by (simp add: silent_def)
  with assms show "app_sent a' = app_sent a"
    by (auto simp: getPoolForUser_def g Let_def split: prod.splits sum.splits)
  from assms show "k = user_pool_key b u" if "key = Some k" for k
    using that by (auto simp: getPoolForUser_def g Let_def dest: framing_pool_key split: prod.splits sum.splits)
qed

lemma acquire_sent: "acquire_warm w k a = Some (r, a') \<Longrightarrow> app_sent a' = app_sent a"
  by (auto simp: acquire_warm_def split: option.splits)

lemma release_sent: "release_proc k q a = Some a' \<Longrightarrow> app_sent a' = app_sent a"
  by (auto simp: release_proc_def split: option.splits)

lemma send_request_sent: "send_request w k i d line a = Some (ev, a') \<Longrightarrow> app_sent a' = app_sent a @ [(k, line)]"
  by (auto simp: send_request_def split: option.splits)

lemma request_line_newline: "request_line w body = Some (i, line) \<Longrightarrow> \<exists>l. line = l @ [CHR 0x0A]"
  by (auto simp: request_line_def compact_line_def Let_def split: sum.splits option.splits if_splits)

lemma relay_sends:
  assumes "relay w style hdrs k body a = Some (r, a')"
  shows "app_sent a' = app_sent a \<or> (\<exists>l. app_sent a' = app_sent a @ [(k, l @ [CHR 0x0A])])"
proof -
  have "acquire_warm w k a \<noteq> None" using assms by (cases "acquire_warm w k a") (simp_all add: relay_def)
  then obtain r1 a1 where acq: "acquire_warm w k a = Some (r1, a1)" "app_sent a1 = app_sent a"
    using acquire_sent by (metis option.exhaust prod.exhaust)
  show ?thesis
  proof (cases r1)
    case (Inl err)
    with assms acq show ?thesis by (simp add: relay_def)
  next
    case (Inr proc)
    show ?thesis
    proof (cases "request_line w body")
      case None
      with Inr assms acq show ?thesis by (auto simp: relay_def dest: release_sent)
    next
      case (Some p)
      obtain i line where p: "p = (i, line)" by (cases p)
      from assms acq Inr Some p obtain ev a2 where s: "send_request w k i (60 * second) line a1 = Some (ev, a2)"
        by (auto simp: relay_def split: option.splits)
      from assms acq Inr Some p s have "app_sent a' = app_sent a2"
        by (auto simp: relay_def dest!: release_sent split: option.splits if_splits)
      then show ?thesis using send_request_sent [OF s] request_line_newline [of w body i line] acq Some p by auto
    qed
  qed
qed

lemma default_sends:
  assumes "handleDefaultBackend w hdrs u body a = Some (r, a')" shows "sends u a a'"
proof -
  obtain b a1 where d: "defaultBackendID w a = (b, a1)" by (metis prod.exhaust)
  from assms obtain key a2 where g: "getPoolForUser w u b a1 = Some (Some key, a2)"
      and r: "relay w (default_style hdrs) hdrs key body a2 = Some (r, a')"
    by (auto simp: handleDefaultBackend_def d split: option.splits prod.splits)
  have "app_sent a2 = app_sent a" using getPoolForUser_key(1) [OF g] silent_default [OF d] by (simp add: silent_def)
  then show ?thesis using relay_sends [OF r] getPoolForUser_key(2) [OF g] by (auto simp: sends_def)
qed

lemma routed_pool_key:
  "HandleToolsCall lib sys jl now u body tm st pm = Some (Inr (body', router), st', pm') \<Longrightarrow>
   prt_Pool router = user_pool_key (prt_Backend router) u"
  by (auto simp: HandleToolsCall_def Let_def dest: framing_pool_key split: sum.splits option.splits prod.splits if_splits)

lemma route_sends:
  assumes "route_call w hdrs u b body a = Some (r, a')" shows "sends u a a'"
proof -
  obtain h st pm where h: "HandleToolsCall (w_lib w) (w_sys w) (w_json w) (w_now w) u body (app_muxer a) (Some (app_store a)) (app_pools a) =
      Some (h, st, pm)"
    using assms by (auto simp: route_call_def split: option.splits)
  let ?a = "(put_store st a)\<lparr>app_pools := pm\<rparr>"
  have sent: "app_sent ?a = app_sent a" by simp
  show ?thesis
  proof (cases h)
    case (Inl err)
    with assms h have "handleDefaultBackend w hdrs u body ?a = Some (r, a')" by (simp add: route_call_def)
    from default_sends [OF this] sent show ?thesis by (simp add: sends_def)
  next
    case (Inr p)
    obtain body' router where p: "p = (body', router)" by (cases p)
    with assms h Inr have "relay w (call_style w b hdrs) hdrs (prt_Pool router) body' ?a = Some (r, a')"
      by (simp add: route_call_def)
    from relay_sends [OF this] routed_pool_key [of _ _ _ _ _ _ _ _ _ body' router] h Inr p sent show ?thesis by (auto simp: sends_def)
  qed
qed

end
