(* ===== verification/SystemTools.thy ===== *)
theory SystemTools
  imports Gateway
begin

text \<open>
  The tools of the bridge itself: their list (src/shared/system_tools.go) and the handlers that the MCP library calls for
  them (src/mcpbridge_tools.go). The library itself is outside the model; a handler's result is the text it returns. Text
  outside ASCII is written as its bytes.
\<close>

section \<open>The list\<close>

abbreviation nl :: string where "nl \<equiv> [CHR 0x0A]"

record SystemToolDefinition =
  sy_Name :: string
  sy_Description :: string
  sy_InputSchema :: json

definition empty_schema :: json where
  "empty_schema = JObj [(''type'', JStr ''object''), (''properties'', JObj [])]"

definition approval_schema :: json where
  "approval_schema = JObj [(''type'', JStr ''object''), (''properties'', JObj [(''approval_id'', JObj [(''type'', JStr ''string''),
     (''description'', JStr ''The approval request ID returned from the blocked tool call'')])]),
     (''required'', JArr [JStr ''approval_id''])]"

definition SystemTools :: "SystemToolDefinition list" where
  "SystemTools = [
     \<lparr>sy_Name = ''mcpbridge_0_README'',
      sy_Description = [CHR 0xF0, CHR 0x9F, CHR 0x9A, CHR 0xA8] @ '' START HERE! '' @ [CHR 0xF0, CHR 0x9F, CHR 0x9A, CHR 0xA8] @ '' CRITICAL: Read this BEFORE using any other tools! Contains essential usage guidance, hints for all backends, and company-specific information. Failure to read this first may result in incorrect queries and wasted API calls.'',
      sy_InputSchema = empty_schema\<rparr>,
     \<lparr>sy_Name = ''mcpbridge_ping'',
      sy_Description = ''Check bridge connectivity and get current timestamp'',
      sy_InputSchema = empty_schema\<rparr>,
     \<lparr>sy_Name = ''mcpbridge_version'',
      sy_Description = ''Get mcp-bridge version information'',
      sy_InputSchema = empty_schema\<rparr>,
     \<lparr>sy_Name = ''mcpbridge_list_backends'',
      sy_Description = ''List configured backends (admin sees all, users see their token-enabled backends)'',
      sy_InputSchema = empty_schema\<rparr>,
     \<lparr>sy_Name = ''mcpbridge_refresh_tools'',
      sy_Description = ''Refresh and list tools from all enabled backends'',
      sy_InputSchema = empty_schema\<rparr>,
     \<lparr>sy_Name = ''mcpbridge_pool_status'',
      sy_Description = ''Get pool status for all user pools: warm process count, current size, min/max pool sizes'',
      sy_InputSchema = empty_schema\<rparr>,
     \<lparr>sy_Name = ''mcpbridge_capabilities'',
      sy_Description = ''Get bridge capabilities: available backends, user configuration status, and system tools'',
      sy_InputSchema = empty_schema\<rparr>,
     \<lparr>sy_Name = ''mcpbridge_approval_status'',
      sy_Description = ''Check the status of a pending approval request. Use this after receiving an approval_id from a blocked tool call to see if an admin has approved or denied your request.'',
      sy_InputSchema = approval_schema\<rparr>]"

definition SystemToolNames :: "(string, bool) gomap" where
  "SystemToolNames = fold (\<lambda>t m. AList.update (sy_Name t) True m) SystemTools []"

definition IsSystemTool :: "string \<Rightarrow> bool" where
  "IsSystemTool name = (case map_of SystemToolNames name of Some b \<Rightarrow> b | None \<Rightarrow> False)"

definition SystemToolsAsMap :: "(string, json) gomap list" where
  "SystemToolsAsMap = map (\<lambda>t. [(''name'', JStr (sy_Name t)), (''description'', JStr (sy_Description t)),
     (''inputSchema'', sy_InputSchema t)]) SystemTools"

text \<open>The tools that \<open>registerSystemTools\<close> registers with the library, in order, with the handler of each.\<close>

datatype system_handler = ReadmeTool | PingTool | VersionTool | ListBackendsTool | RefreshToolsTool | CapabilitiesTool
  | PoolStatusTool | ApprovalStatusTool | QuotasTool

definition quota_schema :: json where
  "quota_schema = JObj [(''type'', JStr ''object''), (''properties'', JObj [(''backend_id'', JObj [(''type'', JStr ''string''),
     (''description'', JStr (''Optional: specific backend to check (e.g., '' @ [CHR 0x27] @ ''slack'' @ [CHR 0x27] @ '', '' @ [CHR 0x27] @ ''newrelic'' @ [CHR 0x27] @ ''). If not provided, shows all backends.''))])]), (''required'', JArr [])]"

definition registerSystemTools :: "(SystemToolDefinition \<times> system_handler) list" where
  "registerSystemTools =
    [(\<lparr>sy_Name = ''mcpbridge_0_README'',
      sy_Description = [CHR 0xF0, CHR 0x9F, CHR 0x9A, CHR 0xA8] @ '' START HERE! '' @ [CHR 0xF0, CHR 0x9F, CHR 0x9A, CHR 0xA8] @ '' CRITICAL: Read this BEFORE using any other tools! Contains essential usage guidance, hints for all backends, and company-specific information. Failure to read this first may result in incorrect queries and wasted API calls.'',
      sy_InputSchema = empty_schema\<rparr>, ReadmeTool),
     (\<lparr>sy_Name = ''mcpbridge_ping'',
      sy_Description = ''Check bridge connectivity and get current timestamp'',
      sy_InputSchema = empty_schema\<rparr>, PingTool),
     (\<lparr>sy_Name = ''mcpbridge_version'',
      sy_Description = ''Get mcp-bridge version information'',
      sy_InputSchema = empty_schema\<rparr>, VersionTool),
     (\<lparr>sy_Name = ''mcpbridge_list_backends'',
      sy_Description = ''List configured backends (admin sees all, users see their token-enabled backends)'',
      sy_InputSchema = empty_schema\<rparr>, ListBackendsTool),
     (\<lparr>sy_Name = ''mcpbridge_refresh_tools'',
      sy_Description = ''Refresh and list tools from all enabled backends'',
      sy_InputSchema = empty_schema\<rparr>, RefreshToolsTool),
     (\<lparr>sy_Name = ''mcpbridge_capabilities'',
      sy_Description = ''Get bridge capabilities: available backends, user configuration status, and system tools. Use this for quick discovery of what'' @ [CHR 0x27] @ ''s available.'',
      sy_InputSchema = empty_schema\<rparr>, CapabilitiesTool),
     (\<lparr>sy_Name = ''mcpbridge_pool_status'',
      sy_Description = ''Get pool status for all user pools: warm process count, current size, min/max pool sizes. Shows resource usage per backend+user combination.'',
      sy_InputSchema = empty_schema\<rparr>, PoolStatusTool),
     (\<lparr>sy_Name = ''mcpbridge_approval_status'',
      sy_Description = ''Check the status of a pending approval request. Use this after receiving an approval_id from a blocked tool call to see if an admin has approved or denied your request.'',
      sy_InputSchema = approval_schema\<rparr>, ApprovalStatusTool),
     (\<lparr>sy_Name = ''mcpbridge_quotas'',
      sy_Description = ''Get your current rate limit quotas. Shows available tokens in risk and resource buckets per backend. Risk buckets limit destructive operations (writes/deletes), resource buckets limit expensive API calls.'',
      sy_InputSchema = quota_schema\<rparr>, QuotasTool)]"

section \<open>Tools that only read\<close>

text \<open>\<open>env_rfc3339\<close> formats an instant of the clock in RFC 3339.\<close>

definition handlePingTool :: "'p world \<Rightarrow> string" where
  "handlePingTool w = ''pong '' @ env_rfc3339 (w_env w) (w_now w)"

definition handleVersionTool :: string where
  "handleVersionTool = ''mcp-bridge version 1.0.0''"

definition backend_state :: "Backend \<Rightarrow> string" where
  "backend_state b = (if be_IsSystem b then ''system (always available)'' else if be_Enabled b then ''enabled'' else ''disabled'')"

definition handleListBackendsTool :: "'p world \<Rightarrow> 'p App \<Rightarrow> string \<times> 'p App" where
  "handleListBackendsTool w a =
     (case app_ListBackends w a of
        (Inl err, a) \<Rightarrow> (''Error: '' @ w_errtext w err, a)
      | (Inr bs, a) \<Rightarrow> (concat (map (\<lambda>b. ''- '' @ be_ID b @ '': '' @ backend_state b @ nl) bs), a))"

text \<open>Decoding a stored list of tools into \<open>[]map[string]interface{}\<close>: each entry is an object or null.\<close>

definition is_object :: "json \<Rightarrow> bool" where
  "is_object v = (case v of JObj _ \<Rightarrow> True | JNull \<Rightarrow> True | _ \<Rightarrow> False)"

definition unmarshal_tools :: "json_lib \<Rightarrow> string \<Rightarrow> goerr + json list" where
  "unmarshal_tools jl s =
     (case jl_Unmarshal jl s of
        Inl err \<Rightarrow> Inl err
      | Inr (JArr vs) \<Rightarrow> if list_all is_object vs then Inr vs else Inl (ErrNew ''cannot unmarshal into a list of maps'')
      | Inr JNull \<Rightarrow> Inr []
      | Inr _ \<Rightarrow> Inl (ErrNew ''cannot unmarshal into a list of maps''))"

definition marshal_tools :: "json_lib \<Rightarrow> json list \<Rightarrow> goerr + string" where
  "marshal_tools jl tools = Inr (jl_Marshal jl (JArr tools))"

definition cached_capabilities :: "'p world \<Rightarrow> 'p App \<Rightarrow> (string, BackendCapabilities) gomap" where
  "cached_capabilities w a =
     (case Store_GetAllBackendCapabilities (unmarshal_tools (w_json w)) (st_db (app_store a)) of Inl _ \<Rightarrow> [] | Inr m \<Rightarrow> m)"

definition token_backends :: "string \<Rightarrow> 'p App \<Rightarrow> string list" where
  "token_backends userID a =
     (case Store_GetAllUserTokens userID (st_db (app_store a)) of Inl _ \<Rightarrow> [] | Inr tokens \<Rightarrow> map ut_BackendID tokens)"

definition tool_count :: "(string, BackendCapabilities) gomap \<Rightarrow> Backend \<Rightarrow> int option" where
  "tool_count caps b = map_option bp_ToolCount (map_of caps (be_ID b))"

text \<open>The integrations named at the top, with the number of tools of each, and the total.\<close>

definition integrations :: "(string, BackendCapabilities) gomap \<Rightarrow> Backend list \<Rightarrow> string list \<times> int" where
  "integrations caps bs =
     (let counted = concat (map (\<lambda>b. case tool_count caps b of None \<Rightarrow> [] | Some n \<Rightarrow> [(be_ID b, n)]) bs)
      in (map (\<lambda>(i, n). i @ '' ('' @ itoa n @ '' tools)'') counted, fold (\<lambda>(_, n) t. goadd t n) counted 0))"

fun Join :: "string list \<Rightarrow> string \<Rightarrow> string" where
  "Join [] sep = []"
| "Join [s] sep = s"
| "Join (s # ss) sep = s @ sep @ Join ss sep"

definition capability_line :: "(string, BackendCapabilities) gomap \<Rightarrow> string list \<Rightarrow> Backend \<Rightarrow> string" where
  "capability_line caps mine b =
     ''- '' @ be_ID b @ '': '' @
     (if be_IsSystem b then ''system (always available)'' else if List.member mine (be_ID b) then ''configured''
      else ''available (not configured)'') @
     (case tool_count caps b of Some n \<Rightarrow> '' ('' @ itoa n @ '' tools)'' | None \<Rightarrow> []) @ nl"

text \<open>The report, with the condition for the first line as an argument: the two handlers that print it differ there.\<close>

definition capability_report ::
    "(string list \<Rightarrow> Backend list \<Rightarrow> bool) \<Rightarrow> (string, BackendCapabilities) gomap \<Rightarrow> string list \<Rightarrow> Backend list \<Rightarrow> string" where
  "capability_report some caps mine bs =
     (let configured = filter (\<lambda>b. List.member mine (be_ID b)) bs;
          (names, total) = integrations caps configured
      in ''=== MCP Bridge Capabilities ==='' @ nl @ nl @
         (if some names configured
          then ''Available integrations: '' @ Join names '', '' @ '', Bridge Admin (5 tools). Total: '' @ itoa (goadd total 5) @ '' tools.'' @ nl @ nl
          else ''No backends configured for this user. Bridge Admin (5 tools) is always available.'' @ nl @ nl) @
         ''--- Backends ---'' @ nl @ concat (map (capability_line caps mine) bs) @
         nl @ ''--- System Tools (always available) ---'' @ nl @ ''- mcpbridge_ping: Check bridge connectivity'' @ nl @ ''- mcpbridge_version: Get version info'' @ nl @
         ''- mcpbridge_list_backends: List backends'' @ nl @ ''- mcpbridge_refresh_tools: Refresh tools from backends'' @ nl @
         ''- mcpbridge_capabilities: This tool'' @ nl)"

definition handleCapabilitiesTool :: "'p world \<Rightarrow> string \<Rightarrow> 'p App \<Rightarrow> string \<times> 'p App" where
  "handleCapabilitiesTool w userID a =
     (let caps = cached_capabilities w a
      in case app_ListBackends w a of
           (Inl err, a) \<Rightarrow> (''Error: '' @ w_errtext w err, a)
         | (Inr bs, a) \<Rightarrow> (capability_report (\<lambda>_ configured. configured \<noteq> []) caps (token_backends userID a) bs, a))"

section \<open>Pools, approvals and quotas\<close>

definition pool_lines :: "PoolStatus \<Rightarrow> string" where
  "pool_lines ps = ''Pool: '' @ pst_BackendID ps @ '':'' @ pst_UserID ps @ nl @ ''  Command: '' @ pst_Command ps @ nl @
     ''  Warm: '' @ itoa (pst_WarmCount ps) @ '', Current: '' @ itoa (pst_CurrentSize ps) @ nl @
     ''  Min: '' @ itoa (pst_MinPoolSize ps) @ '', Max: '' @ itoa (pst_MaxPoolSize ps) @ nl @ nl"

definition handlePoolStatusTool :: "(int \<Rightarrow> goerr + int) \<Rightarrow> string \<Rightarrow> 'p App \<Rightarrow> string option" where
  "handlePoolStatusTool rss userID a =
     map_option (\<lambda>pools.
       ''=== Pool Status ==='' @ nl @ nl @
       (if pools = [] then ''No pools found for this user.'' @ nl
        else concat (map pool_lines pools) @ ''Total: '' @ itoa (int (length pools)) @ '' pools, '' @
          itoa (fold (\<lambda>ps t. goadd t (pst_WarmCount ps)) pools 0) @ '' warm processes, '' @
          itoa (fold (\<lambda>ps t. goadd t (pst_CurrentSize ps)) pools 0) @ '' current'' @ nl))
     (GetPoolsForUser rss userID (app_pools a))"

text \<open>The part of the answer that depends on the status. \<open>fmt_time\<close> is the date format of the handler.\<close>

definition approver_line :: "string \<Rightarrow> ApprovalRequestRow \<Rightarrow> string" where
  "approver_line label r = (case aq_ApprovedBy r of Some u \<Rightarrow> label @ u @ nl | None \<Rightarrow> [])"

definition approval_outcome :: "ApprovalRequestRow \<Rightarrow> string" where
  "approval_outcome r =
     (if aq_Status r = ''PENDING''
      then nl @ [CHR 0xE2, CHR 0x8F, CHR 0xB3] @ '' Request is pending administrator review.'' @ nl @ ''Please wait for an administrator to approve or deny.'' @ nl
      else if aq_Status r = ''EXECUTING''
      then nl @ [CHR 0xF0, CHR 0x9F, CHR 0x94, CHR 0x84] @ '' Request is being executed.'' @ nl @ ''Please check back shortly for results.'' @ nl
      else if aq_Status r = ''COMPLETED''
      then nl @ [CHR 0xE2, CHR 0x9C, CHR 0x85] @ '' Request was APPROVED and EXECUTED!'' @ nl @ approver_line ''Approved by: '' r @
        (if aq_Comments r \<noteq> [] then ''Comments: '' @ aq_Comments r @ nl else []) @
        nl @ ''HTTP Status Code: '' @ itoa (aq_ResponseStatus r) @ nl @ nl @ ''Response Body:'' @ nl @ aq_ResponseBody r
      else if aq_Status r = ''FAILED''
      then nl @ [CHR 0xE2, CHR 0x9D, CHR 0x8C] @ '' Request was APPROVED but EXECUTION FAILED.'' @ nl @ approver_line ''Approved by: '' r @
        (if aq_ErrorMsg r \<noteq> [] then nl @ ''Error: '' @ aq_ErrorMsg r @ nl else []) @
        (if aq_ResponseStatus r > 0 then ''HTTP Status Code: '' @ itoa (aq_ResponseStatus r) @ nl else []) @
        (if aq_ResponseBody r \<noteq> [] then nl @ ''Response from server:'' @ nl @ aq_ResponseBody r else []) @
        nl @ ''Original request body:'' @ nl @ aq_RequestBody r
      else if aq_Status r = ''DENIED''
      then nl @ [CHR 0xE2, CHR 0x9D, CHR 0x8C] @ '' Request was DENIED.'' @ nl @ approver_line ''Denied by: '' r @
        (if aq_DenialReason r \<noteq> [] then ''Reason: '' @ aq_DenialReason r @ nl else [])
      else if aq_Status r = ''EXPIRED''
      then nl @ [CHR 0xE2, CHR 0x8F, CHR 0xB0] @ '' Request has EXPIRED.'' @ nl @ ''Please submit a new request if needed.'' @ nl
      else [])"

definition approval_report :: "(gotime \<Rightarrow> string) \<Rightarrow> ApprovalRequestRow \<Rightarrow> string" where
  "approval_report fmt_time r =
     ''=== Approval Status ==='' @ nl @ nl @ ''Approval ID: '' @ aq_ID r @ nl @ ''Status: '' @ aq_Status r @ nl @
     ''Tool: '' @ aq_ToolName r @ nl @ ''Requested at: '' @ fmt_time (aq_RequestedAt r) @ nl @
     ''Expires at: '' @ fmt_time (aq_ExpiresAt r) @ nl @ approval_outcome r"

text \<open>The arguments are those of the call; the user who calls is not an argument, since the handler does not look at it.\<close>

definition handleApprovalStatusTool :: "(gotime \<Rightarrow> string) \<Rightarrow> json option \<Rightarrow> 'p App \<Rightarrow> string" where
  "handleApprovalStatusTool fmt_time args a =
     (case app_enforcer a of
        None \<Rightarrow> ''Error: Enforcer not available''
      | Some e \<Rightarrow>
          (case json_object args of
             None \<Rightarrow> ''Error: Invalid arguments''
           | Some m \<Rightarrow>
               if string_or_empty (map_of m ''approval_id'') = [] then ''Error: approval_id is required''
               else case GetApprovalRequest (string_or_empty (map_of m ''approval_id'')) (e\<lparr>ef_store := st_db (app_store a)\<rparr>) of
                      Inl _ \<Rightarrow> ''Error: Approval request not found or expired''
                    | Inr r \<Rightarrow> approval_report fmt_time r))"

text \<open>The levels in the status map are Go integers and the handler asserts them to be floating-point numbers, which panics
  (\<open>None\<close>) for the first backend that is shown.\<close>

definition handleQuotasTool :: "'p world \<Rightarrow> json option \<Rightarrow> 'p App \<Rightarrow> (string \<times> 'p App) option" where
  "handleQuotasTool w args a =
     (case app_enforcer a of
        None \<Rightarrow> Some (''Error: Enforcer not available'', a)
      | Some _ \<Rightarrow>
          (case json_object args of
             None \<Rightarrow> None
           | Some m \<Rightarrow>
               (let backendID = string_or_empty (map_of m ''backend_id'')
                in case app_ListBackends w a of
                     (Inl err, a) \<Rightarrow> Some (''Error: '' @ w_errtext w err, a)
                   | (Inr bs, a) \<Rightarrow>
                       if list_ex (\<lambda>b. be_Enabled b \<and> (backendID = [] \<or> be_ID b = backendID)) bs then None
                       else Some (''=== Rate Limit Quotas ==='' @ nl @ nl @ [CHR 0xF0, CHR 0x9F, CHR 0x92, CHR 0xA1] @ '' Tips:'' @ nl @
                         ''- Risk bucket depletes on write/delete operations'' @ nl @
                         ''- Resource bucket depletes on all operations'' @ nl @
                         ''- Both buckets refill automatically over time'' @ nl @
                         ''- Contact admin if you need higher limits'' @ nl, a))))"

section \<open>The guide\<close>

definition rule :: "string \<Rightarrow> nat \<Rightarrow> string" where
  "rule c n = concat (replicate n c)"

definition readme_backend :: "Backend \<Rightarrow> string \<Rightarrow> string" where
  "readme_backend b instructions =
     nl @ [CHR 0xF0, CHR 0x9F, CHR 0x93, CHR 0xA6] @ '' BACKEND: '' @ ToUpper (be_ID b) @ nl @ rule ([CHR 0xE2, CHR 0x95, CHR 0x90]) (40 + length (be_ID b)) @ nl @ nl @
     (if be_ToolHints b \<noteq> [] then [CHR 0xF0, CHR 0x9F, CHR 0x93, CHR 0x9D] @ '' Usage Hints:'' @ nl @ be_ToolHints b @ nl @ nl else []) @
     (if instructions \<noteq> [] then [CHR 0xF0, CHR 0x9F, CHR 0x93, CHR 0x96] @ '' Backend Instructions:'' @ nl @ instructions @ nl @ nl else [])"

definition pool_instructions :: "string option \<Rightarrow> 'p App \<Rightarrow> string" where
  "pool_instructions key a =
     (case key of None \<Rightarrow> [] | Some k \<Rightarrow> (case pool_at k a of None \<Rightarrow> [] | Some p \<Rightarrow> po_Instructions p))"

fun readme_backends :: "'p world \<Rightarrow> string \<Rightarrow> string list \<Rightarrow> Backend list \<Rightarrow> 'p App \<Rightarrow> (string \<times> 'p App) option" where
  "readme_backends w userID mine [] a = Some ([], a)"
| "readme_backends w userID mine (b # bs) a =
     (if \<not> be_Enabled b \<or> \<not> List.member mine (be_ID b) then readme_backends w userID mine bs a
      else case getPoolForUser w userID (be_ID b) a of
             None \<Rightarrow> None
           | Some (key, a) \<Rightarrow>
               map_option (\<lambda>(rest, a'). (readme_backend b (pool_instructions key a) @ rest, a')) (readme_backends w userID mine bs a))"

definition readme_head :: string where
  "readme_head =
     [CHR 0xE2, CHR 0x95, CHR 0x94] @ rule ([CHR 0xE2, CHR 0x95, CHR 0x90]) 72 @ [CHR 0xE2, CHR 0x95, CHR 0x97] @ nl @
     [CHR 0xE2, CHR 0x95, CHR 0x91] @ ''           '' @ [CHR 0xF0, CHR 0x9F, CHR 0x9A, CHR 0x80] @ '' MCP BRIDGE - START HERE - READ ME FIRST '' @ [CHR 0xF0, CHR 0x9F, CHR 0x9A, CHR 0x80] @ ''               '' @ [CHR 0xE2, CHR 0x95, CHR 0x91] @ nl @
     [CHR 0xE2, CHR 0x95, CHR 0x9A] @ rule ([CHR 0xE2, CHR 0x95, CHR 0x90]) 72 @ [CHR 0xE2, CHR 0x95, CHR 0x9D] @ nl @ nl"

definition handleReadmeTool :: "'p world \<Rightarrow> string \<Rightarrow> 'p App \<Rightarrow> (string \<times> 'p App) option" where
  "handleReadmeTool w userID a =
     (let hints = (case Store_GetSetting ''global_hints'' (st_db (app_store a)) of Inl _ \<Rightarrow> [] | Inr s \<Rightarrow> s)
      in case app_ListBackends w a of
           (Inl err, a) \<Rightarrow> Some (''Error listing backends: '' @ w_errtext w err, a)
         | (Inr bs, a) \<Rightarrow>
             map_option (\<lambda>(t, a').
               (readme_head @
                (if hints \<noteq> [] then [CHR 0xF0, CHR 0x9F, CHR 0x93, CHR 0x8B] @ '' GLOBAL INFORMATION'' @ nl @ rule ([CHR 0xE2, CHR 0x95, CHR 0x90]) 23 @ nl @ hints @ nl @ nl else []) @
                t @ nl @ [CHR 0xE2, CHR 0x9C, CHR 0x85] @ '' You are now ready to use MCP Bridge tools!'' @ nl @
                ''Remember: When using GitHub search tools, use filters like '' @ [CHR 0x27] @ ''is:pr org:tusker-direct'' @ [CHR 0x27] @ nl @
                ''For Jira, use projectKey=PROJ to filter by project.'' @ nl, a'))
               (readme_backends w userID (token_backends userID a) bs a))"

end
