(* ===== verification/Bridge.thy ===== *)
theory Bridge
  imports SystemTools
begin

text \<open>
  The handlers of tool calls: the bridge endpoint (\<open>handleToolsCall\<close> of src/mcpbridge_routing.go), the older one of
  src/mcp_handlers.go, and the namespaced endpoint (\<open>v2toolCall\<close> and the dispatcher of src/v2handler.go). All three ask the
  enforcer through \<open>check_call\<close> and differ in how they read the call and in what they answer.
\<close>

section \<open>The bridge endpoint\<close>

text \<open>Every string of the arguments is encoded and decoded once; one that does not decode becomes empty.\<close>

primrec sanitiseStringArgs :: "json_lib \<Rightarrow> json \<Rightarrow> json" where
  "sanitiseStringArgs jl JNull = JNull"
| "sanitiseStringArgs jl (JBool b) = JBool b"
| "sanitiseStringArgs jl (JNum n) = JNum n"
| "sanitiseStringArgs jl (JStr s) = JStr (case jl_Unmarshal jl (jl_Marshal jl (JStr s)) of Inr (JStr c) \<Rightarrow> c | _ \<Rightarrow> [])"
| "sanitiseStringArgs jl (JArr vs) = JArr (map (sanitiseStringArgs jl) vs)"
| "sanitiseStringArgs jl (JObj kvs) = JObj (map (map_prod id (sanitiseStringArgs jl)) kvs)"

definition unread_call :: "string \<Rightarrow> tool_call" where
  "unread_call body = \<lparr>tc_tool = [], tc_args = [], tc_justification = [], tc_body = body\<rparr>"

text \<open>Reading the call. An error carries the tool and the offending arguments.\<close>

definition parse_call :: "json_lib \<Rightarrow> string \<Rightarrow> (string \<times> json option \<times> goerr) + tool_call" where
  "parse_call jl body =
     (case jl_Unmarshal jl body of
        Inr (JObj req) \<Rightarrow>
          (case json_object (map_of req ''params'') of
             None \<Rightarrow> Inr (unread_call body)
           | Some params \<Rightarrow>
               (let toolName = string_or_empty (map_of params ''name'')
                in case ParseArgsMap jl (map_of params ''arguments'') of
                     Inl err \<Rightarrow> Inl (toolName, map_of params ''arguments'', err)
                   | Inr args \<Rightarrow>
                       (let justification = string_or_empty (map_of args ''justification'');
                            args = AList.delete ''justification'' args;
                            params' = AList.update ''arguments'' (sanitiseStringArgs jl (JObj args)) params
                        in Inr \<lparr>tc_tool = toolName, tc_args = args,
                             tc_justification = (if justification = [] then string_or_empty (map_of params ''justification'') else justification),
                             tc_body = jl_Marshal jl (JObj (AList.update ''params'' (JObj params') req))\<rparr>)))
      | _ \<Rightarrow> Inr (unread_call body))"

definition invalid_arguments :: "'p world \<Rightarrow> json \<Rightarrow> string \<times> json option \<times> goerr \<Rightarrow> http_response" where
  "invalid_arguments w i problem =
     (case problem of (toolName, arg, err) \<Rightarrow>
        writeJSONRPCError i (-32602)
          (''Invalid tool arguments for '' @ quoted toolName @ '': the '' @ [CHR 0x27] @ ''arguments'' @ [CHR 0x27] @ '' field must be a JSON object, but got '' @
           go_type arg @ ''. '' @ w_errtext w err)
          (Some (JObj [(''error'', JStr ''invalid_arguments_type''), (''tool'', JStr toolName), (''got_type'', JStr (go_type arg)),
             (''raw_value'', JStr (case arg of None \<Rightarrow> ''<nil>'' | Some v \<Rightarrow> w_show w v))])))"

definition pending_status :: "string \<Rightarrow> string" where
  "pending_status queue = (if queue = ''user'' then ''pending_user_approval'' else ''pending_approval'')"

definition pending_result :: "json \<Rightarrow> string \<Rightarrow> string \<Rightarrow> string \<Rightarrow> string \<Rightarrow> json" where
  "pending_result i queue toolName backendID approvalID =
     JObj [(''jsonrpc'', JStr ''2.0''), (''id'', i),
       (''result'', JObj [(''content'', JArr [JObj [(''type'', JStr ''text''), (''text'', JStr ([CHR 0xE2, CHR 0x8F, CHR 0xB3] @ '' Tool '' @ [CHR 0x27] @ toolName @ [CHR 0x27] @ '' requires '' @
            (if queue = ''user'' then ''your'' else ''admin'') @ '' approval.'' @ nl @ ''Approval ID: '' @ approvalID @
            nl @ ''Use mcpbridge_approval_status with this approval_id to check status after approval''))]]),
          (''approval_id'', JStr approvalID), (''status'', JStr (pending_status queue)), (''tool'', JStr toolName),
          (''backend'', JStr backendID),
          (''instructions'', JStr ''Use mcpbridge_approval_status with this approval_id to check status after approval'')])]"

definition bridge_style :: "'p world \<Rightarrow> json \<Rightarrow> string \<Rightarrow> string \<Rightarrow> reply_style" where
  "bridge_style w i toolName backendID = \<lparr>
     ry_denied = (\<lambda>d. \<lparr>hr_status = 200, hr_headers = [content_json],
       hr_body = Encoded (rpc_error i (error_fields (-32001) (ed_Message d) @
         [(''data'', JObj [(''policy_id'', JStr (ed_PolicyID d)), (''action'', JStr ''denied'')])]))\<rparr>),
     ry_failed = (\<lambda>err. \<lparr>hr_status = 500, hr_headers = [content_json],
       hr_body = Encoded (rpc_error i (error_fields (-32002) (''Failed to create approval request: '' @ w_errtext w err)))\<rparr>),
     ry_pending = (\<lambda>d queue approvalID. \<lparr>hr_status = 200,
       hr_headers = [content_json, (''X-Enforcer-Status'', pending_status queue)],
       hr_body = Encoded (pending_result (if i = JNull then JNum 1 else i) queue toolName backendID approvalID)\<rparr>)\<rparr>"

definition MCPBridgeServer_handleToolsCall ::
    "'p world \<Rightarrow> string \<Rightarrow> string \<Rightarrow> json \<Rightarrow> 'p App \<Rightarrow> (http_response \<times> 'p App) option" where
  "MCPBridgeServer_handleToolsCall w userID body i a =
     (case parse_call (w_json w) body of
        Inl problem \<Rightarrow> Some (invalid_arguments w i problem, a)
      | Inr c \<Rightarrow>
          (let (backendID, a) = backend_of_tool w (tc_tool c) a;
               (skip, a) = backend_skip w backendID a
           in case check_call w (bridge_style w i (tc_tool c) backendID) userID backendID skip c (tc_body c) a of
                (Answer r, a) \<Rightarrow> Some (r, a)
              | (Proceed hdrs, a) \<Rightarrow> route_call w hdrs userID backendID (tc_body c) a))"

text \<open>\<open>MCPBridgeServer.handleDefaultBackend\<close> is the same code as \<open>handleDefaultBackend\<close>, for a request with no header set.\<close>

definition MCPBridgeServer_handleDefaultBackend ::
    "'p world \<Rightarrow> string \<Rightarrow> string \<Rightarrow> 'p App \<Rightarrow> (http_response \<times> 'p App) option" where
  "MCPBridgeServer_handleDefaultBackend w userID body a =
     (let (backendID, a) = defaultBackendID w a
      in case getPoolForUser w userID backendID a of
           None \<Rightarrow> None
         | Some (None, _) \<Rightarrow> None
         | Some (Some key, a) \<Rightarrow> relay w (default_style []) [] key body a)"

section \<open>The older endpoint\<close>

definition text_result :: "json \<Rightarrow> string \<Rightarrow> http_response" where
  "text_result i result = \<lparr>hr_status = 200, hr_headers = [content_json],
     hr_body = Encoded (rpc_result i (JObj [(''content'', JArr [JObj [(''type'', JStr ''text''), (''text'', JStr result)]]),
       (''status'', JStr ''ok'')]))\<rparr>"

definition legacy_capabilities :: "'p world \<Rightarrow> string \<Rightarrow> 'p App \<Rightarrow> string \<times> 'p App" where
  "legacy_capabilities w userID a =
     (let caps = cached_capabilities w a
      in case app_ListBackends w a of
           (Inl err, a) \<Rightarrow> (''Error: '' @ w_errtext w err, a)
         | (Inr bs, a) \<Rightarrow> (capability_report (\<lambda>names _. names \<noteq> []) caps (token_backends userID a) bs, a))"

definition legacy_system_tool :: "'p world \<Rightarrow> string \<Rightarrow> string \<Rightarrow> 'p App \<Rightarrow> string \<times> 'p App" where
  "legacy_system_tool w userID name a =
     (if name = ''mcpbridge_ping'' then (handlePingTool w, a)
      else if name = ''mcpbridge_version'' then (handleVersionTool, a)
      else if name = ''mcpbridge_list_backends'' then handleListBackendsTool w a
      else if name = ''mcpbridge_refresh_tools'' then (''Refreshed tools from all enabled backends'', a)
      else if name = ''mcpbridge_capabilities'' then legacy_capabilities w userID a
      else (''Unknown system tool: '' @ name, a))"

text \<open>The older handler reads arguments only from an object, and does not encode the body again.\<close>

definition legacy_params :: "json_lib \<Rightarrow> string \<Rightarrow> (string, json) gomap option" where
  "legacy_params jl body =
     (case jl_Unmarshal jl body of Inr (JObj req) \<Rightarrow> json_object (map_of req ''params'') | _ \<Rightarrow> None)"

definition legacy_call :: "json_lib \<Rightarrow> string \<Rightarrow> tool_call" where
  "legacy_call jl body =
     (case legacy_params jl body of
        None \<Rightarrow> unread_call body
      | Some params \<Rightarrow>
          (let args = (case json_object (map_of params ''arguments'') of Some m \<Rightarrow> m | None \<Rightarrow> []);
               justification = string_or_empty (map_of args ''justification'')
           in \<lparr>tc_tool = string_or_empty (map_of params ''name''), tc_args = AList.delete ''justification'' args,
               tc_justification = (if justification = [] then string_or_empty (map_of params ''justification'') else justification),
               tc_body = body\<rparr>))"

definition legacy_style :: "json \<Rightarrow> reply_style" where
  "legacy_style i = \<lparr>
     ry_denied = (\<lambda>d. \<lparr>hr_status = 403, hr_headers = [content_json],
       hr_body = Encoded (rpc_error i (error_fields (-32001) (''Policy violation: '' @ ed_Message d)))\<rparr>),
     ry_failed = (\<lambda>_. \<lparr>hr_status = 500, hr_headers = [content_json],
       hr_body = Encoded (rpc_error i (error_fields (-32002) ''Failed to create approval request''))\<rparr>),
     ry_pending = (\<lambda>d queue approvalID. \<lparr>hr_status = 200, hr_headers = [content_json],
       hr_body = Encoded (rpc_error i [(''code'', JNum (-32003)),
         (''status'', JStr (if queue = ''user'' then ''pending_user_approval'' else ''pending_admin_approval'')),
         (''approval_id'', JStr approvalID),
         (''message'', JStr (ed_Message d @ '' (Approval ID: '' @ approvalID @ '')''))])\<rparr>)\<rparr>"

definition handleToolsCall ::
    "'p world \<Rightarrow> string \<Rightarrow> string \<Rightarrow> json \<Rightarrow> 'p App \<Rightarrow> (http_response \<times> 'p App) option" where
  "handleToolsCall w userID body i a =
     (let c = legacy_call (w_json w) body
      in if HasPrefix (tc_tool c) ''mcpbridge_''
         then (let (result, a) = legacy_system_tool w userID (tc_tool c) a in Some (text_result i result, a))
         else (let (backendID, a) = backend_of_tool w (tc_tool c) a;
                   (skip, a) = backend_skip w backendID a
               in case check_call w (legacy_style i) userID backendID skip c [] a of
                    (Answer r, a) \<Rightarrow> Some (r, a)
                  | (Proceed hdrs, a) \<Rightarrow> route_call w hdrs userID backendID body a))"

definition handleInitialize :: "json \<Rightarrow> http_response" where
  "handleInitialize i = \<lparr>hr_status = 200, hr_headers = [content_json],
     hr_body = Encoded (rpc_result i (JObj [(''protocolVersion'', JStr ''2024-11-05''), (''capabilities'', JObj [(''tools'', JObj [])]),
       (''serverInfo'', JObj [(''name'', JStr ''mcp-bridge''), (''version'', JStr ''1.0.0'')])]))\<rparr>"

section \<open>The namespaced endpoint\<close>

definition missing_param :: "string \<Rightarrow> http_response" where
  "missing_param name = http_error [] (''Missing or invalid '' @ [CHR 0x27] @ name @ [CHR 0x27] @ '' parameter'') 400"

definition close_conn :: "string \<times> string" where
  "close_conn = (''Connection'', ''close'')"

definition v2_style :: "json \<Rightarrow> string \<Rightarrow> string \<Rightarrow> reply_style" where
  "v2_style i toolName namespace = \<lparr>
     ry_denied = (\<lambda>d. \<lparr>hr_status = 200, hr_headers = [content_json, close_conn],
       hr_body = Encoded (rpc_error i (error_fields (-32001) (ed_Message d)))\<rparr>),
     ry_failed = (\<lambda>_. http_error [] ''Failed to create approval request'' 500),
     ry_pending = (\<lambda>d queue approvalID. \<lparr>hr_status = 200,
       hr_headers = [content_json, (''X-Enforcer-Status'', pending_status queue), close_conn],
       hr_body = Encoded (pending_result i queue toolName namespace approvalID)\<rparr>)\<rparr>"

definition invalid_params :: "'p world \<Rightarrow> json \<Rightarrow> string \<Rightarrow> string \<Rightarrow> json option \<Rightarrow> goerr \<Rightarrow> http_response" where
  "invalid_params w i namespace toolName arg err =
     writeJSONRPCError i (-32602)
       (''Invalid tool parameters for '' @ quoted toolName @ '' in namespace '' @ quoted namespace @
        '': the '' @ [CHR 0x27] @ ''params'' @ [CHR 0x27] @ '' field must be a JSON object, but got '' @ go_type arg @ ''. '' @ w_errtext w err)
       (Some (JObj [(''error'', JStr ''invalid_params_type''), (''namespace'', JStr namespace), (''tool'', JStr toolName),
          (''got_type'', JStr (go_type arg)),
          (''hint'', JStr ''Call <backend>_expand first to discover the correct parameter schema'')]))"

definition tool_named :: "string \<Rightarrow> json \<Rightarrow> bool" where
  "tool_named toolName t = (case t of JObj m \<Rightarrow> map_of m ''name'' = Some (JStr toolName) | _ \<Rightarrow> False)"

definition json_strings :: "json list \<Rightarrow> string list" where
  "json_strings vs = concat (map (\<lambda>v. case v of JStr s \<Rightarrow> [s] | _ \<Rightarrow> []) vs)"

text \<open>One entry of the list of known tools; a tool without a name or a description is left out.\<close>

definition describe_tool :: "json \<Rightarrow> json list" where
  "describe_tool t =
     (let m = (case t of JObj m \<Rightarrow> m | _ \<Rightarrow> []);
          absent = (\<lambda>k. map_of m k = None \<or> map_of m k = Some JNull);
          schema = (case json_object (map_of m ''inputSchema'') of Some s \<Rightarrow> s | None \<Rightarrow> []);
          required = json_strings (case json_array (map_of schema ''required'') of Some r \<Rightarrow> r | None \<Rightarrow> []);
          props = (case json_object (map_of schema ''properties'') of Some p \<Rightarrow> map fst p | None \<Rightarrow> [])
      in if absent ''name'' \<or> absent ''description'' then []
         else [JObj [(''name'', JStr (string_or_empty (map_of m ''name''))),
                 (''description'', JStr (string_or_empty (map_of m ''description''))),
                 (''required_params'', JArr (map JStr required)),
                 (''optional_params'', JArr (map JStr (filter (\<lambda>p. p \<notin> set required) props)))]])"

definition unknown_tool :: "json \<Rightarrow> string \<Rightarrow> string \<Rightarrow> json list \<Rightarrow> http_response" where
  "unknown_tool i namespace toolName tools = \<lparr>hr_status = 200, hr_headers = [content_json],
     hr_body = Encoded (rpc_error i (error_fields (-32002)
       (''Unknown tool '' @ [CHR 0x27] @ toolName @ [CHR 0x27] @ '' in namespace '' @ [CHR 0x27] @ namespace @ [CHR 0x27] @ ''. Call MCP_Bridge_'' @ namespace @
        ''_expand to discover available tools. The current tool list is provided in '' @ [CHR 0x27] @ ''data'' @ [CHR 0x27] @ ''.'') @
       [(''data'', JObj [(''error'', JStr ''unknown_tool''), (''provided'', JStr toolName), (''namespace'', JStr namespace),
          (''available_tools'', JArr (concat (map describe_tool tools)))])]))\<rparr>"

definition initializing :: "json \<Rightarrow> string \<Rightarrow> http_response" where
  "initializing i namespace = \<lparr>hr_status = 200, hr_headers = [content_json], hr_body = Encoded (rpc_error i (error_fields (-32003)
     (''Backend '' @ [CHR 0x27] @ namespace @ [CHR 0x27] @ '' is still initializing. Self-reporting scan in progress. Please retry shortly.'')))\<rparr>"

text \<open>What is refused before the enforcer is asked.\<close>

definition v2_refusal :: "'p world \<Rightarrow> json \<Rightarrow> string \<Rightarrow> string \<Rightarrow> json option \<Rightarrow> Backend \<Rightarrow> 'p App \<Rightarrow> http_response option" where
  "v2_refusal w i namespace toolName justification b a =
     (let db = st_db (app_store a);
          tools = (case Store_GetBackendCapabilities (unmarshal_tools (w_json w)) namespace db of Inl _ \<Rightarrow> [] | Inr c \<Rightarrow> bp_Tools c)
      in if be_SelfReporting b \<and>
            (case Store_GetToolProfilesByBackend namespace db of Inl _ \<Rightarrow> True | Inr profiles \<Rightarrow> profiles = [])
         then Some (initializing i namespace)
         else if tools \<noteq> [] \<and> \<not> list_ex (tool_named toolName) tools then Some (unknown_tool i namespace toolName tools)
         else if \<not> be_SkipJustification b \<and> justification = Some (JStr [])
         then Some (missing_param ''justification'')
         else None)"

definition call_message :: "string \<Rightarrow> (string, json) gomap \<Rightarrow> json \<Rightarrow> json" where
  "call_message toolName args i = JObj [(''jsonrpc'', JStr ''2.0''), (''method'', JStr ''tools/call''),
     (''params'', JObj [(''name'', JStr toolName), (''arguments'', JObj args)]), (''id'', i)]"

text \<open>The answer of the backend with the client's identifier put back.\<close>

definition with_client_id :: "json_lib \<Rightarrow> json \<Rightarrow> string \<Rightarrow> string" where
  "with_client_id jl i response =
     (case jl_Unmarshal jl response of Inr (JObj m) \<Rightarrow> jl_Marshal jl (JObj (AList.update ''id'' i m)) | _ \<Rightarrow> response)"

text \<open>The second compaction's error is not looked at, so on failure the text compacted so far is sent; \<open>json.Marshal\<close>
  yields valid JSON, and compacting it does not fail. Decoding a response that is null leaves a nil map, to which the
  assignment of the identifier panics.\<close>

definition v2_send ::
    "'p world \<Rightarrow> (string \<times> string) list \<Rightarrow> string \<Rightarrow> string \<Rightarrow> string \<Rightarrow> (string, json) gomap \<Rightarrow> json \<Rightarrow> 'p App \<Rightarrow>
     (http_response \<times> 'p App) option" where
  "v2_send w hdrs userID namespace toolName args i a =
     (case getPoolForUser w userID namespace a of
        None \<Rightarrow> None
      | Some (None, a) \<Rightarrow> Some (http_error hdrs ''Failed to create pool for backend'' 500, a)
      | Some (Some key, a) \<Rightarrow>
          (case acquire_warm w key a of
             None \<Rightarrow> None
           | Some (Inl err, a) \<Rightarrow>
               Some (\<lparr>hr_status = 503, hr_headers = hdrs @ [content_json, close_conn],
                 hr_body = Encoded (rpc_error i (error_fields (-32003) (w_errtext w err)))\<rparr>, a)
           | Some (Inr proc, a) \<Rightarrow>
               (let reqID = ''v2-'' @ itoa (w_now w);
                    line = compact_line w (jl_Marshal (w_json w) (call_message toolName args (JStr reqID)))
                in case send_request w key reqID (60 * second) line a of
                     None \<Rightarrow> None
                   | Some (ev, a) \<Rightarrow>
                       (case answered ev of
                          Some data \<Rightarrow>
                            if jl_Unmarshal (w_json w) data = Inr JNull then None
                            else map_option (Pair \<lparr>hr_status = 200, hr_headers = hdrs @ [content_json, close_conn],
                                   hr_body = Raw (with_client_id (w_json w) i data)\<rparr>) (release_proc key proc a)
                        | None \<Rightarrow>
                            if ev = TimerFired
                            then map_option (Pair (http_error hdrs ''Timeout waiting for backend'' 504))
                                   (release_proc key proc (kill_proc key proc a))
                            else map_option (Pair (http_error hdrs ''Empty response from backend'' 500)) (release_proc key proc a)))))"

definition v2toolCall ::
    "'p world \<Rightarrow> string \<Rightarrow> (string, json) gomap \<Rightarrow> json \<Rightarrow> 'p App \<Rightarrow> (http_response \<times> 'p App) option" where
  "v2toolCall w userID params i a =
     (let namespace = string_or_empty (map_of params ''namespace''); toolName = string_or_empty (map_of params ''tool'')
      in if namespace = [] then Some (missing_param ''namespace'', a)
         else if toolName = [] then Some (missing_param ''tool'', a)
         else case ParseArgsMap (w_json w) (map_of params ''params'') of
                Inl err \<Rightarrow> Some (invalid_params w i namespace toolName (map_of params ''params'') err, a)
              | Inr args \<Rightarrow>
                  (let not_found = http_error [] (''Backend '' @ namespace @ '' not found or disabled'') 404
                   in case app_GetBackend w namespace a of
                        (Inl _, a) \<Rightarrow> Some (not_found, a)
                      | (Inr b, a) \<Rightarrow>
                          if \<not> be_Enabled b then Some (not_found, a)
                          else case v2_refusal w i namespace toolName (map_of params ''justification'') b a of
                                 Some r \<Rightarrow> Some (r, a)
                               | None \<Rightarrow>
                                   (let c = \<lparr>tc_tool = toolName, tc_args = args,
                                          tc_justification = string_or_empty (map_of params ''justification''),
                                          tc_body = jl_Marshal (w_json w) (call_message toolName args i)\<rparr>
                                    in case check_call w (v2_style i toolName namespace) userID namespace (be_SkipJustification b) c
                                             (tc_body c) a of
                                         (Answer r, a) \<Rightarrow> Some (r, a)
                                       | (Proceed hdrs, a) \<Rightarrow> v2_send w hdrs userID namespace toolName args i a)))"

end
