(* ===== verification/BridgeCalls.thy ===== *)
theory BridgeCalls
  imports Bridge
begin

text \<open>
  What the three gateways do with a call: which calls reach a process, whose processes they reach, and what is
  kept of a call that waits for approval. The contract the gateways share is the locale \<open>call_gateway\<close>: a check that
  touches no process comes first and either answers the call or lets it run.
\<close>

section \<open>The contract of a gateway\<close>

locale call_gateway =
  fixes handle :: "'p App \<Rightarrow> (http_response \<times> 'p App) option"
    and check :: "'p App \<Rightarrow> (http_response + 'r) \<times> 'p App"
    and run :: "'r \<Rightarrow> 'p App \<Rightarrow> (http_response \<times> 'p App) option"
    and user :: string
  assumes handle_eq: "handle a = (case check a of (Inl r, a1) \<Rightarrow> Some (r, a1) | (Inr x, a1) \<Rightarrow> run x a1)"
    and check_silent: "check a = (v, a1) \<Longrightarrow> silent a a1"
    and run_sends: "run x a = Some (r, a') \<Longrightarrow> sends user a a'"
begin

lemma answered_silent: "check a = (Inl r, a1) \<Longrightarrow> handle a = Some (r, a1) \<and> silent a a1"
  using handle_eq [of a] check_silent [of a "Inl r" a1] by simp

lemma handle_sends: "handle a = Some (r, a') \<Longrightarrow> sends user a a'"
  using handle_eq [of a] check_silent [of a]
  by (auto intro: silent_sends sends_after_silent [OF _ run_sends] split: prod.splits sum.splits)

lemma sent_was_checked:
  "handle a = Some (r, a') \<Longrightarrow> app_sent a' \<noteq> app_sent a \<Longrightarrow> \<exists>x a1. check a = (Inr x, a1) \<and> run x a1 = Some (r, a')"
  using handle_eq [of a] check_silent [of a] by (auto simp: silent_def split: prod.splits sum.splits)

end

fun verdict_sum :: "verdict \<Rightarrow> http_response + (string \<times> string) list" where
  "verdict_sum (Answer r) = Inl r"
| "verdict_sum (Proceed hdrs) = Inr hdrs"

text \<open>The part of each handler before the call runs: the answer, or the headers, the backend and the body.\<close>

definition bridge_check ::
    "'p world \<Rightarrow> string \<Rightarrow> string \<Rightarrow> json \<Rightarrow> 'p App \<Rightarrow> (http_response + (string \<times> string) list \<times> string \<times> string) \<times> 'p App" where
  "bridge_check w u body i a =
     (case parse_call (w_json w) body of
        Inl problem \<Rightarrow> (Inl (invalid_arguments w i problem), a)
      | Inr c \<Rightarrow>
          (let (b, a) = backend_of_tool w (tc_tool c) a; (skip, a) = backend_skip w b a;
               (v, a) = check_call w (bridge_style w i (tc_tool c) b) u b skip c (tc_body c) a
           in (map_sum id (\<lambda>hdrs. (hdrs, b, tc_body c)) (verdict_sum v), a)))"

definition legacy_check ::
    "'p world \<Rightarrow> string \<Rightarrow> string \<Rightarrow> json \<Rightarrow> 'p App \<Rightarrow> (http_response + (string \<times> string) list \<times> string \<times> string) \<times> 'p App" where
  "legacy_check w u body i a =
     (let c = legacy_call (w_json w) body
      in if HasPrefix (tc_tool c) ''mcpbridge_''
         then (let (result, a) = legacy_system_tool w u (tc_tool c) a in (Inl (text_result i result), a))
         else (let (b, a) = backend_of_tool w (tc_tool c) a; (skip, a) = backend_skip w b a;
                   (v, a) = check_call w (legacy_style i) u b skip c [] a
               in (map_sum id (\<lambda>hdrs. (hdrs, b, body)) (verdict_sum v), a)))"

lemma silent_checked:
  assumes "backend_of_tool w t a = (b, a1)" and "backend_skip w b a1 = (s, a2)" and "check_call w st u b s c body a2 = (v, a3)"
  shows "silent a a3"
  using silent_backend_of_tool [OF assms(1)] silent_backend_skip [OF assms(2)] silent_check_call [OF assms(3)] silent_trans by metis

lemma silent_system_tool: "legacy_system_tool w u t a = (r, a') \<Longrightarrow> silent a a'"
  by (auto simp: legacy_system_tool_def handleListBackendsTool_def legacy_capabilities_def Let_def dest: silent_store_ops
      split: if_splits prod.splits sum.splits)

interpretation bridge: call_gateway "MCPBridgeServer_handleToolsCall w u body i" "bridge_check w u body i"
    "\<lambda>(hdrs, b, body'). route_call w hdrs u b body'" u for w u body i
proof unfold_locales
  show "MCPBridgeServer_handleToolsCall w u body i a =
      (case bridge_check w u body i a of (Inl r, a1) \<Rightarrow> Some (r, a1) | (Inr x, a1) \<Rightarrow> (case x of (hdrs, b, body') \<Rightarrow> route_call w hdrs u b body') a1)"
    for a
    by (auto simp: MCPBridgeServer_handleToolsCall_def bridge_check_def Let_def split: sum.splits prod.splits verdict.splits)
  show "silent a a1" if "bridge_check w u body i a = (v, a1)" for a v a1
    using that silent_checked by (auto simp: bridge_check_def Let_def split: sum.splits prod.splits)
qed (auto dest: route_sends)

interpretation legacy: call_gateway "handleToolsCall w u body i" "legacy_check w u body i"
    "\<lambda>(hdrs, b, body'). route_call w hdrs u b body'" u for w u body i
proof unfold_locales
  show "handleToolsCall w u body i a =
      (case legacy_check w u body i a of (Inl r, a1) \<Rightarrow> Some (r, a1) | (Inr x, a1) \<Rightarrow> (case x of (hdrs, b, body') \<Rightarrow> route_call w hdrs u b body') a1)"
    for a
    by (auto simp: handleToolsCall_def legacy_check_def Let_def split: sum.splits prod.splits verdict.splits)
  show "silent a a1" if "legacy_check w u body i a = (v, a1)" for a v a1
    using that silent_checked silent_system_tool by (auto simp: legacy_check_def Let_def split: if_splits prod.splits)
qed (auto dest: route_sends)

definition v2_check ::
    "'p world \<Rightarrow> string \<Rightarrow> (string, json) gomap \<Rightarrow> json \<Rightarrow> 'p App \<Rightarrow>
     (http_response + (string \<times> string) list \<times> string \<times> string \<times> (string, json) gomap) \<times> 'p App" where
  "v2_check w u params i a =
     (let ns = string_or_empty (map_of params ''namespace''); t = string_or_empty (map_of params ''tool'')
      in if ns = [] then (Inl (missing_param ''namespace''), a) else if t = [] then (Inl (missing_param ''tool''), a)
         else case ParseArgsMap (w_json w) (map_of params ''params'') of
                Inl err \<Rightarrow> (Inl (invalid_params w i ns t (map_of params ''params'') err), a)
              | Inr args \<Rightarrow>
                  (let not_found = http_error [] (''Backend '' @ ns @ '' not found or disabled'') 404
                   in case app_GetBackend w ns a of
                        (Inl _, a) \<Rightarrow> (Inl not_found, a)
                      | (Inr b, a) \<Rightarrow>
                          if \<not> be_Enabled b then (Inl not_found, a)
                          else case v2_refusal w i ns t (map_of params ''justification'') b a of
                                 Some r \<Rightarrow> (Inl r, a)
                               | None \<Rightarrow>
                                   (let c = \<lparr>tc_tool = t, tc_args = args,
                                          tc_justification = string_or_empty (map_of params ''justification''),
                                          tc_body = jl_Marshal (w_json w) (call_message t args i)\<rparr>;
                                        (v, a) = check_call w (v2_style i t ns) u ns (be_SkipJustification b) c (tc_body c) a
                                    in (map_sum id (\<lambda>hdrs. (hdrs, ns, t, args)) (verdict_sum v), a))))"

lemma v2_send_sends:
  assumes "v2_send w hdrs u ns t args i a = Some (r, a')" shows "sends u a a'"
proof -
  have "getPoolForUser w u ns a \<noteq> None" using assms by (cases "getPoolForUser w u ns a") (simp_all add: v2_send_def)
  then obtain k a1 where g: "getPoolForUser w u ns a = Some (k, a1)" by (metis option.exhaust prod.exhaust)
  note sent1 = getPoolForUser_key(1) [OF g]
  show ?thesis
  proof (cases k)
    case None
    with assms g sent1 show ?thesis by (simp add: v2_send_def sends_def)
  next
    case (Some key)
    note key = getPoolForUser_key(2) [OF g Some]
    have "acquire_warm w key a1 \<noteq> None" using assms g Some by (cases "acquire_warm w key a1") (simp_all add: v2_send_def)
    then obtain q a2 where acq: "acquire_warm w key a1 = Some (q, a2)" by (metis option.exhaust prod.exhaust)
    note sent2 = acquire_sent [OF acq]
    show ?thesis
    proof (cases q)
      case (Inl err)
      with assms g Some acq sent1 sent2 show ?thesis by (simp add: v2_send_def sends_def)
    next
      case (Inr proc)
      let ?id = "''v2-'' @ itoa (w_now w)"
      let ?line = "compact_line w (jl_Marshal (w_json w) (call_message t args (JStr ?id)))"
      from assms g Some acq Inr obtain ev a3 where s: "send_request w key ?id (60 * second) ?line a2 = Some (ev, a3)"
        by (auto simp: v2_send_def Let_def split: option.splits)
      from assms g Some acq Inr s have "app_sent a' = app_sent a3"
        by (auto simp: v2_send_def Let_def dest!: release_sent split: option.splits if_splits)
      then show ?thesis using send_request_sent [OF s] sent1 sent2 key by (auto simp: sends_def compact_line_def)
    qed
  qed
qed

interpretation v2: call_gateway "v2toolCall w u params i" "v2_check w u params i"
    "\<lambda>(hdrs, ns, t, args). v2_send w hdrs u ns t args i" u for w u params i
proof unfold_locales
  show "v2toolCall w u params i a =
      (case v2_check w u params i a of (Inl r, a1) \<Rightarrow> Some (r, a1)
       | (Inr x, a1) \<Rightarrow> (case x of (hdrs, ns, t, args) \<Rightarrow> v2_send w hdrs u ns t args i) a1)" for a
    by (auto simp: v2toolCall_def v2_check_def Let_def split: sum.splits prod.splits verdict.splits option.splits)
  show "silent a a1" if "v2_check w u params i a = (v, a1)" for a v a1
    using that
    by (auto simp: v2_check_def Let_def dest!: silent_check_call dest: silent_store_ops intro: silent_trans [OF silent_store_ops(1)]
        split: if_splits sum.splits prod.splits option.splits)
qed (auto dest: v2_send_sends)

section \<open>Which calls reach a process\<close>

text \<open>The three handlers as one: how each reads a call before it asks the enforcer, its style of answers, and the body it would queue. \<open>asked\<close> is
  the call, the backend, whether the justification is waived, and the application at that moment; \<open>None\<close> when the handler answers
  without asking.\<close>

datatype endpoint = AtBridge string | AtLegacy string | AtV2 "(string, json) gomap"

fun serve_call :: "'p world \<Rightarrow> endpoint \<Rightarrow> string \<Rightarrow> json \<Rightarrow> 'p App \<Rightarrow> (http_response \<times> 'p App) option" where
  "serve_call w (AtBridge body) u i a = MCPBridgeServer_handleToolsCall w u body i a"
| "serve_call w (AtLegacy body) u i a = handleToolsCall w u body i a"
| "serve_call w (AtV2 params) u i a = v2toolCall w u params i a"

fun asked :: "'p world \<Rightarrow> endpoint \<Rightarrow> json \<Rightarrow> 'p App \<Rightarrow> (tool_call \<times> string \<times> bool \<times> 'p App) option" where
  "asked w (AtBridge body) i a =
     (case parse_call (w_json w) body of
        Inl _ \<Rightarrow> None
      | Inr c \<Rightarrow> (let (b, a) = backend_of_tool w (tc_tool c) a; (skip, a) = backend_skip w b a in Some (c, b, skip, a)))"
| "asked w (AtLegacy body) i a =
     (let c = legacy_call (w_json w) body
      in if HasPrefix (tc_tool c) ''mcpbridge_'' then None
         else (let (b, a) = backend_of_tool w (tc_tool c) a; (skip, a) = backend_skip w b a in Some (c, b, skip, a)))"
| "asked w (AtV2 params) i a =
     (let ns = string_or_empty (map_of params ''namespace''); t = string_or_empty (map_of params ''tool'')
      in if ns = [] \<or> t = [] then None
         else case ParseArgsMap (w_json w) (map_of params ''params'') of
                Inl _ \<Rightarrow> None
              | Inr args \<Rightarrow>
                  (case app_GetBackend w ns a of
                     (Inl _, a) \<Rightarrow> None
                   | (Inr b, a) \<Rightarrow>
                       if \<not> be_Enabled b \<or> v2_refusal w i ns t (map_of params ''justification'') b a \<noteq> None then None
                       else Some (\<lparr>tc_tool = t, tc_args = args, tc_justification = string_or_empty (map_of params ''justification''),
                                   tc_body = jl_Marshal (w_json w) (call_message t args i)\<rparr>, ns, be_SkipJustification b, a)))"

fun style_of :: "'p world \<Rightarrow> endpoint \<Rightarrow> json \<Rightarrow> tool_call \<Rightarrow> string \<Rightarrow> reply_style" where
  "style_of w (AtBridge _) i c b = bridge_style w i (tc_tool c) b"
| "style_of w (AtLegacy _) i c b = legacy_style i"
| "style_of w (AtV2 _) i c b = v2_style i (tc_tool c) b"

fun queued_body :: "endpoint \<Rightarrow> tool_call \<Rightarrow> string" where
  "queued_body (AtLegacy _) c = []"
| "queued_body _ c = tc_body c"

lemma answered_at_once:
  assumes "asked w ep i a = Some (c, b, skip, a2)" and "check_call w (style_of w ep i c b) u b skip c (queued_body ep c) a2 = (Answer r, a')"
  shows "serve_call w ep u i a = Some (r, a') \<and> silent a a'"
proof (cases ep)
  case (AtBridge body)
  have "bridge_check w u body i a = (Inl r, a')"
    using assms unfolding AtBridge by (auto simp: bridge_check_def split: sum.splits prod.splits)
  then show ?thesis using bridge.answered_silent AtBridge by simp
next
  case (AtLegacy body)
  have "legacy_check w u body i a = (Inl r, a')"
    using assms unfolding AtLegacy by (auto simp: legacy_check_def Let_def split: if_splits prod.splits)
  then show ?thesis using legacy.answered_silent AtLegacy by simp
next
  case (AtV2 params)
  have "v2_check w u params i a = (Inl r, a')"
    using assms unfolding AtV2 by (auto simp: v2_check_def Let_def split: if_splits sum.splits prod.splits option.splits)
  then show ?thesis using v2.answered_silent AtV2 by simp
qed

definition stops :: "Action \<Rightarrow> bool" where
  "stops action \<longleftrightarrow> action \<in> {ActionDeny, ActionPendingApproval, ActionPendingAdminApproval, ActionPendingUserApproval}"

text \<open>The enforcer's decision on a call, given the application when it is asked.\<close>

definition decision_on ::
    "'p world \<Rightarrow> string \<Rightarrow> string \<Rightarrow> bool \<Rightarrow> tool_call \<Rightarrow> 'p Enforcer \<Rightarrow> 'p App \<Rightarrow> EnforcerDecision \<times> goerr option" where
  "decision_on w u b skip c e a = fst (HandleToolCall (w_env w) u (tc_tool c) (tc_args c) b (tc_justification c)
     \<lparr>co_SkipJustification = skip\<rparr> (e\<lparr>ef_store := st_db (app_store a)\<rparr>))"

lemma with_enforcer_fst: "fst (with_enforcer f e a) = fst (f (e\<lparr>ef_store := st_db (app_store a)\<rparr>))"
  by (simp add: with_enforcer_def Let_def split: prod.splits)

lemma queue_answers: "\<exists>r a'. queue_call w style ctx d q e a = (Answer r, a')"
  using silent_queue_call [of w style ctx d q e a] by (metis prod.exhaust)

lemma judge_stops:
  assumes "decision_on w u b skip c e a = (d, err)" and "stops (ed_Action d)"
  shows "\<exists>r a'. judge w style u b skip c body e a = (Answer r, a')"
proof -
  obtain a1 where h: "with_enforcer (HandleToolCall (w_env w) u (tc_tool c) (tc_args c) b (tc_justification c)
      \<lparr>co_SkipJustification = skip\<rparr>) e a = ((d, err), a1)"
    using assms(1) with_enforcer_fst unfolding decision_on_def by (metis fst_conv surj_pair)
  show ?thesis
    using assms(2) queue_answers unfolding judge_def h by (auto simp: Let_def stops_def)
qed

lemma judge_denies:
  assumes "decision_on w u b skip c e a = (d, err)" and "ed_Action d = ActionDeny"
  shows "\<exists>a'. judge w style u b skip c body e a = (Answer (ry_denied style d), a')"
proof -
  obtain a1 where h: "with_enforcer (HandleToolCall (w_env w) u (tc_tool c) (tc_args c) b (tc_justification c)
      \<lparr>co_SkipJustification = skip\<rparr>) e a = ((d, err), a1)"
    using assms(1) with_enforcer_fst unfolding decision_on_def by (metis fst_conv surj_pair)
  show ?thesis using assms(2) unfolding judge_def h by (auto simp: Let_def)
qed

text \<open>C4: A call that the enforcer, when asked, denies or sends to an approver never reaches a process: each of the three endpoints for tool calls
  answers it at once, nothing is written to any process and no pool changes, and a denied call gets the endpoint's
  refusal with the message of the decision.\<close>

theorem stopped_call_not_sent:
  assumes "asked w ep i a = Some (c, b, skip, a2)" and "guarded (tc_tool c)" and "app_enforcer a2 = Some e"
    and "decision_on w u b skip c e a2 = (d, err)" and "stops (ed_Action d)"
  shows "\<exists>r a'. serve_call w ep u i a = Some (r, a') \<and> app_sent a' = app_sent a \<and> app_pools a' = app_pools a \<and>
    (ed_Action d = ActionDeny \<longrightarrow> r = ry_denied (style_of w ep i c b) d)"
proof -
  let ?style = "style_of w ep i c b"
  obtain r a' where j: "judge w ?style u b skip c (queued_body ep c) e a2 = (Answer r, a')" using judge_stops [OF assms(4,5)] by blast
  then have "check_call w ?style u b skip c (queued_body ep c) a2 = (Answer r, a')" using assms(2,3) by (simp add: check_call_def)
  moreover have "r = ry_denied ?style d" if "ed_Action d = ActionDeny"
    using judge_denies [OF assms(4) that, of ?style "queued_body ep c"] j by auto
  ultimately show ?thesis using answered_at_once [OF assms(1)] by (auto simp: silent_def)
qed

text \<open>Whatever a gateway writes for a user goes to that user's own processes: each of the three handlers of tool calls
  writes at most one line, ended by a newline, and only to a pool filed under the calling user, whether the call was
  routed by its prefix, fell back to the default backend, or named its namespace.\<close>

theorem calls_stay_with_user:
  assumes "MCPBridgeServer_handleToolsCall w u body i a = Some (r, a') \<or> handleToolsCall w u body i a = Some (r, a') \<or>
    v2toolCall w u params i a = Some (r, a')"
  shows "sends u a a'"
  using assms bridge.handle_sends legacy.handle_sends v2.handle_sends by metis

section \<open>Calls that wait for approval\<close>

definition queue_of :: "Action \<Rightarrow> string" where
  "queue_of action = (if action = ActionPendingUserApproval then ''user'' else ''admin'')"

text \<open>The row that a request for approval stores; the match context is not written.\<close>

lemma request_row:
  assumes "fault_free (ef_store e)" and "dc_UserID ctx \<in> us_ID ` set (db_users (ef_store e))"
    and "db_ids (ef_store e) (db_next (ef_store e)) \<notin> aq_ID ` set (db_approvals (ef_store e))"
  shows "\<exists>i e'. RequestApproval env ctx pol msg q mc e = (Inr i, e') \<and>
    db_approvals (ef_store e') = db_approvals (ef_store e) @ [(approval_row env (ef_config e) i ctx pol msg q mc)\<lparr>aq_MatchContext := []\<rparr>]"
  using assms by (simp add: RequestApproval_def generateID_def ES_CreateApprovalRequest_def insert_row_def approval_row_def)

lemma judge_queues:
  assumes h: "HandleToolCall (w_env w) u (tc_tool c) (tc_args c) b (tc_justification c) \<lparr>co_SkipJustification = skip\<rparr>
      (e\<lparr>ef_store := st_db (app_store a)\<rparr>) = ((d, err), e1)"
    and act: "stops (ed_Action d)" "ed_Action d \<noteq> ActionDeny"
    and db: "fault_free (ef_store e1)" "u \<in> us_ID ` set (db_users (ef_store e1))"
      "db_ids (ef_store e1) (db_next (ef_store e1)) \<notin> aq_ID ` set (db_approvals (ef_store e1))"
  shows "\<exists>i a' row. judge w style u b skip c body e a = (Answer (ry_pending style d (queue_of (ed_Action d)) i), a') \<and>
    db_approvals (st_db (app_store a')) = db_approvals (ef_store e1) @ [row] \<and> aq_ID row = i \<and> aq_Status row = ''PENDING'' \<and>
    aq_QueueType row = queue_of (ed_Action d) \<and> aq_UserID row = u \<and> aq_BackendID row = b \<and> aq_ToolName row = tc_tool c \<and>
    aq_RequestBody row = body \<and> map_option ef_rateLimit (app_enforcer a') = Some (ef_rateLimit e1)"
proof -
  let ?a = "a\<lparr>app_enforcer := Some e1, app_store := (app_store a)\<lparr>st_db := ef_store e1\<rparr>\<rparr>"
  let ?ctx = "approval_context u b c body" and ?q = "queue_of (ed_Action d)"
  have w: "with_enforcer (HandleToolCall (w_env w) u (tc_tool c) (tc_args c) b (tc_justification c)
      \<lparr>co_SkipJustification = skip\<rparr>) e a = ((d, err), ?a)" by (simp add: with_enforcer_def h)
  have j: "judge w style u b skip c body e a = queue_call w style ?ctx d ?q e1 ?a"
    using act unfolding judge_def w by (auto simp: Let_def stops_def queue_of_def)
  have "dc_UserID ?ctx \<in> us_ID ` set (db_users (ef_store (e1\<lparr>ef_store := st_db (app_store ?a)\<rparr>)))"
    using db(2) by (simp add: approval_context_def)
  with db obtain i e' where r: "RequestApproval (w_env w) ?ctx (ed_PolicyID d) (ed_Message d) ?q MatchContextPolicyHit
        (e1\<lparr>ef_store := st_db (app_store ?a)\<rparr>) = (Inr i, e')"
      "db_approvals (ef_store e') = db_approvals (ef_store e1) @
        [(approval_row (w_env w) (ef_config e1) i ?ctx (ed_PolicyID d) (ed_Message d) ?q MatchContextPolicyHit)\<lparr>aq_MatchContext := []\<rparr>]"
    using request_row [of "e1\<lparr>ef_store := st_db (app_store ?a)\<rparr>" ?ctx "w_env w" "ed_PolicyID d" "ed_Message d" ?q MatchContextPolicyHit]
    by auto
  then have "ef_rateLimit e' = ef_rateLimit e1"
    by (auto simp: RequestApproval_def generateID_def Let_def split: sum.splits prod.splits)
  show ?thesis
    unfolding j queue_call_def with_enforcer_def r(1)
    by (simp add: r(2) approval_row_def approval_context_def \<open>ef_rateLimit e' = ef_rateLimit e1\<close>)
qed

lemma queued_call:
  assumes "asked w ep i a = Some (c, b, skip, a2)" and "guarded (tc_tool c)" and "app_enforcer a2 = Some e"
    and "HandleToolCall (w_env w) u (tc_tool c) (tc_args c) b (tc_justification c) \<lparr>co_SkipJustification = skip\<rparr>
      (e\<lparr>ef_store := st_db (app_store a2)\<rparr>) = ((d, err), e1)"
    and "stops (ed_Action d)" and "ed_Action d \<noteq> ActionDeny"
    and "fault_free (ef_store e1)" and "u \<in> us_ID ` set (db_users (ef_store e1))"
    and "db_ids (ef_store e1) (db_next (ef_store e1)) \<notin> aq_ID ` set (db_approvals (ef_store e1))"
  shows "\<exists>a' row. serve_call w ep u i a = Some (ry_pending (style_of w ep i c b) d (queue_of (ed_Action d)) (aq_ID row), a') \<and> silent a a' \<and>
    db_approvals (st_db (app_store a')) = db_approvals (ef_store e1) @ [row] \<and>
    aq_Status row = ''PENDING'' \<and> aq_QueueType row = queue_of (ed_Action d) \<and> aq_UserID row = u \<and> aq_BackendID row = b \<and>
    aq_ToolName row = tc_tool c \<and> aq_RequestBody row = queued_body ep c \<and>
    map_option ef_rateLimit (app_enforcer a') = Some (ef_rateLimit e1)"
proof -
  let ?style = "style_of w ep i c b"
  obtain n a' row where j: "judge w ?style u b skip c (queued_body ep c) e a2 = (Answer (ry_pending ?style d (queue_of (ed_Action d)) n), a')"
      "db_approvals (st_db (app_store a')) = db_approvals (ef_store e1) @ [row]" "aq_ID row = n" "aq_Status row = ''PENDING''"
      "aq_QueueType row = queue_of (ed_Action d)" "aq_UserID row = u" "aq_BackendID row = b" "aq_ToolName row = tc_tool c"
      "aq_RequestBody row = queued_body ep c" "map_option ef_rateLimit (app_enforcer a') = Some (ef_rateLimit e1)"
    using judge_queues [OF assms(4-9), of ?style "queued_body ep c"] by blast
  have "check_call w ?style u b skip c (queued_body ep c) a2 = (Answer (ry_pending ?style d (queue_of (ed_Action d)) n), a')"
    using assms(2,3) j(1) by (simp add: check_call_def)
  from answered_at_once [OF assms(1) this] j show ?thesis by auto
qed

text \<open>C5: A call that waits for approval is kept: on the bridge endpoint and on the namespaced one, when the statements of the database succeed, the
  user is known and the identifier drawn is new, the reply names the identifier of the one row that is added to the table of approvals, and that row holds the user, the backend, the tool,
  the queue that matches the decision, and the body the endpoint made of the call.\<close>

theorem queued_call_replayable:
  assumes "asked w ep i a = Some (c, b, skip, a2)" and "\<not> (\<exists>body. ep = AtLegacy body)" and "guarded (tc_tool c)" and "app_enforcer a2 = Some e"
    and "HandleToolCall (w_env w) u (tc_tool c) (tc_args c) b (tc_justification c) \<lparr>co_SkipJustification = skip\<rparr>
      (e\<lparr>ef_store := st_db (app_store a2)\<rparr>) = ((d, err), e1)"
    and "stops (ed_Action d)" and "ed_Action d \<noteq> ActionDeny"
    and "fault_free (ef_store e1)" and "u \<in> us_ID ` set (db_users (ef_store e1))"
    and "db_ids (ef_store e1) (db_next (ef_store e1)) \<notin> aq_ID ` set (db_approvals (ef_store e1))"
  shows "\<exists>a' row. serve_call w ep u i a = Some (ry_pending (style_of w ep i c b) d (aq_QueueType row) (aq_ID row), a') \<and>
    db_approvals (st_db (app_store a')) = db_approvals (ef_store e1) @ [row] \<and>
    aq_Status row = ''PENDING'' \<and> aq_QueueType row = queue_of (ed_Action d) \<and> aq_UserID row = u \<and> aq_BackendID row = b \<and>
    aq_ToolName row = tc_tool c \<and> aq_RequestBody row = tc_body c"
proof -
  have "queued_body ep c = tc_body c" using assms(2) by (cases ep) auto
  with queued_call [OF assms(1,3-10)] show ?thesis by metis
qed

text \<open>The older handler passes no body: what it stores cannot be replayed.\<close>

lemma legacy_queue_loses_body:
  assumes "asked w (AtLegacy body) i a = Some (c, b, skip, a2)" and "guarded (tc_tool c)" and "app_enforcer a2 = Some e"
    and "HandleToolCall (w_env w) u (tc_tool c) (tc_args c) b (tc_justification c) \<lparr>co_SkipJustification = skip\<rparr>
      (e\<lparr>ef_store := st_db (app_store a2)\<rparr>) = ((d, err), e1)"
    and "stops (ed_Action d)" and "ed_Action d \<noteq> ActionDeny"
    and "fault_free (ef_store e1)" and "u \<in> us_ID ` set (db_users (ef_store e1))"
    and "db_ids (ef_store e1) (db_next (ef_store e1)) \<notin> aq_ID ` set (db_approvals (ef_store e1))"
  shows "\<exists>r a' row. handleToolsCall w u body i a = Some (r, a') \<and>
    db_approvals (st_db (app_store a')) = db_approvals (ef_store e1) @ [row] \<and> aq_RequestBody row = []"
  using queued_call [OF assms] by auto

section \<open>Calls that are not checked\<close>

lemma judge_killed:
  assumes "justification_gate (ef_config e) \<lparr>co_SkipJustification = skip\<rparr> (tc_justification c) = None"
    and "isKillSwitchActive b (e\<lparr>ef_store := st_db (app_store a)\<rparr>)"
  shows "\<exists>ts. judge w style u b skip c body e a = (Proceed [],
    a\<lparr>app_enforcer := Some (e\<lparr>ef_store := (st_db (app_store a))\<lparr>db_rate_buckets := ts\<rparr>\<rparr>),
      app_store := (app_store a)\<lparr>st_db := (st_db (app_store a))\<lparr>db_rate_buckets := ts\<rparr>\<rparr>\<rparr>)"
proof -
  obtain ts where k: "HandleToolCall (w_env w) u (tc_tool c) (tc_args c) b (tc_justification c) \<lparr>co_SkipJustification = skip\<rparr>
      (e\<lparr>ef_store := st_db (app_store a)\<rparr>) = ((zeroDecision, Some ErrKillSwitchActive),
        e\<lparr>ef_store := (st_db (app_store a))\<lparr>db_rate_buckets := ts\<rparr>\<rparr>)"
    using handle_killed [of "e\<lparr>ef_store := st_db (app_store a)\<rparr>" "\<lparr>co_SkipJustification = skip\<rparr>" "tc_justification c" b
        "w_env w" u "tc_tool c" "tc_args c"] assms by auto
  show ?thesis unfolding judge_def with_enforcer_def k by (auto simp: zeroDecision_def)
qed

text \<open>C31: The kill switch does not stop calls at the gateway: with the switch of a backend on, the enforcer reports an error without an action, the
  bridge only logs it, and the call is routed as if it had been allowed, with nothing but the count of calls changed. A call with too short a justification is
  refused before the switch is looked at, so this needs a call that passes that gate.\<close>

theorem kill_switch_fails_open:
  assumes "parse_call (w_json w) body = Inr c" and "guarded (tc_tool c)"
    and "backend_of_tool w (tc_tool c) a = (b, a1)" and "backend_skip w b a1 = (skip, a2)" and "app_enforcer a2 = Some e"
    and "justification_gate (ef_config e) \<lparr>co_SkipJustification = skip\<rparr> (tc_justification c) = None"
    and "isKillSwitchActive b (e\<lparr>ef_store := st_db (app_store a2)\<rparr>)"
  shows "\<exists>ts. MCPBridgeServer_handleToolsCall w u body i a = route_call w [] u b (tc_body c)
    (a2\<lparr>app_enforcer := Some (e\<lparr>ef_store := (st_db (app_store a2))\<lparr>db_rate_buckets := ts\<rparr>\<rparr>),
        app_store := (app_store a2)\<lparr>st_db := (st_db (app_store a2))\<lparr>db_rate_buckets := ts\<rparr>\<rparr>\<rparr>)"
  using judge_killed [OF assms(6,7), of w "bridge_style w i (tc_tool c) b" u "tc_body c"] assms(1-5)
  by (auto simp: MCPBridgeServer_handleToolsCall_def check_call_def)

text \<open>A call whose tool name the bridge does not find under the exact key is not checked at all: no policy, kill switch, rate limit or
  justification is looked at, whatever the enforcer, and the muxer, which also reads the name in any letter case and from the
  older list of tools, still routes it.\<close>

theorem unnamed_call_unchecked:
  assumes "parse_call (w_json w) body = Inr c" and "tc_tool c = []"
  shows "MCPBridgeServer_handleToolsCall w u body i a = route_call w [] u [] (tc_body c) a"
  using assms by (simp add: MCPBridgeServer_handleToolsCall_def backend_of_tool_def backend_skip_def check_call_def guarded_def split: option.splits)

section \<open>Answers that do not come\<close>

text \<open>A registered request expires after thirty seconds, so a wait of sixty never ends by its own timer.\<close>

lemma registration_expires_first:
  assumes "0 \<le> w_lag w" and "send_request w k i (60 * second) line a = Some (ev, a')"
  shows "ev \<noteq> TimerFired" and "w_answer w i = None \<Longrightarrow> ev = ChanClosed"
  using assms
  by (auto simp: send_request_def await_response_def requestTimeout_def second_def millisecond_def Let_def split: option.splits if_splits)

lemma acquired_pool: "acquire_warm w k a = Some (r, a') \<Longrightarrow> \<exists>p. pool_at k a' = Some p"
  by (auto simp: acquire_warm_def pool_at_def set_pool_def put_pool_def gomap_simps split: option.splits)

text \<open>A slow backend is never reported as slow: the registration of a request expires before the handler's own time limit, so when a process
  does not answer, the handler finds its channel closed, tells the client that the backend crashed, and kills the process; the
  reply for a time-out is never sent.\<close>

theorem silence_taken_for_crash:
  assumes "acquire_warm w k a = Some (Inr proc, a1)" and "request_line w body = Some (i, line)" and "w_answer w i = None" and "0 \<le> w_lag w"
  shows "\<exists>a2. relay w (call_style w b hdrs) hdrs k body a = Some (\<lparr>hr_status = 503, hr_headers = hdrs,
      hr_body = Raw (error_text (-32004) (''Backend '' @ b @ '' process crashed during request, please retry''))\<rparr>, kill_proc k proc a2) \<and>
    app_sent a2 = app_sent a1 @ [(k, line)]"
proof -
  obtain p where "pool_at k a1 = Some p" using acquired_pool [OF assms(1)] by blast
  then obtain ev a2 where s: "send_request w k i (60 * second) line a1 = Some (ev, a2)" by (simp add: send_request_def)
  have "ev = ChanClosed" using registration_expires_first(2) [OF assms(4) s assms(3)] .
  then show ?thesis using assms(1,2) s send_request_sent [OF s] by (intro exI [of _ a2]) (simp add: relay_def call_style_def)
qed

text \<open>The namespaced endpoint puts a process that did not answer back among the warm ones.\<close>

lemma v2_silent_process_returned:
  assumes "getPoolForUser w u ns a = Some (Some k, a1)" and "acquire_warm w k a1 = Some (Inr proc, a2)" and "0 \<le> w_lag w"
    and "w_answer w (''v2-'' @ itoa (w_now w)) = None"
  shows "\<exists>a3. v2_send w hdrs u ns t args i a =
    map_option (Pair (http_error hdrs ''Empty response from backend'' 500)) (release_proc k proc a3)"
proof -
  obtain p where "pool_at k a2 = Some p" using acquired_pool [OF assms(2)] by blast
  then obtain ev a3 where s: "send_request w k (''v2-'' @ itoa (w_now w)) (60 * second)
      (compact_line w (jl_Marshal (w_json w) (call_message t args (JStr (''v2-'' @ itoa (w_now w)))))) a2 = Some (ev, a3)"
    by (simp add: send_request_def)
  have "ev = ChanClosed" using registration_expires_first(2) [OF assms(3) s assms(4)] .
  with assms(1,2) s show ?thesis by (auto simp: v2_send_def Let_def)
qed

section \<open>The body that is forwarded\<close>

lemma map_of_map_prod: "map_of (map (map_prod id f) m) k = map_option f (map_of m k)"
  by (induction m) auto

text \<open>C29: The justification among the arguments is for the bridge only: the call that the enforcer judges has the arguments without it, and the body
  passed on is the request with its arguments, decoded from a string where the client encoded them twice, without the justification and with every
  other argument's strings made clean; every other field of the request and of its parameters is kept, a justification beside the arguments included.\<close>

theorem justification_not_forwarded:
  assumes "parse_call jl body = Inr c" and "jl_Unmarshal jl body = Inr (JObj req)" and "map_of req ''params'' = Some (JObj params)"
  shows "\<exists>req' params' args args'. ParseArgsMap jl (map_of params ''arguments'') = Inr args \<and> tc_body c = jl_Marshal jl (JObj req') \<and>
    map_of req' ''params'' = Some (JObj params') \<and> (\<forall>k. k \<noteq> ''params'' \<longrightarrow> map_of req' k = map_of req k) \<and>
    map_of params' ''arguments'' = Some (JObj args') \<and> (\<forall>k. k \<noteq> ''arguments'' \<longrightarrow> map_of params' k = map_of params k) \<and>
    map_of args' ''justification'' = None \<and>
    (\<forall>k. k \<noteq> ''justification'' \<longrightarrow> map_of args' k = map_option (sanitiseStringArgs jl) (map_of args k)) \<and>
    map_of (tc_args c) ''justification'' = None \<and> (\<forall>k. k \<noteq> ''justification'' \<longrightarrow> map_of (tc_args c) k = map_of args k) \<and>
    (\<forall>j. map_of args ''justification'' = Some (JStr j) \<and> j \<noteq> [] \<longrightarrow> tc_justification c = j)"
proof -
  obtain args where args: "ParseArgsMap jl (map_of params ''arguments'') = Inr args"
    using assms by (auto simp: parse_call_def Let_def split: sum.splits)
  let ?args = "AList.delete ''justification'' args"
  let ?args' = "map (map_prod id (sanitiseStringArgs jl)) ?args"
  let ?params' = "AList.update ''arguments'' (JObj ?args') params"
  note lk = map_of_map_prod [of "sanitiseStringArgs jl" ?args]
  have "tc_body c = jl_Marshal jl (JObj (AList.update ''params'' (JObj ?params') req))" "tc_args c = ?args"
      "\<forall>j. map_of args ''justification'' = Some (JStr j) \<and> j \<noteq> [] \<longrightarrow> tc_justification c = j"
    using assms args by (auto simp: parse_call_def string_or_empty_def Let_def)
  then show ?thesis
    by (intro exI [of _ "AList.update ''params'' (JObj ?params') req"] exI [of _ ?params'] exI [of _ args] exI [of _ ?args'])
      (simp add: args lk gomap_simps del: list.map)
qed

section \<open>A sample call\<close>

text \<open>A bridge with the configured backend \<open>git\<close>, no rows for backends, and a process that becomes warm while the
  handler polls. The JSON library knows one body, \<open>call\<close>.\<close>

definition ready_pool :: "Pool \<Rightarrow> Pool" where
  "ready_pool p = p\<lparr>po_Warm := \<lparr>ch_buf = [sample_proc 7], ch_cap = 1, ch_senders = [], ch_closed = False\<rparr>\<rparr>"

definition one_body :: "json \<Rightarrow> json_lib" where
  "one_body v = \<lparr>jl_Unmarshal = (\<lambda>s. if s = ''call'' then Inr v else Inl (ErrNew ''syntax'')), jl_Marshal = (\<lambda>_. ''call'')\<rparr>"

definition sample_world :: "json \<Rightarrow> bool world" where
  "sample_world v = \<lparr>w_lib = sample_lib, w_sys = sample_os, w_json = one_body v, w_compact = Inr, w_show = (\<lambda>_. ''7''),
     w_errtext = (\<lambda>_. []), w_env = sample_env, w_polls = (\<lambda>_. [ready_pool]), w_final = (\<lambda>_ p. p), w_lag = 1,
     w_answer = (\<lambda>_. Some (1001, ''pong''))\<rparr>"

definition sample_app :: "bool Enforcer option \<Rightarrow> db \<Rightarrow> bool App" where
  "sample_app e db = \<lparr>app_store = \<lparr>st_db = db, st_keyStore = None\<rparr>, app_enforcer = e, app_muxer = git_muxer,
     app_pools = NewPoolManager ''cat'' 1, app_config = git_config, app_sent = []\<rparr>"

definition push_call :: "string \<Rightarrow> json" where
  "push_call key = JObj [(''jsonrpc'', JStr ''2.0''), (''method'', JStr ''tools/call''),
     (''params'', JObj [(key, JStr ''git_push''), (''arguments'', JObj [])])]"

text \<open>A database with no backends and no tokens.\<close>

definition plain_db :: "db \<Rightarrow> bool" where
  "plain_db db \<longleftrightarrow> fault_free db \<and> db_backends db = [] \<and> ct_user_tokens (db_core db) = []"

lemma world_sel [simp]:
  "w_json (sample_world v) = one_body v" "w_lib (sample_world v) = sample_lib" "w_sys (sample_world v) = sample_os"
  "w_env (sample_world v) = sample_env" "w_now (sample_world v) = 1000" "w_polls (sample_world v) k = [ready_pool]"
  "jl_Unmarshal (one_body v) ''call'' = Inr v" "jl_Marshal (one_body v) x = ''call''" "w_lag (sample_world v) = 1"
  "w_compact (sample_world v) s = Inr s" "w_show (sample_world v) x = ''7''" "w_answer (sample_world v) s = Some (1001, ''pong'')"
  by (simp_all add: sample_world_def one_body_def w_now_def sample_env_def)

lemma plain_store:
  assumes "plain_db db"
  shows "Store_GetBackend lib sys i \<lparr>st_db = db, st_keyStore = None\<rparr> = (Inl ErrNoRows, \<lparr>st_db = db, st_keyStore = None\<rparr>)"
    "Store_GetUserTokensDecrypted lib sys u b \<lparr>st_db = db, st_keyStore = None\<rparr> = (Inr [], \<lparr>st_db = db, st_keyStore = None\<rparr>)"
  using assms by (simp_all add: plain_db_def Store_GetBackend_def query_row_def Store_GetUserTokensDecrypted_def Store_GetUserTokens_def)

lemma git_backend:
  assumes "plain_db db"
  shows "getBackendConfig sample_lib sample_os jl ''git'' git_muxer (Some \<lparr>st_db = db, st_keyStore = None\<rparr>) =
      (Some (cfg_of_config (the (map_of (ic_Backends git_config) ''git''))), Some \<lparr>st_db = db, st_keyStore = None\<rparr>)"
  using assms by (simp add: getBackendConfig_def plain_store git_muxer_def NewToolMuxer_def git_config_def empty_config_def)

lemma sample_system_env: "system_env sample_os = []"
  by (simp add: system_env_def sample_os_def)

lemma git_user_env:
  assumes "plain_db db"
  shows "BuildEnvForUser sample_lib sample_os jl ''ann'' ''git'' git_muxer (Some \<lparr>st_db = db, st_keyStore = None\<rparr>) =
      (Inr [''MODE=ro''], Some \<lparr>st_db = db, st_keyStore = None\<rparr>)"
  using assms
  by (simp add: BuildEnvForUser_def user_env_def git_backend buildLegacyEnv_def plain_store set_tokens_def sample_system_env
      git_config_def empty_config_def cfg_of_config_def apply_mappings_def apply_systemwide_def envMapHasTemplates_def Contains_def
      open_braces_def mapToSlice_def)

lemma git_route: "FindBackendForTool lib sys ''git_push'' git_muxer st = (Inr (''git'', ''git''), st)"
  by (simp add: FindBackendForTool_def git_muxer_def NewToolMuxer_def git_config_def empty_config_def prefixes_of_config_def prefix_matches_def)

lemma ready_acquires:
  assumes "po_Warm p = make_chan n" and "po_spawnAttempts p = 0" and "po_maxSpawnAttempts p = 3"
  shows "\<exists>q. GetWarmWithRetry [ready_pool] f p = Some (Inr (sample_proc 7), q) \<and> \<not> ch_closed (po_Warm q) \<and> ch_buf (po_Warm q) = [] \<and>
    ch_cap (po_Warm q) = 1"
  using assms
  by (simp add: GetWarmWithRetry_def TryAcquireWarm_def ch_try_recv_def make_chan_def WaitForWarmWithMax_def IsUnavailable_def ready_pool_def
      IsAlive_def sample_proc_def Let_def)

lemma strip_one_body: "stripPrefixFromName (one_body v) ''call'' p = ''call''"
  by (simp add: stripPrefixFromName_def split: json.splits option.splits)

definition git_pool :: Pool where
  "git_pool = new_user_pool 1000 ''git:ann'' ''ann'' ''cat'' 1 1 (Some [''MODE=ro'']) None ''newline''"

lemma sample_handle:
  assumes "plain_db db" and "decode_tools_call v = Some req" and "called_tool req = ''git_push''"
  shows "\<exists>router. HandleToolsCall sample_lib sample_os (one_body v) 1000 ''ann'' ''call'' git_muxer (Some \<lparr>st_db = db, st_keyStore = None\<rparr>)
      (NewPoolManager ''cat'' 1) =
    Some (Inr (''call'', router), Some \<lparr>st_db = db, st_keyStore = None\<rparr>, (NewPoolManager ''cat'' 1)\<lparr>pm_pools := [(''git:ann'', git_pool)]\<rparr>) \<and>
    prt_Pool router = ''git:ann''"
  using assms
  by (simp add: HandleToolsCall_def git_route git_backend git_user_env strip_one_body GetOrCreateUserPoolWithFraming_def
      GetOrCreateUserPoolWithSecrets_alone NewPoolManager_def user_pool_key_def git_config_def empty_config_def cfg_of_config_def
      put_pool_def git_pool_def Let_def)

lemma git_pool_fresh: "po_Warm git_pool = make_chan 1" "po_spawnAttempts git_pool = 0" "po_maxSpawnAttempts git_pool = 3"
  by (simp_all add: git_pool_def new_user_pool_def NewPoolWithEnv_def TouchLastUsed_def SetDedicated_def defaultMaxSpawnAttempts_def)

lemma sample_acquire:
  assumes "pool_at ''git:ann'' a = Some git_pool"
  shows "\<exists>q a1. acquire_warm (sample_world v) ''git:ann'' a = Some (Inr (sample_proc 7), a1) \<and> pool_at ''git:ann'' a1 = Some q \<and>
    app_sent a1 = app_sent a \<and> \<not> ch_closed (po_Warm q) \<and> ch_buf (po_Warm q) = [] \<and> ch_cap (po_Warm q) = 1"
proof -
  have t: "po_Warm (TouchLastUsed 1000 git_pool) = make_chan 1" "po_spawnAttempts (TouchLastUsed 1000 git_pool) = 0"
    "po_maxSpawnAttempts (TouchLastUsed 1000 git_pool) = 3"
    using git_pool_fresh by (simp_all add: TouchLastUsed_def)
  obtain q where q: "GetWarmWithRetry [ready_pool] (w_final (sample_world v) ''git:ann'') (TouchLastUsed 1000 git_pool) = Some (Inr (sample_proc 7), q)"
      "\<not> ch_closed (po_Warm q)" "ch_buf (po_Warm q) = []" "ch_cap (po_Warm q) = 1"
    using ready_acquires [OF t] by blast
  with assms show ?thesis by (simp add: acquire_warm_def pool_at_def set_pool_def put_pool_def gomap_simps)
qed

lemma sample_line:
  assumes "decode_message v = Some msg"
  shows "request_line (sample_world v) ''call'' = Some (''7'', ''call'' @ [CHR 0x0A])"
  using assms by (simp add: request_line_def compact_line_def)

lemma sample_release:
  assumes "pool_at k a = Some q" and "\<not> ch_closed (po_Warm q)" and "ch_buf (po_Warm q) = []" and "ch_cap (po_Warm q) = 1"
  shows "\<exists>a'. release_proc k proc a = Some a' \<and> app_sent a' = app_sent a"
  using assms by (simp add: release_proc_def ReleaseWarm_def ch_try_send_def Let_def)

lemma sample_relay:
  assumes "pool_at ''git:ann'' a = Some git_pool" and "decode_message v = Some msg"
  shows "\<exists>r a'. relay (sample_world v) style hdrs ''git:ann'' ''call'' a = Some (r, a') \<and>
    app_sent a' = app_sent a @ [(''git:ann'', ''call'' @ [CHR 0x0A])] \<and> hr_body r = Raw ''pong''"
proof -
  obtain q a1 where acq: "acquire_warm (sample_world v) ''git:ann'' a = Some (Inr (sample_proc 7), a1)"
      "pool_at ''git:ann'' a1 = Some q" "app_sent a1 = app_sent a"
      "\<not> ch_closed (po_Warm q)" "ch_buf (po_Warm q) = []" "ch_cap (po_Warm q) = 1"
    using sample_acquire [OF assms(1)] by blast
  let ?q = "UnregisterRequest ''7'' (RegisterRequest ''7'' q)"
  let ?a2 = "(set_pool ''git:ann'' ?q a1)\<lparr>app_sent := app_sent a @ [(''git:ann'', ''call'' @ [CHR 0x0A])]\<rparr>"
  have ev: "await_response (w_now (sample_world v)) (w_now (sample_world v) + w_lag (sample_world v)) (60 * second) (w_answer (sample_world v) ''7'') =
      Received ''pong''"
    by (simp add: await_response_def requestTimeout_def second_def millisecond_def)
  have s: "send_request (sample_world v) ''git:ann'' ''7'' (60 * second) (''call'' @ [CHR 0x0A]) a1 = Some (Received ''pong'', ?a2)"
    unfolding send_request_def ev using acq(2,3) by simp
  have "po_Warm ?q = po_Warm q" by (simp add: UnregisterRequest_def RegisterRequest_def Let_def split: option.splits)
  moreover have "pool_at ''git:ann'' ?a2 = Some ?q" by (simp add: pool_at_def set_pool_def put_pool_def gomap_simps)
  ultimately obtain a3 where r: "release_proc ''git:ann'' (sample_proc 7) ?a2 = Some a3" "app_sent a3 = app_sent ?a2"
    using sample_release [of "''git:ann''" ?a2 ?q "sample_proc 7"] acq by auto
  show ?thesis
    unfolding relay_def acq(1) sample_line [OF assms(2)] using s r by simp
qed

lemma sample_route:
  assumes "plain_db db" and "decode_tools_call v = Some req" and "called_tool req = ''git_push''" and "decode_message v = Some msg"
    and "app_store a = \<lparr>st_db = db, st_keyStore = None\<rparr>" and "app_muxer a = git_muxer" and "app_pools a = NewPoolManager ''cat'' 1"
  shows "\<exists>r a'. route_call (sample_world v) hdrs ''ann'' b ''call'' a = Some (r, a') \<and>
    app_sent a' = app_sent a @ [(''git:ann'', ''call'' @ [CHR 0x0A])] \<and> hr_body r = Raw ''pong''"
proof -
  obtain router where h: "HandleToolsCall sample_lib sample_os (one_body v) 1000 ''ann'' ''call'' git_muxer (Some \<lparr>st_db = db, st_keyStore = None\<rparr>)
      (NewPoolManager ''cat'' 1) =
    Some (Inr (''call'', router), Some \<lparr>st_db = db, st_keyStore = None\<rparr>, (NewPoolManager ''cat'' 1)\<lparr>pm_pools := [(''git:ann'', git_pool)]\<rparr>)"
    and k: "prt_Pool router = ''git:ann''"
    using sample_handle [OF assms(1-3)] by blast
  let ?a = "(put_store (Some \<lparr>st_db = db, st_keyStore = None\<rparr>) a)\<lparr>app_pools := (NewPoolManager ''cat'' 1)\<lparr>pm_pools := [(''git:ann'', git_pool)]\<rparr>\<rparr>"
  have "pool_at ''git:ann'' ?a = Some git_pool" by (simp add: pool_at_def)
  from sample_relay [OF this assms(4), of "call_style (sample_world v) b hdrs" hdrs] show ?thesis
    by (simp add: route_call_def h k assms(5-7))
qed

lemma lower_N: "lower_char (CHR ''N'') = CHR ''n''"
  by code_simp

lemma push_decodes:
  "decode_tools_call (push_call ''name'') = Some (''git_push'', [])" "decode_tools_call (push_call ''Name'') = Some (''git_push'', [])"
  "\<exists>msg. decode_message (push_call ''name'') = Some msg" "\<exists>msg. decode_message (push_call ''Name'') = Some msg"
  by (simp_all add: decode_tools_call_def decode_message_def push_call_def string_field_def object_field_def array_field_def any_field_def
      tool_names_def members_def ToLower_def lower_N) (simp_all add: lower_char_def)

section \<open>Sample decisions\<close>

text \<open>What a decision leaves of the database: users, approvals and the generator of identifiers stay.\<close>

definition same_queue :: "db \<Rightarrow> db \<Rightarrow> bool" where
  "same_queue db db' \<longleftrightarrow> db_users db' = db_users db \<and> db_approvals db' = db_approvals db \<and> db_faults db' = db_faults db \<and> db_ids db' = db_ids db"

lemma same_queue_log: "same_queue (ef_store e) (ef_store (logDecision env ctx d e))"
  by (auto simp: same_queue_def logDecision_def generateID_def ES_LogAuditEvent_def stmt_def Let_def split: sum.splits option.splits if_splits)

lemma same_queue_reject: "same_queue (ef_store e) (ef_store (audit_rejection env u t j r e))"
  by (auto simp: same_queue_def audit_rejection_def generateID_def ES_LogAuditRejection_def stmt_def Let_def
      split: sum.splits option.splits if_splits)

lemma same_queue_settle:
  "settle_call env u t b j p d e = (r, e') \<Longrightarrow> same_queue (ef_store e) (ef_store e')"
  using same_queue_reject [of e env u t j "''unknown_tool_no_profile''"]
  by (auto simp: settle_call_def charge_call_def Let_def same_queue_def split: sum.splits option.splits prod.splits if_splits)

lemma same_queue_handle:
  assumes "HandleToolCall env u t args b j opts e = (r, e')" shows "same_queue (ef_store e) (ef_store e')"
proof (cases "justification_gate (ef_config e) opts j")
  case (Some x)
  then obtain d why where "justification_gate (ef_config e) opts j = Some (d, why)" by (cases x) simp
  from handle_rejected [OF this] assms show ?thesis using same_queue_reject by auto
next
  case None
  let ?p = "call_profile u t b e"
  obtain ctx e1 where c: "count_call env u t (call_context u t args b j ?p e) e = (ctx, e1)" by fastforce
  then obtain ts where e1: "e1 = e\<lparr>ef_store := (ef_store e)\<lparr>db_rate_buckets := ts\<rparr>\<rparr>" by (rule count_call_frame)
  then have q1: "same_queue (ef_store e) (ef_store e1)" by (simp add: same_queue_def)
  obtain d err e2 where ev: "Enforcer_Evaluate env ctx e1 = ((d, err), e2)" by (metis surj_pair)
  then have q2: "same_queue (ef_store e1) (ef_store e2)"
    using same_queue_log by (auto simp: Enforcer_Evaluate_def same_queue_def Let_def split: if_splits)
  have "e' = e2 \<or> settle_call env u t b j ?p d e2 = (r, e')"
    using assms None c ev by (auto simp: HandleToolCall_def ResolveForUser_total call_profile_def split: option.splits)
  then show ?thesis using q1 q2 same_queue_settle by (fastforce simp: same_queue_def)
qed

text \<open>C8: A tool that nobody vouches for waits for an administrator: when a call to it, on the bridge endpoint or the namespaced one, has passed the kill switches and
  the justification gate, no policy decides it and its profile is only inferred, then, on a database whose statements succeed, for a known user and
  a new identifier, the one row added to the approvals is in the administrators' queue with the body of the call, nothing is written to a process,
  and no budget is spent.\<close>

theorem inferred_call_queued:
  assumes "asked w ep i a = Some (c, b, skip, a2)" and "\<not> (\<exists>body. ep = AtLegacy body)" and "guarded (tc_tool c)" and "app_enforcer a2 = Some e0"
    and "e = e0\<lparr>ef_store := st_db (app_store a2)\<rparr>"
    and "justification_gate (ef_config e) \<lparr>co_SkipJustification = skip\<rparr> (tc_justification c) = None" and "\<not> isKillSwitchActive b e"
    and "ed_Action (policy_decision_of (w_env w) u (tc_tool c) (tc_args c) b (tc_justification c) e) = []"
    and "sp_Source (call_profile u (tc_tool c) b e) = ''inferred''"
    and "fault_free (ef_store e)" and "u \<in> us_ID ` set (db_users (ef_store e))" and "\<forall>n. db_ids (ef_store e) n \<notin> aq_ID ` set (db_approvals (ef_store e))"
  shows "\<exists>d a' row. serve_call w ep u i a = Some (ry_pending (style_of w ep i c b) d ''admin'' (aq_ID row), a') \<and> app_sent a' = app_sent a \<and>
    db_approvals (st_db (app_store a')) = db_approvals (ef_store e) @ [row] \<and> aq_QueueType row = ''admin'' \<and> aq_Status row = ''PENDING'' \<and>
    aq_UserID row = u \<and> aq_BackendID row = b \<and> aq_ToolName row = tc_tool c \<and> aq_RequestBody row = tc_body c \<and>
    map_option ef_rateLimit (app_enforcer a') = Some (ef_rateLimit e)"
proof -
  obtain d e1 where h: "HandleToolCall (w_env w) u (tc_tool c) (tc_args c) b (tc_justification c) \<lparr>co_SkipJustification = skip\<rparr> e = ((d, None), e1)"
      and act: "RequiresAdminApproval (ed_Action d)" and rl: "ef_rateLimit e1 = ef_rateLimit e"
    using inferred_tool_waits [OF assms(6-9)] by blast
  have q: "same_queue (ef_store e) (ef_store e1)" by (rule same_queue_handle [OF h])
  have "stops (ed_Action d)" "ed_Action d \<noteq> ActionDeny" "queue_of (ed_Action d) = ''admin''"
    using act by (auto simp: stops_def queue_of_def)
  moreover have "fault_free (ef_store e1)" "u \<in> us_ID ` set (db_users (ef_store e1))"
      "db_ids (ef_store e1) (db_next (ef_store e1)) \<notin> aq_ID ` set (db_approvals (ef_store e1))"
    using q assms(10-12) by (simp_all add: same_queue_def fault_free_def)
  moreover have "queued_body ep c = tc_body c" using assms(2) by (cases ep) auto
  moreover have "db_approvals (ef_store e1) = db_approvals (ef_store e)" using q by (simp add: same_queue_def)
  ultimately show ?thesis
    using queued_call [OF assms(1,3,4) h [unfolded assms(5)]] rl by (auto simp: silent_def)
qed

definition open_enforcer :: "db \<Rightarrow> bool Enforcer" where
  "open_enforcer db = (sample_enforcer NewCELEngine db)\<lparr>ef_config := sample_config\<lparr>ec_MinJustificationLength := 0\<rparr>\<rparr>"

definition ann_db :: db where
  "ann_db = empty_db\<lparr>db_users := [sample_user\<lparr>us_ID := ''ann''\<rparr>]\<rparr>"

definition killed_db :: db where
  "killed_db = ann_db\<lparr>db_kill_switches := [\<lparr>ks_ID = ''k'', ks_Name = ''all'', ks_Scope = ''global'', ks_Enabled = True, ks_EnabledAt = None,
     ks_EnabledBy = None, ks_Reason = [], ks_CreatedAt = 0, ks_UpdatedAt = 0\<rparr>]\<rparr>"

lemma sample_dbs_plain: "plain_db ann_db" "plain_db killed_db" "plain_db (killed_db\<lparr>db_rate_buckets := ts\<rparr>)"
  by (simp_all add: plain_db_def killed_db_def ann_db_def empty_db_def empty_core_def fault_free_def)

lemma push_parsed:
  "parse_call (one_body (push_call ''name'')) ''call'' = Inr \<lparr>tc_tool = ''git_push'', tc_args = [], tc_justification = [], tc_body = ''call''\<rparr>"
  "parse_call (one_body (push_call ''Name'')) ''call'' = Inr \<lparr>tc_tool = [], tc_args = [], tc_justification = [], tc_body = ''call''\<rparr>"
  by (simp_all add: parse_call_def push_call_def string_or_empty_def Let_def)

lemma push_routed:
  assumes "plain_db db"
  shows "backend_of_tool (sample_world v) ''git_push'' (sample_app e db) = (''git'', sample_app e db)"
    "backend_skip (sample_world v) ''git'' (sample_app e db) = (False, sample_app e db)"
  using assms by (simp_all add: backend_of_tool_def guarded_def git_route put_store_def backend_skip_def app_GetBackend_def sample_app_def plain_store)

section \<open>Witnesses\<close>

lemma sample_app_sel [simp]:
  "app_sent (sample_app e db) = []" "app_enforcer (sample_app e db) = e" "st_db (app_store (sample_app e db)) = db"
  "app_store (sample_app e db) = \<lparr>st_db = db, st_keyStore = None\<rparr>" "app_muxer (sample_app e db) = git_muxer"
  "app_pools (sample_app e db) = NewPoolManager ''cat'' 1"
  by (simp_all add: sample_app_def)

lemma git_push_guarded: "guarded ''git_push''"
  by (simp add: guarded_def)

theorem stopped_call_not_sent_witness:
  "\<exists>r a'. MCPBridgeServer_handleToolsCall (sample_world (push_call ''name'')) ''ann'' ''call'' (JNum 1)
     (sample_app (Some (sample_enforcer NewCELEngine ann_db)) ann_db) = Some (r, a') \<and> app_sent a' = []"
proof -
  let ?w = "sample_world (push_call ''name'')" and ?e = "sample_enforcer NewCELEngine ann_db"
  let ?a = "sample_app (Some ?e) ann_db" and ?c = "\<lparr>tc_tool = ''git_push'', tc_args = [], tc_justification = [], tc_body = ''call''\<rparr>"
  obtain d r where "justification_gate (ef_config (?e\<lparr>ef_store := ann_db\<rparr>)) \<lparr>co_SkipJustification = False\<rparr> [] = Some (d, r)"
      and act: "ed_Action d = ActionDeny"
    by (simp add: justification_gate_def sample_enforcer_defs)
  from handle_rejected [OF this(1)] have "decision_on ?w ''ann'' ''git'' False ?c ?e ?a = (d, Some ErrPolicyViolation)"
    by (simp add: decision_on_def)
  moreover have "stops (ed_Action d)" using act by (simp add: stops_def)
  moreover have "asked ?w (AtBridge ''call'') (JNum 1) ?a = Some (?c, ''git'', False, ?a)"
    using push_parsed(1) push_routed [OF sample_dbs_plain(1)] by simp
  ultimately show ?thesis
    using stopped_call_not_sent [of ?w "AtBridge ''call''" "JNum 1" ?a ?c "''git''" False ?a ?e "''ann''" d "Some ErrPolicyViolation"] git_push_guarded by auto
qed

theorem kill_switch_fails_open_witness:
  "\<exists>r a'. MCPBridgeServer_handleToolsCall (sample_world (push_call ''name'')) ''ann'' ''call'' (JNum 1)
     (sample_app (Some (open_enforcer killed_db)) killed_db) = Some (r, a') \<and> app_sent a' = [(''git:ann'', ''call'' @ [CHR 0x0A])] \<and>
     isKillSwitchActive ''git'' (open_enforcer killed_db) \<and> hr_body r = Raw ''pong''"
proof -
  let ?v = "push_call ''name''"
  let ?w = "sample_world ?v" and ?e = "open_enforcer killed_db"
  let ?a = "sample_app (Some ?e) killed_db" and ?c = "\<lparr>tc_tool = ''git_push'', tc_args = [], tc_justification = [], tc_body = ''call''\<rparr>"
  have gate: "justification_gate (ef_config ?e) \<lparr>co_SkipJustification = False\<rparr> [] = None"
    by (simp add: justification_gate_def open_enforcer_def)
  have "fault_free killed_db" using sample_dbs_plain(2) by (simp add: plain_db_def)
  then have on: "isKillSwitchActive ''git'' (?e\<lparr>ef_store := killed_db\<rparr>)"
    by (simp add: isKillSwitchActive_def ES_IsKillSwitchActive_def switch_count_def count_rows_def open_enforcer_def sample_enforcer_defs)
      (simp add: killed_db_def)
  moreover have "?e\<lparr>ef_store := killed_db\<rparr> = ?e" by (simp add: open_enforcer_def sample_enforcer_def)
  ultimately have on': "isKillSwitchActive ''git'' ?e" by simp
  obtain ts where h: "MCPBridgeServer_handleToolsCall ?w ''ann'' ''call'' (JNum 1) ?a = route_call ?w [] ''ann'' ''git'' ''call''
      (?a\<lparr>app_enforcer := Some (?e\<lparr>ef_store := killed_db\<lparr>db_rate_buckets := ts\<rparr>\<rparr>),
        app_store := \<lparr>st_db = killed_db\<lparr>db_rate_buckets := ts\<rparr>, st_keyStore = None\<rparr>\<rparr>)"
    using kill_switch_fails_open [of ?w "''call''" ?c ?a "''git''" ?a False ?a ?e "''ann''" "JNum 1"]
      push_parsed(1) push_routed [OF sample_dbs_plain(2)] git_push_guarded gate on by auto
  let ?a' = "?a\<lparr>app_enforcer := Some (?e\<lparr>ef_store := killed_db\<lparr>db_rate_buckets := ts\<rparr>\<rparr>),
      app_store := \<lparr>st_db = killed_db\<lparr>db_rate_buckets := ts\<rparr>, st_keyStore = None\<rparr>\<rparr>"
  have a': "app_store ?a' = \<lparr>st_db = killed_db\<lparr>db_rate_buckets := ts\<rparr>, st_keyStore = None\<rparr>" "app_muxer ?a' = git_muxer"
    "app_pools ?a' = NewPoolManager ''cat'' 1" "app_sent ?a' = []" by simp_all
  have c: "called_tool (''git_push'', []) = ''git_push''" by (simp add: called_tool_def)
  obtain msg where m: "decode_message ?v = Some msg" using push_decodes(3) by blast
  obtain r a2 where "route_call ?w [] ''ann'' ''git'' ''call'' ?a' = Some (r, a2)"
      "app_sent a2 = app_sent ?a' @ [(''git:ann'', ''call'' @ [CHR 0x0A])]" "hr_body r = Raw ''pong''"
    using sample_route [OF sample_dbs_plain(3) push_decodes(1) c m a'(1-3), of "[]" "''git''"] by blast
  then show ?thesis unfolding h using on' a'(4) by auto
qed

theorem unnamed_call_unchecked_witness:
  "\<exists>r a'. MCPBridgeServer_handleToolsCall (sample_world (push_call ''Name'')) ''ann'' ''call'' (JNum 1)
     (sample_app (Some (sample_enforcer NewCELEngine ann_db)) ann_db) = Some (r, a') \<and>
     app_sent a' = [(''git:ann'', ''call'' @ [CHR 0x0A])]"
proof -
  let ?v = "push_call ''Name''"
  let ?w = "sample_world ?v" and ?a = "sample_app (Some (sample_enforcer NewCELEngine ann_db)) ann_db"
  have h: "MCPBridgeServer_handleToolsCall ?w ''ann'' ''call'' (JNum 1) ?a = route_call ?w [] ''ann'' [] ''call'' ?a"
    using unnamed_call_unchecked [of ?w "''call''" _ "''ann''" "JNum 1" ?a] push_parsed(2) by simp
  obtain msg where "decode_message ?v = Some msg" using push_decodes(4) by blast
  from sample_route [where a = ?a and hdrs = "[]" and b = "[]", OF sample_dbs_plain(1) push_decodes(2) _ this]
  show ?thesis unfolding h by (auto simp: called_tool_def)
qed

theorem calls_stay_with_user_witness:
  "\<exists>r a'. handleToolsCall (sample_world (push_call ''Name'')) ''ann'' ''call'' (JNum 1) (sample_app None ann_db) = Some (r, a') \<and>
     app_sent a' = [(''git:ann'', ''call'' @ [CHR 0x0A])] \<and> sends ''ann'' (sample_app None ann_db) a'"
proof -
  let ?v = "push_call ''Name''"
  let ?w = "sample_world ?v" and ?a = "sample_app None ann_db"
  have "handleToolsCall ?w ''ann'' ''call'' (JNum 1) ?a = route_call ?w [] ''ann'' [] ''call'' ?a"
    by (simp add: handleToolsCall_def legacy_call_def legacy_params_def push_call_def string_or_empty_def backend_of_tool_def guarded_def
        backend_skip_def check_call_def)
  moreover obtain msg where "decode_message ?v = Some msg" using push_decodes(4) by blast
  note sample_route [where a = ?a and hdrs = "[]" and b = "[]", OF sample_dbs_plain(1) push_decodes(2) _ this]
  ultimately obtain r a' where h: "handleToolsCall ?w ''ann'' ''call'' (JNum 1) ?a = Some (r, a')"
      and s: "app_sent a' = [(''git:ann'', ''call'' @ [CHR 0x0A])]"
    by (auto simp: called_tool_def)
  from calls_stay_with_user [of ?w "''ann''" "''call''" "JNum 1" ?a r a' "[]"] h s show ?thesis by blast
qed

lemma push_source:
  "sp_Source (call_profile ''ann'' ''git_push'' ''git'' ((open_enforcer ann_db)\<lparr>ef_store := ann_db\<rparr>)) = ''inferred''"
proof -
  have "ES_GetToolProfile b t ann_db = Inl ErrNoRows" and "ES_ListUserOverrides u ann_db = Inr []" for b t u
    using sample_dbs_plain(1) by (simp_all add: plain_db_def ES_GetToolProfile_def ES_ListUserOverrides_def query_row_def order_by_def)
      (simp_all add: ann_db_def empty_db_def)
  then show ?thesis
    by (simp add: call_profile_def resolved_def ResolveForUser_def open_enforcer_def sample_enforcer_def resolver_key_def
        user_override_of_def resolve_stored_def inferred_profile_def Let_def)
qed

lemma push_undecided:
  "justification_gate (ef_config ((open_enforcer ann_db)\<lparr>ef_store := ann_db\<rparr>)) \<lparr>co_SkipJustification = False\<rparr> [] = None"
  "\<not> isKillSwitchActive ''git'' ((open_enforcer ann_db)\<lparr>ef_store := ann_db\<rparr>)"
  "ed_Action (policy_decision_of sample_env ''ann'' ''git_push'' [] ''git'' [] ((open_enforcer ann_db)\<lparr>ef_store := ann_db\<rparr>)) = []"
proof -
  show "\<not> isKillSwitchActive ''git'' ((open_enforcer ann_db)\<lparr>ef_store := ann_db\<rparr>)"
    using sample_dbs_plain(1)
    by (simp add: isKillSwitchActive_def ES_IsKillSwitchActive_def switch_count_def count_rows_def plain_db_def)
      (simp add: ann_db_def empty_db_def)
qed (simp_all add: justification_gate_def policy_decision_of_def open_enforcer_def sample_enforcer_def Engine_Evaluate_def NewCELEngine_def
    zeroDecision_def)

lemma push_waits:
  "\<exists>d e1. HandleToolCall sample_env ''ann'' ''git_push'' [] ''git'' [] \<lparr>co_SkipJustification = False\<rparr> ((open_enforcer ann_db)\<lparr>ef_store := ann_db\<rparr>) =
     ((d, None), e1) \<and> RequiresAdminApproval (ed_Action d)"
  using inferred_tool_waits [OF push_undecided push_source] by blast

definition push_read :: tool_call where
  "push_read = \<lparr>tc_tool = ''git_push'', tc_args = [], tc_justification = [], tc_body = ''call''\<rparr>"

theorem inferred_call_queued_witness:
  "\<exists>d a' row. serve_call (sample_world (push_call ''name'')) (AtBridge ''call'') ''ann'' (JNum 1) (sample_app (Some (open_enforcer ann_db)) ann_db) =
     Some (ry_pending (style_of (sample_world (push_call ''name'')) (AtBridge ''call'') (JNum 1) push_read ''git'') d ''admin'' (aq_ID row), a') \<and>
     app_sent a' = [] \<and> db_approvals (st_db (app_store a')) = [row] \<and> aq_RequestBody row = ''call'' \<and> aq_QueueType row = ''admin''"
proof -
  let ?w = "sample_world (push_call ''name'')" and ?e = "open_enforcer ann_db"
  let ?a = "sample_app (Some ?e) ann_db"
  have "asked ?w (AtBridge ''call'') (JNum 1) ?a = Some (push_read, ''git'', False, ?a)"
    using push_parsed(1) push_routed [OF sample_dbs_plain(1)] by (simp add: push_read_def)
  moreover have "fault_free ann_db" "''ann'' \<in> us_ID ` set (db_users ann_db)" "db_approvals ann_db = []"
    by (simp_all add: ann_db_def empty_db_def fault_free_def)
  ultimately show ?thesis
    using inferred_call_queued [of ?w "AtBridge ''call''" "JNum 1" ?a push_read "''git''" False ?a ?e "?e\<lparr>ef_store := ann_db\<rparr>" "''ann''"]
      push_undecided push_source git_push_guarded by (auto simp: push_read_def)
qed

theorem queued_call_replayable_witness:
  "\<exists>r a' row. MCPBridgeServer_handleToolsCall (sample_world (push_call ''name'')) ''ann'' ''call'' (JNum 1)
     (sample_app (Some (open_enforcer ann_db)) ann_db) = Some (r, a') \<and> db_approvals (st_db (app_store a')) = [row] \<and>
     aq_RequestBody row = ''call'' \<and> aq_UserID row = ''ann'' \<and> aq_QueueType row = ''admin''"
proof -
  let ?w = "sample_world (push_call ''name'')" and ?e = "open_enforcer ann_db"
  let ?a = "sample_app (Some ?e) ann_db" and ?c = "\<lparr>tc_tool = ''git_push'', tc_args = [], tc_justification = [], tc_body = ''call''\<rparr>"
  obtain d e1 where h: "HandleToolCall sample_env ''ann'' ''git_push'' [] ''git'' [] \<lparr>co_SkipJustification = False\<rparr> (?e\<lparr>ef_store := ann_db\<rparr>) =
      ((d, None), e1)" and act: "RequiresAdminApproval (ed_Action d)"
    using push_waits by blast
  from same_queue_handle [OF h] have db: "db_users (ef_store e1) = db_users ann_db" "db_approvals (ef_store e1) = []" "fault_free (ef_store e1)"
    by (simp_all add: same_queue_def fault_free_def ann_db_def empty_db_def)
  have "stops (ed_Action d)" "ed_Action d \<noteq> ActionDeny" "queue_of (ed_Action d) = ''admin''"
    using act by (auto simp: stops_def queue_of_def)
  moreover have "''ann'' \<in> us_ID ` set (db_users (ef_store e1))" using db(1) by (simp add: ann_db_def)
  moreover have "asked ?w (AtBridge ''call'') (JNum 1) ?a = Some (?c, ''git'', False, ?a)"
    using push_parsed(1) push_routed [OF sample_dbs_plain(1)] by simp
  ultimately show ?thesis
    using queued_call_replayable [of ?w "AtBridge ''call''" "JNum 1" ?a ?c "''git''" False ?a ?e "''ann''" d None e1] h db(2,3) git_push_guarded by auto
qed

lemma answer_irrelevant:
  "acquire_warm (w\<lparr>w_answer := f\<rparr>) k a = acquire_warm w k a" "request_line (w\<lparr>w_answer := f\<rparr>) body = request_line w body"
  by (simp_all add: acquire_warm_def request_line_def compact_line_def w_now_def Let_def split: option.splits sum.splits)

theorem silence_taken_for_crash_witness:
  "\<exists>a'. relay ((sample_world (push_call ''name''))\<lparr>w_answer := \<lambda>_. None\<rparr>) (call_style (sample_world JNull) ''git'' []) [] ''git:ann'' ''call''
     ((sample_app None ann_db)\<lparr>app_pools := (NewPoolManager ''cat'' 1)\<lparr>pm_pools := [(''git:ann'', git_pool)]\<rparr>\<rparr>) =
     Some (\<lparr>hr_status = 503, hr_headers = [],
       hr_body = Raw (error_text (-32004) ''Backend git process crashed during request, please retry'')\<rparr>, a')"
proof -
  let ?w = "(sample_world (push_call ''name''))\<lparr>w_answer := \<lambda>_. None\<rparr>"
  let ?a = "(sample_app None ann_db)\<lparr>app_pools := (NewPoolManager ''cat'' 1)\<lparr>pm_pools := [(''git:ann'', git_pool)]\<rparr>\<rparr>"
  have "pool_at ''git:ann'' ?a = Some git_pool" by (simp add: pool_at_def)
  then obtain a1 where acq: "acquire_warm ?w ''git:ann'' ?a = Some (Inr (sample_proc 7), a1)"
    unfolding answer_irrelevant using sample_acquire by blast
  obtain msg where "decode_message (push_call ''name'') = Some msg" using push_decodes(3) by blast
  from sample_line [OF this] have "request_line ?w ''call'' = Some (''7'', ''call'' @ [CHR 0x0A])" unfolding answer_irrelevant .
  from silence_taken_for_crash [OF acq this, of "''git''" "[]"] show ?thesis
    by (auto simp: call_style_def sample_world_def)
qed

text \<open>A call with a justification among its arguments, and an encoder that tells the cleaned request from every other.\<close>

definition why_request :: "json list \<Rightarrow> (string \<times> json) list" where
  "why_request why = [(''method'', JStr ''tools/call''), (''params'', JObj [(''name'', JStr ''git_push''),
     (''arguments'', JObj (map (Pair ''justification'') why @ [(''n'', JNum 1)]))])]"

definition why_json :: json_lib where
  "why_json = \<lparr>jl_Unmarshal = (\<lambda>s. if s = ''in'' then Inr (JObj (why_request [JStr ''because''])) else Inl (ErrNew ''no JSON'')),
     jl_Marshal = (\<lambda>v. if v = JObj (why_request []) then ''out'' else ''other'')\<rparr>"

theorem justification_not_forwarded_witness:
  "\<exists>c. parse_call why_json ''in'' = Inr c \<and> tc_body c = ''out'' \<and> tc_justification c = ''because'' \<and> map_of (tc_args c) ''justification'' = None"
proof -
  let ?params = "[(''name'', JStr ''git_push''), (''arguments'', JObj [(''justification'', JStr ''because''), (''n'', JNum 1)])]"
  obtain c where c: "parse_call why_json ''in'' = Inr c" "tc_body c = ''out''"
    by (simp add: parse_call_def why_json_def why_request_def Let_def)
  have u: "jl_Unmarshal why_json ''in'' = Inr (JObj (why_request [JStr ''because'']))" "map_of (why_request [JStr ''because'']) ''params'' = Some (JObj ?params)"
    by (simp_all add: why_json_def why_request_def)
  have "ParseArgsMap why_json (map_of ?params ''arguments'') = Inr [(''justification'', JStr ''because''), (''n'', JNum 1)]" by simp
  with justification_not_forwarded [OF c(1) u] c show ?thesis by auto
qed

end
