(* ===== verification/ToolLists.thy ===== *)
theory ToolLists
  imports Bridge
begin

text \<open>
  The listing of tools (\<open>handleToolsList\<close> of src/mcpbridge_routing.go and of src/mcp_handlers.go, \<open>handleRefreshToolsTool\<close> of
  src/mcpbridge_tools.go, \<open>v2toolsList\<close> and \<open>v2namespaceExpand\<close> of src/v2handler.go) and the dispatch of requests to
  handlers (src/mcpbridge.go, src/http_handlers.go, \<open>v2Handle\<close>). A handler that sends on a full channel of warm processes
  blocks, and one that assigns to a null entry of a list of tools panics: both are \<open>None\<close>. The background refresh that a
  listing starts is the separate step \<open>refreshBackendTools\<close>.
\<close>

section \<open>Asking a process for its tools\<close>

definition list_message :: "string \<Rightarrow> json" where
  "list_message reqID = JObj [(''jsonrpc'', JStr ''2.0''), (''method'', JStr ''tools/list''), (''id'', JStr reqID)]"

text \<open>The error of a response: a map, nil when it is absent or null.\<close>

fun set_error :: "json \<Rightarrow> (string, json) gomap option option \<Rightarrow> (string, json) gomap option option" where
  "set_error (JObj m) acc = map_option (\<lambda>e. Some (case e of Some m0 \<Rightarrow> m0 @ m | None \<Rightarrow> m)) acc"
| "set_error JNull acc = map_option (\<lambda>_. None) acc"
| "set_error _ acc = None"

definition decode_tool_list :: "json_lib \<Rightarrow> string \<Rightarrow> (json list \<times> (string, json) gomap option) option" where
  "decode_tool_list jl response =
     (case jl_Unmarshal jl response of
        Inl _ \<Rightarrow> None
      | Inr v \<Rightarrow>
          (case top_fields v of
             None \<Rightarrow> None
           | Some kvs \<Rightarrow>
               (case (Option.bind (object_field ''result'' kvs) (array_field ''tools''), fold set_error (members ''error'' kvs) (Some None)) of
                  (Some tools, Some err) \<Rightarrow> if list_all is_object tools then Some (tools, err) else None
                | _ \<Rightarrow> None)))"

definition show_error :: "'p world \<Rightarrow> (string, json) gomap \<Rightarrow> string" where
  "show_error w err = w_show w (JObj err)"

text \<open>The bare send \<open>pool.Warm <- proc\<close>.\<close>

definition give_back :: "string \<Rightarrow> ManagedProcess \<Rightarrow> 'p App \<Rightarrow> 'p App option" where
  "give_back key proc a =
     (case pool_at key a of
        None \<Rightarrow> None
      | Some p \<Rightarrow>
          if length (ch_buf (po_Warm p)) < ch_cap (po_Warm p) then map_option (\<lambda>p. set_pool key p a) (put_back proc p) else None)"

definition wait_warm :: "'p world \<Rightarrow> string \<Rightarrow> 'p App \<Rightarrow> ((goerr + ManagedProcess) \<times> 'p App) option" where
  "wait_warm w key a =
     (case pool_at key a of
        None \<Rightarrow> None
      | Some p \<Rightarrow> map_option (\<lambda>(r, p). (r, set_pool key p a)) (WaitForWarmWithMax (w_polls w key) (w_final w key) p))"

definition update_pool :: "string \<Rightarrow> (Pool \<Rightarrow> Pool) \<Rightarrow> 'p App \<Rightarrow> 'p App" where
  "update_pool key f a = (case pool_at key a of None \<Rightarrow> a | Some p \<Rightarrow> set_pool key (f p) a)"

definition pool_down :: "string \<Rightarrow> 'p App \<Rightarrow> bool" where
  "pool_down key a = (case pool_at key a of None \<Rightarrow> False | Some p \<Rightarrow> IsUnavailable p)"

text \<open>Store updates whose errors are only logged; the shift in the back-off of \<open>SetBackendUnavailable\<close> may panic.\<close>

definition upd_db :: "(db \<Rightarrow> goerr + db) \<Rightarrow> 'p App \<Rightarrow> 'p App" where
  "upd_db f a = (case f (st_db (app_store a)) of Inl _ \<Rightarrow> a | Inr db \<Rightarrow> a\<lparr>app_store := (app_store a)\<lparr>st_db := db\<rparr>\<rparr>)"

definition set_unavailable :: "'p world \<Rightarrow> string \<Rightarrow> string \<Rightarrow> 'p App \<Rightarrow> 'p App option" where
  "set_unavailable w backendID msg a =
     map_option (\<lambda>r. upd_db (\<lambda>_. r) a) (Store_SetBackendUnavailable (w_now w) backendID msg (st_db (app_store a)))"

definition set_available :: "'p world \<Rightarrow> string \<Rightarrow> 'p App \<Rightarrow> 'p App" where
  "set_available w backendID a =
     a\<lparr>app_store := (app_store a)\<lparr>st_db := snd (Store_SetBackendAvailable (w_now w) backendID (st_db (app_store a)))\<rparr>\<rparr>"

definition cache_tools :: "'p world \<Rightarrow> string \<Rightarrow> json list \<Rightarrow> 'p App \<Rightarrow> 'p App" where
  "cache_tools w backendID tools a =
     upd_db (Store_SetBackendCapabilities (w_now w) (marshal_tools (w_json w)) backendID tools) a"

section \<open>What a tool is listed as\<close>

definition annotate :: "(string, json) gomap \<Rightarrow> (string, json) gomap \<Rightarrow> (string, json) gomap" where
  "annotate notes m =
     AList.update ''annotations''
       (JObj (fold (\<lambda>(k, v). AList.update k v) notes (case json_object (map_of m ''annotations'') of Some n \<Rightarrow> n | None \<Rightarrow> []))) m"

definition add_tool_prefix :: "string \<Rightarrow> (string, json) gomap \<Rightarrow> (string, json) gomap" where
  "add_tool_prefix prefix m =
     (case map_of m ''name'' of
        Some (JStr n) \<Rightarrow> if prefix \<noteq> [] then AList.update ''name'' (JStr (prefix @ ''_'' @ n)) m else m
      | _ \<Rightarrow> m)"

definition unavailable_notes :: "(string, json) gomap" where
  "unavailable_notes = [(''unavailable'', JBool True),
     (''unavailable_reason'', JStr ''Backend temporarily unavailable - will retry automatically'')]"

definition decorate :: "string \<Rightarrow> string \<Rightarrow> bool \<Rightarrow> (string, json) gomap \<Rightarrow> (string, json) gomap" where
  "decorate prefix hints down m =
     (let m = add_tool_prefix prefix m;
          m = (if hints \<noteq> [] then annotate [(''hints'', JStr hints)] m else m)
      in if down then annotate unavailable_notes m else m)"

fun object_map :: "((string, json) gomap \<Rightarrow> (string, json) gomap) \<Rightarrow> json \<Rightarrow> json" where
  "object_map f (JObj m) = JObj (f m)"
| "object_map f v = v"

definition list_tools :: "AugmentSpec list \<Rightarrow> string \<Rightarrow> Backend \<Rightarrow> bool \<Rightarrow> json list \<Rightarrow> json list option" where
  "list_tools specs prefix b down tools =
     (let augment = (specs \<noteq> [] \<and> \<not> be_SkipJustification b)
      in if JNull \<in> set tools \<and> (be_ToolHints b \<noteq> [] \<or> down \<or> augment) then None
         else Some (map (object_map (\<lambda>m. let m = decorate prefix (be_ToolHints b) down m
                                         in if augment then augment_tool (be_ID b) specs m else m)) tools))"

definition justification_specs :: "'p App \<Rightarrow> AugmentSpec list" where
  "justification_specs a =
     (case app_enforcer a of
        None \<Rightarrow> []
      | Some e \<Rightarrow>
          (let n = ec_MinJustificationLength (ef_config e)
           in if n > 0
              then [\<lparr>as_Name = ''justification'', as_Type = ''string'',
                     as_Description = ''Required: explain why this tool call is necessary. Minimum '' @ itoa n @ '' characters.'',
                     as_MinLength = n, as_Required = True, as_ExemptBackends = []\<rparr>]
              else []))"

definition status_of :: "'p App \<Rightarrow> string \<Rightarrow> string" where
  "status_of a backendID =
     (case Store_ListBackendStatuses (st_db (app_store a)) of
        Inl _ \<Rightarrow> []
      | Inr sts \<Rightarrow> (case map_of (rev (map (\<lambda>s. (bt_BackendID s, bt_Status s)) sts)) backendID of Some s \<Rightarrow> s | None \<Rightarrow> []))"

section \<open>The list of the bridge\<close>

text \<open>The tools of one backend whose process was asked: what it answered decides the status that is stored.\<close>

definition list_answer :: "'p world \<Rightarrow> AugmentSpec list \<Rightarrow> Backend \<Rightarrow> string \<Rightarrow> 'p App \<Rightarrow> (json list \<times> 'p App) option" where
  "list_answer w specs b response a =
     (case decode_tool_list (w_json w) response of
        None \<Rightarrow> Some ([], a)
      | Some (tools, Some err) \<Rightarrow> map_option (Pair []) (set_unavailable w (be_ID b) (show_error w err) a)
      | Some (tools, None) \<Rightarrow>
          (let a = set_available w (be_ID b) (cache_tools w (be_ID b) tools a);
               prefix = GetPrefixForBackend (be_ID b) (app_muxer a)
           in map_option (\<lambda>ts. (ts, a)) (list_tools specs prefix b False tools)))"

definition unavailable_entry :: "string \<Rightarrow> string \<Rightarrow> string \<Rightarrow> json" where
  "unavailable_entry backendID suffix description = JObj [(''name'', JStr (backendID @ suffix)), (''description'', JStr description)]"

definition ask_tools :: "'p world \<Rightarrow> AugmentSpec list \<Rightarrow> Backend \<Rightarrow> string \<Rightarrow> 'p App \<Rightarrow> (json list \<times> 'p App) option" where
  "ask_tools w specs b key a =
     (case wait_warm w key a of
        None \<Rightarrow> None
      | Some (Inl err, a) \<Rightarrow> Some ([unavailable_entry (be_ID b) ''_unavailable'' (''Backend temporarily unavailable: '' @ w_errtext w err)], a)
      | Some (Inr proc, a) \<Rightarrow>
          (let reqID = ''list-'' @ be_ID b @ ''-'' @ itoa (w_now w)
           in case send_request w key reqID (30 * second) (jl_Marshal (w_json w) (list_message reqID) @ [CHR 0x0A]) a of
                None \<Rightarrow> None
              | Some (TimerFired, a) \<Rightarrow>
                  map_option (Pair []) (set_unavailable w (be_ID b) ''timeout waiting for tools/list'' (kill_proc key proc a))
              | Some (ev, a) \<Rightarrow>
                  (case (case answered ev of None \<Rightarrow> Some ([], a) | Some data \<Rightarrow> list_answer w specs b data a) of
                     None \<Rightarrow> None
                   | Some (tools, a) \<Rightarrow> map_option (Pair tools) (give_back key proc a))))"

definition list_backend ::
    "'p world \<Rightarrow> string \<Rightarrow> AugmentSpec list \<Rightarrow> (string, BackendCapabilities) gomap \<Rightarrow> (string \<Rightarrow> string) \<Rightarrow> Backend \<Rightarrow> 'p App \<Rightarrow>
     (json list \<times> 'p App) option" where
  "list_backend w userID specs caps status b a =
     (case getPoolForUser w userID (be_ID b) a of
        None \<Rightarrow> None
      | Some (None, _) \<Rightarrow> None
      | Some (Some key, a) \<Rightarrow>
          (let a = update_pool key (TouchLastUsed (w_now w)) a;
               a = (if status (be_ID b) = ''unavailable'' then update_pool key ForceReconnect a else a);
               prefix = GetPrefixForBackend (be_ID b) (app_muxer a)
           in if pool_down key a
              then (case map_of caps (be_ID b) of
                      None \<Rightarrow> Some ([], a)
                    | Some c \<Rightarrow> map_option (\<lambda>ts. (ts, a)) (list_tools specs prefix b True (bp_Tools c)))
              else (case map_of caps (be_ID b) of
                      Some c \<Rightarrow>
                        if bp_Tools c \<noteq> [] then map_option (\<lambda>ts. (ts, a)) (list_tools specs prefix b False (bp_Tools c))
                        else ask_tools w specs b key a
                    | None \<Rightarrow> ask_tools w specs b key a)))"

fun list_backends :: "(Backend \<Rightarrow> 'p App \<Rightarrow> (json list \<times> 'p App) option) \<Rightarrow> Backend list \<Rightarrow> 'p App \<Rightarrow> (json list \<times> 'p App) option" where
  "list_backends one [] a = Some ([], a)"
| "list_backends one (b # bs) a =
     (if \<not> be_Enabled b then list_backends one bs a
      else case one b a of
             None \<Rightarrow> None
           | Some (ts, a) \<Rightarrow> map_option (\<lambda>(rest, a). (ts @ rest, a)) (list_backends one bs a))"

definition tools_reply :: "json \<Rightarrow> json list \<Rightarrow> http_response" where
  "tools_reply i tools = \<lparr>hr_status = 200, hr_headers = [content_json],
     hr_body = Encoded (rpc_result (if i = JNull \<or> i = JStr [] then JNum 1 else i) (JObj [(''tools'', JArr tools)]))\<rparr>"

definition MCPBridgeServer_handleToolsList ::
    "'p world \<Rightarrow> string \<Rightarrow> string \<Rightarrow> json \<Rightarrow> 'p App \<Rightarrow> (http_response \<times> 'p App) option" where
  "MCPBridgeServer_handleToolsList w userID body i a =
     (case app_ListBackends w a of
        (Inl _, a) \<Rightarrow> MCPBridgeServer_handleDefaultBackend w userID body a
      | (Inr [], a) \<Rightarrow> MCPBridgeServer_handleDefaultBackend w userID body a
      | (Inr bs, a) \<Rightarrow>
          map_option (\<lambda>(tools, a). (tools_reply i (tools @ map JObj SystemToolsAsMap), a))
            (list_backends (list_backend w userID (justification_specs a) (cached_capabilities w a) (status_of a)) bs a))"

text \<open>The goroutine started by a listing from the cache.\<close>

definition refresh_answer :: "'p world \<Rightarrow> Backend \<Rightarrow> string \<Rightarrow> 'p App \<Rightarrow> 'p App option" where
  "refresh_answer w b response a =
     (case decode_tool_list (w_json w) response of
        None \<Rightarrow> Some a
      | Some (tools, Some err) \<Rightarrow> set_unavailable w (be_ID b) (show_error w err) a
      | Some (tools, None) \<Rightarrow> Some (if tools = [] then a else set_available w (be_ID b) (cache_tools w (be_ID b) tools a)))"

definition refreshBackendTools :: "'p world \<Rightarrow> string \<Rightarrow> Backend \<Rightarrow> 'p App \<Rightarrow> 'p App option" where
  "refreshBackendTools w userID b a =
     (case getPoolForUser w userID (be_ID b) a of
        None \<Rightarrow> None
      | Some (None, _) \<Rightarrow> None
      | Some (Some key, a) \<Rightarrow>
          (case wait_warm w key a of
             None \<Rightarrow> None
           | Some (Inl _, a) \<Rightarrow> Some a
           | Some (Inr proc, a) \<Rightarrow>
               (let reqID = ''refresh-'' @ be_ID b @ ''-'' @ itoa (w_now w)
                in case send_request w key reqID (30 * second) (jl_Marshal (w_json w) (list_message reqID) @ [CHR 0x0A]) a of
                     None \<Rightarrow> None
                   | Some (ev, a) \<Rightarrow>
                       Option.bind
                         (if ev = TimerFired
                          then set_unavailable w (be_ID b) ''timeout during background refresh'' (kill_proc key proc a)
                          else case answered ev of None \<Rightarrow> Some a | Some data \<Rightarrow> refresh_answer w b data a)
                         (give_back key proc))))"

section \<open>The older list and the refresh tool\<close>

text \<open>Both take a process only if one is warm. \<open>try_warm\<close> is the receive with a default; a nil process, from a closed
  channel, is dereferenced.\<close>

definition try_warm :: "string \<Rightarrow> 'p App \<Rightarrow> (ManagedProcess option \<times> 'p App) option" where
  "try_warm key a =
     (case pool_at key a of
        None \<Rightarrow> None
      | Some p \<Rightarrow>
          (case ch_try_recv (po_Warm p) of
             (NothingReady, _) \<Rightarrow> Some (None, a)
           | (ZeroValue, _) \<Rightarrow> None
           | (Value proc, c) \<Rightarrow> Some (Some proc, set_pool key (p\<lparr>po_Warm := c\<rparr>) a)))"

definition legacy_list_answer :: "'p world \<Rightarrow> Backend \<Rightarrow> string \<Rightarrow> 'p App \<Rightarrow> json list" where
  "legacy_list_answer w b response a =
     (case decode_tool_list (w_json w) response of
        Some (tools, None) \<Rightarrow> map (object_map (add_tool_prefix (GetPrefixForBackend (be_ID b) (app_muxer a)))) tools
      | _ \<Rightarrow> [])"

definition legacy_list_backend :: "'p world \<Rightarrow> string \<Rightarrow> Backend \<Rightarrow> 'p App \<Rightarrow> (json list \<times> 'p App) option" where
  "legacy_list_backend w userID b a =
     (case getPoolForUser w userID (be_ID b) a of
        None \<Rightarrow> None
      | Some (None, _) \<Rightarrow> None
      | Some (Some key, a) \<Rightarrow>
          (let a = update_pool key (TouchLastUsed (w_now w)) a
           in if pool_down key a then Some ([unavailable_entry (be_ID b) ''_unavailable'' ''Backend unavailable - check configuration''], a)
              else case try_warm key a of
                     None \<Rightarrow> None
                   | Some (None, a) \<Rightarrow> Some ([unavailable_entry (be_ID b) ''_starting'' ''Backend starting up or temporarily unavailable''], a)
                   | Some (Some proc, a) \<Rightarrow>
                       (let reqID = ''list-'' @ be_ID b @ ''-'' @ itoa (w_now w)
                        in case send_request w key reqID (10 * second) (jl_Marshal (w_json w) (list_message reqID) @ [CHR 0x0A]) a of
                             None \<Rightarrow> None
                           | Some (TimerFired, a) \<Rightarrow> Some ([], kill_proc key proc a)
                           | Some (ev, a) \<Rightarrow>
                               map_option (Pair (case answered ev of None \<Rightarrow> [] | Some data \<Rightarrow> legacy_list_answer w b data a))
                                 (give_back key proc a))))"

definition handleToolsList :: "'p world \<Rightarrow> string \<Rightarrow> string \<Rightarrow> json \<Rightarrow> 'p App \<Rightarrow> (http_response \<times> 'p App) option" where
  "handleToolsList w userID body i a =
     (case app_ListBackends w a of
        (Inl _, a) \<Rightarrow> handleDefaultBackend w [] userID body a
      | (Inr bs, a) \<Rightarrow>
          map_option (\<lambda>(tools, a). (tools_reply i (tools @ map JObj SystemToolsAsMap), a))
            (list_backends (legacy_list_backend w userID) bs a))"

definition refresh_lines :: "'p world \<Rightarrow> Backend \<Rightarrow> string \<Rightarrow> 'p App \<Rightarrow> string" where
  "refresh_lines w b response a =
     (case decode_tool_list (w_json w) response of
        None \<Rightarrow> []
      | Some (tools, Some err) \<Rightarrow> ''Backend '' @ be_ID b @ '' error: '' @ show_error w err @ nl
      | Some (tools, None) \<Rightarrow>
          (let prefix = GetPrefixForBackend (be_ID b) (app_muxer a)
           in ''Backend '' @ be_ID b @ '' (prefix: '' @ prefix @ ''):'' @ nl @
              concat (map (\<lambda>t. case t of
                  JObj m \<Rightarrow> (case map_of m ''name'' of
                      Some (JStr n) \<Rightarrow> ''- '' @ (if prefix \<noteq> [] then prefix @ ''_'' @ n else n) @ nl | _ \<Rightarrow> [])
                | _ \<Rightarrow> []) tools) @ nl))"

definition refresh_backend :: "'p world \<Rightarrow> string \<Rightarrow> Backend \<Rightarrow> 'p App \<Rightarrow> (string \<times> 'p App) option" where
  "refresh_backend w userID b a =
     (case getPoolForUser w userID (be_ID b) a of
        None \<Rightarrow> None
      | Some (None, _) \<Rightarrow> None
      | Some (Some key, a) \<Rightarrow>
          (case try_warm key (update_pool key (TouchLastUsed (w_now w)) a) of
             None \<Rightarrow> None
           | Some (None, a) \<Rightarrow> Some (''Backend '' @ be_ID b @ '': no warm process available'' @ nl @ nl, a)
           | Some (Some proc, a) \<Rightarrow>
               (let reqID = ''list-'' @ be_ID b @ ''-'' @ itoa (w_now w)
                in case send_request w key reqID (10 * second) (jl_Marshal (w_json w) (list_message reqID) @ [CHR 0x0A]) a of
                     None \<Rightarrow> None
                   | Some (ev, a) \<Rightarrow>
                       map_option (Pair (if ev = TimerFired then ''Backend '' @ be_ID b @ '': timeout getting tools'' @ nl @ nl
                           else case answered ev of None \<Rightarrow> [] | Some data \<Rightarrow> refresh_lines w b data a))
                         (give_back key proc a))))"

fun refresh_backends :: "'p world \<Rightarrow> string \<Rightarrow> Backend list \<Rightarrow> 'p App \<Rightarrow> (string \<times> 'p App) option" where
  "refresh_backends w userID [] a = Some ([], a)"
| "refresh_backends w userID (b # bs) a =
     (if \<not> be_Enabled b then refresh_backends w userID bs a
      else case refresh_backend w userID b a of
             None \<Rightarrow> None
           | Some (t, a) \<Rightarrow> map_option (\<lambda>(rest, a). (t @ rest, a)) (refresh_backends w userID bs a))"

definition handleRefreshToolsTool :: "'p world \<Rightarrow> string \<Rightarrow> 'p App \<Rightarrow> (string \<times> 'p App) option" where
  "handleRefreshToolsTool w userID a =
     (case app_ListBackends w a of
        (Inl err, a) \<Rightarrow> Some (''Error listing backends: '' @ w_errtext w err, a)
      | (Inr bs, a) \<Rightarrow>
          map_option (\<lambda>(t, a). (''mcpbridge system tools:'' @ nl @ ''- mcpbridge_ping'' @ nl @ ''- mcpbridge_version'' @ nl @ ''- mcpbridge_list_backends'' @ nl @
            ''- mcpbridge_refresh_tools'' @ nl @ nl @ ''Backend tools:'' @ nl @ t, a)) (refresh_backends w userID bs a))"

end
