(* ===== verification/Endpoints.thy ===== *)
theory Endpoints
  imports ToolLists
begin

text \<open>
  The namespaced endpoint (src/v2handler.go) apart from its tool call, and the dispatch of requests (src/mcpbridge.go,
  src/http_handlers.go). A request is its method, its user, \<open>[]\<close> when it has none, and its body. \<open>ToSDK\<close> stands for
  handing the request to the MCP library. The event stream of \<open>sseHandler\<close> is not modelled.
\<close>

section \<open>Validation\<close>

definition ValidateInitializeResponse :: "(string, json) gomap \<Rightarrow> goerr option" where
  "ValidateInitializeResponse resp =
     (case json_object (map_of resp ''result'') of
        None \<Rightarrow> Some (ErrNew ''missing result'')
      | Some result \<Rightarrow>
          if (case map_of result ''protocolVersion'' of Some (JStr _) \<Rightarrow> False | _ \<Rightarrow> True) then Some (ErrNew ''missing protocolVersion'')
          else if json_object (map_of result ''capabilities'') = None then Some (ErrNew ''missing capabilities'')
          else if json_object (map_of result ''serverInfo'') = None then Some (ErrNew ''missing serverInfo'')
          else None)"

fun validate_tools :: "int \<Rightarrow> json list \<Rightarrow> goerr option" where
  "validate_tools i [] = None"
| "validate_tools i (JObj m # ts) =
     (case map_of m ''name'' of
        Some (JStr _) \<Rightarrow> validate_tools (i + 1) ts
      | _ \<Rightarrow> Some (ErrNew (''tool '' @ itoa i @ '': missing name'')))"
| "validate_tools i (_ # ts) = Some (ErrNew (''tool '' @ itoa i @ '': not a map''))"

definition ValidateToolsListResponse :: "(string, json) gomap \<Rightarrow> goerr option" where
  "ValidateToolsListResponse resp =
     (case json_object (map_of resp ''result'') of
        None \<Rightarrow> Some (ErrNew ''missing result'')
      | Some result \<Rightarrow> (case json_array (map_of result ''tools'') of Some ts \<Rightarrow> validate_tools 0 ts | None \<Rightarrow> None))"

definition ValidateToolsCallResponse :: "(string, json) gomap \<Rightarrow> goerr option" where
  "ValidateToolsCallResponse resp =
     (case json_object (map_of resp ''result'') of
        None \<Rightarrow> Some (ErrNew ''missing result'')
      | Some result \<Rightarrow> if json_array (map_of result ''tools'') = Some [] then Some (ErrNew ''empty tools array'') else None)"

section \<open>The tools of the namespaced endpoint\<close>

definition typed :: "string \<Rightarrow> string \<Rightarrow> json" where
  "typed t description = JObj [(''type'', JStr t), (''description'', JStr description)]"

definition object_schema :: "(string, json) gomap \<Rightarrow> string list \<Rightarrow> json" where
  "object_schema props required =
     JObj [(''type'', JStr ''object''), (''properties'', JObj props), (''required'', JArr (map JStr required))]"

definition tool_entry :: "string \<Rightarrow> string \<Rightarrow> json \<Rightarrow> json" where
  "tool_entry name description schema = JObj [(''name'', JStr name), (''description'', JStr description), (''inputSchema'', schema)]"

definition generic_tools :: "json list" where
  "generic_tools =
     [tool_entry ''namespace_expand''
        (''Returns the full list of available tools in a given namespace. Call this with {'' @ quoted ''namespace'' @ '': '' @
         quoted ''<backend_id>'' @ ''} to discover available tools in that namespace. You MUST call this before calling tool_call for a backend you haven'' @ [CHR 0x27] @ ''t used yet.'')
        (object_schema [(''namespace'', typed ''string'' ''The backend namespace to expand (e.g., default, qdrant, github)'')] [''namespace'']),
      tool_entry ''tool_call''
        ''Executes a named tool in a given namespace. See namespace_expand for available tools in each namespace.''
        (object_schema [(''namespace'', typed ''string'' ''Backend namespace''), (''tool'', typed ''string'' ''Tool name to execute''),
           (''params'', typed ''object'' ''Tool parameters''), (''justification'', typed ''string'' ''Reason for the tool call'')]
           [''namespace'', ''tool''])]"

text \<open>The identifier with the first letter of each part between underscores in upper case; a first byte outside ASCII is
  re-encoded by the code and left alone here.\<close>

definition capitalize :: "string \<Rightarrow> string" where
  "capitalize s = (case s of [] \<Rightarrow> [] | c # cs \<Rightarrow> upper_char c # cs)"

definition capitalizedID :: "string \<Rightarrow> string" where
  "capitalizedID i = Join (map capitalize (Split i (CHR ''_''))) ''_''"

definition v2_min_justification :: "'p App \<Rightarrow> int" where
  "v2_min_justification a = (case app_enforcer a of Some e \<Rightarrow> GetMinJustificationLength e | None \<Rightarrow> 40)"

definition expand_entry :: "Backend \<Rightarrow> json" where
  "expand_entry b = tool_entry (be_ID b @ ''_expand'')
     (''Returns the full list of available tools in the '' @ capitalizedID (be_ID b) @
      '' namespace, including parameter names, types, and descriptions. You MUST call this tool before calling MCP_Bridge_'' @ be_ID b @
      ''_call. Do not attempt to guess tool names '' @ [CHR 0xE2, CHR 0x80, CHR 0x94] @ '' call this first.'')
     (JObj [(''type'', JStr ''object''), (''properties'', JObj [])])"

definition call_entry :: "int \<Rightarrow> Backend \<Rightarrow> json" where
  "call_entry minLen b = tool_entry (be_ID b @ ''_call'')
     (''Executes a named tool in the '' @ capitalizedID (be_ID b) @ '' namespace. The value of '' @ [CHR 0x60] @ ''tool'' @ [CHR 0x60] @
      '' must exactly match a tool name returned by MCP_Bridge_'' @ be_ID b @ ''_expand. If you have not called MCP_Bridge_'' @ be_ID b @
      ''_expand in this session, do so before calling this tool. Do not guess tool names.'' @
      (if \<not> be_SkipJustification b then '' Justification required (minimum '' @ itoa minLen @ '' characters).'' else '' No justification required.'') @
      '' Some tools may require your approval - check expand output before calling.'')
     (object_schema
        [(''tool'', typed ''string'' (''Exact tool name as returned by MCP_Bridge_'' @ be_ID b @ ''_expand. Do not infer or guess this value '' @ [CHR 0xE2, CHR 0x80, CHR 0x94] @ '' call MCP_Bridge_'' @
            be_ID b @ ''_expand first if you have not already done so.'')),
         (''params'', typed ''object'' ''Tool parameters''),
         (''justification'', JObj [(''type'', JStr ''string''),
            (''description'', JStr (''Reason for this tool call (minimum '' @ itoa minLen @ '' characters)'')), (''minLength'', JNum (of_int minLen))])]
        (if \<not> be_SkipJustification b then [''tool'', ''justification''] else [''tool'']))"

definition namespace_tools :: "int \<Rightarrow> Backend list \<Rightarrow> json list" where
  "namespace_tools minLen bs =
     generic_tools @ concat (map (\<lambda>b. if be_Enabled b then [expand_entry b, call_entry minLen b] else []) bs)"

definition v2toolsList :: "'p world \<Rightarrow> json \<Rightarrow> 'p App \<Rightarrow> http_response \<times> 'p App" where
  "v2toolsList w i a =
     (case app_ListBackends w a of
        (Inl _, a) \<Rightarrow> (http_error [] ''Internal Server Error'' 500, a)
      | (Inr bs, a) \<Rightarrow>
          (\<lparr>hr_status = 200, hr_headers = [content_json],
            hr_body = Encoded (rpc_result i (JObj [(''tools'', JArr (namespace_tools (v2_min_justification a) bs))]))\<rparr>, a))"

text \<open>The identifier of a session begins with the first eight bytes of the user; slicing a shorter one panics.\<close>

definition v2Initialize :: "'p world \<Rightarrow> string \<Rightarrow> json \<Rightarrow> http_response option" where
  "v2Initialize w userID i =
     (if length userID < 8 then None
      else Some \<lparr>hr_status = 200,
        hr_headers = [(''MCP-Session-Id'', ''session-'' @ itoa (w_now w) @ ''-'' @ take 8 userID), content_json],
        hr_body = Encoded (rpc_result i (JObj [(''protocolVersion'', JStr ''2024-11-05''),
          (''capabilities'', JObj [(''tools'', JObj [(''listChanged'', JBool True)])]),
          (''serverInfo'', JObj [(''name'', JStr ''mcp-bridge-v2''), (''version'', JStr ''2.0.0'')])]))\<rparr>)"

section \<open>Expanding a namespace\<close>

text \<open>The first sentence: up to and including the first period or newline that is not at the start.\<close>

definition first_sentence :: "string \<Rightarrow> string" where
  "first_sentence desc =
     (let pre = takeWhile (\<lambda>c. c \<noteq> CHR ''.'' \<and> c \<noteq> CHR 0x0A) desc
      in if pre \<noteq> [] \<and> length pre < length desc then take (Suc (length pre)) desc else desc)"

definition param_text :: "'p world \<Rightarrow> (string, json) gomap \<Rightarrow> json \<Rightarrow> string" where
  "param_text w props req =
     (let key = (case req of JStr s \<Rightarrow> s | _ \<Rightarrow> [])
      in key @ (case json_object (map_of props key) of
           None \<Rightarrow> []
         | Some prop \<Rightarrow>
             (case json_array (map_of prop ''enum'') of
                Some vals \<Rightarrow> '' (one of: '' @ Join (map (w_show w) vals) ''|'' @ '')''
              | None \<Rightarrow> (case map_of prop ''type'' of Some (JStr t) \<Rightarrow> '' ('' @ t @ '')'' | _ \<Rightarrow> []))))"

definition required_text :: "'p world \<Rightarrow> (string, json) gomap \<Rightarrow> string" where
  "required_text w t =
     (case json_object (map_of t ''inputSchema'') of
        None \<Rightarrow> []
      | Some schema \<Rightarrow>
          (case (json_array (map_of schema ''required''), json_object (map_of schema ''properties'')) of
             (Some (r # rs), Some props) \<Rightarrow> ''  Required params: '' @ Join (map (param_text w props) (r # rs)) '', '' @ nl
           | _ \<Rightarrow> []))"

definition tool_text :: "'p world \<Rightarrow> json \<Rightarrow> string" where
  "tool_text w v =
     (let t = (case v of JObj m \<Rightarrow> m | _ \<Rightarrow> [])
      in ''- '' @ string_or_empty (map_of t ''name'') @ '': '' @ first_sentence (string_or_empty (map_of t ''description'')) @ nl @
         required_text w t)"

definition tools_text :: "'p world \<Rightarrow> string \<Rightarrow> json list \<Rightarrow> string" where
  "tools_text w namespace tools =
     ''Available tools in namespace '' @ [CHR 0x27] @ namespace @ [CHR 0x27] @ '' ('' @ itoa (int (length tools)) @ '' tools):'' @ nl @ nl @
     [CHR 0xE2, CHR 0x9A, CHR 0xA0] @ '' Some tools may require your approval before execution. If a call is intercepted, use mcpbridge_approval_status with the returned approval_id to poll for the result.'' @ nl @ nl @
     concat (map (tool_text w) tools)"

definition expand_reply :: "'p world \<Rightarrow> string \<Rightarrow> json \<Rightarrow> goerr + json list \<Rightarrow> http_response" where
  "expand_reply w namespace i r =
     (case r of
        Inl err \<Rightarrow> \<lparr>hr_status = 200, hr_headers = [content_json], hr_body = Encoded (rpc_error i (error_fields (-32003) (w_errtext w err)))\<rparr>
      | Inr tools \<Rightarrow> \<lparr>hr_status = 200, hr_headers = [content_json, close_conn],
          hr_body = Marshalled (rpc_result i (JObj [(''content'', JArr [JObj [(''type'', JStr ''text''),
            (''text'', JStr (tools_text w namespace tools))]]), (''tools'', JArr tools)]))\<rparr>)"

definition expand_answer :: "'p world \<Rightarrow> string \<Rightarrow> chan_event \<Rightarrow> goerr + json list" where
  "expand_answer w backendID ev =
     (if ev = TimerFired then Inl (ErrNew (''timeout waiting for tools/list from backend '' @ backendID))
      else case answered ev of
             None \<Rightarrow> Inl (ErrNew (''empty or invalid response from backend '' @ backendID))
           | Some data \<Rightarrow>
               (case decode_tool_list (w_json w) data of
                  None \<Rightarrow> Inl (ErrNew (''JSON unmarshal error from backend '' @ backendID))
                | Some (tools, Some err) \<Rightarrow> Inl (ErrNew (''tools/list error from backend '' @ backendID @ '': '' @ show_error w err))
                | Some (tools, None) \<Rightarrow> Inr tools))"

definition expand_backend :: "'p world \<Rightarrow> string \<Rightarrow> string \<Rightarrow> 'p App \<Rightarrow> ((goerr + json list) \<times> 'p App) option" where
  "expand_backend w userID backendID a =
     (case getPoolForUser w userID backendID a of
        None \<Rightarrow> None
      | Some (None, _) \<Rightarrow> None
      | Some (Some key, a) \<Rightarrow>
          (case wait_warm w key (update_pool key (TouchLastUsed (w_now w)) a) of
             None \<Rightarrow> None
           | Some (Inl err, a) \<Rightarrow> Some (Inl err, a)
           | Some (Inr proc, a) \<Rightarrow>
               (let reqID = ''list-'' @ backendID @ ''-'' @ itoa (w_now w)
                in case send_request w key reqID (30 * second) (jl_Marshal (w_json w) (list_message reqID) @ [CHR 0x0A]) a of
                     None \<Rightarrow> None
                   | Some (ev, a) \<Rightarrow>
                       map_option (Pair (expand_answer w backendID ev))
                         (give_back key proc (if ev = TimerFired then kill_proc key proc a else a)))))"

definition v2namespaceExpand ::
    "'p world \<Rightarrow> string \<Rightarrow> (string, json) gomap \<Rightarrow> json \<Rightarrow> 'p App \<Rightarrow> (http_response \<times> 'p App) option" where
  "v2namespaceExpand w userID params i a =
     (let namespace = string_or_empty (map_of params ''namespace'')
      in if namespace = [] then Some (missing_param ''namespace'', a)
         else if namespace = ''mcpbridge'' then Some (expand_reply w namespace i (Inr (map JObj SystemToolsAsMap)), a)
         else case app_GetBackend w namespace a of
                (Inl _, a) \<Rightarrow> Some (http_error [] (''Backend '' @ namespace @ '' not found'') 404, a)
              | (Inr b, a) \<Rightarrow>
                  if \<not> be_Enabled b then Some (http_error [] (''Backend '' @ namespace @ '' is disabled'') 503, a)
                  else map_option (\<lambda>(r, a). (expand_reply w namespace i r, a)) (expand_backend w userID (be_ID b) a))"

section \<open>Dispatch of the namespaced endpoint\<close>

datatype v2_target = Expand | ExpandOf string | Call | CallOf string | Unknown string

definition v2_target_of :: "string \<Rightarrow> v2_target" where
  "v2_target_of name =
     (let toolName = TrimPrefix name ''MCP_Bridge_v2_''
      in if toolName = ''namespace_expand'' \<or> toolName = ''MCP_Bridge_v2_namespace_expand'' then Expand
         else if toolName = ''tool_call'' \<or> toolName = ''MCP_Bridge_v2_tool_call'' then Call
         else if HasSuffix toolName ''_expand'' then ExpandOf (TrimSuffix toolName ''_expand'')
         else if HasSuffix toolName ''_call'' then CallOf (TrimSuffix toolName ''_call'')
         else Unknown toolName)"

text \<open>The name and the arguments of a call: arguments that are not an object are replaced by all other parameters.\<close>

definition v2_params :: "(string, json) gomap \<Rightarrow> string \<times> (string, json) gomap" where
  "v2_params p =
     (let name = string_or_empty (map_of p ''name'')
      in (name, case json_object (map_of p ''arguments'') of
                  Some args \<Rightarrow> args
                | None \<Rightarrow> if name \<noteq> [] then filter (\<lambda>(k, _). k \<noteq> ''name'') p else []))"

definition bad_call_params :: "'p world \<Rightarrow> json \<Rightarrow> string \<Rightarrow> string \<Rightarrow> json option \<Rightarrow> http_response" where
  "bad_call_params w i namespace tool raw =
     writeJSONRPCError i (-32602)
       (''Invalid '' @ [CHR 0x27] @ ''params'' @ [CHR 0x27] @ '' argument for tool '' @ quoted tool @ '' in namespace '' @ quoted namespace @
        ''. The '' @ [CHR 0x27] @ ''params'' @ [CHR 0x27] @ '' field must be a JSON object (e.g. '' @ ''{'' @ quoted ''key'' @ '': '' @ quoted ''value'' @ ''}'' @ ''), but got '' @ go_type raw @
        ''. Hint: Do not JSON-encode the params value '' @ [CHR 0xE2, CHR 0x80, CHR 0x94] @ '' pass it as a raw object.'')
       (Some (JObj [(''error'', JStr ''invalid_params_type''), (''namespace'', JStr namespace), (''tool'', JStr tool),
          (''got_type'', JStr (go_type raw)), (''raw_value'', JStr (case raw of None \<Rightarrow> ''<nil>'' | Some v \<Rightarrow> w_show w v)),
          (''hint'', JStr (''The '' @ [CHR 0x27] @ ''params'' @ [CHR 0x27] @ '' field must be a JSON object, not a string or other type''))]))"

definition v2_call_namespace ::
    "'p world \<Rightarrow> string \<Rightarrow> string \<Rightarrow> (string, json) gomap \<Rightarrow> json \<Rightarrow> 'p App \<Rightarrow> (http_response \<times> 'p App) option" where
  "v2_call_namespace w userID namespace args i a =
     (let tool = string_or_empty (map_of args ''tool''); justification = string_or_empty (map_of args ''justification'')
      in case ParseArgsMap (w_json w) (map_of args ''params'') of
           Inl _ \<Rightarrow> Some (bad_call_params w i namespace tool (map_of args ''params''), a)
         | Inr params \<Rightarrow>
             v2toolCall w userID ([(''namespace'', JStr namespace), (''tool'', JStr tool), (''params'', JObj params)] @
               (if justification \<noteq> [] then [(''justification'', JStr justification)] else [])) i a)"

definition method_not_found :: "json \<Rightarrow> string \<Rightarrow> http_response" where
  "method_not_found i msg = \<lparr>hr_status = 200, hr_headers = [content_json], hr_body = Encoded (rpc_error i (error_fields (-32601) msg))\<rparr>"

definition v2_tools_call :: "'p world \<Rightarrow> string \<Rightarrow> JSONRPCMessage \<Rightarrow> 'p App \<Rightarrow> (http_response \<times> 'p App) option" where
  "v2_tools_call w userID msg a =
     (case rm_Params msg of
        JObj p \<Rightarrow>
          (let (name, args) = v2_params p; i = rm_ID msg
           in case v2_target_of name of
                Expand \<Rightarrow> v2namespaceExpand w userID args i a
              | Call \<Rightarrow> v2toolCall w userID args i a
              | ExpandOf ns \<Rightarrow> v2namespaceExpand w userID [(''namespace'', JStr ns)] i a
              | CallOf ns \<Rightarrow> v2_call_namespace w userID ns args i a
              | Unknown t \<Rightarrow> Some (method_not_found i (''Method not found: '' @ t), a))
      | v \<Rightarrow> Some (http_error [] (''Invalid params type in tools/call: '' @ go_type (Some v)) 400, a))"

definition decoded_message :: "'p world \<Rightarrow> string \<Rightarrow> JSONRPCMessage option" where
  "decoded_message w body =
     (case jl_Unmarshal (w_json w) body of Inl _ \<Rightarrow> None | Inr v \<Rightarrow> decode_message v)"

definition v2Handle :: "'p world \<Rightarrow> string \<Rightarrow> string \<Rightarrow> 'p App \<Rightarrow> (http_response \<times> 'p App) option" where
  "v2Handle w userID body a =
     (case decoded_message w body of
        None \<Rightarrow> Some (http_error [] ''Invalid JSON-RPC request'' 400, a)
      | Some msg \<Rightarrow>
          if rm_Method msg = ''initialize'' then map_option (\<lambda>r. (r, a)) (v2Initialize w userID (rm_ID msg))
          else if rm_Method msg = ''tools/list'' then Some (v2toolsList w (rm_ID msg) a)
          else if rm_Method msg = ''tools/call'' then v2_tools_call w userID msg a
          else Some (method_not_found (rm_ID msg) ''Method not found'', a))"

definition v2HandleWrapper :: "'p world \<Rightarrow> string \<Rightarrow> string \<Rightarrow> string \<Rightarrow> 'p App \<Rightarrow> (http_response \<times> 'p App) option" where
  "v2HandleWrapper w userID httpMethod body a =
     (if userID = [] then Some (http_error [] ''unauthorized'' 401, a)
      else if httpMethod = ''GET''
      then Some (\<lparr>hr_status = 405, hr_headers = [content_json, (''Accept'', ''application/json''), (''X-Content-Type-Options'', ''nosniff'')],
             hr_body = Encoded (rpc_error JNull (error_fields (-32000) ''GET not supported for v2 endpoint - use POST for tool calls''))\<rparr>, a)
      else v2Handle w userID body a)"

section \<open>Dispatch of the bridge and of the older endpoint\<close>

datatype outcome = Replied http_response | ToSDK

definition names_system_tool :: "'p world \<Rightarrow> string \<Rightarrow> bool" where
  "names_system_tool w body =
     (case legacy_params (w_json w) body of
        None \<Rightarrow> False
      | Some params \<Rightarrow> (case map_of params ''name'' of Some (JStr n) \<Rightarrow> IsSystemTool n | _ \<Rightarrow> False))"

definition Handler :: "'p world \<Rightarrow> string \<Rightarrow> string \<Rightarrow> string \<Rightarrow> 'p App \<Rightarrow> (outcome \<times> 'p App) option" where
  "Handler w userID httpMethod body a =
     (if userID = [] then Some (Replied (http_error [] ''unauthorized'' 401), a)
      else if httpMethod = ''POST''
      then (case decoded_message w body of
              None \<Rightarrow> Some (ToSDK, a)
            | Some msg \<Rightarrow>
                if rm_Method msg = ''tools/list''
                then map_option (map_prod Replied id) (MCPBridgeServer_handleToolsList w userID body (rm_ID msg) a)
                else if rm_Method msg = ''tools/call''
                then if names_system_tool w body then Some (ToSDK, a)
                     else map_option (map_prod Replied id) (MCPBridgeServer_handleToolsCall w userID body (rm_ID msg) a)
                else Some (ToSDK, a))
      else Some (ToSDK, a))"

definition messagesHandler :: "'p world \<Rightarrow> string \<Rightarrow> string \<Rightarrow> 'p App \<Rightarrow> (http_response \<times> 'p App) option" where
  "messagesHandler w userID body a =
     (if userID = [] then Some (http_error [] ''unauthorized'' 401, a)
      else case decoded_message w body of
             None \<Rightarrow> Some (http_error [] ''Invalid JSON-RPC'' 400, a)
           | Some msg \<Rightarrow>
               if rm_Method msg = ''initialize'' then Some (handleInitialize (rm_ID msg), a)
               else if rm_Method msg = ''tools/list'' then handleToolsList w userID body (rm_ID msg) a
               else if rm_Method msg = ''tools/call'' then handleToolsCall w userID body (rm_ID msg) a
               else handleDefaultBackend w [] userID body a)"

definition healthzHandler :: http_response where
  "healthzHandler = \<lparr>hr_status = 200, hr_headers = [], hr_body = Raw ''OK''\<rparr>"

definition readyzHandler :: "'p App \<Rightarrow> http_response" where
  "readyzHandler a =
     (if PoolCount (app_pools a) > 0 then \<lparr>hr_status = 200, hr_headers = [], hr_body = Raw ''OK''\<rparr>
      else \<lparr>hr_status = 503, hr_headers = [], hr_body = Raw ''No pools''\<rparr>)"

fun find_available :: "'p world \<Rightarrow> string \<Rightarrow> string \<Rightarrow> Backend list \<Rightarrow> 'p App \<Rightarrow> ((string \<times> string) option \<times> 'p App) option" where
  "find_available w userID excluded [] a = Some (None, a)"
| "find_available w userID excluded (b # bs) a =
     (if be_Enabled b \<and> be_ID b \<noteq> excluded
      then case getPoolForUser w userID (be_ID b) a of
             None \<Rightarrow> None
           | Some (None, _) \<Rightarrow> None
           | Some (Some key, a) \<Rightarrow> if \<not> pool_down key a then Some (Some (key, be_ID b), a) else find_available w userID excluded bs a
      else find_available w userID excluded bs a)"

definition findAvailableBackend :: "'p world \<Rightarrow> string \<Rightarrow> string \<Rightarrow> 'p App \<Rightarrow> ((string \<times> string) option \<times> 'p App) option" where
  "findAvailableBackend w userID excluded a =
     (case app_ListBackends w a of (Inl _, a) \<Rightarrow> Some (None, a) | (Inr bs, a) \<Rightarrow> find_available w userID excluded bs a)"

section \<open>Names that lead back\<close>

lemma annotate_name: "map_of (annotate notes m) ''name'' = map_of m ''name''"
  by (simp add: annotate_def gomap_simps)

lemma augment_name: "map_of (augment_tool b specs m) ''name'' = map_of m ''name''"
  by (simp add: augment_tool_def gomap_simps Let_def split: prod.splits)

lemma decorate_name:
  "map_of m ''name'' = Some (JStr n) \<Longrightarrow> prefix \<noteq> [] \<Longrightarrow> map_of (decorate prefix hints down m) ''name'' = Some (JStr (prefix @ ''_'' @ n))"
  by (simp add: decorate_def add_tool_prefix_def annotate_name gomap_simps Let_def)

lemma found_by_prefix:
  assumes "gomap_wf (tm_backendPrefixes tm)" and "separated (tm_backendPrefixes tm)" and "(p, b) \<in> set (tm_backendPrefixes tm)"
  shows "FindBackendForTool lib sys (p @ ''_'' @ n) tm st = (Inr (b, p), st)"
proof -
  have m: "prefix_matches (p @ ''_'' @ n) p" by (simp add: prefix_matches_def HasPrefix_iff)
  have "find (\<lambda>(prefix, _). prefix_matches (p @ ''_'' @ n) prefix) (tm_backendPrefixes tm) = Some (p, b)"
  proof (rule find_unique [OF assms(3)])
    fix y assume y: "y \<in> set (tm_backendPrefixes tm)" "case y of (prefix, _) \<Rightarrow> prefix_matches (p @ ''_'' @ n) prefix"
    have "fst y = p"
      by (rule separated_unique [OF assms(2), where t = "p @ ''_'' @ n"]) (use y assms(3) m in \<open>auto intro: rev_image_eqI\<close>)
    then show "y = (p, b)"
      using eq_key_imp_eq_value [of "tm_backendPrefixes tm" p "snd y" b] assms(1,3) y(1) by (cases y) (simp add: gomap_wf_def)
  qed (use m in simp)
  then show ?thesis by (simp add: FindBackendForTool_def)
qed

lemma prefix_registered: "GetPrefixForBackend b tm = p \<Longrightarrow> p \<noteq> [] \<Longrightarrow> (p, b) \<in> set (tm_backendPrefixes tm)"
  by (auto simp: GetPrefixForBackend_def dest!: find_SomeD split: option.splits)

lemma strip_listed: "\<not> HasPrefix n (p @ ''/'') \<Longrightarrow> strip_name p (p @ ''_'' @ n) = n"
  using TrimPrefix_append [of "p @ ''_''" n] by (simp add: strip_name_def) (simp add: TrimPrefix_def)

text \<open>C30: A listed tool can be called under the name it is listed by: whatever hints, notes and parameters the listing adds to a tool of a
  backend with a prefix, it is listed under the prefix, an underscore and its own name, and a call to that name is routed back to
  the same backend, as long as no registered prefix begins with another one and a separator. What the muxer makes of that name for the backend is
  the tool's own name again, unless that begins with the prefix and a slash, which is taken off as well.\<close>

theorem listed_tool_routes_back:
  assumes "gomap_wf (tm_backendPrefixes tm)" and "separated (tm_backendPrefixes tm)"
    and "GetPrefixForBackend (be_ID b) tm = p" and "p \<noteq> []"
    and "list_tools specs p b down tools = Some ts" and "k < length tools" and "tools ! k = JObj m" and "map_of m ''name'' = Some (JStr n)"
  shows "\<exists>m'. ts ! k = JObj m' \<and> map_of m' ''name'' = Some (JStr (p @ ''_'' @ n)) \<and>
    FindBackendForTool lib sys (p @ ''_'' @ n) tm st = (Inr (be_ID b, p), st) \<and>
    (\<not> HasPrefix n (p @ ''/'') \<longrightarrow> strip_name p (p @ ''_'' @ n) = n)"
  using assms(5-8) decorate_name [OF assms(8) assms(4)] found_by_prefix [OF assms(1,2) prefix_registered [OF assms(3,4)]] strip_listed [of n p]
  by (auto simp: list_tools_def Let_def augment_name split: if_splits)

definition push_tool :: json where
  "push_tool = JObj [(''name'', JStr ''push''), (''description'', JStr ''Push a branch'')]"

definition git_row :: Backend where
  "git_row = \<lparr>be_ID = ''g'', be_Command = ''cat'', be_PoolSize = 1, be_ToolPrefix = ''git'', be_Env = [], be_EnvMappings = [],
     be_ToolHints = ''small pushes'', be_BackendInstructions = [], be_Enabled = True, be_IsSystem = False, be_MinPoolSize = 0,
     be_MaxPoolSize = 0, be_SelfReporting = False, be_NoKeysRequired = False, be_SkipJustification = False, be_StdioFraming = [],
     be_EncryptedEnv = [], be_PrecacheError = [], be_PrecacheErrorAt = None\<rparr>"

theorem listed_tool_routes_back_witness:
  "\<exists>ts m'. list_tools [] ''git'' git_row True [push_tool] = Some ts \<and> ts ! 0 = JObj m' \<and> map_of m' ''name'' = Some (JStr ''git_push'') \<and>
    FindBackendForTool sample_lib sample_os ''git_push'' (muxer_with [(''git'', ''g''), (''jira'', ''j'')]) None = (Inr (''g'', ''git''), None) \<and>
    strip_name ''git'' ''git_push'' = ''push''"
proof -
  let ?tm = "muxer_with [(''git'', ''g''), (''jira'', ''j'')]"
  have wf: "gomap_wf (tm_backendPrefixes ?tm)" "separated (tm_backendPrefixes ?tm)"
    by (auto simp: muxer_with_def gomap_wf_def separated_def prefix_matches_def)
  have p: "GetPrefixForBackend (be_ID git_row) ?tm = ''git''" by (simp add: GetPrefixForBackend_def muxer_with_def git_row_def)
  obtain ts where ts: "list_tools [] ''git'' git_row True [push_tool] = Some ts"
    by (simp add: list_tools_def push_tool_def git_row_def)
  have t: "[push_tool] ! 0 = JObj [(''name'', JStr ''push''), (''description'', JStr ''Push a branch'')]" by (simp add: push_tool_def)
  have id: "be_ID git_row = ''g''" by (simp add: git_row_def)
  from listed_tool_routes_back [OF wf p _ ts _ t, of "''push''" sample_lib sample_os None] ts show ?thesis
    unfolding id by auto
qed

lemma HasSuffix_append [simp]: "HasSuffix (s @ p) p"
  by (auto simp: HasSuffix_iff)

lemma TrimSuffix_append: "TrimSuffix (s @ p) p = s"
  by (simp add: TrimSuffix_def)

lemma call_not_expand: "\<not> HasSuffix (s @ ''_call'') ''_expand''"
  by (auto simp: HasSuffix_def HasPrefix.simps)

text \<open>The tools that the namespaced endpoint lists for a backend lead to that backend: a call of its expand tool expands its namespace
  and a call of its call tool runs in its namespace, except for backends called \<open>namespace\<close> and \<open>tool\<close>, whose tools are taken for the
  generic ones, and for identifiers that begin with the prefix some clients add.\<close>

theorem namespace_tools_dispatch:
  assumes "\<not> HasPrefix (i @ ''_call'') ''MCP_Bridge_v2_''" and "\<not> HasPrefix (i @ ''_expand'') ''MCP_Bridge_v2_''"
  shows "v2_target_of (i @ ''_expand'') = (if i = ''namespace'' then Expand else ExpandOf i) \<and>
    v2_target_of (i @ ''_call'') = (if i = ''tool'' then Call else CallOf i)"
proof -
  have e: "TrimPrefix (i @ ''_expand'') ''MCP_Bridge_v2_'' = i @ ''_expand''" and c: "TrimPrefix (i @ ''_call'') ''MCP_Bridge_v2_'' = i @ ''_call''"
    using assms by (simp_all add: TrimPrefix_def)
  have ne: "(i @ ''_expand'' = ''namespace_expand'') = (i = ''namespace'')"
    using append_same_eq [of i "''_expand''" "''namespace''"] by simp
  have nc: "(i @ ''_call'' = ''tool_call'') = (i = ''tool'')"
    using append_same_eq [of i "''_call''" "''tool''"] by simp
  have "i @ ''_expand'' \<noteq> ''MCP_Bridge_v2_namespace_expand''" "i @ ''_call'' \<noteq> ''MCP_Bridge_v2_tool_call''"
    using assms by (metis HasPrefix_append append.simps(2) append.left_neutral)+
  moreover have "i @ ''_expand'' \<noteq> ''tool_call''" "i @ ''_expand'' \<noteq> ''MCP_Bridge_v2_tool_call''"
      "i @ ''_call'' \<noteq> ''namespace_expand''" "i @ ''_call'' \<noteq> ''MCP_Bridge_v2_namespace_expand''"
    using arg_cong [of "i @ ''_expand''" "''tool_call''" last] arg_cong [of "i @ ''_expand''" "''MCP_Bridge_v2_tool_call''" last]
      arg_cong [of "i @ ''_call''" "''namespace_expand''" last] arg_cong [of "i @ ''_call''" "''MCP_Bridge_v2_namespace_expand''" last] by auto
  ultimately show ?thesis
    unfolding v2_target_of_def e c Let_def by (simp add: ne nc TrimSuffix_append call_not_expand) (auto simp: TrimSuffix_def HasSuffix_def)
qed

theorem namespace_tools_dispatch_witness:
  "v2_target_of ''git_expand'' = ExpandOf ''git'' \<and> v2_target_of ''git_call'' = CallOf ''git''"
  using namespace_tools_dispatch [of "''git''"] by simp

section \<open>System tools that are not\<close>

text \<open>The quota tool cannot be reached: it is registered with the library, but it is missing from the list by which the bridge recognises its own
  tools, so a call to it is sent to a backend like a call of that backend's own tools, without asking the enforcer.\<close>

theorem quota_tool_misrouted:
  assumes "u \<noteq> []" and "jl_Unmarshal (w_json w) body = Inr (JObj req)" and "decode_message (JObj req) = Some msg"
    and "rm_Method msg = ''tools/call''" and "map_of req ''params'' = Some (JObj params)"
    and "map_of params ''name'' = Some (JStr ''mcpbridge_quotas'')" and "map_of params ''arguments'' = Some (JObj args)"
  shows "''mcpbridge_quotas'' \<in> (sy_Name \<circ> fst) ` set registerSystemTools \<and>
    (\<exists>body'. Handler w u ''POST'' body a = map_option (map_prod Replied id) (route_call w [] u [] body' a))"
proof -
  have not_system: "\<not> IsSystemTool ''mcpbridge_quotas''"
    by (simp add: IsSystemTool_def SystemToolNames_def SystemTools_def)
  obtain c where c: "parse_call (w_json w) body = Inr c" "tc_tool c = ''mcpbridge_quotas''"
    using assms by (simp add: parse_call_def string_or_empty_def Let_def)
  have "MCPBridgeServer_handleToolsCall w u body (rm_ID msg) a = route_call w [] u [] (tc_body c) a"
    using c by (simp add: MCPBridgeServer_handleToolsCall_def backend_of_tool_def guarded_def backend_skip_def check_call_def split: option.splits)
  then have "Handler w u ''POST'' body a = map_option (map_prod Replied id) (route_call w [] u [] (tc_body c) a)"
    using assms not_system by (simp add: Handler_def decoded_message_def names_system_tool_def legacy_params_def)
  then show ?thesis by (auto simp: registerSystemTools_def)
qed

definition quota_call :: json where
  "quota_call = JObj [(''jsonrpc'', JStr ''2.0''), (''method'', JStr ''tools/call''),
     (''params'', JObj [(''name'', JStr ''mcpbridge_quotas''), (''arguments'', JObj [])])]"

definition quota_world :: "bool world" where
  "quota_world = \<lparr>w_lib = sample_lib, w_sys = sample_os, w_json = \<lparr>jl_Unmarshal = (\<lambda>_. Inr quota_call), jl_Marshal = (\<lambda>_. [])\<rparr>,
     w_compact = Inr, w_show = (\<lambda>_. []), w_errtext = (\<lambda>_. []), w_env = sample_env, w_polls = (\<lambda>_. []), w_final = (\<lambda>_ p. p), w_lag = 0,
     w_answer = (\<lambda>_. None)\<rparr>"

definition quota_app :: "bool App" where
  "quota_app = \<lparr>app_store = \<lparr>st_db = empty_db, st_keyStore = None\<rparr>, app_enforcer = None, app_muxer = git_muxer,
     app_pools = NewPoolManager ''cat'' 1, app_config = git_config, app_sent = []\<rparr>"

theorem quota_tool_misrouted_witness:
  "\<exists>body'. Handler quota_world ''ann'' ''POST'' [] quota_app =
     map_option (map_prod Replied id) (route_call quota_world [] ''ann'' [] body' quota_app)"
proof -
  let ?params = "[(''name'', JStr ''mcpbridge_quotas''), (''arguments'', JObj [])]"
  let ?req = "[(''jsonrpc'', JStr ''2.0''), (''method'', JStr ''tools/call''), (''params'', JObj ?params)]"
  obtain msg where "decode_message (JObj ?req) = Some msg" "rm_Method msg = ''tools/call''"
    by (simp add: decode_message_def string_field_def any_field_def members_def ToLower_def lower_char_def)
  moreover have "jl_Unmarshal (w_json quota_world) [] = Inr (JObj ?req)" by (simp add: quota_world_def quota_call_def)
  ultimately show ?thesis
    using quota_tool_misrouted [of "''ann''" quota_world "[]" ?req msg ?params "[]" quota_app] by simp
qed

text \<open>The namespaced endpoint slices the user identifier without looking at its length.\<close>

lemma short_user_initialize_panics: "length u < 8 \<Longrightarrow> v2Initialize w u i = None"
  by (simp add: v2Initialize_def)

text \<open>A process that did not answer in time is killed and then put back among the warm ones.\<close>

lemma expand_returns_killed:
  assumes "getPoolForUser w u b a = Some (Some k, a1)" and "wait_warm w k (update_pool k (TouchLastUsed (w_now w)) a1) = Some (Inr proc, a2)"
    and "send_request w k (''list-'' @ b @ ''-'' @ itoa (w_now w)) (30 * second)
      (jl_Marshal (w_json w) (list_message (''list-'' @ b @ ''-'' @ itoa (w_now w))) @ [CHR 0x0A]) a2 = Some (TimerFired, a3)"
  shows "expand_backend w u b a = map_option (Pair (Inl (ErrNew (''timeout waiting for tools/list from backend '' @ b))))
    (give_back k proc (kill_proc k proc a3))"
  using assms by (simp add: expand_backend_def expand_answer_def)

end
