(* ===== verification/Auth.thy ===== *)
theory Auth
  imports CoreStore Endpoints
begin

text \<open>
  The OAuth 2.1 server and the check of bearer tokens (src/auth/auth.go). The record \<open>AuthHandler\<close> is the struct
  \<open>Handler\<close> without its store; the database is passed along. A request is the record \<open>http_request\<close>: \<open>rq_query\<close> and \<open>rq_form\<close> hold the
  first value of each parameter, \<open>rq_form = None\<close> a form that does not parse. \<open>auth_env\<close> holds the libraries: bcrypt, SHA-256 and the URL-safe base64 without
  padding, JSON, and the escaping of HTML templates. A redirection is modelled for absolute addresses, which \<open>http.Redirect\<close> leaves as they are.
\<close>

section \<open>Requests\<close>

record http_request =
  rq_method :: string
  rq_authorization :: string
  rq_query :: "(string, string) gomap"
  rq_form :: "(string, string) gomap option"
  rq_body :: string

record auth_env =
  ae_now :: gotime
  ae_bcrypt :: bcrypt
  ae_sha256 :: "string \<Rightarrow> string"
  ae_base64url :: "string \<Rightarrow> string"
  ae_decode :: "string \<Rightarrow> goerr + json"
  ae_marshal :: "json \<Rightarrow> string"
  ae_escape :: "string \<Rightarrow> string"

definition param :: "(string, string) gomap \<Rightarrow> string \<Rightarrow> string" where
  "param m k = (case map_of m k of Some v \<Rightarrow> v | None \<Rightarrow> [])"

definition FormValue :: "http_request \<Rightarrow> string \<Rightarrow> string" where
  "FormValue r k = (case rq_form r of Some m \<Rightarrow> param m k | None \<Rightarrow> [])"

text \<open>A write whose error the code ignores.\<close>

definition try_db :: "(db \<Rightarrow> goerr + db) \<Rightarrow> db \<Rightarrow> db" where
  "try_db f db = (case f db of Inl _ \<Rightarrow> db | Inr db' \<Rightarrow> db')"

definition not_allowed :: http_response where
  "not_allowed = http_error [] ''Method not allowed'' 405"

section \<open>The handler\<close>

record AuthHandler =
  ah_Issuer :: string
  ah_CodeTTL :: duration
  ah_TokenTTL :: duration

definition DefaultCodeTTL :: duration where "DefaultCodeTTL = 10 * (60 * second)"
definition DefaultTokenTTL :: duration where "DefaultTokenTTL = hour"

definition codeTTL :: "AuthHandler \<Rightarrow> duration" where
  "codeTTL h = (if ah_CodeTTL h > 0 then ah_CodeTTL h else DefaultCodeTTL)"

definition tokenTTL :: "AuthHandler \<Rightarrow> duration" where
  "tokenTTL h = (if ah_TokenTTL h > 0 then ah_TokenTTL h else DefaultTokenTTL)"

section \<open>Bearer tokens\<close>

definition unauthorized :: "AuthHandler \<Rightarrow> http_response" where
  "unauthorized h = \<lparr>hr_status = 401,
     hr_headers = [(''WWW-Authenticate'', ''Bearer resource_metadata='' @ quoted (ah_Issuer h @ ''/.well-known/oauth-authorization-server''))],
     hr_body = Raw (''{'' @ [CHR 0x22] @ ''error'' @ [CHR 0x22] @ '':'' @ [CHR 0x22] @ ''unauthorized'' @ [CHR 0x22] @ ''}'')\<rparr>"

definition extractBearer :: "string \<Rightarrow> string" where
  "extractBearer auth =
     (if auth = [] then []
      else if length auth < 7 \<or> \<not> EqualFold (take 7 auth) ''Bearer '' then []
      else drop 7 auth)"

text \<open>The owner of a token; \<open>None\<close> refuses it.\<close>

definition api_key_user :: "auth_env \<Rightarrow> string \<Rightarrow> db \<Rightarrow> string option \<times> db" where
  "api_key_user env token db =
     (case Store_ValidateAPIKey (ae_bcrypt env) token db of
        Inl _ \<Rightarrow> (None, db)
      | Inr k \<Rightarrow>
          if (case ak_ExpiresAt k of Some t \<Rightarrow> ae_now env > t | None \<Rightarrow> False) then (None, db)
          else (Some (ak_UserID k), try_db (Store_UpdateAPIKeyLastUsed (ae_now env) (ak_ID k)) db))"

definition session_user :: "auth_env \<Rightarrow> string \<Rightarrow> db \<Rightarrow> string option \<times> db" where
  "session_user env token db =
     (case Store_GetOAuthSession token db of
        Inl _ \<Rightarrow> (None, db)
      | Inr sess \<Rightarrow>
          if ae_now env > on_ExpiresAt sess then (None, try_db (Store_DeleteOAuthSession token) db)
          else (Some (on_UserID sess), db))"

text \<open>The request is refused with a reply, or passed on for a user.\<close>

definition Middleware :: "auth_env \<Rightarrow> AuthHandler \<Rightarrow> http_request \<Rightarrow> db \<Rightarrow> (http_response + string) \<times> db" where
  "Middleware env h r db =
     (let token = extractBearer (rq_authorization r)
      in if token = [] then (Inl (unauthorized h), db)
         else case (if HasPrefix token ''mcp_'' then api_key_user env token db else session_user env token db) of
                (None, db) \<Rightarrow> (Inl (unauthorized h), db)
              | (Some u, db) \<Rightarrow> (Inr u, db))"

section \<open>Metadata and registration\<close>

definition json_texts :: "string list \<Rightarrow> json" where
  "json_texts ss = JArr (map JStr ss)"

definition MetadataHandler :: "AuthHandler \<Rightarrow> http_request \<Rightarrow> http_response" where
  "MetadataHandler h r =
     (if rq_method r \<noteq> ''GET'' then not_allowed
      else \<lparr>hr_status = 200, hr_headers = [content_json], hr_body = Encoded (JObj
        [(''issuer'', JStr (ah_Issuer h)),
         (''authorization_endpoint'', JStr (ah_Issuer h @ ''/authorize'')),
         (''token_endpoint'', JStr (ah_Issuer h @ ''/token'')),
         (''registration_endpoint'', JStr (ah_Issuer h @ ''/register'')),
         (''response_types_supported'', json_texts [''code'']),
         (''grant_types_supported'', json_texts [''authorization_code'', ''refresh_token'']),
         (''token_endpoint_auth_methods_supported'', json_texts [''none'']),
         (''code_challenge_methods_supported'', json_texts [''S256'']),
         (''scopes_supported'', json_texts [''mcp''])])\<rparr>)"

fun decode_texts :: "json list \<Rightarrow> string list option" where
  "decode_texts [] = Some []"
| "decode_texts (JStr s # vs) = map_option (Cons s) (decode_texts vs)"
| "decode_texts (JNull # vs) = map_option (Cons []) (decode_texts vs)"
| "decode_texts (v # vs) = None"

record clientRegistrationRequest =
  cq_RedirectURIs :: "string list"
  cq_ClientName :: string

definition decode_registration :: "auth_env \<Rightarrow> string \<Rightarrow> clientRegistrationRequest option" where
  "decode_registration env body =
     (case ae_decode env body of
        Inl _ \<Rightarrow> None
      | Inr v \<Rightarrow>
          (case top_fields v of
             None \<Rightarrow> None
           | Some kvs \<Rightarrow>
               (case (array_field ''redirect_uris'' kvs, string_field ''client_name'' kvs) of
                  (Some vs, Some n) \<Rightarrow> map_option (\<lambda>uris. \<lparr>cq_RedirectURIs = uris, cq_ClientName = n\<rparr>) (decode_texts vs)
                | _ \<Rightarrow> None)))"

definition RegisterClientHandler :: "auth_env \<Rightarrow> http_request \<Rightarrow> db \<Rightarrow> http_response \<times> db" where
  "RegisterClientHandler env r db =
     (if rq_method r \<noteq> ''POST'' then (not_allowed, db)
      else case decode_registration env (rq_body r) of
             None \<Rightarrow> (http_error [] (''{'' @ [CHR 0x22] @ ''error'' @ [CHR 0x22] @ '':'' @ [CHR 0x22] @ ''invalid_request'' @ [CHR 0x22] @ ''}'') 400, db)
           | Some req \<Rightarrow>
               if cq_RedirectURIs req = []
               then (http_error [] (''{'' @ [CHR 0x22] @ ''error'' @ [CHR 0x22] @ '':'' @ [CHR 0x22] @ ''invalid_request'' @ [CHR 0x22] @ '','' @ [CHR 0x22] @ ''error_description'' @ [CHR 0x22] @ '':'' @ [CHR 0x22] @ ''redirect_uris required'' @ [CHR 0x22] @ ''}'') 400, db)
               else (case Store_CreateOAuthClient (ae_now env) \<lparr>oc_ClientID = [], oc_ClientSecret = [],
                         oc_RedirectURIs = ae_marshal env (json_texts (cq_RedirectURIs req)), oc_ClientName = cq_ClientName req,
                         oc_CreatedAt = 0\<rparr> db of
                       (Inl _, db) \<Rightarrow> (http_error [] (''{'' @ [CHR 0x22] @ ''error'' @ [CHR 0x22] @ '':'' @ [CHR 0x22] @ ''server_error'' @ [CHR 0x22] @ ''}'') 500, db)
                     | (Inr client, db) \<Rightarrow> (\<lparr>hr_status = 201, hr_headers = [content_json], hr_body = Encoded (JObj
                         [(''client_id'', JStr (oc_ClientID client)), (''redirect_uris'', json_texts (cq_RedirectURIs req)),
                          (''client_name'', JStr (cq_ClientName req)), (''token_endpoint_auth_method'', JStr ''none'')])\<rparr>, db)))"

section \<open>The login form\<close>

record loginFormData =
  lf_ClientID :: string
  lf_RedirectURI :: string
  lf_State :: string
  lf_CodeChallenge :: string
  lf_Scope :: string
  lf_Error :: string

definition hidden_input :: "auth_env \<Rightarrow> string \<Rightarrow> string \<Rightarrow> string" where
  "hidden_input env name value =
     ''    <input type='' @ [CHR 0x22] @ ''hidden'' @ [CHR 0x22] @ '' name='' @ [CHR 0x22] @ name @ [CHR 0x22] @ '' value='' @ [CHR 0x22] @ ae_escape env value @ [CHR 0x22] @ ''>'' @ nl"

definition loginTmpl :: "auth_env \<Rightarrow> loginFormData \<Rightarrow> string" where
  "loginTmpl env d =
     ''<!DOCTYPE html>'' @ nl @
     ''<html>'' @ nl @
     ''<head>'' @ nl @
     ''<meta charset='' @ [CHR 0x22] @ ''utf-8'' @ [CHR 0x22] @ ''>'' @ nl @
     ''<meta name='' @ [CHR 0x22] @ ''viewport'' @ [CHR 0x22] @ '' content='' @ [CHR 0x22] @ ''width=device-width, initial-scale=1'' @ [CHR 0x22] @ ''>'' @ nl @
     ''<title>MCP Bridge '' @ [CHR 0xE2, CHR 0x80, CHR 0x94] @ '' Sign In</title>'' @ nl @
     ''<style>'' @ nl @
     ''  body { font-family: system-ui, sans-serif; max-width: 400px; margin: 80px auto; padding: 0 20px; }'' @ nl @
     ''  h1 { font-size: 1.4em; }'' @ nl @
     ''  label { display: block; margin-top: 12px; font-weight: 600; font-size: 0.9em; }'' @ nl @
     ''  input[type=email], input[type=password] {'' @ nl @
     ''    width: 100%; padding: 8px; margin-top: 4px; box-sizing: border-box;'' @ nl @
     ''    border: 1px solid #ccc; border-radius: 4px; font-size: 1em;'' @ nl @
     ''  }'' @ nl @
     ''  button { margin-top: 16px; padding: 10px 20px; font-size: 1em; cursor: pointer;'' @ nl @
     ''    background: #0066cc; color: #fff; border: none; border-radius: 4px; width: 100%; }'' @ nl @
     ''  button:hover { background: #0052a3; }'' @ nl @
     ''  .error { color: #c00; margin-top: 12px; font-size: 0.9em; }'' @ nl @
     ''</style>'' @ nl @
     ''</head>'' @ nl @
     ''<body>'' @ nl @
     ''  <h1>MCP Bridge '' @ [CHR 0xE2, CHR 0x80, CHR 0x94] @ '' Sign In</h1>'' @ nl @
     ''  '' @
     (if lf_Error d \<noteq> [] then ''<p class='' @ [CHR 0x22] @ ''error'' @ [CHR 0x22] @ ''>'' @ ae_escape env (lf_Error d) @ ''</p>'' else []) @
     nl @ ''  <form method='' @ [CHR 0x22] @ ''POST'' @ [CHR 0x22] @ '' action='' @ [CHR 0x22] @ ''/authorize'' @ [CHR 0x22] @ ''>'' @ nl @
     hidden_input env ''client_id'' (lf_ClientID d) @ hidden_input env ''redirect_uri'' (lf_RedirectURI d) @
     hidden_input env ''state'' (lf_State d) @ hidden_input env ''code_challenge'' (lf_CodeChallenge d) @
     hidden_input env ''scope'' (lf_Scope d) @
     ''    <label for='' @ [CHR 0x22] @ ''email'' @ [CHR 0x22] @ ''>Email</label>'' @ nl @
     ''    <input type='' @ [CHR 0x22] @ ''email'' @ [CHR 0x22] @ '' id='' @ [CHR 0x22] @ ''email'' @ [CHR 0x22] @ '' name='' @ [CHR 0x22] @ ''email'' @ [CHR 0x22] @ '' required autofocus>'' @ nl @
     ''    <label for='' @ [CHR 0x22] @ ''password'' @ [CHR 0x22] @ ''>Password</label>'' @ nl @
     ''    <input type='' @ [CHR 0x22] @ ''password'' @ [CHR 0x22] @ '' id='' @ [CHR 0x22] @ ''password'' @ [CHR 0x22] @ '' name='' @ [CHR 0x22] @ ''password'' @ [CHR 0x22] @ '' required>'' @ nl @
     ''    <button type='' @ [CHR 0x22] @ ''submit'' @ [CHR 0x22] @ ''>Sign In</button>'' @ nl @
     ''  </form>'' @ nl @
     ''</body>'' @ nl @
     ''</html>''"

definition renderLoginForm :: "auth_env \<Rightarrow> loginFormData \<Rightarrow> http_response" where
  "renderLoginForm env d = \<lparr>hr_status = 200, hr_headers = [(''Content-Type'', ''text/html; charset=utf-8'')],
     hr_body = Raw (loginTmpl env d)\<rparr>"

section \<open>Authorization\<close>

definition authorizeGet :: "auth_env \<Rightarrow> http_request \<Rightarrow> db \<Rightarrow> http_response" where
  "authorizeGet env r db =
     (let clientID = param (rq_query r) ''client_id''; redirectURI = param (rq_query r) ''redirect_uri'';
          codeChallenge = param (rq_query r) ''code_challenge'';
          codeChallengeMethod = param (rq_query r) ''code_challenge_method''
      in if clientID = [] \<or> redirectURI = []
         then http_error [] (''{'' @ [CHR 0x22] @ ''error'' @ [CHR 0x22] @ '':'' @ [CHR 0x22] @ ''invalid_request'' @ [CHR 0x22] @ '','' @ [CHR 0x22] @ ''error_description'' @ [CHR 0x22] @ '':'' @ [CHR 0x22] @ ''client_id and redirect_uri required'' @ [CHR 0x22] @ ''}'') 400
         else if (case Store_GetOAuthClient clientID db of Inl _ \<Rightarrow> True | Inr _ \<Rightarrow> False)
         then http_error [] (''{'' @ [CHR 0x22] @ ''error'' @ [CHR 0x22] @ '':'' @ [CHR 0x22] @ ''invalid_client'' @ [CHR 0x22] @ ''}'') 400
         else if codeChallenge \<noteq> [] \<and> codeChallengeMethod \<noteq> ''S256'' \<and> codeChallengeMethod \<noteq> []
         then http_error [] (''{'' @ [CHR 0x22] @ ''error'' @ [CHR 0x22] @ '':'' @ [CHR 0x22] @ ''invalid_request'' @ [CHR 0x22] @ '','' @ [CHR 0x22] @ ''error_description'' @ [CHR 0x22] @ '':'' @ [CHR 0x22] @ ''only S256 code_challenge_method supported'' @ [CHR 0x22] @ ''}'') 400
         else renderLoginForm env \<lparr>lf_ClientID = clientID, lf_RedirectURI = redirectURI, lf_State = param (rq_query r) ''state'',
                lf_CodeChallenge = codeChallenge, lf_Scope = param (rq_query r) ''scope'', lf_Error = []\<rparr>)"

text \<open>The user with that address, if the password is right.\<close>

definition login_user :: "auth_env \<Rightarrow> string \<Rightarrow> string \<Rightarrow> db \<Rightarrow> User option" where
  "login_user env email password db =
     (case Store_GetUserByEmail email db of
        Inl _ \<Rightarrow> None
      | Inr u \<Rightarrow> if CheckPassword (ae_bcrypt env) (us_Password u) password = None then Some u else None)"

definition upgrade_password :: "auth_env \<Rightarrow> User \<Rightarrow> string \<Rightarrow> db \<Rightarrow> db" where
  "upgrade_password env u password db =
     (if IsBcrypt (us_Password u) then db
      else case HashPassword (ae_bcrypt env) password of
             Inl _ \<Rightarrow> db
           | Inr hash \<Rightarrow> try_db (Store_UpdateUser (ae_bcrypt env) (u\<lparr>us_Password := hash\<rparr>)) db)"

definition code_location :: "string \<Rightarrow> string \<Rightarrow> string \<Rightarrow> string" where
  "code_location redirectURI code state =
     redirectURI @ (if Contains redirectURI ''?'' then ''&'' else ''?'') @ ''code='' @ code @
     (if state \<noteq> [] then ''&state='' @ state else [])"

definition authorizePost :: "auth_env \<Rightarrow> AuthHandler \<Rightarrow> http_request \<Rightarrow> db \<Rightarrow> http_response \<times> db" where
  "authorizePost env h r db =
     (if rq_form r = None then (http_error [] (''{'' @ [CHR 0x22] @ ''error'' @ [CHR 0x22] @ '':'' @ [CHR 0x22] @ ''invalid_request'' @ [CHR 0x22] @ ''}'') 400, db)
      else
        let password = FormValue r ''password''; clientID = FormValue r ''client_id''; redirectURI = FormValue r ''redirect_uri'';
            state = FormValue r ''state''; codeChallenge = FormValue r ''code_challenge''; scope = FormValue r ''scope''
        in if clientID = [] \<or> redirectURI = [] then (http_error [] (''{'' @ [CHR 0x22] @ ''error'' @ [CHR 0x22] @ '':'' @ [CHR 0x22] @ ''invalid_request'' @ [CHR 0x22] @ ''}'') 400, db)
           else case login_user env (FormValue r ''email'') password db of
                  None \<Rightarrow> (renderLoginForm env \<lparr>lf_ClientID = clientID, lf_RedirectURI = redirectURI, lf_State = state,
                     lf_CodeChallenge = codeChallenge, lf_Scope = scope, lf_Error = ''Invalid email or password''\<rparr>, db)
                | Some u \<Rightarrow>
                    (case Store_CreateOAuthCode \<lparr>od_Code = [], od_UserID = us_ID u, od_ClientID = clientID, od_RedirectURI = redirectURI,
                            od_CodeChallenge = codeChallenge, od_Scope = scope, od_ExpiresAt = ae_now env + codeTTL h\<rparr>
                            (upgrade_password env u password db) of
                       (Inl _, db) \<Rightarrow> (http_error [] (''{'' @ [CHR 0x22] @ ''error'' @ [CHR 0x22] @ '':'' @ [CHR 0x22] @ ''server_error'' @ [CHR 0x22] @ ''}'') 500, db)
                     | (Inr code, db) \<Rightarrow>
                         (\<lparr>hr_status = 302, hr_headers = [(''Location'', code_location redirectURI (od_Code code) state)], hr_body = Raw []\<rparr>, db)))"

definition AuthorizeHandler :: "auth_env \<Rightarrow> AuthHandler \<Rightarrow> http_request \<Rightarrow> db \<Rightarrow> http_response \<times> db" where
  "AuthorizeHandler env h r db =
     (if rq_method r = ''GET'' then (authorizeGet env r db, db)
      else if rq_method r = ''POST'' then authorizePost env h r db
      else (not_allowed, db))"

section \<open>Tokens\<close>

definition verifyPKCE :: "auth_env \<Rightarrow> string \<Rightarrow> string \<Rightarrow> bool" where
  "verifyPKCE env codeVerifier codeChallenge \<longleftrightarrow> ae_base64url env (ae_sha256 env codeVerifier) = codeChallenge"

definition jsonError :: "string \<Rightarrow> string \<Rightarrow> int \<Rightarrow> http_response" where
  "jsonError errCode description status = \<lparr>hr_status = status, hr_headers = [content_json],
     hr_body = Encoded (JObj [(''error'', JStr errCode), (''error_description'', JStr description)])\<rparr>"

definition writeTokenResponse :: "OAuthSession \<Rightarrow> duration \<Rightarrow> http_response" where
  "writeTokenResponse sess ttl = \<lparr>hr_status = 200, hr_headers = [content_json, (''Cache-Control'', ''no-store'')],
     hr_body = Encoded (JObj [(''access_token'', JStr (on_AccessToken sess)), (''token_type'', JStr ''Bearer''),
       (''expires_in'', JNum (of_int (ttl div second))), (''refresh_token'', JStr (on_RefreshToken sess)),
       (''scope'', JStr (on_Scope sess))])\<rparr>"

definition issue_session :: "auth_env \<Rightarrow> AuthHandler \<Rightarrow> string \<Rightarrow> string \<Rightarrow> string \<Rightarrow> db \<Rightarrow> http_response \<times> db" where
  "issue_session env h userID clientID scope db =
     (case Store_CreateOAuthSession (ae_now env) \<lparr>on_AccessToken = [], on_RefreshToken = [], on_UserID = userID, on_ClientID = clientID,
             on_Scope = scope, on_ExpiresAt = ae_now env + tokenTTL h, on_CreatedAt = 0\<rparr> db of
        (Inl _, db) \<Rightarrow> (jsonError ''server_error'' ''could not create session'' 500, db)
      | (Inr sess, db) \<Rightarrow> (writeTokenResponse sess (tokenTTL h), db))"

text \<open>Why a code is refused, as the description of the reply.\<close>

definition code_refusal :: "auth_env \<Rightarrow> http_request \<Rightarrow> OAuthCode \<Rightarrow> string option" where
  "code_refusal env r code =
     (let codeVerifier = FormValue r ''code_verifier''; redirectURI = FormValue r ''redirect_uri''; clientID = FormValue r ''client_id''
      in if clientID \<noteq> [] \<and> clientID \<noteq> od_ClientID code then Some ''client_id mismatch''
         else if redirectURI \<noteq> [] \<and> redirectURI \<noteq> od_RedirectURI code then Some ''redirect_uri mismatch''
         else if od_CodeChallenge code \<noteq> [] \<and> codeVerifier = [] then Some ''code_verifier required''
         else if od_CodeChallenge code \<noteq> [] \<and> \<not> verifyPKCE env codeVerifier (od_CodeChallenge code) then Some ''PKCE verification failed''
         else None)"

text \<open>The exchange in two steps: the code is read and checked, then it is deleted and the tokens are issued. Nothing holds a lock
  between them, so another request may run in between; \<open>tokenAuthorizationCode\<close> is the exchange that is not interrupted.\<close>

definition exchange_check :: "auth_env \<Rightarrow> http_request \<Rightarrow> db \<Rightarrow> (http_response \<times> db) + OAuthCode" where
  "exchange_check env r db =
     (let codeStr = FormValue r ''code''
      in if codeStr = [] then Inl (jsonError ''invalid_request'' ''code required'' 400, db)
         else case Store_GetOAuthCode codeStr db of
                Inl _ \<Rightarrow> Inl (jsonError ''invalid_grant'' ''code not found'' 400, db)
              | Inr code \<Rightarrow>
                  if ae_now env > od_ExpiresAt code
                  then Inl (jsonError ''invalid_grant'' ''code expired'' 400, try_db (Store_DeleteOAuthCode codeStr) db)
                  else (case code_refusal env r code of
                          Some why \<Rightarrow> Inl (jsonError ''invalid_grant'' why 400, db)
                        | None \<Rightarrow> Inr code))"

definition exchange_issue :: "auth_env \<Rightarrow> AuthHandler \<Rightarrow> http_request \<Rightarrow> OAuthCode \<Rightarrow> db \<Rightarrow> http_response \<times> db" where
  "exchange_issue env h r code db =
     issue_session env h (od_UserID code) (od_ClientID code) (od_Scope code) (try_db (Store_DeleteOAuthCode (FormValue r ''code'')) db)"

definition tokenAuthorizationCode :: "auth_env \<Rightarrow> AuthHandler \<Rightarrow> http_request \<Rightarrow> db \<Rightarrow> http_response \<times> db" where
  "tokenAuthorizationCode env h r db =
     (case exchange_check env r db of Inl refused \<Rightarrow> refused | Inr code \<Rightarrow> exchange_issue env h r code db)"

lemmas exchange_defs = tokenAuthorizationCode_def exchange_check_def exchange_issue_def

definition tokenRefresh :: "auth_env \<Rightarrow> AuthHandler \<Rightarrow> http_request \<Rightarrow> db \<Rightarrow> http_response \<times> db" where
  "tokenRefresh env h r db =
     (let refreshToken = FormValue r ''refresh_token''
      in if refreshToken = [] then (jsonError ''invalid_request'' ''refresh_token required'' 400, db)
         else case Store_GetOAuthSessionByRefresh refreshToken db of
                Inl _ \<Rightarrow> (jsonError ''invalid_grant'' ''refresh_token not found'' 400, db)
              | Inr old \<Rightarrow> issue_session env h (on_UserID old) (on_ClientID old) (on_Scope old)
                  (try_db (Store_DeleteOAuthSession (on_AccessToken old)) db))"

definition TokenHandler :: "auth_env \<Rightarrow> AuthHandler \<Rightarrow> http_request \<Rightarrow> db \<Rightarrow> http_response \<times> db" where
  "TokenHandler env h r db =
     (if rq_method r \<noteq> ''POST'' then (not_allowed, db)
      else if rq_form r = None then (jsonError ''invalid_request'' ''could not parse form'' 400, db)
      else if FormValue r ''grant_type'' = ''authorization_code'' then tokenAuthorizationCode env h r db
      else if FormValue r ''grant_type'' = ''refresh_token'' then tokenRefresh env h r db
      else (jsonError ''unsupported_grant_type'' ''only authorization_code and refresh_token supported'' 400, db))"

section \<open>Who a token lets in\<close>

text \<open>A key or session that entitles its holder to act as the user at the given instant.\<close>

definition entitled :: "auth_env \<Rightarrow> db \<Rightarrow> string \<Rightarrow> string \<Rightarrow> bool" where
  "entitled env db token u \<longleftrightarrow>
     (if HasPrefix token ''mcp_''
      then \<exists>k \<in> set (ct_api_keys (db_core db)). bcrypt_matches (ae_bcrypt env) (ak_KeyHash k) token \<and> ak_UserID k = u \<and>
        (\<forall>t. ak_ExpiresAt k = Some t \<longrightarrow> ae_now env \<le> t)
      else \<exists>s \<in> set (ct_oauth_sessions (db_core db)). on_AccessToken s = token \<and> on_UserID s = u \<and> ae_now env \<le> on_ExpiresAt s)"

lemma validated_key:
  assumes "Store_ValidateAPIKey bc token db = Inr k" and "unique_on ak_ID (ct_api_keys (db_core db))"
  shows "k \<in> set (ct_api_keys (db_core db)) \<and> bcrypt_matches bc (ak_KeyHash k) token"
proof -
  let ?t = "ct_api_keys (db_core db)"
  obtain k0 ks where k0: "filter (\<lambda>k. ValidateAPIKeyHash bc token (ak_KeyHash k)) ?t = k0 # ks"
    and get: "query_row (\<lambda>k. ak_ID k = ak_ID k0) ?t = Inr k"
    using assms(1) by (auto simp: Store_ValidateAPIKey_def Store_GetAPIKeyByID_def dest!: stmt_InrD split: sum.splits list.splits)
  have "k0 \<in> set ?t \<and> ValidateAPIKeyHash bc token (ak_KeyHash k0)" using k0 by (metis Cons_eq_filterD in_set_conv_decomp)
  moreover have "k = k0" using query_row_unique [OF assms(2), of k0 "\<lambda>k. ak_ID k = ak_ID k0"] get calculation by auto
  ultimately show ?thesis by (simp add: ValidateAPIKeyHash_def)
qed

lemma api_keys_unique: "site_ok db \<Longrightarrow> unique_on ak_ID (ct_api_keys (db_core db))"
  by (simp add: site_ok_def core_ok_def keys_ok_def)

lemma middleware_entitles:
  assumes "Middleware env h r db = (Inr u, db')" and "site_ok db"
  shows "entitled env db (extractBearer (rq_authorization r)) u"
proof -
  let ?token = "extractBearer (rq_authorization r)"
  show ?thesis
  proof (cases "HasPrefix ?token ''mcp_''")
    case True
    then obtain k where "Store_ValidateAPIKey (ae_bcrypt env) ?token db = Inr k" "ak_UserID k = u"
        "\<forall>t. ak_ExpiresAt k = Some t \<longrightarrow> ae_now env \<le> t"
      using assms(1) by (fastforce simp: Middleware_def api_key_user_def Let_def split: if_splits sum.splits option.splits)
    then show ?thesis using True validated_key [of "ae_bcrypt env" ?token db k] api_keys_unique [OF assms(2)] by (auto simp: entitled_def)
  next
    case False
    then obtain s where "Store_GetOAuthSession ?token db = Inr s" "on_UserID s = u" "ae_now env \<le> on_ExpiresAt s"
      using assms(1) by (auto simp: Middleware_def session_user_def Let_def split: if_splits sum.splits)
    then show ?thesis using False
      by (auto simp: entitled_def Store_GetOAuthSession_def dest!: stmt_InrD query_row_SomeD)
  qed
qed

text \<open>C11: Nobody is let in without a credential: a request passes the middleware as a user only with a bearer token that is the access
  token of a session of that user, or a key whose stored hash it matches and that belongs to the user, and that has not expired.\<close>

theorem middleware_sound:
  assumes "Middleware env h r db = (Inr u, db')" and "site_ok db"
  shows "entitled env db (extractBearer (rq_authorization r)) u"
  using assms by (rule middleware_entitles)

section \<open>Issuing tokens\<close>

text \<open>What identifiers are relied on for: random ones are distinct, not empty, not in use, and not of the form of a key.\<close>

definition issuer_ok :: "db \<Rightarrow> bool" where
  "issuer_ok db \<longleftrightarrow> fault_free db \<and> inj (db_ids db) \<and>
     (\<forall>n \<ge> db_next db. db_ids db n \<noteq> [] \<and> \<not> HasPrefix (db_ids db n) ''mcp_'' \<and>
        db_ids db n \<notin> od_Code ` set (ct_oauth_codes (db_core db)) \<and>
        db_ids db n \<notin> on_AccessToken ` set (ct_oauth_sessions (db_core db)) \<and>
        db_ids db n \<notin> on_RefreshToken ` set (ct_oauth_sessions (db_core db)))"

lemma issuer_okD:
  assumes "issuer_ok db" and "n \<ge> db_next db"
  shows "fault_free db" "db_ids db n \<noteq> []" "\<not> HasPrefix (db_ids db n) ''mcp_''"
    "x \<in> set (ct_oauth_codes (db_core db)) \<Longrightarrow> od_Code x \<noteq> db_ids db n"
    "y \<in> set (ct_oauth_sessions (db_core db)) \<Longrightarrow> on_AccessToken y \<noteq> db_ids db n"
    "y \<in> set (ct_oauth_sessions (db_core db)) \<Longrightarrow> on_RefreshToken y \<noteq> db_ids db n"
  using assms by (auto simp: issuer_ok_def) (metis image_eqI)+

lemmas issuer_next = issuer_okD [OF _ order_refl]

definition new_session :: "auth_env \<Rightarrow> AuthHandler \<Rightarrow> string \<Rightarrow> string \<Rightarrow> string \<Rightarrow> db \<Rightarrow> OAuthSession" where
  "new_session env h u c s db = \<lparr>on_AccessToken = db_ids db (db_next db), on_RefreshToken = db_ids db (Suc (db_next db)),
     on_UserID = u, on_ClientID = c, on_Scope = s, on_ExpiresAt = ae_now env + tokenTTL h, on_CreatedAt = ae_now env\<rparr>"

definition with_session :: "OAuthSession \<Rightarrow> db \<Rightarrow> db" where
  "with_session s db = core_upd (\<lambda>c. c\<lparr>ct_oauth_sessions := ct_oauth_sessions c @ [s]\<rparr>) (db\<lparr>db_next := Suc (Suc (db_next db))\<rparr>)"

lemma core_upd_more [simp]:
  "fault_free (core_upd f db) = fault_free db" "db_ids (core_upd f db) = db_ids db" "db_next (core_upd f db) = db_next db"
  "has_user (core_upd f db) u = has_user db u" "fault_free (db\<lparr>db_next := n\<rparr>) = fault_free db"
  "fault_free (db\<lparr>db_users := us\<rparr>) = fault_free db" "has_user (db\<lparr>db_next := n\<rparr>) u = has_user db u"
  by (simp_all add: core_upd_def fault_free_def has_user_def)

lemma issue_session_ok:
  assumes "issuer_ok db" and "has_user db u"
  shows "issue_session env h u c s db = (writeTokenResponse (new_session env h u c s db) (tokenTTL h), with_session (new_session env h u c s db) db)"
  using assms
  by (simp add: issue_session_def Store_CreateOAuthSession_def fill_id_def generateID_def issuer_ok_def has_user_def insert_row_def
      new_session_def with_session_def core_upd_def writeTokenResponse_def)

text \<open>The new session lets its user in until it expires.\<close>

lemma new_session_admits:
  assumes "issuer_ok db" and "t \<le> ae_now env + tokenTTL h"
  shows "Middleware (env\<lparr>ae_now := t\<rparr>) h (r\<lparr>rq_authorization := ''Bearer '' @ on_AccessToken (new_session env h u c s db)\<rparr>)
    (with_session (new_session env h u c s db) db) = (Inr u, with_session (new_session env h u c s db) db)"
proof -
  let ?s = "new_session env h u c s db" and ?i = "db_ids db (db_next db)"
  have i: "?i \<noteq> []" "\<not> HasPrefix ?i ''mcp_''" "\<forall>x \<in> set (ct_oauth_sessions (db_core db)). on_AccessToken x \<noteq> ?i" "fault_free db"
    using issuer_next [OF assms(1)] by blast+
  then have "filter (\<lambda>x. on_AccessToken x = ?i) (ct_oauth_sessions (db_core db)) = []" by simp
  then have "Store_GetOAuthSession ?i (with_session ?s db) = Inr ?s"
    using i by (simp add: Store_GetOAuthSession_def with_session_def query_row_def new_session_def)
  then show ?thesis using i assms(2)
    by (simp add: Middleware_def extractBearer_def session_user_def new_session_def EqualFold_def)
qed

lemma issuer_ok_delete_code: "issuer_ok db \<Longrightarrow> issuer_ok (try_db (Store_DeleteOAuthCode cd) db)"
  by (auto simp: issuer_ok_def try_db_def Store_DeleteOAuthCode_def)

lemma issuer_ok_delete_session: "issuer_ok db \<Longrightarrow> issuer_ok (try_db (Store_DeleteOAuthSession t) db)"
  by (auto simp: issuer_ok_def try_db_def Store_DeleteOAuthSession_def)

lemma deleted_code: "fault_free db \<Longrightarrow> try_db (Store_DeleteOAuthCode cd) db =
    core_upd (\<lambda>c. c\<lparr>ct_oauth_codes := delete_where (\<lambda>x. od_Code x = cd) (ct_oauth_codes c)\<rparr>) db"
  by (simp add: try_db_def Store_DeleteOAuthCode_def)

lemma deleted_session: "fault_free db \<Longrightarrow> try_db (Store_DeleteOAuthSession t) db =
    core_upd (\<lambda>c. c\<lparr>ct_oauth_sessions := delete_where (\<lambda>x. on_AccessToken x = t) (ct_oauth_sessions c)\<rparr>) db"
  by (simp add: try_db_def Store_DeleteOAuthSession_def)

lemma issue_session_codes: "ct_oauth_codes (db_core (snd (issue_session env h u c s db))) = ct_oauth_codes (db_core db)"
    "fault_free (snd (issue_session env h u c s db)) = fault_free db"
  by (simp_all add: issue_session_def Store_CreateOAuthSession_def fill_id_def generateID_def Let_def split: sum.splits)

lemma issued_response: "hr_status (fst (issue_session env h u c s db)) \<noteq> 200 \<Longrightarrow>
    issue_session env h u c s db = (jsonError ''server_error'' ''could not create session'' 500, snd (issue_session env h u c s db))"
  by (simp add: issue_session_def writeTokenResponse_def split: prod.splits sum.splits)


lemma delete_code_keeps:
  "ct_oauth_sessions (db_core (try_db (Store_DeleteOAuthCode c) db)) = ct_oauth_sessions (db_core db)"
  "db_ids (try_db (Store_DeleteOAuthCode c) db) = db_ids db" "db_next (try_db (Store_DeleteOAuthCode c) db) = db_next db"
  "has_user (try_db (Store_DeleteOAuthCode c) db) u = has_user db u"
  by (simp_all add: try_db_def Store_DeleteOAuthCode_def stmt_def split: option.splits)

lemma with_session_sel:
  "ct_oauth_sessions (db_core (with_session s db)) = ct_oauth_sessions (db_core db) @ [s]" "db_ids (with_session s db) = db_ids db"
  "db_next (with_session s db) = Suc (Suc (db_next db))" "has_user (with_session s db) u = has_user db u"
  by (simp_all add: with_session_def)

text \<open>An issued session leaves an issuer whose identifiers can still be relied on.\<close>

lemma issuer_ok_issued: "issuer_ok db \<Longrightarrow> issuer_ok (with_session (new_session env h u c s db) db)"
  by (auto simp: issuer_ok_def with_session_def new_session_def inj_eq)

text \<open>C13: One code can be exchanged twice: two requests that both check the code before either deletes it are both given tokens, two different sessions of the
  user the code was made for, though every statement of the database succeeds: deleting a code that is gone is no error.\<close>

theorem code_exchanged_twice:
  assumes "exchange_check env r db = Inr code" and "exchange_check env' r' db = Inr code" and "issuer_ok db" and "has_user db (od_UserID code)"
  shows "\<exists>s s' db1 db2. exchange_issue env h r code db = (writeTokenResponse s (tokenTTL h), db1) \<and>
    exchange_issue env' h r' code db1 = (writeTokenResponse s' (tokenTTL h), db2) \<and>
    s \<in> set (ct_oauth_sessions (db_core db2)) \<and> s' \<in> set (ct_oauth_sessions (db_core db2)) \<and>
    on_AccessToken s \<noteq> on_AccessToken s' \<and> on_UserID s = od_UserID code \<and> on_UserID s' = od_UserID code"
proof -
  let ?del = "\<lambda>r. try_db (Store_DeleteOAuthCode (FormValue r ''code''))"
  let ?new = "\<lambda>env db. new_session env h (od_UserID code) (od_ClientID code) (od_Scope code) db"
  let ?s = "?new env (?del r db)"
  let ?db1 = "with_session ?s (?del r db)"
  let ?s' = "?new env' (?del r' ?db1)"
  have ok: "issuer_ok (?del r db)" "issuer_ok (?del r' ?db1)"
    using assms(3) by (simp_all add: issuer_ok_delete_code issuer_ok_issued)
  have u: "has_user (?del r db) (od_UserID code)" "has_user (?del r' ?db1) (od_UserID code)"
    using assms(4) by (simp_all add: delete_code_keeps with_session_sel)
  have "exchange_issue env h r code db = (writeTokenResponse ?s (tokenTTL h), ?db1)"
      "exchange_issue env' h r' code ?db1 = (writeTokenResponse ?s' (tokenTTL h), with_session ?s' (?del r' ?db1))"
    using issue_session_ok ok u by (simp_all add: exchange_issue_def)
  moreover have "on_AccessToken ?s \<noteq> on_AccessToken ?s'"
    using assms(3) by (simp add: new_session_def delete_code_keeps with_session_sel issuer_ok_def inj_eq)
  moreover have "?s \<in> set (ct_oauth_sessions (db_core (with_session ?s' (?del r' ?db1))))"
      "?s' \<in> set (ct_oauth_sessions (db_core (with_session ?s' (?del r' ?db1))))"
    by (simp_all add: delete_code_keeps with_session_sel)
  moreover have "on_UserID ?s = od_UserID code" "on_UserID ?s' = od_UserID code" by (simp_all add: new_session_def)
  ultimately show ?thesis by blast
qed

section \<open>The whole flow\<close>

definition new_code :: "auth_env \<Rightarrow> AuthHandler \<Rightarrow> http_request \<Rightarrow> User \<Rightarrow> db \<Rightarrow> OAuthCode" where
  "new_code env h r u db = \<lparr>od_Code = db_ids db (db_next db), od_UserID = us_ID u, od_ClientID = FormValue r ''client_id'',
     od_RedirectURI = FormValue r ''redirect_uri'', od_CodeChallenge = FormValue r ''code_challenge'', od_Scope = FormValue r ''scope'',
     od_ExpiresAt = ae_now env + codeTTL h\<rparr>"

definition with_code :: "OAuthCode \<Rightarrow> db \<Rightarrow> db" where
  "with_code c db = core_upd (\<lambda>t. t\<lparr>ct_oauth_codes := ct_oauth_codes t @ [c]\<rparr>) (db\<lparr>db_next := Suc (db_next db)\<rparr>)"

lemma upgrade_frame [simp]:
  "db_core (upgrade_password env u pw db) = db_core db" "db_ids (upgrade_password env u pw db) = db_ids db"
  "db_next (upgrade_password env u pw db) = db_next db" "has_user (upgrade_password env u pw db) i = has_user db i"
  "fault_free (upgrade_password env u pw db) = fault_free db"
proof -
  have "\<exists>f. upgrade_password env u pw db = db\<lparr>db_users := map f (db_users db)\<rparr> \<and> (\<forall>x. us_ID (f x) = us_ID x)"
  proof (cases "upgrade_password env u pw db = db")
    case True
    then show ?thesis by (intro exI [of _ "\<lambda>x. x"]) simp
  next
    case False
    then obtain db' u' where st: "Store_UpdateUser (ae_bcrypt env) u' db = Inr db'" "upgrade_password env u pw db = db'"
      by (auto simp: upgrade_password_def try_db_def split: if_splits sum.splits)
    from st(1) obtain hash where "db' = db\<lparr>db_users := update_where (\<lambda>x. us_ID x = us_ID u')
        (\<lambda>x. x\<lparr>us_Name := us_Name u', us_Email := us_Email u', us_Password := hash,
           us_PasswordSalt := us_PasswordSalt u', us_Role := us_Role u'\<rparr>) (db_users db)\<rparr>"
      by (auto simp: Store_UpdateUser_def dest!: stmt_InrD split: sum.splits if_splits)
    then show ?thesis unfolding st(2) update_where_def by auto
  qed
  then obtain f where f: "upgrade_password env u pw db = db\<lparr>db_users := map f (db_users db)\<rparr>" "\<forall>x. us_ID (f x) = us_ID x" by blast
  from f(2) have "has_user (db\<lparr>db_users := map f (db_users db)\<rparr>) i = has_user db i" by (auto simp: has_user_def image_iff)
  with f(1) show "db_core (upgrade_password env u pw db) = db_core db" "db_ids (upgrade_password env u pw db) = db_ids db"
    "db_next (upgrade_password env u pw db) = db_next db" "has_user (upgrade_password env u pw db) i = has_user db i"
    "fault_free (upgrade_password env u pw db) = fault_free db" by simp_all
qed

lemma issuer_ok_upgrade: "issuer_ok db \<Longrightarrow> issuer_ok (upgrade_password env u pw db)"
  by (simp add: issuer_ok_def)

lemma login_known: "login_user env email pw db = Some u \<Longrightarrow> has_user db (us_ID u)"
  by (auto simp: login_user_def has_user_def Store_GetUserByEmail_def dest!: stmt_InrD query_row_SomeD split: sum.splits if_splits)

lemma authorized:
  assumes "rq_form r = Some f" and "FormValue r ''client_id'' \<noteq> []" and "FormValue r ''redirect_uri'' \<noteq> []"
    and "login_user env (FormValue r ''email'') (FormValue r ''password'') db = Some u" and "issuer_ok db"
  shows "authorizePost env h r db =
    (\<lparr>hr_status = 302, hr_headers = [(''Location'', code_location (FormValue r ''redirect_uri'') (db_ids db (db_next db)) (FormValue r ''state''))],
      hr_body = Raw []\<rparr>, with_code (new_code env h r u db) (upgrade_password env u (FormValue r ''password'') db))"
proof -
  let ?db = "upgrade_password env u (FormValue r ''password'') db" and ?c = "new_code env h r u db"
  have fresh: "db_ids db (db_next db) \<notin> od_Code ` set (ct_oauth_codes (db_core db))" by (auto dest!: issuer_next(4) [OF assms(5)])
  have "Store_CreateOAuthCode (?c\<lparr>od_Code := []\<rparr>) ?db = (Inr ?c, with_code ?c ?db)"
    using login_known [OF assms(4)] fresh issuer_next(1) [OF assms(5)]
    by (simp add: Store_CreateOAuthCode_def fill_id_def generateID_def insert_row_def new_code_def with_code_def core_upd_def)
  then have "Store_CreateOAuthCode \<lparr>od_Code = [], od_UserID = us_ID u, od_ClientID = FormValue r ''client_id'',
      od_RedirectURI = FormValue r ''redirect_uri'', od_CodeChallenge = FormValue r ''code_challenge'', od_Scope = FormValue r ''scope'',
      od_ExpiresAt = ae_now env + codeTTL h\<rparr> ?db = (Inr ?c, with_code ?c ?db)" by (simp add: new_code_def)
  then show ?thesis using assms(1-4) by (simp add: authorizePost_def) (simp add: new_code_def)
qed

lemma issuer_ok_with_code:
  assumes "issuer_ok db" and "od_Code c = db_ids db (db_next db)"
  shows "issuer_ok (with_code c db)"
proof -
  have "db_ids db n \<noteq> od_Code c" if "n \<ge> Suc (db_next db)" for n
    using assms that by (metis Suc_n_not_le_n injD issuer_ok_def)
  then show ?thesis using assms by (auto simp: issuer_ok_def with_code_def Suc_le_eq)
qed

lemma get_new_code: "issuer_ok db \<Longrightarrow> od_Code c = db_ids db (db_next db) \<Longrightarrow> Store_GetOAuthCode (od_Code c) (with_code c db) = Inr c"
  using issuer_next(4) [of db] by (simp add: Store_GetOAuthCode_def with_code_def query_row_def issuer_next(1) filter_False)

text \<open>C14: The login works from end to end: a user who signs in with the right password, for a client that keeps the secret of its
  challenge, is redirected with a code; the client that exchanges it in time gets an access token, and that token is accepted as
  the user until it expires.\<close>

theorem login_admits_user:
  assumes "rq_form r = Some f" and "FormValue r ''client_id'' \<noteq> []" and "FormValue r ''redirect_uri'' \<noteq> []"
    and "login_user env (FormValue r ''email'') (FormValue r ''password'') db = Some u" and "issuer_ok db"
    and "FormValue r ''code_challenge'' = ae_base64url env' (ae_sha256 env' v)" and "v \<noteq> []"
    and "FormValue r' ''code_verifier'' = v" and "FormValue r' ''code'' = db_ids db (db_next db)"
    and "FormValue r' ''client_id'' = FormValue r ''client_id''" and "FormValue r' ''redirect_uri'' = FormValue r ''redirect_uri''"
    and "ae_now env' \<le> ae_now env + codeTTL h"
  shows "\<exists>db1 sess db2. authorizePost env h r db = (\<lparr>hr_status = 302,
      hr_headers = [(''Location'', code_location (FormValue r ''redirect_uri'') (FormValue r' ''code'') (FormValue r ''state''))],
      hr_body = Raw []\<rparr>, db1) \<and>
    tokenAuthorizationCode env' h r' db1 = (writeTokenResponse sess (tokenTTL h), db2) \<and>
    (\<forall>t \<le> ae_now env' + tokenTTL h. Middleware (env'\<lparr>ae_now := t\<rparr>) h
       (r''\<lparr>rq_authorization := ''Bearer '' @ on_AccessToken sess\<rparr>) db2 = (Inr (us_ID u), db2))"
proof -
  let ?c = "new_code env h r u db" and ?db = "upgrade_password env u (FormValue r ''password'') db"
  let ?db1 = "with_code ?c ?db" and ?cd = "db_ids db (db_next db)"
  let ?dbd = "try_db (Store_DeleteOAuthCode ?cd) ?db1"
  let ?s = "new_session env' h (us_ID u) (od_ClientID ?c) (od_Scope ?c) ?dbd"
  have c: "od_Code ?c = ?cd" by (simp add: new_code_def)
  have ok: "issuer_ok ?db1" "?cd \<noteq> []"
    using issuer_ok_with_code [OF issuer_ok_upgrade [OF assms(5)]] c assms(5) by (auto simp: issuer_ok_def)
  have get: "Store_GetOAuthCode ?cd ?db1 = Inr ?c" using get_new_code [OF issuer_ok_upgrade [OF assms(5)], of ?c] c by simp
  have user: "has_user ?dbd (us_ID u)"
    using login_known [OF assms(4)] ok(1) by (simp add: deleted_code issuer_ok_def with_code_def)
  have "code_refusal env' r' ?c = None" using assms(6-11) by (simp add: code_refusal_def new_code_def verifyPKCE_def)
  then have "tokenAuthorizationCode env' h r' ?db1 = issue_session env' h (us_ID u) (od_ClientID ?c) (od_Scope ?c) ?dbd"
    using assms(9,12) ok(2) get by (simp add: exchange_defs Let_def) (simp add: new_code_def)
  then have "tokenAuthorizationCode env' h r' ?db1 = (writeTokenResponse ?s (tokenTTL h), with_session ?s ?dbd)"
    using issue_session_ok [OF issuer_ok_delete_code [OF ok(1)] user] by simp
  moreover have "\<forall>t \<le> ae_now env' + tokenTTL h. Middleware (env'\<lparr>ae_now := t\<rparr>) h
      (r''\<lparr>rq_authorization := ''Bearer '' @ on_AccessToken ?s\<rparr>) (with_session ?s ?dbd) = (Inr (us_ID u), with_session ?s ?dbd)"
    using new_session_admits [OF issuer_ok_delete_code [OF ok(1)]] by blast
  ultimately show ?thesis using authorized [OF assms(1-5), of h] unfolding assms(9) by blast
qed

section \<open>Refreshing\<close>

text \<open>Refreshing replaces a session: the user gets a new one, and neither token of the old one works any longer.\<close>

lemma refresh_replaces_session:
  assumes "issuer_ok db" and "FormValue r ''refresh_token'' = on_RefreshToken s" and "on_RefreshToken s \<noteq> []"
    and "s \<in> set (ct_oauth_sessions (db_core db))" and "unique_on on_AccessToken (ct_oauth_sessions (db_core db))"
    and "unique_on on_RefreshToken (ct_oauth_sessions (db_core db))" and "has_user db (on_UserID s)"
  shows "\<exists>new db'. tokenRefresh env h r db = (writeTokenResponse new (tokenTTL h), db') \<and> on_UserID new = on_UserID s \<and>
    Store_GetOAuthSession (on_AccessToken s) db' = Inl ErrNoRows \<and>
    Store_GetOAuthSessionByRefresh (on_RefreshToken s) db' = Inl ErrNoRows"
proof -
  let ?db = "try_db (Store_DeleteOAuthSession (on_AccessToken s)) db"
  let ?n = "new_session env h (on_UserID s) (on_ClientID s) (on_Scope s) ?db"
  have ff: "fault_free db" using issuer_next(1) [OF assms(1)] .
  have get: "Store_GetOAuthSessionByRefresh (on_RefreshToken s) db = Inr s"
    using query_row_unique [OF assms(6,4), of "\<lambda>x. on_RefreshToken x = on_RefreshToken s"] ff by (simp add: Store_GetOAuthSessionByRefresh_def)
  have user: "has_user ?db (on_UserID s)" using assms(7) ff by (simp add: deleted_session)
  have "tokenRefresh env h r db = (writeTokenResponse ?n (tokenTTL h), with_session ?n ?db)"
    using issue_session_ok [OF issuer_ok_delete_session [OF assms(1)] user] get assms(2,3) by (simp add: tokenRefresh_def)
  moreover have "on_AccessToken ?n \<noteq> on_AccessToken s" "on_RefreshToken ?n \<noteq> on_RefreshToken s"
    using issuer_next(5) [OF assms(1,4)] issuer_okD(6) [OF assms(1) le_SucI [OF order_refl] assms(4)] ff
    by (auto simp: new_session_def deleted_session)
  moreover have "on_RefreshToken x \<noteq> on_RefreshToken s" if "x \<in> set (ct_oauth_sessions (db_core db))" "on_AccessToken x \<noteq> on_AccessToken s" for x
    using unique_on_eq [OF assms(6) that(1) assms(4)] that(2) by blast
  ultimately show ?thesis using ff
    by (auto simp: with_session_def deleted_session Store_GetOAuthSession_def Store_GetOAuthSessionByRefresh_def query_row_None new_session_def)
qed

text \<open>A client that uses its access token once after it expired can no longer refresh it: the middleware deletes the session, and the
  refresh token with it.\<close>

lemma expired_use_ends_session:
  assumes "fault_free db" and "s \<in> set (ct_oauth_sessions (db_core db))" and "unique_on on_AccessToken (ct_oauth_sessions (db_core db))"
    and "unique_on on_RefreshToken (ct_oauth_sessions (db_core db))" and "on_AccessToken s \<noteq> []" and "\<not> HasPrefix (on_AccessToken s) ''mcp_''"
    and "ae_now env > on_ExpiresAt s" and "FormValue r' ''refresh_token'' = on_RefreshToken s" and "on_RefreshToken s \<noteq> []"
  shows "\<exists>db'. Middleware env h (r\<lparr>rq_authorization := ''Bearer '' @ on_AccessToken s\<rparr>) db = (Inl (unauthorized h), db') \<and>
    tokenRefresh env' h r' db' = (jsonError ''invalid_grant'' ''refresh_token not found'' 400, db')"
proof -
  let ?db = "try_db (Store_DeleteOAuthSession (on_AccessToken s)) db"
  have "Store_GetOAuthSession (on_AccessToken s) db = Inr s"
    using query_row_unique [OF assms(3,2), of "\<lambda>x. on_AccessToken x = on_AccessToken s"] assms(1) by (simp add: Store_GetOAuthSession_def)
  then have "Middleware env h (r\<lparr>rq_authorization := ''Bearer '' @ on_AccessToken s\<rparr>) db = (Inl (unauthorized h), ?db)"
    using assms(5-7) by (simp add: Middleware_def extractBearer_def session_user_def EqualFold_def)
  moreover have "on_RefreshToken x \<noteq> on_RefreshToken s" if "x \<in> set (ct_oauth_sessions (db_core db))" "on_AccessToken x \<noteq> on_AccessToken s" for x
    using unique_on_eq [OF assms(4) that(1) assms(2)] that(2) by blast
  then have "Store_GetOAuthSessionByRefresh (on_RefreshToken s) ?db = Inl ErrNoRows"
    using assms(1) by (auto simp: Store_GetOAuthSessionByRefresh_def deleted_session query_row_None)
  ultimately show ?thesis using assms(8,9) by (simp add: tokenRefresh_def)
qed

section \<open>What signing in does not check\<close>

text \<open>C35: Signing in trusts the form: for any client and any address, registered or not, a right password gives a code that is sent to that
  address, and a user with a second factor is not asked for it. The page with the form does check that the client is
  registered, and refuses the same client.\<close>

theorem authorize_trusts_form:
  assumes "rq_form r = Some f" and "FormValue r ''client_id'' \<noteq> []" and "FormValue r ''redirect_uri'' \<noteq> []"
    and "login_user env (FormValue r ''email'') (FormValue r ''password'') db = Some u" and "issuer_ok db"
    and "ct_oauth_clients (db_core db) = []"
    and "param (rq_query g) ''client_id'' = FormValue r ''client_id''" and "param (rq_query g) ''redirect_uri'' = FormValue r ''redirect_uri''"
  shows "(\<exists>code db'. authorizePost env h r db = (\<lparr>hr_status = 302,
      hr_headers = [(''Location'', code_location (FormValue r ''redirect_uri'') (od_Code code) (FormValue r ''state''))], hr_body = Raw []\<rparr>, db') \<and>
      Store_GetOAuthCode (od_Code code) db' = Inr code \<and> od_UserID code = us_ID u) \<and>
    hr_status (authorizeGet env g db) = 400"
proof -
  let ?c = "new_code env h r u db" and ?db = "upgrade_password env u (FormValue r ''password'') db"
  have "Store_GetOAuthCode (od_Code ?c) (with_code ?c ?db) = Inr ?c"
    using get_new_code [OF issuer_ok_upgrade [OF assms(5)], of ?c] by (simp add: new_code_def)
  moreover have "od_Code ?c = db_ids db (db_next db)" "od_UserID ?c = us_ID u" by (simp_all add: new_code_def)
  ultimately have "\<exists>code db'. authorizePost env h r db = (\<lparr>hr_status = 302,
      hr_headers = [(''Location'', code_location (FormValue r ''redirect_uri'') (od_Code code) (FormValue r ''state''))], hr_body = Raw []\<rparr>, db') \<and>
      Store_GetOAuthCode (od_Code code) db' = Inr code \<and> od_UserID code = us_ID u"
    using authorized [OF assms(1-5), of h] by metis
  moreover have "hr_status (authorizeGet env g db) = 400"
    using assms(2,3,6-8) issuer_next(1) [OF assms(5)] by (simp add: authorizeGet_def Store_GetOAuthClient_def query_row_def http_error_def)
  ultimately show ?thesis ..
qed

section \<open>A run\<close>

definition sample_auth :: auth_env where
  "sample_auth = \<lparr>ae_now = 100, ae_bcrypt = \<lparr>bcrypt_generate = (\<lambda>s. Inr (''$2a$'' @ s)), bcrypt_matches = (\<lambda>h s. h = ''$2a$'' @ s)\<rparr>,
     ae_sha256 = rev, ae_base64url = (\<lambda>s. s), ae_decode = (\<lambda>_. Inl ErrNoRows), ae_marshal = (\<lambda>_. []), ae_escape = (\<lambda>s. s)\<rparr>"

definition sample_issuer :: AuthHandler where
  "sample_issuer = \<lparr>ah_Issuer = ''https://bridge'', ah_CodeTTL = 0, ah_TokenTTL = 0\<rparr>"

definition auth_user :: User where
  "auth_user = \<lparr>us_ID = ''ann'', us_Name = ''Ann'', us_Email = ''a@b'', us_Password = ''$2a$pw'', us_PasswordSalt = [], us_Role = ''user'', us_CreatedAt = 0\<rparr>"

definition auth_db :: db where
  "auth_db = empty_db\<lparr>db_users := [auth_user], db_ids := (\<lambda>n. replicate (Suc n) (CHR ''x''))\<rparr>"

definition sample_session :: OAuthSession where
  "sample_session = \<lparr>on_AccessToken = ''t'', on_RefreshToken = ''r'', on_UserID = ''ann'', on_ClientID = ''cli'', on_Scope = [],
     on_ExpiresAt = 500, on_CreatedAt = 0\<rparr>"

definition sample_code :: OAuthCode where
  "sample_code = \<lparr>od_Code = ''k'', od_UserID = ''ann'', od_ClientID = ''cli'', od_RedirectURI = ''https://cli'', od_CodeChallenge = ''cba'',
     od_Scope = [], od_ExpiresAt = 200\<rparr>"

definition session_db :: db where
  "session_db = auth_db\<lparr>db_core := empty_core\<lparr>ct_oauth_sessions := [sample_session], ct_oauth_codes := [sample_code]\<rparr>\<rparr>"

definition sample_request :: "string \<Rightarrow> (string, string) gomap \<Rightarrow> http_request" where
  "sample_request auth form = \<lparr>rq_method = ''POST'', rq_authorization = auth, rq_query = form, rq_form = Some form, rq_body = []\<rparr>"

definition login_form :: "(string, string) gomap" where
  "login_form = [(''email'', ''a@b''), (''password'', ''pw''), (''client_id'', ''cli''), (''redirect_uri'', ''https://cli''), (''code_challenge'', ''cba'')]"

definition token_form :: "string \<Rightarrow> (string, string) gomap" where
  "token_form code = [(''code'', code), (''code_verifier'', ''abc''), (''client_id'', ''cli''), (''redirect_uri'', ''https://cli'')]"

lemmas sample_auth_defs = sample_auth_def sample_issuer_def auth_user_def sample_session_def sample_code_def
  sample_request_def login_form_def token_form_def FormValue_def param_def

lemma auth_dbs_ok: "issuer_ok auth_db" "fault_free session_db" "site_ok session_db"
  by (auto simp: issuer_ok_def auth_db_def session_db_def empty_db_def empty_core_def fault_free_def inj_def replicate_eq_replicate
      HasPrefix_iff site_ok_def db_ok_def core_ok_def keys_ok_def refs_ok_def unique_on_def fk_ok_def backend_ids_def user_ids_def
      sample_session_def sample_code_def auth_user_def)

lemma sample_login: "login_user sample_auth ''a@b'' ''pw'' auth_db = Some auth_user"
  by (simp add: login_user_def Store_GetUserByEmail_def issuer_next(1) [OF auth_dbs_ok(1)])
    (simp add: query_row_def auth_db_def sample_auth_def auth_user_def CheckPassword_def IsBcrypt_def)

theorem middleware_sound_witness:
  "entitled sample_auth session_db ''t'' ''ann''"
proof -
  have "Middleware sample_auth sample_issuer (sample_request ''Bearer t'' []) session_db = (Inr ''ann'', session_db)"
    by (simp add: Middleware_def extractBearer_def EqualFold_def session_user_def Store_GetOAuthSession_def auth_dbs_ok(2) sample_request_def)
      (simp add: session_db_def query_row_def sample_session_def sample_auth_def)
  from middleware_sound [OF this auth_dbs_ok(3)] show ?thesis by (simp add: sample_request_def extractBearer_def EqualFold_def)
qed


theorem code_exchanged_twice_witness:
  "\<exists>s s' db1 db2. exchange_issue sample_auth sample_issuer (sample_request [] (token_form ''k'')) sample_code session_db =
      (writeTokenResponse s (tokenTTL sample_issuer), db1) \<and>
    exchange_issue sample_auth sample_issuer (sample_request [] (token_form ''k'')) sample_code db1 =
      (writeTokenResponse s' (tokenTTL sample_issuer), db2) \<and> on_AccessToken s \<noteq> on_AccessToken s' \<and> on_UserID s = ''ann'' \<and> on_UserID s' = ''ann''"
proof -
  let ?r = "sample_request [] (token_form ''k'')"
  have "Store_GetOAuthCode ''k'' session_db = Inr sample_code"
    by (simp add: Store_GetOAuthCode_def auth_dbs_ok(2)) (simp add: session_db_def query_row_def sample_code_def)
  then have "exchange_check sample_auth ?r session_db = Inr sample_code"
    by (simp add: exchange_check_def code_refusal_def verifyPKCE_def sample_auth_defs)
  moreover have "issuer_ok session_db"
    by (auto simp: issuer_ok_def session_db_def auth_db_def empty_db_def empty_core_def fault_free_def inj_def HasPrefix_iff
        sample_session_def sample_code_def)
  moreover have "has_user session_db (od_UserID sample_code)" by (simp add: has_user_def session_db_def auth_db_def auth_user_def sample_code_def)
  ultimately show ?thesis
    using code_exchanged_twice [of sample_auth ?r session_db sample_code sample_auth ?r sample_issuer] by (auto simp: sample_code_def)
qed

theorem login_admits_user_witness:
  "\<exists>db1 sess db2. authorizePost sample_auth sample_issuer (sample_request [] login_form) auth_db = (\<lparr>hr_status = 302,
      hr_headers = [(''Location'', ''https://cli?code=x'')], hr_body = Raw []\<rparr>, db1) \<and>
    tokenAuthorizationCode sample_auth sample_issuer (sample_request [] (token_form ''x'')) db1 = (writeTokenResponse sess (tokenTTL sample_issuer), db2) \<and>
    Middleware sample_auth sample_issuer (sample_request (''Bearer '' @ on_AccessToken sess) []) db2 = (Inr ''ann'', db2)"
proof -
  have id: "db_ids auth_db (db_next auth_db) = ''x''" by (simp add: auth_db_def empty_db_def)
  obtain db1 sess db2 where f: "authorizePost sample_auth sample_issuer (sample_request [] login_form) auth_db = (\<lparr>hr_status = 302,
      hr_headers = [(''Location'', code_location ''https://cli'' ''x'' [])], hr_body = Raw []\<rparr>, db1)"
    "tokenAuthorizationCode sample_auth sample_issuer (sample_request [] (token_form ''x'')) db1 = (writeTokenResponse sess (tokenTTL sample_issuer), db2)"
    "Middleware (sample_auth\<lparr>ae_now := 100\<rparr>) sample_issuer (sample_request [] []\<lparr>rq_authorization := ''Bearer '' @ on_AccessToken sess\<rparr>) db2 =
       (Inr (us_ID auth_user), db2)"
    using login_admits_user [of "sample_request [] login_form" login_form sample_auth auth_db auth_user sample_auth "''abc''"
        "sample_request [] (token_form ''x'')" sample_issuer "sample_request [] []"] auth_dbs_ok(1) sample_login id
    by (auto simp: sample_auth_defs codeTTL_def tokenTTL_def DefaultCodeTTL_def DefaultTokenTTL_def second_def millisecond_def hour_def)
  moreover have "sample_auth\<lparr>ae_now := 100\<rparr> = sample_auth"
    "sample_request [] []\<lparr>rq_authorization := ''Bearer '' @ on_AccessToken sess\<rparr> = sample_request (''Bearer '' @ on_AccessToken sess) []"
    "us_ID auth_user = ''ann''" "code_location ''https://cli'' ''x'' [] = ''https://cli?code=x''"
    by (simp_all add: sample_auth_def sample_request_def auth_user_def code_location_def Contains_def)
  ultimately show ?thesis by auto
qed

theorem authorize_trusts_form_witness:
  "\<exists>(code :: OAuthCode) db'. authorizePost sample_auth sample_issuer (sample_request [] login_form) auth_db = (\<lparr>hr_status = 302,
      hr_headers = [(''Location'', code_location ''https://cli'' (od_Code code) [])], hr_body = Raw []\<rparr>, db') \<and>
     od_UserID code = ''ann'' \<and> hr_status (authorizeGet sample_auth (sample_request [] login_form) auth_db) = 400"
proof -
  have "ct_oauth_clients (db_core auth_db) = []" by (simp add: auth_db_def empty_db_def empty_core_def)
  moreover have "us_ID auth_user = ''ann''" by (simp add: auth_user_def)
  moreover have "FormValue (sample_request [] login_form) k = param login_form k" "rq_query (sample_request [] login_form) = login_form" for k
    by (simp_all add: FormValue_def sample_request_def)
  ultimately have "(\<exists>code db'. authorizePost sample_auth sample_issuer (sample_request [] login_form) auth_db = (\<lparr>hr_status = 302,
      hr_headers = [(''Location'', code_location ''https://cli'' (od_Code code) [])], hr_body = Raw []\<rparr>, db') \<and>
      Store_GetOAuthCode (od_Code code) db' = Inr code \<and> od_UserID code = ''ann'') \<and>
     hr_status (authorizeGet sample_auth (sample_request [] login_form) auth_db) = 400"
    using authorize_trusts_form [of "sample_request [] login_form" login_form sample_auth auth_db auth_user "sample_request [] login_form" sample_issuer]
      auth_dbs_ok(1) sample_login
    by (simp add: param_def login_form_def sample_request_def)
  then show ?thesis by blast
qed


end
