(* ===== verification/Service.thy ===== *)
theory Service
  imports Auth BridgeCalls
begin

text \<open>
  The assembled service: the executor of approved calls (src/web/approval_executor.go) on the application, the routes of the
  MCP endpoints behind the check of tokens, and the background retry of backends (src/main.go). The theorems are about whole requests: whose
  processes they reach, and that an approved call is the call that was made.
\<close>

section \<open>Running approved calls\<close>

definition stripToolPrefix :: "string \<Rightarrow> string \<Rightarrow> string" where
  "stripToolPrefix toolName prefix = (if prefix = [] then toolName else strip_name prefix toolName)"

definition stripPrefixFromRequestBody :: "json_lib \<Rightarrow> string \<Rightarrow> string \<Rightarrow> string" where
  "stripPrefixFromRequestBody jl body prefix =
     (case jl_Unmarshal jl body of
        Inr (JObj req) \<Rightarrow>
          (case json_object (map_of req ''params'') of
             None \<Rightarrow> body
           | Some params \<Rightarrow>
               (case map_of params ''name'' of
                  Some (JStr name) \<Rightarrow>
                    (let stripped = stripToolPrefix name prefix
                     in if stripped \<noteq> name
                        then jl_Marshal jl (JObj (AList.update ''params'' (JObj (AList.update ''name'' (JStr stripped) params)) req))
                        else body)
                | _ \<Rightarrow> body))
      | _ \<Rightarrow> body)"

text \<open>Decoding an \<open>int\<close> field, and the error of a response: the inner \<open>None\<close> is a nil pointer.\<close>

fun set_int :: "json \<Rightarrow> int option \<Rightarrow> int option" where
  "set_int (JNum q) acc = (if of_int \<lfloor>q\<rfloor> = q \<and> int64 \<lfloor>q\<rfloor> then map_option (\<lambda>_. \<lfloor>q\<rfloor>) acc else None)"
| "set_int JNull acc = acc"
| "set_int _ acc = None"

fun set_rpc_error :: "json \<Rightarrow> (int \<times> string) option option \<Rightarrow> (int \<times> string) option option" where
  "set_rpc_error (JObj kvs) acc =
     (case acc of
        None \<Rightarrow> None
      | Some old \<Rightarrow>
          (let (c, m) = (case old of Some cm \<Rightarrow> cm | None \<Rightarrow> (0, []))
           in case (fold set_int (members ''code'' kvs) (Some c), fold set_string (members ''message'' kvs) (Some m)) of
                (Some c, Some m) \<Rightarrow> Some (Some (c, m))
              | _ \<Rightarrow> None))"
| "set_rpc_error JNull acc = map_option (\<lambda>_. None) acc"
| "set_rpc_error _ acc = None"

definition decode_rpc_error :: "json_lib \<Rightarrow> string \<Rightarrow> (int \<times> string) option option" where
  "decode_rpc_error jl response =
     (case jl_Unmarshal jl response of
        Inl _ \<Rightarrow> None
      | Inr v \<Rightarrow>
          (case top_fields v of
             None \<Rightarrow> None
           | Some kvs \<Rightarrow>
               (case string_field ''jsonrpc'' kvs of
                  None \<Rightarrow> None
                | Some _ \<Rightarrow> fold set_rpc_error (members ''error'' kvs) (Some None))))"

text \<open>Status, response and error of an executed request.\<close>

type_synonym execution = "int \<times> string \<times> goerr option"

definition execution_of :: "json_lib \<Rightarrow> string \<Rightarrow> execution" where
  "execution_of jl response =
     (case decode_rpc_error jl response of
        Some (Some (c, m)) \<Rightarrow> (if c < 100 \<or> c \<ge> 600 then 400 else c, response, Some (ErrNew (''JSON-RPC error: '' @ m)))
      | _ \<Rightarrow> (200, response, None))"

definition exec_line :: "'p world \<Rightarrow> string \<Rightarrow> (string \<times> string) option" where
  "exec_line w body =
     (case jl_Unmarshal (w_json w) body of
        Inl _ \<Rightarrow> None
      | Inr v \<Rightarrow>
          (case decode_message v of
             None \<Rightarrow> None
           | Some msg \<Rightarrow>
               (let reqID = w_show w (rm_ID msg); fresh = ''exec-'' @ itoa (w_now w)
                in if reqID = [] \<or> reqID = ''<nil>''
                   then Some (fresh, compact_line w (jl_Marshal (w_json w) (encode_message (msg\<lparr>rm_ID := JStr fresh\<rparr>))))
                   else Some (reqID, compact_line w body))))"

definition executeWithProcess :: "'p world \<Rightarrow> string \<Rightarrow> ManagedProcess \<Rightarrow> string \<Rightarrow> 'p App \<Rightarrow> (execution \<times> 'p App) option" where
  "executeWithProcess w key proc body a =
     (case exec_line w body of
        None \<Rightarrow> map_option (Pair (400, [], Some (ErrNew ''invalid JSON-RPC''))) (give_back key proc a)
      | Some (reqID, line) \<Rightarrow>
          (case send_request w key reqID (60 * second) line a of
             None \<Rightarrow> None
           | Some (ev, a) \<Rightarrow>
               if ev = TimerFired
               then map_option (Pair (504, [], Some (ErrNew ''request timeout after 60s''))) (give_back key proc (kill_proc key proc a))
               else (case answered ev of
                       None \<Rightarrow> map_option (Pair (504, [], Some (ErrNew ''no response received''))) (give_back key proc a)
                     | Some response \<Rightarrow> map_option (Pair (execution_of (w_json w) response)) (give_back key proc a))))"

text \<open>\<open>WaitForWarm\<close> on a pool that other goroutines change between the polls.\<close>

fun poll_count :: "(Pool \<Rightarrow> Pool) list \<Rightarrow> Pool \<Rightarrow> bool \<times> Pool" where
  "poll_count [] p = (False, p)"
| "poll_count (others # polls) p = (let p = others p in if WarmCount p > 0 then (True, p) else poll_count polls p)"

definition await_warm :: "'p world \<Rightarrow> string \<Rightarrow> 'p App \<Rightarrow> (bool \<times> 'p App) option" where
  "await_warm w key a =
     (case pool_at key a of
        None \<Rightarrow> None
      | Some p \<Rightarrow> (case poll_count (w_polls w key) (TouchLastUsed (w_now w) p) of (ready, p) \<Rightarrow> Some (ready, set_pool key p a)))"

definition ExecuteRequest :: "'p world \<Rightarrow> string \<Rightarrow> string \<Rightarrow> string \<Rightarrow> 'p App \<Rightarrow> (execution \<times> 'p App) option" where
  "ExecuteRequest w userID backendID body a =
     (if backendID = [] then Some ((0, [], Some (ErrNew ''empty backend ID - cannot execute request'')), a)
      else case getPoolForUser w userID backendID a of
             None \<Rightarrow> None
           | Some (None, a) \<Rightarrow> Some ((0, [], Some (ErrNew (''no pool found for backend '' @ backendID))), a)
           | Some (Some key, a) \<Rightarrow>
               (case await_warm w key a of
                  None \<Rightarrow> None
                | Some (False, a) \<Rightarrow>
                    Some ((503, [], Some (ErrNew (''timeout waiting for backend process to start (backend: '' @ backendID @ '')''))), a)
                | Some (True, a) \<Rightarrow>
                    (let prefix = GetPrefixForBackend backendID (app_muxer a);
                         body = (if prefix \<noteq> [] then stripPrefixFromRequestBody (w_json w) body prefix else body)
                     in case try_warm key a of
                          None \<Rightarrow> None
                        | Some (None, a) \<Rightarrow> Some ((503, [], Some (ErrNew ''no warm processes available after waiting'')), a)
                        | Some (Some proc, a) \<Rightarrow> executeWithProcess w key proc body a)))"

section \<open>The routes\<close>

definition authenticate :: "auth_env \<Rightarrow> AuthHandler \<Rightarrow> http_request \<Rightarrow> 'p App \<Rightarrow> (http_response + string) \<times> 'p App" where
  "authenticate env h r a =
     (let (v, db) = Middleware env h r (st_db (app_store a)) in (v, a\<lparr>app_store := (app_store a)\<lparr>st_db := db\<rparr>\<rparr>))"

definition serve_root :: "auth_env \<Rightarrow> AuthHandler \<Rightarrow> 'p world \<Rightarrow> http_request \<Rightarrow> 'p App \<Rightarrow> (outcome \<times> 'p App) option" where
  "serve_root env h w r a =
     (case authenticate env h r a of
        (Inl resp, a) \<Rightarrow> Some (Replied resp, a)
      | (Inr u, a) \<Rightarrow> Handler w u (rq_method r) (rq_body r) a)"

definition serve_v2 :: "auth_env \<Rightarrow> AuthHandler \<Rightarrow> 'p world \<Rightarrow> http_request \<Rightarrow> 'p App \<Rightarrow> (http_response \<times> 'p App) option" where
  "serve_v2 env h w r a =
     (case authenticate env h r a of
        (Inl resp, a) \<Rightarrow> Some (resp, a)
      | (Inr u, a) \<Rightarrow> v2HandleWrapper w u (rq_method r) (rq_body r) a)"

text \<open>What a request leaves to be done for its user after the handler has returned: a list answered from the cache starts a refresh of each
  backend it was answered for, in a goroutine of its own, and the library that serves the bridge's own tools may call the refresh tool. Each runs in its own
  world, and the order is that of the list.\<close>

datatype leftover = Refresh Backend | RefreshTool

fun follow_up :: "string \<Rightarrow> 'p world \<times> leftover \<Rightarrow> 'p App \<Rightarrow> 'p App option" where
  "follow_up u (w, Refresh b) a = refreshBackendTools w u b a"
| "follow_up u (w, RefreshTool) a = map_option snd (handleRefreshToolsTool w u a)"

fun follow_ups :: "string \<Rightarrow> ('p world \<times> leftover) list \<Rightarrow> 'p App \<Rightarrow> 'p App option" where
  "follow_ups u [] a = Some a"
| "follow_ups u (f # fs) a = Option.bind (follow_up u f a) (follow_ups u fs)"

definition serve_root_all ::
    "auth_env \<Rightarrow> AuthHandler \<Rightarrow> 'p world \<Rightarrow> http_request \<Rightarrow> ('p world \<times> leftover) list \<Rightarrow> 'p App \<Rightarrow> (outcome \<times> 'p App) option" where
  "serve_root_all env h w r fs a =
     (case authenticate env h r a of
        (Inl resp, a) \<Rightarrow> Some (Replied resp, a)
      | (Inr u, a) \<Rightarrow>
          (case Handler w u (rq_method r) (rq_body r) a of
             None \<Rightarrow> None
           | Some (out, a) \<Rightarrow> map_option (Pair out) (follow_ups u fs a)))"

lemma serve_root_no_more: "serve_root_all env h w r [] a = serve_root env h w r a"
  by (auto simp: serve_root_all_def serve_root_def split: prod.splits sum.splits option.splits)

section \<open>Background retry\<close>

text \<open>One tick of the loop. \<open>environ\<close> is the environment of the bridge, and \<open>probe\<close> the outcome of \<open>ProbeBackend\<close> for a command, an
  environment and a framing.\<close>

definition retry_env :: "json_lib \<Rightarrow> string list \<Rightarrow> Backend \<Rightarrow> string list" where
  "retry_env jl environ b =
     environ @ (if be_Env b \<noteq> [] \<and> be_Env b \<noteq> ''{}''
       then (case jl_Unmarshal jl (be_Env b) of
               Inr (JObj kvs) \<Rightarrow> (case string_values kvs of Some m \<Rightarrow> mapToSlice m | None \<Rightarrow> [])
             | _ \<Rightarrow> [])
       else [])"

definition retry_backend ::
    "string list \<Rightarrow> (string \<Rightarrow> string list \<Rightarrow> string \<Rightarrow> ProbeResult) \<Rightarrow> 'p world \<Rightarrow> string \<Rightarrow> 'p App \<Rightarrow> 'p App" where
  "retry_backend environ probe w backendID a =
     (case app_GetBackend w backendID a of
        (Inl _, a) \<Rightarrow> a
      | (Inr b, a) \<Rightarrow>
          if pbr_Status (probe (be_Command b) (retry_env (w_json w) environ b) (be_StdioFraming b)) = ''ok''
          then set_available w backendID a else a)"

definition StartBackendRetryLoop ::
    "string list \<Rightarrow> (string \<Rightarrow> string list \<Rightarrow> string \<Rightarrow> ProbeResult) \<Rightarrow> 'p world \<Rightarrow> 'p App \<Rightarrow> 'p App" where
  "StartBackendRetryLoop environ probe w a =
     (case Store_GetBackendsNeedingRetry (w_now w) (st_db (app_store a)) of
        Inl _ \<Rightarrow> a
      | Inr backends \<Rightarrow> fold (retry_backend environ probe w) backends a)"

definition resolveTemplatesForUser :: "crypto_lib \<Rightarrow> (string, string) gomap \<Rightarrow> string \<Rightarrow> db \<Rightarrow> (string, string) gomap" where
  "resolveTemplatesForUser lib envMap userID db =
     (if \<not> envMapHasTemplates envMap then envMap
      else case Store_GetUser userID db of
             Inl _ \<Rightarrow> envMap
           | Inr user \<Rightarrow> (case ResolveEnvTemplates lib envMap user of Inl _ \<Rightarrow> envMap | Inr env \<Rightarrow> env))"

section \<open>Whose processes a request reaches\<close>

text \<open>A step that writes only to pools of the given user.\<close>

definition writes_for :: "string \<Rightarrow> 'p App \<Rightarrow> 'p App \<Rightarrow> bool" where
  "writes_for u a a' \<longleftrightarrow> (\<exists>ls. app_sent a' = app_sent a @ ls \<and> (\<forall>(k, l) \<in> set ls. \<exists>b. k = user_pool_key b u))"

lemma writes_for_silent: "app_sent a' = app_sent a \<Longrightarrow> writes_for u a a'"
  by (simp add: writes_for_def)

lemma writes_for_sends: "sends u a a' \<Longrightarrow> writes_for u a a'"
  by (auto simp: sends_def writes_for_def)

lemma writes_for_trans: "writes_for u a b \<Longrightarrow> writes_for u b c \<Longrightarrow> writes_for u a c"
  unfolding writes_for_def by (metis (no_types, lifting) Un_iff append.assoc set_append)

lemma writes_for_line: "app_sent a' = app_sent a @ [(user_pool_key b u, l)] \<Longrightarrow> writes_for u a a'"
  by (auto simp: writes_for_def)

lemma writes_for_cong: "app_sent a = app_sent b \<Longrightarrow> app_sent a' = app_sent b' \<Longrightarrow> writes_for u a a' = writes_for u b b'"
  by (simp add: writes_for_def)

lemma listing_sent [simp]:
  "app_sent (update_pool k f a) = app_sent a" "app_sent (upd_db g a) = app_sent a" "app_sent (cache_tools w b ts a) = app_sent a"
  "app_sent (set_available w b a) = app_sent a"
  by (simp_all add: update_pool_def upd_db_def cache_tools_def set_available_def split: option.splits sum.splits prod.splits)

lemma listing_sentD:
  "give_back k q a = Some a' \<Longrightarrow> app_sent a' = app_sent a"
  "wait_warm w k a = Some (r, a') \<Longrightarrow> app_sent a' = app_sent a"
  "set_unavailable w b m a = Some a' \<Longrightarrow> app_sent a' = app_sent a"
  "list_answer w specs be data a = Some (ts, a') \<Longrightarrow> app_sent a' = app_sent a"
  "try_warm k a = Some (pr, a') \<Longrightarrow> app_sent a' = app_sent a"
  by (auto simp: give_back_def wait_warm_def set_unavailable_def list_answer_def try_warm_def Let_def
      split: option.splits if_splits prod.splits sum.splits received.splits)

lemma ask_tools_writes:
  assumes "ask_tools w specs be (user_pool_key b u) a = Some (ts, a')" shows "writes_for u a a'"
proof -
  let ?k = "user_pool_key b u" and ?i = "''list-'' @ be_ID be @ ''-'' @ itoa (w_now w)"
  obtain r a1 where wait: "wait_warm w ?k a = Some (r, a1)" using assms by (auto simp: ask_tools_def split: option.splits)
  note sent1 = listing_sentD(2) [OF wait]
  show ?thesis
  proof (cases r)
    case (Inl err)
    with assms wait sent1 show ?thesis by (simp add: ask_tools_def writes_for_silent)
  next
    case (Inr proc)
    with assms wait obtain ev a2 where snd: "send_request w ?k ?i (30 * second) (jl_Marshal (w_json w) (list_message ?i) @ [CHR 0x0A]) a1 = Some (ev, a2)"
      by (auto simp: ask_tools_def Let_def split: option.splits)
    from assms wait Inr snd have "app_sent a' = app_sent a2"
      by (auto simp: ask_tools_def Let_def dest!: listing_sentD split: option.splits chan_event.splits prod.splits)
    then show ?thesis using send_request_sent [OF snd] sent1 writes_for_line by metis
  qed
qed

lemma list_backend_writes:
  assumes "list_backend w u specs caps status be a = Some (ts, a')" shows "writes_for u a a'"
proof -
  obtain key a1 where g: "getPoolForUser w u (be_ID be) a = Some (Some key, a1)"
    using assms by (auto simp: list_backend_def split: option.splits)
  note sent = getPoolForUser_key(1) [OF g] and key = getPoolForUser_key(2) [OF g refl]
  let ?a2 = "update_pool key (TouchLastUsed (w_now w)) a1"
  let ?a3 = "if status (be_ID be) = ''unavailable'' then update_pool key ForceReconnect ?a2 else ?a2"
  have "app_sent ?a3 = app_sent a" using sent by simp
  moreover have "a' = ?a3 \<or> ask_tools w specs be key ?a3 = Some (ts, a')"
    using assms g by (auto simp: list_backend_def Let_def split: if_splits option.splits)
  ultimately show ?thesis using key ask_tools_writes writes_for_cong [of a ?a3 a' a'] by (auto intro: writes_for_silent)
qed

lemma list_backends_writes:
  assumes "\<And>b a ts a'. one b a = Some (ts, a') \<Longrightarrow> writes_for u a a'" and "list_backends one bs a = Some (ts, a')"
  shows "writes_for u a a'"
  using assms(2)
proof (induction bs arbitrary: a ts)
  case (Cons b bs)
  then show ?case using assms(1) writes_for_trans
    by (auto split: if_splits option.splits) blast
qed (simp add: writes_for_silent)

lemma bridge_default_writes:
  assumes "MCPBridgeServer_handleDefaultBackend w u body a = Some (r, a')" shows "writes_for u a a'"
proof -
  have "handleDefaultBackend w [] u body a = Some (r, a')"
    using assms by (simp add: MCPBridgeServer_handleDefaultBackend_def handleDefaultBackend_def)
  from writes_for_sends [OF default_sends [OF this]] show ?thesis .
qed

lemma tool_list_writes:
  assumes "MCPBridgeServer_handleToolsList w u body i a = Some (r, a')" shows "writes_for u a a'"
proof -
  obtain v a1 where l: "app_ListBackends w a = (v, a1)" by (metis prod.exhaust)
  have sent: "app_sent a1 = app_sent a" using silent_store_ops(2) [OF l] by (simp add: silent_def)
  have "writes_for u a1 a'"
  proof (cases "\<exists>b bs. v = Inr (b # bs)")
    case True
    with assms l obtain bs ts where
        "list_backends (list_backend w u (justification_specs a1) (cached_capabilities w a1) (status_of a1)) bs a1 = Some (ts, a')"
      by (auto simp: MCPBridgeServer_handleToolsList_def simp del: list_backends.simps)
    then show ?thesis by (rule list_backends_writes [rotated]) (rule list_backend_writes)
  next
    case False
    with assms l have "MCPBridgeServer_handleDefaultBackend w u body a1 = Some (r, a')"
      by (auto simp: MCPBridgeServer_handleToolsList_def split: sum.splits list.splits)
    then show ?thesis by (rule bridge_default_writes)
  qed
  then show ?thesis using writes_for_cong [OF sent refl] by blast
qed

lemma handler_writes: "Handler w u m body a = Some (out, a') \<Longrightarrow> writes_for u a a'"
  by (auto simp: Handler_def intro: writes_for_silent writes_for_sends dest: tool_list_writes bridge.handle_sends
      split: if_splits option.splits)

lemma expand_writes:
  assumes "expand_backend w u b a = Some (r, a')" shows "writes_for u a a'"
proof -
  obtain key a1 where g: "getPoolForUser w u b a = Some (Some key, a1)"
    using assms by (auto simp: expand_backend_def split: option.splits)
  note sent = getPoolForUser_key(1) [OF g] and key = getPoolForUser_key(2) [OF g refl]
  let ?a2 = "update_pool key (TouchLastUsed (w_now w)) a1" and ?i = "''list-'' @ b @ ''-'' @ itoa (w_now w)"
  obtain q a3 where wait: "wait_warm w key ?a2 = Some (q, a3)" using assms g by (auto simp: expand_backend_def split: option.splits)
  have sent3: "app_sent a3 = app_sent a" using listing_sentD(2) [OF wait] sent by simp
  show ?thesis
  proof (cases q)
    case (Inl err)
    with assms g wait sent3 show ?thesis by (simp add: expand_backend_def writes_for_silent)
  next
    case (Inr proc)
    with assms g wait obtain ev a4 where snd: "send_request w key ?i (30 * second) (jl_Marshal (w_json w) (list_message ?i) @ [CHR 0x0A]) a3 = Some (ev, a4)"
      by (auto simp: expand_backend_def Let_def split: option.splits)
    from assms g wait Inr snd have "app_sent a' = app_sent a4"
      by (auto simp: expand_backend_def Let_def dest!: listing_sentD split: if_splits)
    then show ?thesis using send_request_sent [OF snd] sent3 key writes_for_line by metis
  qed
qed

lemma namespace_expand_writes:
  assumes "v2namespaceExpand w u params i a = Some (r, a')" shows "writes_for u a a'"
proof -
  let ?ns = "string_or_empty (map_of params ''namespace'')"
  obtain v a1 where g: "app_GetBackend w ?ns a = (v, a1)" by (metis prod.exhaust)
  have sent: "app_sent a1 = app_sent a" using silent_store_ops(1) [OF g] by (simp add: silent_def)
  have "a' = a \<or> a' = a1 \<or> (\<exists>b r. expand_backend w u b a1 = Some (r, a'))"
    using assms g by (auto simp: v2namespaceExpand_def Let_def split: if_splits sum.splits)
  then have "app_sent a' = app_sent a \<or> writes_for u a1 a'" using sent expand_writes by blast
  then show ?thesis using writes_for_cong [OF sent refl] by (auto intro: writes_for_silent)
qed

lemma v2_tools_list_sent: "v2toolsList w i a = (r, a') \<Longrightarrow> app_sent a' = app_sent a"
  by (auto simp: v2toolsList_def silent_def dest!: silent_store_ops(2) split: prod.splits sum.splits)

lemma v2_tools_call_writes: "v2_tools_call w u msg a = Some (r, a') \<Longrightarrow> writes_for u a a'"
  unfolding v2_tools_call_def v2_call_namespace_def Let_def
  by (auto intro: writes_for_silent writes_for_sends dest: namespace_expand_writes v2.handle_sends
      split: json.splits prod.splits v2_target.splits sum.splits)

lemma v2_writes: "v2HandleWrapper w u m body a = Some (r, a') \<Longrightarrow> writes_for u a a'"
  by (auto simp: v2HandleWrapper_def v2Handle_def intro: writes_for_silent dest: v2_tools_call_writes v2_tools_list_sent
      split: if_splits option.splits)

lemma refresh_answer_sent: "refresh_answer w b data a = Some a' \<Longrightarrow> app_sent a' = app_sent a"
  by (auto simp: refresh_answer_def dest: listing_sentD(3) split: option.splits if_splits)

lemma refresh_writes:
  assumes "refreshBackendTools w u b a = Some a'" shows "writes_for u a a'"
proof -
  obtain key a1 where g: "getPoolForUser w u (be_ID b) a = Some (Some key, a1)"
    using assms by (auto simp: refreshBackendTools_def split: option.splits)
  note sent = getPoolForUser_key(1) [OF g] and key = getPoolForUser_key(2) [OF g refl]
  let ?i = "''refresh-'' @ be_ID b @ ''-'' @ itoa (w_now w)"
  obtain q a2 where wait: "wait_warm w key a1 = Some (q, a2)" using assms g by (auto simp: refreshBackendTools_def split: option.splits)
  have sent2: "app_sent a2 = app_sent a" using listing_sentD(2) [OF wait] sent by simp
  show ?thesis
  proof (cases q)
    case (Inl err)
    with assms g wait sent2 show ?thesis by (simp add: refreshBackendTools_def writes_for_silent)
  next
    case (Inr proc)
    with assms g wait obtain ev a3 where snd: "send_request w key ?i (30 * second) (jl_Marshal (w_json w) (list_message ?i) @ [CHR 0x0A]) a2 = Some (ev, a3)"
      by (auto simp: refreshBackendTools_def Let_def split: option.splits)
    from assms g wait Inr snd have "app_sent a' = app_sent a3"
      by (auto simp: refreshBackendTools_def Let_def bind_eq_Some_conv dest!: listing_sentD(1,3) refresh_answer_sent split: if_splits option.splits)
    then show ?thesis using send_request_sent [OF snd] sent2 key writes_for_line by metis
  qed
qed

lemma refresh_backend_writes:
  assumes "refresh_backend w u b a = Some (t, a')" shows "writes_for u a a'"
proof -
  obtain key a1 where g: "getPoolForUser w u (be_ID b) a = Some (Some key, a1)"
    using assms by (auto simp: refresh_backend_def split: option.splits)
  note sent = getPoolForUser_key(1) [OF g] and key = getPoolForUser_key(2) [OF g refl]
  let ?i = "''list-'' @ be_ID b @ ''-'' @ itoa (w_now w)" and ?a1 = "update_pool key (TouchLastUsed (w_now w)) a1"
  obtain q a2 where tw: "try_warm key ?a1 = Some (q, a2)" using assms g by (auto simp: refresh_backend_def split: option.splits)
  have sent2: "app_sent a2 = app_sent a" using listing_sentD(5) [OF tw] sent by simp
  show ?thesis
  proof (cases q)
    case None
    with assms g tw sent2 show ?thesis by (simp add: refresh_backend_def writes_for_silent)
  next
    case (Some proc)
    with assms g tw obtain ev a3 where snd: "send_request w key ?i (10 * second) (jl_Marshal (w_json w) (list_message ?i) @ [CHR 0x0A]) a2 = Some (ev, a3)"
      by (auto simp: refresh_backend_def Let_def split: option.splits)
    from assms g tw Some snd have "app_sent a' = app_sent a3"
      by (auto simp: refresh_backend_def Let_def dest!: listing_sentD(1))
    then show ?thesis using send_request_sent [OF snd] sent2 key writes_for_line by metis
  qed
qed

lemma refresh_backends_writes: "refresh_backends w u bs a = Some (t, a') \<Longrightarrow> writes_for u a a'"
proof (induction bs arbitrary: a t)
  case (Cons b bs)
  then show ?case using refresh_backend_writes writes_for_trans
    by (auto split: if_splits option.splits) blast
qed (simp add: writes_for_silent)

lemma refresh_tool_writes:
  assumes "handleRefreshToolsTool w u a = Some (t, a')" shows "writes_for u a a'"
proof -
  obtain v a1 where l: "app_ListBackends w a = (v, a1)" by (metis prod.exhaust)
  have sent: "app_sent a1 = app_sent a" using silent_store_ops(2) [OF l] by (simp add: silent_def)
  have "writes_for u a1 a'"
    using assms l refresh_backends_writes by (auto simp: handleRefreshToolsTool_def intro: writes_for_silent split: sum.splits)
  then show ?thesis using writes_for_cong [OF sent refl] by blast
qed

lemma follow_up_writes: "follow_up u f a = Some a' \<Longrightarrow> writes_for u a a'"
  by (induction u f a rule: follow_up.induct) (auto dest: refresh_writes refresh_tool_writes)

lemma follow_ups_writes: "follow_ups u fs a = Some a' \<Longrightarrow> writes_for u a a'"
proof (induction fs arbitrary: a)
  case (Cons f fs)
  then obtain a1 where "follow_up u f a = Some a1" "follow_ups u fs a1 = Some a'" by (auto simp: bind_eq_Some_conv)
  with Cons.IH show ?case using follow_up_writes writes_for_trans by blast
qed (simp add: writes_for_silent)

lemma authenticate_sent: "authenticate env h r a = (v, a1) \<Longrightarrow> app_sent a1 = app_sent a"
  by (auto simp: authenticate_def Let_def split: prod.splits)

text \<open>C2: Whatever a request to one of the two endpoints behind the token check makes the bridge write to a process, the request carried a valid
  credential of some user, and every line went to a process pool of that same user: for tool calls, tool lists and the expansion of namespaces, and for the
  refreshes of the cache that a list starts in the background and the refresh tool that the library runs for the request. A request without a
  valid credential reaches no process. The keys of the database are consistent when the request arrives; approvals from the console are not such
  requests.\<close>

theorem writes_stay_with_owner:
  assumes "serve_root_all env h w r fs a = Some (out, a') \<or> serve_v2 env h w r a = Some (resp, a')" and "site_ok (st_db (app_store a))"
  shows "app_sent a' = app_sent a \<or>
    (\<exists>u. entitled env (st_db (app_store a)) (extractBearer (rq_authorization r)) u \<and> writes_for u a a')"
proof -
  obtain v a1 where auth: "authenticate env h r a = (v, a1)" by (metis prod.exhaust)
  note sent = authenticate_sent [OF auth]
  show ?thesis
  proof (cases v)
    case (Inl resp)
    with assms(1) auth sent show ?thesis by (auto simp: serve_root_all_def serve_v2_def)
  next
    case (Inr u)
    with auth obtain db where "Middleware env h r (st_db (app_store a)) = (Inr u, db)"
      by (auto simp: authenticate_def Let_def split: prod.splits)
    from middleware_entitles [OF this assms(2)] have "entitled env (st_db (app_store a)) (extractBearer (rq_authorization r)) u" .
    moreover have "writes_for u a1 a'"
      using assms(1) auth Inr
      by (auto simp: serve_root_all_def serve_v2_def dest: v2_writes split: option.splits)
        (blast intro: writes_for_trans dest: handler_writes follow_ups_writes)
    ultimately show ?thesis using writes_for_cong [OF sent refl] by blast
  qed
qed

lemma session_db_plain: "plain_db session_db"
  by (simp add: plain_db_def auth_dbs_ok(2)) (simp add: session_db_def auth_db_def empty_db_def empty_core_def)

lemma sample_authenticated:
  "authenticate sample_auth sample_issuer (sample_request ''Bearer t'' []\<lparr>rq_body := body\<rparr>) (sample_app e session_db) = (Inr ''ann'', sample_app e session_db)"
proof -
  have "Middleware sample_auth sample_issuer (sample_request ''Bearer t'' []\<lparr>rq_body := body\<rparr>) session_db = (Inr ''ann'', session_db)"
    by (simp add: Middleware_def extractBearer_def EqualFold_def session_user_def Store_GetOAuthSession_def auth_dbs_ok(2) sample_request_def)
      (simp add: session_db_def query_row_def sample_session_def sample_auth_def)
  then show ?thesis by (simp add: authenticate_def sample_app_def)
qed

theorem writes_stay_with_owner_witness:
  "\<exists>out a'. serve_root sample_auth sample_issuer (sample_world (push_call ''name'')) (sample_request ''Bearer t'' []\<lparr>rq_body := ''call''\<rparr>)
       (sample_app None session_db) = Some (out, a') \<and> app_sent a' = [(''git:ann'', ''call'' @ [CHR 0x0A])] \<and>
     (\<exists>u. entitled sample_auth session_db ''t'' u)"
proof -
  let ?v = "push_call ''name''" and ?a = "sample_app None session_db" and ?r = "sample_request ''Bearer t'' []\<lparr>rq_body := ''call''\<rparr>"
  let ?w = "sample_world ?v"
  obtain msg where m: "decode_message ?v = Some msg" using push_decodes(3) by blast
  then have "rm_Method msg = ''tools/call''"
    by (auto simp: push_call_def decode_message_def string_field_def members_def ToLower_def lower_char_def)
  moreover have "\<not> names_system_tool ?w ''call''"
    by (simp add: names_system_tool_def legacy_params_def push_call_def IsSystemTool_def SystemToolNames_def SystemTools_def)
  ultimately have "Handler ?w ''ann'' ''POST'' ''call'' ?a =
      map_option (map_prod Replied id) (MCPBridgeServer_handleToolsCall ?w ''ann'' ''call'' (rm_ID msg) ?a)"
    using m by (simp add: Handler_def decoded_message_def)
  moreover have "MCPBridgeServer_handleToolsCall ?w ''ann'' ''call'' (rm_ID msg) ?a = route_call ?w [] ''ann'' ''git'' ''call'' ?a"
    using push_parsed(1) push_routed [OF session_db_plain] by (simp add: MCPBridgeServer_handleToolsCall_def check_call_def)
  moreover obtain r a' where "route_call ?w [] ''ann'' ''git'' ''call'' ?a = Some (r, a')" and s: "app_sent a' = [(''git:ann'', ''call'' @ [CHR 0x0A])]"
    using sample_route [OF session_db_plain push_decodes(1) _ m, of ?a "[]" "''git''"] by (auto simp: called_tool_def)
  ultimately have "serve_root sample_auth sample_issuer ?w ?r ?a = Some (Replied r, a')"
    by (simp add: serve_root_def sample_authenticated) (simp add: sample_request_def)
  moreover from this writes_stay_with_owner [of sample_auth sample_issuer ?w ?r "[]" ?a "Replied r" a'] s auth_dbs_ok(3)
  have "\<exists>u. entitled sample_auth session_db ''t'' u"
    by (auto simp: extractBearer_def EqualFold_def sample_request_def serve_root_no_more)
  ultimately show ?thesis using s by blast
qed

section \<open>The call that was approved\<close>

lemma getPoolForUser_muxer: "getPoolForUser w u b a = Some (k, a') \<Longrightarrow> app_muxer a' = app_muxer a"
  by (auto simp: getPoolForUser_def app_GetBackend_def put_store_def Let_def split: prod.splits sum.splits option.splits)

lemma await_warm_keeps: "await_warm w k a = Some (r, a') \<Longrightarrow> app_sent a' = app_sent a \<and> app_muxer a' = app_muxer a"
  by (auto simp: await_warm_def set_pool_def split: option.splits prod.splits)

lemma execute_sent:
  assumes "executeWithProcess w k q body a = Some ((st, resp, err), a')" and "exec_line w body = Some (i, line)"
  shows "app_sent a' = app_sent a @ [(k, line)]"
proof -
  obtain ev a1 where s: "send_request w k i (60 * second) line a = Some (ev, a1)"
    using assms by (auto simp: executeWithProcess_def split: option.splits)
  have "app_sent a' = app_sent a1"
    using assms s by (auto simp: executeWithProcess_def dest!: listing_sentD(1) split: if_splits option.splits)
  then show ?thesis using send_request_sent [OF s] by simp
qed

lemma executed_line:
  assumes "ExecuteRequest w u b body a = Some ((st, resp, None), a')"
    and "body' = (if GetPrefixForBackend b (app_muxer a) \<noteq> [] then stripPrefixFromRequestBody (w_json w) body (GetPrefixForBackend b (app_muxer a)) else body)"
    and "exec_line w body' = Some (i, line)"
  shows "app_sent a' = app_sent a @ [(user_pool_key b u, line)]"
proof -
  obtain key a1 where g: "getPoolForUser w u b a = Some (Some key, a1)"
    using assms(1) by (auto simp: ExecuteRequest_def split: if_splits option.splits)
  obtain a2 where aw: "await_warm w key a1 = Some (True, a2)"
    using assms(1) g by (auto simp: ExecuteRequest_def split: if_splits option.splits bool.splits)
  have m: "app_muxer a2 = app_muxer a" "app_sent a2 = app_sent a"
    using await_warm_keeps [OF aw] getPoolForUser_muxer [OF g] getPoolForUser_key(1) [OF g] by auto
  obtain q a3 where t: "try_warm key a2 = Some (Some q, a3)" and x: "executeWithProcess w key q body' a3 = Some ((st, resp, None), a')"
    using assms(1) g aw m assms(2) by (auto simp: ExecuteRequest_def Let_def split: if_splits option.splits)
  from execute_sent [OF x assms(3)] listing_sentD(5) [OF t] m(2) getPoolForUser_key(2) [OF g refl] show ?thesis by simp
qed

lemma exec_line_eq: "request_line w b = Some (i, line) \<Longrightarrow> \<not> HasPrefix i ''auto-'' \<Longrightarrow> exec_line w b = Some (i, line)"
  by (auto simp: request_line_def exec_line_def Let_def HasPrefix_append split: sum.splits option.splits if_splits)

lemma routed_call:
  "HandleToolsCall lib sys jl now u body tm st pm = Some (Inr (body', router), st', pm') \<Longrightarrow>
   body' = (if prt_Prefix router = [] then body else stripPrefixFromName jl body (prt_Prefix router)) \<and>
   prt_Pool router = user_pool_key (prt_Backend router) u"
  by (auto simp: HandleToolsCall_def Let_def dest: framing_pool_key split: sum.splits option.splits prod.splits if_splits)

lemma strips_agree:
  assumes "jl_Unmarshal jl body = Inr (JObj req)" and "map_of req ''params'' = Some (JObj params)"
    and "map_of params ''name'' = Some (JStr n)" and "strip_name p n \<noteq> n" and "p \<noteq> []"
  shows "stripPrefixFromRequestBody jl body p = stripPrefixFromName jl body p"
  using assms by (simp add: stripPrefixFromRequestBody_def stripPrefixFromName_def stripToolPrefix_def)

text \<open>C3: Approving a call runs that call: when the body of a call to a tool named under its backend's one, non-empty prefix, with an identifier of its own
  that does not begin with \<open>auto-\<close>, is executed with the same muxer and without an error, exactly one line is written, to the process pool
  the call is routed to, and it is the line that the gateway writes for it.\<close>

theorem approved_call_is_the_call:
  assumes "HandleToolsCall lib sys (w_json w) now u body tm st pm = Some (Inr (body', router), st', pm')"
    and "jl_Unmarshal (w_json w) body = Inr (JObj req)" and "map_of req ''params'' = Some (JObj params)"
    and "map_of params ''name'' = Some (JStr n)" and "strip_name (prt_Prefix router) n \<noteq> n" and "prt_Prefix router \<noteq> []"
    and "GetPrefixForBackend (prt_Backend router) tm = prt_Prefix router"
    and "request_line w body' = Some (i, line)" and "\<not> HasPrefix i ''auto-''"
    and "ExecuteRequest w u (prt_Backend router) body a = Some ((status, resp, None), a')" and "app_muxer a = tm"
  shows "app_sent a' = app_sent a @ [(prt_Pool router, line)]"
proof -
  have b: "body' = stripPrefixFromName (w_json w) body (prt_Prefix router)" and k: "prt_Pool router = user_pool_key (prt_Backend router) u"
    using routed_call [OF assms(1)] assms(6) by auto
  have "body' = (if GetPrefixForBackend (prt_Backend router) (app_muxer a) \<noteq> []
      then stripPrefixFromRequestBody (w_json w) body (GetPrefixForBackend (prt_Backend router) (app_muxer a)) else body)"
    using b strips_agree [OF assms(2-6)] assms(6,7,11) by simp
  from executed_line [OF assms(10) this exec_line_eq [OF assms(8,9)]] k show ?thesis by simp
qed

text \<open>The namespaced endpoint stores the tool's own name, without a prefix; if that name itself begins with the prefix of the
  backend, the executor takes it off, and another tool is run than was approved.\<close>

lemma v2_replay_renames:
  assumes "jl_Unmarshal jl (jl_Marshal jl (call_message (p @ ''_'' @ t) args i)) = Inr (call_message (p @ ''_'' @ t) args i)"
    and "p \<noteq> []" and "strip_name p (p @ ''_'' @ t) = t"
  shows "stripPrefixFromRequestBody jl (jl_Marshal jl (call_message (p @ ''_'' @ t) args i)) p = jl_Marshal jl (call_message t args i)"
  unfolding stripPrefixFromRequestBody_def assms(1)
  using assms(2,3) by (simp add: call_message_def stripToolPrefix_def)

section \<open>An approved sample call\<close>

lemma sample_pool:
  assumes "plain_db db"
  shows "getPoolForUser (sample_world v) ''ann'' ''git'' (sample_app e db) =
    Some (Some ''git:ann'', (sample_app e db)\<lparr>app_pools := (NewPoolManager ''cat'' 1)\<lparr>pm_pools := [(''git:ann'', git_pool)]\<rparr>\<rparr>)"
  using assms
  by (simp add: getPoolForUser_def app_GetBackend_def plain_store git_user_env pool_settings_def put_store_def sample_app_def
      GetOrCreateUserPoolWithFraming_def GetOrCreateUserPoolWithSecrets_alone NewPoolManager_def user_pool_key_def git_config_def empty_config_def
      put_pool_def git_pool_def Let_def)

lemma pool_at_set [simp]: "pool_at k (set_pool k p a) = Some p"
  by (simp add: pool_at_def set_pool_def put_pool_def gomap_simps)

lemma sample_awaits:
  assumes "pool_at ''git:ann'' a = Some git_pool"
  shows "\<exists>q a1 a2. await_warm (sample_world v) ''git:ann'' a = Some (True, a1) \<and> try_warm ''git:ann'' a1 = Some (Some (sample_proc 7), a2) \<and>
    pool_at ''git:ann'' a2 = Some q \<and> \<not> ch_closed (po_Warm q) \<and> ch_buf (po_Warm q) = [] \<and> ch_cap (po_Warm q) = 1 \<and> ch_senders (po_Warm q) = []"
  using assms by (simp add: await_warm_def try_warm_def ready_pool_def WarmCount_def ch_try_recv_def)

lemma sample_execute:
  assumes "plain_db db" and "decode_message v = Some msg"
  shows "\<exists>a'. ExecuteRequest (sample_world v) ''ann'' ''git'' ''call'' (sample_app e db) = Some ((200, ''pong'', None), a')"
proof -
  let ?w = "sample_world v" and ?a = "(sample_app e db)\<lparr>app_pools := (NewPoolManager ''cat'' 1)\<lparr>pm_pools := [(''git:ann'', git_pool)]\<rparr>\<rparr>"
  have "pool_at ''git:ann'' ?a = Some git_pool" by (simp add: pool_at_def)
  from sample_awaits [OF this] obtain q a1 a2 where aw: "await_warm ?w ''git:ann'' ?a = Some (True, a1)" "try_warm ''git:ann'' a1 = Some (Some (sample_proc 7), a2)"
      "pool_at ''git:ann'' a2 = Some q" "\<not> ch_closed (po_Warm q)" "ch_buf (po_Warm q) = []" "ch_cap (po_Warm q) = 1" "ch_senders (po_Warm q) = []" by blast
  have line: "exec_line ?w ''call'' = Some (''7'', ''call'' @ [CHR 0x0A])" using assms(2) by (simp add: exec_line_def compact_line_def)
  have ev: "await_response 1000 1001 (60 * second) (Some (1001, ''pong'')) = Received ''pong''"
    by (simp add: await_response_def requestTimeout_def second_def millisecond_def)
  let ?q = "UnregisterRequest ''7'' (RegisterRequest ''7'' q)"
  have "po_Warm ?q = po_Warm q" by (simp add: UnregisterRequest_def RegisterRequest_def Let_def split: option.splits)
  then have "\<exists>a'. executeWithProcess ?w ''git:ann'' (sample_proc 7) ''call'' a2 = Some ((200, ''pong'', None), a')"
    using aw(3-7) ev
    by (simp add: executeWithProcess_def line send_request_def give_back_def put_back_def ch_send_def execution_of_def decode_rpc_error_def one_body_def
        pool_at_def set_pool_def put_pool_def gomap_simps)
  moreover have "(if p \<noteq> [] then stripPrefixFromRequestBody (w_json ?w) ''call'' p else ''call'') = ''call''" for p
    by (simp add: stripPrefixFromRequestBody_def Let_def split: json.splits option.splits)
  ultimately show ?thesis by (simp add: ExecuteRequest_def sample_pool [OF assms(1)] aw(1,2) Let_def)
qed

theorem approved_call_is_the_call_witness:
  "\<exists>a'. ExecuteRequest (sample_world (push_call ''name'')) ''ann'' ''git'' ''call'' (sample_app None ann_db) = Some ((200, ''pong'', None), a') \<and>
     app_sent a' = [(''git:ann'', ''call'' @ [CHR 0x0A])]"
proof -
  let ?v = "push_call ''name''"
  let ?params = "[(''name'', JStr ''git_push''), (''arguments'', JObj [])]"
  let ?req = "[(''jsonrpc'', JStr ''2.0''), (''method'', JStr ''tools/call''), (''params'', JObj ?params)]"
  obtain msg where m: "decode_message ?v = Some msg" using push_decodes(3) by blast
  obtain router st pm where h: "HandleToolsCall sample_lib sample_os (w_json (sample_world ?v)) 1000 ''ann'' ''call'' git_muxer
      (Some \<lparr>st_db = ann_db, st_keyStore = None\<rparr>) (NewPoolManager ''cat'' 1) = Some (Inr (''call'', router), st, pm)" "prt_Pool router = ''git:ann''"
    using sample_handle [OF sample_dbs_plain(1) push_decodes(1)] by (auto simp: called_tool_def)
  have r: "prt_Backend router = ''git''" "prt_Prefix router = ''git''"
    using h(1) push_decodes(1) by (auto simp: HandleToolsCall_def called_tool_def git_route split: sum.splits option.splits prod.splits)
  have "?v = JObj ?req" "map_of ?req ''params'' = Some (JObj ?params)" "map_of ?params ''name'' = Some (JStr ''git_push'')"
    by (simp_all add: push_call_def)
  moreover have "GetPrefixForBackend ''git'' git_muxer = ''git''"
    by (simp add: GetPrefixForBackend_def git_muxer_def NewToolMuxer_def git_config_def empty_config_def prefixes_of_config_def)
  moreover have "strip_name ''git'' ''git_push'' \<noteq> ''git_push''" by (simp add: strip_name_def TrimPrefix_def)
  moreover obtain a' where x: "ExecuteRequest (sample_world ?v) ''ann'' ''git'' ''call'' (sample_app None ann_db) = Some ((200, ''pong'', None), a')"
    using sample_execute [OF sample_dbs_plain(1) m] by blast
  ultimately have "app_sent a' = app_sent (sample_app None ann_db) @ [(prt_Pool router, ''call'' @ [CHR 0x0A])]"
    using approved_call_is_the_call [OF h(1), of ?req ?params "''git_push''" "''7''" "''call'' @ [CHR 0x0A]" "sample_app None ann_db" 200 "''pong''" a']
      r sample_line [OF m] by simp
  with x h(2) show ?thesis by simp
qed

end
