(* ===== verification/Mailer.thy ===== *)
theory Mailer
  imports Pool Config Template
begin

text \<open>
  Mail (src/internal/mailer/mailer.go): the text of messages, the parsing of recipients, and the conversation with the mail server. What the server and the
  network answer is the record \<open>smtp_net\<close>, each operation an error or \<open>None\<close>; \<open>mail.ParseAddress\<close> and the rendering of the date are parameters. Deadlines
  are left to the network.
\<close>

record SmtpConfig =
  sc_Host :: string
  sc_Port :: int
  sc_User :: string
  sc_Password :: string
  sc_From :: string
  sc_FromName :: string
  sc_UseTLS :: bool
  sc_Timeout :: duration

definition defaultSmtpTimeout :: duration where "defaultSmtpTimeout = 10 * second"

text \<open>\<open>net.JoinHostPort\<close>.\<close>

definition JoinHostPort :: "string \<Rightarrow> string \<Rightarrow> string" where
  "JoinHostPort host port = (if CHR '':'' \<in> set host \<or> CHR ''%'' \<in> set host then ''['' @ host @ '']:'' @ port else host @ '':'' @ port)"

definition BuildAddr :: "SmtpConfig \<Rightarrow> string" where
  "BuildAddr c = JoinHostPort (sc_Host c) (itoa (sc_Port c))"

primrec join_with :: "string \<Rightarrow> string list \<Rightarrow> string" where
  "join_with sep [] = []"
| "join_with sep (x # xs) = (if xs = [] then x else x @ sep @ join_with sep xs)"

definition buildMessage :: "string \<Rightarrow> string \<Rightarrow> string list \<Rightarrow> string \<Rightarrow> string \<Rightarrow> string \<Rightarrow> string" where
  "buildMessage date from to subject body contentType =
     ''From: '' @ from @ crlf @ ''To: '' @ join_with '', '' to @ crlf @ ''Subject: '' @ subject @ crlf @ ''Date: '' @ date @ crlf @
     ''MIME-Version: 1.0'' @ crlf @ ''Content-Type: '' @ contentType @ crlf @ crlf @ body"

section \<open>Sending\<close>

text \<open>One connection: the greeting, whether it offers STARTTLS and how that ends, and the answers to the commands.\<close>

record smtp_net =
  sn_dial_tls :: "string \<Rightarrow> goerr option"
  sn_dial :: "nat \<Rightarrow> string \<Rightarrow> goerr option"
  sn_greeting :: "nat \<Rightarrow> goerr option"
  sn_has_starttls :: bool
  sn_starttls :: "goerr option"
  sn_auth :: "string \<times> string \<Rightarrow> goerr option"
  sn_mail :: "string \<Rightarrow> goerr option"
  sn_rcpt :: "string \<Rightarrow> goerr option"
  sn_data :: "goerr option"
  sn_write :: "string \<Rightarrow> goerr option"
  sn_close :: "goerr option"
  sn_quit :: "goerr option"

text \<open>The first error of a sequence of operations.\<close>

fun first_error :: "goerr option list \<Rightarrow> goerr option" where
  "first_error [] = None"
| "first_error (Some err # es) = Some err"
| "first_error (None # es) = first_error es"

definition deliver :: "smtp_net \<Rightarrow> (string \<times> string) option \<Rightarrow> string \<Rightarrow> string list \<Rightarrow> string \<Rightarrow> goerr option" where
  "deliver net auth from to msg =
     first_error ((case auth of Some a \<Rightarrow> [sn_auth net a] | None \<Rightarrow> []) @ [sn_mail net from] @ map (sn_rcpt net) to @
       [sn_data net, sn_write net msg, sn_close net, sn_quit net])"

definition smtp_send :: "smtp_net \<Rightarrow> string \<Rightarrow> SmtpConfig \<Rightarrow> string list \<Rightarrow> string \<Rightarrow> string \<Rightarrow> string \<Rightarrow> goerr option" where
  "smtp_send net date cfg to subject body contentType =
     (if sc_Host cfg = [] \<or> to = [] then None
      else
        let from = (if sc_From cfg = [] then ''mcp-bridge@localhost'' else sc_From cfg);
            addr = BuildAddr cfg;
            msg = buildMessage date from to subject body contentType;
            auth = (if sc_User cfg \<noteq> [] then Some (sc_User cfg, sc_Password cfg) else None);
            sent = deliver net auth from to msg
        in if sc_Port cfg = 465 \<or> sc_UseTLS cfg
           then first_error [sn_dial_tls net addr, sn_greeting net 0, sent]
           else first_error [sn_dial net 0 addr, sn_greeting net 0,
             (if sn_has_starttls net \<and> sn_starttls net \<noteq> None then first_error [sn_dial net 1 addr, sn_greeting net 1] else None), sent])"

definition Send :: "smtp_net \<Rightarrow> string \<Rightarrow> SmtpConfig \<Rightarrow> string list \<Rightarrow> string \<Rightarrow> string \<Rightarrow> goerr option" where
  "Send net date cfg to subject body = smtp_send net date cfg to subject body ''text/plain; charset=UTF-8''"

definition SendHTML :: "smtp_net \<Rightarrow> string \<Rightarrow> SmtpConfig \<Rightarrow> string list \<Rightarrow> string \<Rightarrow> string \<Rightarrow> goerr option" where
  "SendHTML net date cfg to subject body = smtp_send net date cfg to subject body ''text/html; charset=UTF-8''"

lemma first_error_None: "first_error es = None \<longleftrightarrow> (\<forall>e \<in> set es. e = None)"
  by (induction es rule: first_error.induct) auto

text \<open>A message reported as sent was accepted for every recipient.\<close>

lemma sent_to_all:
  assumes "smtp_send net date cfg to subject body ct = None" and "sc_Host cfg \<noteq> []" and "x \<in> set to"
  shows "sn_rcpt net x = None \<and> sn_close net = None \<and> (\<exists>msg. sn_write net msg = None \<and> HasSuffix msg body)"
proof -
  have suffix: "HasSuffix (buildMessage date f to subject body ct) body" for f
    unfolding buildMessage_def HasSuffix_iff append_assoc [symmetric] by blast
  obtain auth f where "deliver net auth f to (buildMessage date f to subject body ct) = None"
    using assms by (simp add: smtp_send_def first_error_None Let_def split: if_splits) blast+
  then show ?thesis using assms(3) suffix [of f] by (auto simp: deliver_def first_error_None)
qed

section \<open>Invitations\<close>

definition greetingName :: "string \<Rightarrow> string" where
  "greetingName name = (if name = [] then [] else '' '' @ name)"

definition BuildInviteEmail :: "(string \<Rightarrow> goerr + string) \<Rightarrow> string \<Rightarrow> string \<Rightarrow> string \<Rightarrow> duration \<Rightarrow> goerr + string" where
  "BuildInviteEmail parse toEmail name inviteURL expiry =
     (case parse toEmail of
        Inl err \<Rightarrow> Inl err
      | Inr _ \<Rightarrow>
          (let days = expiry div (24 * hour); days = (if days < 1 then 7 else days)
           in Inr (''<p>Hello'' @ greetingName name @ '',</p>'' @
                ''<p>You have been invited to join mcp-bridge. To set up your account, click the link below:</p>'' @
                ''<p><a href='' @ quoted inviteURL @ ''>Accept invitation</a></p>'' @
                ''<p>This invitation will expire in '' @ itoa days @ '' days.</p>'' @
                ''<p>If you did not expect this invitation, you can safely ignore this email.</p>'')))"

text \<open>\<open>strings.FieldsFunc\<close>: the maximal runs of characters that are no separators.\<close>

function fields_func :: "(char \<Rightarrow> bool) \<Rightarrow> string \<Rightarrow> string list" where
  "fields_func sep s =
     (case dropWhile sep s of
        [] \<Rightarrow> []
      | c # cs \<Rightarrow> takeWhile (\<lambda>x. \<not> sep x) (c # cs) # fields_func sep (dropWhile (\<lambda>x. \<not> sep x) (c # cs)))"
  by pat_completeness auto
termination
proof (relation "measure (\<lambda>(sep, s). length s)")
  fix sep :: "char \<Rightarrow> bool" and s c cs
  assume d: "dropWhile sep s = c # cs"
  then have "\<not> sep c" by (metis dropWhile_eq_Cons_conv)
  then have "length (dropWhile (\<lambda>x. \<not> sep x) (c # cs)) \<le> length cs" by (simp add: length_dropWhile_le)
  also have "\<dots> < length (dropWhile sep s)" by (simp add: d)
  also have "\<dots> \<le> length s" by (rule length_dropWhile_le)
  finally show "((sep, dropWhile (\<lambda>x. \<not> sep x) (c # cs)), sep, s) \<in> measure (\<lambda>(sep, s). length s)" by simp
qed simp

declare fields_func.simps [simp del]

fun parse_all :: "(string \<Rightarrow> goerr + string) \<Rightarrow> string list \<Rightarrow> goerr + string list" where
  "parse_all parse [] = Inr []"
| "parse_all parse (f # fs) =
     (let f = TrimSpace f
      in if f = [] then parse_all parse fs
         else case parse f of
                Inl err \<Rightarrow> Inl (ErrWrap (''invalid recipient '' @ quoted f) err)
              | Inr addr \<Rightarrow> map_sum id (Cons addr) (parse_all parse fs))"

definition ParseRecipients :: "(string \<Rightarrow> goerr + string) \<Rightarrow> string \<Rightarrow> goerr + string list" where
  "ParseRecipients parse input =
     (case parse_all parse (fields_func (\<lambda>c. c \<in> {CHR '','', CHR 0x0A, CHR 0x0D}) input) of
        Inl err \<Rightarrow> Inl err
      | Inr [] \<Rightarrow> Inl (ErrNew ''no recipients provided'')
      | Inr out \<Rightarrow> Inr out)"

lemma parse_all_valid: "parse_all parse fs = Inr out \<Longrightarrow> a \<in> set out \<Longrightarrow> \<exists>f. parse f = Inr a"
  by (induction fs arbitrary: out) (auto simp: Let_def map_sum_def split: if_splits sum.splits)

text \<open>Only addresses that parse are returned, and at least one.\<close>

lemma recipients_valid:
  assumes "ParseRecipients parse input = Inr out"
  shows "out \<noteq> [] \<and> (\<forall>a \<in> set out. \<exists>f. parse f = Inr a)"
proof -
  from assms have "parse_all parse (fields_func (\<lambda>c. c \<in> {CHR '','', CHR 0x0A, CHR 0x0D}) input) = Inr out" "out \<noteq> []"
    unfolding ParseRecipients_def by (auto split: sum.splits list.splits)
  then show ?thesis using parse_all_valid by blast
qed

end
