(* ===== verification/Web.thy ===== *)
theory Web
  imports Auth Mailer
begin

text \<open>
  What the pages of the web console share (src/web/web.go, the session part of src/web/auth.go, src/internal/usertypes/usertypes.go).
  The record \<open>web\<close> is the state behind the pages: the store, and the three package variables of src/web. These hold byte slices, which the
  code aliases and overwrites, so a slice is an index into \<open>wb_heap\<close> and \<open>None\<close> is nil. \<open>web_request\<close> is a request with its cookies
  and the user in its context; \<open>wq_form\<close> is \<open>None\<close> when \<open>ParseForm\<close> fails. A reply is the list of
  the calls on the \<open>ResponseWriter\<close>, in order; the status that reaches the client is the first one. \<open>web_env\<close> holds the libraries. A handler that panics is \<open>None\<close>.
\<close>

section \<open>Requests and replies\<close>

record web_request =
  wq_method :: string
  wq_host :: string
  wq_cookies :: "(string, string) gomap"
  wq_query :: "(string, string) gomap"
  wq_form :: "(string, string) gomap option"
  wq_body :: string
  wq_user :: "User option"

record web_env =
  we_now :: gotime
  we_bcrypt :: bcrypt
  we_lib :: crypto_lib
  we_sys :: opsys
  we_rng :: rng
  we_json :: json_lib
  we_totp_generate :: "string \<Rightarrow> goerr + string \<times> string"
  we_totp_validate :: "string \<Rightarrow> string \<Rightarrow> gotime \<Rightarrow> goerr + bool"
  we_qrcode :: "string \<Rightarrow> goerr + string"
  we_execute :: "string \<Rightarrow> goerr option"
  we_escape :: "string \<Rightarrow> string"
  we_error :: "goerr \<Rightarrow> string"
  we_parse_address :: "string \<Rightarrow> goerr + string"
  we_rss :: "int \<Rightarrow> goerr + int"

record cookie =
  ck_Name :: string
  ck_Value :: string
  ck_Path :: string
  ck_HttpOnly :: bool
  ck_SameSiteLax :: bool
  ck_MaxAge :: int
  ck_Secure :: bool

record Role =
  ro_ID :: string
  ro_Label :: string

datatype content = CNil | CStr string | CBool bool | CInt int | CTime gotime | CList "content list" | CMap "(string \<times> content) list"
  | CUser User | CRole Role | CInvite Invite | CAPIKey APIKey | CToken UserToken | CBackend Backend | CClient OAuthClient
  | CPolicy PolicyRow | COverride EnforcerOverrideRow | CPool PoolStatus

record pageData =
  pd_User :: "User option"
  pd_Title :: string
  pd_Error :: string
  pd_Success :: string
  pd_Warning :: string
  pd_Data :: content
  pd_Extra :: "(string \<times> content) list"

definition page :: "string \<Rightarrow> pageData" where
  "page title = \<lparr>pd_User = None, pd_Title = title, pd_Error = [], pd_Success = [], pd_Warning = [], pd_Data = CNil, pd_Extra = []\<rparr>"

datatype web_output = OutHeader string string | OutStatus int | OutCookie cookie | OutRedirect string | OutError string int
  | OutPage string pageData | OutTemplate string "(string \<times> content) list" | OutJson json | OutText string | OutEvent string

definition form_value :: "web_request \<Rightarrow> string \<Rightarrow> string" where
  "form_value r k = (case wq_form r of Some m \<Rightarrow> param m k | None \<Rightarrow> [])"

definition query_value :: "web_request \<Rightarrow> string \<Rightarrow> string" where
  "query_value r k = param (wq_query r) k"

definition web_not_allowed :: "web_output list" where
  "web_not_allowed = [OutError ''Method not allowed'' 405]"

definition web_failed :: "web_output list" where
  "web_failed = [OutError ''Internal Server Error'' 500]"

definition json_reply :: "json \<Rightarrow> web_output list" where
  "json_reply v = [OutHeader ''Content-Type'' ''application/json'', OutJson v]"

section \<open>The state\<close>

record pendingLogin =
  pl_UserID :: string
  pl_Method :: string
  pl_DEK :: "nat option"
  pl_ExpiresAt :: int

record pendingSetup =
  ps_UserID :: string
  ps_Method :: string
  ps_Secret :: string
  ps_OtpauthURL :: string
  ps_DEK :: "nat option"
  ps_Forced :: bool
  ps_ExpiresAt :: int

record web =
  wb_store :: Store
  wb_heap :: "string list"
  wb_sessionDEKs :: "(string, nat) gomap"
  wb_pendingLogins :: "(string, pendingLogin) gomap"
  wb_pendingSetups :: "(string, pendingSetup) gomap"

text \<open>Allocating a slice, reading one, and \<open>crypto.Zeroize\<close>.\<close>

definition alloc :: "string \<Rightarrow> web \<Rightarrow> nat \<times> web" where
  "alloc bytes s = (length (wb_heap s), s\<lparr>wb_heap := wb_heap s @ [bytes]\<rparr>)"

definition bytes_at :: "web \<Rightarrow> nat option \<Rightarrow> string option" where
  "bytes_at s p = (case p of None \<Rightarrow> None | Some a \<Rightarrow> if a < length (wb_heap s) then Some (wb_heap s ! a) else None)"

definition Zeroize :: "nat option \<Rightarrow> web \<Rightarrow> web" where
  "Zeroize p s = (case p of None \<Rightarrow> s
     | Some a \<Rightarrow> if a < length (wb_heap s) then s\<lparr>wb_heap := (wb_heap s)[a := replicate (length (wb_heap s ! a)) (CHR 0x00)]\<rparr> else s)"

definition web_db :: "web \<Rightarrow> db" where
  "web_db s = st_db (wb_store s)"

definition set_db :: "db \<Rightarrow> web \<Rightarrow> web" where
  "set_db db s = s\<lparr>wb_store := (wb_store s)\<lparr>st_db := db\<rparr>\<rparr>"

text \<open>A write whose error is only logged.\<close>

definition web_try :: "(db \<Rightarrow> goerr + db) \<Rightarrow> web \<Rightarrow> web" where
  "web_try f s = set_db (try_db f (web_db s)) s"

section \<open>Roles\<close>

definition roles :: "Role list" where
  "roles = [\<lparr>ro_ID = ''user'', ro_Label = ''User''\<rparr>, \<lparr>ro_ID = ''admin'', ro_Label = ''Admin''\<rparr>]"

definition ValidRoles :: "Role list" where
  "ValidRoles = roles"

definition find_role :: "string \<Rightarrow> Role option" where
  "find_role i = List.find (\<lambda>r. ro_ID r = ToLower (TrimSpace i)) roles"

definition IsValidRole :: "string \<Rightarrow> bool" where
  "IsValidRole i \<longleftrightarrow> find_role i \<noteq> None"

definition NormalizeRole :: "string \<Rightarrow> string" where
  "NormalizeRole i = (case find_role i of Some r \<Rightarrow> ro_ID r | None \<Rightarrow> ro_ID (hd roles))"

definition RoleLabel :: "string \<Rightarrow> string" where
  "RoleLabel i = (case find_role i of Some r \<Rightarrow> ro_Label r | None \<Rightarrow> ToLower (TrimSpace i))"

lemma NormalizeRole_known: "NormalizeRole i = ''user'' \<or> NormalizeRole i = ''admin''"
  by (simp add: NormalizeRole_def find_role_def roles_def)

lemma NormalizeRole_valid: "IsValidRole i \<Longrightarrow> NormalizeRole i = ToLower (TrimSpace i)"
  by (auto simp: IsValidRole_def NormalizeRole_def find_role_def roles_def split: if_splits)

section \<open>Helpers\<close>

text \<open>Characters of a string are bytes here; the bytes of a character outside ASCII are no digits either.\<close>

fun parse_digits :: "int \<Rightarrow> string \<Rightarrow> int" where
  "parse_digits n [] = n"
| "parse_digits n (c # cs) =
     (if 48 \<le> (of_char c :: nat) \<and> (of_char c :: nat) \<le> 57 then parse_digits (wrap64 (wrap64 (n * 10) + int (of_char c - 48))) cs else 0)"

definition web_parseInt :: "string \<Rightarrow> int" where
  "web_parseInt s = parse_digits 0 s"

definition backend_id_char :: "char \<Rightarrow> bool" where
  "backend_id_char c \<longleftrightarrow> (let n = (of_char c :: nat) in 97 \<le> n \<and> n \<le> 122 \<or> 65 \<le> n \<and> n \<le> 90 \<or> 48 \<le> n \<and> n \<le> 57 \<or> n = 45 \<or> n = 95)"

definition isValidBackendID :: "string \<Rightarrow> bool" where
  "isValidBackendID i \<longleftrightarrow> length i \<le> 50 \<and> list_all backend_id_char i"

definition isLocalhost :: "web_request \<Rightarrow> bool" where
  "isLocalhost r \<longleftrightarrow> wq_host r \<in> {''localhost'', ''localhost:8080'', ''127.0.0.1'', ''127.0.0.1:8080'', ''[::1]'', ''[::1]:8080''}"

definition render :: "web_env \<Rightarrow> string \<Rightarrow> pageData \<Rightarrow> web_output list" where
  "render env tmplName d = [OutHeader ''Content-Type'' ''text/html; charset=utf-8'', OutPage tmplName d] @
     (case we_execute env tmplName of None \<Rightarrow> [] | Some _ \<Rightarrow> web_failed)"

section \<open>Sessions\<close>

definition sessionCookieName :: string where [simp]: "sessionCookieName = ''mcp_session''"
definition sessionTTL :: duration where "sessionTTL = 24 * hour"

definition getSessionUser :: "web_env \<Rightarrow> web_request \<Rightarrow> web \<Rightarrow> User option \<times> web" where
  "getSessionUser env r s =
     (case map_of (wq_cookies r) sessionCookieName of
        None \<Rightarrow> (None, s)
      | Some token \<Rightarrow>
          (case Store_GetWebSession token (web_db s) of
             Inl _ \<Rightarrow> (None, s)
           | Inr sess \<Rightarrow>
               if we_now env > ws_ExpiresAt sess then (None, web_try (Store_DeleteWebSession (ws_Token sess)) s)
               else (case Store_GetUser (ws_UserID sess) (web_db s) of
                       Inl _ \<Rightarrow> (None, s)
                     | Inr user \<Rightarrow> (Some user, s))))"

definition getSessionDEK :: "web_request \<Rightarrow> web \<Rightarrow> nat option" where
  "getSessionDEK r s =
     (case map_of (wq_cookies r) sessionCookieName of None \<Rightarrow> None | Some token \<Rightarrow> map_of (wb_sessionDEKs s) token)"

end
