(* ===== verification/WebLogin.thy ===== *)
theory WebLogin
  imports Web
begin

text \<open>
  Signing in to the web console: the two-factor manager (src/internal/twofa/twofa.go), the login and logout pages (src/web/auth.go) and the
  two-factor pages (src/web/twofa.go). Generating and validating one-time passwords is the business of a library, the parameters \<open>we_totp_generate\<close>
  and \<open>we_totp_validate\<close>. The manager holds a pointer to the store; here the store is passed along.
\<close>

section \<open>The two-factor manager\<close>

datatype tf_method = TotpMethod

record SetupResult =
  sr_Method :: string
  sr_Secret :: string
  sr_OtpauthURL :: string

record Manager =
  mg_required :: bool
  mg_order :: "string list"
  mg_methods :: "(string, tf_method) gomap"

definition ErrUnknownMethod :: goerr where "ErrUnknownMethod = ErrNew ''unknown 2FA method''"
definition ErrInvalidCode :: goerr where "ErrInvalidCode = ErrNew ''invalid 2FA code''"

definition registeredMethods :: "(string, tf_method) gomap" where
  "registeredMethods = [(''totp'', TotpMethod)]"

primrec method_ID :: "tf_method \<Rightarrow> string" where
  "method_ID TotpMethod = ''totp''"

primrec method_Setup :: "web_env \<Rightarrow> tf_method \<Rightarrow> string \<Rightarrow> goerr + SetupResult" where
  "method_Setup env TotpMethod account =
     (case we_totp_generate env account of
        Inl err \<Rightarrow> Inl err
      | Inr (secret, url) \<Rightarrow> Inr \<lparr>sr_Method = ''totp'', sr_Secret = secret, sr_OtpauthURL = url\<rparr>)"

primrec method_Verify :: "web_env \<Rightarrow> tf_method \<Rightarrow> string \<Rightarrow> string \<Rightarrow> goerr option" where
  "method_Verify env TotpMethod secret code =
     (if code = [] then Some ErrInvalidCode
      else case we_totp_validate env code secret (we_now env) of
             Inl _ \<Rightarrow> Some ErrInvalidCode
           | Inr valid \<Rightarrow> if valid then None else Some ErrInvalidCode)"

fun add_methods :: "string list \<Rightarrow> Manager \<Rightarrow> goerr + Manager" where
  "add_methods [] m = Inr m"
| "add_methods (i # is) m =
     (case map_of registeredMethods i of
        None \<Rightarrow> Inl (ErrWrap ''twofa'' ErrUnknownMethod)
      | Some mt \<Rightarrow> add_methods is (m\<lparr>mg_order := mg_order m @ [i], mg_methods := AList.update i mt (mg_methods m)\<rparr>))"

definition NewManager :: "Store option \<Rightarrow> string list \<Rightarrow> bool \<Rightarrow> goerr + Manager" where
  "NewManager st methodIDs required =
     (if st = None then Inl (ErrNew ''twofa: nil store'')
      else case add_methods methodIDs \<lparr>mg_required = required, mg_order = [], mg_methods = []\<rparr> of
             Inl err \<Rightarrow> Inl err
           | Inr m \<Rightarrow> if mg_order m = [] then Inl (ErrNew ''twofa: no methods configured'') else Inr m)"

definition Required :: "Manager \<Rightarrow> bool" where "Required m = mg_required m"
definition Methods :: "Manager \<Rightarrow> string list" where "Methods m = mg_order m"

definition HasMethod :: "string \<Rightarrow> db \<Rightarrow> bool \<times> string" where
  "HasMethod userID db =
     (case Store_GetUser2FA userID db of
        Inl _ \<Rightarrow> (False, [])
      | Inr (mt, enabled) \<Rightarrow> if enabled then (True, mt) else (False, []))"

definition Setup :: "web_env \<Rightarrow> Manager \<Rightarrow> string \<Rightarrow> string \<Rightarrow> goerr + SetupResult" where
  "Setup env m account methodID =
     (case map_of (mg_methods m) methodID of
        None \<Rightarrow> Inl (ErrWrap methodID ErrUnknownMethod)
      | Some mt \<Rightarrow> method_Setup env mt account)"

definition Enable ::
    "web_env \<Rightarrow> Manager \<Rightarrow> string \<Rightarrow> string \<Rightarrow> string \<Rightarrow> string \<Rightarrow> string option \<Rightarrow> Store \<Rightarrow> goerr option \<times> Store" where
  "Enable env m userID methodID secret code userDEK st =
     (case map_of (mg_methods m) methodID of
        None \<Rightarrow> (Some (ErrWrap methodID ErrUnknownMethod), st)
      | Some mt \<Rightarrow>
          if method_Verify env mt secret code \<noteq> None then (Some ErrInvalidCode, st)
          else Store_SetUser2FA (we_lib env) (we_sys env) (we_rng env) userID methodID secret userDEK st)"

definition VerifyLogin ::
    "web_env \<Rightarrow> Manager \<Rightarrow> string \<Rightarrow> string \<Rightarrow> string \<Rightarrow> string option \<Rightarrow> Store \<Rightarrow> goerr option \<times> Store" where
  "VerifyLogin env m userID methodID code userDEK st =
     (case map_of (mg_methods m) methodID of
        None \<Rightarrow> (Some (ErrWrap methodID ErrUnknownMethod), st)
      | Some mt \<Rightarrow>
          (case Store_GetUser2FASecret (we_lib env) (we_sys env) userID userDEK st of
             (Inl err, st) \<Rightarrow> (Some err, st)
           | (Inr secret, st) \<Rightarrow> (if method_Verify env mt secret code \<noteq> None then Some ErrInvalidCode else None, st)))"

definition Manager_Delete :: "string \<Rightarrow> db \<Rightarrow> goerr option \<times> db" where
  "Manager_Delete userID db =
     (case Store_DeleteUser2FA userID db of
        Inl err \<Rightarrow> (Some err, db)
      | Inr db \<Rightarrow> (case Store_RevokeWebSessions userID db of Inl err \<Rightarrow> (Some err, db) | Inr db \<Rightarrow> (None, db)))"

section \<open>Cookies and pending logins\<close>

text \<open>The part of the struct \<open>Handler\<close> that signing in uses; the store is in the state.\<close>

record WebHandler =
  wh_TwoFA :: "Manager option"
  wh_TwoFAMethods :: "string list"
  wh_TwoFABypass :: bool
  wh_InviteAllowExisting :: bool
  wh_AuthMode :: string
  wh_InviteExpiry :: duration
  wh_PublicURL :: string
  wh_Mailer :: "(string list \<Rightarrow> string \<Rightarrow> string \<Rightarrow> goerr option) option"

definition pendingCookieName :: string where [simp]: "pendingCookieName = ''mcp_pending''"
definition setupCookieName :: string where [simp]: "setupCookieName = ''mcp_setup''"
definition pendingLoginTTL :: int where "pendingLoginTTL = 5 * 60"

definition unix_now :: "web_env \<Rightarrow> int" where
  "unix_now env = we_now env div second"

definition randomToken :: "rng \<Rightarrow> goerr + string" where
  "randomToken rng = (case rng 0 16 of None \<Rightarrow> Inl (ErrNew ''unexpected EOF'') | Some b \<Rightarrow> Inr (hex_encode b))"

definition setCookie :: "string \<Rightarrow> string \<Rightarrow> int \<Rightarrow> web_request \<Rightarrow> web_output" where
  "setCookie name val maxAge r = OutCookie \<lparr>ck_Name = name, ck_Value = val, ck_Path = ''/web'', ck_HttpOnly = True, ck_SameSiteLax = True,
     ck_MaxAge = maxAge, ck_Secure = (\<not> isLocalhost r)\<rparr>"

definition clearCookie :: "string \<Rightarrow> web_request \<Rightarrow> web_output" where
  "clearCookie name r = setCookie name [] (-1) r"

definition cookieValue :: "web_request \<Rightarrow> string \<Rightarrow> string" where
  "cookieValue r name = param (wq_cookies r) name"

definition getPending :: "web_env \<Rightarrow> web_request \<Rightarrow> web \<Rightarrow> pendingLogin option \<times> web" where
  "getPending env r s =
     (let t = cookieValue r pendingCookieName
      in if t = [] then (None, s)
         else case map_of (wb_pendingLogins s) t of
                None \<Rightarrow> (None, s)
              | Some p \<Rightarrow> if unix_now env > pl_ExpiresAt p then (None, s\<lparr>wb_pendingLogins := AList.delete t (wb_pendingLogins s)\<rparr>)
                          else (Some p, s))"

definition startPendingLogin :: "web_env \<Rightarrow> rng \<Rightarrow> web_request \<Rightarrow> User \<Rightarrow> nat option \<Rightarrow> string \<Rightarrow> web \<Rightarrow> web_output list \<times> web" where
  "startPendingLogin env rng r user userDEK mt s =
     (case randomToken rng of
        Inl _ \<Rightarrow> (web_failed, s)
      | Inr token \<Rightarrow>
          ([setCookie pendingCookieName token pendingLoginTTL r],
           s\<lparr>wb_pendingLogins := AList.update token \<lparr>pl_UserID = us_ID user, pl_Method = mt, pl_DEK = userDEK,
               pl_ExpiresAt = unix_now env + pendingLoginTTL\<rparr> (wb_pendingLogins s)\<rparr>))"

definition completeLogin :: "web_env \<Rightarrow> web_request \<Rightarrow> User \<Rightarrow> nat option \<Rightarrow> web \<Rightarrow> web_output list \<times> web" where
  "completeLogin env r user userDEK s =
     (case Store_CreateWebSession (we_now env) \<lparr>ws_Token = [], ws_UserID = us_ID user, ws_ExpiresAt = we_now env + sessionTTL, ws_CreatedAt = 0\<rparr> (web_db s) of
        (Inl _, db) \<Rightarrow> (web_failed, set_db db s)
      | (Inr sess, db) \<Rightarrow>
          ([setCookie sessionCookieName (ws_Token sess) (sessionTTL div second) r],
           (set_db db s)\<lparr>wb_sessionDEKs := (case userDEK of None \<Rightarrow> wb_sessionDEKs s
              | Some a \<Rightarrow> AList.update (ws_Token sess) a (wb_sessionDEKs s))\<rparr>))"

text \<open>\<open>None\<close> is the error \<open>errNotAuthFor2FA\<close>.\<close>

definition twoFACreds :: "web_env \<Rightarrow> web_request \<Rightarrow> web \<Rightarrow> (string \<times> nat option) option \<times> web" where
  "twoFACreds env r s =
     (case getPending env r s of
        (Some p, s) \<Rightarrow> (Some (pl_UserID p, pl_DEK p), s)
      | (None, s) \<Rightarrow>
          (case (case wq_user r of Some u \<Rightarrow> (Some u, s) | None \<Rightarrow> getSessionUser env r s) of
             (None, s) \<Rightarrow> (None, s)
           | (Some user, s) \<Rightarrow> (Some (us_ID user, getSessionDEK r s), s)))"

section \<open>Login and logout\<close>

text \<open>The password in clear text of an old account is replaced by its hash, and an account without a salt gets one. What is
  written back is the user read before, with the changes.\<close>

definition upgrade_hash :: "web_env \<Rightarrow> string \<Rightarrow> User \<Rightarrow> web \<Rightarrow> User \<times> web" where
  "upgrade_hash env password user s =
     (if IsBcrypt (us_Password user) then (user, s)
      else case HashPassword (we_bcrypt env) password of
             Inl _ \<Rightarrow> (user, s)
           | Inr hash \<Rightarrow> (let user = user\<lparr>us_Password := hash\<rparr> in (user, web_try (Store_UpdateUser (we_bcrypt env) user) s)))"

definition ensure_salt :: "web_env \<Rightarrow> User \<Rightarrow> web \<Rightarrow> User \<times> web" where
  "ensure_salt env user s =
     (if us_PasswordSalt user \<noteq> [] then (user, s)
      else case GenerateSalt (we_lib env) (we_rng env) of
             Inl _ \<Rightarrow> (user, s)
           | Inr salt \<Rightarrow> (let user = user\<lparr>us_PasswordSalt := salt\<rparr> in (user, web_try (Store_UpdateUser (we_bcrypt env) user) s)))"

text \<open>A fresh slice with the user's key, nil if it cannot be derived.\<close>

definition derive_dek :: "web_env \<Rightarrow> string \<Rightarrow> User \<Rightarrow> web \<Rightarrow> nat option \<times> web" where
  "derive_dek env password user s =
     (if us_PasswordSalt user = [] then (None, s)
      else case DeriveUserDEK (we_lib env) password (us_PasswordSalt user) of
             Inl _ \<Rightarrow> (None, s)
           | Inr dek \<Rightarrow> (let (a, s) = alloc dek s in (Some a, s)))"

text \<open>The end of a login: through a pending login if a second factor is in effect.\<close>

definition finish_login :: "web_env \<Rightarrow> WebHandler \<Rightarrow> web_request \<Rightarrow> User \<Rightarrow> nat option \<Rightarrow> web \<Rightarrow> web_output list \<times> web" where
  "finish_login env h r user userDEK s =
     (let pending = (\<lambda>mt url. let (out, s) = startPendingLogin env (skip_rng 1 (we_rng env)) r user userDEK mt s in (out @ [OutRedirect url], s));
          done = (let (out, s) = completeLogin env r user userDEK s in (out @ [OutRedirect ''/web/''], s))
      in case wh_TwoFA h of
           None \<Rightarrow> done
         | Some m \<Rightarrow>
             (case HasMethod (us_ID user) (web_db s) of
                (True, mt) \<Rightarrow> pending mt ''/web/login/2fa''
              | (False, _) \<Rightarrow> if Required m then pending [] ''/web/setup-2fa'' else done))"

definition loginPost :: "web_env \<Rightarrow> WebHandler \<Rightarrow> web_request \<Rightarrow> web \<Rightarrow> web_output list \<times> web" where
  "loginPost env h r s =
     (let password = form_value r ''password''
      in case Store_GetUserByEmail (TrimSpace (form_value r ''email'')) (web_db s) of
           Inl _ \<Rightarrow> (render env ''login.html'' ((page ''Sign In'')\<lparr>pd_Error := ''Invalid email or password''\<rparr>), s)
         | Inr user \<Rightarrow>
             if CheckPassword (we_bcrypt env) (us_Password user) password \<noteq> None
             then (render env ''login.html'' ((page ''Sign In'')\<lparr>pd_Error := ''Invalid email or password''\<rparr>), s)
             else
               let (user, s) = upgrade_hash env password user s;
                   (user, s) = ensure_salt env user s
               in case Store_CreateWebSession (we_now env)
                      \<lparr>ws_Token = [], ws_UserID = us_ID user, ws_ExpiresAt = we_now env + sessionTTL, ws_CreatedAt = 0\<rparr> (web_db s) of
                    (Inl _, db) \<Rightarrow> (web_failed, set_db db s)
                  | (Inr sess, db) \<Rightarrow>
                      (let s = set_db db s;
                           (d, s) = derive_dek env password user s;
                           s = (case d of None \<Rightarrow> s | Some a \<Rightarrow> s\<lparr>wb_sessionDEKs := AList.update (ws_Token sess) a (wb_sessionDEKs s)\<rparr>);
                           (userDEK, s) = derive_dek env password user s
                       in finish_login env h r user userDEK s))"

definition LoginHandler :: "web_env \<Rightarrow> WebHandler \<Rightarrow> web_request \<Rightarrow> web \<Rightarrow> (web_output list \<times> web) option" where
  "LoginHandler env h r s =
     Some (if wq_method r = ''GET'' then (render env ''login.html'' (page ''Sign In''), s)
           else if wq_method r = ''POST'' then loginPost env h r s
           else (web_not_allowed, s))"

definition LogoutHandler :: "web_env \<Rightarrow> web_request \<Rightarrow> web \<Rightarrow> (web_output list \<times> web) option" where
  "LogoutHandler env r s =
     (let s = (case map_of (wq_cookies r) sessionCookieName of
                 None \<Rightarrow> s
               | Some t \<Rightarrow>
                   (let s = (case map_of (wb_sessionDEKs s) t of None \<Rightarrow> s
                       | Some a \<Rightarrow> (Zeroize (Some a) s)\<lparr>wb_sessionDEKs := AList.delete t (wb_sessionDEKs s)\<rparr>)
                    in web_try (Store_DeleteWebSession t) s))
      in Some ([OutCookie \<lparr>ck_Name = sessionCookieName, ck_Value = [], ck_Path = ''/web'', ck_HttpOnly = False, ck_SameSiteLax = False,
                  ck_MaxAge = -1, ck_Secure = False\<rparr>, OutRedirect ''/web/login''], s))"

section \<open>The challenge\<close>

definition challenge_page :: "WebHandler \<Rightarrow> string \<Rightarrow> pageData" where
  "challenge_page h err = (page ''Verify Sign-In'')\<lparr>pd_Error := err, pd_Extra := [(''Bypass'', CBool (wh_TwoFABypass h))]\<rparr>"

definition login2FAGet :: "web_env \<Rightarrow> WebHandler \<Rightarrow> web_request \<Rightarrow> web \<Rightarrow> web_output list \<times> web" where
  "login2FAGet env h r s =
     (case getPending env r s of
        (None, s) \<Rightarrow> ([OutRedirect ''/web/login''], s)
      | (Some p, s) \<Rightarrow>
          if pl_Method p = [] then ([OutRedirect ''/web/setup-2fa''], s)
          else (render env ''login_2fa.html'' (challenge_page h []), s))"

text \<open>The pending login is dropped and the session opened.\<close>

definition end_pending :: "web_env \<Rightarrow> web_request \<Rightarrow> User \<Rightarrow> nat option \<Rightarrow> web \<Rightarrow> web_output list \<times> web" where
  "end_pending env r user dek s =
     (let t = cookieValue r pendingCookieName;
          s = (if t \<noteq> [] then s\<lparr>wb_pendingLogins := AList.delete t (wb_pendingLogins s)\<rparr> else s);
          (out, s) = completeLogin env r user dek s
      in (clearCookie pendingCookieName r # out, s))"

definition login2FAPost :: "web_env \<Rightarrow> WebHandler \<Rightarrow> web_request \<Rightarrow> web \<Rightarrow> (web_output list \<times> web) option" where
  "login2FAPost env h r s =
     (case getPending env r s of
        (None, s) \<Rightarrow> Some ([OutRedirect ''/web/login''], s)
      | (Some p, s) \<Rightarrow>
          (case (if wh_TwoFABypass h then Store_GetUser (pl_UserID p) (web_db s) else Inl ErrNoRows) of
             Inr user \<Rightarrow> Some (end_pending env r user (pl_DEK p) s)
           | Inl _ \<Rightarrow>
               if pl_Method p = [] then Some ([OutRedirect ''/web/setup-2fa''], s)
               else (case wh_TwoFA h of
                       None \<Rightarrow> None
                     | Some m \<Rightarrow>
                         (case VerifyLogin env m (pl_UserID p) (pl_Method p) (TrimSpace (form_value r ''code'')) (bytes_at s (pl_DEK p)) (wb_store s) of
                            (Some _, st) \<Rightarrow> Some (render env ''login_2fa.html'' (challenge_page h ''Invalid code. Please try again.''), s\<lparr>wb_store := st\<rparr>)
                          | (None, st) \<Rightarrow>
                              (let s = s\<lparr>wb_store := st\<rparr>
                               in case Store_GetUser (pl_UserID p) (web_db s) of
                                    Inl _ \<Rightarrow> Some (web_failed, s)
                                  | Inr user \<Rightarrow> (let (out, s) = end_pending env r user (pl_DEK p) s in Some (out @ [OutRedirect ''/web/''], s)))))))"

definition Login2FAHandler :: "web_env \<Rightarrow> WebHandler \<Rightarrow> web_request \<Rightarrow> web \<Rightarrow> (web_output list \<times> web) option" where
  "Login2FAHandler env h r s =
     (if wq_method r = ''GET'' then Some (login2FAGet env h r s)
      else if wq_method r = ''POST'' then login2FAPost env h r s
      else Some (web_not_allowed, s))"

section \<open>Enrollment\<close>

definition errMissingSessionDEK :: string where
  "errMissingSessionDEK = ''Your session cannot enable two-factor authentication because it predates a service restart. Please log out and log back in, then try setting up 2FA again.''"

definition setupData :: "string \<Rightarrow> string \<Rightarrow> string \<Rightarrow> string \<Rightarrow> bool \<Rightarrow> string list \<Rightarrow> content" where
  "setupData mt secret url qr forced methods = CMap [(''Method'', CStr mt), (''Secret'', CStr secret), (''OtpauthURL'', CStr url),
     (''QRDataURI'', CStr qr), (''Forced'', CBool forced), (''Methods'', CList (map CStr methods))]"

definition setup2FAGet :: "web_env \<Rightarrow> WebHandler \<Rightarrow> web_request \<Rightarrow> web \<Rightarrow> (web_output list \<times> web) option" where
  "setup2FAGet env h r s =
     (let q = query_value r ''method'';
          methodID = (if q = [] \<and> wh_TwoFAMethods h \<noteq> [] then hd (wh_TwoFAMethods h) else q)
      in if methodID = [] then Some ([OutError ''No 2FA methods configured'' 400], s)
         else case twoFACreds env r s of
                (None, s) \<Rightarrow> Some ([OutRedirect ''/web/login''], s)
              | (Some (userID, dek), s) \<Rightarrow>
                  (case Store_GetUser userID (web_db s) of
                     Inl _ \<Rightarrow> Some ([OutRedirect ''/web/login''], s)
                   | Inr user \<Rightarrow>
                       (let (pending, s) = getPending env r s
                        in if pending = None \<and> (case bytes_at s dek of None \<Rightarrow> True | Some b \<Rightarrow> b = [])
                           then Some (render env ''setup_2fa.html'' ((page ''Two-Factor Authentication'')\<lparr>pd_Error := errMissingSessionDEK,
                                  pd_Data := setupData methodID [] [] [] False (wh_TwoFAMethods h)\<rparr>), s)
                           else case wh_TwoFA h of
                                  None \<Rightarrow> None
                                | Some m \<Rightarrow>
                                    (case Setup env m (us_Email user) methodID of
                                       Inl _ \<Rightarrow> Some ([OutError ''Failed to start setup'' 500], s)
                                     | Inr res \<Rightarrow>
                                         (case randomToken (we_rng env) of
                                            Inl _ \<Rightarrow> Some (web_failed, s)
                                          | Inr token \<Rightarrow>
                                              (let (pending, s) = getPending env r s; forced = (pending \<noteq> None);
                                                   s = s\<lparr>wb_pendingSetups := AList.update token \<lparr>ps_UserID = us_ID user, ps_Method = methodID,
                                                          ps_Secret = sr_Secret res, ps_OtpauthURL = sr_OtpauthURL res, ps_DEK = dek, ps_Forced = forced,
                                                          ps_ExpiresAt = unix_now env + pendingLoginTTL\<rparr> (wb_pendingSetups s)\<rparr>;
                                                   qr = (case we_qrcode env (sr_OtpauthURL res) of Inl _ \<Rightarrow> []
                                                         | Inr png \<Rightarrow> ''data:image/png;base64,'' @ cl_base64_encode (we_lib env) png)
                                               in Some (setCookie setupCookieName token pendingLoginTTL r #
                                                    render env ''setup_2fa.html'' ((page ''Set up two-factor authentication'')\<lparr>pd_Data :=
                                                      setupData methodID (sr_Secret res) (sr_OtpauthURL res) qr forced (wh_TwoFAMethods h)\<rparr>), s)))))))"

definition rToken :: "web_request \<Rightarrow> string" where
  "rToken r = cookieValue r setupCookieName"

definition setup2FAPost :: "web_env \<Rightarrow> WebHandler \<Rightarrow> web_request \<Rightarrow> web \<Rightarrow> (web_output list \<times> web) option" where
  "setup2FAPost env h r s =
     (let token = rToken r; again = [OutRedirect ''/web/login'']
      in if token = [] then Some (again, s)
         else case map_of (wb_pendingSetups s) token of
                None \<Rightarrow> Some (again, s)
              | Some ps \<Rightarrow>
                  if unix_now env > ps_ExpiresAt ps then Some (again, s\<lparr>wb_pendingSetups := AList.delete token (wb_pendingSetups s)\<rparr>)
                  else if ps_DEK ps = None
                  then Some (render env ''setup_2fa.html'' ((page ''Two-Factor Authentication'')\<lparr>pd_Error := errMissingSessionDEK,
                         pd_Data := setupData (ps_Method ps) [] [] [] (ps_Forced ps) (wh_TwoFAMethods h)\<rparr>), s)
                  else case wh_TwoFA h of
                         None \<Rightarrow> None
                       | Some m \<Rightarrow>
                           (case Enable env m (ps_UserID ps) (ps_Method ps) (ps_Secret ps) (TrimSpace (form_value r ''code''))
                                  (bytes_at s (ps_DEK ps)) (wb_store s) of
                              (Some _, st) \<Rightarrow>
                                Some (render env ''setup_2fa.html'' ((page ''Set up two-factor authentication'')\<lparr>pd_Error :=
                                    ''Invalid code. The code you entered does not match your authenticator. Please try again.'',
                                  pd_Data := setupData (ps_Method ps) (ps_Secret ps) [] [] (ps_Forced ps) (wh_TwoFAMethods h)\<rparr>), s\<lparr>wb_store := st\<rparr>)
                            | (None, st) \<Rightarrow>
                                (let s = s\<lparr>wb_store := st\<rparr>
                                 in case Store_GetUser (ps_UserID ps) (web_db s) of
                                      Inl _ \<Rightarrow> Some (web_failed, s)
                                    | Inr user \<Rightarrow>
                                        (let s = s\<lparr>wb_pendingSetups := AList.delete token (wb_pendingSetups s)\<rparr>
                                         in if ps_Forced ps
                                            then let (out, s) = end_pending env r user (ps_DEK ps) s
                                                 in Some (clearCookie setupCookieName r # out @ [OutRedirect ''/web/''], s)
                                            else Some ([clearCookie setupCookieName r, OutRedirect ''/web/2fa?success=2FA+enabled''], s)))))"

definition Setup2FAHandler :: "web_env \<Rightarrow> WebHandler \<Rightarrow> web_request \<Rightarrow> web \<Rightarrow> (web_output list \<times> web) option" where
  "Setup2FAHandler env h r s =
     (if wq_method r = ''GET'' then setup2FAGet env h r s
      else if wq_method r = ''POST'' then setup2FAPost env h r s
      else Some (web_not_allowed, s))"

section \<open>Settings and reset\<close>

definition twoFADisablePost :: "WebHandler \<Rightarrow> web_request \<Rightarrow> web \<Rightarrow> (web_output list \<times> web) option" where
  "twoFADisablePost h r s =
     (if wh_TwoFA h = None then Some ([OutRedirect ''/web/2fa?error=2FA+not+available''], s)
      else if form_value r ''action'' \<noteq> ''disable'' then Some ([OutRedirect ''/web/2fa''], s)
      else case wq_user r of
             None \<Rightarrow> None
           | Some user \<Rightarrow>
               (case Manager_Delete (us_ID user) (web_db s) of
                  (Some _, db) \<Rightarrow> Some ([OutRedirect ''/web/2fa?error=Failed+to+disable+2FA''], set_db db s)
                | (None, db) \<Rightarrow> Some ([OutRedirect ''/web/2fa?success=2FA+disabled''], set_db db s)))"

text \<open>The page reads the two results of \<open>GetUser2FA\<close> in the wrong order: \<open>Has2FA\<close> is the method, \<open>Method\<close> whether it is enabled.\<close>

definition TwoFASettingsHandler :: "web_env \<Rightarrow> WebHandler \<Rightarrow> web_request \<Rightarrow> web \<Rightarrow> (web_output list \<times> web) option" where
  "TwoFASettingsHandler env h r s =
     (if wq_method r = ''POST'' then twoFADisablePost h r s
      else if wq_method r \<noteq> ''GET'' then Some (web_not_allowed, s)
      else case wq_user r of
             None \<Rightarrow> None
           | Some user \<Rightarrow>
               (let (has, mt) = (case Store_GetUser2FA (us_ID user) (web_db s) of Inl _ \<Rightarrow> ([], False) | Inr p \<Rightarrow> p)
                in Some (render env ''2fa.html'' \<lparr>pd_User = Some user, pd_Title = ''Two-Factor Authentication'',
                     pd_Error = query_value r ''error'', pd_Success = query_value r ''success'', pd_Warning = [],
                     pd_Data = CMap [(''Has2FA'', CStr has), (''Method'', CBool mt), (''Methods'', CList (map CStr (wh_TwoFAMethods h))),
                       (''Required'', CBool (case wh_TwoFA h of None \<Rightarrow> False | Some m \<Rightarrow> Required m))], pd_Extra = []\<rparr>, s)))"

definition AdminUsers2FAResetHandler :: "WebHandler \<Rightarrow> web_request \<Rightarrow> web \<Rightarrow> (web_output list \<times> web) option" where
  "AdminUsers2FAResetHandler h r s =
     (let userID = form_value r ''user_id''
      in if wq_method r \<noteq> ''POST'' then Some (web_not_allowed, s)
         else if userID = [] then Some ([OutRedirect ''/web/admin/users?error=Missing+user''], s)
         else if wh_TwoFA h = None then None
         else case Manager_Delete userID (web_db s) of
                (Some _, db) \<Rightarrow> Some ([OutRedirect ''/web/admin/users?error=Failed+to+reset+2FA''], set_db db s)
              | (None, db) \<Rightarrow> Some ([OutRedirect ''/web/admin/users?success=2FA+reset''], set_db db s))"

section \<open>Opening a session\<close>

text \<open>What identifiers are relied on for: random ones are distinct, not empty and not in use.\<close>

definition web_ids_ok :: "db \<Rightarrow> bool" where
  "web_ids_ok db \<longleftrightarrow> fault_free db \<and> inj (db_ids db) \<and>
     (\<forall>n \<ge> db_next db. db_ids db n \<noteq> [] \<and> db_ids db n \<notin> ws_Token ` set (ct_web_sessions (db_core db)))"

definition next_id :: "db \<Rightarrow> string" where
  "next_id db = db_ids db (db_next db)"

definition opened :: "web_env \<Rightarrow> string \<Rightarrow> db \<Rightarrow> db" where
  "opened env u db = core_upd (\<lambda>c. c\<lparr>ct_web_sessions := ct_web_sessions c @ [\<lparr>ws_Token = next_id db, ws_UserID = u,
     ws_ExpiresAt = we_now env + sessionTTL, ws_CreatedAt = we_now env\<rparr>]\<rparr>) (db\<lparr>db_next := Suc (db_next db)\<rparr>)"

lemma web_db_simps [simp]:
  "web_db (set_db db s) = db" "web_db (s\<lparr>wb_sessionDEKs := d\<rparr>) = web_db s" "web_db (s\<lparr>wb_pendingLogins := l\<rparr>) = web_db s"
  "web_db (s\<lparr>wb_pendingSetups := x\<rparr>) = web_db s" "web_db (s\<lparr>wb_heap := hp\<rparr>) = web_db s" "web_db (s\<lparr>wb_store := st\<rparr>) = st_db st"
  "wb_heap (set_db db s) = wb_heap s" "wb_pendingLogins (set_db db s) = wb_pendingLogins s"
  "wb_pendingSetups (set_db db s) = wb_pendingSetups s" "wb_sessionDEKs (set_db db s) = wb_sessionDEKs s"
  "st_keyStore (wb_store (set_db db s)) = st_keyStore (wb_store s)"
  by (simp_all add: web_db_def set_db_def)

lemma bytes_at_cong: "wb_heap s = wb_heap s' \<Longrightarrow> bytes_at s = bytes_at s'"
  by (simp add: bytes_at_def fun_eq_iff split: option.splits)

lemma bytes_at_simps [simp]:
  "bytes_at (set_db db s) = bytes_at s" "bytes_at (s\<lparr>wb_sessionDEKs := d\<rparr>) = bytes_at s"
  "bytes_at (s\<lparr>wb_pendingLogins := l\<rparr>) = bytes_at s" "bytes_at (s\<lparr>wb_pendingSetups := x\<rparr>) = bytes_at s"
  "bytes_at (s\<lparr>wb_store := st\<rparr>) = bytes_at s" "bytes_at s None = None"
  by (rule bytes_at_cong, simp)+ (simp add: bytes_at_def)

lemma alloc_bytes: "alloc b s = (a, s') \<Longrightarrow> bytes_at s' (Some a) = Some b"
  by (auto simp: alloc_def bytes_at_def)

lemma opened_simps [simp]:
  "fault_free (opened env u db) = fault_free db" "db_ids (opened env u db) = db_ids db" "db_next (opened env u db) = Suc (db_next db)"
  "db_users (opened env u db) = db_users db" "has_user (opened env u db) i = has_user db i"
  "ct_user_2fa (db_core (opened env u db)) = ct_user_2fa (db_core db)" "db_faults (opened env u db) = db_faults db"
  "Store_GetUser i (opened env u db) = Store_GetUser i db" "HasMethod i (opened env u db) = HasMethod i db"
  by (simp_all add: opened_def core_upd_def fault_free_def has_user_def Store_GetUser_def stmt_def HasMethod_def Store_GetUser2FA_def get_2fa_def)

lemma create_web_session:
  assumes "web_ids_ok db" and "has_user db u"
  shows "Store_CreateWebSession (we_now env) \<lparr>ws_Token = [], ws_UserID = u, ws_ExpiresAt = we_now env + sessionTTL, ws_CreatedAt = 0\<rparr> db =
    (Inr \<lparr>ws_Token = next_id db, ws_UserID = u, ws_ExpiresAt = we_now env + sessionTTL, ws_CreatedAt = 0\<rparr>, opened env u db)"
  using assms
  by (simp add: Store_CreateWebSession_def fill_id_def generateID_def web_ids_ok_def insert_row_def opened_def next_id_def core_upd_def)

lemma fresh_session: "web_ids_ok db \<Longrightarrow> n \<ge> db_next db \<Longrightarrow> x \<in> set (ct_web_sessions (db_core db)) \<Longrightarrow> ws_Token x \<noteq> db_ids db n"
  by (metis image_eqI web_ids_ok_def)

lemma opened_ok:
  assumes "web_ids_ok db"
  shows "web_ids_ok (opened env u db)"
proof -
  have "db_ids db n \<notin> ws_Token ` set (ct_web_sessions (db_core (opened env u db)))" if "n \<ge> Suc (db_next db)" for n
    using fresh_session [OF assms, of n] that assms
    by (auto simp: opened_def next_id_def core_upd_def web_ids_ok_def dest: injD)
  then show ?thesis using assms by (simp add: web_ids_ok_def)
qed

lemma completeLogin_ok:
  assumes "web_ids_ok (web_db s)" and "has_user (web_db s) (us_ID user)"
  shows "completeLogin env r user d s = ([setCookie sessionCookieName (next_id (web_db s)) (sessionTTL div second) r],
    (set_db (opened env (us_ID user) (web_db s)) s)\<lparr>wb_sessionDEKs :=
       (case d of None \<Rightarrow> wb_sessionDEKs s | Some a \<Rightarrow> AList.update (next_id (web_db s)) a (wb_sessionDEKs s))\<rparr>)"
  by (simp add: completeLogin_def create_web_session [OF assms] split: option.splits)

text \<open>The holder of the cookie of a new session is its user until the session expires.\<close>

lemma session_admits:
  assumes "web_ids_ok db" and "web_db s = opened env u db" and "Store_GetUser u db = Inr user"
    and "we_now env' \<le> we_now env + sessionTTL" and "map_of (wq_cookies r) sessionCookieName = Some (next_id db)"
  shows "getSessionUser env' r s = (Some user, s)"
proof -
  have "filter (\<lambda>x. ws_Token x = next_id db) (ct_web_sessions (db_core db)) = []"
    using fresh_session [OF assms(1) order_refl] by (auto simp: next_id_def filter_empty_conv)
  moreover have "fault_free db" using assms(1) by (simp add: web_ids_ok_def)
  ultimately have "Store_GetWebSession (next_id db) (opened env u db) = Inr \<lparr>ws_Token = next_id db, ws_UserID = u,
     ws_ExpiresAt = we_now env + sessionTTL, ws_CreatedAt = we_now env\<rparr>"
    by (simp add: Store_GetWebSession_def query_row_def) (simp add: opened_def core_upd_def)
  then show ?thesis using assms by (simp add: getSessionUser_def)
qed

section \<open>The challenge checks the code\<close>

lemma no_session_cookie:
  "OutCookie c \<in> set (render env t d) \<Longrightarrow> False" "OutCookie c \<in> set web_failed \<Longrightarrow> False"
  by (auto simp: render_def web_failed_def split: option.splits)

lemma end_pending_used: "end_pending env r user d s = (out, s') \<Longrightarrow> cookieValue r pendingCookieName \<noteq> [] \<Longrightarrow>
    map_of (wb_pendingLogins s') (cookieValue r pendingCookieName) = None"
  by (auto simp: end_pending_def completeLogin_def Let_def gomap_simps split: prod.splits sum.splits)

lemma completeLogin_opens:
  assumes "completeLogin env r user d s = (out, s')" and "OutCookie c \<in> set out"
  shows "\<exists>sess. ct_web_sessions (db_core (web_db s')) = ct_web_sessions (db_core (web_db s)) @ [sess] \<and>
    ws_Token sess = ck_Value c \<and> ws_UserID sess = us_ID user"
proof -
  obtain sess db where cr: "Store_CreateWebSession (we_now env) \<lparr>ws_Token = [], ws_UserID = us_ID user, ws_ExpiresAt = we_now env + sessionTTL,
      ws_CreatedAt = 0\<rparr> (web_db s) = (Inr sess, db)" and r: "web_db s' = db" "ck_Value c = ws_Token sess"
    using assms by (auto simp: completeLogin_def setCookie_def dest: no_session_cookie split: prod.splits sum.splits)
  from cr show ?thesis
    unfolding r by (auto simp: Store_CreateWebSession_def fill_id_def generateID_def insert_row_def Let_def dest!: stmt_InrD split: sum.splits if_splits)
qed

lemma end_pending_opens:
  assumes "end_pending env r user d s = (out, s')" and "OutCookie c \<in> set out" and "ck_Name c = sessionCookieName"
  shows "\<exists>sess. ct_web_sessions (db_core (web_db s')) = ct_web_sessions (db_core (web_db s)) @ [sess] \<and>
    ws_Token sess = ck_Value c \<and> ws_UserID sess = us_ID user"
proof -
  obtain s1 out1 where o: "completeLogin env r user d s1 = (out1, s')" "out = clearCookie pendingCookieName r # out1" "web_db s1 = web_db s"
    using assms(1) by (auto simp: end_pending_def Let_def split: prod.splits if_splits)
  have "OutCookie c \<in> set out1" using o(2) assms(2,3) by (auto simp: clearCookie_def setCookie_def sessionCookieName_def pendingCookieName_def)
  from completeLogin_opens [OF o(1) this] o(3) show ?thesis by simp
qed

lemma verify_keeps_db: "VerifyLogin env m u mt code d st = (e, st') \<Longrightarrow> st_db st' = st_db st"
  by (auto simp: VerifyLogin_def Store_GetUser2FASecret_def Let_def split: option.splits prod.splits sum.splits if_splits)

text \<open>C15: The second step of a login opens a session only for a code that is right: unless the bypass for tests is on, the reply carries a
  session cookie only if the request belongs to a login that is still pending and the code is valid
  now for the secret stored for the user of that login. The one session added is that user's, the cookie holds its token, and the pending login is used up.\<close>

theorem challenge_checks_code:
  assumes "login2FAPost env h r s = Some (out, s')" and "\<not> wh_TwoFABypass h"
    and "OutCookie c \<in> set out" and "ck_Name c = sessionCookieName"
  shows "\<exists>p secret sess. map_of (wb_pendingLogins s) (cookieValue r pendingCookieName) = Some p \<and> unix_now env \<le> pl_ExpiresAt p \<and>
    fst (Store_GetUser2FASecret (we_lib env) (we_sys env) (pl_UserID p) (bytes_at s (pl_DEK p)) (wb_store s)) = Inr secret \<and>
    we_totp_validate env (TrimSpace (form_value r ''code'')) secret (we_now env) = Inr True \<and>
    ct_web_sessions (db_core (web_db s')) = ct_web_sessions (db_core (web_db s)) @ [sess] \<and>
    ws_Token sess = ck_Value c \<and> ws_UserID sess = pl_UserID p \<and>
    map_of (wb_pendingLogins s') (cookieValue r pendingCookieName) = None"
proof -
  let ?t = "cookieValue r pendingCookieName" and ?code = "TrimSpace (form_value r ''code'')"
  obtain p where p: "?t \<noteq> []" "map_of (wb_pendingLogins s) ?t = Some p" "unix_now env \<le> pl_ExpiresAt p" "getPending env r s = (Some p, s)"
    using assms(1,3) by (fastforce simp: login2FAPost_def getPending_def Let_def split: if_splits option.splits)
  obtain m st user out1 where v: "VerifyLogin env m (pl_UserID p) (pl_Method p) ?code (bytes_at s (pl_DEK p)) (wb_store s) = (None, st)"
      and e: "end_pending env r user (pl_DEK p) (s\<lparr>wb_store := st\<rparr>) = (out1, s')" "OutCookie c \<in> set out1"
      and u: "Store_GetUser (pl_UserID p) (web_db (s\<lparr>wb_store := st\<rparr>)) = Inr user"
    using assms p(4) by (auto simp: login2FAPost_def Let_def dest: no_session_cookie split: if_splits option.splits prod.splits sum.splits)
  have "us_ID user = pl_UserID p" using u by (auto simp: Store_GetUser_def dest!: stmt_InrD query_row_SomeD)
  moreover have "web_db (s\<lparr>wb_store := st\<rparr>) = web_db s" using verify_keeps_db [OF v] by (simp add: web_db_def)
  moreover from v obtain mt secret where "fst (Store_GetUser2FASecret (we_lib env) (we_sys env) (pl_UserID p) (bytes_at s (pl_DEK p)) (wb_store s)) = Inr secret"
      "method_Verify env mt secret ?code = None"
    by (auto simp: VerifyLogin_def split: option.splits prod.splits sum.splits if_splits)
  moreover from this(2) have "we_totp_validate env ?code secret (we_now env) = Inr True"
    by (cases mt) (auto split: if_splits sum.splits)
  moreover have "map_of (wb_pendingLogins s') ?t = None" using end_pending_used [OF e(1) p(1)] .
  ultimately show ?thesis using p(2,3) end_pending_opens [OF e assms(4)] by auto
qed

section \<open>The challenge can be avoided\<close>

lemma login_pending:
  assumes "Store_GetUserByEmail (TrimSpace (form_value r ''email'')) (web_db s) = Inr u"
    and "CheckPassword (we_bcrypt env) (us_Password u) (form_value r ''password'') = None" and "IsBcrypt (us_Password u)"
    and "us_PasswordSalt u \<noteq> []" and "DeriveUserDEK (we_lib env) (form_value r ''password'') (us_PasswordSalt u) = Inr dek"
    and "web_ids_ok (web_db s)" and "wh_TwoFA h = Some m" and "HasMethod (us_ID u) (web_db s) = (True, mt)"
    and "randomToken (skip_rng 1 (we_rng env)) = Inr t"
  shows "\<exists>s1 a. loginPost env h r s = ([setCookie pendingCookieName t pendingLoginTTL r, OutRedirect ''/web/login/2fa''], s1) \<and>
    map_of (wb_pendingLogins s1) t = Some \<lparr>pl_UserID = us_ID u, pl_Method = mt, pl_DEK = Some a, pl_ExpiresAt = unix_now env + pendingLoginTTL\<rparr> \<and>
    bytes_at s1 (Some a) = Some dek \<and> web_db s1 = opened env (us_ID u) (web_db s) \<and> st_keyStore (wb_store s1) = st_keyStore (wb_store s)"
proof -
  have "has_user (web_db s) (us_ID u)"
    using assms(1) by (auto simp: has_user_def Store_GetUserByEmail_def dest!: stmt_InrD query_row_SomeD)
  note cs = create_web_session [OF assms(6) this]
  show ?thesis using assms
    by (simp add: loginPost_def upgrade_hash_def ensure_salt_def cs derive_dek_def alloc_def finish_login_def startPendingLogin_def gomap_simps)
      (simp add: bytes_at_def nth_append)
qed

lemma setup_shown:
  assumes "map_of (wb_pendingLogins s) t = Some p" and "t \<noteq> []" and "cookieValue r pendingCookieName = t" and "unix_now env \<le> pl_ExpiresAt p"
    and "Store_GetUser (pl_UserID p) (web_db s) = Inr u" and "us_ID u = pl_UserID p" and "wh_TwoFA h = Some m"
    and "map_of (mg_methods m) mt = Some TotpMethod" and "mt \<noteq> []" and "query_value r ''method'' = mt"
    and "we_totp_generate env (us_Email u) = Inr (secret, url)" and "randomToken (we_rng env) = Inr t2"
  shows "\<exists>out d. setup2FAGet env h r s = Some (setCookie setupCookieName t2 pendingLoginTTL r # out,
      s\<lparr>wb_pendingSetups := AList.update t2 \<lparr>ps_UserID = us_ID u, ps_Method = mt, ps_Secret = secret, ps_OtpauthURL = url, ps_DEK = pl_DEK p,
        ps_Forced = True, ps_ExpiresAt = unix_now env + pendingLoginTTL\<rparr> (wb_pendingSetups s)\<rparr>) \<and>
    OutPage ''setup_2fa.html'' d \<in> set out \<and> (\<exists>kvs. pd_Data d = CMap kvs \<and> map_of kvs ''Secret'' = Some (CStr secret))"
proof -
  have "getPending env r s = (Some p, s)" using assms by (simp add: getPending_def)
  then show ?thesis using assms
    by (simp add: setup2FAGet_def twoFACreds_def Setup_def render_def setupData_def) (auto simp: Let_def)
qed

lemma set_2fa_ok:
  assumes "crypto_lawful lib" and "rng_sound rng" and "\<forall>i n. rng i n \<noteq> None" and "st_keyStore st = Some ks"
    and "fst (GetKey lib sys (ee_provider (kst_encryptor ks))) = Inr kek" and "length dek = keySize"
    and "fault_free (st_db st)" and "has_user (st_db st) u"
  shows "\<exists>t ks'. Store_SetUser2FA lib sys rng u mt secret (Some dek) st =
    (None, \<lparr>st_db = core_upd (\<lambda>c. c\<lparr>ct_user_2fa := t\<rparr>) (st_db st), st_keyStore = Some ks'\<rparr>)"
proof -
  obtain c ks' where e: "EncryptSecret lib sys rng secret ks = (Inr c, ks')" using EncryptSecret_total [OF assms(1-3,5)] by blast
  obtain n where "rng 3 nonceSize = Some n" using assms(3) by fastforce
  then have "wrap_for_user lib sys rng (Some dek) secret st = (Inr (c, n @ cl_seal lib dek n c), st\<lparr>st_keyStore := Some ks'\<rparr>)"
    using assms(4,6) e by (simp add: wrap_for_user_def AES256GCMEncrypt_def skip_rng_def)
  then show ?thesis using assms(7,8) by (cases st) (auto simp: Store_SetUser2FA_def upsert_row_def insert_row_def)
qed

lemma twofa_roundtrip:
  assumes "crypto_lawful lib" and "rng_sound rng" and "fault_free (st_db st)"
    and "Store_SetUser2FA lib sys rng u mt secret (Some dek) st = (None, st')"
    and "unique_on tf_UserID (ct_user_2fa (db_core (st_db st)))"
  shows "\<exists>ks. Store_GetUser2FASecret lib sys' u (Some dek) st' = (Inr secret, st'\<lparr>st_keyStore := Some ks\<rparr>)"
    and "\<exists>t ks. st' = st\<lparr>st_db := core_upd (\<lambda>c. c\<lparr>ct_user_2fa := t\<rparr>) (st_db st), st_keyStore := Some ks\<rparr>"
proof -
  let ?row = "\<lambda>e. \<lparr>tf_UserID = u, tf_Method = mt, tf_Secret = e, tf_Enabled = True\<rparr>"
  from assms(4) obtain m e st1 t where w: "wrap_for_user lib sys rng (Some dek) secret st = (Inr (m, e), st1)"
      and up: "upsert_row tf_UserID tf_UserID twofa_merge (?row e) (ct_user_2fa (db_core (st_db st1))) = Inr t"
      and st': "st' = st1\<lparr>st_db := core_upd (\<lambda>c. c\<lparr>ct_user_2fa := t\<rparr>) (st_db st1)\<rparr>"
    by (auto simp: Store_SetUser2FA_def dest!: stmt_InrD split: prod.splits sum.splits if_splits)
  from wrap_for_user_InrD [OF w] obtain ks ks' where enc: "EncryptSecret lib sys rng secret ks = (Inr m, ks')"
    and a: "AES256GCMEncrypt lib (skip_rng 3 rng) dek m = Inr e" and st1: "st1 = st\<lparr>st_keyStore := Some ks'\<rparr>" by blast
  have row: "\<exists>r. query_row (\<lambda>r. tf_UserID r = u) t = Inr r \<and> tf_Secret r = e"
    using twofa_rows.upsert_lookup [OF up] assms(5) st1 by (auto simp: twofa_merge_def split: sum.splits)
  have "e \<noteq> []" using AES256GCMEncrypt_nonempty [OF _ a] assms(2) by simp
  have "rng_sound (skip_rng 3 rng)" using assms(2) by simp
  then have "unwrap_for_user lib sys' dek e ks' = (Inr secret, ks')"
    using DecryptSecret_after [OF assms(1,2) enc, of sys'] AES256GCM_roundtrip [OF assms(1) _ a] by (simp add: unwrap_for_user_def)
  moreover obtain r where "query_row (\<lambda>r. tf_UserID r = u) t = Inr r" "tf_Secret r = e" using row by blast
  ultimately have "Store_GetUser2FASecret lib sys' u (Some dek) st' = (Inr secret, st'\<lparr>st_keyStore := Some ks'\<rparr>)"
    using \<open>e \<noteq> []\<close> assms(3) by (simp add: Store_GetUser2FASecret_def get_2fa_def st' st1)
  then show "\<exists>ks. Store_GetUser2FASecret lib sys' u (Some dek) st' = (Inr secret, st'\<lparr>st_keyStore := Some ks\<rparr>)" by blast
  show "\<exists>t ks. st' = st\<lparr>st_db := core_upd (\<lambda>c. c\<lparr>ct_user_2fa := t\<rparr>) (st_db st), st_keyStore := Some ks\<rparr>"
    unfolding st' st1 by (intro exI [of _ t] exI [of _ ks']) simp
qed

lemma core_upd_2fa [simp]:
  "web_ids_ok (core_upd (\<lambda>c. c\<lparr>ct_user_2fa := t\<rparr>) db) = web_ids_ok db" "Store_GetUser i (core_upd f db) = Store_GetUser i db"
  "next_id (core_upd f db) = next_id db"
  by (simp_all add: web_ids_ok_def core_upd_def fault_free_def Store_GetUser_def stmt_def next_id_def)

lemma end_pending_ok:
  assumes "web_ids_ok (web_db s)" and "has_user (web_db s) (us_ID u)"
  shows "\<exists>s'. end_pending env r u d s = ([clearCookie pendingCookieName r,
      setCookie sessionCookieName (next_id (web_db s)) (sessionTTL div second) r], s') \<and> web_db s' = opened env (us_ID u) (web_db s) \<and>
    st_keyStore (wb_store s') = st_keyStore (wb_store s)"
  using assms by (cases "cookieValue r pendingCookieName = []") (simp_all add: end_pending_def completeLogin_ok Let_def)

lemma secret_opened:
  assumes "st_db st' = opened env v (st_db st)" and "st_keyStore st' = st_keyStore st"
  shows "fst (Store_GetUser2FASecret lib sys u d st') = fst (Store_GetUser2FASecret lib sys u d st)"
proof -
  have "get_2fa op u (opened env v db) = get_2fa op u db" for op db by (simp add: get_2fa_def opened_def stmt_def core_upd_def)
  then show ?thesis
    using assms by (simp add: Store_GetUser2FASecret_def Let_def split: option.split sum.split prod.split)
qed

lemma setup_confirmed:
  assumes "map_of (wb_pendingSetups s) t2 = Some ps" and "t2 \<noteq> []" and "rToken r = t2" and "unix_now env \<le> ps_ExpiresAt ps" and "ps_Forced ps"
    and "bytes_at s (ps_DEK ps) = Some dek" and "wh_TwoFA h = Some m" and "map_of (mg_methods m) (ps_Method ps) = Some TotpMethod"
    and "TrimSpace (form_value r ''code'') = code" and "code \<noteq> []" and "we_totp_validate env code (ps_Secret ps) (we_now env) = Inr True"
    and "crypto_lawful (we_lib env)" and "rng_sound (we_rng env)" and "\<forall>i n. we_rng env i n \<noteq> None" and "st_keyStore (wb_store s) = Some ks"
    and "fst (GetKey (we_lib env) (we_sys env) (ee_provider (kst_encryptor ks))) = Inr kek" and "length dek = keySize"
    and "web_ids_ok (web_db s)" and "Store_GetUser (ps_UserID ps) (web_db s) = Inr u" and "us_ID u = ps_UserID ps"
    and "unique_on tf_UserID (ct_user_2fa (db_core (web_db s)))"
  shows "\<exists>out s' db. setup2FAPost env h r s = Some (out, s') \<and> setCookie sessionCookieName (next_id (web_db s)) (sessionTTL div second) r \<in> set out \<and>
    web_ids_ok db \<and> next_id db = next_id (web_db s) \<and> web_db s' = opened env (us_ID u) db \<and> Store_GetUser (us_ID u) db = Inr u \<and>
    fst (Store_GetUser2FASecret (we_lib env) (we_sys env) (us_ID u) (Some dek) (wb_store s')) = Inr (ps_Secret ps)"
proof -
  let ?st = "wb_store s"
  have ff: "fault_free (st_db ?st)" using assms(18) by (simp add: web_ids_ok_def web_db_def)
  have hu: "has_user (st_db ?st) (us_ID u)"
    using assms(19) by (auto simp: has_user_def web_db_def Store_GetUser_def dest!: stmt_InrD query_row_SomeD)
  obtain t ks' where set2: "Store_SetUser2FA (we_lib env) (we_sys env) (we_rng env) (us_ID u) (ps_Method ps) (ps_Secret ps) (Some dek) ?st =
      (None, \<lparr>st_db = core_upd (\<lambda>c. c\<lparr>ct_user_2fa := t\<rparr>) (st_db ?st), st_keyStore = Some ks'\<rparr>)"
    using set_2fa_ok [OF assms(12-17) ff hu] by blast
  let ?db = "core_upd (\<lambda>c. c\<lparr>ct_user_2fa := t\<rparr>) (st_db ?st)"
  have db: "web_ids_ok ?db" "next_id ?db = next_id (web_db s)" "Store_GetUser (us_ID u) ?db = Inr u" "has_user ?db (us_ID u)"
    using assms(18-20) hu by (simp_all add: web_db_def)
  obtain a where dek: "ps_DEK ps = Some a" using assms(6) by (cases "ps_DEK ps") auto
  have verified: "method_Verify env TotpMethod (ps_Secret ps) code = None" using assms(10,11) by simp
  have enabled: "Enable env m (ps_UserID ps) (ps_Method ps) (ps_Secret ps) code (Some dek) ?st =
      (None, \<lparr>st_db = ?db, st_keyStore = Some ks'\<rparr>)"
    using assms(8,20) verified set2 by (simp add: Enable_def)
  let ?s0 = "s\<lparr>wb_store := \<lparr>st_db = ?db, st_keyStore = Some ks'\<rparr>, wb_pendingSetups := AList.delete t2 (wb_pendingSetups s)\<rparr>"
  have "setup2FAPost env h r s = (let (o1, s1) = end_pending env r u (ps_DEK ps) ?s0
      in Some (clearCookie setupCookieName r # o1 @ [OutRedirect ''/web/''], s1))"
    using assms(1-7,9) dek db(3) assms(20) enabled by (simp add: setup2FAPost_def)
  moreover obtain s' where "end_pending env r u (ps_DEK ps) ?s0 = ([clearCookie pendingCookieName r,
      setCookie sessionCookieName (next_id ?db) (sessionTTL div second) r], s')" "web_db s' = opened env (us_ID u) ?db"
      and kept: "st_db (wb_store s') = opened env (us_ID u) (st_db (wb_store ?s0))" "st_keyStore (wb_store s') = st_keyStore (wb_store ?s0)"
    using end_pending_ok [of ?s0 u env r "ps_DEK ps"] db by (auto simp: web_db_def)
  moreover have "fst (Store_GetUser2FASecret (we_lib env) (we_sys env) (us_ID u) (Some dek) (wb_store s')) = Inr (ps_Secret ps)"
    using twofa_roundtrip(1) [OF assms(12,13) ff set2, of "we_sys env"] assms(21) secret_opened [OF kept] by (auto simp: web_db_def)
  ultimately show ?thesis using db(1-3) by (intro exI [of _ s'] exI [of _ ?db] exI) (auto simp del: core_upd_2fa)
qed


section \<open>A run\<close>

definition sample_dek :: string where
  "sample_dek = replicate 32 (CHR ''d'')"

definition sample_web_env :: web_env where
  "sample_web_env = \<lparr>we_now = 100, we_bcrypt = ae_bcrypt sample_auth, we_lib = sample_lib, we_sys = sample_os, we_rng = sample_rng,
     we_json = \<lparr>jl_Unmarshal = (\<lambda>_. Inl ErrNoRows), jl_Marshal = (\<lambda>_. [])\<rparr>,
     we_totp_generate = (\<lambda>_. Inr (''FRESH'', ''otpauth'')), we_totp_validate = (\<lambda>code secret _. Inr (code = secret)),
     we_qrcode = (\<lambda>_. Inr []), we_execute = (\<lambda>_. None), we_escape = (\<lambda>s. s), we_error = (\<lambda>_. []), we_parse_address = Inr, we_rss = (\<lambda>_. Inr 0)\<rparr>"

definition sample_manager :: Manager where
  "sample_manager = \<lparr>mg_required = True, mg_order = [''totp''], mg_methods = [(''totp'', TotpMethod)]\<rparr>"

definition sample_handler :: WebHandler where
  "sample_handler = \<lparr>wh_TwoFA = Some sample_manager, wh_TwoFAMethods = [''totp''], wh_TwoFABypass = False, wh_InviteAllowExisting = False,
     wh_AuthMode = ''internal'', wh_InviteExpiry = 0, wh_PublicURL = [], wh_Mailer = None\<rparr>"

definition web_user :: User where
  "web_user = auth_user\<lparr>us_PasswordSalt := ''salt''\<rparr>"

definition plain_store :: Store where
  "plain_store = \<lparr>st_db = auth_db\<lparr>db_users := [web_user]\<rparr>, st_keyStore = Some (NewKeyStore (EnvVar (NewEnvVarProvider [] [])))\<rparr>"

definition web_of :: "Store \<Rightarrow> web" where
  "web_of st = \<lparr>wb_store = st, wb_heap = [sample_dek], wb_sessionDEKs = [], wb_pendingLogins =
     [(''p'', \<lparr>pl_UserID = ''ann'', pl_Method = ''totp'', pl_DEK = Some 0, pl_ExpiresAt = 300\<rparr>)], wb_pendingSetups = []\<rparr>"

definition web_req :: "(string, string) gomap \<Rightarrow> (string, string) gomap \<Rightarrow> web_request" where
  "web_req cookies form = \<lparr>wq_method = ''POST'', wq_host = ''bridge'', wq_cookies = cookies, wq_query = form, wq_form = Some form, wq_body = [],
     wq_user = None\<rparr>"

lemma sample_manager_ok: "NewManager (Some plain_store) [''totp''] True = Inr sample_manager"
  by (simp add: NewManager_def registeredMethods_def sample_manager_def)

lemma plain_store_ok: "web_ids_ok (st_db plain_store)" "Store_GetUser ''ann'' (st_db plain_store) = Inr web_user"
    "has_user (st_db plain_store) ''ann''" "Store_GetUserByEmail ''a@b'' (st_db plain_store) = Inr web_user" "us_ID web_user = ''ann''"
  by (auto simp: web_ids_ok_def plain_store_def auth_db_def empty_db_def empty_core_def fault_free_def inj_def Store_GetUser_def stmt_def
      query_row_def has_user_def web_user_def auth_user_def Store_GetUserByEmail_def)

lemma sample_env_crypto:
  "crypto_lawful (we_lib sample_web_env)" "rng_sound (we_rng sample_web_env)" "\<forall>i n. we_rng sample_web_env i n \<noteq> None"
  "fst (GetKey (we_lib sample_web_env) (we_sys sample_web_env) (ee_provider (kst_encryptor (NewKeyStore (EnvVar (NewEnvVarProvider [] [])))))) =
     Inr (map char_of [0, 17, 34, 51, 68, 85, 102, 119, 136, 153, 170, 187, 204, 221, 238, 255 :: nat])"
  using sample_lib_lawful sample_rng_sound sample_key by (simp_all add: sample_web_env_def)

text \<open>Ann with her second factor enrolled.\<close>

lemma enrolled:
  "\<exists>st ks. Store_SetUser2FA sample_lib sample_os sample_rng ''ann'' ''totp'' ''SECRET'' (Some sample_dek) plain_store = (None, st) \<and>
     st_keyStore st = Some ks \<and> web_ids_ok (st_db st) \<and> (\<exists>f. st_db st = core_upd f (st_db plain_store)) \<and>
     (\<exists>ks. Store_GetUser2FASecret sample_lib sample_os ''ann'' (Some sample_dek) st = (Inr ''SECRET'', st\<lparr>st_keyStore := Some ks\<rparr>))"
proof -
  have ff: "fault_free (st_db plain_store)" using plain_store_ok(1) by (simp add: web_ids_ok_def)
  have "st_keyStore plain_store = Some (NewKeyStore (EnvVar (NewEnvVarProvider [] [])))" by (simp add: plain_store_def)
  from set_2fa_ok [OF sample_lib_lawful sample_rng_sound this sample_key, of sample_dek] plain_store_ok(3) ff
  obtain st where set2: "Store_SetUser2FA sample_lib sample_os sample_rng ''ann'' ''totp'' ''SECRET'' (Some sample_dek) plain_store = (None, st)"
    by (fastforce simp: sample_dek_def keySize_def)
  have "unique_on tf_UserID (ct_user_2fa (db_core (st_db plain_store)))"
    by (simp add: plain_store_def auth_db_def empty_db_def empty_core_def unique_on_def)
  note rt = twofa_roundtrip [OF sample_lib_lawful sample_rng_sound(1) ff set2 this]
  from rt(2) plain_store_ok(1) have "(\<exists>ks. st_keyStore st = Some ks) \<and> web_ids_ok (st_db st) \<and> (\<exists>f. st_db st = core_upd f (st_db plain_store))"
    by auto
  with set2 rt(1) show ?thesis by blast
qed

theorem challenge_checks_code_witness:
  "\<exists>st out s' c. login2FAPost sample_web_env sample_handler (web_req [(pendingCookieName, ''p'')] [(''code'', ''SECRET'')]) (web_of st) = Some (out, s') \<and>
     OutCookie c \<in> set out \<and> ck_Name c = sessionCookieName \<and> map_of (wb_pendingLogins s') ''p'' = None \<and>
     (\<exists>sess \<in> set (ct_web_sessions (db_core (web_db s'))). ws_UserID sess = ''ann'')"
proof -
  let ?r = "web_req [(pendingCookieName, ''p'')] [(''code'', ''SECRET'')]"
  obtain st ks f where st: "web_ids_ok (st_db st)" "st_db st = core_upd f (st_db plain_store)"
      "Store_GetUser2FASecret sample_lib sample_os ''ann'' (Some sample_dek) st = (Inr ''SECRET'', st\<lparr>st_keyStore := Some ks\<rparr>)"
    using enrolled by blast
  let ?s = "(web_of st)\<lparr>wb_store := st\<lparr>st_keyStore := Some ks\<rparr>\<rparr>"
  have ann: "Store_GetUser ''ann'' (st_db st) = Inr web_user" "has_user (st_db st) (us_ID web_user)"
    using st(2) plain_store_ok by simp_all
  obtain s' where fin: "end_pending sample_web_env ?r web_user (Some 0) ?s = ([clearCookie pendingCookieName ?r,
      setCookie sessionCookieName (next_id (st_db st)) (sessionTTL div second) ?r], s')"
    using end_pending_ok [of ?s web_user sample_web_env ?r "Some 0"] st(1) ann(2) by auto
  have code: "form_value ?r ''code'' = ''SECRET''" "TrimSpace ''SECRET'' = ''SECRET''" "cookieValue ?r pendingCookieName = ''p''"
    by (simp_all add: form_value_def web_req_def param_def cookieValue_def) code_simp
  have now: "unix_now sample_web_env \<le> 300" by code_simp
  have p: "getPending sample_web_env ?r (web_of st) = (Some \<lparr>pl_UserID = ''ann'', pl_Method = ''totp'', pl_DEK = Some 0, pl_ExpiresAt = 300\<rparr>, web_of st)"
    using code(3) now by (simp add: getPending_def web_of_def Let_def)
  have "VerifyLogin sample_web_env sample_manager ''ann'' ''totp'' ''SECRET'' (Some sample_dek) st = (None, st\<lparr>st_keyStore := Some ks\<rparr>)"
    using st(3) by (simp add: VerifyLogin_def sample_manager_def sample_web_env_def)
  moreover have "bytes_at (web_of st) (Some 0) = Some sample_dek" "wb_store (web_of st) = st" by (simp_all add: bytes_at_def web_of_def)
  ultimately have run: "login2FAPost sample_web_env sample_handler ?r (web_of st) = Some ([clearCookie pendingCookieName ?r,
      setCookie sessionCookieName (next_id (st_db st)) (sessionTTL div second) ?r, OutRedirect ''/web/''], s')"
    using p code ann(1) fin by (simp add: login2FAPost_def sample_handler_def)
  have "map_of (wb_pendingLogins s') ''p'' = None \<and> (\<exists>sess \<in> set (ct_web_sessions (db_core (web_db s'))). ws_UserID sess = ''ann'')"
    using challenge_checks_code [OF run, of "\<lparr>ck_Name = sessionCookieName, ck_Value = next_id (st_db st), ck_Path = ''/web'', ck_HttpOnly = True,
        ck_SameSiteLax = True, ck_MaxAge = sessionTTL div second, ck_Secure = (\<not> isLocalhost ?r)\<rparr>"] code(3)
    by (auto simp: sample_handler_def setCookie_def web_of_def)
  then show ?thesis using run by (fastforce simp: setCookie_def)
qed

definition enrolled_web :: web where
  "enrolled_web = web_of (plain_store\<lparr>st_db := core_upd (\<lambda>c. c\<lparr>ct_user_2fa := [\<lparr>tf_UserID = ''ann'', tf_Method = ''totp'', tf_Secret = ''sealed'',
     tf_Enabled = True\<rparr>]\<rparr>) (st_db plain_store)\<rparr>)"

lemma enrolled_web_ok:
  "web_ids_ok (web_db enrolled_web)" "Store_GetUser ''ann'' (web_db enrolled_web) = Inr web_user"
  "Store_GetUserByEmail ''a@b'' (web_db enrolled_web) = Inr web_user" "HasMethod ''ann'' (web_db enrolled_web) = (True, ''totp'')"
  "st_keyStore (wb_store enrolled_web) = Some (NewKeyStore (EnvVar (NewEnvVarProvider [] [])))"
proof -
  have db: "web_db enrolled_web = core_upd (\<lambda>c. c\<lparr>ct_user_2fa := [\<lparr>tf_UserID = ''ann'', tf_Method = ''totp'', tf_Secret = ''sealed'',
     tf_Enabled = True\<rparr>]\<rparr>) (st_db plain_store)" by (simp add: enrolled_web_def web_of_def web_db_def)
  show "web_ids_ok (web_db enrolled_web)" "Store_GetUser ''ann'' (web_db enrolled_web) = Inr web_user"
    using plain_store_ok by (simp_all add: db)
  have ff: "fault_free (st_db plain_store)" using plain_store_ok(1) by (simp add: web_ids_ok_def)
  show "Store_GetUserByEmail ''a@b'' (web_db enrolled_web) = Inr web_user"
    using plain_store_ok(4) ff by (simp add: db Store_GetUserByEmail_def core_upd_def)
  show "HasMethod ''ann'' (web_db enrolled_web) = (True, ''totp'')"
    using ff by (simp add: db HasMethod_def Store_GetUser2FA_def get_2fa_def core_upd_def query_row_def)
  show "st_keyStore (wb_store enrolled_web) = Some (NewKeyStore (EnvVar (NewEnvVarProvider [] [])))"
    by (simp add: enrolled_web_def web_of_def plain_store_def)
qed


end
