(* ===== verification/WebAccount.thy ===== *)
theory WebAccount
  imports WebLogin
begin

text \<open>
  The pages of a signed-in user (src/web/user.go) and the invitations (src/web/invite.go). The user of a page is the one in the context; a
  page reached without one dereferences nil, \<open>None\<close>. \<open>defer crypto.Zeroize\<close> takes effect when the handler returns. The order of the
  required keys of a backend, which comes from a Go map, is the order in the text.
\<close>

section \<open>Dashboard\<close>

text \<open>\<open>%.<d>f\<close> of a quotient, rounding half to even; a memory size below \<open>2 ^ 53\<close> converts to a float exactly.\<close>

definition round_even :: "int \<Rightarrow> int \<Rightarrow> int" where
  "round_even a b =
     (let q = a div b; m = 2 * (a mod b) in if m < b \<or> m = b \<and> even q then q else q + 1)"

definition fixed_point :: "nat \<Rightarrow> int \<Rightarrow> int \<Rightarrow> string" where
  "fixed_point d a b =
     (let k = round_even (a * 10 ^ d) b; frac = itoa (k mod 10 ^ d)
      in itoa (k div 10 ^ d) @ (if d = 0 then [] else ''.'' @ replicate (d - length frac) (CHR ''0'') @ frac))"

definition formatBytes :: "int \<Rightarrow> string" where
  "formatBytes bytes =
     (if bytes = 0 then ''0 B''
      else if bytes > 2 ^ 30 then fixed_point 1 bytes (2 ^ 30) @ '' GB''
      else fixed_point 0 bytes (2 ^ 20) @ '' MB'')"

definition backend_status :: "UserToken list \<Rightarrow> PoolStatus list \<Rightarrow> Backend \<Rightarrow> content option" where
  "backend_status tokens userPools b =
     (let keys = map ut_EnvKey (filter (\<lambda>t. ut_BackendID t = be_ID b) tokens)
      in if \<not> be_Enabled b \<or> \<not> be_NoKeysRequired b \<and> keys = [] then None
         else Some (CMap [(''Backend'', CBackend b), (''ConfiguredKeys'', CList (map CStr keys)),
           (''Pool'', case List.find (\<lambda>p. pst_BackendID p = be_ID b) userPools of None \<Rightarrow> CNil | Some p \<Rightarrow> CPool p)]))"

definition web_backends :: "web_env \<Rightarrow> web \<Rightarrow> (goerr + Backend list) \<times> web" where
  "web_backends env s =
     (let (res, st) = Store_ListBackends (we_lib env) (we_sys env) (wb_store s) in (res, s\<lparr>wb_store := st\<rparr>))"

definition or_none :: "goerr + 'a list \<Rightarrow> 'a list" where
  "or_none res = (case res of Inl _ \<Rightarrow> [] | Inr xs \<Rightarrow> xs)"

definition DashboardHandler :: "web_env \<Rightarrow> PoolManager option \<Rightarrow> web_request \<Rightarrow> web \<Rightarrow> (web_output list \<times> web) option" where
  "DashboardHandler env pm r s =
     (case wq_user r of
        None \<Rightarrow> None
      | Some user \<Rightarrow>
          (let (backends, s) = web_backends env s;
               tokens = or_none (Store_GetAllUserTokens (us_ID user) (web_db s))
           in case (case pm of None \<Rightarrow> Some [] | Some pm \<Rightarrow> GetPoolsForUser (we_rss env) (us_ID user) pm) of
                None \<Rightarrow> None
              | Some userPools \<Rightarrow>
                  (let statuses = List.map_filter (backend_status tokens userPools) (or_none backends)
                   in Some (render env ''dashboard.html'' ((page ''Dashboard'')\<lparr>pd_User := Some user, pd_Data := CList statuses,
                        pd_Extra := [(''TotalPools'', CInt (int (length userPools))),
                          (''TotalWarm'', CInt (wrap64 (sum_list (map pst_WarmCount userPools)))),
                          (''TotalActive'', CInt (wrap64 (sum_list (map (\<lambda>p. pst_CurrentSize p - pst_WarmCount p) userPools)))),
                          (''TotalMemory'', CStr (formatBytes (sum_list (map pst_MemoryBytes userPools) mod 2 ^ 64))),
                          (''TokenCount'', CInt (int (length tokens))), (''BackendCount'', CInt (int (length statuses)))]\<rparr>), s))))"

section \<open>Tokens\<close>

definition required_keys :: "web_env \<Rightarrow> Backend option \<Rightarrow> string list" where
  "required_keys env backend =
     (case backend of
        None \<Rightarrow> []
      | Some b \<Rightarrow>
          if be_EnvMappings b = [] \<or> be_EnvMappings b = ''{}'' then []
          else case jl_Unmarshal (we_json env) (be_EnvMappings b) of
                 Inr (JObj kvs) \<Rightarrow> (case string_values kvs of Some m \<Rightarrow> remdups (map fst m) | None \<Rightarrow> [])
               | _ \<Rightarrow> [])"

fun decrypt_for_view :: "web_env \<Rightarrow> string \<Rightarrow> string option \<Rightarrow> UserToken list \<Rightarrow> Store \<Rightarrow> UserToken list \<times> Store" where
  "decrypt_for_view env userID dek [] st = ([], st)"
| "decrypt_for_view env userID dek (t # ts) st =
     (let (t, st) = (if ut_EncryptedDEK t \<noteq> []
                     then case Store_GetUserTokenDecryptedWithUserDEK (we_lib env) (we_sys env) userID (ut_BackendID t) (ut_EnvKey t) dek st of
                            (Inr val, st) \<Rightarrow> (t\<lparr>ut_Value := val\<rparr>, st)
                          | (Inl _, st) \<Rightarrow> (t, st)
                     else (t, st));
          (ts, st) = decrypt_for_view env userID dek ts st
      in (t # ts, st))"

definition TokensHandler :: "web_env \<Rightarrow> web_request \<Rightarrow> web \<Rightarrow> (web_output list \<times> web) option" where
  "TokensHandler env r s =
     (case wq_user r of
        None \<Rightarrow> None
      | Some user \<Rightarrow>
          (let (res, s) = web_backends env s; backends = or_none res;
               q = query_value r ''backend'';
               backendID = (if q \<noteq> [] then q else case List.find be_Enabled backends of Some b \<Rightarrow> be_ID b | None \<Rightarrow> []);
               backend = List.find (\<lambda>b. be_ID b = backendID) backends;
               tokens = (if backendID \<noteq> [] then or_none (Store_GetUserTokens (us_ID user) backendID (web_db s)) else []);
               userDEK = getSessionDEK r s;
               (tokens, st) = (if userDEK \<noteq> None then decrypt_for_view env (us_ID user) (bytes_at s userDEK) tokens (wb_store s) else (tokens, wb_store s));
               out = render env ''tokens.html'' \<lparr>pd_User = Some user, pd_Title = ''My Tokens'', pd_Error = query_value r ''error'',
                  pd_Success = query_value r ''success'', pd_Warning = query_value r ''warning'',
                  pd_Data = CMap [(''Backends'', CList (map CBackend backends)), (''SelectedID'', CStr backendID),
                    (''SelectedBackend'', case backend of None \<Rightarrow> CNil | Some b \<Rightarrow> CBackend b), (''Tokens'', CList (map CToken tokens)),
                    (''RequiredKeys'', CList (map CStr (required_keys env backend)))], pd_Extra = []\<rparr>
           in Some (out, Zeroize userDEK (s\<lparr>wb_store := st\<rparr>))))"

definition TokensSaveHandler :: "web_env \<Rightarrow> web_request \<Rightarrow> web \<Rightarrow> (web_output list \<times> web) option" where
  "TokensSaveHandler env r s =
     (if wq_method r \<noteq> ''POST'' then Some (web_not_allowed, s)
      else
        let backendID = form_value r ''backend_id''; envKey = TrimSpace (form_value r ''env_key''); val = form_value r ''value'';
            back = (\<lambda>msg. [OutRedirect (''/web/tokens?backend='' @ backendID @ msg)])
        in if backendID = [] \<or> envKey = [] \<or> val = [] then Some (back ''&error=All+fields+required'', s)
           else case getSessionDEK r s of
                  None \<Rightarrow> Some ([OutError (''Session expired '' @ [CHR 0xE2, CHR 0x80, CHR 0x94] @ '' re-login to save tokens'') 401], s)
                | Some a \<Rightarrow>
                    (case wq_user r of
                       None \<Rightarrow> None
                     | Some user \<Rightarrow>
                         (case Store_SetUserTokenWithUserDEK (we_lib env) (we_sys env) (we_rng env) (us_ID user) backendID envKey val
                                 (bytes_at s (Some a)) (wb_store s) of
                            (Some _, st) \<Rightarrow> Some (back ''&error=Failed+to+save+token'', s\<lparr>wb_store := st\<rparr>)
                          | (None, st) \<Rightarrow> Some (back ''&success=Token+saved'', Zeroize (Some a) (s\<lparr>wb_store := st\<rparr>)))))"

definition TokensDeleteHandler :: "web_env \<Rightarrow> web_request \<Rightarrow> web \<Rightarrow> (web_output list \<times> web) option" where
  "TokensDeleteHandler env r s =
     (if wq_method r \<noteq> ''POST'' then Some (web_not_allowed, s)
      else case wq_user r of
             None \<Rightarrow> None
           | Some user \<Rightarrow>
               (let backendID = form_value r ''backend_id''
                in Some ([OutRedirect (''/web/tokens?backend='' @ backendID @ ''&success=Token+deleted'')],
                     web_try (Store_DeleteUserToken (us_ID user) backendID (form_value r ''env_key'')) s)))"

section \<open>Passwords\<close>

text \<open>The plain text of a token: the two keys first, then the master key, then the column in clear.\<close>

definition recover_token :: "web_env \<Rightarrow> string \<Rightarrow> string option \<Rightarrow> UserToken \<Rightarrow> Store \<Rightarrow> string \<times> Store" where
  "recover_token env userID dek t st =
     (let (plaintext, st) =
            (if ut_EncryptedDEK t \<noteq> [] \<and> ut_EncryptionType t = ''user''
             then case Store_GetUserTokenDecryptedWithUserDEK (we_lib env) (we_sys env) userID (ut_BackendID t) (ut_EnvKey t) dek st of
                    (Inr val, st) \<Rightarrow> (val, st) | (Inl _, st) \<Rightarrow> ([], st)
             else ([], st));
          (plaintext, st) =
            (if plaintext = [] \<and> ut_Encrypted t \<noteq> []
             then case Store_GetUserTokenDecrypted (we_lib env) (we_sys env) userID (ut_BackendID t) (ut_EnvKey t) st of
                    (Inr val, st) \<Rightarrow> (val, st) | (Inl _, st) \<Rightarrow> ([], st)
             else (plaintext, st))
      in (if plaintext = [] then ut_Value t else plaintext, st))"

fun rewrap_tokens :: "web_env \<Rightarrow> rng \<Rightarrow> string \<Rightarrow> string option \<Rightarrow> string option \<Rightarrow> UserToken list \<Rightarrow> Store \<Rightarrow> Store" where
  "rewrap_tokens env rng userID old new [] st = st"
| "rewrap_tokens env rng userID old new (t # ts) st =
     (let (plaintext, st) = recover_token env userID old t st;
          st = (if plaintext \<noteq> []
                then snd (Store_SetUserTokenWithUserDEK (we_lib env) (we_sys env) rng userID (ut_BackendID t) (ut_EnvKey t) plaintext new st)
                else st)
      in rewrap_tokens env (skip_rng 4 rng) userID old new ts st)"

definition rewrap_2fa :: "web_env \<Rightarrow> rng \<Rightarrow> string \<Rightarrow> string option \<Rightarrow> string option \<Rightarrow> Store \<Rightarrow> Store" where
  "rewrap_2fa env rng userID old new st =
     (case Store_GetUser2FA userID (st_db st) of
        Inl _ \<Rightarrow> st
      | Inr (mt, has2FA) \<Rightarrow>
          if \<not> has2FA then st
          else case Store_GetUser2FASecret (we_lib env) (we_sys env) userID old st of
                 (Inl _, st) \<Rightarrow> st
               | (Inr secret, st) \<Rightarrow> snd (Store_SetUser2FA (we_lib env) (we_sys env) rng userID mt secret new st))"

definition password_page :: "web_env \<Rightarrow> User \<Rightarrow> string \<Rightarrow> string \<Rightarrow> web_output list" where
  "password_page env user err ok = render env ''password.html''
     ((page ''Change Password'')\<lparr>pd_User := Some user, pd_Error := err, pd_Success := ok\<rparr>)"

text \<open>The part of the change after the checks: the new key is allocated, everything is wrapped again, and the session refers to the new
  key. Both slices are zeroed when the handler returns, the new one in any case.\<close>

definition change_password :: "web_env \<Rightarrow> web_request \<Rightarrow> User \<Rightarrow> string \<Rightarrow> nat \<Rightarrow> string \<Rightarrow> string \<Rightarrow> web \<Rightarrow> web_output list \<times> web" where
  "change_password env r user newPw a newSalt newDEK s =
     (let old = bytes_at s (Some a);
          (n, s) = alloc newDEK s;
          tokens = Store_GetAllUserTokens (us_ID user) (web_db s);
          st = (case tokens of Inl _ \<Rightarrow> wb_store s
                | Inr ts \<Rightarrow> rewrap_tokens env (skip_rng 1 (we_rng env)) (us_ID user) old (Some newDEK) ts (wb_store s));
          st = rewrap_2fa env (skip_rng (1 + 4 * length (or_none tokens)) (we_rng env)) (us_ID user) old (Some newDEK) st;
          s = s\<lparr>wb_store := st\<rparr>;
          s = (case map_of (wq_cookies r) sessionCookieName of
                 None \<Rightarrow> s
               | Some t \<Rightarrow> (Zeroize (map_of (wb_sessionDEKs s) t) s)\<lparr>wb_sessionDEKs := AList.update t n (wb_sessionDEKs s)\<rparr>);
          user' = user\<lparr>us_Password := newPw, us_PasswordSalt := newSalt\<rparr>;
          shown = (case hashed_password (we_bcrypt env) newPw of Inl _ \<Rightarrow> user' | Inr hash \<Rightarrow> user'\<lparr>us_Password := hash\<rparr>)
      in case Store_UpdateUser (we_bcrypt env) user' (web_db s) of
           Inl _ \<Rightarrow> (password_page env shown ''Failed to update password'' [], Zeroize (Some n) s)
         | Inr db \<Rightarrow>
             (password_page env shown [] ''Password updated and tokens re-encrypted'', Zeroize (Some n) (Zeroize (Some a) (set_db db s))))"

definition PasswordHandler :: "web_env \<Rightarrow> web_request \<Rightarrow> web \<Rightarrow> (web_output list \<times> web) option" where
  "PasswordHandler env r s =
     (case wq_user r of
        None \<Rightarrow> (if wq_method r = ''GET'' then Some (render env ''password.html'' (page ''Change Password''), s)
                 else if wq_method r = ''POST'' then None else Some (web_not_allowed, s))
      | Some user \<Rightarrow>
          let newPw = form_value r ''new_password''
          in if wq_method r = ''GET'' then Some (password_page env user [] [], s)
             else if wq_method r \<noteq> ''POST'' then Some (web_not_allowed, s)
             else if CheckPassword (we_bcrypt env) (us_Password user) (form_value r ''current_password'') \<noteq> None
             then Some (password_page env user ''Current password is incorrect'' [], s)
             else if newPw = [] then Some (password_page env user ''New password cannot be empty'' [], s)
             else if newPw \<noteq> form_value r ''confirm_password'' then Some (password_page env user ''New passwords do not match'' [], s)
             else case getSessionDEK r s of
                    None \<Rightarrow> Some (password_page env user ''Session expired, please log in again'' [], s)
                  | Some a \<Rightarrow>
                      (case GenerateSalt (we_lib env) (we_rng env) of
                         Inl _ \<Rightarrow> Some (password_page env user ''Failed to generate new encryption key'' [], s)
                       | Inr newSalt \<Rightarrow>
                           (case DeriveUserDEK (we_lib env) newPw newSalt of
                              Inl _ \<Rightarrow> Some (password_page env user ''Failed to derive new encryption key'' [], s)
                            | Inr newDEK \<Rightarrow> Some (change_password env r user newPw a newSalt newDEK s))))"

section \<open>Keys of the API\<close>

definition APIKeysHandler :: "web_env \<Rightarrow> web_request \<Rightarrow> web \<Rightarrow> (web_output list \<times> web) option" where
  "APIKeysHandler env r s =
     (case wq_user r of
        None \<Rightarrow> None
      | Some user \<Rightarrow> Some (render env ''apikeys.html'' ((page ''API Keys'')\<lparr>pd_User := Some user, pd_Error := query_value r ''error'',
            pd_Success := query_value r ''success'', pd_Data := CList (map CAPIKey (or_none (Store_ListAPIKeys (us_ID user) (web_db s))))\<rparr>), s))"

definition APIKeysCreateHandler :: "web_env \<Rightarrow> web_request \<Rightarrow> web \<Rightarrow> (web_output list \<times> web) option" where
  "APIKeysCreateHandler env r s =
     (if wq_method r \<noteq> ''POST'' then Some (web_not_allowed, s)
      else
        let n = form_value r ''name''; name = (if n = [] then ''API Key'' else n)
        in case GenerateAPIKey (we_bcrypt env) (we_rng env) of
             Inl _ \<Rightarrow> Some ([OutRedirect ''/web/apikeys?error=Failed+to+generate+key''], s)
           | Inr (key, hash) \<Rightarrow>
               (case wq_user r of
                  None \<Rightarrow> None
                | Some user \<Rightarrow>
                    (case Store_CreateAPIKey (we_now env) \<lparr>ak_ID = [], ak_UserID = us_ID user, ak_Name = name, ak_KeyHash = hash,
                            ak_ExpiresAt = None, ak_LastUsedAt = None, ak_CreatedAt = 0\<rparr> (web_db s) of
                       (Inl _, db) \<Rightarrow> Some ([OutRedirect ''/web/apikeys?error=Failed+to+save+key''], set_db db s)
                     | (Inr _, db) \<Rightarrow> Some (render env ''apikeys.html'' ((page ''API Keys'')\<lparr>pd_User := Some user,
                            pd_Extra := [(''GeneratedKey'', CStr key)]\<rparr>), set_db db s))))"

definition APIKeysDeleteHandler :: "web_env \<Rightarrow> web_request \<Rightarrow> web \<Rightarrow> (web_output list \<times> web) option" where
  "APIKeysDeleteHandler env r s =
     (let i = form_value r ''id''
      in if wq_method r \<noteq> ''POST'' then Some (web_not_allowed, s)
         else if i = [] then Some ([OutRedirect ''/web/apikeys?error=Missing+key+ID''], s)
         else case (Store_GetAPIKeyByID i (web_db s), wq_user r) of
                (Inl _, _) \<Rightarrow> Some ([OutRedirect ''/web/apikeys?error=Key+not+found''], s)
              | (Inr _, None) \<Rightarrow> None
              | (Inr key, Some user) \<Rightarrow>
                  if ak_UserID key \<noteq> us_ID user then Some ([OutRedirect ''/web/apikeys?error=Key+not+found''], s)
                  else (case Store_DeleteAPIKey i (web_db s) of
                          Inl _ \<Rightarrow> Some ([OutRedirect ''/web/apikeys?error=Failed+to+delete+key''], s)
                        | Inr db \<Rightarrow> Some ([OutRedirect ''/web/apikeys?success=Key+deleted''], set_db db s)))"

section \<open>Invitations\<close>

definition invitationsEnabled :: "WebHandler \<Rightarrow> bool" where
  "invitationsEnabled h \<longleftrightarrow> \<not> EqualFold (wh_AuthMode h) ''sso''"

definition inviteExpiry :: "WebHandler \<Rightarrow> duration" where
  "inviteExpiry h = (if wh_InviteExpiry h \<le> 0 then 7 * 24 * hour else wh_InviteExpiry h)"

definition not_found :: "web_output list" where
  "not_found = [OutError ''404 page not found'' 404]"

definition AdminInvitesHandler :: "web_env \<Rightarrow> WebHandler \<Rightarrow> web_request \<Rightarrow> web \<Rightarrow> (web_output list \<times> web) option" where
  "AdminInvitesHandler env h r s =
     (if \<not> invitationsEnabled h then Some (not_found, s)
      else case Store_ListInvites (web_db s) of
             Inl _ \<Rightarrow> Some (web_failed, s)
           | Inr invites \<Rightarrow> Some (render env ''admin_invites.html'' ((page ''Invitations'')\<lparr>pd_User := wq_user r, pd_Data := CList (map CInvite invites),
                pd_Error := query_value r ''error'', pd_Success := query_value r ''success'',
                pd_Extra := [(''InviteExpiryDays'', CInt (wh_InviteExpiry h sdiv (24 * hour)))]\<rparr>), s))"

definition emailNotPending :: "string \<Rightarrow> db \<Rightarrow> bool" where
  "emailNotPending email db =
     (case Store_ListInvites db of
        Inl _ \<Rightarrow> True
      | Inr invites \<Rightarrow> \<not> list_ex (\<lambda>i. iv_Email i = email \<and> iv_Status i = InvitePending) invites)"

datatype invite_result = InviteSent | InviteSkipped | InviteFailed

text \<open>One recipient; \<open>k\<close> is its position. A failure is only logged, and an invitation whose mail was not sent stays.\<close>

definition invite_one ::
    "web_env \<Rightarrow> WebHandler \<Rightarrow> (string list \<Rightarrow> string \<Rightarrow> string \<Rightarrow> goerr option) \<Rightarrow> string \<Rightarrow> string \<Rightarrow> User \<Rightarrow> nat \<Rightarrow> string \<Rightarrow> db \<Rightarrow> invite_result \<times> db" where
  "invite_one env h send name role inviter k email db =
     (if \<not> wh_InviteAllowExisting h \<and> (case Store_GetUserByEmail email db of Inl _ \<Rightarrow> False | Inr _ \<Rightarrow> True) then (InviteSkipped, db)
      else if \<not> emailNotPending email db then (InviteSkipped, db)
      else case GenerateInviteToken (we_lib env) (skip_rng k (we_rng env)) of
             Inl _ \<Rightarrow> (InviteFailed, db)
           | Inr (rawToken, tokenHash) \<Rightarrow>
               (case Store_CreateInvite (we_now env) \<lparr>iv_ID = [], iv_Email = email, iv_Name = name, iv_Role = role, iv_TokenHash = tokenHash,
                       iv_Status = [], iv_InvitedBy = us_ID inviter, iv_TokenExpiresAt = we_now env + inviteExpiry h, iv_AcceptedAt = 0,
                       iv_AcceptedUserID = [], iv_CreatedAt = 0\<rparr> db of
                  (Inl _, db) \<Rightarrow> (InviteFailed, db)
                | (Inr _, db) \<Rightarrow>
                    (case BuildInviteEmail (we_parse_address env) email name
                            (TrimRight (wh_PublicURL h) ''/'' @ ''/web/invite?token='' @ rawToken) (inviteExpiry h) of
                       Inl _ \<Rightarrow> (InviteFailed, db)
                     | Inr body \<Rightarrow> (if send [email] ''Invitation to mcp-bridge'' body \<noteq> None then InviteFailed else InviteSent, db))))"

fun invite_all ::
    "web_env \<Rightarrow> WebHandler \<Rightarrow> (string list \<Rightarrow> string \<Rightarrow> string \<Rightarrow> goerr option) \<Rightarrow> string \<Rightarrow> string \<Rightarrow> User \<Rightarrow> nat \<Rightarrow> string list \<Rightarrow> db \<Rightarrow>
       (string list \<times> string list) \<times> db" where
  "invite_all env h send name role inviter k [] db = (([], []), db)"
| "invite_all env h send name role inviter k (email # es) db =
     (let email = ToLower email;
          (res, db) = invite_one env h send name role inviter k email db;
          ((sent, skipped), db) = invite_all env h send name role inviter (Suc k) es db
      in ((if res = InviteSent then email # sent else sent, if res = InviteSkipped then email # skipped else skipped), db))"

definition AdminInvitesCreateHandler :: "web_env \<Rightarrow> WebHandler \<Rightarrow> web_request \<Rightarrow> web \<Rightarrow> (web_output list \<times> web) option" where
  "AdminInvitesCreateHandler env h r s =
     (if \<not> invitationsEnabled h then Some (not_found, s)
      else if wq_method r \<noteq> ''POST'' then Some (web_not_allowed, s)
      else case wh_Mailer h of
             None \<Rightarrow> Some ([OutRedirect ''/web/admin/invites?error=Email+sending+is+not+configured''], s)
           | Some send \<Rightarrow>
               (let name = TrimSpace (form_value r ''name''); ro = TrimSpace (form_value r ''role''); role = (if ro = [] then ''user'' else ro)
                in case ParseRecipients (we_parse_address env) (form_value r ''emails'') of
                     Inl err \<Rightarrow> Some ([OutRedirect (''/web/admin/invites?error='' @ we_escape env (we_error env err))], s)
                   | Inr recipients \<Rightarrow>
                       (case wq_user r of
                          None \<Rightarrow> None
                        | Some inviter \<Rightarrow>
                            (let ((sent, skipped), db) = invite_all env h send name role inviter 0 recipients (web_db s)
                             in Some ([OutRedirect (if sent = [] then ''/web/admin/invites?error=No+invitations+were+sent''
                                  else ''/web/admin/invites?success='' @ we_escape env (''Invitations sent: '' @ join_with '', '' sent @
                                    (if skipped \<noteq> [] then '' (skipped: '' @ join_with '', '' skipped @ '')'' else [])))], set_db db s)))))"

definition AdminInvitesRevokeHandler :: "WebHandler \<Rightarrow> web_request \<Rightarrow> web \<Rightarrow> (web_output list \<times> web) option" where
  "AdminInvitesRevokeHandler h r s =
     (let inviteID = form_value r ''invite_id''
      in if \<not> invitationsEnabled h then Some (not_found, s)
         else if wq_method r \<noteq> ''POST'' then Some (web_not_allowed, s)
         else if inviteID = [] then Some ([OutRedirect ''/web/admin/invites?error=Missing+invite''], s)
         else case Store_RevokeInvite inviteID (web_db s) of
                Inl _ \<Rightarrow> Some ([OutRedirect ''/web/admin/invites?error=Failed+to+revoke+invite''], s)
              | Inr db \<Rightarrow> Some ([OutRedirect ''/web/admin/invites?success=Invitation+revoked''], set_db db s))"

section \<open>Signing up\<close>

definition lookupValidInvite :: "web_env \<Rightarrow> web_request \<Rightarrow> db \<Rightarrow> Invite option" where
  "lookupValidInvite env r db =
     (let token = query_value r ''token''
      in if token = [] then None
         else case Store_GetInviteByTokenHash (HashInviteToken (we_lib env) token) db of
                Inl _ \<Rightarrow> None
              | Inr invt \<Rightarrow> if iv_Status invt \<noteq> InvitePending \<or> Invite_Expired (we_now env) invt then None else Some invt)"

definition autoLogin :: "web_env \<Rightarrow> WebHandler \<Rightarrow> web_request \<Rightarrow> User \<Rightarrow> string \<Rightarrow> web \<Rightarrow> web_output list \<times> web" where
  "autoLogin env h r u password s =
     (let (userDEK, s) = derive_dek env password u s;
          pending = (\<lambda>mt url. let (out, s) = startPendingLogin env (skip_rng 1 (we_rng env)) r u userDEK mt s in (out @ [OutRedirect url], s))
      in case wh_TwoFA h of
           None \<Rightarrow> completeLogin env r u userDEK s
         | Some m \<Rightarrow>
             (case HasMethod (us_ID u) (web_db s) of
                (True, mt) \<Rightarrow> pending mt ''/web/login/2fa''
              | (False, _) \<Rightarrow> if Required m then pending [] ''/web/setup-2fa'' else completeLogin env r u userDEK s))"

definition dead_link :: "web_env \<Rightarrow> web_output list" where
  "dead_link env = render env ''invite.html'' ((page ''Invitation'')\<lparr>pd_Error := ''This invitation link is invalid, expired, or already used.''\<rparr>)"

definition signup_page :: "web_env \<Rightarrow> string \<Rightarrow> string \<Rightarrow> string \<Rightarrow> string \<Rightarrow> web_output list" where
  "signup_page env err token email name = render env ''invite.html'' ((page ''Set up your account'')\<lparr>pd_Error := err,
     pd_Extra := [(''Token'', CStr token), (''Email'', CStr email), (''Name'', CStr name)]\<rparr>)"

definition inviteSignupGet :: "web_env \<Rightarrow> web_request \<Rightarrow> web \<Rightarrow> web_output list \<times> web" where
  "inviteSignupGet env r s =
     (case lookupValidInvite env r (web_db s) of
        None \<Rightarrow> (dead_link env, s)
      | Some invt \<Rightarrow> (signup_page env [] (query_value r ''token'') (iv_Email invt) (iv_Name invt), s))"

definition inviteSignupPost :: "web_env \<Rightarrow> WebHandler \<Rightarrow> web_request \<Rightarrow> web \<Rightarrow> web_output list \<times> web" where
  "inviteSignupPost env h r s =
     (case lookupValidInvite env r (web_db s) of
        None \<Rightarrow> (dead_link env, s)
      | Some invt \<Rightarrow>
          let email = ToLower (TrimSpace (form_value r ''email'')); name = TrimSpace (form_value r ''name''); password = form_value r ''password'';
              again = (\<lambda>err. signup_page env err (query_value r ''token'') email name);
              signed = (\<lambda>u password s. let (out, s) = autoLogin env h r u password s in (out @ [OutRedirect ''/web/''], s))
          in if email = [] \<or> password = [] then (again ''Email and password are required.'', s)
             else if password \<noteq> form_value r ''password_confirm'' then (again ''Passwords do not match.'', s)
             else if email \<noteq> iv_Email invt then (again ''The email does not match the invited address.'', s)
             else case Store_GetUserByEmail email (web_db s) of
                    Inr existing \<Rightarrow>
                      if \<not> wh_InviteAllowExisting h then (again ''An account with this email already exists.'', s)
                      else signed existing [] (web_try (Store_MarkInviteAccepted (we_now env) (iv_ID invt) (us_ID existing)) s)
                  | Inl _ \<Rightarrow>
                      (case Store_CreateUser (we_now env) (we_bcrypt env) (we_lib env) (we_rng env)
                              \<lparr>us_ID = [], us_Name = name, us_Email = email, us_Password = password, us_PasswordSalt = [], us_Role = iv_Role invt,
                               us_CreatedAt = 0\<rparr> (web_db s) of
                         (Inl _, db) \<Rightarrow> (again ''Failed to create account. Please try again.'', set_db db s)
                       | (Inr u, db) \<Rightarrow>
                           signed u password (web_try (Store_MarkInviteAccepted (we_now env) (iv_ID invt) (us_ID u)) (set_db db s))))"

definition InviteSignupHandler :: "web_env \<Rightarrow> WebHandler \<Rightarrow> web_request \<Rightarrow> web \<Rightarrow> (web_output list \<times> web) option" where
  "InviteSignupHandler env h r s =
     Some (if \<not> invitationsEnabled h then (not_found, s)
           else if wq_method r = ''GET'' then inviteSignupGet env r s
           else if wq_method r = ''POST'' then inviteSignupPost env h r s
           else (web_not_allowed, s))"

section \<open>What becomes of the key of a session\<close>

definition zeros :: "nat \<Rightarrow> string" where
  "zeros n = replicate n (CHR 0x00)"

lemma zeroized: "bytes_at s (Some a) = Some dek \<Longrightarrow> bytes_at (Zeroize (Some a) s) (Some a) = Some (zeros (length dek))"
  by (auto simp: bytes_at_def Zeroize_def zeros_def split: if_splits)

lemma zeroize_length: "bytes_at s (Some n) = Some b \<Longrightarrow> \<exists>c. bytes_at (Zeroize p s) (Some n) = Some c \<and> length c = length b"
  by (auto simp: bytes_at_def Zeroize_def nth_list_update split: option.splits if_splits)

lemma Zeroize_frame [simp]:
  "wb_store (Zeroize p s) = wb_store s" "wb_sessionDEKs (Zeroize p s) = wb_sessionDEKs s" "web_db (Zeroize p s) = web_db s"
  by (simp_all add: Zeroize_def web_db_def split: option.splits)

lemma getSessionDEK_cong: "wb_sessionDEKs s = wb_sessionDEKs s' \<Longrightarrow> wq_cookies r = wq_cookies r' \<Longrightarrow> getSessionDEK r s = getSessionDEK r' s'"
  by (simp add: getSessionDEK_def split: option.splits)

lemma web_backends_frame:
  "web_backends env s = (res, s1) \<Longrightarrow> wb_heap s1 = wb_heap s \<and> wb_sessionDEKs s1 = wb_sessionDEKs s"
  by (auto simp: web_backends_def split: prod.splits)

lemma viewed_key:
  assumes "TokensHandler env r s = Some (out, s1)" and "getSessionDEK r s = Some a" and "bytes_at s (Some a) = Some dek"
  shows "bytes_at s1 (Some a) = Some (zeros (length dek))" and "wb_sessionDEKs s1 = wb_sessionDEKs s"
proof -
  obtain res s0 where l: "web_backends env s = (res, s0)" by (cases "web_backends env s")
  note fr = web_backends_frame [OF l]
  have d: "getSessionDEK r s0 = Some a" "bytes_at s0 = bytes_at s"
    using fr assms(2) getSessionDEK_cong [of s0 s r r] bytes_at_cong [of s0 s] by simp_all
  obtain user where "wq_user r = Some user" using assms(1) by (cases "wq_user r") (auto simp: TokensHandler_def)
  with assms(1) l d(1) have "\<exists>st. s1 = Zeroize (Some a) (s0\<lparr>wb_store := st\<rparr>)"
    by (simp add: TokensHandler_def Let_def split_beta) blast
  then obtain st where "s1 = Zeroize (Some a) (s0\<lparr>wb_store := st\<rparr>)" ..
  then show "bytes_at s1 (Some a) = Some (zeros (length dek))" and "wb_sessionDEKs s1 = wb_sessionDEKs s"
    using zeroized [of "s0\<lparr>wb_store := st\<rparr>" a dek] d(2) assms(3) fr by simp_all
qed

text \<open>C37: Looking at one's tokens destroys the key that protects them. The page zeroes the slice it read the key from, and that slice is
  the one the session keeps; a token saved later in the session is stored under a key of zero bytes, and whoever has the
  store reads it with that key, without the user's password.\<close>

theorem token_saved_under_zero_key:
  assumes "TokensHandler env r s = Some (out, s1)" and "getSessionDEK r s = Some a" and "bytes_at s (Some a) = Some dek"
    and "wq_cookies r' = wq_cookies r" and "wq_user r' = Some user"
    and "TokensSaveHandler env' r' s1 = Some ([OutRedirect (''/web/tokens?backend='' @ form_value r' ''backend_id'' @ ''&success=Token+saved'')], s2)"
    and "crypto_lawful (we_lib env')" and "rng_sound (we_rng env')" and "fault_free (web_db s1)"
  shows "fst (Store_GetUserTokenDecryptedWithUserDEK (we_lib env') sys (us_ID user) (form_value r' ''backend_id'')
    (TrimSpace (form_value r' ''env_key'')) (Some (zeros (length dek))) (wb_store s2)) = Inr (form_value r' ''value'')"
proof -
  note v = viewed_key [OF assms(1-3)]
  have "getSessionDEK r' s1 = Some a" using getSessionDEK_cong [OF v(2) assms(4)] assms(2) by simp
  then obtain st where set: "Store_SetUserTokenWithUserDEK (we_lib env') (we_sys env') (we_rng env') (us_ID user) (form_value r' ''backend_id'')
      (TrimSpace (form_value r' ''env_key'')) (form_value r' ''value'') (Some (zeros (length dek))) (wb_store s1) = (None, st)" and s2: "wb_store s2 = st"
    using assms(5,6) v(1) by (auto simp: TokensSaveHandler_def web_not_allowed_def Let_def split: if_splits prod.splits option.splits)
  show ?thesis using user_token_roundtrip [OF assms(7,8) _ set, of sys] assms(9) s2 by (simp add: web_db_def)
qed

text \<open>Changing the password has the same effect: the session ends up with the new key, zeroed.\<close>

lemma password_change_zeroes_key:
  assumes "change_password env r user newPw a newSalt newDEK s = (out, s')" and "map_of (wq_cookies r) sessionCookieName = Some t"
  shows "\<exists>n. getSessionDEK r s' = Some n \<and> bytes_at s' (Some n) = Some (zeros (length newDEK))"
proof -
  let ?n = "length (wb_heap s)"
  obtain s1 where s1: "s' = Zeroize (Some ?n) s1" "map_of (wb_sessionDEKs s1) t = Some ?n"
      "\<exists>b. bytes_at s1 (Some ?n) = Some b \<and> length b = length newDEK"
  proof -
    let ?s0 = "s\<lparr>wb_heap := wb_heap s @ [newDEK]\<rparr>"
    have new: "bytes_at (?s0\<lparr>wb_store := st\<rparr>) (Some ?n) = Some newDEK" for st by (simp add: bytes_at_def)
    from assms obtain st d where "s' = Zeroize (Some ?n) ((Zeroize d (?s0\<lparr>wb_store := st\<rparr>))\<lparr>wb_sessionDEKs := AList.update t ?n (wb_sessionDEKs s)\<rparr>) \<or>
        (\<exists>db. s' = Zeroize (Some ?n) (Zeroize (Some a) (set_db db ((Zeroize d (?s0\<lparr>wb_store := st\<rparr>))\<lparr>wb_sessionDEKs := AList.update t ?n (wb_sessionDEKs s)\<rparr>))))"
      by (auto simp: change_password_def alloc_def Let_def split: sum.splits)
    then show thesis
    proof (elim disjE exE)
      assume "s' = Zeroize (Some ?n) ((Zeroize d (?s0\<lparr>wb_store := st\<rparr>))\<lparr>wb_sessionDEKs := AList.update t ?n (wb_sessionDEKs s)\<rparr>)"
      then show thesis by (rule that) (use zeroize_length [OF new] in \<open>simp_all add: gomap_simps\<close>)
    next
      fix db
      let ?s2 = "set_db db ((Zeroize d (?s0\<lparr>wb_store := st\<rparr>))\<lparr>wb_sessionDEKs := AList.update t ?n (wb_sessionDEKs s)\<rparr>)"
      assume "s' = Zeroize (Some ?n) (Zeroize (Some a) ?s2)"
      moreover obtain b where "bytes_at ?s2 (Some ?n) = Some b" "length b = length newDEK" using zeroize_length [OF new] by force
      moreover from zeroize_length [OF this(1)] this(2)
      have "\<exists>b. bytes_at (Zeroize (Some a) ?s2) (Some ?n) = Some b \<and> length b = length newDEK" by simp
      ultimately show thesis by (intro that [of "Zeroize (Some a) ?s2"]) (simp_all add: gomap_simps)
    qed
  qed
  then show ?thesis using assms(2) zeroized by (fastforce simp: getSessionDEK_def)
qed

section \<open>Who gets an account\<close>

lemma login_keeps_users:
  "completeLogin env r u d s = (out, s') \<Longrightarrow> db_users (web_db s') = db_users (web_db s) \<and> ct_invitations (db_core (web_db s')) = ct_invitations (db_core (web_db s))"
  "startPendingLogin env rng r u d mt s = (out, s') \<Longrightarrow> web_db s' = web_db s"
  "derive_dek env pw u s = (d, s') \<Longrightarrow> web_db s' = web_db s"
  by (auto simp: completeLogin_def Store_CreateWebSession_def fill_id_def generateID_def core_upd_def startPendingLogin_def derive_dek_def
      alloc_def Let_def split: sum.splits prod.splits if_splits)

lemma autoLogin_keeps_users:
  assumes "autoLogin env h r u pw s = (out, s')"
  shows "db_users (web_db s') = db_users (web_db s) \<and> ct_invitations (db_core (web_db s')) = ct_invitations (db_core (web_db s))"
proof -
  obtain d s0 where d: "derive_dek env pw u s = (d, s0)" by (cases "derive_dek env pw u s")
  have "web_db s0 = web_db s" using login_keeps_users(3) [OF d] .
  moreover have "web_db s' = web_db s0 \<or> (\<exists>out. completeLogin env r u d s0 = (out, s'))"
    using assms d by (auto simp: autoLogin_def Let_def dest: login_keeps_users(2) split: option.splits prod.splits if_splits bool.splits)
  ultimately show ?thesis by (auto dest: login_keeps_users(1))
qed

lemma try_accepted: "fault_free db \<Longrightarrow> try_db (Store_MarkInviteAccepted now i u) db = core_upd (\<lambda>c. c\<lparr>ct_invitations :=
    update_where (\<lambda>x. iv_ID x = i) (\<lambda>x. x\<lparr>iv_Status := InviteAccepted, iv_AcceptedAt := now, iv_AcceptedUserID := u\<rparr>) (ct_invitations c)\<rparr>) db"
  by (simp add: try_db_def Store_MarkInviteAccepted_def)

lemma accepted_link_dead:
  assumes "lookupValidInvite env r db = Some invt" and "query_value r' ''token'' = query_value r ''token''" and "we_lib env' = we_lib env"
    and "ct_invitations (db_core db') = update_where (\<lambda>x. iv_ID x = iv_ID invt)
      (\<lambda>x. x\<lparr>iv_Status := InviteAccepted, iv_AcceptedAt := now, iv_AcceptedUserID := u\<rparr>) (ct_invitations (db_core db))"
  shows "lookupValidInvite env' r' db' = None"
proof -
  let ?h = "HashInviteToken (we_lib env) (query_value r ''token'')"
  from assms(1) have q: "query_row (\<lambda>i. iv_TokenHash i = ?h) (ct_invitations (db_core db)) = Inr invt"
    by (auto simp: lookupValidInvite_def Store_GetInviteByTokenHash_def Let_def dest!: stmt_InrD split: if_splits sum.splits)
  have "query_row (\<lambda>i. iv_TokenHash i = ?h) (ct_invitations (db_core db')) = Inr (invt\<lparr>iv_Status := InviteAccepted, iv_AcceptedAt := now, iv_AcceptedUserID := u\<rparr>)"
    using q unfolding assms(4) by (auto simp: query_row_def update_where_def filter_map comp_def if_distrib [of iv_TokenHash] split: list.splits)
  then show ?thesis using assms(2,3)
    by (auto simp: lookupValidInvite_def Store_GetInviteByTokenHash_def Let_def dest!: stmt_InrD split: if_splits sum.splits)
qed

lemma created_user:
  assumes "Store_CreateUser now bc lib rng u db = (Inr u', db')"
  shows "\<exists>v. db_users db' = db_users db @ [v] \<and> us_ID v = us_ID u' \<and> us_Email v = us_Email u \<and> us_Role v = (if us_Role u = [] then ''user'' else us_Role u)"
    and "db_core db' = db_core db" and "fault_free db' = fault_free db"
  using assms by (auto simp: Store_CreateUser_def insert_user_def insert_row_def fill_id_def generateID_def fault_free_def Let_def
      dest!: stmt_InrD split: if_splits sum.splits prod.splits)

lemma not_created: "Store_CreateUser now bc lib rng u db = (Inl e, db') \<Longrightarrow> db_users db' = db_users db \<and> db_core db' = db_core db"
  by (auto simp: Store_CreateUser_def fill_id_def generateID_def Let_def split: if_splits sum.splits prod.splits)

text \<open>What a sign-in may add: one session of the user, and pending logins of the user.\<close>

definition signs_in :: "string \<Rightarrow> web \<Rightarrow> web \<Rightarrow> bool" where
  "signs_in u s s' \<longleftrightarrow>
     (ct_web_sessions (db_core (web_db s')) = ct_web_sessions (db_core (web_db s)) \<or>
      (\<exists>sess. ct_web_sessions (db_core (web_db s')) = ct_web_sessions (db_core (web_db s)) @ [sess] \<and> ws_UserID sess = u)) \<and>
     (\<forall>t p. map_of (wb_pendingLogins s') t = Some p \<longrightarrow> map_of (wb_pendingLogins s) t = Some p \<or> pl_UserID p = u)"

lemma signs_in_cong:
  "web_db s0 = web_db s \<Longrightarrow> wb_pendingLogins s0 = wb_pendingLogins s \<Longrightarrow> signs_in u s0 s' \<Longrightarrow> signs_in u s s'"
  by (simp add: signs_in_def)

lemma completeLogin_signs_in: "completeLogin env r u d s = (out, s') \<Longrightarrow> signs_in (us_ID u) s s'"
  by (auto simp: signs_in_def completeLogin_def Store_CreateWebSession_def fill_id_def generateID_def insert_row_def Let_def
      dest!: stmt_InrD split: sum.splits prod.splits if_splits)

lemma startPendingLogin_signs_in: "startPendingLogin env rng r u d mt s = (out, s') \<Longrightarrow> signs_in (us_ID u) s s'"
  by (auto simp: signs_in_def startPendingLogin_def gomap_simps split: sum.splits if_splits)

lemma autoLogin_signs_in:
  assumes "autoLogin env h r u pw s = (out, s')" shows "signs_in (us_ID u) s s'"
proof -
  obtain d s0 where d: "derive_dek env pw u s = (d, s0)" by (cases "derive_dek env pw u s")
  have "web_db s0 = web_db s" "wb_pendingLogins s0 = wb_pendingLogins s"
    using d by (auto simp: derive_dek_def alloc_def Let_def split: if_splits sum.splits)
  moreover have "signs_in (us_ID u) s0 s'"
    using assms d by (auto simp: autoLogin_def Let_def intro: completeLogin_signs_in startPendingLogin_signs_in
        split: option.splits prod.splits if_splits bool.splits)
  ultimately show ?thesis by (rule signs_in_cong)
qed

lemma accepted_frame:
  "db_users (try_db (Store_MarkInviteAccepted now i u) db) = db_users db"
  "ct_web_sessions (db_core (try_db (Store_MarkInviteAccepted now i u) db)) = ct_web_sessions (db_core db)"
  by (simp_all add: try_db_def Store_MarkInviteAccepted_def stmt_def core_upd_def split: option.splits)

text \<open>The two ways in: an account that exists, if the configuration lets invitations go to those, or one that is created.\<close>

lemma signup_cases:
  assumes "inviteSignupPost env h r s = (out, s')" and "lookupValidInvite env r (web_db s) = Some invt"
    and "db_users (web_db s') \<noteq> db_users (web_db s) \<or> ct_web_sessions (db_core (web_db s')) \<noteq> ct_web_sessions (db_core (web_db s)) \<or>
      wb_pendingLogins s' \<noteq> wb_pendingLogins s"
  obtains (existing) u pw out1 where "wh_InviteAllowExisting h" "Store_GetUserByEmail (iv_Email invt) (web_db s) = Inr u"
      "autoLogin env h r u pw (web_try (Store_MarkInviteAccepted (we_now env) (iv_ID invt) (us_ID u)) s) = (out1, s')"
    | (created) u0 u db pw out1 where "us_Email u0 = iv_Email invt" "us_Role u0 = iv_Role invt"
      "Store_CreateUser (we_now env) (we_bcrypt env) (we_lib env) (we_rng env) u0 (web_db s) = (Inr u, db)"
      "autoLogin env h r u pw (web_try (Store_MarkInviteAccepted (we_now env) (iv_ID invt) (us_ID u)) (set_db db s)) = (out1, s')"
proof -
  let ?email = "ToLower (TrimSpace (form_value r ''email''))" and ?pw = "form_value r ''password''"
  let ?u0 = "\<lparr>us_ID = [], us_Name = TrimSpace (form_value r ''name''), us_Email = ?email, us_Password = ?pw,
    us_PasswordSalt = [], us_Role = iv_Role invt, us_CreatedAt = 0\<rparr>"
  have s': "s' \<noteq> s" using assms(3) by auto
  have e: "?email = iv_Email invt" using assms(1,2) s' by (auto simp: inviteSignupPost_def Let_def split: if_splits)
  show thesis
  proof (cases "Store_GetUserByEmail ?email (web_db s)")
    case (Inr u)
    with assms(1,2) s' have "wh_InviteAllowExisting h"
        "\<exists>out1. autoLogin env h r u [] (web_try (Store_MarkInviteAccepted (we_now env) (iv_ID invt) (us_ID u)) s) = (out1, s')"
      by (auto simp: inviteSignupPost_def Let_def split: if_splits prod.splits)
    with existing Inr e show thesis by metis
  next
    case (Inl err)
    obtain v db where c: "Store_CreateUser (we_now env) (we_bcrypt env) (we_lib env) (we_rng env) ?u0 (web_db s) = (v, db)" by fastforce
    show thesis
    proof (cases v)
      case (Inl err')
      with c \<open>Store_GetUserByEmail ?email (web_db s) = Inl err\<close> assms(1,2) s' have "s' = set_db db s"
        by (auto simp: inviteSignupPost_def Let_def split: if_splits)
      then show thesis using assms(3) not_created [of "we_now env" "we_bcrypt env" "we_lib env" "we_rng env" ?u0 "web_db s" err' db] c Inl by auto
    next
      case (Inr u)
      with c \<open>Store_GetUserByEmail ?email (web_db s) = Inl err\<close> assms(1,2) s' have
          "\<exists>out1. autoLogin env h r u ?pw (web_try (Store_MarkInviteAccepted (we_now env) (iv_ID invt) (us_ID u)) (set_db db s)) = (out1, s')"
        by (auto simp: inviteSignupPost_def Let_def split: if_splits prod.splits)
      with created [of ?u0 u db] c Inr e show thesis by auto
    qed
  qed
qed


text \<open>A key is deleted only by its owner.\<close>

lemma own_key_deleted:
  assumes "APIKeysDeleteHandler env r s = Some (out, s')" and "ct_api_keys (db_core (web_db s')) \<noteq> ct_api_keys (db_core (web_db s))"
  shows "\<exists>user key. wq_user r = Some user \<and> Store_GetAPIKeyByID (form_value r ''id'') (web_db s) = Inr key \<and> ak_UserID key = us_ID user"
  using assms by (auto simp: APIKeysDeleteHandler_def Let_def split: if_splits sum.splits option.splits)

section \<open>Runs\<close>

definition view_web :: web where
  "view_web = \<lparr>wb_store = token_store, wb_heap = [sample_dek], wb_sessionDEKs = [(''t'', 0)], wb_pendingLogins = [], wb_pendingSetups = []\<rparr>"

definition view_request :: "(string, string) gomap \<Rightarrow> web_request" where
  "view_request form = (web_req [(sessionCookieName, ''t'')] form)\<lparr>wq_user := Some (auth_user\<lparr>us_ID := ''bob''\<rparr>)\<rparr>"

lemma view_web_frame: "fault_free (web_db view_web)" "ct_user_tokens (db_core (web_db view_web)) = []"
  by (simp_all add: view_web_def web_db_def token_store_def approvals_db_def empty_db_def empty_core_def fault_free_def)

lemma viewed: "\<exists>out. TokensHandler sample_web_env (view_request [(''backend'', ''none'')]) view_web = Some (out, Zeroize (Some 0) view_web)"
proof -
  let ?r = "view_request [(''backend'', ''none'')]"
  have "st_db token_store = web_db view_web" by (simp add: view_web_def web_db_def)
  then have "\<exists>bs. Store_ListBackends sample_lib sample_os token_store = (Inr bs, token_store)"
    using view_web_frame(1) by (simp add: Store_ListBackends_def)
      (simp add: view_web_def web_db_def token_store_def order_by_def decryptBackendEnv_def)
  then obtain bs where "web_backends sample_web_env view_web = (Inr bs, view_web)"
    by (auto simp: web_backends_def sample_web_env_def view_web_def)
  moreover have "Store_GetUserTokens ''bob'' ''none'' (web_db view_web) = Inr []"
    using view_web_frame by (simp add: Store_GetUserTokens_def)
  moreover have "wq_user ?r = Some (auth_user\<lparr>us_ID := ''bob''\<rparr>)" "query_value ?r ''backend'' = ''none''" "getSessionDEK ?r view_web = Some 0"
    by (simp_all add: view_request_def web_req_def query_value_def param_def getSessionDEK_def view_web_def)
  ultimately show ?thesis by (simp add: TokensHandler_def or_none_def Let_def)
qed

theorem token_saved_under_zero_key_witness:
  "\<exists>s2. TokensSaveHandler sample_web_env (view_request [(''backend_id'', ''gh''), (''env_key'', ''K''), (''value'', ''tok'')]) (Zeroize (Some 0) view_web) =
       Some ([OutRedirect ''/web/tokens?backend=gh&success=Token+saved''], s2) \<and>
     fst (Store_GetUserTokenDecryptedWithUserDEK sample_lib sample_os ''bob'' ''gh'' ''K'' (Some (zeros 32)) (wb_store s2)) = Inr ''tok''"
proof -
  let ?r = "view_request [(''backend'', ''none'')]" and ?r' = "view_request [(''backend_id'', ''gh''), (''env_key'', ''K''), (''value'', ''tok'')]"
  let ?u = "auth_user\<lparr>us_ID := ''bob''\<rparr>" and ?s1 = "Zeroize (Some 0) view_web"
  obtain out where v: "TokensHandler sample_web_env ?r view_web = Some (out, ?s1)" using viewed by blast
  have trim: "TrimSpace ''K'' = ''K''" by code_simp
  have f: "form_value ?r' ''backend_id'' = ''gh''" "TrimSpace (form_value ?r' ''env_key'') = ''K''" "form_value ?r' ''value'' = ''tok''" "wq_method ?r' = ''POST''"
      "wq_user ?r' = Some ?u" "wq_cookies ?r' = wq_cookies ?r" "getSessionDEK ?r view_web = Some 0" "bytes_at view_web (Some 0) = Some sample_dek"
      "getSessionDEK ?r' ?s1 = Some 0"
    using trim by (simp_all add: view_request_def web_req_def form_value_def param_def getSessionDEK_def view_web_def bytes_at_def)
  have z: "bytes_at ?s1 (Some 0) = Some (zeros 32)" using zeroized [OF f(8)] by (simp add: sample_dek_def)
  obtain c ks' where e: "EncryptSecret sample_lib sample_os sample_rng ''tok'' (NewKeyStore (EnvVar (NewEnvVarProvider [] []))) = (Inr c, ks')"
    using sample_encrypt by blast
  then obtain st where "Store_SetUserTokenWithUserDEK sample_lib sample_os sample_rng ''bob'' ''gh'' ''K'' ''tok'' (Some (zeros 32)) token_store = (None, st)"
    by (simp add: Store_SetUserTokenWithUserDEK_def wrap_for_user_def AES256GCMEncrypt_def keySize_def zeros_def
        sample_rng_def skip_rng_def put_token_def has_user_def has_backend_def token_store_def approvals_db_def)
  then have save: "TokensSaveHandler sample_web_env ?r' ?s1 =
      Some ([OutRedirect (''/web/tokens?backend='' @ form_value ?r' ''backend_id'' @ ''&success=Token+saved'')], Zeroize (Some 0) (?s1\<lparr>wb_store := st\<rparr>))"
    using f(1-5,9) z by (simp add: TokensSaveHandler_def sample_web_env_def view_web_def)
  have ff: "fault_free (web_db ?s1)" using view_web_frame(1) by simp
  show ?thesis
    using token_saved_under_zero_key [OF v f(7,8,6,5) save sample_env_crypto(1,2) ff, of sample_os] save f(1-3)
    by (simp add: sample_web_env_def sample_dek_def)
qed

definition invited_web :: web where
  "invited_web = \<lparr>wb_store = \<lparr>st_db = auth_db\<lparr>db_users := [], db_core := empty_core\<lparr>ct_invitations := [\<lparr>iv_ID = ''i'', iv_Email = ''a@b'', iv_Name = ''Ann'',
       iv_Role = ''user'', iv_TokenHash = hex_encode (replicate 32 (CHR ''h'')), iv_Status = ''pending'', iv_InvitedBy = ''root'', iv_TokenExpiresAt = 500,
       iv_AcceptedAt = 0, iv_AcceptedUserID = [], iv_CreatedAt = 0\<rparr>]\<rparr>\<rparr>, st_keyStore = None\<rparr>,
     wb_heap = [], wb_sessionDEKs = [], wb_pendingLogins = [], wb_pendingSetups = []\<rparr>"

lemma invited_web_db: "fault_free (web_db invited_web)" "db_users (web_db invited_web) = []"
  by (simp_all add: invited_web_def web_db_def auth_db_def empty_db_def fault_free_def)


end
