(* ===== verification/WebEnforcer.thy ===== *)
theory WebEnforcer
  imports WebAccount
begin

text \<open>
  The console of the enforcer (src/web/enforcer_handlers.go) and of the rate limits (src/web/ratelimit_handlers.go). The record \<open>EnforcerHandler\<close> is the
  struct of both: the enforcer, \<open>None\<close> when it is nil, and the store. The enforcer works on the database of that store, which \<open>run_enf\<close> hands to it and takes
  back. A handler that calls a nil enforcer panics, \<open>None\<close>. \<open>console_env\<close> adds to the environments of the enforcer and of the web pages the decoding of a request
  body, the indentation of JSON, \<open>fmt.Sscanf\<close> of a number, and the JSON of times. The event streams are modelled by one tick of their loops. A
  template's data that is a Go map is an association list.
\<close>

record 'p EnforcerHandler =
  eh_enforcer :: "'p Enforcer option"
  eh_store :: Store

record 'p console_env =
  ce_env :: "'p env"
  ce_web :: web_env
  ce_decode :: "string \<Rightarrow> goerr + json"
  ce_indent :: "string \<Rightarrow> goerr + string"
  ce_sscan :: "string \<Rightarrow> int option"
  ce_time :: "gotime \<Rightarrow> json"
  ce_null_time :: "gotime option \<Rightarrow> json"

abbreviation ce_now :: "'p console_env \<Rightarrow> gotime" where
  "ce_now ce \<equiv> env_now (ce_env ce)"

definition enf_of :: "'p EnforcerHandler \<Rightarrow> 'p Enforcer option" where
  "enf_of h = map_option (\<lambda>e. e\<lparr>ef_store := st_db (eh_store h)\<rparr>) (eh_enforcer h)"

definition run_enf :: "('p Enforcer \<Rightarrow> 'a \<times> 'p Enforcer) \<Rightarrow> 'p Enforcer \<Rightarrow> 'p EnforcerHandler \<Rightarrow> 'a \<times> 'p EnforcerHandler" where
  "run_enf f e h = (let (res, e) = f e in (res, h\<lparr>eh_enforcer := Some e, eh_store := (eh_store h)\<lparr>st_db := ef_store e\<rparr>\<rparr>))"

definition eh_db :: "'p EnforcerHandler \<Rightarrow> db" where
  "eh_db h = st_db (eh_store h)"

definition set_eh_db :: "db \<Rightarrow> 'p EnforcerHandler \<Rightarrow> 'p EnforcerHandler" where
  "set_eh_db db h = h\<lparr>eh_store := (eh_store h)\<lparr>st_db := db\<rparr>\<rparr>"

type_synonym 'p console_reply = "(web_output list \<times> 'p EnforcerHandler) option"

definition requireEnforcer :: "web_output list" where
  "requireEnforcer = [OutError ''Enforcer is not enabled'' 503]"

definition error_reply :: "'p console_env \<Rightarrow> string \<Rightarrow> goerr \<Rightarrow> int \<Rightarrow> web_output list" where
  "error_reply ce prefix err code = [OutError (prefix @ we_error (ce_web ce) err) code]"

definition template :: "'p console_env \<Rightarrow> string \<Rightarrow> (string \<times> content) list \<Rightarrow> web_output list" where
  "template ce name d = OutTemplate name d #
     (case we_execute (ce_web ce) name of None \<Rightarrow> [] | Some err \<Rightarrow> error_reply ce [] err 500)"

definition user_content :: "web_request \<Rightarrow> content" where
  "user_content r = (case wq_user r of None \<Rightarrow> CNil | Some u \<Rightarrow> CUser u)"

definition generateRequestID :: "'p console_env \<Rightarrow> string" where
  "generateRequestID ce = (case we_rng (ce_web ce) 0 16 of None \<Rightarrow> ''req-'' @ itoa (ce_now ce) | Some b \<Rightarrow> hex_encode b)"

text \<open>Decoding a body with two text fields.\<close>

definition decode_fields :: "'p console_env \<Rightarrow> string \<Rightarrow> string \<Rightarrow> string \<Rightarrow> (string \<times> string) option" where
  "decode_fields ce body k1 k2 =
     (case ce_decode ce body of
        Inl _ \<Rightarrow> None
      | Inr v \<Rightarrow>
          (case top_fields v of
             None \<Rightarrow> None
           | Some kvs \<Rightarrow> (case (string_field k1 kvs, string_field k2 kvs) of (Some x, Some y) \<Rightarrow> Some (x, y) | _ \<Rightarrow> None)))"

section \<open>Approvals\<close>

definition null_string :: "string option \<Rightarrow> json" where
  "null_string v = JObj [(''String'', JStr (case v of None \<Rightarrow> [] | Some x \<Rightarrow> x)), (''Valid'', JBool (v \<noteq> None))]"

definition Web_GetApprovalStatus :: "'p console_env \<Rightarrow> web_request \<Rightarrow> 'p EnforcerHandler \<Rightarrow> 'p console_reply" where
  "Web_GetApprovalStatus ce r h =
     (if wq_method r \<noteq> ''GET'' then Some (web_not_allowed, h)
      else case enf_of h of
             None \<Rightarrow> Some (requireEnforcer, h)
           | Some e \<Rightarrow>
               if query_value r ''id'' = [] then Some ([OutError ''approval_id is required'' 400], h)
               else (case GetApprovalRequest (query_value r ''id'') e of
                       Inl _ \<Rightarrow> Some ([OutError ''Approval not found'' 404], h)
                     | Inr a \<Rightarrow> Some (json_reply (JObj [(''id'', JStr (aq_ID a)), (''status'', JStr (aq_Status a)), (''tool_name'', JStr (aq_ToolName a)),
                          (''user_id'', JStr (aq_UserID a)), (''user_email'', JStr (aq_UserEmail a)), (''policy_id'', JStr (aq_PolicyID a)),
                          (''message'', JStr (aq_ViolationMsg a)), (''requested_at'', ce_time ce (aq_RequestedAt a)),
                          (''expires_at'', ce_time ce (aq_ExpiresAt a)), (''approved_at'', ce_null_time ce (aq_ApprovedAt a)),
                          (''approved_by'', null_string (aq_ApprovedBy a)), (''comments'', JStr (aq_Comments a)),
                          (''denial_reason'', JStr (aq_DenialReason a)), (''request_body'', JStr (aq_RequestBody a))]), h)))"

definition Web_ListPendingApprovals :: "'p console_env \<Rightarrow> web_request \<Rightarrow> 'p EnforcerHandler \<Rightarrow> 'p console_reply" where
  "Web_ListPendingApprovals ce r h =
     (if wq_method r \<noteq> ''GET'' then Some (web_not_allowed, h)
      else case enf_of h of
             None \<Rightarrow> None
           | Some e \<Rightarrow>
               (case ListAdminPendingApprovals e of
                  Inl err \<Rightarrow> Some (error_reply ce ''Failed to list approvals: '' err 500, h)
                | Inr approvals \<Rightarrow> Some (json_reply (JObj [(''approvals'', JArr (map (\<lambda>a. JObj [(''id'', JStr (aq_ID a)), (''tool_name'', JStr (aq_ToolName a)),
                      (''user_id'', JStr (aq_UserID a)), (''user_email'', JStr (aq_UserEmail a)), (''tool_args'', JStr (aq_ToolArgs a)),
                      (''policy_id'', JStr (aq_PolicyID a)), (''message'', JStr (aq_ViolationMsg a)),
                      (''requested_at'', ce_time ce (aq_RequestedAt a)), (''expires_at'', ce_time ce (aq_ExpiresAt a))]) approvals))]), h)))"

definition getStatusClass :: "string \<Rightarrow> string" where
  "getStatusClass status =
     (if status = ''PENDING'' then ''pending'' else if status = ''EXECUTING'' then ''executing''
      else if status = ''COMPLETED'' then ''completed'' else if status = ''FAILED'' then ''failed''
      else if status = ''DENIED'' then ''denied'' else if status = ''EXPIRED'' then ''expired'' else ''pending'')"

definition pretty_args :: "'p console_env \<Rightarrow> string \<Rightarrow> string" where
  "pretty_args ce args = (case ce_indent ce args of Inr p \<Rightarrow> p | Inl _ \<Rightarrow> args)"

definition approval_view :: "'p console_env \<Rightarrow> ApprovalRequestRow \<Rightarrow> (string \<times> content) list" where
  "approval_view ce a = [(''ID'', CStr (aq_ID a)), (''Status'', CStr (aq_Status a)), (''StatusClass'', CStr (getStatusClass (aq_Status a))),
     (''ToolName'', CStr (aq_ToolName a)), (''UserID'', CStr (aq_UserID a)), (''UserEmail'', CStr (aq_UserEmail a)),
     (''ToolArgs'', CStr (pretty_args ce (aq_ToolArgs a))), (''PolicyID'', CStr (aq_PolicyID a)), (''Message'', CStr (aq_ViolationMsg a)),
     (''RequestedAt'', CTime (aq_RequestedAt a)), (''ExpiresAt'', CTime (aq_ExpiresAt a)), (''Justification'', CStr (aq_Justification a))]"

definition approver_view :: "ApprovalRequestRow \<Rightarrow> (string \<times> content) list" where
  "approver_view a = (case aq_ApprovedBy a of None \<Rightarrow> [] | Some u \<Rightarrow> [(''ApprovedBy'', CStr u)])"

definition outcome_view :: "ApprovalRequestRow \<Rightarrow> (string \<times> content) list" where
  "outcome_view a = approver_view a @ (case aq_ApprovedAt a of None \<Rightarrow> [] | Some t \<Rightarrow> [(''ApprovedAt'', CTime t)]) @
     (if aq_ResponseStatus a > 0 then [(''ResponseStatus'', CInt (aq_ResponseStatus a))] else []) @
     (if aq_ResponseBody a \<noteq> [] then [(''ResponseBody'', CStr (aq_ResponseBody a))] else []) @
     (if aq_ErrorMsg a \<noteq> [] then [(''ErrorMsg'', CStr (aq_ErrorMsg a))] else []) @
     (if aq_DenialReason a \<noteq> [] then [(''DenialReason'', CStr (aq_DenialReason a))] else []) @
     (if aq_Comments a \<noteq> [] then [(''Comments'', CStr (aq_Comments a))] else [])"

definition count_status :: "string list \<Rightarrow> ApprovalRequestRow list \<Rightarrow> content" where
  "count_status ss rows = CInt (int (length (filter (\<lambda>a. aq_Status a \<in> set ss) rows)))"

definition QueuePageHandler :: "'p console_env \<Rightarrow> web_request \<Rightarrow> 'p EnforcerHandler \<Rightarrow> 'p console_reply" where
  "QueuePageHandler ce r h =
     (case enf_of h of
        None \<Rightarrow> None
      | Some e \<Rightarrow>
          (let rows = or_none (ListAdminPendingApprovals e)
           in Some (template ce ''admin_enforcer_queue.html'' [(''Title'', CStr ''Approval Queue''), (''User'', user_content r),
                (''Approvals'', CList (map (\<lambda>a. CMap (approval_view ce a @ [(''QueueType'', CStr (aq_QueueType a))] @ outcome_view a)) rows)),
                (''PendingCount'', count_status [''PENDING''] rows), (''CompletedCount'', count_status [''COMPLETED'', ''EXECUTING''] rows),
                (''DeniedCount'', count_status [''DENIED'', ''EXPIRED'', ''FAILED''] rows)], h)))"

text \<open>Approving, with the approver's identifier: the request is run at once.\<close>

definition approve_reply :: "'p console_env \<Rightarrow> string \<Rightarrow> web_request \<Rightarrow> 'p EnforcerHandler \<Rightarrow> 'p console_reply" where
  "approve_reply ce approver r h =
     (case decode_fields ce (wq_body r) ''approval_id'' ''comments'' of
        None \<Rightarrow> Some ([OutError ''Invalid JSON'' 400], h)
      | Some (approvalID, comments) \<Rightarrow>
          if approvalID = [] then Some ([OutError ''approval_id is required'' 400], h)
          else case enf_of h of
                 None \<Rightarrow> None
               | Some e \<Rightarrow>
                   (case run_enf (ExecuteApprovedRequest (ce_env ce) approvalID approver comments) e h of
                      (Inl err, h) \<Rightarrow> Some (error_reply ce ''Failed to approve and execute: '' err 500, h)
                    | (Inr a, h) \<Rightarrow> Some (json_reply (JObj [(''success'', JBool True), (''message'', JStr ''Request approved and executed''),
                          (''status'', JStr (aq_Status a)), (''response_status'', JNum (of_int (aq_ResponseStatus a))),
                          (''response_body'', JStr (aq_ResponseBody a)), (''error_msg'', JStr (aq_ErrorMsg a))]), h)))"

definition deny_reply :: "'p console_env \<Rightarrow> string \<Rightarrow> web_request \<Rightarrow> 'p EnforcerHandler \<Rightarrow> 'p console_reply" where
  "deny_reply ce approver r h =
     (case decode_fields ce (wq_body r) ''approval_id'' ''reason'' of
        None \<Rightarrow> Some ([OutError ''Invalid JSON'' 400], h)
      | Some (approvalID, reason) \<Rightarrow>
          if approvalID = [] then Some ([OutError ''approval_id is required'' 400], h)
          else case enf_of h of
                 None \<Rightarrow> None
               | Some e \<Rightarrow>
                   (case run_enf (DenyRequest (ce_env ce) approvalID approver reason) e h of
                      (Some err, h) \<Rightarrow> Some (error_reply ce ''Failed to deny: '' err 500, h)
                    | (None, h) \<Rightarrow> Some (json_reply (JObj [(''success'', JBool True), (''message'', JStr ''Request denied'')]), h)))"

definition Web_ApproveRequest :: "'p console_env \<Rightarrow> web_request \<Rightarrow> 'p EnforcerHandler \<Rightarrow> 'p console_reply" where
  "Web_ApproveRequest ce r h =
     (if wq_method r \<noteq> ''POST'' then Some (web_not_allowed, h)
      else if eh_enforcer h = None then Some (requireEnforcer, h)
      else approve_reply ce ''admin'' r h)"

definition Web_DenyRequest :: "'p console_env \<Rightarrow> web_request \<Rightarrow> 'p EnforcerHandler \<Rightarrow> 'p console_reply" where
  "Web_DenyRequest ce r h =
     (if wq_method r \<noteq> ''POST'' then Some (web_not_allowed, h)
      else if eh_enforcer h = None then Some (requireEnforcer, h)
      else deny_reply ce ''admin'' r h)"

definition unauthorized_user :: "web_output list" where
  "unauthorized_user = [OutError ''Unauthorized'' 401]"

definition UserApproveRequest :: "'p console_env \<Rightarrow> web_request \<Rightarrow> 'p EnforcerHandler \<Rightarrow> 'p console_reply" where
  "UserApproveRequest ce r h =
     (if wq_method r \<noteq> ''POST'' then Some (web_not_allowed, h)
      else case wq_user r of
             None \<Rightarrow> Some (unauthorized_user, h)
           | Some user \<Rightarrow> approve_reply ce (us_ID user) r h)"

definition UserDenyRequest :: "'p console_env \<Rightarrow> web_request \<Rightarrow> 'p EnforcerHandler \<Rightarrow> 'p console_reply" where
  "UserDenyRequest ce r h =
     (if wq_method r \<noteq> ''POST'' then Some (web_not_allowed, h)
      else case wq_user r of
             None \<Rightarrow> Some (unauthorized_user, h)
           | Some user \<Rightarrow> deny_reply ce (us_ID user) r h)"

definition UserQueuePageHandler :: "'p console_env \<Rightarrow> web_request \<Rightarrow> 'p EnforcerHandler \<Rightarrow> 'p console_reply" where
  "UserQueuePageHandler ce r h =
     (if wq_method r \<noteq> ''GET'' then Some (web_not_allowed, h)
      else case wq_user r of
             None \<Rightarrow> Some (unauthorized_user, h)
           | Some user \<Rightarrow>
               (case enf_of h of
                  None \<Rightarrow> None
                | Some e \<Rightarrow>
                    (let pend = or_none (ListUserPendingApprovals e); rows = or_none (ListUserAllApprovals (us_ID user) e)
                     in Some (template ce ''user_enforcer_queue.html'' [(''Title'', CStr ''My Approval Requests''), (''User'', CUser user),
                          (''Approvals'', CList (map (\<lambda>a. CMap (approval_view ce a @ approver_view a)) pend)),
                          (''AllApprovals'', CList (map (\<lambda>a. CMap (approval_view ce a @ outcome_view a)) rows)),
                          (''PendingCount'', CInt (int (length pend))), (''CompletedCount'', count_status [''COMPLETED'', ''EXECUTING''] rows),
                          (''DeniedCount'', count_status [''DENIED'', ''EXPIRED'', ''FAILED''] rows)], h))))"

definition PolicyRequestHandler :: "'p console_env \<Rightarrow> web_request \<Rightarrow> 'p EnforcerHandler \<Rightarrow> 'p console_reply" where
  "PolicyRequestHandler ce r h =
     (if wq_method r \<noteq> ''POST'' then Some (web_not_allowed, h)
      else case wq_user r of
             None \<Rightarrow> Some (unauthorized_user, h)
           | Some user \<Rightarrow>
               if wq_form r = None then Some (error_reply ce [] (ErrNew ''invalid form'') 400, h)
               else if form_value r ''tool_name'' = [] \<or> form_value r ''backend_id'' = []
               then Some ([OutError ''tool_name and backend_id are required'' 400], h)
               else (case ES_CreateApprovalRequest \<lparr>aq_ID = generateRequestID ce, aq_UserID = us_ID user, aq_UserEmail = us_Email user,
                         aq_UserRole = us_Role user, aq_TrustLevel = 50, aq_ToolName = form_value r ''tool_name'', aq_ToolArgs = ''{}'',
                         aq_BackendID = form_value r ''backend_id'', aq_SafetyProfile = ''{}'', aq_Status = ''PENDING'', aq_QueueType = ''policy_request'',
                         aq_Justification = form_value r ''justification'', aq_RequestedAt = ce_now ce, aq_ExpiresAt = ce_now ce + 7 * 24 * hour,
                         aq_ApprovedBy = None, aq_ApprovedAt = None, aq_DenialReason = [], aq_Comments = [], aq_PolicyID = ''user_policy_request'',
                         aq_ViolationMsg = ''User requested policy creation for this tool'', aq_MatchContext = [], aq_RequestBody = [],
                         aq_ResponseStatus = 0, aq_ResponseBody = [], aq_ExecutedAt = None, aq_ErrorMsg = []\<rparr> (eh_db h) of
                       Inl err \<Rightarrow> Some (error_reply ce ''Failed to submit request: '' err 500, h)
                     | Inr db \<Rightarrow> Some ([OutRedirect ''/web/user/enforcer/queue?success=Policy+request+submitted''], set_eh_db db h)))"

text \<open>The pending requests grouped by user, in the order in which the users first appear.\<close>

definition queue_item :: "'p console_env \<Rightarrow> ApprovalRequestRow \<Rightarrow> content" where
  "queue_item ce a = CMap [(''ID'', CStr (aq_ID a)), (''ToolName'', CStr (aq_ToolName a)), (''ToolArgs'', CStr (pretty_args ce (aq_ToolArgs a))),
     (''Justification'', CStr (aq_Justification a)), (''PolicyID'', CStr (aq_PolicyID a)), (''Message'', CStr (aq_ViolationMsg a)),
     (''RequestedAt'', CTime (aq_RequestedAt a)), (''ExpiresAt'', CTime (aq_ExpiresAt a))]"

definition queue_user :: "ApprovalRequestRow \<Rightarrow> string" where
  "queue_user a = (if aq_UserID a = [] then ''unknown'' else aq_UserID a)"

definition group_by_user :: "'p console_env \<Rightarrow> ApprovalRequestRow list \<Rightarrow> content list" where
  "group_by_user ce rows =
     (let rows = filter (\<lambda>a. aq_Status a = ''PENDING'') rows; users = rev (remdups (rev (map queue_user rows)))
      in map (\<lambda>u. let mine = filter (\<lambda>a. queue_user a = u) rows
                 in CMap [(''UserID'', CStr u), (''UserEmail'', CStr (aq_UserEmail (hd mine))), (''Items'', CList (map (queue_item ce) mine))]) users)"

definition UserQueuesPageHandler :: "'p console_env \<Rightarrow> web_request \<Rightarrow> 'p EnforcerHandler \<Rightarrow> 'p console_reply" where
  "UserQueuesPageHandler ce r h =
     (let show = (\<lambda>rows n. template ce ''admin_enforcer_user_queues.html'' [(''User'', user_content r), (''ByUser'', CList rows), (''Total'', CInt n)])
      in case enf_of h of
           None \<Rightarrow> Some (show [] 0, h)
         | Some e \<Rightarrow>
             (case ListUserPendingApprovals e of
                Inl err \<Rightarrow> Some (error_reply ce [] err 500, h)
              | Inr approvals \<Rightarrow> Some (show (group_by_user ce approvals) (int (length approvals)), h)))"

section \<open>Kill switches\<close>

definition switch_scope :: "string \<Rightarrow> string" where
  "switch_scope scope = (if scope = [] then ''global'' else scope)"

definition Web_EnableKillSwitch :: "'p console_env \<Rightarrow> web_request \<Rightarrow> 'p EnforcerHandler \<Rightarrow> 'p console_reply" where
  "Web_EnableKillSwitch ce r h =
     (if wq_method r \<noteq> ''POST'' then Some (web_not_allowed, h)
      else case enf_of h of
             None \<Rightarrow> Some (requireEnforcer, h)
           | Some e \<Rightarrow>
               (case decode_fields ce (wq_body r) ''scope'' ''reason'' of
                  None \<Rightarrow> Some ([OutError ''Invalid JSON'' 400], h)
                | Some (scope, reason) \<Rightarrow>
                    (case run_enf (EnableKillSwitch (ce_env ce) (switch_scope scope) ''admin'' reason) e h of
                       (Some err, h) \<Rightarrow> Some (error_reply ce ''Failed to enable kill switch: '' err 500, h)
                     | (None, h) \<Rightarrow> Some (json_reply (JObj [(''success'', JBool True), (''message'', JStr ''Kill switch enabled''),
                           (''scope'', JStr (switch_scope scope))]), h))))"

definition Web_DisableKillSwitch :: "'p console_env \<Rightarrow> web_request \<Rightarrow> 'p EnforcerHandler \<Rightarrow> 'p console_reply" where
  "Web_DisableKillSwitch ce r h =
     (if wq_method r \<noteq> ''POST'' then Some (web_not_allowed, h)
      else case enf_of h of
             None \<Rightarrow> Some (requireEnforcer, h)
           | Some e \<Rightarrow>
               (case decode_fields ce (wq_body r) ''scope'' ''scope'' of
                  None \<Rightarrow> Some ([OutError ''Invalid JSON'' 400], h)
                | Some (scope, _) \<Rightarrow>
                    (case run_enf (DisableKillSwitch (ce_env ce) (switch_scope scope)) e h of
                       (Some err, h) \<Rightarrow> Some (error_reply ce ''Failed to disable kill switch: '' err 500, h)
                     | (None, h) \<Rightarrow> Some (json_reply (JObj [(''success'', JBool True), (''message'', JStr ''Kill switch disabled''),
                           (''scope'', JStr (switch_scope scope))]), h))))"

section \<open>Event streams\<close>

definition sse_event :: "string \<Rightarrow> web_output" where
  "sse_event d = OutEvent (''data: '' @ d @ [CHR 0x0A, CHR 0x0A])"

definition ping_text :: "string \<Rightarrow> string" where
  "ping_text gap = ''{'' @ [CHR 0x22] @ ''type'' @ [CHR 0x22] @ '':'' @ gap @ [CHR 0x22] @ ''ping'' @ [CHR 0x22] @ ''}''"

text \<open>The opening of a stream, with or without the header against buffering proxies, and one tick of the administrator's stream.\<close>

definition SSE_open :: "bool \<Rightarrow> string \<Rightarrow> web_output list" where
  "SSE_open unbuffered gap = [OutHeader ''Content-Type'' ''text/event-stream'', OutHeader ''Cache-Control'' ''no-cache'', OutHeader ''Connection'' ''keep-alive''] @
     (if unbuffered then [OutHeader ''X-Accel-Buffering'' ''no''] else []) @
     [sse_event (''{'' @ [CHR 0x22] @ ''type'' @ [CHR 0x22] @ '':'' @ gap @ [CHR 0x22] @ ''connected'' @ [CHR 0x22] @ ''}'')]"

definition SSE_tick :: "'p console_env \<Rightarrow> 'p Enforcer \<Rightarrow> web_output" where
  "SSE_tick ce e =
     (case ListPendingApprovals e of
        Inr (a # as) \<Rightarrow> sse_event (env_marshal (ce_env ce) (JObj [(''type'', JStr ''pending_count''), (''count'', JNum (of_int (int (length (a # as))))),
          (''approval_id'', JStr (aq_ID a))]))
      | _ \<Rightarrow> sse_event (ping_text '' ''))"

text \<open>One tick of a user's stream, with the count last reported, initially -1.\<close>

definition UserSSE_tick :: "'p console_env \<Rightarrow> string \<Rightarrow> 'p Enforcer option \<Rightarrow> int \<Rightarrow> web_output \<times> int" where
  "UserSSE_tick ce userID en lastCount =
     (let ping = sse_event (ping_text [])
      in case en of
           None \<Rightarrow> (ping, lastCount)
         | Some e \<Rightarrow>
             (case ListUserPendingApprovals e of
                Inl _ \<Rightarrow> (ping, lastCount)
              | Inr approvals \<Rightarrow>
                  (let mine = filter (\<lambda>a. aq_UserID a = userID) approvals; count = int (length mine)
                   in if count = lastCount then (ping, lastCount)
                      else (sse_event (env_marshal (ce_env ce) (JObj ([(''type'', JStr ''pending_count''), (''count'', JNum (of_int count))] @
                              (if count > 0 then [(''approval_id'', JStr (aq_ID (hd mine)))] else [])))), count))))"

section \<open>Policies\<close>

definition policies_content :: "PolicyRow list \<Rightarrow> content" where
  "policies_content ps = CList (map CPolicy ps)"

definition PoliciesPageHandler :: "'p console_env \<Rightarrow> web_request \<Rightarrow> 'p EnforcerHandler \<Rightarrow> 'p console_reply" where
  "PoliciesPageHandler ce r h =
     (case enf_of h of
        None \<Rightarrow> Some (requireEnforcer, h)
      | Some e \<Rightarrow>
          (case ListPolicies e of
             Inl err \<Rightarrow> Some (error_reply ce [] err 500, h)
           | Inr ps \<Rightarrow> Some (template ce ''admin_enforcer_policies.html'' [(''User'', user_content r), (''Data'', policies_content ps)], h)))"

definition UserPoliciesPageHandler :: "'p console_env \<Rightarrow> web_request \<Rightarrow> 'p EnforcerHandler \<Rightarrow> 'p console_reply" where
  "UserPoliciesPageHandler ce r h =
     (case wq_user r of
        None \<Rightarrow> Some (unauthorized_user, h)
      | Some user \<Rightarrow>
          Some (template ce ''user_enforcer_policies.html'' [(''User'', CUser user),
            (''Data'', case enf_of h of None \<Rightarrow> CList [] | Some e \<Rightarrow> (case ListPolicies e of Inl _ \<Rightarrow> CList [] | Inr ps \<Rightarrow> policies_content ps))], h))"

definition PoliciesNewPageHandler :: "'p console_env \<Rightarrow> web_request \<Rightarrow> 'p EnforcerHandler \<Rightarrow> 'p console_reply" where
  "PoliciesNewPageHandler ce r h =
     (let q = query_value r
      in Some (template ce ''admin_enforcer_policies_new.html'' [(''User'', user_content r), (''Prefill'', CMap [(''tool'', CStr (q ''prefill_tool'')),
           (''backend'', CStr (q ''prefill_backend'')), (''action'', CStr (q ''prefill_action'')), (''severity'', CStr (q ''prefill_severity'')),
           (''expression'', CStr (q ''prefill_expression'')), (''from_approval'', CStr (q ''from_approval''))])], h))"

text \<open>The policy of a form. The times and the dispositions have their zero values; the enforcer's store is what writes the row.\<close>

definition policy_of_form :: "'p console_env \<Rightarrow> web_request \<Rightarrow> PolicyRow" where
  "policy_of_form ce r =
     (let p = form_value r ''priority''; v = form_value r
      in \<lparr>pr_ID = v ''id'', pr_Name = v ''name'', pr_Description = v ''description'', pr_Scope = v ''scope'', pr_Expression = v ''expression'',
          pr_Action = v ''action'', pr_Severity = v ''severity'', pr_Message = v ''message'', pr_Enabled = (v ''enabled'' = ''on''),
          pr_Priority = (if p = [] then 100 else case ce_sscan ce p of Some n \<Rightarrow> n | None \<Rightarrow> 100), pr_Locked = (v ''locked'' = ''on''),
          pr_CreatedAt = 0, pr_UpdatedAt = 0, pr_DispositionsJSON = []\<rparr>)"

definition PoliciesCreateHandler :: "'p console_env \<Rightarrow> web_request \<Rightarrow> 'p EnforcerHandler \<Rightarrow> 'p console_reply" where
  "PoliciesCreateHandler ce r h =
     (if wq_method r \<noteq> ''POST'' then Some (web_not_allowed, h)
      else if wq_form r = None then Some (error_reply ce [] (ErrNew ''invalid form'') 400, h)
      else case enf_of h of
             None \<Rightarrow> None
           | Some e \<Rightarrow>
               (case run_enf (Enforcer_AddPolicy (ce_env ce) (policy_of_form ce r)) e h of
                  (Some err, h) \<Rightarrow> Some (error_reply ce [] err 500, h)
                | (None, h) \<Rightarrow>
                    (let fromApproval = form_value r ''from_approval''
                     in if fromApproval = [] then Some ([OutRedirect ''/web/admin/enforcer/policies''], h)
                        else case enf_of h of
                               None \<Rightarrow> None
                             | Some e \<Rightarrow>
                                 (case run_enf (ExecuteApprovedRequest (ce_env ce) fromApproval ''admin'' ''Policy created from request'') e h of
                                    (Inl _, h) \<Rightarrow> Some ([OutRedirect ''/web/admin/enforcer/policies?warning=policy_created_execution_failed''], h)
                                  | (Inr _, h) \<Rightarrow> Some ([OutRedirect ''/web/admin/enforcer/policies''], h)))))"

definition PoliciesDeleteHandler :: "'p console_env \<Rightarrow> web_request \<Rightarrow> 'p EnforcerHandler \<Rightarrow> 'p console_reply" where
  "PoliciesDeleteHandler ce r h =
     (let policyID = query_value r ''id''
      in if wq_method r \<noteq> ''POST'' then Some (web_not_allowed, h)
         else if policyID = [] then Some ([OutError ''policy id required'' 400], h)
         else case enf_of h of
                None \<Rightarrow> None
              | Some e \<Rightarrow>
                  (case run_enf (Enforcer_DeletePolicy (ce_env ce) policyID) e h of
                     (Some err, h) \<Rightarrow> Some (error_reply ce [] err 500, h)
                   | (None, h) \<Rightarrow> Some ([OutRedirect ''/web/admin/enforcer/policies''], h)))"

definition PoliciesEditPageHandler :: "'p console_env \<Rightarrow> web_request \<Rightarrow> 'p EnforcerHandler \<Rightarrow> 'p console_reply" where
  "PoliciesEditPageHandler ce r h =
     (let policyID = query_value r ''id''
      in if policyID = [] then Some ([OutError ''policy id required'' 400], h)
         else case enf_of h of
                None \<Rightarrow> None
              | Some e \<Rightarrow>
                  (case GetPolicy policyID e of
                     Inl err \<Rightarrow> Some (error_reply ce ''policy not found: '' err 404, h)
                   | Inr p \<Rightarrow> Some (template ce ''admin_enforcer_policies_edit.html'' [(''User'', user_content r), (''Policy'', CPolicy p)], h)))"

definition PoliciesUpdateHandler :: "'p console_env \<Rightarrow> web_request \<Rightarrow> 'p EnforcerHandler \<Rightarrow> 'p console_reply" where
  "PoliciesUpdateHandler ce r h =
     (if wq_method r \<noteq> ''POST'' then Some (web_not_allowed, h)
      else if wq_form r = None then Some (error_reply ce [] (ErrNew ''invalid form'') 400, h)
      else case enf_of h of
             None \<Rightarrow> None
           | Some e \<Rightarrow>
               (case run_enf (Enforcer_UpdatePolicy (ce_env ce) (policy_of_form ce r)) e h of
                  (Some err, h) \<Rightarrow> Some (error_reply ce [] err 500, h)
                | (None, h) \<Rightarrow> Some ([OutRedirect ''/web/admin/enforcer/policies''], h)))"

definition json_policy :: "'p console_env \<Rightarrow> PolicyRow \<Rightarrow> json" where
  "json_policy ce p = JObj [(''ID'', JStr (pr_ID p)), (''Name'', JStr (pr_Name p)), (''Description'', JStr (pr_Description p)),
     (''Scope'', JStr (pr_Scope p)), (''Expression'', JStr (pr_Expression p)), (''Action'', JStr (pr_Action p)), (''Severity'', JStr (pr_Severity p)),
     (''Message'', JStr (pr_Message p)), (''Enabled'', JBool (pr_Enabled p)), (''Priority'', JNum (of_int (pr_Priority p))),
     (''Locked'', JBool (pr_Locked p)), (''CreatedAt'', ce_time ce (pr_CreatedAt p)), (''UpdatedAt'', ce_time ce (pr_UpdatedAt p)),
     (''DispositionsJSON'', JStr (pr_DispositionsJSON p))]"

definition Web_ListPolicies :: "'p console_env \<Rightarrow> web_request \<Rightarrow> 'p EnforcerHandler \<Rightarrow> 'p console_reply" where
  "Web_ListPolicies ce r h =
     (case enf_of h of
        None \<Rightarrow> None
      | Some e \<Rightarrow>
          (case ListPolicies e of
             Inl err \<Rightarrow> Some (error_reply ce [] err 500, h)
           | Inr ps \<Rightarrow> Some (json_reply (if ps = [] then JNull else JArr (map (json_policy ce) ps)), h)))"

section \<open>Profiles and overrides\<close>

definition profile_view :: "BackendProfileSummary list \<Rightarrow> EnforcerOverrideRow list \<Rightarrow> Backend \<Rightarrow> content" where
  "profile_view summaries overrides b =
     (let s = (case List.find (\<lambda>x. BackendStore.ps_BackendID x = be_ID b) summaries of Some x \<Rightarrow> x
               | None \<Rightarrow> \<lparr>ps_BackendID = [], ps_ToolCount = 0, ps_HighRiskCount = 0, ps_MediumRiskCount = 0, ps_LowRiskCount = 0\<rparr>)
      in CMap [(''BackendID'', CStr (be_ID b)), (''HasProfiles'', CBool (list_ex (\<lambda>x. BackendStore.ps_BackendID x = be_ID b) summaries)),
           (''ToolCount'', CInt (ps_ToolCount s)), (''HighRiskCount'', CInt (ps_HighRiskCount s)), (''MediumRiskCount'', CInt (ps_MediumRiskCount s)),
           (''LowRiskCount'', CInt (ps_LowRiskCount s)),
           (''OverrideCount'', CInt (int (length (filter (\<lambda>ov. eo_BackendID ov = be_ID b) overrides))))])"

definition ToolProfilesPageHandler :: "'p console_env \<Rightarrow> web_request \<Rightarrow> 'p EnforcerHandler \<Rightarrow> 'p console_reply" where
  "ToolProfilesPageHandler ce r h =
     (case Store_ListBackendProfileSummaries (eh_db h) of
        Inl err \<Rightarrow> Some (error_reply ce [] err 500, h)
      | Inr summaries \<Rightarrow>
          (case Store_ListBackends (we_lib (ce_web ce)) (we_sys (ce_web ce)) (eh_store h) of
             (Inl err, st) \<Rightarrow> Some (error_reply ce [] err 500, h\<lparr>eh_store := st\<rparr>)
           | (Inr backends, st) \<Rightarrow>
               (let h = h\<lparr>eh_store := st\<rparr>; overrides = or_none (ES_ListOverrides (eh_db h));
                    views = map (profile_view summaries overrides) (filter (\<lambda>b. be_Enabled b \<and> \<not> be_IsSystem b) backends)
                in Some (template ce ''admin_enforcer_profiles.html'' [(''User'', user_content r), (''Backends'', CList views)], h))))"

definition tool_view :: "string \<Rightarrow> EnforcerOverrideRow list \<Rightarrow> ToolProfileRow \<Rightarrow> content" where
  "tool_view backendID overrides p =
     (let ov = List.find (\<lambda>x. eo_BackendID x = backendID \<and> eo_ToolName x = tp_ToolName p) (rev overrides)
      in CMap [(''ToolName'', CStr (tp_ToolName p)), (''RiskLevel'', CStr (tp_RiskLevel p)), (''ImpactScope'', CStr (tp_ImpactScope p)),
           (''ResourceCost'', CInt (tp_ResourceCost p)), (''RequiresHITL'', CBool (tp_RequiresHITL p)), (''PIIExposure'', CBool (tp_PIIExposure p)),
           (''Idempotent'', CBool (tp_Idempotent p)), (''HasOverride'', CBool (ov \<noteq> None)),
           (''EffectiveRisk'', CStr (case ov of Some x \<Rightarrow> eo_RiskLevel x | None \<Rightarrow> tp_RiskLevel p)),
           (''Override'', case ov of Some x \<Rightarrow> COverride x | None \<Rightarrow> CNil), (''ScannedAt'', CTime (tp_ScannedAt p))])"

definition BackendToolProfilesHandler :: "'p console_env \<Rightarrow> web_request \<Rightarrow> 'p EnforcerHandler \<Rightarrow> 'p console_reply" where
  "BackendToolProfilesHandler ce r h =
     (let backendID = query_value r ''backend_id''
      in if backendID = [] then Some ([OutRedirect ''/web/admin/enforcer/profiles''], h)
         else case Store_GetToolProfilesByBackend backendID (eh_db h) of
                Inl err \<Rightarrow> Some (error_reply ce [] err 500, h)
              | Inr profiles \<Rightarrow>
                  (let overrides = or_none (ES_ListOverrides (eh_db h))
                   in Some (template ce ''admin_enforcer_profiles_backend.html'' [(''User'', user_content r), (''BackendID'', CStr backendID),
                        (''Profiles'', CList (map (tool_view backendID overrides) profiles)), (''ProfileCount'', CInt (int (length profiles)))], h)))"

definition prefill :: "web_request \<Rightarrow> content" where
  "prefill r = CMap [(''tool_name'', CStr (query_value r ''tool_name'')), (''backend_id'', CStr (query_value r ''backend_id''))]"

definition OverridesPageHandler :: "'p console_env \<Rightarrow> web_request \<Rightarrow> 'p EnforcerHandler \<Rightarrow> 'p console_reply" where
  "OverridesPageHandler ce r h =
     (case ES_ListOverrides (eh_db h) of
        Inl err \<Rightarrow> Some (error_reply ce [] err 500, h)
      | Inr overrides \<Rightarrow> Some (template ce ''admin_enforcer_overrides.html'' [(''User'', user_content r),
            (''Overrides'', CList (map COverride overrides)), (''Prefill'', prefill r)], h))"

definition override_of_form :: "'p console_env \<Rightarrow> web_request \<Rightarrow> string \<Rightarrow> string \<Rightarrow> EnforcerOverrideRow" where
  "override_of_form ce r toolName userID =
     (let backendID = form_value r ''backend_id''; i = form_value r ''id''
      in \<lparr>eo_ID = (if i = [] then ''override-'' @ backendID @ ''-'' @ toolName else i), eo_ToolName = toolName, eo_BackendID = backendID,
          eo_RiskLevel = form_value r ''risk_level'', eo_ImpactScope = form_value r ''impact_scope'', eo_ResourceCost = 5,
          eo_RequiresHITL = (form_value r ''requires_hitl'' = ''on''), eo_PIIExposure = (form_value r ''pii_exposure'' = ''on''),
          eo_UserID = userID, eo_CreatedAt = ce_now ce, eo_UpdatedAt = ce_now ce\<rparr>)"

text \<open>The error of \<open>RegisterOverride\<close>, for a risk or scope that is empty, is ignored.\<close>

definition OverrideCreateHandler :: "'p console_env \<Rightarrow> web_request \<Rightarrow> 'p EnforcerHandler \<Rightarrow> 'p console_reply" where
  "OverrideCreateHandler ce r h =
     (if wq_method r \<noteq> ''POST'' then Some (web_not_allowed, h)
      else if wq_form r = None then Some (error_reply ce [] (ErrNew ''invalid form'') 400, h)
      else
        let ov = override_of_form ce r (form_value r ''tool_name'') []
        in case ES_UpsertOverride ov (eh_db h) of
             Inl err \<Rightarrow> Some (error_reply ce [] err 500, h)
           | Inr db \<Rightarrow>
               (let h = set_eh_db db h;
                    profile = zeroSafetyProfile\<lparr>sp_ToolName := eo_ToolName ov, sp_BackendID := eo_BackendID ov, sp_Risk := eo_RiskLevel ov,
                      sp_Impact := eo_ImpactScope ov, sp_Cost := eo_ResourceCost ov, sp_RequiresHITL := eo_RequiresHITL ov,
                      sp_PIIExposure := eo_PIIExposure ov, sp_Source := ''override''\<rparr>;
                    h = (case enf_of h of None \<Rightarrow> h
                         | Some e \<Rightarrow> snd (run_enf (Enforcer_RegisterOverride (eo_ToolName ov) (eo_BackendID ov) profile) e h))
                in Some ([OutRedirect ''/web/admin/enforcer/profiles''], h)))"

definition OverrideDeleteHandler :: "'p console_env \<Rightarrow> web_request \<Rightarrow> 'p EnforcerHandler \<Rightarrow> 'p console_reply" where
  "OverrideDeleteHandler ce r h =
     (let toolName = query_value r ''tool_name''; backendID = query_value r ''backend_id''
      in if wq_method r \<noteq> ''POST'' then Some (web_not_allowed, h)
         else if toolName = [] \<or> backendID = [] then Some ([OutError ''tool_name and backend_id are required'' 400], h)
         else case ES_DeleteOverride toolName backendID (eh_db h) of
                Inl err \<Rightarrow> Some (error_reply ce [] err 500, h)
              | Inr db \<Rightarrow>
                  (let h = set_eh_db db h;
                       h = (case enf_of h of None \<Rightarrow> h | Some e \<Rightarrow> snd (run_enf (Enforcer_RemoveOverride toolName backendID) e h))
                   in Some ([OutRedirect ''/web/admin/enforcer/profiles''], h)))"

definition UserOverridesPageHandler :: "'p console_env \<Rightarrow> web_request \<Rightarrow> 'p EnforcerHandler \<Rightarrow> 'p console_reply" where
  "UserOverridesPageHandler ce r h =
     (if wq_method r \<noteq> ''GET'' then Some (web_not_allowed, h)
      else case wq_user r of
             None \<Rightarrow> Some (unauthorized_user, h)
           | Some user \<Rightarrow>
               (case ES_ListUserOverrides (us_ID user) (eh_db h) of
                  Inl err \<Rightarrow> Some (error_reply ce [] err 500, h)
                | Inr overrides \<Rightarrow> Some (template ce ''user_enforcer_overrides.html'' [(''User'', CUser user),
                      (''Overrides'', CList (map COverride overrides)), (''Prefill'', prefill r)], h)))"

definition UserOverrideCreateHandler :: "'p console_env \<Rightarrow> web_request \<Rightarrow> 'p EnforcerHandler \<Rightarrow> 'p console_reply" where
  "UserOverrideCreateHandler ce r h =
     (if wq_method r \<noteq> ''POST'' then Some (web_not_allowed, h)
      else case wq_user r of
             None \<Rightarrow> Some (unauthorized_user, h)
           | Some user \<Rightarrow>
               if wq_form r = None then Some (error_reply ce [] (ErrNew ''invalid form'') 400, h)
               else
                 let t = form_value r ''tool_name'';
                     toolName = (case ES_GetToolPrefix (form_value r ''backend_id'') (eh_db h) of
                                   Inl _ \<Rightarrow> t
                                 | Inr prefix \<Rightarrow> if prefix = [] then t else TrimPrefix (TrimPrefix t (prefix @ ''_'')) (prefix @ ''/''))
                 in case ES_UpsertOverride (override_of_form ce r toolName (us_ID user)) (eh_db h) of
                      Inl err \<Rightarrow> Some (error_reply ce [] err 500, h)
                    | Inr db \<Rightarrow> Some ([OutRedirect ''/web/user/enforcer/overrides''], set_eh_db db h))"

definition delete_user_override :: "string \<Rightarrow> string \<Rightarrow> string \<Rightarrow> db \<Rightarrow> goerr + db" where
  "delete_user_override toolName backendID userID db = stmt ''UserOverrideDelete'' db
     (Inr (db\<lparr>db_overrides := delete_where (\<lambda>ov. eo_ToolName ov = toolName \<and> eo_BackendID ov = backendID \<and>
        eo_UserID ov \<noteq> [] \<and> eo_UserID ov = userID) (db_overrides db)\<rparr>))"

definition UserOverrideDeleteHandler :: "'p console_env \<Rightarrow> web_request \<Rightarrow> 'p EnforcerHandler \<Rightarrow> 'p console_reply" where
  "UserOverrideDeleteHandler ce r h =
     (let toolName = query_value r ''tool_name''; backendID = query_value r ''backend_id''
      in if wq_method r \<noteq> ''POST'' then Some (web_not_allowed, h)
         else case wq_user r of
                None \<Rightarrow> Some (unauthorized_user, h)
              | Some user \<Rightarrow>
                  if toolName = [] \<or> backendID = [] then Some ([OutError ''tool_name and backend_id are required'' 400], h)
                  else (case delete_user_override toolName backendID (us_ID user) (eh_db h) of
                          Inl err \<Rightarrow> Some (error_reply ce ''Failed to delete override: '' err 500, h)
                        | Inr db \<Rightarrow> Some ([OutRedirect ''/web/user/enforcer/overrides''], set_eh_db db h)))"

section \<open>Rate limits\<close>

definition percentage_used :: "int \<Rightarrow> int \<Rightarrow> int" where
  "percentage_used capacity level =
     (if capacity > 0 then case goquot (wrap64 (wrap64 (capacity - level) * 100)) capacity of Some n \<Rightarrow> n | None \<Rightarrow> 0 else 0)"

definition bucket_view :: "RateLimitStateDisplay \<Rightarrow> content" where
  "bucket_view b = CMap [(''UserID'', CStr (sdd_UserID b)), (''BackendID'', CStr (sdd_BackendID b)), (''BucketType'', CStr (sdd_BucketType b)),
     (''Capacity'', CInt (sdd_Capacity b)), (''CurrentLevel'', CInt (sdd_CurrentLevel b)), (''RefillRate'', CInt (sdd_RefillRate b)),
     (''PercentageUsed'', CInt (percentage_used (sdd_Capacity b) (sdd_CurrentLevel b)))]"

definition config_view :: "RateLimitConfigDisplay \<Rightarrow> content" where
  "config_view c = CMap [(''BackendID'', CStr (cdd_BackendID c)), (''RiskCapacity'', CInt (cdd_RiskCapacity c)), (''RiskRefill'', CInt (cdd_RiskRefill c)),
     (''ResCapacity'', CInt (cdd_ResCapacity c)), (''ResRefill'', CInt (cdd_ResRefill c))]"

definition ListRateLimits :: "'p console_env \<Rightarrow> web_request \<Rightarrow> 'p EnforcerHandler \<Rightarrow> 'p console_reply" where
  "ListRateLimits ce r h =
     (if wq_method r \<noteq> ''GET'' then Some (web_not_allowed, h)
      else case enf_of h of
             None \<Rightarrow> Some (requireEnforcer, h)
           | Some e \<Rightarrow> Some (template ce ''admin_ratelimits.html'' [(''User'', user_content r), (''Title'', CStr ''Rate Limits''),
                 (''Data'', CList (map bucket_view (GetAllRateLimitStates e))), (''Configs'', CList (map config_view (GetRateLimitConfigs e))),
                 (''Error'', CStr (query_value r ''error'')), (''Success'', CStr (query_value r ''success''))], h))"

definition positive_or :: "int \<Rightarrow> int \<Rightarrow> int" where
  "positive_or n d = (if n \<le> 0 then d else n)"

definition UpdateRateLimitConfig :: "'p console_env \<Rightarrow> web_request \<Rightarrow> 'p EnforcerHandler \<Rightarrow> 'p console_reply" where
  "UpdateRateLimitConfig ce r h =
     (let backendID = form_value r ''backend_id''; n = (\<lambda>k d. positive_or (web_parseInt (form_value r k)) d)
      in if wq_method r \<noteq> ''POST'' then Some (web_not_allowed, h)
         else case enf_of h of
                None \<Rightarrow> Some (requireEnforcer, h)
              | Some e \<Rightarrow>
                  if backendID = [] then Some ([OutRedirect ''/web/admin/ratelimits?error=Backend+ID+required''], h)
                  else Some ([OutRedirect (''/web/admin/ratelimits?success=Rate+limit+config+updated+for+'' @ backendID)],
                    snd (run_enf (\<lambda>e. ((), SetRateLimitConfig backendID (n ''risk_capacity'' 100) (n ''risk_refill'' 20)
                      (n ''resource_capacity'' 200) (n ''resource_refill'' 40) e)) e h)))"

definition ResetUserBuckets_page :: "'p console_env \<Rightarrow> web_request \<Rightarrow> 'p EnforcerHandler \<Rightarrow> 'p console_reply" where
  "ResetUserBuckets_page ce r h =
     (if wq_method r \<noteq> ''POST'' then Some (web_not_allowed, h)
      else case enf_of h of
             None \<Rightarrow> Some (requireEnforcer, h)
           | Some e \<Rightarrow>
               if form_value r ''user_id'' = [] then Some ([OutRedirect ''/web/admin/ratelimits?error=User+ID+required''], h)
               else Some ([OutRedirect ''/web/admin/ratelimits?success=Rate+limits+reset+for+user''],
                 snd (run_enf (\<lambda>e. ((), ResetUserRateLimit (ce_env ce) (form_value r ''user_id'') (form_value r ''backend_id'') e)) e h)))"

definition GetRateLimitsAPI :: "'p console_env \<Rightarrow> web_request \<Rightarrow> 'p EnforcerHandler \<Rightarrow> 'p console_reply" where
  "GetRateLimitsAPI ce r h =
     (case enf_of h of
        None \<Rightarrow> Some (requireEnforcer, h)
      | Some e \<Rightarrow>
          if query_value r ''user_id'' = [] then Some ([OutError ''user_id is required'' 400], h)
          else Some (json_reply (JObj (GetRateLimitStatus (query_value r ''user_id'') (query_value r ''backend_id'') e)), h))"

section \<open>Who can approve\<close>

lemma enf_of_sel: "enf_of h = Some e' \<Longrightarrow> ef_store e' = eh_db h \<and> (\<exists>e. eh_enforcer h = Some e \<and> ef_executor e' = ef_executor e)"
  by (auto simp: enf_of_def eh_db_def)

lemma run_enf_db: "run_enf f e h = (res, h') \<Longrightarrow> \<exists>e'. f e = (res, e') \<and> eh_db h' = ef_store e' \<and> eh_enforcer h' = Some e'"
  by (auto simp: run_enf_def eh_db_def split: prod.splits)

text \<open>C38: Any user approves any request: for whatever request waits in the database, of another user or in the queue of the administrators,
  a signed-in user who posts its identifier has it approved in his name and executed for its owner. Neither his role nor the
  owner nor the queue is looked at.\<close>

theorem user_approves_any_request:
  assumes "wq_method r = ''POST''" and "wq_user r = Some user"
    and "decode_fields ce (wq_body r) ''approval_id'' ''comments'' = Some (i, comments)" and "i \<noteq> []"
    and "eh_enforcer h = Some e" and "ef_executor e = Some ex" and "fault_free (eh_db h)" and "unique_on aq_ID (db_approvals (eh_db h))"
    and "ES_GetApprovalRequest i (eh_db h) = Inr a"
  shows "\<exists>out h' a'. UserApproveRequest ce r h = Some (out, h') \<and> ES_GetApprovalRequest i (eh_db h') = Inr a' \<and> aq_ApprovedBy a' = Some (us_ID user) \<and>
    aq_Status a' = (case ex (aq_UserID a) (aq_BackendID a) (aq_RequestBody a) of Inl _ \<Rightarrow> ''FAILED'' | Inr _ \<Rightarrow> ''COMPLETED'')"
proof -
  let ?e = "e\<lparr>ef_store := eh_db h\<rparr>"
  have get: "GetApprovalRequest i ?e = Inr a" using assms(9) by (simp add: GetApprovalRequest_def)
  obtain a' e' where ex: "ExecuteApprovedRequest (ce_env ce) i (us_ID user) comments ?e = (Inr a', e')" "GetApprovalRequest i e' = Inr a'"
      "aq_ApprovedBy a' = Some (us_ID user)"
      "case ex (aq_UserID a) (aq_BackendID a) (aq_RequestBody a) of
         Inl msg \<Rightarrow> aq_Status a' = ''FAILED'' \<and> aq_ErrorMsg a' = msg
       | Inr (status, body) \<Rightarrow> aq_Status a' = ''COMPLETED'' \<and> aq_ResponseStatus a' = status \<and> aq_ResponseBody a' = body"
    using execute_approved [of ?e i a ex "ce_env ce" "us_ID user" comments] get assms(6-8) by auto
  have "enf_of h = Some ?e" using assms(5) by (simp add: enf_of_def eh_db_def)
  then have "\<exists>out h'. UserApproveRequest ce r h = Some (out, h') \<and> eh_db h' = ef_store e'"
    using assms(1-4) ex(1) by (simp add: UserApproveRequest_def approve_reply_def run_enf_def eh_db_def)
  with ex(2-4) show ?thesis by (fastforce simp: GetApprovalRequest_def split: sum.splits)
qed

text \<open>Editing a policy in the console drops its dispositions.\<close>

lemma edited_policy_loses_dispositions:
  assumes "PoliciesUpdateHandler ce r h = Some ([OutRedirect url], h')" and "fault_free (eh_db h)" and "p \<in> set (db_policies (eh_db h'))"
    and "pr_ID p = form_value r ''id''"
  shows "pr_DispositionsJSON p = []"
proof -
  let ?e = "\<lambda>e. e\<lparr>ef_store := st_db (eh_store h)\<rparr>"
  from assms(1) obtain e where "run_enf (Enforcer_UpdatePolicy (ce_env ce) (policy_of_form ce r)) (?e e) h = (None, h')"
    by (auto simp: PoliciesUpdateHandler_def enf_of_def web_not_allowed_def error_reply_def split: if_splits option.splits prod.splits)
  from run_enf_db [OF this] obtain e' where "Enforcer_UpdatePolicy (ce_env ce) (policy_of_form ce r) (?e e) = (None, e')" "eh_db h' = ef_store e'" by blast
  then obtain db where "ES_UpdatePolicy (policy_of_form ce r) (eh_db h) = Inr db" "db_policies (eh_db h') = db_policies db"
    by (auto simp: Enforcer_UpdatePolicy_def loadPolicies_def eh_db_def Let_def split: sum.splits prod.splits)
  then show ?thesis using assms(2-4)
    by (auto simp: ES_UpdatePolicy_def update_where_def policy_of_form_def Let_def split: if_splits)
qed

section \<open>A run\<close>

definition eve :: User where
  "eve = auth_user\<lparr>us_ID := ''eve''\<rparr>"

definition approve_body :: json where
  "approve_body = JObj [(''approval_id'', JStr ''a1'')]"

definition sample_console :: "bool console_env" where
  "sample_console = \<lparr>ce_env = sample_env, ce_web = sample_web_env, ce_decode = (\<lambda>_. Inr approve_body), ce_indent = (\<lambda>_. Inl ErrNoRows),
     ce_sscan = (\<lambda>_. None), ce_time = (\<lambda>_. JNull), ce_null_time = (\<lambda>_. JNull)\<rparr>"

definition console :: "bool EnforcerHandler" where
  "console = \<lparr>eh_enforcer = Some approvals_enforcer, eh_store = \<lparr>st_db = approvals_db, st_keyStore = None\<rparr>\<rparr>"

theorem user_approves_any_request_witness:
  "\<exists>out h' a'. aq_UserID (sample_approval ''a1'' ''PENDING'' 150) \<noteq> us_ID eve \<and> us_Role eve = ''user'' \<and>
     UserApproveRequest sample_console ((web_req [] [])\<lparr>wq_user := Some eve\<rparr>) console = Some (out, h') \<and>
     ES_GetApprovalRequest ''a1'' (eh_db h') = Inr a' \<and> aq_ApprovedBy a' = Some ''eve'' \<and> aq_Status a' = ''COMPLETED''"
proof -
  let ?r = "(web_req [] [])\<lparr>wq_user := Some eve\<rparr>" and ?a = "sample_approval ''a1'' ''PENDING'' 150"
  obtain ex where ex: "ef_executor approvals_enforcer = Some ex" "\<exists>x. ex (aq_UserID ?a) (aq_BackendID ?a) (aq_RequestBody ?a) = Inr x"
    by (simp add: approvals_enforcer_def sample_enforcer_def sample_approval_def)
  have "decode_fields sample_console (wq_body ?r) ''approval_id'' ''comments'' = Some (''a1'', [])"
    by (simp add: decode_fields_def sample_console_def approve_body_def) code_simp
  moreover have "fault_free (eh_db console)" "unique_on aq_ID (db_approvals (eh_db console))" "ES_GetApprovalRequest ''a1'' (eh_db console) = Inr ?a"
    by (simp_all add: eh_db_def console_def approvals_db_def ES_GetApprovalRequest_def query_row_def unique_on_def sample_approval_def empty_db_def
        fault_free_def stmt_def)
  ultimately show ?thesis
    using user_approves_any_request [of ?r eve sample_console "''a1''" "[]" console approvals_enforcer ex ?a] ex
    by (auto simp: web_req_def console_def eve_def auth_user_def sample_approval_def)
qed

end
