(* ===== verification/WebAdmin.thy ===== *)
theory WebAdmin
  imports WebEnforcer
begin

text \<open>
  The administrators' pages for users, backends, OAuth clients and settings (src/web/admin.go). The
  callbacks of the struct \<open>Handler\<close>, set by the main program, are the record \<open>callbacks\<close>; each may change the state.
\<close>

record callbacks =
  cb_OnBackendChange :: "(string \<Rightarrow> string \<Rightarrow> web \<Rightarrow> web) option"
  cb_OnProbeBackend :: "(string \<Rightarrow> string \<Rightarrow> web \<Rightarrow> (goerr + string) \<times> web) option"
  cb_OnResolveEnv :: "(string \<Rightarrow> string \<Rightarrow> string \<Rightarrow> string \<Rightarrow> web \<Rightarrow> (goerr + (string, string) gomap) \<times> web) option"
  cb_OnRefreshTools :: "(string \<Rightarrow> string \<Rightarrow> web \<Rightarrow> (goerr + int) \<times> web) option"

section \<open>Users\<close>

definition AdminUsersHandler :: "web_env \<Rightarrow> web_request \<Rightarrow> web \<Rightarrow> (web_output list \<times> web) option" where
  "AdminUsersHandler env r s =
     (case Store_ListUsers (web_db s) of
        Inl _ \<Rightarrow> Some (web_failed, s)
      | Inr users \<Rightarrow> Some (render env ''admin_users.html'' ((page ''Manage Users'')\<lparr>pd_User := wq_user r, pd_Data := CList (map CUser users),
            pd_Error := query_value r ''error'', pd_Success := query_value r ''success'', pd_Extra := [(''Roles'', CList (map CRole ValidRoles))]\<rparr>), s))"

definition back_to_users :: "string \<Rightarrow> web_output list" where
  "back_to_users msg = [OutRedirect (''/web/admin/users?'' @ msg)]"

definition AdminUsersCreateHandler :: "web_env \<Rightarrow> web_request \<Rightarrow> web \<Rightarrow> (web_output list \<times> web) option" where
  "AdminUsersCreateHandler env r s =
     (let email = TrimSpace (form_value r ''email''); password = form_value r ''password''
      in if wq_method r \<noteq> ''POST'' then Some (web_not_allowed, s)
         else if email = [] \<or> password = [] then Some (back_to_users ''error=Email+and+password+required'', s)
         else case Store_CreateUser (we_now env) (we_bcrypt env) (we_lib env) (we_rng env)
                \<lparr>us_ID = [], us_Name = TrimSpace (form_value r ''name''), us_Email = email, us_Password = password, us_PasswordSalt = [],
                 us_Role = NormalizeRole (form_value r ''role''), us_CreatedAt = 0\<rparr> (web_db s) of
                (Inl _, db) \<Rightarrow> Some (back_to_users ''error=Failed+to+create+user+(email+may+already+exist)'', set_db db s)
              | (Inr _, db) \<Rightarrow> Some (back_to_users ''success=User+created'', set_db db s))"

definition AdminUsersDeleteHandler :: "web_request \<Rightarrow> web \<Rightarrow> (web_output list \<times> web) option" where
  "AdminUsersDeleteHandler r s =
     (if wq_method r \<noteq> ''POST'' then Some (web_not_allowed, s)
      else case wq_user r of
             None \<Rightarrow> None
           | Some currentUser \<Rightarrow>
               if form_value r ''user_id'' = us_ID currentUser then Some (back_to_users ''error=Cannot+delete+yourself'', s)
               else (case Store_DeleteUser (form_value r ''user_id'') (web_db s) of
                       Inl _ \<Rightarrow> Some (back_to_users ''error=Failed+to+delete+user'', s)
                     | Inr db \<Rightarrow> Some (back_to_users ''success=User+deleted'', set_db db s)))"

definition AdminUsersEditHandler :: "web_env \<Rightarrow> web_request \<Rightarrow> web \<Rightarrow> (web_output list \<times> web) option" where
  "AdminUsersEditHandler env r s =
     (let userID = form_value r ''user_id''; email = TrimSpace (form_value r ''email''); pw = form_value r ''password''
      in if wq_method r \<noteq> ''POST'' then Some (web_not_allowed, s)
         else if email = [] then Some (back_to_users ''error=Email+required'', s)
         else case Store_GetUser userID (web_db s) of
                Inl _ \<Rightarrow> Some (back_to_users ''error=User+not+found'', s)
              | Inr existing \<Rightarrow>
                  (case Store_UpdateUser (we_bcrypt env) \<lparr>us_ID = userID, us_Name = TrimSpace (form_value r ''name''), us_Email = email,
                          us_Password = (if pw = [] then us_Password existing else pw), us_PasswordSalt = [],
                          us_Role = NormalizeRole (form_value r ''role''), us_CreatedAt = 0\<rparr> (web_db s) of
                     Inl _ \<Rightarrow> Some (back_to_users ''error=Failed+to+update+user'', s)
                   | Inr db \<Rightarrow> Some (back_to_users ''success=User+updated'', set_db db s)))"

section \<open>Backends\<close>

definition formatMemory :: "int \<Rightarrow> string" where
  "formatMemory bytes =
     (if bytes = 0 then ''--''
      else if bytes > 2 ^ 30 then fixed_point 2 bytes (2 ^ 30) @ '' GB''
      else fixed_point 0 bytes (2 ^ 20) @ '' MB'')"

definition pool_view :: "PoolStatus \<Rightarrow> content" where
  "pool_view p = CMap [(''BackendID'', CStr (pst_BackendID p)), (''UserID'', CStr (pst_UserID p)), (''Command'', CStr (pst_Command p)),
     (''WarmCount'', CInt (pst_WarmCount p)), (''CurrentSize'', CInt (pst_CurrentSize p)), (''MinPoolSize'', CInt (pst_MinPoolSize p)),
     (''MaxPoolSize'', CInt (pst_MaxPoolSize p)), (''TotalMemory'', CStr (formatMemory (pst_MemoryBytes p))),
     (''ProcessMemory'', CList (map (CStr \<circ> formatMemory) (pst_ProcessMemory p)))]"

definition AdminBackendsHandler :: "web_env \<Rightarrow> PoolManager option \<Rightarrow> web_request \<Rightarrow> web \<Rightarrow> (web_output list \<times> web) option" where
  "AdminBackendsHandler env pm r s =
     (case web_backends env s of
        (Inl _, s) \<Rightarrow> Some (web_failed, s)
      | (Inr allBackends, s) \<Rightarrow>
          (case (case pm of None \<Rightarrow> Some [] | Some pm \<Rightarrow> GetAllPools (we_rss env) pm) of
             None \<Rightarrow> None
           | Some pools \<Rightarrow>
               Some (render env ''admin_backends.html'' ((page ''Manage Backends'')\<lparr>pd_User := wq_user r,
                 pd_Data := CList (map CBackend (filter (\<lambda>b. be_ID b \<noteq> ''mcpbridge'') allBackends)),
                 pd_Error := query_value r ''error'', pd_Success := query_value r ''success'',
                 pd_Extra := [(''PoolStatuses'', CList (map pool_view (filter (\<lambda>p. pst_BackendID p \<noteq> ''mcpbridge'') pools))),
                   (''GlobalHints'', CStr (case Store_GetSetting ''global_hints'' (web_db s) of Inl _ \<Rightarrow> [] | Inr v \<Rightarrow> v)),
                   (''UncachedBackends'', CList (map CStr (filter (\<lambda>i. i \<noteq> ''mcpbridge'') (or_none (Store_GetUncachedBackends (web_db s))))))]\<rparr>), s)))"

definition back_to_backends :: "string \<Rightarrow> web_output list" where
  "back_to_backends msg = [OutRedirect (''/web/admin/backends?'' @ msg)]"

definition or_braces :: "string \<Rightarrow> string" where
  "or_braces v = (if v = [] then ''{}'' else v)"

text \<open>The backend of a form; the framing and everything else a form does not have keep their zero values.\<close>

definition backend_of_form :: "web_request \<Rightarrow> string \<Rightarrow> bool \<Rightarrow> Backend" where
  "backend_of_form r i isSystem =
     (let v = (\<lambda>k. TrimSpace (form_value r k)); flag = (\<lambda>k. form_value r k = ''on'');
          n = web_parseInt (form_value r ''min_pool_size''); minPoolSize = (if n > 0 then n else 1);
          ms = web_parseInt (form_value r ''max_pool_size''); maxPoolSize = (if ms > 0 then ms else minPoolSize)
      in \<lparr>be_ID = i, be_Command = v ''command'', be_PoolSize = minPoolSize, be_ToolPrefix = v ''tool_prefix'', be_Env = or_braces (v ''env''),
          be_EnvMappings = or_braces (v ''env_mappings''), be_ToolHints = v ''tool_hints'', be_BackendInstructions = v ''backend_instructions'',
          be_Enabled = flag ''enabled'', be_IsSystem = isSystem, be_MinPoolSize = minPoolSize, be_MaxPoolSize = maxPoolSize,
          be_SelfReporting = flag ''self_reporting'', be_NoKeysRequired = flag ''no_keys_required'', be_SkipJustification = flag ''skip_justification'',
          be_StdioFraming = [], be_EncryptedEnv = [], be_PrecacheError = [], be_PrecacheErrorAt = None\<rparr>)"

definition notifyBackendChange :: "callbacks \<Rightarrow> string \<Rightarrow> User \<Rightarrow> web \<Rightarrow> web" where
  "notifyBackendChange cb backendID user s = (case cb_OnBackendChange cb of None \<Rightarrow> s | Some f \<Rightarrow> f backendID (us_ID user) s)"

definition AdminBackendsCreateHandler :: "web_env \<Rightarrow> callbacks \<Rightarrow> web_request \<Rightarrow> web \<Rightarrow> (web_output list \<times> web) option" where
  "AdminBackendsCreateHandler env cb r s =
     (let i = TrimSpace (form_value r ''id''); b = backend_of_form r i False
      in if wq_method r \<noteq> ''POST'' then Some (web_not_allowed, s)
         else if i = [] \<or> be_Command b = [] then Some (back_to_backends ''error=ID+and+command+required'', s)
         else if \<not> isValidBackendID i
         then Some (back_to_backends ''error=Invalid+backend+ID:+use+only+letters,+numbers,+dashes,+and+underscores'', s)
         else case Store_CreateBackend (we_lib env) (we_sys env) (we_rng env) b (wb_store s) of
                (Some _, st) \<Rightarrow> Some (back_to_backends ''error=Failed+to+create+backend+(ID+may+already+exist)'', s\<lparr>wb_store := st\<rparr>)
              | (None, st) \<Rightarrow>
                  (case wq_user r of
                     None \<Rightarrow> None
                   | Some user \<Rightarrow> Some (back_to_backends ''success=Backend+created'', notifyBackendChange cb i user (s\<lparr>wb_store := st\<rparr>))))"

text \<open>Why a JSON field is refused.\<close>

definition json_problem :: "web_env \<Rightarrow> string \<Rightarrow> string \<Rightarrow> string \<Rightarrow> string option" where
  "json_problem env double invalid v =
     (if v = ''{}'' then None
      else if HasPrefix v [CHR 0x22] \<and> HasSuffix v [CHR 0x22] then Some double
      else case jl_Unmarshal (we_json env) v of Inr (JObj _) \<Rightarrow> None | Inr JNull \<Rightarrow> None | _ \<Rightarrow> Some invalid)"

definition AdminBackendsEditHandler :: "web_env \<Rightarrow> callbacks \<Rightarrow> web_request \<Rightarrow> web \<Rightarrow> (web_output list \<times> web) option" where
  "AdminBackendsEditHandler env cb r s =
     (let i = form_value r ''id''; b = backend_of_form r i False
      in if wq_method r \<noteq> ''POST'' then Some (web_not_allowed, s)
         else if i = [] \<or> be_Command b = [] then Some (back_to_backends ''error=ID+and+command+required'', s)
         else if \<not> isValidBackendID i then Some (back_to_backends ''error=Invalid+backend+ID'', s)
         else case json_problem env ''error=Env+is+double-encoded'' ''error=Invalid+JSON+in+Env'' (be_Env b) of
                Some msg \<Rightarrow> Some (back_to_backends msg, s)
              | None \<Rightarrow>
                  (case json_problem env ''error=Env+mappings+is+double-encoded'' ''error=Invalid+JSON+in+EnvMappings'' (be_EnvMappings b) of
                     Some msg \<Rightarrow> Some (back_to_backends msg, s)
                   | None \<Rightarrow>
                       (let (existing, st) = Store_GetBackend (we_lib env) (we_sys env) i (wb_store s);
                            isSystem = (case existing of Inl _ \<Rightarrow> False | Inr x \<Rightarrow> be_IsSystem x)
                        in case Store_UpdateBackend (we_lib env) (we_sys env) (we_rng env) (b\<lparr>be_IsSystem := isSystem\<rparr>) st of
                             (Some _, st) \<Rightarrow> Some (back_to_backends ''error=Failed+to+update+backend'', s\<lparr>wb_store := st\<rparr>)
                           | (None, st) \<Rightarrow>
                               (case wq_user r of
                                  None \<Rightarrow> None
                                | Some user \<Rightarrow> Some (back_to_backends ''success=Backend+updated'', notifyBackendChange cb i user (s\<lparr>wb_store := st\<rparr>))))))"

definition AdminBackendsDeleteHandler :: "web_env \<Rightarrow> callbacks \<Rightarrow> web_request \<Rightarrow> web \<Rightarrow> (web_output list \<times> web) option" where
  "AdminBackendsDeleteHandler env cb r s =
     (let i = form_value r ''id''
      in if wq_method r \<noteq> ''POST'' then Some (web_not_allowed, s)
         else
           let (b, st) = Store_GetBackend (we_lib env) (we_sys env) i (wb_store s); s = s\<lparr>wb_store := st\<rparr>
           in if (case b of Inl _ \<Rightarrow> False | Inr x \<Rightarrow> be_IsSystem x) then Some (back_to_backends ''error=Cannot+delete+system+backend'', s)
              else case Store_DeleteBackend i (web_db s) of
                     Inl _ \<Rightarrow> Some (back_to_backends ''error=Failed+to+delete+backend'', s)
                   | Inr db \<Rightarrow>
                       (case wq_user r of
                          None \<Rightarrow> None
                        | Some user \<Rightarrow> Some (back_to_backends ''success=Backend+deleted'', notifyBackendChange cb i user (set_db db s))))"

definition json_failure :: "int \<Rightarrow> string \<Rightarrow> web_output list" where
  "json_failure code msg = [OutHeader ''Content-Type'' ''application/json'', OutStatus code,
     OutJson (JObj [(''status'', JStr ''error''), (''message'', JStr msg)])]"

definition AdminBackendsProbeHandler :: "web_env \<Rightarrow> callbacks \<Rightarrow> web_request \<Rightarrow> web \<Rightarrow> (web_output list \<times> web) option" where
  "AdminBackendsProbeHandler env cb r s =
     (let i = form_value r ''id''
      in if wq_method r \<noteq> ''POST'' then Some (web_not_allowed, s)
         else case cb_OnProbeBackend cb of
                None \<Rightarrow> Some ([OutError ''Probe not configured'' 501], s)
              | Some probe \<Rightarrow>
                  if i = [] then Some (json_failure 400 ''Missing backend id'', s)
                  else
                    let (b, st) = Store_GetBackend (we_lib env) (we_sys env) i (wb_store s); s = s\<lparr>wb_store := st\<rparr>
                    in case b of
                         Inl _ \<Rightarrow> Some (json_failure 404 (''Backend not found: '' @ i), s)
                       | Inr _ \<Rightarrow>
                           (case wq_user r of
                              None \<Rightarrow> None
                            | Some user \<Rightarrow>
                                (case probe i (us_ID user) s of
                                   (Inl err, s) \<Rightarrow> Some (json_failure 500 (we_error env err), s)
                                 | (Inr res, s) \<Rightarrow> Some ([OutHeader ''Content-Type'' ''application/json'', OutText res], s))))"

definition AdminBackendsPreviewEnvHandler :: "web_env \<Rightarrow> callbacks \<Rightarrow> web_request \<Rightarrow> web \<Rightarrow> (web_output list \<times> web) option" where
  "AdminBackendsPreviewEnvHandler env cb r s =
     (if wq_method r \<noteq> ''POST'' then Some (web_not_allowed, s)
      else case cb_OnResolveEnv cb of
             None \<Rightarrow> Some ([OutError ''Not configured'' 501], s)
           | Some resolve \<Rightarrow>
               if form_value r ''env'' = [] then Some ([OutError ''Missing env'' 400], s)
               else case wq_user r of
                      None \<Rightarrow> None
                    | Some user \<Rightarrow>
                        (case resolve (form_value r ''env'') (form_value r ''env_mappings'') (form_value r ''id'') (us_ID user) s of
                           (Inl err, s) \<Rightarrow> Some (json_failure 500 (we_error env err), s)
                         | (Inr m, s) \<Rightarrow> Some (json_reply (JObj [(''status'', JStr ''ok''), (''env'', JObj (map (map_prod id JStr) m))]), s)))"

definition AdminBackendsRefreshToolsHandler :: "web_env \<Rightarrow> callbacks \<Rightarrow> web_request \<Rightarrow> web \<Rightarrow> (web_output list \<times> web) option" where
  "AdminBackendsRefreshToolsHandler env cb r s =
     (let i = form_value r ''id''
      in if wq_method r \<noteq> ''POST'' then Some (web_not_allowed, s)
         else case cb_OnRefreshTools cb of
                None \<Rightarrow> Some (back_to_backends ''error=Refresh+not+configured'', s)
              | Some refresh \<Rightarrow>
                  if i = [] then Some (back_to_backends ''error=Missing+backend+id'', s)
                  else case wq_user r of
                         None \<Rightarrow> Some (back_to_backends ''error=Not+authenticated'', s)
                       | Some user \<Rightarrow>
                           (case refresh i (us_ID user) s of
                              (Inl err, s) \<Rightarrow> Some (back_to_backends (''error='' @ we_escape env (we_error env err)),
                                 web_try (Store_SetBackendPrecacheError (we_now env) i (we_error env err)) s)
                            | (Inr n, s) \<Rightarrow> Some (back_to_backends (''success='' @ we_escape env (itoa n @ '' tool(s) cached successfully'')), s)))"

section \<open>OAuth clients and settings\<close>

definition AdminOAuthClientsHandler :: "web_env \<Rightarrow> web_request \<Rightarrow> web \<Rightarrow> (web_output list \<times> web) option" where
  "AdminOAuthClientsHandler env r s =
     Some (render env ''admin_oauth_clients.html'' ((page ''OAuth Clients'')\<lparr>pd_User := wq_user r, pd_Error := query_value r ''error'',
       pd_Success := query_value r ''success'', pd_Data := CList (map CClient (or_none (Store_ListOAuthClients (web_db s))))\<rparr>), s)"

definition AdminOAuthClientsCreateHandler :: "web_env \<Rightarrow> web_request \<Rightarrow> web \<Rightarrow> (web_output list \<times> web) option" where
  "AdminOAuthClientsCreateHandler env r s =
     (if wq_method r \<noteq> ''POST'' then Some (web_not_allowed, s)
      else
        let n = form_value r ''name'';
            (clientID, db) = generateID (web_db s); (clientSecret, db) = generateID db;
            client = \<lparr>oc_ClientID = clientID, oc_ClientSecret = clientSecret,
              oc_RedirectURIs = ''['' @ [CHR 0x22] @ ''http://127.0.0.1:19876/mcp/oauth/callback'' @ [CHR 0x22] @ '']'',
              oc_ClientName = (if n = [] then ''OAuth Client'' else n), oc_CreatedAt = 0\<rparr>
        in case Store_CreateOAuthClient (we_now env) client db of
             (Inl _, db) \<Rightarrow> Some ([OutRedirect ''/web/admin/oauth-clients?error=Failed+to+create+client''], set_db db s)
           | (Inr client, db) \<Rightarrow>
               Some (render env ''admin_oauth_clients.html'' ((page ''OAuth Clients'')\<lparr>pd_User := wq_user r,
                 pd_Data := CList (map CClient (or_none (Store_ListOAuthClients db))), pd_Extra := [(''CreatedClient'', CClient client)]\<rparr>), set_db db s))"

definition AdminOAuthClientsDeleteHandler :: "web_request \<Rightarrow> web \<Rightarrow> (web_output list \<times> web) option" where
  "AdminOAuthClientsDeleteHandler r s =
     (let i = form_value r ''id''
      in if wq_method r \<noteq> ''POST'' then Some (web_not_allowed, s)
         else if i = [] then Some ([OutRedirect ''/web/admin/oauth-clients?error=Missing+client+ID''], s)
         else case Store_DeleteOAuthClient i (web_db s) of
                Inl _ \<Rightarrow> Some ([OutRedirect ''/web/admin/oauth-clients?error=Failed+to+delete+client''], s)
              | Inr db \<Rightarrow> Some ([OutRedirect ''/web/admin/oauth-clients?success=Client+deleted''], set_db db s))"

definition AdminSettingsGlobalHintsHandler :: "web_request \<Rightarrow> web \<Rightarrow> (web_output list \<times> web) option" where
  "AdminSettingsGlobalHintsHandler r s =
     (if wq_method r \<noteq> ''POST'' then Some (web_not_allowed, s)
      else case Store_SetSetting ''global_hints'' (TrimSpace (form_value r ''global_hints'')) (web_db s) of
             Inl _ \<Rightarrow> Some (back_to_backends ''error=Failed+to+save+global+hints'', s)
           | Inr db \<Rightarrow> Some (back_to_backends ''success=Global+instructions+saved'', set_db db s))"

section \<open>What an edit takes away\<close>

lemma query_row_update:
  "(\<And>x. P x \<Longrightarrow> P (f x)) \<Longrightarrow> query_row P (update_where P f t) = map_sum id f (query_row P t)"
  by (induction t) (auto simp: query_row_def update_where_def split: list.splits)

text \<open>An edit of a user, of the name alone say, keeps the password but clears the salt that the key of the user's tokens and second factor is
  derived with; the next login makes a new salt and so a new key.\<close>

lemma edited_user_loses_salt:
  assumes "AdminUsersEditHandler env r s = Some (back_to_users ''success=User+updated'', s')" and "fault_free (web_db s)"
  shows "\<exists>u u'. Store_GetUser (form_value r ''user_id'') (web_db s) = Inr u \<and> Store_GetUser (form_value r ''user_id'') (web_db s') = Inr u' \<and>
    us_PasswordSalt u' = [] \<and> (form_value r ''password'' = [] \<and> IsBcrypt (us_Password u) \<longrightarrow> us_Password u' = us_Password u)"
proof -
  let ?i = "form_value r ''user_id''"
  from assms(1) obtain u hash where u: "Store_GetUser ?i (web_db s) = Inr u"
      and h: "hashed_password (we_bcrypt env) (if form_value r ''password'' = [] then us_Password u else form_value r ''password'') = Inr hash"
      and s': "db_users (web_db s') = update_where (\<lambda>x. us_ID x = ?i) (\<lambda>x. x\<lparr>us_Name := TrimSpace (form_value r ''name''),
        us_Email := TrimSpace (form_value r ''email''), us_Password := hash, us_PasswordSalt := [], us_Role := NormalizeRole (form_value r ''role'')\<rparr>)
        (db_users (web_db s))" "db_faults (web_db s') = db_faults (web_db s)"
    by (auto simp: AdminUsersEditHandler_def back_to_users_def web_not_allowed_def Store_UpdateUser_def Let_def dest!: stmt_InrD
        split: if_splits sum.splits)
  have "Store_GetUser ?i (web_db s') = Inr (u\<lparr>us_Name := TrimSpace (form_value r ''name''),
        us_Email := TrimSpace (form_value r ''email''), us_Password := hash, us_PasswordSalt := [], us_Role := NormalizeRole (form_value r ''role'')\<rparr>)"
    using u s' assms(2) by (auto simp: Store_GetUser_def query_row_update fault_free_def stmt_def)
  with u h show ?thesis by (auto simp: hashed_password_def)
qed

text \<open>An edit of a backend resets its framing.\<close>

lemma updated_backend_framing:
  assumes "Store_UpdateBackend lib sys rng b st = (None, st')" and "x \<in> set (db_backends (st_db st'))" and "be_ID x = be_ID b"
  shows "be_StdioFraming x = be_StdioFraming b"
proof -
  have "encryptBackendEnv lib sys rng (with_backend_defaults b) ks = (Inr b', ks') \<Longrightarrow> be_ID b' = be_ID b \<and> be_StdioFraming b' = be_StdioFraming b"
    for ks b' ks' by (auto simp: encryptBackendEnv_def with_backend_defaults_def Let_def split: if_splits option.splits prod.splits sum.splits)
  moreover from assms(1) obtain b' ks where "encryptBackendEnv lib sys rng (with_backend_defaults b) (st_keyStore st) = (Inr b', ks)"
      and "db_backends (st_db st') = update_where (\<lambda>x. be_ID x = be_ID b')
        (\<lambda>x. b'\<lparr>be_ID := be_ID x, be_PrecacheError := be_PrecacheError x, be_PrecacheErrorAt := be_PrecacheErrorAt x\<rparr>) (db_backends (st_db st))"
    by (auto simp: Store_UpdateBackend_def Let_def dest!: stmt_InrD split: prod.splits sum.splits)
  ultimately have "\<forall>x \<in> set (db_backends (st_db st')). be_ID x = be_ID b \<longrightarrow> be_StdioFraming x = be_StdioFraming b"
    by (auto simp: update_where_def)
  then show ?thesis using assms(2,3) by blast
qed

lemma edited_backend_loses_framing:
  assumes "AdminBackendsEditHandler env cb r s = Some (back_to_backends ''success=Backend+updated'', s')" and "cb_OnBackendChange cb = None"
    and "b \<in> set (db_backends (web_db s'))" and "be_ID b = form_value r ''id''"
  shows "be_StdioFraming b = []"
proof -
  let ?b = "backend_of_form r (form_value r ''id'') False"
  from assms(1) obtain sys st st' isSystem where u: "Store_UpdateBackend (we_lib env) (we_sys env) (we_rng env) (?b\<lparr>be_IsSystem := isSystem\<rparr>) st = (None, st')"
      and "web_db s' = st_db st'"
    using assms(2)
    by (auto simp: AdminBackendsEditHandler_def back_to_backends_def web_not_allowed_def notifyBackendChange_def json_problem_def Let_def
        split: if_splits option.splits sum.splits json.splits prod.splits)
  with assms(3,4) have "be_StdioFraming b = be_StdioFraming (?b\<lparr>be_IsSystem := isSystem\<rparr>)"
    by (intro updated_backend_framing [OF u]) (simp_all add: backend_of_form_def Let_def)
  then show ?thesis by (simp add: backend_of_form_def Let_def)
qed

end
