(* ===== verification/WebRoutes.thy ===== *)
theory WebRoutes
  imports WebAdmin
begin

text \<open>
  The routes of the console (\<open>Register\<close> of src/web/web.go), the session guards around them (src/web/auth.go), and the event streams of
  src/web/enforcer_handlers.go. The record \<open>web_console\<close> is the state behind all pages, \<open>console_deps\<close> the fields of the struct \<open>Handler\<close> and the
  libraries. Every guarded page, and every page wrapped by the access log, is given the log's \<open>statusWriter\<close>, which embeds the interface
  \<open>http.ResponseWriter\<close> and so is no \<open>http.Flusher\<close>: the streams are told so by their first argument. The snapshots of the enforcer that a stream meets at its ticks, until
  its client goes away, are the field \<open>cd_ticks\<close>.
\<close>

section \<open>Event streams\<close>

definition SSEHandler ::
    "bool \<Rightarrow> 'p console_env \<Rightarrow> 'p Enforcer list \<Rightarrow> web_request \<Rightarrow> 'p EnforcerHandler \<Rightarrow> 'p console_reply" where
  "SSEHandler flusher ce ticks r h =
     (case enf_of h of
        None \<Rightarrow> Some (requireEnforcer, h)
      | Some _ \<Rightarrow> if \<not> flusher then None else Some (SSE_open False '' '' @ map (SSE_tick ce) ticks, h))"

fun user_events :: "'p console_env \<Rightarrow> string \<Rightarrow> int \<Rightarrow> 'p Enforcer option list \<Rightarrow> web_output list" where
  "user_events ce userID lastCount [] = []"
| "user_events ce userID lastCount (en # ens) =
     (let (ev, lastCount) = UserSSE_tick ce userID en lastCount in ev # user_events ce userID lastCount ens)"

definition UserSSEHandler ::
    "bool \<Rightarrow> 'p console_env \<Rightarrow> 'p Enforcer list \<Rightarrow> web_request \<Rightarrow> 'p EnforcerHandler \<Rightarrow> 'p console_reply" where
  "UserSSEHandler flusher ce ticks r h =
     (if wq_method r \<noteq> ''GET'' then Some (web_not_allowed, h)
      else case wq_user r of
             None \<Rightarrow> Some ([OutError ''Unauthorized'' 401], h)
           | Some user \<Rightarrow>
               if \<not> flusher then Some ([OutError ''Streaming not supported'' 500], h)
               else Some (SSE_open True [] @
                 user_events ce (us_ID user) (- 1) (map (\<lambda>e. if eh_enforcer h = None then None else Some e) ticks), h))"

section \<open>Guards\<close>

record 'p web_console =
  co_web :: web
  co_enforcer :: "'p Enforcer option"

record 'p console_deps =
  cd_ce :: "'p console_env"
  cd_handler :: WebHandler
  cd_pools :: "PoolManager option"
  cd_callbacks :: callbacks
  cd_ticks :: "'p Enforcer list"

type_synonym 'p web_handler = "web_request \<Rightarrow> 'p web_console \<Rightarrow> (web_output list \<times> 'p web_console) option"

definition on_web :: "(web_request \<Rightarrow> web \<Rightarrow> (web_output list \<times> web) option) \<Rightarrow> 'p web_handler" where
  "on_web f r c = map_option (\<lambda>(out, s). (out, c\<lparr>co_web := s\<rparr>)) (f r (co_web c))"

definition on_enforcer :: "(web_request \<Rightarrow> 'p EnforcerHandler \<Rightarrow> 'p console_reply) \<Rightarrow> 'p web_handler" where
  "on_enforcer f r c =
     map_option (\<lambda>(out, h). (out, c\<lparr>co_enforcer := eh_enforcer h, co_web := (co_web c)\<lparr>wb_store := eh_store h\<rparr>\<rparr>))
       (f r \<lparr>eh_enforcer = co_enforcer c, eh_store = wb_store (co_web c)\<rparr>)"

definition requireAuth :: "web_env \<Rightarrow> 'p web_handler \<Rightarrow> 'p web_handler" where
  "requireAuth env serve r c =
     (case getSessionUser env r (co_web c) of
        (None, s) \<Rightarrow> Some ([OutRedirect ''/web/login''], c\<lparr>co_web := s\<rparr>)
      | (Some user, s) \<Rightarrow> serve (r\<lparr>wq_user := Some user\<rparr>) (c\<lparr>co_web := s\<rparr>))"

definition requireAdmin :: "web_env \<Rightarrow> 'p web_handler \<Rightarrow> 'p web_handler" where
  "requireAdmin env serve =
     requireAuth env (\<lambda>r c.
       if (case wq_user r of None \<Rightarrow> True | Some user \<Rightarrow> us_Role user \<noteq> ''admin'') then Some ([OutError ''Forbidden'' 403], c)
       else serve r c)"

section \<open>The table\<close>

datatype guard = Public | AnyUser | AdminUser

definition Register :: "'p console_deps \<Rightarrow> (string \<times> guard \<times> 'p web_handler) list" where
  "Register d =
     (let ce = cd_ce d; env = ce_web ce; wh = cd_handler d in
      [(''/web/login'', Public, on_web (LoginHandler env wh)),
       (''/web/logout'', Public, on_web (LogoutHandler env)),
       (''/web/invite'', Public, on_web (InviteSignupHandler env wh)),
       (''/web/login/2fa'', Public, on_web (Login2FAHandler env wh)),
       (''/web/setup-2fa'', Public, on_web (Setup2FAHandler env wh)),
       (''/web/'', AnyUser, on_web (DashboardHandler env (cd_pools d))),
       (''/web/tokens'', AnyUser, on_web (TokensHandler env)),
       (''/web/tokens/save'', AnyUser, on_web (TokensSaveHandler env)),
       (''/web/tokens/delete'', AnyUser, on_web (TokensDeleteHandler env)),
       (''/web/password'', AnyUser, on_web (PasswordHandler env)),
       (''/web/apikeys'', AnyUser, on_web (APIKeysHandler env)),
       (''/web/apikeys/create'', AnyUser, on_web (APIKeysCreateHandler env)),
       (''/web/apikeys/delete'', AnyUser, on_web (APIKeysDeleteHandler env)),
       (''/web/2fa'', AnyUser, on_web (TwoFASettingsHandler env wh)),
       (''/web/admin/users'', AdminUser, on_web (AdminUsersHandler env)),
       (''/web/admin/users/create'', AdminUser, on_web (AdminUsersCreateHandler env)),
       (''/web/admin/users/edit'', AdminUser, on_web (AdminUsersEditHandler env)),
       (''/web/admin/users/delete'', AdminUser, on_web AdminUsersDeleteHandler),
       (''/web/admin/users/2fa-reset'', AdminUser, on_web (AdminUsers2FAResetHandler wh)),
       (''/web/admin/invites'', AdminUser, on_web (AdminInvitesHandler env wh)),
       (''/web/admin/invites/create'', AdminUser, on_web (AdminInvitesCreateHandler env wh)),
       (''/web/admin/invites/revoke'', AdminUser, on_web (AdminInvitesRevokeHandler wh)),
       (''/web/admin/backends'', AdminUser, on_web (AdminBackendsHandler env (cd_pools d))),
       (''/web/admin/backends/create'', AdminUser, on_web (AdminBackendsCreateHandler env (cd_callbacks d))),
       (''/web/admin/backends/edit'', AdminUser, on_web (AdminBackendsEditHandler env (cd_callbacks d))),
       (''/web/admin/backends/delete'', AdminUser, on_web (AdminBackendsDeleteHandler env (cd_callbacks d))),
       (''/web/admin/backends/probe'', AdminUser, on_web (AdminBackendsProbeHandler env (cd_callbacks d))),
       (''/web/admin/backends/preview-env'', AdminUser, on_web (AdminBackendsPreviewEnvHandler env (cd_callbacks d))),
       (''/web/admin/backends/refresh-tools'', AdminUser, on_web (AdminBackendsRefreshToolsHandler env (cd_callbacks d))),
       (''/web/admin/settings/global_hints'', AdminUser, on_web AdminSettingsGlobalHintsHandler),
       (''/web/admin/oauth-clients'', AdminUser, on_web (AdminOAuthClientsHandler env)),
       (''/web/admin/oauth-clients/create'', AdminUser, on_web (AdminOAuthClientsCreateHandler env)),
       (''/web/admin/oauth-clients/delete'', AdminUser, on_web AdminOAuthClientsDeleteHandler),
       (''/web/admin/enforcer/queue'', AdminUser, on_enforcer (QueuePageHandler ce)),
       (''/web/admin/enforcer/policies'', AdminUser, on_enforcer (PoliciesPageHandler ce)),
       (''/web/admin/enforcer/policies/new'', AdminUser, on_enforcer (PoliciesNewPageHandler ce)),
       (''/web/admin/enforcer/policies/create'', AdminUser, on_enforcer (PoliciesCreateHandler ce)),
       (''/web/admin/enforcer/policies/edit'', AdminUser, on_enforcer (PoliciesEditPageHandler ce)),
       (''/web/admin/enforcer/policies/update'', AdminUser, on_enforcer (PoliciesUpdateHandler ce)),
       (''/web/admin/enforcer/policies/delete'', AdminUser, on_enforcer (PoliciesDeleteHandler ce)),
       (''/web/admin/enforcer/api/policies'', AdminUser, on_enforcer (Web_ListPolicies ce)),
       (''/web/admin/enforcer/api/approvals'', AdminUser, on_enforcer (Web_ListPendingApprovals ce)),
       (''/web/admin/enforcer/api/approval-status'', AdminUser, on_enforcer (Web_GetApprovalStatus ce)),
       (''/web/admin/enforcer/api/approve'', AdminUser, on_enforcer (Web_ApproveRequest ce)),
       (''/web/admin/enforcer/api/deny'', AdminUser, on_enforcer (Web_DenyRequest ce)),
       (''/web/admin/enforcer/kill-switch/enable'', AdminUser, on_enforcer (Web_EnableKillSwitch ce)),
       (''/web/admin/enforcer/kill-switch/disable'', AdminUser, on_enforcer (Web_DisableKillSwitch ce)),
       (''/web/admin/enforcer/events'', AdminUser, on_enforcer (SSEHandler False ce (cd_ticks d))),
       (''/web/admin/enforcer/profiles'', AdminUser, on_enforcer (ToolProfilesPageHandler ce)),
       (''/web/admin/enforcer/profiles/backend'', AdminUser, on_enforcer (BackendToolProfilesHandler ce)),
       (''/web/admin/enforcer/profiles/overrides'', AdminUser, on_enforcer (OverridesPageHandler ce)),
       (''/web/admin/enforcer/profiles/override/create'', AdminUser, on_enforcer (OverrideCreateHandler ce)),
       (''/web/admin/enforcer/profiles/override/delete'', AdminUser, on_enforcer (OverrideDeleteHandler ce)),
       (''/web/user/enforcer/queue'', AnyUser, on_enforcer (UserQueuePageHandler ce)),
       (''/web/user/enforcer/policies'', AnyUser, on_enforcer (UserPoliciesPageHandler ce)),
       (''/web/user/enforcer/overrides'', AnyUser, on_enforcer (UserOverridesPageHandler ce)),
       (''/web/user/enforcer/overrides/create'', AnyUser, on_enforcer (UserOverrideCreateHandler ce)),
       (''/web/user/enforcer/overrides/delete'', AnyUser, on_enforcer (UserOverrideDeleteHandler ce)),
       (''/web/user/enforcer/api/approve'', AnyUser, on_enforcer (UserApproveRequest ce)),
       (''/web/user/enforcer/policy-request'', AnyUser, on_enforcer (PolicyRequestHandler ce)),
       (''/web/user/enforcer/api/deny'', AnyUser, on_enforcer (UserDenyRequest ce)),
       (''/web/user/enforcer/events'', AnyUser, on_enforcer (UserSSEHandler False ce (cd_ticks d))),
       (''/web/admin/enforcer/user-queues'', AdminUser, on_enforcer (UserQueuesPageHandler ce)),
       (''/web/admin/ratelimits'', AdminUser, on_enforcer (ListRateLimits ce)),
       (''/web/admin/ratelimits/config'', AdminUser, on_enforcer (UpdateRateLimitConfig ce)),
       (''/web/admin/ratelimits/reset'', AdminUser, on_enforcer (ResetUserBuckets_page ce))])"

definition behind_guard :: "web_env \<Rightarrow> guard \<Rightarrow> 'p web_handler \<Rightarrow> 'p web_handler" where
  "behind_guard env g serve = (case g of Public \<Rightarrow> serve | AnyUser \<Rightarrow> requireAuth env serve | AdminUser \<Rightarrow> requireAdmin env serve)"

text \<open>The choice of \<open>http.ServeMux\<close> for a clean path: an exact pattern, else the longest pattern ending in a slash, which only \<open>/web/\<close> does.\<close>

definition serve_console :: "'p console_deps \<Rightarrow> string \<Rightarrow> 'p web_handler" where
  "serve_console d path r c =
     (case (case map_of (Register d) path of
              Some x \<Rightarrow> Some x
            | None \<Rightarrow> if HasPrefix path ''/web/'' then map_of (Register d) ''/web/'' else None) of
        None \<Rightarrow> Some ([OutError ''404 page not found'' 404], c)
      | Some (g, serve) \<Rightarrow> behind_guard (ce_web (cd_ce d)) g serve r c)"

section \<open>Every page is guarded\<close>

text \<open>The user a request is signed in as: its cookie names a session that has not expired, of a user who still exists.\<close>

definition signed_in :: "web_env \<Rightarrow> web_request \<Rightarrow> db \<Rightarrow> User \<Rightarrow> bool" where
  "signed_in env r db user \<longleftrightarrow>
     (\<exists>token sess. map_of (wq_cookies r) ''mcp_session'' = Some token \<and> Store_GetWebSession token db = Inr sess \<and>
        we_now env \<le> ws_ExpiresAt sess \<and> Store_GetUser (ws_UserID sess) db = Inr user)"

definition public_pages :: "string list" where
  "public_pages = [''/web/login'', ''/web/logout'', ''/web/invite'', ''/web/login/2fa'', ''/web/setup-2fa'']"

lemma getSessionUser_signed_in:
  "signed_in env r (web_db s) user \<Longrightarrow> getSessionUser env r s = (Some user, s)"
  by (auto simp: signed_in_def getSessionUser_def)

lemma getSessionUser_refused:
  assumes "\<And>user. \<not> signed_in env r (web_db s) user"
  shows "\<exists>s'. getSessionUser env r s = (None, s') \<and> (s' = s \<or> (\<exists>token. s' = web_try (Store_DeleteWebSession token) s))"
  using assms by (fastforce simp: signed_in_def getSessionUser_def split: option.splits sum.splits)

lemma route_guards:
  "list_all (\<lambda>(path, g, _). (g = Public) = (path \<in> set public_pages) \<and> (g = AdminUser) = HasPrefix path ''/web/admin/'') (Register d)"
  by (simp add: Register_def public_pages_def Let_def)

lemma routes_distinct: "distinct (map fst (Register d))"
  by (simp add: Register_def Let_def)

lemma route_fallback: "map_of (Register d) ''/web/'' = Some (AnyUser, on_web (DashboardHandler (ce_web (cd_ce d)) (cd_pools d)))"
  by (simp add: Register_def Let_def)

lemma console_route:
  assumes "HasPrefix path ''/web/''" and "path \<notin> set public_pages"
  obtains g f where "serve_console d path = behind_guard (ce_web (cd_ce d)) g f" and "g \<noteq> Public"
    and "path \<in> fst ` set (Register d) \<Longrightarrow> HasPrefix path ''/web/admin/'' \<Longrightarrow> g = AdminUser"
proof (cases "map_of (Register d) path")
  case None
  then have "path \<notin> fst ` set (Register d)" by (simp add: map_of_eq_None_iff)
  moreover have "serve_console d path = behind_guard (ce_web (cd_ce d)) AnyUser (on_web (DashboardHandler (ce_web (cd_ce d)) (cd_pools d)))"
    using None assms(1) by (simp add: serve_console_def fun_eq_iff route_fallback)
  ultimately show thesis using that by blast
next
  case (Some x)
  obtain g f where x: "x = (g, f)" by (cases x)
  have "(path, g, f) \<in> set (Register d)" using map_of_SomeD [OF Some] x by simp
  from bspec [OF route_guards [of d, unfolded list_all_iff] this]
  have "(g = Public) = (path \<in> set public_pages)" "(g = AdminUser) = HasPrefix path ''/web/admin/''" by simp_all
  moreover have "serve_console d path = behind_guard (ce_web (cd_ce d)) g f" using Some x by (simp add: serve_console_def fun_eq_iff)
  ultimately show thesis using assms(2) that by blast
qed

lemma guarded_refused:
  assumes "g \<noteq> Public" and "getSessionUser env r (co_web c) = (None, s)"
  shows "behind_guard env g f r c = Some ([OutRedirect ''/web/login''], c\<lparr>co_web := s\<rparr>)"
  using assms by (cases g) (simp_all add: behind_guard_def requireAdmin_def requireAuth_def)

lemma guarded_admin_refused:
  assumes "getSessionUser env r (co_web c) = (Some user, co_web c)" and "us_Role user \<noteq> ''admin''"
  shows "behind_guard env AdminUser f r c = Some ([OutError ''Forbidden'' 403], c)"
  using assms by (simp add: behind_guard_def requireAdmin_def requireAuth_def)

text \<open>C16: Every page of the console but the five of signing in is closed: a request that is not signed in is sent to the login page, and changes nothing but
  the row of an expired session; a request signed in as a user who is no administrator gets 403 from every page registered under
  \<open>/web/admin/\<close>, and changes nothing.\<close>

theorem console_guarded:
  assumes "HasPrefix path ''/web/''" and "path \<notin> set public_pages"
    and "\<And>user. signed_in (ce_web (cd_ce d)) r (web_db (co_web c)) user \<Longrightarrow>
      us_Role user \<noteq> ''admin'' \<and> path \<in> fst ` set (Register d) \<and> HasPrefix path ''/web/admin/''"
  shows "if \<exists>user. signed_in (ce_web (cd_ce d)) r (web_db (co_web c)) user
    then serve_console d path r c = Some ([OutError ''Forbidden'' 403], c)
    else (\<exists>c'. serve_console d path r c = Some ([OutRedirect ''/web/login''], c') \<and>
       (c' = c \<or> (\<exists>token. c' = c\<lparr>co_web := web_try (Store_DeleteWebSession token) (co_web c)\<rparr>)))"
proof -
  obtain g f where g: "serve_console d path = behind_guard (ce_web (cd_ce d)) g f" "g \<noteq> Public"
      "path \<in> fst ` set (Register d) \<Longrightarrow> HasPrefix path ''/web/admin/'' \<Longrightarrow> g = AdminUser"
    using console_route [OF assms(1,2), of d] by blast
  show ?thesis
  proof (cases "\<exists>user. signed_in (ce_web (cd_ce d)) r (web_db (co_web c)) user")
    case True
    then obtain user where u: "signed_in (ce_web (cd_ce d)) r (web_db (co_web c)) user" by blast
    with guarded_admin_refused [OF getSessionUser_signed_in [OF u]] assms(3) g show ?thesis by auto
  next
    case False
    then show ?thesis using getSessionUser_refused guarded_refused [OF g(2)] g(1) by fastforce
  qed
qed

section \<open>The event streams do not open\<close>

lemma event_routes:
  "map_of (Register d) ''/web/user/enforcer/events'' = Some (AnyUser, on_enforcer (UserSSEHandler False (cd_ce d) (cd_ticks d)))"
  "map_of (Register d) ''/web/admin/enforcer/events'' = Some (AdminUser, on_enforcer (SSEHandler False (cd_ce d) (cd_ticks d)))"
  by (simp_all add: Register_def Let_def)

text \<open>No client ever gets the console's live events: the response writer of the access log cannot flush, so the stream of users
  answers 500 to every user signed in, and that of administrators panics whenever there is an enforcer.\<close>

theorem event_streams_fail:
  assumes "signed_in (ce_web (cd_ce d)) r (web_db (co_web c)) user" and "wq_method r = ''GET''"
  shows "serve_console d ''/web/user/enforcer/events'' r c = Some ([OutError ''Streaming not supported'' 500], c) \<and>
    (us_Role user = ''admin'' \<and> co_enforcer c \<noteq> None \<longrightarrow> serve_console d ''/web/admin/enforcer/events'' r c = None)"
proof -
  note u = getSessionUser_signed_in [OF assms(1)]
  have "serve_console d ''/web/user/enforcer/events'' r c = Some ([OutError ''Streaming not supported'' 500], c)"
    using u assms(2) by (simp add: serve_console_def event_routes behind_guard_def requireAuth_def on_enforcer_def UserSSEHandler_def)
  moreover have "serve_console d ''/web/admin/enforcer/events'' r c = None" if "us_Role user = ''admin''" "co_enforcer c \<noteq> None"
    using u that
    by (auto simp: serve_console_def event_routes behind_guard_def requireAdmin_def requireAuth_def on_enforcer_def SSEHandler_def enf_of_def)
  ultimately show ?thesis by blast
qed

section \<open>A run\<close>

definition guarded_deps :: "bool console_deps" where
  "guarded_deps = \<lparr>cd_ce = sample_console, cd_handler = sample_handler, cd_pools = None,
     cd_callbacks = \<lparr>cb_OnBackendChange = None, cb_OnProbeBackend = None, cb_OnResolveEnv = None, cb_OnRefreshTools = None\<rparr>, cd_ticks = []\<rparr>"

text \<open>A site with the sessions of Ann, no administrator, and of Root, one, which expire at 200; it is 100 now.\<close>

definition guarded_console :: "bool web_console" where
  "guarded_console = \<lparr>co_web = web_of \<lparr>st_db = empty_db\<lparr>db_users := [auth_user, auth_user\<lparr>us_ID := ''root'', us_Role := ''admin''\<rparr>],
       db_core := empty_core\<lparr>ct_web_sessions := [\<lparr>ws_Token = ''ta'', ws_UserID = ''ann'', ws_ExpiresAt = 200, ws_CreatedAt = 0\<rparr>,
         \<lparr>ws_Token = ''tr'', ws_UserID = ''root'', ws_ExpiresAt = 200, ws_CreatedAt = 0\<rparr>]\<rparr>\<rparr>, st_keyStore = None\<rparr>,
     co_enforcer = Some approvals_enforcer\<rparr>"

definition page_request :: "string \<Rightarrow> web_request" where
  "page_request token = (web_req [(''mcp_session'', token)] [])\<lparr>wq_method := ''GET''\<rparr>"

lemma guarded_sessions:
  "signed_in (ce_web (cd_ce guarded_deps)) (page_request ''ta'') (web_db (co_web guarded_console)) user = (user = auth_user)"
  "signed_in (ce_web (cd_ce guarded_deps)) (page_request ''tr'') (web_db (co_web guarded_console)) user =
     (user = auth_user\<lparr>us_ID := ''root'', us_Role := ''admin''\<rparr>)"
  "\<not> signed_in (ce_web (cd_ce guarded_deps)) (page_request ''tx'') (web_db (co_web guarded_console)) user"
  by (auto simp: signed_in_def guarded_deps_def sample_console_def sample_web_env_def page_request_def web_req_def guarded_console_def web_of_def
      web_db_def empty_db_def empty_core_def Store_GetWebSession_def Store_GetUser_def query_row_def stmt_def auth_user_def)

theorem console_guarded_witness:
  "serve_console guarded_deps ''/web/admin/users'' (page_request ''ta'') guarded_console = Some ([OutError ''Forbidden'' 403], guarded_console) \<and>
   (\<exists>c'. serve_console guarded_deps ''/web/apikeys'' (page_request ''tx'') guarded_console = Some ([OutRedirect ''/web/login''], c'))"
proof -
  have "''/web/admin/users'' \<in> fst ` set (Register guarded_deps)" by (simp add: Register_def Let_def)
  then show ?thesis
    using console_guarded [of "''/web/admin/users''" guarded_deps "page_request ''ta''" guarded_console]
      console_guarded [of "''/web/apikeys''" guarded_deps "page_request ''tx''" guarded_console]
    by (auto simp: guarded_sessions public_pages_def auth_user_def)
qed

theorem event_streams_fail_witness:
  "serve_console guarded_deps ''/web/user/enforcer/events'' (page_request ''tr'') guarded_console = Some ([OutError ''Streaming not supported'' 500], guarded_console) \<and>
   serve_console guarded_deps ''/web/admin/enforcer/events'' (page_request ''tr'') guarded_console = None"
  using event_streams_fail [of guarded_deps "page_request ''tr''" guarded_console "auth_user\<lparr>us_ID := ''root'', us_Role := ''admin''\<rparr>"]
  by (simp add: guarded_sessions) (simp add: page_request_def guarded_console_def)

end
