(* ===== verification/Maintenance.thy ===== *)
theory Maintenance
  imports CoreStore
begin

text \<open>
  The maintenance commands: the migration of stored secrets between plain text and encryption (src/cmd/migrate/main.go) and the export of
  a user's secrets (src/cmd/extract/main.go). Both open the store with a provider that holds the master key; the record \<open>tool\<close> is that
  store. What a command prints for an item is a value of \<open>line\<close>; its exit code is part of the result. A reader of the
  random source that encrypts the next item starts where the previous one stopped.
\<close>

section \<open>The master key\<close>

text \<open>\<open>directProvider\<close> hands out copies of its key, as a provider of src/internal/crypto does once it has cached one.\<close>

definition directProvider :: "string \<Rightarrow> KEKProvider" where
  "directProvider key = EnvVar \<lparr>ev_keyEnv = [], ev_keyFileEnv = [], ev_cached = Some key\<rparr>"

definition parseEncryptionKey :: "crypto_lib \<Rightarrow> string \<Rightarrow> goerr + string" where
  "parseEncryptionKey lib s0 =
     (let s = TrimSpace s0;
          raw = (if length s \<ge> 16 then Inr s else Inl (ErrNew ''invalid key format: must be at least 16 bytes''))
      in if isHex s
         then (if length s = 32 \<or> length s = 64
               then (case hex_decode s of Some key \<Rightarrow> Inr key | None \<Rightarrow> Inl (ErrNew ''encoding/hex: odd length hex string''))
               else Inl (ErrNew (''invalid hex key length: expected 32 or 64 characters, got '' @ itoa (int (length s)))))
         else case cl_base64 lib s of
                Some decoded \<Rightarrow> if length decoded \<ge> 16 then Inr decoded else raw
              | None \<Rightarrow> raw)"

section \<open>The tool's store\<close>

record tool =
  to_db :: db
  to_keys :: KeyStore

datatype line = Done string | Failed string goerr | Would string

definition on_store :: "(Store \<Rightarrow> 'a \<times> Store) \<Rightarrow> tool \<Rightarrow> 'a \<times> tool" where
  "on_store f m =
     (let (r, s) = f \<lparr>st_db = to_db m, st_keyStore = Some (to_keys m)\<rparr>
      in (r, m\<lparr>to_db := st_db s, to_keys := (case st_keyStore s of None \<Rightarrow> to_keys m | Some ks \<Rightarrow> ks)\<rparr>))"

definition tool_tokens :: "tool \<Rightarrow> UserToken list" where
  "tool_tokens m = ct_user_tokens (db_core (to_db m))"

definition token_name :: "UserToken \<Rightarrow> string" where
  "token_name t = ut_UserID t @ ''/'' @ ut_BackendID t @ ''/'' @ ut_EnvKey t"

fun is_failed :: "line \<Rightarrow> bool" where
  "is_failed (Failed _ _) = True"
| "is_failed _ = False"

text \<open>The end of a command: exit code 1 when an item failed.\<close>

definition finish :: "line list \<times> tool \<Rightarrow> int \<times> line list \<times> tool" where
  "finish = (\<lambda>(ls, m). (if list_ex is_failed ls then 1 else 0, ls, m))"

section \<open>Status and verification\<close>

text \<open>The counts: all tokens, plain only, encrypted, empty.\<close>

definition showStatus :: "tool \<Rightarrow> goerr + int \<times> int \<times> int \<times> int" where
  "showStatus m = stmt ''showStatus'' (to_db m)
     (Inr (count_rows (\<lambda>_. True) (tool_tokens m),
           count_rows (\<lambda>t. ut_Encrypted t = [] \<and> ut_Value t \<noteq> []) (tool_tokens m),
           count_rows (\<lambda>t. ut_Encrypted t \<noteq> []) (tool_tokens m),
           count_rows (\<lambda>t. ut_Value t = [] \<and> ut_Encrypted t = []) (tool_tokens m)))"

fun verify_tokens :: "crypto_lib \<Rightarrow> opsys \<Rightarrow> UserToken list \<Rightarrow> tool \<Rightarrow> line list \<times> tool" where
  "verify_tokens lib sys [] m = ([], m)"
| "verify_tokens lib sys (t # ts) m =
     (if ut_Encrypted t = [] then verify_tokens lib sys ts m
      else
        let (r, m) = on_store (Store_GetUserTokenDecrypted lib sys (ut_UserID t) (ut_BackendID t) (ut_EnvKey t)) m;
            (ls, m) = verify_tokens lib sys ts m
        in ((case r of Inl err \<Rightarrow> Failed (token_name t) err | Inr _ \<Rightarrow> Done (token_name t)) # ls, m))"

definition verifyMigration :: "crypto_lib \<Rightarrow> opsys \<Rightarrow> tool \<Rightarrow> int \<times> line list \<times> tool" where
  "verifyMigration lib sys m =
     (case stmt ''verifyMigration'' (to_db m) (Inr (tool_tokens m)) of
        Inl _ \<Rightarrow> (1, [], m)
      | Inr ts \<Rightarrow> finish (verify_tokens lib sys ts m))"

section \<open>Rollback and migration of tokens\<close>

definition write_token :: "string \<Rightarrow> (UserToken \<Rightarrow> UserToken) \<Rightarrow> UserToken \<Rightarrow> db \<Rightarrow> goerr + db" where
  "write_token op f t db = stmt op db
     (Inr (core_upd (\<lambda>c. c\<lparr>ct_user_tokens := update_where (\<lambda>x. token_key x = token_key t) f (ct_user_tokens c)\<rparr>) db))"

definition rollback_token :: "crypto_lib \<Rightarrow> opsys \<Rightarrow> bool \<Rightarrow> UserToken \<Rightarrow> tool \<Rightarrow> line \<times> tool" where
  "rollback_token lib sys dryRun t m =
     (case on_store (Store_GetUserTokenDecrypted lib sys (ut_UserID t) (ut_BackendID t) (ut_EnvKey t)) m of
        (Inl err, m) \<Rightarrow> (Failed (token_name t) err, m)
      | (Inr decrypted, m) \<Rightarrow>
          if dryRun then (Would (token_name t), m)
          else case write_token ''rollbackMigration'' (\<lambda>x. x\<lparr>ut_Value := decrypted, ut_Encrypted := []\<rparr>) t (to_db m) of
                 Inl err \<Rightarrow> (Failed (token_name t) err, m)
               | Inr db \<Rightarrow> (Done (token_name t), m\<lparr>to_db := db\<rparr>))"

fun rollback_tokens :: "crypto_lib \<Rightarrow> opsys \<Rightarrow> bool \<Rightarrow> UserToken list \<Rightarrow> tool \<Rightarrow> line list \<times> tool" where
  "rollback_tokens lib sys dryRun [] m = ([], m)"
| "rollback_tokens lib sys dryRun (t # ts) m =
     (let (l, m) = rollback_token lib sys dryRun t m; (ls, m) = rollback_tokens lib sys dryRun ts m in (l # ls, m))"

definition rollbackMigration :: "crypto_lib \<Rightarrow> opsys \<Rightarrow> bool \<Rightarrow> tool \<Rightarrow> int \<times> line list \<times> tool" where
  "rollbackMigration lib sys dryRun m =
     (case stmt ''rollbackMigration.select'' (to_db m) (Inr (filter (\<lambda>t. ut_Encrypted t \<noteq> []) (tool_tokens m))) of
        Inl _ \<Rightarrow> (1, [], m)
      | Inr items \<Rightarrow> finish (rollback_tokens lib sys dryRun items m))"

text \<open>One token: the row is first replaced by an empty one, then the value is encrypted, then the result is written.\<close>

definition migrate_token :: "crypto_lib \<Rightarrow> opsys \<Rightarrow> rng \<Rightarrow> bool \<Rightarrow> UserToken \<Rightarrow> tool \<Rightarrow> line \<times> tool" where
  "migrate_token lib sys rng dryRun t m =
     (if dryRun then (Would (token_name t), m)
      else case put_token ''runMigration.prepare'' (t\<lparr>ut_Value := [], ut_Encrypted := [], ut_EncryptedDEK := [], ut_EncryptionType := ''legacy''\<rparr>) (to_db m) of
             Inl err \<Rightarrow> (Failed (token_name t) err, m)
           | Inr db \<Rightarrow>
               (case EncryptSecret lib sys rng (ut_Value t) (to_keys m) of
                  (Inl err, ks) \<Rightarrow> (Failed (token_name t) err, \<lparr>to_db = db, to_keys = ks\<rparr>)
                | (Inr encrypted, ks) \<Rightarrow>
                    (case write_token ''runMigration'' (\<lambda>x. x\<lparr>ut_Encrypted := encrypted\<rparr>) t db of
                       Inl err \<Rightarrow> (Failed (token_name t) err, \<lparr>to_db = db, to_keys = ks\<rparr>)
                     | Inr db \<Rightarrow> (Done (token_name t), \<lparr>to_db = db, to_keys = ks\<rparr>))))"

fun migrate_items :: "crypto_lib \<Rightarrow> opsys \<Rightarrow> rng \<Rightarrow> bool \<Rightarrow> UserToken list \<Rightarrow> tool \<Rightarrow> line list \<times> tool" where
  "migrate_items lib sys rng dryRun [] m = ([], m)"
| "migrate_items lib sys rng dryRun (t # ts) m =
     (let (l, m) = migrate_token lib sys rng dryRun t m; (ls, m) = migrate_items lib sys (skip_rng 3 rng) dryRun ts m in (l # ls, m))"

definition plain_tokens :: "tool \<Rightarrow> UserToken list" where
  "plain_tokens m = filter (\<lambda>t. ut_Encrypted t = [] \<and> ut_Value t \<noteq> []) (tool_tokens m)"

definition runMigration :: "crypto_lib \<Rightarrow> opsys \<Rightarrow> rng \<Rightarrow> bool \<Rightarrow> tool \<Rightarrow> int \<times> line list \<times> tool" where
  "runMigration lib sys rng dryRun m =
     (case stmt ''runMigration.select'' (to_db m) (Inr (plain_tokens m)) of
        Inl _ \<Rightarrow> (1, [], m)
      | Inr items \<Rightarrow> finish (migrate_items lib sys rng dryRun items m))"

section \<open>The environments of backends\<close>

definition migrate_env :: "crypto_lib \<Rightarrow> opsys \<Rightarrow> rng \<Rightarrow> bool \<Rightarrow> Backend \<Rightarrow> tool \<Rightarrow> line \<times> tool" where
  "migrate_env lib sys rng dryRun b m =
     (if dryRun then (Would (be_ID b), m)
      else case EncryptSecret lib sys rng (be_Env b) (to_keys m) of
             (Inl err, ks) \<Rightarrow> (Failed (be_ID b) err, m\<lparr>to_keys := ks\<rparr>)
           | (Inr encrypted, ks) \<Rightarrow>
               (case stmt ''runAdminEnvMigration'' (to_db m) (Inr ((to_db m)\<lparr>db_backends := update_where (\<lambda>x. be_ID x = be_ID b)
                        (\<lambda>x. x\<lparr>be_EncryptedEnv := encrypted, be_Env := ''{}''\<rparr>) (db_backends (to_db m))\<rparr>)) of
                  Inl err \<Rightarrow> (Failed (be_ID b) err, m\<lparr>to_keys := ks\<rparr>)
                | Inr db \<Rightarrow> (Done (be_ID b), \<lparr>to_db = db, to_keys = ks\<rparr>)))"

fun migrate_envs :: "crypto_lib \<Rightarrow> opsys \<Rightarrow> rng \<Rightarrow> bool \<Rightarrow> Backend list \<Rightarrow> tool \<Rightarrow> line list \<times> tool" where
  "migrate_envs lib sys rng dryRun [] m = ([], m)"
| "migrate_envs lib sys rng dryRun (b # bs) m =
     (let (l, m) = migrate_env lib sys rng dryRun b m; (ls, m) = migrate_envs lib sys (skip_rng 3 rng) dryRun bs m in (l # ls, m))"

definition runAdminEnvMigration :: "crypto_lib \<Rightarrow> opsys \<Rightarrow> rng \<Rightarrow> bool \<Rightarrow> tool \<Rightarrow> int \<times> line list \<times> tool" where
  "runAdminEnvMigration lib sys rng dryRun m =
     (case on_store (Store_ListBackends lib sys) m of
        (Inl _, m) \<Rightarrow> (1, [], m)
      | (Inr backends, m) \<Rightarrow>
          finish (migrate_envs lib sys rng dryRun (filter (\<lambda>b. be_EncryptedEnv b = [] \<and> be_Env b \<noteq> [] \<and> be_Env b \<noteq> ''{}'') backends) m))"

definition verifyAdminEnv :: "tool \<Rightarrow> goerr + int \<times> int" where
  "verifyAdminEnv m = Store_VerifyAdminEnvEncryption (to_db m)"

section \<open>The command\<close>

record migrate_flags =
  mf_encryptionKey :: string
  mf_verify :: bool
  mf_status :: bool
  mf_rollback :: bool
  mf_adminEnv :: bool
  mf_adminVerify :: bool
  mf_dryRun :: bool

text \<open>\<open>main\<close>: \<open>opened\<close> is the database that \<open>NewWithProvider\<close> opens and migrates.\<close>

definition migrate_main :: "crypto_lib \<Rightarrow> opsys \<Rightarrow> rng \<Rightarrow> (goerr + db) \<Rightarrow> migrate_flags \<Rightarrow> int \<times> line list \<times> db option" where
  "migrate_main lib sys rng opened fl =
     (let key = (if mf_encryptionKey fl = [] then sys_Getenv sys ''ENCRYPTION_KEY'' else mf_encryptionKey fl)
      in if key = [] then (1, [], None)
         else case parseEncryptionKey lib key of
                Inl _ \<Rightarrow> (1, [], None)
              | Inr keyBytes \<Rightarrow>
                  (case opened of
                     Inl _ \<Rightarrow> (1, [], None)
                   | Inr db \<Rightarrow>
                       (let m = \<lparr>to_db = db, to_keys = NewKeyStore (directProvider keyBytes)\<rparr>;
                            (code, ls, m) =
                              (if mf_adminVerify fl then (case verifyAdminEnv m of Inl _ \<Rightarrow> 1 | Inr _ \<Rightarrow> 0, [], m)
                               else if mf_adminEnv fl then runAdminEnvMigration lib sys rng (mf_dryRun fl) m
                               else if mf_status fl then (case showStatus m of Inl _ \<Rightarrow> 1 | Inr _ \<Rightarrow> 0, [], m)
                               else if mf_verify fl then verifyMigration lib sys m
                               else if mf_rollback fl then rollbackMigration lib sys (mf_dryRun fl) m
                               else runMigration lib sys rng (mf_dryRun fl) m)
                        in (code, ls, Some (to_db m)))))"

section \<open>The export\<close>

record extractedSecret =
  xs_Backend :: string
  xs_EnvKey :: string
  xs_Value :: string
  xs_Method :: string

definition findUser :: "string \<Rightarrow> db \<Rightarrow> goerr + string \<times> string" where
  "findUser email db =
     (case stmt ''findUser'' db (query_row (\<lambda>u. us_Email u = email) (db_users db)) of
        Inl err \<Rightarrow> Inl (if err = ErrNoRows then ErrNew ''user not found'' else err)
      | Inr u \<Rightarrow> Inr (us_ID u, us_PasswordSalt u))"

definition queryTokens :: "string \<Rightarrow> db \<Rightarrow> goerr + UserToken list" where
  "queryTokens userID db = stmt ''queryTokens'' db (Inr (filter (\<lambda>t. ut_UserID t = userID) (ct_user_tokens (db_core db))))"

definition ExtractToken :: "crypto_lib \<Rightarrow> opsys \<Rightarrow> string \<Rightarrow> string \<Rightarrow> string \<Rightarrow> string \<Rightarrow> tool \<Rightarrow> (goerr + string) \<times> tool" where
  "ExtractToken lib sys userID backendID envKey userDEK =
     on_store (Store_GetUserTokenDecryptedWithUserDEK lib sys userID backendID envKey (Some userDEK))"

definition extractToken ::
    "(goerr \<Rightarrow> string) \<Rightarrow> crypto_lib \<Rightarrow> opsys \<Rightarrow> UserToken \<Rightarrow> string option \<Rightarrow> tool \<Rightarrow> extractedSecret \<times> tool" where
  "extractToken errText lib sys t userDEK m =
     (let sec = (\<lambda>v meth. \<lparr>xs_Backend = ut_BackendID t, xs_EnvKey = ut_EnvKey t, xs_Value = v, xs_Method = meth\<rparr>);
          none = sec (''<no user-DEK layer for '' @ ut_BackendID t @ ''/'' @ ut_EnvKey t @ ''>'') ''failed''
      in case userDEK of
           None \<Rightarrow> (none, m)
         | Some dek \<Rightarrow>
             if ut_EncryptedDEK t = [] then (none, m)
             else (case ExtractToken lib sys (ut_UserID t) (ut_BackendID t) (ut_EnvKey t) dek m of
                     (Inl err, m) \<Rightarrow> (sec (''<decryption failed: '' @ errText err @ ''>'') ''failed'', m)
                   | (Inr plaintext, m) \<Rightarrow> (sec plaintext ''user-derived'', m)))"

fun extract_tokens ::
    "(goerr \<Rightarrow> string) \<Rightarrow> crypto_lib \<Rightarrow> opsys \<Rightarrow> string option \<Rightarrow> UserToken list \<Rightarrow> tool \<Rightarrow> extractedSecret list" where
  "extract_tokens errText lib sys userDEK [] m = []"
| "extract_tokens errText lib sys userDEK (t # ts) m =
     (let (sec, m) = extractToken errText lib sys t userDEK m in sec # extract_tokens errText lib sys userDEK ts m)"

text \<open>\<open>main\<close>: \<open>prompt\<close> is what \<open>term.ReadPassword\<close> reads. The result is the exit code and the secrets printed.\<close>

definition extract_main ::
    "(goerr \<Rightarrow> string) \<Rightarrow> crypto_lib \<Rightarrow> opsys \<Rightarrow> (goerr + db) \<Rightarrow> (goerr + string) \<Rightarrow> string \<Rightarrow> string \<Rightarrow> string \<Rightarrow> int \<times> extractedSecret list" where
  "extract_main errText lib sys opened prompt email password encryptionKey =
     (if email = [] then (1, [])
      else case (if password = [] then prompt else Inr password) of
             Inl _ \<Rightarrow> (1, [])
           | Inr [] \<Rightarrow> (1, [])
           | Inr password \<Rightarrow>
               (case (parseEncryptionKey lib (if encryptionKey = [] then sys_Getenv sys ''ENCRYPTION_KEY'' else encryptionKey), opened) of
                  (Inr keyBytes, Inr db) \<Rightarrow>
                    (case findUser email db of
                       Inl _ \<Rightarrow> (1, [])
                     | Inr (userID, passwordSalt) \<Rightarrow>
                         (let userDEK = (if passwordSalt = [] then None
                                else case DeriveUserDEK lib password passwordSalt of Inl _ \<Rightarrow> None | Inr dek \<Rightarrow> Some dek)
                          in case queryTokens userID db of
                               Inl _ \<Rightarrow> (1, [])
                             | Inr tokens \<Rightarrow> (0, extract_tokens errText lib sys userDEK tokens
                                 \<lparr>to_db = db, to_keys = NewKeyStore (directProvider keyBytes)\<rparr>)))
                | _ \<Rightarrow> (1, [])))"

section \<open>The tools read the server's key\<close>

lemma server_key_accepted:
  assumes "parseKey lib s = Inr key"
  shows "parseEncryptionKey lib s = Inr key"
  using assms by (auto simp: parseKey_def parseEncryptionKey_def Let_def split: if_splits option.splits)

section \<open>A migration that succeeds is invisible\<close>

text \<open>What the bridge reads of a token.\<close>

definition token_read :: "crypto_lib \<Rightarrow> opsys \<Rightarrow> tool \<Rightarrow> string \<times> string \<times> string \<Rightarrow> goerr + string" where
  "token_read lib sys m = (\<lambda>(u, b, k). fst (on_store (Store_GetUserTokenDecrypted lib sys u b k) m))"

definition tool_ok :: "string \<Rightarrow> tool \<Rightarrow> bool" where
  "tool_ok key m \<longleftrightarrow> fault_free (to_db m) \<and> to_keys m = NewKeyStore (directProvider key) \<and> unique_on token_key (tool_tokens m) \<and>
     (\<forall>t \<in> set (tool_tokens m). has_user (to_db m) (ut_UserID t) \<and> has_backend (to_db m) (ut_BackendID t))"

lemma direct_encrypt:
  "EncryptSecret lib sys rng p (NewKeyStore (directProvider key)) = (seal_envelope lib rng (deriveKey lib key) p, NewKeyStore (directProvider key))"
  by (simp add: EncryptSecret_def with_provider_def Encrypt_def NewKeyStore_def NewEnvelopeEncryptor_def directProvider_def EnvVar_GetKey_def)

lemma direct_decrypt:
  "DecryptSecret lib sys c (NewKeyStore (directProvider key)) = (open_envelope lib (deriveKey lib key) c, NewKeyStore (directProvider key))"
  by (simp add: DecryptSecret_def with_provider_def DecryptNoClose_def NewKeyStore_def NewEnvelopeEncryptor_def directProvider_def EnvVar_GetKey_def)

lemma token_read_row:
  assumes "tool_ok key m"
  shows "token_read lib sys m i = (case query_row (\<lambda>t. token_key t = i) (tool_tokens m) of
     Inl err \<Rightarrow> Inl err
   | Inr t \<Rightarrow> if ut_Encrypted t = [] then Inr (ut_Value t) else open_envelope lib (deriveKey lib key) (ut_Encrypted t))"
  using assms
  by (cases i) (auto simp: token_read_def on_store_def tool_ok_def Store_GetUserTokenDecrypted_def get_token_def tool_tokens_def direct_decrypt
      split: sum.splits prod.splits)

lemma replaced_row:
  "query_row (\<lambda>t. token_key t = i) (filter (\<lambda>x. token_key x \<noteq> token_key r) ts @ [r]) =
     (if i = token_key r then Inr r else query_row (\<lambda>t. token_key t = i) ts)"
proof -
  have "filter (\<lambda>t. token_key t = i) (filter (\<lambda>x. token_key x \<noteq> token_key r) ts) =
      (if i = token_key r then [] else filter (\<lambda>t. token_key t = i) ts)"
    by (auto intro: filter_cong)
  then show ?thesis by (auto simp: query_row_def split: list.splits)
qed

text \<open>One step: with \<open>enc\<close> the envelope of the value.\<close>

definition encrypted_token :: "string \<Rightarrow> UserToken \<Rightarrow> UserToken" where
  "encrypted_token enc t = t\<lparr>ut_Value := [], ut_Encrypted := enc, ut_EncryptedDEK := [], ut_EncryptionType := ''legacy''\<rparr>"

lemma encrypted_token_sel [simp]:
  "token_key (encrypted_token enc t) = token_key t" "ut_Encrypted (encrypted_token enc t) = enc" "ut_Value (encrypted_token enc t) = []"
  "ut_UserID (encrypted_token enc t) = ut_UserID t" "ut_BackendID (encrypted_token enc t) = ut_BackendID t"
  by (simp_all add: encrypted_token_def token_key_def)

definition with_tokens :: "UserToken list \<Rightarrow> tool \<Rightarrow> tool" where
  "with_tokens ts m = m\<lparr>to_db := core_upd (\<lambda>c. c\<lparr>ct_user_tokens := ts\<rparr>) (to_db m)\<rparr>"

lemma with_tokens_sel [simp]:
  "tool_tokens (with_tokens ts m) = ts" "to_keys (with_tokens ts m) = to_keys m" "fault_free (to_db (with_tokens ts m)) = fault_free (to_db m)"
  "has_user (to_db (with_tokens ts m)) = has_user (to_db m)" "has_backend (to_db (with_tokens ts m)) = has_backend (to_db m)"
  by (simp_all add: with_tokens_def tool_tokens_def core_upd_def fault_free_def has_user_def has_backend_def fun_eq_iff)

lemma migrate_token_step:
  assumes "tool_ok key m" and "t \<in> set (tool_tokens m)"
  shows "migrate_token lib sys rng False t m =
    (case seal_envelope lib rng (deriveKey lib key) (ut_Value t) of
       Inl err \<Rightarrow> (Failed (token_name t) err, with_tokens (filter (\<lambda>x. token_key x \<noteq> token_key t) (tool_tokens m) @ [encrypted_token [] t]) m)
     | Inr enc \<Rightarrow> (Done (token_name t), with_tokens (filter (\<lambda>x. token_key x \<noteq> token_key t) (tool_tokens m) @ [encrypted_token enc t]) m))"
proof -
  let ?z = "t\<lparr>ut_Value := [], ut_Encrypted := [], ut_EncryptedDEK := [], ut_EncryptionType := ''legacy''\<rparr>"
  let ?rest = "filter (\<lambda>x. token_key x \<noteq> token_key t) (tool_tokens m)"
  have z: "?z = encrypted_token [] t" by (simp add: encrypted_token_def)
  have put: "put_token op ?z (to_db m) = Inr (to_db (with_tokens (?rest @ [encrypted_token [] t]) m))" for op
    using assms by (simp add: put_token_def tool_ok_def z replace_row_def with_tokens_def tool_tokens_def core_upd_def)
  have "write_token op (\<lambda>x. x\<lparr>ut_Encrypted := enc\<rparr>) t (to_db (with_tokens (?rest @ [encrypted_token [] t]) m)) =
      Inr (to_db (with_tokens (?rest @ [encrypted_token enc t]) m))" for op enc
  proof -
    have "update_where (\<lambda>x. token_key x = token_key t) f ?rest = ?rest" for f
      by (auto simp: update_where_def intro: map_idI)
    moreover have "(encrypted_token [] t)\<lparr>ut_Encrypted := enc\<rparr> = encrypted_token enc t" by (simp add: encrypted_token_def)
    ultimately show ?thesis using assms(1)
      by (simp add: write_token_def tool_ok_def with_tokens_def core_upd_def update_where_def fault_free_def stmt_def)
  qed
  then show ?thesis using assms(1) put
    by (auto simp: migrate_token_def tool_ok_def direct_encrypt with_tokens_def split: sum.splits)
qed

lemma migrate_step_ok:
  assumes "crypto_lawful lib" and "rng_sound rng" and "tool_ok key m" and "t \<in> set (tool_tokens m)" and "ut_Encrypted t = []"
    and "seal_envelope lib rng (deriveKey lib key) (ut_Value t) = Inr enc"
    and m': "m' = with_tokens (filter (\<lambda>x. token_key x \<noteq> token_key t) (tool_tokens m) @ [encrypted_token enc t]) m"
  shows "tool_ok key m'" and "token_read lib sys m' = token_read lib sys m" and "enc \<noteq> []"
proof -
  show ok: "tool_ok key m'"
    using assms(3,4) unique_on_filter [of token_key "tool_tokens m"] by (auto simp: tool_ok_def m' unique_on_snoc)
  show "enc \<noteq> []" using EncryptSecret_nonempty direct_encrypt assms(6) by metis
  have "open_envelope lib (deriveKey lib key) enc = Inr (ut_Value t)" using envelope_roundtrip [OF assms(1,2,6)] .
  moreover have "query_row (\<lambda>x. token_key x = token_key t) (tool_tokens m) = Inr t"
    using assms(3,4) by (intro query_row_unique [of token_key]) (auto simp: tool_ok_def)
  ultimately have "token_read lib sys m' i = token_read lib sys m i" for i
    using replaced_row [of i "encrypted_token enc t" "tool_tokens m"] assms(5) \<open>enc \<noteq> []\<close>
    unfolding token_read_row [OF ok] token_read_row [OF assms(3)] by (simp add: m')
  then show "token_read lib sys m' = token_read lib sys m" by (simp add: fun_eq_iff)
qed

text \<open>A row after the migration of the tokens \<open>ts\<close> of the rows \<open>old\<close>: encrypted and no longer in plain text if it was among them, and as it was otherwise.\<close>

definition migrated :: "UserToken list \<Rightarrow> UserToken list \<Rightarrow> UserToken \<Rightarrow> bool" where
  "migrated ts old x \<longleftrightarrow> (if token_key x \<in> token_key ` set ts then ut_Value x = [] \<and> ut_Encrypted x \<noteq> [] else x \<in> set old)"

lemma migrate_items_ok:
  assumes "crypto_lawful lib" and "rng_sound rng" and "\<forall>i n. rng i n \<noteq> None" and "tool_ok key m"
    and "set ts \<subseteq> set (tool_tokens m)" and "unique_on token_key ts" and "\<forall>t \<in> set ts. ut_Encrypted t = []"
  shows "\<exists>m'. migrate_items lib sys rng False ts m = (map (Done \<circ> token_name) ts, m') \<and> tool_ok key m' \<and>
    token_read lib sys m' = token_read lib sys m \<and>
    token_key ` set (tool_tokens m') = token_key ` set (tool_tokens m) \<and> (\<forall>x \<in> set (tool_tokens m'). migrated ts (tool_tokens m) x)"
  using assms
proof (induction ts arbitrary: m rng)
  case Nil
  then show ?case by (simp add: migrated_def)
next
  case (Cons t ts)
  obtain dek n1 n2 where "rng 0 keySize = Some dek" "rng 1 nonceSize = Some n1" "rng 2 nonceSize = Some n2" using Cons.prems(3) by blast
  then obtain enc where enc: "seal_envelope lib rng (deriveKey lib key) (ut_Value t) = Inr enc"
    using seal_envelope_total [OF Cons.prems(1) deriveKey_length [OF Cons.prems(1)] Cons.prems(2)] by blast
  define m1 where "m1 = with_tokens (filter (\<lambda>x. token_key x \<noteq> token_key t) (tool_tokens m) @ [encrypted_token enc t]) m"
  have t: "t \<in> set (tool_tokens m)" "ut_Encrypted t = []" using Cons.prems by auto
  have step: "migrate_token lib sys rng False t m = (Done (token_name t), m1)"
    using migrate_token_step [OF Cons.prems(4) t(1)] enc by (simp add: m1_def)
  note ok = migrate_step_ok [OF Cons.prems(1,2,4) t enc m1_def]
  have "token_key t \<notin> token_key ` set ts" using Cons.prems(6) by (simp add: unique_on_def)
  then have "token_key x \<noteq> token_key t" if "x \<in> set ts" for x using that by (metis imageI)
  then have "set ts \<subseteq> set (tool_tokens m1)" using Cons.prems(5) by (auto simp: m1_def)
  moreover have "\<forall>i n. skip_rng 3 rng i n \<noteq> None" using Cons.prems(3) by (simp add: skip_rng_def)
  moreover have "unique_on token_key ts" "\<forall>t \<in> set ts. ut_Encrypted t = []" using Cons.prems(6,7) by (simp_all add: unique_on_def)
  ultimately obtain m2 where m2: "migrate_items lib sys (skip_rng 3 rng) False ts m1 = (map (Done \<circ> token_name) ts, m2)" "tool_ok key m2"
      "token_read lib sys m2 = token_read lib sys m1"
      "token_key ` set (tool_tokens m2) = token_key ` set (tool_tokens m1)" "\<forall>x \<in> set (tool_tokens m2). migrated ts (tool_tokens m1) x"
    using Cons.IH [OF Cons.prems(1) rng_sound_skip [OF Cons.prems(2), of 3] _ ok(1)] by blast
  moreover have "token_key ` set (tool_tokens m1) = token_key ` set (tool_tokens m)" using t(1) by (auto simp: m1_def)
  moreover have "migrated (t # ts) (tool_tokens m) x" if "migrated ts (tool_tokens m1) x" for x
    using that ok(3) by (auto simp: migrated_def m1_def split: if_splits)
  ultimately show ?case using step ok by auto
qed

text \<open>C39: A migration to encrypted storage is invisible to the bridge: on a store whose tokens have unique keys and existing users and backends, whose statements succeed, with a
  random source that works, it ends with exit code 0 and leaves every token readable with exactly the value it had. No token is added or lost; a token that was only in
  plain text has an encrypted value and no plain one afterwards, and every other row, one that has both included, is as it was.\<close>

theorem migration_transparent:
  assumes "crypto_lawful lib" and "rng_sound rng" and "\<forall>i n. rng i n \<noteq> None" and "tool_ok key m"
  shows "\<exists>ls m'. runMigration lib sys rng False m = (0, ls, m') \<and> token_read lib sys m' = token_read lib sys m \<and>
    token_key ` set (tool_tokens m') = token_key ` set (tool_tokens m) \<and>
    (\<forall>t \<in> set (tool_tokens m'). if token_key t \<in> token_key ` set (plain_tokens m) then ut_Value t = [] \<and> ut_Encrypted t \<noteq> []
       else t \<in> set (tool_tokens m))"
proof -
  have "unique_on token_key (plain_tokens m)" using assms(4) by (simp add: plain_tokens_def tool_ok_def unique_on_filter)
  moreover have items: "set (plain_tokens m) \<subseteq> set (tool_tokens m)" "\<forall>t \<in> set (plain_tokens m). ut_Encrypted t = []"
    by (auto simp: plain_tokens_def)
  ultimately obtain m' where m': "migrate_items lib sys rng False (plain_tokens m) m = (map (Done \<circ> token_name) (plain_tokens m), m')"
      "token_read lib sys m' = token_read lib sys m" "token_key ` set (tool_tokens m') = token_key ` set (tool_tokens m)"
      "\<forall>x \<in> set (tool_tokens m'). migrated (plain_tokens m) (tool_tokens m) x"
    using migrate_items_ok [OF assms items(1) _ items(2), of sys] by blast
  have "runMigration lib sys rng False m = (0, map (Done \<circ> token_name) (plain_tokens m), m')"
    using assms(4) m'(1) by (simp add: runMigration_def tool_ok_def finish_def list_ex_iff)
  then show ?thesis using m'(2-4) unfolding migrated_def by blast
qed

section \<open>A migration that fails loses the token\<close>

text \<open>When the encryption of a token fails, the migration has already overwritten it: the line says \<open>FAIL\<close>, and where the bridge read
  the token's value before, it reads the empty text.\<close>

theorem failed_migration_erases:
  assumes "tool_ok key m" and "t \<in> set (tool_tokens m)" and "ut_Encrypted t = []"
    and "fst (EncryptSecret lib sys rng (ut_Value t) (to_keys m)) = Inl err"
  shows "\<exists>m'. migrate_token lib sys rng False t m = (Failed (token_name t) err, m') \<and>
    token_read lib sys m (token_key t) = Inr (ut_Value t) \<and> token_read lib sys m' (token_key t) = Inr []"
proof -
  let ?m = "with_tokens (filter (\<lambda>x. token_key x \<noteq> token_key t) (tool_tokens m) @ [encrypted_token [] t]) m"
  have "seal_envelope lib rng (deriveKey lib key) (ut_Value t) = Inl err"
    using assms(1,4) by (simp add: tool_ok_def direct_encrypt)
  then have "migrate_token lib sys rng False t m = (Failed (token_name t) err, ?m)" using migrate_token_step [OF assms(1,2)] by simp
  moreover have ok: "tool_ok key ?m"
    using assms(1,2) unique_on_filter [of token_key "tool_tokens m"] by (auto simp: tool_ok_def unique_on_snoc)
  moreover have "token_read lib sys ?m (token_key t) = Inr []"
    using replaced_row [of "token_key t" "encrypted_token [] t"] unfolding token_read_row [OF ok] by simp
  moreover have "query_row (\<lambda>x. token_key x = token_key t) (tool_tokens m) = Inr t"
    using assms(1,2) by (intro query_row_unique [of token_key]) (auto simp: tool_ok_def)
  then have "token_read lib sys m (token_key t) = Inr (ut_Value t)" unfolding token_read_row [OF assms(1)] using assms(3) by simp
  ultimately show ?thesis by blast
qed

section \<open>A run\<close>

definition plain_token :: UserToken where
  "plain_token = \<lparr>ut_UserID = ''u'', ut_BackendID = ''b'', ut_EnvKey = ''K'', ut_Value = ''secret'', ut_Encrypted = [], ut_EncryptedDEK = [],
     ut_EncryptionType = ''legacy''\<rparr>"

definition plain_tool :: tool where
  "plain_tool = \<lparr>to_db = empty_db\<lparr>db_users := [\<lparr>us_ID = ''u'', us_Name = [], us_Email = ''u@b'', us_Password = [], us_PasswordSalt = [], us_Role = ''user'',
         us_CreatedAt = 0\<rparr>],
       db_backends := [\<lparr>be_ID = ''b'', be_Command = ''c'', be_PoolSize = 1, be_ToolPrefix = [], be_Env = ''{}'', be_EnvMappings = ''{}'', be_ToolHints = [],
         be_BackendInstructions = [], be_Enabled = True, be_IsSystem = False, be_MinPoolSize = 1, be_MaxPoolSize = 1, be_SelfReporting = False,
         be_NoKeysRequired = False, be_SkipJustification = False, be_StdioFraming = [], be_EncryptedEnv = [], be_PrecacheError = [], be_PrecacheErrorAt = None\<rparr>],
       db_core := empty_core\<lparr>ct_user_tokens := [plain_token]\<rparr>\<rparr>,
     to_keys = NewKeyStore (directProvider (replicate 32 (CHR ''k'')))\<rparr>"

lemma plain_tool_ok: "tool_ok (replicate 32 (CHR ''k'')) plain_tool" "tool_tokens plain_tool = [plain_token]"
  by (simp_all add: tool_ok_def plain_tool_def tool_tokens_def empty_db_def empty_core_def fault_free_def has_user_def has_backend_def unique_on_def plain_token_def)

theorem migration_transparent_witness:
  "\<exists>ls m'. runMigration sample_lib sample_os sample_rng False plain_tool = (0, ls, m') \<and>
     token_read sample_lib sample_os m' (''u'', ''b'', ''K'') = Inr ''secret'' \<and> (\<forall>t \<in> set (tool_tokens m'). ut_Value t = [] \<and> ut_Encrypted t \<noteq> [])"
proof -
  have "token_read sample_lib sample_os plain_tool (''u'', ''b'', ''K'') = Inr ''secret''"
    unfolding token_read_row [OF plain_tool_ok(1)] by (simp add: plain_tool_ok(2) query_row_def token_key_def plain_token_def)
  moreover have "token_key ` set (plain_tokens plain_tool) = token_key ` set (tool_tokens plain_tool)"
    by (simp add: plain_tokens_def plain_tool_ok(2) plain_token_def)
  ultimately show ?thesis
    using migration_transparent [OF sample_lib_lawful sample_rng_sound(1) _ plain_tool_ok(1), of sample_os] sample_rng_sound(2) by (metis imageI)
qed

theorem failed_migration_erases_witness:
  "\<exists>err m'. migrate_token sample_lib sample_os (\<lambda>_ _. None) False plain_token plain_tool = (Failed (token_name plain_token) err, m') \<and>
     token_read sample_lib sample_os plain_tool (token_key plain_token) = Inr ''secret'' \<and>
     token_read sample_lib sample_os m' (token_key plain_token) = Inr []"
proof -
  have "fst (EncryptSecret sample_lib sample_os (\<lambda>_ _. None) (ut_Value plain_token) (to_keys plain_tool)) = Inl (ErrNew ''failed to generate DEK'')"
    by (simp add: plain_tool_def direct_encrypt seal_envelope_def)
  from failed_migration_erases [OF plain_tool_ok(1) _ _ this] show ?thesis by (auto simp: plain_tool_ok(2) plain_token_def)
qed

end
