(* ===== verification/Secrets.thy ===== *)
theory Secrets
  imports Process Crypto
begin

text \<open>
  Handing secrets to a process (src/internal/secret/secret.go and \<open>SpawnProcessWithSecrets\<close> of src/poolmgr/process.go): in files, whose
  paths go into the environment, or in the environment itself. The interface \<open>SecretInjector\<close> is the locale \<open>secret_injector\<close>; \<open>Execute\<close>, its
  client, takes the two operations as arguments. The \<open>disk\<close> holds the files and says which writes fail, with their error and with what a failed write leaves in
  the file, and which files cannot be removed; the process that is run may change the disk. A Go map is an association list in the order in which the code happens to range over it.
\<close>

section \<open>Secrets in files\<close>

record FileSecretInjector =
  fi_basePath :: string
  fi_secretsFile :: "(string, string) gomap"

record disk =
  dk_files :: "(string, string) gomap"
  dk_refuses :: "string \<Rightarrow> (goerr \<times> string option) option"
  dk_stays :: "string \<Rightarrow> bool"

text \<open>What a failed write of a file leaves: nothing new, or the file with some content.\<close>

definition leave :: "string \<Rightarrow> string option \<Rightarrow> disk \<Rightarrow> disk" where
  "leave p left d = (case left of None \<Rightarrow> d | Some t \<Rightarrow> d\<lparr>dk_files := AList.update p t (dk_files d)\<rparr>)"

definition NewFileSecretInjector :: "string \<Rightarrow> FileSecretInjector" where
  "NewFileSecretInjector basePath = \<lparr>fi_basePath = basePath, fi_secretsFile = []\<rparr>"

definition SecretPath :: "FileSecretInjector \<Rightarrow> string" where
  "SecretPath f = fi_basePath f"

definition generateRandomFilename :: "rng \<Rightarrow> goerr + string" where
  "generateRandomFilename rng = (case rng 0 16 of None \<Rightarrow> Inl (ErrNew ''unexpected EOF'') | Some b \<Rightarrow> Inr (hex_encode b))"

fun File_PrepareSecrets ::
    "opsys \<Rightarrow> rng \<Rightarrow> (string, string) gomap \<Rightarrow> FileSecretInjector \<times> disk \<Rightarrow> (goerr + string list) \<times> FileSecretInjector \<times> disk" where
  "File_PrepareSecrets sys rng [] (f, d) = (Inr [], f, d)"
| "File_PrepareSecrets sys rng ((key, val) # secrets) (f, d) =
     (case generateRandomFilename rng of
        Inl err \<Rightarrow> (Inl (ErrWrap ''failed to generate filename'' err), f, d)
      | Inr filename \<Rightarrow>
          (let filePath = sys_Join sys (fi_basePath f) filename
           in case dk_refuses d filePath of
                Some (err, left) \<Rightarrow> (Inl (ErrWrap ''failed to write secret file'' err), f, leave filePath left d)
              | None \<Rightarrow>
                  (case File_PrepareSecrets sys (skip_rng 1 rng) secrets
                       (f\<lparr>fi_secretsFile := AList.update key filePath (fi_secretsFile f)\<rparr>, d\<lparr>dk_files := AList.update filePath val (dk_files d)\<rparr>) of
                     (Inl err, st) \<Rightarrow> (Inl err, st)
                   | (Inr envVars, st) \<Rightarrow> (Inr ((key @ ''='' @ filePath) # envVars), st))))"

text \<open>The error of a removal is ignored.\<close>

definition File_Cleanup :: "FileSecretInjector \<times> disk \<Rightarrow> FileSecretInjector \<times> disk" where
  "File_Cleanup = (\<lambda>(f, d). (f\<lparr>fi_secretsFile := []\<rparr>,
     d\<lparr>dk_files := filter (\<lambda>(p, _). p \<notin> snd ` set (fi_secretsFile f) \<or> dk_stays d p) (dk_files d)\<rparr>))"

section \<open>Secrets in the environment\<close>

record EnvVarSecretInjector =
  ei_envVars :: "(string, string) gomap"

definition NewEnvVarSecretInjector :: EnvVarSecretInjector where
  "NewEnvVarSecretInjector = \<lparr>ei_envVars = []\<rparr>"

definition SetSecret :: "string \<Rightarrow> string \<Rightarrow> EnvVarSecretInjector \<Rightarrow> EnvVarSecretInjector" where
  "SetSecret key val e = e\<lparr>ei_envVars := AList.update key val (ei_envVars e)\<rparr>"

definition GetEnvForExec :: "EnvVarSecretInjector \<Rightarrow> string list" where
  "GetEnvForExec e = map (\<lambda>(k, v). k @ ''='' @ v) (ei_envVars e)"

definition Env_PrepareSecrets ::
    "(string, string) gomap \<Rightarrow> EnvVarSecretInjector \<Rightarrow> (goerr + string list) \<times> EnvVarSecretInjector" where
  "Env_PrepareSecrets secrets e = (let e = fold (\<lambda>(k, v). SetSecret k v) secrets e in (Inr (GetEnvForExec e), e))"

definition Env_Cleanup :: "EnvVarSecretInjector \<Rightarrow> EnvVarSecretInjector" where
  "Env_Cleanup e = e\<lparr>ei_envVars := []\<rparr>"

section \<open>Running a process with secrets\<close>

datatype run_outcome = StartFailed goerr | Exited "goerr option" | Cancelled goerr

text \<open>\<open>run\<close> is the run of \<open>sh -c\<close> with an environment, until it exits or the context ends, and what it does to the state outside the injector.\<close>

definition Execute ::
    "((string, string) gomap \<Rightarrow> 's \<Rightarrow> (goerr + string list) \<times> 's) \<Rightarrow> ('s \<Rightarrow> 's) \<Rightarrow> (string list \<Rightarrow> string list \<Rightarrow> 's \<Rightarrow> run_outcome \<times> 's) \<Rightarrow>
     string \<Rightarrow> (string, string) gomap \<Rightarrow> 's \<Rightarrow> goerr option \<times> 's" where
  "Execute prepare cleanup run command secrets s =
     (case prepare secrets s of
        (Inl err, s) \<Rightarrow> (Some err, s)
      | (Inr envVars, s) \<Rightarrow>
          (let (res, s) = run [''sh'', ''-c'', command] envVars s
           in (case res of StartFailed err \<Rightarrow> Some err | Exited res \<Rightarrow> res | Cancelled err \<Rightarrow> Some err, cleanup s)))"

text \<open>A process that changes the disk does not reach the injector.\<close>

definition on_disk :: "(string list \<Rightarrow> string list \<Rightarrow> disk \<Rightarrow> run_outcome \<times> disk) \<Rightarrow> string list \<Rightarrow> string list \<Rightarrow> 'f \<times> disk \<Rightarrow> run_outcome \<times> 'f \<times> disk" where
  "on_disk act args envVars = (\<lambda>(f, d). let (res, d) = act args envVars d in (res, f, d))"

text \<open>The process keeps the injector it was started with.\<close>

record secret_process =
  sp_process :: ManagedProcess
  sp_injector :: "FileSecretInjector option"

definition SpawnProcessWithSecrets ::
    "(string list \<Rightarrow> string list option \<Rightarrow> goerr + int) \<Rightarrow> opsys \<Rightarrow> rng \<Rightarrow> string \<Rightarrow> string \<Rightarrow> string list option \<Rightarrow> (string, string) gomap \<Rightarrow> disk \<Rightarrow>
     (goerr + secret_process) \<times> disk" where
  "SpawnProcessWithSecrets start sys rng secretsPath command env secrets d =
     (case File_PrepareSecrets sys rng secrets (NewFileSecretInjector secretsPath, d) of
        (Inl err, _, d) \<Rightarrow> (Inl (ErrWrap ''failed to prepare secrets'' err), d)
      | (Inr envVars, f, d) \<Rightarrow>
          (case spawnProcessRaw start command (if envVars = [] then env else Some (case env of None \<Rightarrow> envVars | Some e \<Rightarrow> e @ envVars)) of
             Inl err \<Rightarrow> (Inl err, snd (File_Cleanup (f, d)))
           | Inr proc \<Rightarrow> (Inr \<lparr>sp_process = proc\<lparr>mp_secretInjector := True\<rparr>, sp_injector = Some f\<rparr>, d)))"

definition CleanupSecrets :: "secret_process \<Rightarrow> disk \<Rightarrow> secret_process \<times> disk" where
  "CleanupSecrets p d =
     (case sp_injector p of
        None \<Rightarrow> (p, d)
      | Some f \<Rightarrow> (let (f, d) = File_Cleanup (f, d) in (p\<lparr>sp_injector := Some f\<rparr>, d)))"

section \<open>The interface\<close>

locale secret_injector =
  fixes prepare :: "(string, string) gomap \<Rightarrow> 's \<Rightarrow> (goerr + string list) \<times> 's" and cleanup :: "'s \<Rightarrow> 's" and held :: "'s \<Rightarrow> string set"
  assumes cleanup_releases: "held (cleanup s) = {}"
    and prepare_holds: "prepare secrets s = (Inr envVars, s') \<Longrightarrow> fst ` set secrets \<subseteq> held s'"
begin

lemma executed:
  assumes "prepare secrets s = (Inr envVars, s')"
  shows "held (snd (Execute prepare cleanup run command secrets s)) = {}" and "fst ` set secrets \<subseteq> held s'"
  using assms cleanup_releases prepare_holds by (auto simp: Execute_def split: prod.splits run_outcome.splits)

lemma execute_refused:
  "prepare secrets s = (Inl err, s') \<Longrightarrow> Execute prepare cleanup run command secrets s = (Some err, s')"
  by (simp add: Execute_def)

end

lemma File_keeps:
  "File_PrepareSecrets sys rng secrets (f, d) = (r, f', d') \<Longrightarrow>
     fi_basePath f' = fi_basePath f \<and> dk_refuses d' = dk_refuses d \<and> dk_stays d' = dk_stays d \<and> fst ` set (fi_secretsFile f) \<subseteq> fst ` set (fi_secretsFile f') \<and>
     (\<forall>vars. r = Inr vars \<longrightarrow> fst ` set secrets \<subseteq> fst ` set (fi_secretsFile f'))"
proof (induction secrets arbitrary: rng f d r)
  case Nil
  then show ?case by auto
next
  case (Cons x secrets)
  obtain key val where x: "x = (key, val)" by (cases x)
  show ?case
  proof (cases "generateRandomFilename rng")
    case (Inl err)
    then show ?thesis using Cons.prems by (auto simp: x)
  next
    case (Inr filename)
    let ?p = "sys_Join sys (fi_basePath f) filename"
    show ?thesis
    proof (cases "dk_refuses d ?p")
      case (Some failure)
      then show ?thesis using Cons.prems Inr by (auto simp: x leave_def split: prod.splits option.splits)
    next
      case None
      let ?f = "f\<lparr>fi_secretsFile := AList.update key ?p (fi_secretsFile f)\<rparr>" and ?d = "d\<lparr>dk_files := AList.update ?p val (dk_files d)\<rparr>"
      obtain r1 where r1: "File_PrepareSecrets sys (skip_rng 1 rng) secrets (?f, ?d) = (r1, f', d')"
        using Cons.prems Inr None by (auto simp: x Let_def split: prod.splits sum.splits)
      from Cons.IH [OF this] have "fi_basePath f' = fi_basePath f" "dk_refuses d' = dk_refuses d" "dk_stays d' = dk_stays d"
          "fst ` set (fi_secretsFile f) \<subseteq> fst ` set (fi_secretsFile f')" "key \<in> fst ` set (fi_secretsFile f')"
          "\<forall>vars. r1 = Inr vars \<longrightarrow> fst ` set secrets \<subseteq> fst ` set (fi_secretsFile f')"
        by (simp_all add: dom_update)
      then show ?thesis using Cons.prems Inr None r1 by (auto simp: x Let_def split: sum.splits)
    qed
  qed
qed

interpretation file_secrets: secret_injector "File_PrepareSecrets sys rng" File_Cleanup "\<lambda>(f, d). fst ` set (fi_secretsFile f)" for sys rng
proof
  show "(\<lambda>(f, d). fst ` set (fi_secretsFile f)) (File_Cleanup s) = {}" for s by (simp add: File_Cleanup_def split: prod.splits)
  show "fst ` set secrets \<subseteq> (\<lambda>(f, d). fst ` set (fi_secretsFile f)) s'"
    if "File_PrepareSecrets sys rng secrets s = (Inr envVars, s')" for secrets s envVars s'
  proof -
    obtain f d f' d' where "s = (f, d)" "s' = (f', d')" by (cases s, cases s')
    then show ?thesis using File_keeps [of sys rng secrets f d "Inr envVars" f' d'] that by simp
  qed
qed

lemma fold_SetSecret_keys: "fst ` set (ei_envVars (fold (\<lambda>(k, v). SetSecret k v) secrets e)) = fst ` set (ei_envVars e) \<union> fst ` set secrets"
  by (induction secrets arbitrary: e) (simp_all add: SetSecret_def dom_update case_prod_beta)

interpretation env_secrets: secret_injector Env_PrepareSecrets Env_Cleanup "\<lambda>e. fst ` set (ei_envVars e)"
  by unfold_locales (auto simp: Env_Cleanup_def Env_PrepareSecrets_def fold_SetSecret_keys Let_def)

section \<open>No file outlives a run\<close>

definition secret_paths :: "opsys \<Rightarrow> rng \<Rightarrow> string \<Rightarrow> nat \<Rightarrow> string list" where
  "secret_paths sys rng base n = map (\<lambda>i. sys_Join sys base (hex_encode (case rng i 16 of None \<Rightarrow> [] | Some b \<Rightarrow> b))) [0..<n]"

lemma secret_paths_Suc:
  "secret_paths sys rng base (Suc n) =
     sys_Join sys base (hex_encode (case rng 0 16 of None \<Rightarrow> [] | Some b \<Rightarrow> b)) # secret_paths sys (skip_rng 1 rng) base n"
  by (simp add: secret_paths_def skip_rng_def upt_conv_Cons map_Suc_upt [symmetric] del: upt_Suc map_Suc_upt)

lemma update_fresh: "k \<notin> fst ` set xs \<Longrightarrow> AList.update k v xs = xs @ [(k, v)]"
  by (induction xs) auto

text \<open>The files are written one by one, each under a fresh name.\<close>

lemma prepared_prefix:
  assumes "\<forall>i < length ys. rng i 16 \<noteq> None" and "distinct (map fst (fi_secretsFile f) @ map fst ys)"
    and "distinct (map fst (dk_files d) @ secret_paths sys rng (fi_basePath f) (length ys))"
    and "\<forall>p \<in> set (secret_paths sys rng (fi_basePath f) (length ys)). dk_refuses d p = None"
  shows "File_PrepareSecrets sys rng (ys @ zs) (f, d) =
    (case File_PrepareSecrets sys (skip_rng (length ys) rng) zs
        (f\<lparr>fi_secretsFile := fi_secretsFile f @ zip (map fst ys) (secret_paths sys rng (fi_basePath f) (length ys))\<rparr>,
         d\<lparr>dk_files := dk_files d @ zip (secret_paths sys rng (fi_basePath f) (length ys)) (map snd ys)\<rparr>) of
       (Inl err, st) \<Rightarrow> (Inl err, st)
     | (Inr envVars, st) \<Rightarrow>
         (Inr (map2 (\<lambda>k p. k @ ''='' @ p) (map fst ys) (secret_paths sys rng (fi_basePath f) (length ys)) @ envVars), st))"
  using assms
proof (induction ys arbitrary: rng f d)
  case Nil
  then show ?case by (simp add: secret_paths_def skip_rng_def split: prod.splits sum.splits)
next
  case (Cons y ys)
  obtain key val where y: "y = (key, val)" by (cases y)
  obtain b where b: "rng 0 16 = Some b" using Cons.prems(1) by force
  let ?p = "sys_Join sys (fi_basePath f) (hex_encode b)" and ?ps = "secret_paths sys (skip_rng 1 rng) (fi_basePath f) (length ys)"
  let ?f = "f\<lparr>fi_secretsFile := fi_secretsFile f @ [(key, ?p)]\<rparr>" and ?d = "d\<lparr>dk_files := dk_files d @ [(?p, val)]\<rparr>"
  have ps: "secret_paths sys rng (fi_basePath f) (length (y # ys)) = ?p # ?ps" by (simp add: secret_paths_Suc b)
  have upd: "AList.update key ?p (fi_secretsFile f) = fi_secretsFile f @ [(key, ?p)]" "AList.update ?p val (dk_files d) = dk_files d @ [(?p, val)]"
    using Cons.prems(2,3) by (auto simp: y secret_paths_Suc b update_fresh)
  have IH: "File_PrepareSecrets sys (skip_rng 1 rng) (ys @ zs) (?f, ?d) =
    (case File_PrepareSecrets sys (skip_rng (length ys) (skip_rng 1 rng)) zs
        (?f\<lparr>fi_secretsFile := fi_secretsFile ?f @ zip (map fst ys) ?ps\<rparr>, ?d\<lparr>dk_files := dk_files ?d @ zip ?ps (map snd ys)\<rparr>) of
       (Inl err, st) \<Rightarrow> (Inl err, st)
     | (Inr envVars, st) \<Rightarrow> (Inr (map2 (\<lambda>k p. k @ ''='' @ p) (map fst ys) ?ps @ envVars), st))"
  proof -
    have h1: "\<forall>i < length ys. skip_rng 1 rng i 16 \<noteq> None" using Cons.prems(1) by (auto simp: skip_rng_def)
    have h2: "distinct (map fst (fi_secretsFile ?f) @ map fst ys)" using Cons.prems(2) by (auto simp: y)
    have h3: "distinct (map fst (dk_files ?d) @ secret_paths sys (skip_rng 1 rng) (fi_basePath ?f) (length ys))"
      using Cons.prems(3) by (auto simp: secret_paths_Suc b)
    have h4: "\<forall>p \<in> set (secret_paths sys (skip_rng 1 rng) (fi_basePath ?f) (length ys)). dk_refuses ?d p = None"
      using Cons.prems(4) by (auto simp: secret_paths_Suc)
    have base: "fi_basePath ?f = fi_basePath f" by simp
    show ?thesis using Cons.IH [OF h1 h2 h3 h4] unfolding base .
  qed
  have lhs: "File_PrepareSecrets sys rng ((y # ys) @ zs) (f, d) =
    (case File_PrepareSecrets sys (skip_rng 1 rng) (ys @ zs) (?f, ?d) of
       (Inl err, st) \<Rightarrow> (Inl err, st)
     | (Inr envVars, st) \<Rightarrow> (Inr ((key @ ''='' @ ?p) # envVars), st))"
    using b upd Cons.prems(4) by (simp add: y generateRandomFilename_def secret_paths_Suc Let_def)
  have skip: "skip_rng (length ys) (skip_rng 1 rng) = skip_rng (length (y # ys)) rng" by (simp add: skip_rng_def)
  define res where "res = File_PrepareSecrets sys (skip_rng (length (y # ys)) rng) zs
    (f\<lparr>fi_secretsFile := fi_secretsFile f @ zip (map fst (y # ys)) (?p # ?ps)\<rparr>, d\<lparr>dk_files := dk_files d @ zip (?p # ?ps) (map snd (y # ys))\<rparr>)"
  have "File_PrepareSecrets sys (skip_rng (length ys) (skip_rng 1 rng)) zs
      (?f\<lparr>fi_secretsFile := fi_secretsFile ?f @ zip (map fst ys) ?ps\<rparr>, ?d\<lparr>dk_files := dk_files ?d @ zip ?ps (map snd ys)\<rparr>) = res"
    unfolding res_def skip by (simp add: y)
  then show ?case unfolding lhs IH ps res_def [symmetric] by (simp add: y split: prod.splits sum.splits)
qed

text \<open>What the injector must find to work: random names that are new, and writes that are not refused.\<close>

definition names_ok :: "opsys \<Rightarrow> rng \<Rightarrow> nat \<Rightarrow> FileSecretInjector \<times> disk \<Rightarrow> bool" where
  "names_ok sys rng n = (\<lambda>(f, d). (\<forall>i < n. rng i 16 \<noteq> None) \<and> fi_secretsFile f = [] \<and>
     distinct (map fst (dk_files d) @ secret_paths sys rng (fi_basePath f) n) \<and>
     (\<forall>p \<in> set (secret_paths sys rng (fi_basePath f) n). dk_refuses d p = None))"

lemma zip_ends: "length xs = length ys \<Longrightarrow> fst ` set (zip xs ys) = set xs" "length xs = length ys \<Longrightarrow> snd ` set (zip xs ys) = set ys"
  by (metis list.set_map map_fst_zip, metis list.set_map map_snd_zip)

text \<open>C40: A run takes its secrets back: for new file names, writes that succeed and distinct keys the process is given, for every secret, the path of a file
  that holds it, and after the run, whatever it did to the disk and whether it could not start, exited or was cancelled, nothing is registered and exactly those of
  the files given to it are gone that can be removed; every other file is as the process left it. A removal that fails is not noticed, and what the process
  copied elsewhere stays.\<close>

theorem run_leaves_no_secret:
  assumes "names_ok sys rng (length secrets) (f, d)" and "distinct (map fst secrets)"
  shows "\<exists>envVars f' d' res d2. File_PrepareSecrets sys rng secrets (f, d) = (Inr envVars, f', d') \<and>
    (\<forall>(k, v) \<in> set secrets. \<exists>p. k @ ''='' @ p \<in> set envVars \<and> map_of (dk_files d') p = Some v) \<and>
    act [''sh'', ''-c'', command] envVars d' = (res, d2) \<and>
    snd (Execute (File_PrepareSecrets sys rng) File_Cleanup (on_disk act) command secrets (f, d)) =
      (f, d2\<lparr>dk_files := filter (\<lambda>(p, _). p \<notin> set (secret_paths sys rng (fi_basePath f) (length secrets)) \<or> dk_stays d2 p) (dk_files d2)\<rparr>)"
proof -
  let ?ps = "secret_paths sys rng (fi_basePath f) (length secrets)"
  let ?vars = "map2 (\<lambda>k p. k @ ''='' @ p) (map fst secrets) ?ps"
  let ?f = "f\<lparr>fi_secretsFile := zip (map fst secrets) ?ps\<rparr>" and ?d = "d\<lparr>dk_files := dk_files d @ zip ?ps (map snd secrets)\<rparr>"
  have len: "length ?ps = length secrets" by (auto simp: secret_paths_def)
  have prep: "File_PrepareSecrets sys rng secrets (f, d) = (Inr ?vars, ?f, ?d)"
    using prepared_prefix [of secrets rng f d sys "[]"] assms by (simp add: names_ok_def)
  have "map_of (dk_files ?d) (?ps ! i) = Some (snd (secrets ! i)) \<and> fst (secrets ! i) @ ''='' @ ?ps ! i \<in> set ?vars"
    if i: "i < length secrets" for i
  proof -
    have "zip ?ps (map snd secrets) ! i = (?ps ! i, snd (secrets ! i))" "i < length (zip ?ps (map snd secrets))" using i len by simp_all
    then have "(?ps ! i, snd (secrets ! i)) \<in> set (dk_files ?d)" by (metis UnCI disk.select_convs(1) disk.surjective disk.update_convs(1) nth_mem set_append)
    moreover have "distinct (map fst (dk_files ?d))" using assms(1) len by (simp add: names_ok_def zip_ends)
    ultimately have "map_of (dk_files ?d) (?ps ! i) = Some (snd (secrets ! i))" by (intro map_of_is_SomeI)
    moreover have "?vars ! i = fst (secrets ! i) @ ''='' @ ?ps ! i" "i < length ?vars" using i len by simp_all
    ultimately show ?thesis by (metis nth_mem)
  qed
  then have reads: "\<exists>p. fst (secrets ! i) @ ''='' @ p \<in> set ?vars \<and> map_of (dk_files ?d) p = Some (snd (secrets ! i))" if "i < length secrets" for i
    using that by blast
  have "\<forall>(k, v) \<in> set secrets. \<exists>p. k @ ''='' @ p \<in> set ?vars \<and> map_of (dk_files ?d) p = Some v"
  proof (intro ballI case_prodI2)
    fix x k v assume "x \<in> set secrets" "x = (k, v)"
    then obtain i where "i < length secrets" "secrets ! i = (k, v)" by (auto simp: in_set_conv_nth)
    with reads [of i] show "\<exists>p. k @ ''='' @ p \<in> set ?vars \<and> map_of (dk_files ?d) p = Some v" by simp
  qed
  moreover obtain res d2 where act: "act [''sh'', ''-c'', command] ?vars ?d = (res, d2)" by fastforce
  moreover have "File_Cleanup (?f, d2) = (f, d2\<lparr>dk_files := filter (\<lambda>(p, _). p \<notin> set ?ps \<or> dk_stays d2 p) (dk_files d2)\<rparr>)"
    using assms(1) len by (cases f) (simp add: File_Cleanup_def names_ok_def zip_ends)
  ultimately show ?thesis using prep by (simp add: Execute_def on_disk_def)
qed

section \<open>A failed preparation leaves its files\<close>

text \<open>When the file of a secret cannot be written, the secrets written before it stay on the disk in plain text: the
  preparation returns an error, and its caller cleans up only after a preparation that succeeded. So does what the failed write left.\<close>

theorem failed_preparation_leaks:
  assumes "names_ok sys rng (length ys) (f, d)" and "distinct (map fst ys)"
    and "rng (length ys) 16 = Some b" and "dk_refuses d (sys_Join sys (fi_basePath f) (hex_encode b)) = Some (err, left)"
  shows "\<exists>f' d'. Execute (File_PrepareSecrets sys rng) File_Cleanup run command (ys @ (k, v) # zs) (f, d) =
      (Some (ErrWrap ''failed to write secret file'' err), f', d') \<and>
    d' = leave (sys_Join sys (fi_basePath f) (hex_encode b)) left
      (d\<lparr>dk_files := dk_files d @ zip (secret_paths sys rng (fi_basePath f) (length ys)) (map snd ys)\<rparr>)"
proof -
  let ?ps = "secret_paths sys rng (fi_basePath f) (length ys)"
  let ?f = "f\<lparr>fi_secretsFile := zip (map fst ys) ?ps\<rparr>" and ?d = "d\<lparr>dk_files := dk_files d @ zip ?ps (map snd ys)\<rparr>"
  have "File_PrepareSecrets sys rng (ys @ (k, v) # zs) (f, d) = (Inl (ErrWrap ''failed to write secret file'' err),
      ?f, leave (sys_Join sys (fi_basePath f) (hex_encode b)) left ?d)"
    using prepared_prefix [of ys rng f d sys "(k, v) # zs"] assms by (simp add: names_ok_def generateRandomFilename_def skip_rng_def)
  then show ?thesis by (simp add: file_secrets.execute_refused)
qed

section \<open>A run\<close>

definition two_names :: rng where
  "two_names = (\<lambda>i n. Some (replicate n (if i = 0 then CHR ''a'' else CHR ''b'')))"

definition small_disk :: disk where
  "small_disk = \<lparr>dk_files = [(''/etc/hosts'', [])], dk_refuses = (\<lambda>p. if p = sys_Join sample_os ''/run'' (hex_encode (replicate 16 (CHR ''b'')))
     then Some (ErrNew ''no space left on device'', Some []) else None), dk_stays = (\<lambda>_. False)\<rparr>"

lemma small_names: "names_ok sample_os two_names 1 (NewFileSecretInjector ''/run'', small_disk)"
  by (simp add: names_ok_def secret_paths_def two_names_def small_disk_def NewFileSecretInjector_def sample_os_def) code_simp

text \<open>A process that writes a log beside its secrets.\<close>

definition logging :: "string list \<Rightarrow> string list \<Rightarrow> disk \<Rightarrow> run_outcome \<times> disk" where
  "logging args envVars d = (Exited None, d\<lparr>dk_files := (''/log'', ''done'') # dk_files d\<rparr>)"

theorem run_leaves_no_secret_witness:
  "\<exists>envVars f' d' d2. File_PrepareSecrets sample_os two_names [(''K'', ''s'')] (NewFileSecretInjector ''/run'', small_disk) = (Inr envVars, f', d') \<and>
     (\<exists>p. ''K='' @ p \<in> set envVars \<and> map_of (dk_files d') p = Some ''s'') \<and>
     snd (Execute (File_PrepareSecrets sample_os two_names) File_Cleanup (on_disk logging) ''true'' [(''K'', ''s'')] (NewFileSecretInjector ''/run'', small_disk)) =
       (NewFileSecretInjector ''/run'', d2) \<and> map_of (dk_files d2) ''/log'' = Some ''done'' \<and>
     set (secret_paths sample_os two_names ''/run'' 1) \<inter> fst ` set (dk_files d2) = {}"
proof -
  let ?f = "NewFileSecretInjector ''/run''" and ?ps = "secret_paths sample_os two_names ''/run'' 1"
  have base: "fi_basePath ?f = ''/run''" by (simp add: NewFileSecretInjector_def)
  obtain envVars f' d' where p: "File_PrepareSecrets sample_os two_names [(''K'', ''s'')] (?f, small_disk) = (Inr envVars, f', d')"
      "\<exists>p. ''K='' @ p \<in> set envVars \<and> map_of (dk_files d') p = Some ''s''"
      "snd (Execute (File_PrepareSecrets sample_os two_names) File_Cleanup (on_disk logging) ''true'' [(''K'', ''s'')] (?f, small_disk)) =
        (?f, d'\<lparr>dk_files := filter (\<lambda>(p, _). p \<notin> set ?ps \<or> dk_stays d' p) ((''/log'', ''done'') # dk_files d')\<rparr>)"
    using run_leaves_no_secret [of sample_os two_names "[(''K'', ''s'')]" ?f small_disk logging "''true''"] small_names base
    by (auto simp: logging_def)
  have "dk_stays d' p = False" for p using File_keeps [OF p(1)] by (simp add: small_disk_def)
  moreover have "''/log'' \<notin> set ?ps" by (simp add: secret_paths_def two_names_def sample_os_def)
  ultimately have gone: "map_of (filter (\<lambda>(p, _). p \<notin> set ?ps \<or> dk_stays d' p) ((''/log'', ''done'') # dk_files d')) ''/log'' = Some ''done''"
      "set ?ps \<inter> fst ` set (filter (\<lambda>(p, _). p \<notin> set ?ps \<or> dk_stays d' p) ((''/log'', ''done'') # dk_files d')) = {}" by auto
  show ?thesis by (rule exI, rule exI, rule exI, rule exI, rule conjI [OF p(1)], rule conjI [OF p(2)], rule conjI [OF p(3)]) (use gone in simp)
qed

theorem failed_preparation_leaks_witness:
  "\<exists>err f' d' p. Execute (File_PrepareSecrets sample_os two_names) File_Cleanup (on_disk logging) ''true'' [(''K'', ''s''), (''L'', ''t'')]
       (NewFileSecretInjector ''/run'', small_disk) = (Some err, f', d') \<and> (p, ''s'') \<in> set (dk_files d')"
proof -
  let ?b = "replicate 16 (CHR ''b'')" and ?f = "NewFileSecretInjector ''/run''"
  have rng: "two_names (length [(''K'', ''s'')]) 16 = Some ?b" by (simp add: two_names_def)
  have refused: "dk_refuses small_disk (sys_Join sample_os (fi_basePath ?f) (hex_encode ?b)) =
      Some (ErrNew ''no space left on device'', Some [])" by (simp add: small_disk_def NewFileSecretInjector_def)
  have names: "names_ok sample_os two_names (length [(''K'', ''s'')]) (?f, small_disk)" using small_names by simp
  obtain f' d' where x: "Execute (File_PrepareSecrets sample_os two_names) File_Cleanup (on_disk logging) ''true'' ([(''K'', ''s'')] @ (''L'', ''t'') # [])
        (?f, small_disk) = (Some (ErrWrap ''failed to write secret file'' (ErrNew ''no space left on device'')), f', d')"
      "d' = leave (sys_Join sample_os (fi_basePath ?f) (hex_encode ?b)) (Some [])
        (small_disk\<lparr>dk_files := dk_files small_disk @ zip (secret_paths sample_os two_names (fi_basePath ?f) (length [(''K'', ''s'')])) (map snd [(''K'', ''s'')])\<rparr>)"
    using failed_preparation_leaks [OF names _ rng refused] by fastforce
  have "hd (secret_paths sample_os two_names (fi_basePath ?f) 1) \<noteq> sys_Join sample_os (fi_basePath ?f) (hex_encode ?b)"
    by (simp add: secret_paths_def two_names_def NewFileSecretInjector_def sample_os_def) code_simp
  then have "(hd (secret_paths sample_os two_names (fi_basePath ?f) 1), ''s'') \<in> set (dk_files d')"
    by (simp add: x(2) leave_def small_disk_def secret_paths_def)
  with x(1) show ?thesis by auto
qed

end
