(* ===== verification/Startup.thy ===== *)
theory Startup
  imports Service
begin

text \<open>
  What the bridge does to its database and its enforcer when it starts: the check of the master key, the migration of plain tokens, seeding, and the loading of
  overrides (\<open>main\<close> of src/main.go, src/seed.go, src/scan.go). \<open>boot_env\<close> holds what the code takes from outside: the environment of the
  process, the clock, the libraries, the identifiers drawn while a backend is scanned, the text of errors, and a random source that each encryption
  reads from its start. A background goroutine is run to its end.
\<close>

record boot_env =
  bo_now :: gotime
  bo_environ :: "string list"
  bo_bcrypt :: bcrypt
  bo_lib :: crypto_lib
  bo_sys :: opsys
  bo_rng :: rng
  bo_json :: json_lib
  bo_uuid :: "string \<Rightarrow> nat \<Rightarrow> string"
  bo_error :: "goerr \<Rightarrow> string"

section \<open>Seeding\<close>

definition seedDefaultUser :: "boot_env \<Rightarrow> db \<Rightarrow> db" where
  "seedDefaultUser bo db =
     (case Store_GetUserByEmail ''admin@localhost'' db of
        Inr existing \<Rightarrow>
          if us_Role existing \<noteq> ''admin'' then try_db (Store_UpdateUser (bo_bcrypt bo) (existing\<lparr>us_Role := ''admin''\<rparr>)) db else db
      | Inl _ \<Rightarrow> snd (Store_CreateUser (bo_now bo) (bo_bcrypt bo) (bo_lib bo) (bo_rng bo)
          \<lparr>us_ID = [], us_Name = ''Admin'', us_Email = ''admin@localhost'', us_Password = ''admin'', us_PasswordSalt = [], us_Role = ''admin'',
           us_CreatedAt = 0\<rparr> db))"

definition plain_backend :: "string \<Rightarrow> string \<Rightarrow> Backend" where
  "plain_backend i command = \<lparr>be_ID = i, be_Command = command, be_PoolSize = 1, be_ToolPrefix = [], be_Env = [], be_EnvMappings = [], be_ToolHints = [],
     be_BackendInstructions = [], be_Enabled = True, be_IsSystem = False, be_MinPoolSize = 0, be_MaxPoolSize = 0, be_SelfReporting = False,
     be_NoKeysRequired = False, be_SkipJustification = False, be_StdioFraming = [], be_EncryptedEnv = [], be_PrecacheError = [], be_PrecacheErrorAt = None\<rparr>"

definition json_map :: "json_lib \<Rightarrow> (string, string) gomap \<Rightarrow> string" where
  "json_map jl m = (if m = [] then ''{}'' else jl_Marshal jl (JObj (map (map_prod id JStr) m)))"

definition backend_of_config :: "json_lib \<Rightarrow> string \<Rightarrow> ConfigBackend \<Rightarrow> Backend" where
  "backend_of_config jl i bc =
     \<lparr>be_ID = i, be_Command = cb_Command bc, be_PoolSize = cb_PoolSize bc, be_ToolPrefix = cb_ToolPrefix bc, be_Env = json_map jl (cb_Env bc),
      be_EnvMappings = json_map jl (fold (\<lambda>s. AList.update (sf_Name s) (sf_EnvKey s)) (cb_Secrets bc) []), be_ToolHints = [], be_BackendInstructions = [],
      be_Enabled = (case cb_Enabled bc of None \<Rightarrow> True | Some b \<Rightarrow> b), be_IsSystem = cb_IsSystem bc,
      be_MinPoolSize = (if cb_MinPoolSize bc = 0 then 1 else cb_MinPoolSize bc), be_MaxPoolSize = cb_MaxPoolSize bc, be_SelfReporting = cb_SelfReporting bc,
      be_NoKeysRequired = cb_NoKeysRequired bc, be_SkipJustification = cb_SkipJustification bc,
      be_StdioFraming = (if cb_StdioFraming bc = [] \<and> cb_Command bc \<noteq> ''mcp-bridge-builtin'' then ''newline'' else cb_StdioFraming bc),
      be_EncryptedEnv = [], be_PrecacheError = [], be_PrecacheErrorAt = None\<rparr>"

definition create_backend :: "boot_env \<Rightarrow> Backend \<Rightarrow> Store \<Rightarrow> Store" where
  "create_backend bo b s = snd (Store_CreateBackend (bo_lib bo) (bo_sys bo) (bo_rng bo) b s)"

definition seedBackendsFromConfig :: "boot_env \<Rightarrow> InternalConfig \<Rightarrow> Store \<Rightarrow> Store" where
  "seedBackendsFromConfig bo cfg s =
     (case Store_ListBackends (bo_lib bo) (bo_sys bo) s of
        (Inl _, s) \<Rightarrow> s
      | (Inr existing, s) \<Rightarrow>
          if existing \<noteq> [] then s
          else fold (\<lambda>(i, bc). create_backend bo (backend_of_config (bo_json bo) i bc)) (ic_Backends cfg)
            (create_backend bo ((plain_backend ''mcpbridge'' ''mcp-bridge-builtin'')\<lparr>be_IsSystem := True, be_SelfReporting := True\<rparr>) s))"

text \<open>The text of the hints is an argument.\<close>

definition seedGlobalHints :: "string \<Rightarrow> db \<Rightarrow> db" where
  "seedGlobalHints hints db =
     (case Store_GetSetting ''global_hints'' db of
        Inl _ \<Rightarrow> db
      | Inr existing \<Rightarrow> if existing \<noteq> [] then db else try_db (Store_SetSetting ''global_hints'' hints) db)"

definition dq :: "string \<Rightarrow> string" where
  "dq s = [CHR 0x22] @ s @ [CHR 0x22]"

definition seed_policy :: "string \<Rightarrow> string \<Rightarrow> string \<Rightarrow> string \<Rightarrow> string \<Rightarrow> string \<Rightarrow> string \<Rightarrow> int \<Rightarrow> PolicyRow" where
  "seed_policy i name desc expr action severity message priority =
     \<lparr>pr_ID = i, pr_Name = name, pr_Description = desc, pr_Scope = ''global'', pr_Expression = expr, pr_Action = action, pr_Severity = severity,
      pr_Message = message, pr_Enabled = True, pr_Priority = priority, pr_Locked = False, pr_CreatedAt = 0, pr_UpdatedAt = 0, pr_DispositionsJSON = []\<rparr>"

definition defaultPolicies :: "PolicyRow list" where
  "defaultPolicies = [
     seed_policy ''aws_allow_reads'' ''AWS Read Operations'' ''Allow AWS read-only operations''
       (''backend_id == '' @ dq ''aws'' @ '' && safety.impact_scope == '' @ dq ''read'')
       ''ALLOW'' ''LOW'' ''AWS read operation allowed'' 10,
     seed_policy ''github_allow_reads'' ''GitHub Read Operations'' ''Allow GitHub read-only operations''
       (''backend_id == '' @ dq ''github'' @ '' && safety.impact_scope == '' @ dq ''read'')
       ''ALLOW'' ''LOW'' ''GitHub read operation allowed'' 10,
     seed_policy ''atlassian_allow_reads'' ''Atlassian Read Operations'' ''Allow Atlassian read-only operations''
       (''backend_id == '' @ dq ''atlassian'' @ '' && safety.impact_scope == '' @ dq ''read'')
       ''ALLOW'' ''LOW'' ''Atlassian read operation allowed'' 10,
     seed_policy ''k8s_allow_reads'' ''Kubernetes Read Operations'' ''Allow Kubernetes read-only operations''
       (''backend_id == '' @ dq ''k8s'' @ '' && safety.impact_scope == '' @ dq ''read'')
       ''ALLOW'' ''LOW'' ''Kubernetes read operation allowed'' 10,
     seed_policy ''circleci_allow_reads'' ''CircleCI Read Operations'' ''Allow CircleCI read-only operations''
       (''backend_id == '' @ dq ''circleci'' @ '' && safety.impact_scope == '' @ dq ''read'')
       ''ALLOW'' ''LOW'' ''CircleCI read operation allowed'' 10,
     seed_policy ''argocd_allow_reads'' ''ArgoCD Read Operations'' ''Allow read-only operations on ArgoCD resources''
       (''backend_id == '' @ dq ''argocd'' @ '' && safety.impact_scope == '' @ dq ''read'')
       ''ALLOW'' ''LOW'' ''Read operations are allowed'' 100,
     seed_policy ''github_block_repo_delete'' ''Block Repository Deletion'' ''Prevent accidental deletion of GitHub repositories''
       ''tool.contains('github') && tool.contains('delete') && tool.contains('repo')''
       ''PENDING_ADMIN_APPROVAL'' ''CRITICAL'' ''Repository deletion is permanent and will delete all code, issues, and history. This requires senior approval.'' 1,
     seed_policy ''global_pii_protection'' ''PII Protection'' ''Flag tools that may expose PII for review''
       (''backend_id != '' @ dq ''qdrant'' @ '' && safety.pii_exposure && (args.query.contains('' @ dq ''ssn'' @ '') || args.query.contains('' @ dq ''password'' @ '') || args.query.contains('' @ dq ''credit'' @ '') || args.query.contains('' @ dq ''secret'' @ ''))'')
       ''PENDING_USER_APPROVAL'' ''CRITICAL'' ''This query may access sensitive PII data. Please review carefully before approving.'' 5,
     seed_policy ''github_block_force_push'' ''Block Force Pushes'' ''Prevent force pushes that rewrite git history''
       ''tool.contains('github') && tool.contains('force')''
       ''PENDING_USER_APPROVAL'' ''HIGH'' ''Force pushes rewrite git history and can cause data loss for other developers. Avoid unless absolutely necessary.'' 25,
     seed_policy ''atlassian_block_delete_issues'' ''Block Jira Issue Deletion'' ''Prevent accidental deletion of Jira issues''
       ''tool.contains('jira') && tool.contains('delete') && tool.contains('issue')''
       ''PENDING_USER_APPROVAL'' ''HIGH'' ''Deleting Jira issues is permanent and can break audit trails. Please confirm with your team lead before proceeding.'' 15,
     seed_policy ''atlassian_block_confluence_delete'' ''Block Confluence Page Deletion'' ''Prevent accidental deletion of Confluence pages''
       ''tool.contains('confluence') && tool.contains('delete') && tool.contains('page')''
       ''PENDING_USER_APPROVAL'' ''HIGH'' ''Deleting Confluence pages may break documentation links. Consider archiving instead.'' 20,
     seed_policy ''newrelic_block_alert_delete'' ''Block Alert Policy Deletion'' ''Prevent accidental deletion of monitoring alerts''
       ''tool.contains('newrelic') && tool.contains('delete') && tool.contains('alert')''
       ''PENDING_USER_APPROVAL'' ''HIGH'' ''Deleting alert policies may cause you to miss critical production issues. Consider disabling instead.'' 30,
     seed_policy ''newrelic_block_dashboard_delete'' ''Block Dashboard Deletion'' ''Prevent accidental deletion of monitoring dashboards''
       ''tool.contains('newrelic') && tool.contains('delete') && tool.contains('dashboard')''
       ''PENDING_USER_APPROVAL'' ''MEDIUM'' ''Dashboards contain valuable monitoring configurations. Please confirm before deleting.'' 40,
     seed_policy ''mcpbridge_block_backend_delete'' ''Block Backend Deletion'' ''Prevent accidental deletion of configured MCP backends''
       ''tool.contains('mcpbridge') && tool.contains('backend') && tool.contains('delete')''
       ''PENDING_USER_APPROVAL'' ''HIGH'' ''Deleting a backend will break integrations for all users. This requires admin approval.'' 12,
     seed_policy ''mcpbridge_block_pool_changes'' ''Block Pool Configuration Changes'' ''Prevent changes to process pool settings that could affect stability''
       ''tool.contains('mcpbridge') && tool.contains('pool')''
       ''PENDING_USER_APPROVAL'' ''MEDIUM'' ''Changing pool configuration can affect system performance and stability. Please test in dev first.'' 45,
     seed_policy ''b0b8d9b409167e38389d5edb99239337'' ''AppScan Block Scan Cancel'' ''Block scan cancellation as it effectively deletes scan data''
       (''tool.contains('' @ dq ''appscan'' @ '') && tool.contains('' @ dq ''scan'' @ '') && tool.contains('' @ dq ''cancel'' @ '')'')
       ''PENDING_USER_APPROVAL'' ''HIGH'' ''Scan cancellation must be approved'' 14,
     seed_policy ''github_block_force_push'' ''Block Force Pushes'' ''Prevent force pushes that rewrite git history''
       ''tool.contains('github') && tool.contains('force')''
       ''PENDING_USER_APPROVAL'' ''HIGH'' ''Force pushes rewrite git history and can cause data loss for other developers. Avoid unless absolutely necessary.'' 25,
     seed_policy ''aws_delete_requires_approval'' ''AWS Delete Operations'' ''AWS delete operations require approval''
       (''backend_id == '' @ dq ''aws'' @ '' && safety.impact_scope == '' @ dq ''delete'')
       ''PENDING_ADMIN_APPROVAL'' ''CRITICAL'' ''AWS delete operations require admin approval'' 15,
     seed_policy ''aws_write_requires_approval'' ''AWS Write Operations'' ''AWS write operations require approval''
       (''backend_id == '' @ dq ''aws'' @ '' && safety.impact_scope == '' @ dq ''write'')
       ''ALLOW'' ''HIGH'' ''AWS write operations require admin approval'' 20,
     seed_policy ''aws_admin_requires_approval'' ''AWS Admin Operations'' ''Route AWS admin/configuration tools to user approval''
       (''backend_id == '' @ dq ''aws'' @ '' && safety.impact_scope == '' @ dq ''admin'')
       ''PENDING_USER_APPROVAL'' ''HIGH'' [] 20,
     seed_policy ''aws_warn_high_cost'' ''AWS High Resource Cost'' ''Warn on expensive AWS operations''
       (''backend_id == '' @ dq ''aws'' @ '' && safety.cost >= 5'')
       ''WARN'' ''MEDIUM'' ''This AWS operation has high resource cost'' 25,
     seed_policy ''github_delete_requires_approval'' ''GitHub Delete Operations'' ''GitHub delete operations require approval''
       (''backend_id == '' @ dq ''github'' @ '' && safety.impact_scope == '' @ dq ''delete'')
       ''PENDING_USER_APPROVAL'' ''HIGH'' ''GitHub delete operations require admin approval'' 15,
     seed_policy ''github_write_requires_approval'' ''GitHub Write Operations'' ''GitHub write operations require approval''
       (''backend_id == '' @ dq ''github'' @ '' && safety.impact_scope == '' @ dq ''write'')
       ''ALLOW'' ''HIGH'' ''GitHub write operations require admin approval'' 20,
     seed_policy ''github_admin_requires_approval'' ''GitHub Admin Operations'' ''Route GitHub admin/configuration tools to user approval''
       (''backend_id == '' @ dq ''github'' @ '' && safety.impact_scope == '' @ dq ''admin'')
       ''PENDING_USER_APPROVAL'' ''HIGH'' [] 20,
     seed_policy ''github_warn_merge_no_review'' ''Warn on Unreviewed PR Merges'' ''Flag PR merges that may not have proper review''
       (''tool.contains('github') && tool.contains('merge') && safety.risk_level == 'high'' @ [CHR 0x27])
       ''WARN'' ''MEDIUM'' ''Please ensure this PR has been properly reviewed before merging. Unreviewed code can introduce bugs and security issues.'' 60,
     seed_policy ''k8s_delete_requires_approval'' ''Kubernetes Delete Operations'' ''Kubernetes delete operations require approval''
       (''backend_id == '' @ dq ''k8s'' @ '' && safety.impact_scope == '' @ dq ''delete'')
       ''PENDING_ADMIN_APPROVAL'' ''HIGH'' ''Kubernetes delete operations require admin approval'' 15,
     seed_policy ''k8s_write_requires_approval'' ''Kubernetes Write Operations'' ''Kubernetes write operations require approval''
       (''backend_id == '' @ dq ''k8s'' @ '' && safety.impact_scope == '' @ dq ''write'')
       ''ALLOW'' ''HIGH'' ''Kubernetes write operations require admin approval'' 20,
     seed_policy ''k8s_admin_requires_approval'' ''Kubernetes Admin Operations'' ''Route Kubernetes admin/configuration tools to user approval''
       (''backend_id == '' @ dq ''k8s'' @ '' && safety.impact_scope == '' @ dq ''admin'')
       ''PENDING_USER_APPROVAL'' ''HIGH'' [] 20,
     seed_policy ''atlassian_delete_requires_approval'' ''Atlassian Delete Operations'' ''Route Atlassian delete-impact tools to user approval''
       (''backend_id == '' @ dq ''atlassian'' @ '' && safety.impact_scope == '' @ dq ''delete'')
       ''PENDING_USER_APPROVAL'' ''HIGH'' [] 20,
     seed_policy ''atlassian_write_requires_approval'' ''Atlassian Write Operations'' ''Atlassian write operations require approval''
       (''backend_id == '' @ dq ''atlassian'' @ '' && safety.impact_scope == '' @ dq ''write'')
       ''ALLOW'' ''MEDIUM'' ''Atlassian write operations require admin approval'' 20,
     seed_policy ''atlassian_admin_requires_approval'' ''Atlassian Admin Operations'' ''Route Atlassian admin/configuration tools to user approval''
       (''backend_id == '' @ dq ''atlassian'' @ '' && safety.impact_scope == '' @ dq ''admin'')
       ''PENDING_USER_APPROVAL'' ''HIGH'' [] 20,
     seed_policy ''atlassian_warn_bulk_ops'' ''Warn on Bulk Jira Operations'' ''Require confirmation for bulk operations that affect many issues''
       (''tool.contains('jira') && tool.contains('bulk') && safety.risk_level == 'high'' @ [CHR 0x27])
       ''WARN'' ''MEDIUM'' ''This operation will affect multiple Jira issues. Please verify your JQL query and the scope of changes.'' 50,
     seed_policy ''circleci_delete_requires_approval'' ''CircleCI Delete Operations'' ''Route CircleCI delete-impact tools to user approval''
       (''backend_id == '' @ dq ''circleci'' @ '' && safety.impact_scope == '' @ dq ''delete'')
       ''PENDING_USER_APPROVAL'' ''HIGH'' [] 15,
     seed_policy ''circleci_write_requires_approval'' ''CircleCI Write Operations'' ''CircleCI write operations require approval''
       (''backend_id == '' @ dq ''circleci'' @ '' && safety.impact_scope == '' @ dq ''write'')
       ''ALLOW'' ''MEDIUM'' ''CircleCI write operations require admin approval'' 20,
     seed_policy ''circleci_admin_requires_approval'' ''CircleCI Admin Operations'' ''Route CircleCI admin/configuration tools to user approval''
       (''backend_id == '' @ dq ''circleci'' @ '' && safety.impact_scope == '' @ dq ''admin'')
       ''PENDING_USER_APPROVAL'' ''MEDIUM'' [] 20,
     seed_policy ''argocd_write_requires_approval'' ''ArgoCD Write Operations'' ''Write operations on ArgoCD require user approval''
       (''backend_id == '' @ dq ''argocd'' @ '' && safety.impact_scope == '' @ dq ''write'')
       ''PENDING_USER_APPROVAL'' ''MEDIUM'' ''Write operations require user approval'' 100,
     seed_policy ''argocd_delete_requires_approval'' ''ArgoCD Delete Operations'' ''Delete operations on ArgoCD require user approval''
       (''backend_id == '' @ dq ''argocd'' @ '' && safety.impact_scope == '' @ dq ''delete'')
       ''PENDING_USER_APPROVAL'' ''HIGH'' ''Delete operations require user approval'' 100,
     seed_policy ''argocd_admin_requires_approval'' ''ArgoCD Admin Operations'' ''Admin operations on ArgoCD require user approval''
       (''backend_id == '' @ dq ''argocd'' @ '' && safety.impact_scope == '' @ dq ''admin'')
       ''PENDING_USER_APPROVAL'' ''HIGH'' ''Admin operations require user approval'' 100,
     seed_policy ''argocd_block_app_delete'' ''Block ArgoCD Application Deletion'' ''Block deletion of ArgoCD applications''
       (''tool.contains('' @ dq ''argocd'' @ '') && tool.contains('' @ dq ''delete'' @ '') && tool.contains('' @ dq ''app'' @ '')'')
       ''PENDING_USER_APPROVAL'' ''HIGH'' ''Deleting ArgoCD applications requires approval'' 100,
     seed_policy ''argocd_block_project_delete'' ''Block ArgoCD Project Deletion'' ''Block deletion of ArgoCD projects''
       (''tool.contains('' @ dq ''argocd'' @ '') && tool.contains('' @ dq ''delete'' @ '') && tool.contains('' @ dq ''project'' @ '')'')
       ''PENDING_USER_APPROVAL'' ''HIGH'' ''Deleting ArgoCD projects requires approval'' 100,
     seed_policy ''newrelic_warn_writes'' ''Warn on New Relic Write Operations'' ''Require explicit confirmation for write operations in New Relic''
       (''tool.contains('newrelic') && safety.impact_scope == 'write'' @ [CHR 0x27])
       ''WARN'' ''LOW'' ''This operation will modify New Relic configuration. Please verify this is intentional.'' 80,
     seed_policy ''restrict_junior_high_risk'' ''Junior Dev High-Risk Restriction'' ''Require approval for high-risk operations by junior developers''
       (''backend_id != '' @ dq ''qdrant'' @ '' && user.trust_level < 60 && (safety.risk_level == '' @ dq ''high'' @ '' || safety.risk_level == '' @ dq ''critical'' @ '')'')
       ''PENDING_USER_APPROVAL'' ''MEDIUM'' ''High-risk operations require approval for junior developers.'' 35,
     seed_policy ''global_resource_protection'' ''Resource Protection'' ''Block extremely resource-intensive operations when system is under load''
       ''safety.resource_cost >= 10''
       ''DENY'' ''MEDIUM'' ''This operation is extremely resource-intensive. Try a more targeted approach or contact an administrator.'' 100,
     seed_policy ''prevent_resource_exhaustion'' ''Prevent Resource Exhaustion'' ''Block extremely resource-intensive operations (bulk exports, full table scans, etc.)''
       ''safety.resource_cost >= 10''
       ''DENY'' ''HIGH'' ''This operation is extremely resource-intensive. Try a more targeted approach.'' 100]"

definition seedDefaultPolicies :: "db \<Rightarrow> db" where
  "seedDefaultPolicies db =
     (case ES_ListPolicies db of
        Inl _ \<Rightarrow> db
      | Inr policies \<Rightarrow> if policies \<noteq> [] then db else fold (\<lambda>p. try_db (ES_CreatePolicy p)) defaultPolicies db)"

section \<open>Overrides\<close>

definition override_profile :: "EnforcerOverrideRow \<Rightarrow> SafetyProfile" where
  "override_profile o' = zeroSafetyProfile\<lparr>sp_ToolName := eo_ToolName o', sp_BackendID := eo_BackendID o', sp_Risk := eo_RiskLevel o',
     sp_Impact := eo_ImpactScope o', sp_Cost := eo_ResourceCost o', sp_RequiresHITL := eo_RequiresHITL o', sp_PIIExposure := eo_PIIExposure o',
     sp_Source := ''override''\<rparr>"

definition loadOverridesIntoResolver :: "db \<Rightarrow> 'p Enforcer \<Rightarrow> 'p Enforcer" where
  "loadOverridesIntoResolver db enf =
     (case ES_ListOverrides db of
        Inl _ \<Rightarrow> enf
      | Inr overrides \<Rightarrow>
          fold (\<lambda>o' e. snd (Enforcer_RegisterOverride (eo_ToolName o') (eo_BackendID o') (override_profile o') e)) overrides enf)"

section \<open>The store at start-up\<close>

text \<open>\<open>errors.Is(err, sql.ErrNoRows)\<close>.\<close>

fun is_no_rows :: "goerr \<Rightarrow> bool" where
  "is_no_rows ErrNoRows = True"
| "is_no_rows (ErrWrap _ e) = is_no_rows e"
| "is_no_rows _ = False"

text \<open>The check of the key, with the error the program ends with. The user, backend and name of the token are constants of the code.\<close>

definition verify_key :: "boot_env \<Rightarrow> Store \<Rightarrow> goerr option \<times> Store" where
  "verify_key bo s =
     (if st_keyStore s = None then (Some (ErrNew ''keystore not initialized''), s)
      else case Store_GetUserTokenDecrypted (bo_lib bo) (bo_sys bo) ''58993e3001a71e9e8cd3a21fc1cd9430'' ''atlassian'' ''API_TOKEN'' s of
             (Inr _, s) \<Rightarrow> (None, s)
           | (Inl err, s) \<Rightarrow> if is_no_rows err then (None, s) else (Some err, s))"

definition seed_users :: "boot_env \<Rightarrow> bool \<Rightarrow> db \<Rightarrow> db" where
  "seed_users bo seedUser db =
     (if seedUser then seedDefaultUser bo db
      else case Store_ListUsers db of
             Inl _ \<Rightarrow> db
           | Inr users \<Rightarrow> if users = [] then seedDefaultUser bo db else db)"

text \<open>\<open>main\<close> from the opened store to the seeded one: the fatal error, or the counts of readable and unreadable tokens.\<close>

definition prepare_store :: "boot_env \<Rightarrow> bool \<Rightarrow> InternalConfig \<Rightarrow> Store \<Rightarrow> (goerr + (int \<times> int) option) \<times> Store" where
  "prepare_store bo seedUser cfg s =
     (case verify_key bo s of
        (Some err, s) \<Rightarrow> (Inl err, s)
      | (None, s) \<Rightarrow>
          (let (_, s) = Store_MigrateSecrets (bo_lib bo) (bo_sys bo) (bo_rng bo) s;
               (counts, s) = Store_VerifyEncryptedSecrets (bo_lib bo) (bo_sys bo) s
           in (Inr (case counts of Inl _ \<Rightarrow> None | Inr n \<Rightarrow> Some n),
               seedBackendsFromConfig bo cfg (s\<lparr>st_db := seed_users bo seedUser (st_db s)\<rparr>))))"

section \<open>What start-up does\<close>

lemma fold_overrides_store [simp]:
  "ef_store (fold (\<lambda>o' e. snd (Enforcer_RegisterOverride (eo_ToolName o') (eo_BackendID o') (override_profile o') e)) os enf) = ef_store enf"
  by (induction os arbitrary: enf) (simp_all add: Enforcer_RegisterOverride_def split: sum.split)

text \<open>A row is loaded when it has a risk level and an impact scope.\<close>

definition loadable :: "EnforcerOverrideRow \<Rightarrow> bool" where
  "loadable o' \<longleftrightarrow> eo_RiskLevel o' \<noteq> [] \<and> eo_ImpactScope o' \<noteq> []"

lemma load_step:
  "ef_resolver (snd (Enforcer_RegisterOverride (eo_ToolName o') (eo_BackendID o') (override_profile o') e)) =
   (if loadable o' then (ef_resolver e)\<lparr>mr_overrides := AList.update (resolver_key (eo_ToolName o') (eo_BackendID o')) (override_profile o')
      (mr_overrides (ef_resolver e))\<rparr> else ef_resolver e)"
  by (simp add: Enforcer_RegisterOverride_def RegisterOverride_def override_profile_def loadable_def)

lemma loaded_overrides:
  "map_of (mr_overrides (ef_resolver (fold (\<lambda>o' e. snd (Enforcer_RegisterOverride (eo_ToolName o') (eo_BackendID o') (override_profile o') e)) os enf))) k =
   (case find (\<lambda>o'. loadable o' \<and> resolver_key (eo_ToolName o') (eo_BackendID o') = k) (rev os) of
      Some o' \<Rightarrow> Some (override_profile o') | None \<Rightarrow> map_of (mr_overrides (ef_resolver enf)) k)"
  by (induction os rule: rev_induct) (simp_all add: load_step gomap_simps split: option.split)

lemma find_distinct:
  assumes "distinct (map f xs)" and "x \<in> set xs" and "P x" and "\<And>y. P y \<Longrightarrow> f y = f x"
  shows "find P xs = Some x"
  using assms(1,2)
proof (induction xs)
  case (Cons y ys)
  show ?case
  proof (cases "P y")
    case True
    then have "f y = f x" by (rule assms(4))
    with Cons.prems True show ?thesis by (metis distinct_map find.simps(2) inj_on_eq_iff list.set_intros(1))
  next
    case False
    with Cons assms(3) show ?thesis by auto
  qed
qed simp

lemma override_profile_admin [simp]: "admin_profile (eo_ToolName o') (eo_BackendID o') (override_profile o') = override_profile o'"
  by (simp add: admin_profile_def override_profile_def)

text \<open>The table has one row for a tool of a backend, so the last loaded row of a key is its only one.\<close>

lemma loaded_override:
  assumes "fault_free db" and "o' \<in> set (db_overrides db)" and "loadable o'"
    and "distinct (map (\<lambda>r. resolver_key (eo_ToolName r) (eo_BackendID r)) (db_overrides db))"
  shows "map_of (mr_overrides (ef_resolver (loadOverridesIntoResolver db enf))) (resolver_key (eo_ToolName o') (eo_BackendID o')) = Some (override_profile o')"
proof -
  let ?key = "\<lambda>r. resolver_key (eo_ToolName r) (eo_BackendID r)"
  let ?rows = "order_by override_key (db_overrides db)"
  have "mset (map ?key ?rows) = mset (map ?key (db_overrides db))" by (simp add: order_by_def)
  then have "distinct (map ?key (rev ?rows))" using assms(4) by (metis mset_rev rev_map mset_eq_imp_distinct_iff)
  then have "find (\<lambda>r. loadable r \<and> ?key r = ?key o') (rev ?rows) = Some o'"
    using assms(2,3) by (intro find_distinct [where f = ?key]) auto
  then show ?thesis using assms(1) by (simp add: loadOverridesIntoResolver_def ES_ListOverrides_def loaded_overrides)
qed

text \<open>C20: An override that a user sets for himself is kept in the same table as the administrators' overrides, and at start-up all rows of the table are
  loaded into the enforcer's global overrides. So after a restart it decides the profile of the tool for every user, before
  that user's own override and before the stored profile.\<close>

theorem user_override_becomes_global:
  assumes "fault_free db" and "o' \<in> set (db_overrides db)" and "loadable o'"
    and "distinct (map (\<lambda>r. resolver_key (eo_ToolName r) (eo_BackendID r)) (db_overrides db))"
  shows "ResolveForUser store (ef_resolver (loadOverridesIntoResolver db enf)) (eo_ToolName o') (eo_BackendID o') userID = Inr (override_profile o')"
  using loaded_override [OF assms, of enf] by (simp add: ResolveForUser_def)

definition personal_override :: EnforcerOverrideRow where
  "personal_override = \<lparr>eo_ID = ''o1'', eo_ToolName = ''github_delete'', eo_BackendID = ''github'', eo_RiskLevel = ''low'', eo_ImpactScope = ''read'',
     eo_ResourceCost = 1, eo_RequiresHITL = False, eo_PIIExposure = False, eo_UserID = ''alice'', eo_CreatedAt = 0, eo_UpdatedAt = 0\<rparr>"

theorem user_override_becomes_global_witness:
  "eo_UserID personal_override = ''alice'' \<and> ResolveForUser None
     (ef_resolver (loadOverridesIntoResolver (empty_db\<lparr>db_overrides := [personal_override]\<rparr>) (sample_enforcer sample_engine empty_db))) ''github_delete'' ''github'' ''bob'' =
     Inr (override_profile personal_override)"
  using user_override_becomes_global [of "empty_db\<lparr>db_overrides := [personal_override]\<rparr>" personal_override None "sample_enforcer sample_engine empty_db" "''bob''"]
  by (simp add: personal_override_def loadable_def fault_free_def empty_db_def)

section \<open>The key check\<close>

definition probe_row :: "db \<Rightarrow> goerr + UserToken" where
  "probe_row db = get_token ''GetUserTokenDecrypted'' ''58993e3001a71e9e8cd3a21fc1cd9430'' ''atlassian'' ''API_TOKEN'' db"

text \<open>No error of the decryption is an absent row.\<close>

lemma parseKey_error: "parseKey lib txt = Inl err \<Longrightarrow> \<not> is_no_rows err"
  by (auto simp: parseKey_def Let_def split: if_splits option.splits)

lemma GetKey_error: "GetKey lib sys p = (Inl err, p') \<Longrightarrow> \<not> is_no_rows err"
  by (cases p) (auto simp: EnvVar_GetKey_def K8s_GetKey_def key_from_file_def Let_def dest: parseKey_error
      split: option.splits if_splits sum.splits file_result.splits)

lemma decryptAESGCM_error: "decryptAESGCM lib k n c = Inl err \<Longrightarrow> \<not> is_no_rows err"
  by (auto simp: decryptAESGCM_def split: if_splits option.splits)

lemma open_envelope_error: "open_envelope lib k c = Inl err \<Longrightarrow> \<not> is_no_rows err"
  by (auto simp: open_envelope_def Let_def dest: decryptAESGCM_error split: if_splits sum.splits)

lemma DecryptSecret_error: "fst (DecryptSecret lib sys e ks) = Inl err \<Longrightarrow> \<not> is_no_rows err"
  by (auto simp: DecryptSecret_def with_provider_def DecryptNoClose_def Let_def split: prod.splits sum.splits
      dest: open_envelope_error GetKey_error)

lemma probe_row_error: "fault_free db \<Longrightarrow> probe_row db = Inl err \<Longrightarrow> is_no_rows err"
  by (simp add: probe_row_def get_token_def query_row_None)

lemma verify_key_error:
  assumes "fault_free (st_db s)" and "st_keyStore s = Some ks"
  shows "(\<exists>err. fst (verify_key bo s) = Some err) \<longleftrightarrow>
    (\<exists>t err. probe_row (st_db s) = Inr t \<and> ut_Encrypted t \<noteq> [] \<and> fst (DecryptSecret (bo_lib bo) (bo_sys bo) (ut_Encrypted t) ks) = Inl err)"
proof (cases "probe_row (st_db s)")
  case (Inl e)
  then show ?thesis using assms(2) probe_row_error [OF assms(1) Inl]
    by (simp add: verify_key_def Store_GetUserTokenDecrypted_def probe_row_def)
next
  case (Inr t)
  obtain r ks' where d: "DecryptSecret (bo_lib bo) (bo_sys bo) (ut_Encrypted t) ks = (r, ks')" by fastforce
  then show ?thesis using assms(2) Inr DecryptSecret_error [of "bo_lib bo" "bo_sys bo" "ut_Encrypted t" ks]
    by (cases r) (auto simp: verify_key_def Store_GetUserTokenDecrypted_def probe_row_def)
qed

lemma prepare_store_error: "(\<exists>err. fst (prepare_store bo seedUser cfg s) = Inl err) \<longleftrightarrow> (\<exists>err. fst (verify_key bo s) = Some err)"
  by (simp add: prepare_store_def Let_def split: prod.split option.split)

text \<open>C19: On a database whose statements succeed, start-up ends with an error exactly when one particular token, named in the code, is stored and does not
  decrypt. In every other case it goes on: with no master key configured, or with every other token of the database unreadable.\<close>

theorem startup_key_check:
  assumes "fault_free (st_db s)" and "st_keyStore s = Some ks"
  shows "(\<exists>err. fst (prepare_store bo seedUser cfg s) = Inl err) \<longleftrightarrow>
    (\<exists>t err. probe_row (st_db s) = Inr t \<and> ut_Encrypted t \<noteq> [] \<and> fst (DecryptSecret (bo_lib bo) (bo_sys bo) (ut_Encrypted t) ks) = Inl err)"
  using verify_key_error [OF assms] by (simp only: prepare_store_error)

section \<open>Restarting\<close>

lemma migrate_tokens_keeps:
  "db_users (snd (snd (migrate_tokens lib sys rng ts ks db))) = db_users db"
  "db_backends (snd (snd (migrate_tokens lib sys rng ts ks db))) = db_backends db"
  "db_faults (snd (snd (migrate_tokens lib sys rng ts ks db))) = db_faults db"
  by (induction ts arbitrary: rng ks db) (auto simp: core_upd_def dest!: stmt_InrD split: prod.splits sum.splits)

lemma verify_key_keeps: "verify_key bo s = (e, s') \<Longrightarrow> st_db s' = st_db s \<and> (st_keyStore s' = None \<longleftrightarrow> st_keyStore s = None)"
  by (auto simp: verify_key_def Store_GetUserTokenDecrypted_def Let_def split: if_splits option.splits sum.splits prod.splits)

lemma migrate_secrets_keeps:
  assumes "Store_MigrateSecrets lib sys rng s = (e, s')"
  shows "db_users (st_db s') = db_users (st_db s)" and "db_backends (st_db s') = db_backends (st_db s)" and "db_faults (st_db s') = db_faults (st_db s)"
  using assms migrate_tokens_keeps
  by (auto simp: Store_MigrateSecrets_def split: option.splits sum.splits prod.splits) (metis snd_conv)+

lemma verify_secrets_keeps: "Store_VerifyEncryptedSecrets lib sys s = (r, s') \<Longrightarrow> st_db s' = st_db s"
  by (auto simp: Store_VerifyEncryptedSecrets_def Let_def split: option.splits sum.splits prod.splits)

lemma order_by_Nil [simp]: "order_by f t = [] \<longleftrightarrow> t = []"
  by (metis set_order_by set_empty)

lemma decrypt_backends_nonempty: "decrypt_backends lib sys bs ks = (bs', ks') \<Longrightarrow> bs' = [] \<longleftrightarrow> bs = []"
  by (cases bs) (auto simp: Let_def split: prod.splits)

lemma seeded_backends_kept:
  "fault_free (st_db s) \<Longrightarrow> db_backends (st_db s) \<noteq> [] \<Longrightarrow> st_db (seedBackendsFromConfig bo cfg s) = st_db s"
  by (auto simp: seedBackendsFromConfig_def Store_ListBackends_def Let_def dest!: decrypt_backends_nonempty split: prod.splits)

text \<open>Starting again on a database that has users and backends changes no user and no backend, whatever the configuration file says
  and whatever becomes of the key.\<close>

theorem restart_keeps_accounts:
  assumes "fault_free (st_db s)" and "db_users (st_db s) \<noteq> []" and "db_backends (st_db s) \<noteq> []" and "prepare_store bo False cfg s = (r, s')"
  shows "db_users (st_db s') = db_users (st_db s) \<and> db_backends (st_db s') = db_backends (st_db s)"
proof -
  obtain e s1 where k: "verify_key bo s = (e, s1)" by fastforce
  obtain x s2 where m: "Store_MigrateSecrets (bo_lib bo) (bo_sys bo) (bo_rng bo) s1 = (x, s2)" by fastforce
  obtain y s3 where v: "Store_VerifyEncryptedSecrets (bo_lib bo) (bo_sys bo) s2 = (y, s3)" by fastforce
  have db: "st_db s1 = st_db s" "st_db s3 = st_db s2" using verify_key_keeps [OF k] verify_secrets_keeps [OF v] by simp_all
  have kept: "db_users (st_db s3) = db_users (st_db s)" "db_backends (st_db s3) = db_backends (st_db s)" "fault_free (st_db s3)"
    using migrate_secrets_keeps [OF m] db assms(1) by (simp_all add: fault_free_def)
  then have "seed_users bo False (st_db s3) = st_db s3" using assms(2) by (simp add: seed_users_def Store_ListUsers_def)
  then have "st_db (seedBackendsFromConfig bo cfg (s3\<lparr>st_db := seed_users bo False (st_db s3)\<rparr>)) = st_db s3"
    using kept assms(3) by (simp add: seeded_backends_kept)
  then show ?thesis using assms(4) k m v db kept by (auto simp: prepare_store_def split: option.splits)
qed

text \<open>A start with no key in the environment.\<close>

definition keyless_boot :: boot_env where
  "keyless_boot = \<lparr>bo_now = 0, bo_environ = [], bo_bcrypt = ae_bcrypt sample_auth, bo_lib = sample_lib,
     bo_sys = \<lparr>sys_Getenv = (\<lambda>_. []), sys_ReadFile = (\<lambda>_. FileMissing), sys_Join = (\<lambda>d f. d @ ''/'' @ f)\<rparr>, bo_rng = sample_rng,
     bo_json = \<lparr>jl_Unmarshal = (\<lambda>_. Inl (ErrNew ''no JSON'')), jl_Marshal = (\<lambda>_. [])\<rparr>, bo_uuid = (\<lambda>b k. b @ itoa (int k)),
     bo_error = (\<lambda>_. ''error'')\<rparr>"

definition started_store :: "db \<Rightarrow> Store" where
  "started_store db = \<lparr>st_db = db, st_keyStore = Some (NewKeyStore (EnvVar (NewEnvVarProvider [] [])))\<rparr>"

theorem startup_key_check_witness:
  "\<forall>cfg. \<not> (\<exists>err. fst (prepare_store keyless_boot False cfg (started_store empty_db)) = Inl err)"
proof
  fix cfg
  have "probe_row empty_db = Inl ErrNoRows"
    by (simp add: probe_row_def get_token_def empty_db_def empty_core_def stmt_def query_row_def)
  then show "\<not> (\<exists>err. fst (prepare_store keyless_boot False cfg (started_store empty_db)) = Inl err)"
    using startup_key_check [of "started_store empty_db" "NewKeyStore (EnvVar (NewEnvVarProvider [] []))" keyless_boot False cfg]
    by (simp add: started_store_def fault_free_def empty_db_def)
qed

definition running_db :: db where
  "running_db = empty_db\<lparr>db_users := [sample_user], db_backends := [plain_backend ''github'' ''gh'']\<rparr>"

theorem restart_keeps_accounts_witness:
  "\<forall>cfg. db_users (st_db (snd (prepare_store keyless_boot False cfg (started_store running_db)))) = [sample_user] \<and>
   db_backends (st_db (snd (prepare_store keyless_boot False cfg (started_store running_db)))) = [plain_backend ''github'' ''gh'']"
proof
  fix cfg
  show "db_users (st_db (snd (prepare_store keyless_boot False cfg (started_store running_db)))) = [sample_user] \<and>
      db_backends (st_db (snd (prepare_store keyless_boot False cfg (started_store running_db)))) = [plain_backend ''github'' ''gh'']"
    using restart_keeps_accounts [of "started_store running_db" keyless_boot cfg "fst (prepare_store keyless_boot False cfg (started_store running_db))"
      "snd (prepare_store keyless_boot False cfg (started_store running_db))"]
    by (simp add: started_store_def running_db_def fault_free_def empty_db_def)
qed

section \<open>The default policies\<close>

definition add_policy :: "PolicyRow \<Rightarrow> PolicyRow list \<Rightarrow> PolicyRow list" where
  "add_policy p t = (if pr_ID p \<in> pr_ID ` set t then t else t @ [p])"

lemma policies_created:
  "fault_free db \<Longrightarrow> fold (\<lambda>p. try_db (ES_CreatePolicy p)) ps db = db\<lparr>db_policies := fold add_policy ps (db_policies db)\<rparr>"
  by (induction ps arbitrary: db) (simp_all add: try_db_def ES_CreatePolicy_def insert_row_def add_policy_def)

lemma add_policy_keeps: "set t \<subseteq> set (fold add_policy ps t)"
proof (induction ps arbitrary: t)
  case (Cons p ps)
  have "set t \<subseteq> set (add_policy p t)" by (auto simp: add_policy_def)
  with Cons [of "add_policy p t"] show ?case by simp
qed simp

lemma first_default_policy: "defaultPolicies \<noteq> []" "pr_Enabled (hd defaultPolicies)"
  by (simp_all add: defaultPolicies_def seed_policy_def)

lemma seeded_some: "\<exists>p \<in> set (fold add_policy defaultPolicies t). pr_Enabled p \<or> p \<in> set t"
proof (cases "pr_ID (hd defaultPolicies) \<in> pr_ID ` set t")
  case True
  then obtain p where "p \<in> set t" by auto
  then show ?thesis using add_policy_keeps [of t defaultPolicies] by auto
next
  case False
  obtain p ps where d: "defaultPolicies = p # ps" using first_default_policy(1) by (cases defaultPolicies) auto
  have "p \<in> set (add_policy p t)" using False unfolding d by (simp add: add_policy_def)
  then have "p \<in> set (fold add_policy defaultPolicies t)" using add_policy_keeps [of "add_policy p t" ps] unfolding d by auto
  moreover have "pr_Enabled p" using first_default_policy(2) unfolding d by simp
  ultimately show ?thesis by blast
qed

text \<open>Seeding stores the default policies once: a second run finds them and does nothing.\<close>

lemma seeded_again:
  assumes "fault_free db" and "db_policies db = []"
  shows "seedDefaultPolicies (seedDefaultPolicies db) = seedDefaultPolicies db"
proof -
  have s: "seedDefaultPolicies db = db\<lparr>db_policies := fold add_policy defaultPolicies []\<rparr>"
    using assms by (simp add: seedDefaultPolicies_def ES_ListPolicies_def policies_created)
  have "filter pr_Enabled (fold add_policy defaultPolicies []) \<noteq> []" using seeded_some [of "[]"] by (auto simp: filter_empty_conv)
  then show ?thesis unfolding s using assms(1) by (simp add: seedDefaultPolicies_def ES_ListPolicies_def fault_free_def stmt_def)
qed

lemma seeded_policies: "length (fold add_policy defaultPolicies []) = 43 \<and> length defaultPolicies = 44"
  by code_simp

end
