(* ===== verification/Precache.thy ===== *)
theory Precache
  imports Startup Mailer
begin

text \<open>
  Starting backends to learn about their tools: the scan for safety profiles (src/scan.go), the tool cache (src/precache.go), and the
  callbacks that \<open>main\<close> of src/main.go gives to the console. \<open>backend_lib\<close> says how running a command ends: for the cache the
  values its standard output decodes into, up to the first that does not decode or the end of the context; for a scan and for the handshake
  what PoolManager's functions take. A goroutine for each backend is run to its end.
\<close>

type_synonym scan_tools = "(string \<times> EnforcerProfileFromFramework option) list"

record backend_lib =
  bl_exec :: "string list \<Rightarrow> string list \<Rightarrow> goerr + json list"
  bl_run :: "string list \<Rightarrow> string list option \<Rightarrow> run_result"
  bl_decode :: "string \<Rightarrow> goerr + (string \<times> scan_tools)"
  bl_handshake :: "string \<Rightarrow> string \<Rightarrow> string list \<Rightarrow> duration \<Rightarrow> goerr + string"
  bl_response :: "string \<Rightarrow> goerr + tools_response"
  bl_profile :: "EnforcerProfileFromFramework \<Rightarrow> string"
  bl_probe :: "string \<Rightarrow> string list \<Rightarrow> string \<Rightarrow> ProbeResult"
  bl_probe_json :: "ProbeResult \<Rightarrow> string"
  bl_duration :: "duration \<Rightarrow> string"

section \<open>Decoding environments\<close>

text \<open>\<open>json.Unmarshal\<close> into a map of strings; null is the empty map.\<close>

definition decode_map :: "json_lib \<Rightarrow> string \<Rightarrow> (string, string) gomap option" where
  "decode_map jl s = (case jl_Unmarshal jl s of Inr (JObj kvs) \<Rightarrow> string_values kvs | Inr JNull \<Rightarrow> Some [] | _ \<Rightarrow> None)"

definition has_column :: "string \<Rightarrow> bool" where
  "has_column column \<longleftrightarrow> column \<noteq> [] \<and> column \<noteq> ''{}''"

section \<open>Scanning for profiles\<close>

definition buildEnvForScan :: "boot_env \<Rightarrow> Backend \<Rightarrow> string list" where
  "buildEnvForScan bo b =
     bo_environ bo @ (if has_column (be_Env b) then (case decode_map (bo_json bo) (be_Env b) of Some m \<Rightarrow> mapToSlice m | None \<Rightarrow> []) else [])"

definition storeProfiles :: "boot_env \<Rightarrow> Backend \<Rightarrow> ScannedProfile list \<Rightarrow> db \<Rightarrow> db" where
  "storeProfiles bo b profiles db =
     fold (\<lambda>row. try_db (Store_UpsertToolProfile row)) (rows_from (bo_now bo) (bo_uuid bo (be_ID b)) 0 (be_ID b) profiles) db"

text \<open>The tools of the scan mode that report a profile.\<close>

definition reported :: "backend_lib \<Rightarrow> string \<Rightarrow> scan_tools \<Rightarrow> ScannedProfile list" where
  "reported bl backendID tools =
     List.map_filter (\<lambda>(name, profile). map_option (\<lambda>p. \<lparr>sc_BackendID = backendID, sc_ToolName = name, sc_Profile = p, sc_RawJSON = bl_profile bl p\<rparr>) profile) tools"

definition scan_backend :: "boot_env \<Rightarrow> backend_lib \<Rightarrow> Backend \<Rightarrow> db \<Rightarrow> db" where
  "scan_backend bo bl b db =
     (let env = buildEnvForScan bo b
      in case ScanBackendToolsScanMode (bl_run bl) (bl_decode bl) (bl_duration bl) (be_Command b) (Some env) (10 * second) of
           Inl _ \<Rightarrow>
             (case ScanBackend (bl_handshake bl (be_StdioFraming b)) (bl_response bl) (jl_Marshal (bo_json bo)) (be_ID b) (be_Command b) env of
                Inl _ \<Rightarrow> db
              | Inr profiles \<Rightarrow> storeProfiles bo b profiles db)
         | Inr tools \<Rightarrow> storeProfiles bo b (reported bl (be_ID b) tools) db)"

definition scanSelfReportingBackends :: "boot_env \<Rightarrow> backend_lib \<Rightarrow> Store \<Rightarrow> Store" where
  "scanSelfReportingBackends bo bl s =
     (case Store_ListBackends (bo_lib bo) (bo_sys bo) s of
        (Inl _, s) \<Rightarrow> s
      | (Inr backends, s) \<Rightarrow>
          s\<lparr>st_db := fold (scan_backend bo bl) (filter (\<lambda>b. be_SelfReporting b \<and> be_Enabled b) backends) (st_db s)\<rparr>)"

section \<open>The environment for the cache\<close>

definition environ_map :: "string list \<Rightarrow> (string, string) gomap" where
  "environ_map environ = fold (\<lambda>e m. case Index e ''='' of Some i \<Rightarrow> AList.update (take i e) (drop (Suc i) e) m | None \<Rightarrow> m) environ []"

definition resolveTemplatesInPrecacheEnv :: "crypto_lib \<Rightarrow> (string, string) gomap \<Rightarrow> User option \<Rightarrow> (string, string) gomap" where
  "resolveTemplatesInPrecacheEnv lib env user =
     (case user of
        None \<Rightarrow> env
      | Some u \<Rightarrow>
          if \<not> envMapHasTemplates env then env
          else (case ResolveEnvTemplates lib env u of Inl _ \<Rightarrow> env | Inr env' \<Rightarrow> env'))"

text \<open>A token kept under the backend's name of a key goes back to the user's name.\<close>

definition user_key :: "(string, string) gomap \<Rightarrow> string \<Rightarrow> string" where
  "user_key mappings k = (case map_of (fold (\<lambda>(u, b). AList.update b u) mappings []) k of Some u \<Rightarrow> u | None \<Rightarrow> k)"

definition buildEnvForPrecache :: "boot_env \<Rightarrow> Backend \<Rightarrow> UserToken list \<Rightarrow> User option \<Rightarrow> (string, string) gomap" where
  "buildEnvForPrecache bo b tokens user =
     (let jl = bo_json bo;
          env = AList.update ''MCP_PRECACHE'' ''true'' (environ_map (bo_environ bo));
          env = (if has_column (be_Env b)
                 then (case decode_map jl (unquote jl (be_Env b)) of Some m \<Rightarrow> apply_systemwide m env | None \<Rightarrow> env) else env)
      in case (if has_column (be_EnvMappings b) then decode_map jl (be_EnvMappings b) else None) of
           Some mappings \<Rightarrow>
             resolveTemplatesInPrecacheEnv (bo_lib bo)
               (apply_mappings mappings (fold (\<lambda>t. AList.update (user_key mappings (ut_EnvKey t)) (ut_Value t)) tokens env)) user
         | None \<Rightarrow> resolveTemplatesInPrecacheEnv (bo_lib bo) (set_tokens tokens env) user)"

definition envToSlice :: "(string, string) gomap \<Rightarrow> string list" where
  "envToSlice env = map (\<lambda>(k, v). k @ ''='' @ v) env"

section \<open>Asking a backend for its tools\<close>

definition is_object :: "json \<Rightarrow> bool" where
  "is_object v = (case v of JObj _ \<Rightarrow> True | _ \<Rightarrow> False)"

text \<open>The loop over the responses: it ends at the answer to the request for tools, or at a value that is no object.\<close>

fun listed_tools :: "json list \<Rightarrow> json list" where
  "listed_tools [] = []"
| "listed_tools (JObj resp # rest) =
     (if map_of resp ''id'' = Some (JStr ''precache-tools'')
      then (case json_object (map_of resp ''result'') of
              None \<Rightarrow> []
            | Some result \<Rightarrow> (case json_array (map_of result ''tools'') of None \<Rightarrow> [] | Some ts \<Rightarrow> filter is_object ts))
      else listed_tools rest)"
| "listed_tools (JNull # rest) = listed_tools rest"
| "listed_tools (_ # rest) = []"

definition fetchToolsForPrecache :: "backend_lib \<Rightarrow> string \<Rightarrow> (string, string) gomap \<Rightarrow> goerr + json list" where
  "fetchToolsForPrecache bl command env =
     (if Fields command = [] then Inl (ErrNew ''empty command'')
      else case bl_exec bl (Fields command) (envToSlice env) of
             Inl err \<Rightarrow> Inl (ErrWrap ''start process'' err)
           | Inr responses \<Rightarrow> Inr (listed_tools responses))"

section \<open>Filling the cache\<close>

definition cacheBackendCapabilities :: "boot_env \<Rightarrow> string \<Rightarrow> json list \<Rightarrow> db \<Rightarrow> goerr + db" where
  "cacheBackendCapabilities bo backendID tools db = stmt ''cacheBackendCapabilities'' db
     (if \<not> has_backend db backendID then Inl fk_failed
      else case upsert_row cr_BackendID cr_BackendID capabilities_merge
          \<lparr>cr_BackendID = backendID, cr_Tools = jl_Marshal (bo_json bo) (JArr tools), cr_ToolCount = int (length tools), cr_UpdatedAt = bo_now bo\<rparr>
          (ct_capabilities (db_core db)) of
        Inl err \<Rightarrow> Inl err
      | Inr t \<Rightarrow> Inr (core_upd (\<lambda>c. c\<lparr>ct_capabilities := t\<rparr>) db))"

record PrecacheConfig =
  pc_UserEmail :: string
  pc_UserID :: string

text \<open>The tokens and the user of the configuration; \<open>True\<close> asks for the fallback of start-up.\<close>

definition precache_credentials ::
    "boot_env \<Rightarrow> PrecacheConfig \<Rightarrow> string \<Rightarrow> Store \<Rightarrow> (goerr + UserToken list \<times> User option \<times> bool) \<times> Store" where
  "precache_credentials bo cfg backendID s =
     (if pc_UserID cfg \<noteq> []
      then (case Store_GetUserTokensDecrypted (bo_lib bo) (bo_sys bo) (pc_UserID cfg) backendID s of
              (Inl err, s) \<Rightarrow> (Inl (ErrWrap (''get tokens for user '' @ pc_UserID cfg) err), s)
            | (Inr tokens, s) \<Rightarrow>
                (Inr (tokens, case Store_GetUser (pc_UserID cfg) (st_db s) of Inl _ \<Rightarrow> None | Inr u \<Rightarrow> Some u, False), s))
      else if pc_UserEmail cfg \<noteq> []
      then (case Store_GetUserByEmail (pc_UserEmail cfg) (st_db s) of
              Inl err \<Rightarrow> (Inl (ErrWrap ''get user by email'' err), s)
            | Inr u \<Rightarrow>
                (case Store_GetUserTokensDecrypted (bo_lib bo) (bo_sys bo) (us_ID u) backendID s of
                   (Inl _, s) \<Rightarrow> (Inr ([], Some u, False), s)
                 | (Inr tokens, s) \<Rightarrow> (Inr (tokens, Some u, False), s)))
      else (Inr ([], None, True), s))"

definition user_of_admin :: "string \<times> string \<times> string \<Rightarrow> User" where
  "user_of_admin = (\<lambda>(i, email, role). \<lparr>us_ID = i, us_Name = [], us_Email = email, us_Password = [], us_PasswordSalt = [], us_Role = role,
     us_CreatedAt = 0\<rparr>)"

definition fetch_nonempty :: "backend_lib \<Rightarrow> string \<Rightarrow> (string, string) gomap \<Rightarrow> goerr + json list" where
  "fetch_nonempty bl command env =
     (case fetchToolsForPrecache bl command env of Inr [] \<Rightarrow> Inl (ErrNew ''no tools returned'') | r \<Rightarrow> r)"

text \<open>The second attempt of start-up, with the tokens of the first administrator.\<close>

definition fetch_as_admin :: "boot_env \<Rightarrow> backend_lib \<Rightarrow> Backend \<Rightarrow> Store \<Rightarrow> json list option \<times> Store" where
  "fetch_as_admin bo bl b s =
     (case Store_FirstAdminUser (st_db s) of
        None \<Rightarrow> (None, s)
      | Some admin \<Rightarrow>
          (case Store_GetUserTokensDecrypted (bo_lib bo) (bo_sys bo) (fst admin) (be_ID b) s of
             (Inl _, s) \<Rightarrow> (None, s)
           | (Inr tokens, s) \<Rightarrow>
               (case fetchToolsForPrecache bl (be_Command b) (buildEnvForPrecache bo b tokens (Some (user_of_admin admin))) of
                  Inl _ \<Rightarrow> (None, s) | Inr tools \<Rightarrow> (Some tools, s))))"

definition on_db :: "(db \<Rightarrow> db) \<Rightarrow> Store \<Rightarrow> Store" where
  "on_db f s = s\<lparr>st_db := f (st_db s)\<rparr>"

definition precache_error :: "boot_env \<Rightarrow> string \<Rightarrow> string \<Rightarrow> Store \<Rightarrow> Store" where
  "precache_error bo backendID message = on_db (try_db (Store_SetBackendPrecacheError (bo_now bo) backendID message))"

definition cache_tools :: "boot_env \<Rightarrow> string \<Rightarrow> json list \<Rightarrow> Store \<Rightarrow> (goerr + int) \<times> Store" where
  "cache_tools bo backendID tools s =
     (case cacheBackendCapabilities bo backendID tools (st_db s) of
        Inl err \<Rightarrow> (Inl (ErrWrap ''cache capabilities'' err), precache_error bo backendID (bo_error bo err) s)
      | Inr db \<Rightarrow> (Inr (int (length tools)), s\<lparr>st_db := snd (Store_SetBackendAvailable (bo_now bo) backendID db)\<rparr>))"

definition RunPrecacheForBackend :: "boot_env \<Rightarrow> backend_lib \<Rightarrow> PrecacheConfig \<Rightarrow> string \<Rightarrow> Store \<Rightarrow> (goerr + int) \<times> Store" where
  "RunPrecacheForBackend bo bl cfg backendID s =
     (case Store_GetBackend (bo_lib bo) (bo_sys bo) backendID s of
        (Inl err, s) \<Rightarrow> (Inl (ErrWrap (''get backend '' @ backendID) err), s)
      | (Inr b, s) \<Rightarrow>
          if \<not> be_Enabled b then (Inr 0, s)
          else (case precache_credentials bo cfg backendID s of
             (Inl err, s) \<Rightarrow> (Inl err, s)
           | (Inr (tokens, user, fallback), s) \<Rightarrow>
               (case fetch_nonempty bl (be_Command b) (buildEnvForPrecache bo b tokens user) of
                  Inr tools \<Rightarrow> cache_tools bo backendID tools s
                | Inl err \<Rightarrow>
                    if \<not> fallback then (Inl err, precache_error bo backendID (bo_error bo err) s)
                    else (case fetch_as_admin bo bl b s of
                            (Some (t # ts), s) \<Rightarrow> cache_tools bo backendID (t # ts) s
                          | (_, s) \<Rightarrow> (Inr 0, precache_error bo backendID ''no credentials available for precache'' s)))))"

text \<open>The identifiers of the backends that failed, in order.\<close>

fun precache_all :: "boot_env \<Rightarrow> backend_lib \<Rightarrow> PrecacheConfig \<Rightarrow> Backend list \<Rightarrow> Store \<Rightarrow> string list \<times> Store" where
  "precache_all bo bl cfg [] s = ([], s)"
| "precache_all bo bl cfg (b # bs) s =
     (if \<not> be_Enabled b then precache_all bo bl cfg bs s
      else case RunPrecacheForBackend bo bl cfg (be_ID b) s of
             (Inl _, s) \<Rightarrow> map_prod ((#) (be_ID b)) id (precache_all bo bl cfg bs s)
           | (Inr _, s) \<Rightarrow> precache_all bo bl cfg bs s)"

definition RunPrecache :: "boot_env \<Rightarrow> backend_lib \<Rightarrow> PrecacheConfig \<Rightarrow> Store \<Rightarrow> goerr option \<times> Store" where
  "RunPrecache bo bl cfg s =
     (case Store_ListBackends (bo_lib bo) (bo_sys bo) s of
        (Inl err, s) \<Rightarrow> (Some (ErrWrap ''list backends'' err), s)
      | (Inr backends, s) \<Rightarrow>
          (case precache_all bo bl cfg backends s of
             ([], s) \<Rightarrow> (None, s)
           | (failed, s) \<Rightarrow> (Some (ErrNew (''precache failed for backends: '' @ join_with '', '' failed)), s)))"

text \<open>The goroutine of \<open>main\<close> that fills the cache of the backends that have none.\<close>

definition precache_or_note :: "boot_env \<Rightarrow> backend_lib \<Rightarrow> PrecacheConfig \<Rightarrow> string \<Rightarrow> Store \<Rightarrow> Store" where
  "precache_or_note bo bl cfg backendID s =
     (case RunPrecacheForBackend bo bl cfg backendID s of
        (Inl err, s) \<Rightarrow> precache_error bo backendID (bo_error bo err) s
      | (Inr _, s) \<Rightarrow> s)"

definition auto_precache :: "boot_env \<Rightarrow> backend_lib \<Rightarrow> Store \<Rightarrow> Store" where
  "auto_precache bo bl s =
     (case Store_GetUncachedBackends (st_db s) of
        Inl _ \<Rightarrow> s
      | Inr ids \<Rightarrow> fold (precache_or_note bo bl \<lparr>pc_UserEmail = [], pc_UserID = []\<rparr>) (filter (\<lambda>i. i \<noteq> ''mcpbridge'') ids) s)"

section \<open>The callbacks of the console\<close>

definition OnRefreshTools :: "boot_env \<Rightarrow> backend_lib \<Rightarrow> string \<Rightarrow> string \<Rightarrow> Store \<Rightarrow> (goerr + int) \<times> Store" where
  "OnRefreshTools bo bl backendID triggerUserID s = RunPrecacheForBackend bo bl \<lparr>pc_UserEmail = [], pc_UserID = triggerUserID\<rparr> backendID s"

text \<open>\<open>None\<close> when the removal of a pool hangs.\<close>

definition OnBackendChange :: "boot_env \<Rightarrow> backend_lib \<Rightarrow> string \<Rightarrow> string \<Rightarrow> 'p App \<Rightarrow> 'p App option" where
  "OnBackendChange bo bl backendID triggerUserID a =
     (let (tm, st) = RefreshPrefixes (bo_lib bo) (bo_sys bo) (app_muxer a) (Some (app_store a));
          a = put_store st (a\<lparr>app_muxer := tm\<rparr>)
      in case RemovePoolsByBackend backendID (app_pools a) of
           None \<Rightarrow> None
         | Some (_, pm) \<Rightarrow>
             Some (a\<lparr>app_pools := pm, app_store :=
               (if triggerUserID = [] then app_store a
                else precache_or_note bo bl \<lparr>pc_UserEmail = [], pc_UserID = triggerUserID\<rparr> backendID (app_store a))\<rparr>))"

definition probe_env :: "boot_env \<Rightarrow> Backend \<Rightarrow> string \<Rightarrow> db \<Rightarrow> string list" where
  "probe_env bo b userID db =
     (let jl = bo_json bo
      in bo_environ bo @
         (if has_column (be_EnvMappings b)
          then (case decode_map jl (be_EnvMappings b) of Some m \<Rightarrow> map (\<lambda>(_, k). k @ ''='' @ ''probe_test_token'') m | None \<Rightarrow> []) else []) @
         (if has_column (be_Env b)
          then (case decode_map jl (unquote jl (be_Env b)) of
                  Some m \<Rightarrow> mapToSlice (if m = [] then [] else resolveTemplatesForUser (bo_lib bo) m userID db) | None \<Rightarrow> []) else []))"

definition OnProbeBackend :: "boot_env \<Rightarrow> backend_lib \<Rightarrow> string \<Rightarrow> string \<Rightarrow> Store \<Rightarrow> (goerr + string) \<times> Store" where
  "OnProbeBackend bo bl backendID userID s =
     (case Store_GetBackend (bo_lib bo) (bo_sys bo) backendID s of
        (Inl err, s) \<Rightarrow> (Inl (ErrWrap (''backend '' @ backendID @ '' found'') err), s)
      | (Inr b, s) \<Rightarrow> (Inr (bl_probe_json bl (bl_probe bl (be_Command b) (probe_env bo b userID (st_db s)) (be_StdioFraming b))), s))"

definition OnResolveEnv ::
    "boot_env \<Rightarrow> string \<Rightarrow> string \<Rightarrow> string \<Rightarrow> string \<Rightarrow> Store \<Rightarrow> (goerr + (string, string) gomap) \<times> Store" where
  "OnResolveEnv bo envJSON mappingsJSON backendID userID s =
     (let jl = bo_json bo
      in case decode_map jl (unquote jl envJSON) of
           None \<Rightarrow> (Inl (ErrNew ''invalid env JSON''), s)
         | Some formEnv \<Rightarrow>
             (case (if has_column mappingsJSON then decode_map jl (unquote jl mappingsJSON) else Some []) of
                None \<Rightarrow> (Inl (ErrNew ''invalid env_mappings JSON''), s)
              | Some mappings \<Rightarrow>
                  (let (tokens, s) = (if backendID = [] then (Inr [], s) else Store_GetUserTokensDecrypted (bo_lib bo) (bo_sys bo) userID backendID s);
                       env = (case tokens of Inl _ \<Rightarrow> system_env (bo_sys bo) | Inr ts \<Rightarrow> set_tokens ts (system_env (bo_sys bo)));
                       env = apply_systemwide formEnv (apply_mappings mappings env)
                   in (Inr (resolveTemplatesForUser (bo_lib bo) env userID (st_db s)), s))))"

section \<open>The cache and the preview\<close>

lemma try_precache_error [simp]:
  "db_core (try_db (Store_SetBackendPrecacheError now i m) db) = db_core db"
  by (simp add: try_db_def Store_SetBackendPrecacheError_def stmt_def split: option.split)

lemma precache_error_core [simp]: "db_core (st_db (precache_error bo i m s)) = db_core (st_db s)"
  by (simp add: precache_error_def on_db_def)

lemma GetBackend_db: "Store_GetBackend lib sys i s = (r, s') \<Longrightarrow> st_db s' = st_db s"
  by (auto simp: Store_GetBackend_def Let_def split: sum.splits prod.splits)

lemma GetUserTokensDecrypted_db: "Store_GetUserTokensDecrypted lib sys u b s = (r, s') \<Longrightarrow> st_db s' = st_db s"
  by (auto simp: Store_GetUserTokensDecrypted_def Let_def split: sum.splits prod.splits)

lemma precache_credentials_db: "precache_credentials bo cfg i s = (r, s') \<Longrightarrow> st_db s' = st_db s"
  by (auto simp: precache_credentials_def dest: GetUserTokensDecrypted_db split: if_splits sum.splits prod.splits)

lemma fetch_as_admin_db: "fetch_as_admin bo bl b s = (r, s') \<Longrightarrow> st_db s' = st_db s"
  by (auto simp: fetch_as_admin_def dest: GetUserTokensDecrypted_db split: option.splits sum.splits prod.splits)

lemma put_status_capabilities: "put_status op mg bs db = Inr db' \<Longrightarrow> ct_capabilities (db_core db') = ct_capabilities (db_core db)"
  by (auto simp: put_status_def core_upd_def dest!: stmt_InrD split: if_splits sum.splits)

lemma SetBackendAvailable_capabilities [simp]:
  "ct_capabilities (db_core (snd (Store_SetBackendAvailable now i db))) = ct_capabilities (db_core db)"
  by (auto simp: Store_SetBackendAvailable_def dest!: put_status_capabilities stmt_InrD split: sum.splits)

definition cached_tools :: "db \<Rightarrow> string \<Rightarrow> CapabilitiesRow list" where
  "cached_tools db i = filter (\<lambda>r. cr_BackendID r = i) (ct_capabilities (db_core db))"

lemma cached_tools_cong: "ct_capabilities (db_core db) = ct_capabilities (db_core db') \<Longrightarrow> cached_tools db = cached_tools db'"
  by (simp add: cached_tools_def fun_eq_iff)

lemma filter_map_other: "(\<And>x. P (f x) \<longleftrightarrow> P x) \<Longrightarrow> (\<And>x. P x \<Longrightarrow> f x = x) \<Longrightarrow> filter P (map f t) = filter P t"
  by (induction t) auto

lemma upsert_capabilities:
  assumes "upsert_row cr_BackendID cr_BackendID capabilities_merge new t = Inr t'"
  shows "filter (\<lambda>r. cr_BackendID r = cr_BackendID new) t' \<noteq> []"
    and "r \<in> set t' \<Longrightarrow> cr_BackendID r = cr_BackendID new \<Longrightarrow> cr_Tools r = cr_Tools new \<and> cr_ToolCount r = cr_ToolCount new"
    and "j \<noteq> cr_BackendID new \<Longrightarrow> filter (\<lambda>r. cr_BackendID r = j) t' = filter (\<lambda>r. cr_BackendID r = j) t"
proof -
  show "filter (\<lambda>r. cr_BackendID r = cr_BackendID new) t' \<noteq> []"
  proof (cases "cr_BackendID new \<in> cr_BackendID ` set t")
    case True
    then obtain x where "x \<in> set t" "cr_BackendID x = cr_BackendID new" by auto
    then have "capabilities_merge new x \<in> set t' \<and> cr_BackendID (capabilities_merge new x) = cr_BackendID new"
      using assms True by (auto simp: upsert_row_def capabilities_merge_def)
    then show ?thesis by (auto simp: filter_empty_conv)
  qed (use assms in \<open>auto simp: upsert_row_def insert_row_def\<close>)
  show "r \<in> set t' \<Longrightarrow> cr_BackendID r = cr_BackendID new \<Longrightarrow> cr_Tools r = cr_Tools new \<and> cr_ToolCount r = cr_ToolCount new"
    using assms by (auto simp: upsert_row_def insert_row_def capabilities_merge_def split: if_splits) (metis image_eqI)+
  show "filter (\<lambda>r. cr_BackendID r = j) t' = filter (\<lambda>r. cr_BackendID r = j) t" if "j \<noteq> cr_BackendID new"
    using assms that
    by (auto simp: upsert_row_def insert_row_def capabilities_merge_def split: if_splits intro!: filter_map_other)
qed

lemma cache_tools_outcome:
  assumes "cache_tools bo i tools s = (r, s')"
  shows "(r = Inr (int (length tools)) \<and> cached_tools (st_db s') i \<noteq> [] \<and>
      (\<forall>row \<in> set (cached_tools (st_db s') i). cr_Tools row = jl_Marshal (bo_json bo) (JArr tools) \<and> cr_ToolCount row = int (length tools)) \<and>
      (\<forall>j. j \<noteq> i \<longrightarrow> cached_tools (st_db s') j = cached_tools (st_db s) j)) \<or>
    (\<exists>err. r = Inl err) \<and> cached_tools (st_db s') = cached_tools (st_db s)"
proof (cases "cacheBackendCapabilities bo i tools (st_db s)")
  case (Inl err)
  then show ?thesis using assms by (auto simp: cache_tools_def intro!: cached_tools_cong)
next
  case (Inr db)
  then obtain t where t: "upsert_row cr_BackendID cr_BackendID capabilities_merge
      \<lparr>cr_BackendID = i, cr_Tools = jl_Marshal (bo_json bo) (JArr tools), cr_ToolCount = int (length tools), cr_UpdatedAt = bo_now bo\<rparr>
      (ct_capabilities (db_core (st_db s))) = Inr t" "ct_capabilities (db_core db) = t"
    by (auto simp: cacheBackendCapabilities_def core_upd_def dest!: stmt_InrD split: if_splits sum.splits)
  from Inr assms have "r = Inr (int (length tools))" "ct_capabilities (db_core (st_db s')) = t" using t(2) by (auto simp: cache_tools_def)
  then show ?thesis using upsert_capabilities [OF t(1)] by (simp add: cached_tools_def)
qed

lemma fetch_nonempty_some: "fetch_nonempty bl command env = Inr tools \<Longrightarrow> tools \<noteq> []"
  by (auto simp: fetch_nonempty_def split: sum.splits list.splits)

text \<open>C18: Refreshing the tool cache of a backend either stores the whole list that the backend answered with, and returns its length, or leaves the
  cache as it was: no failure, an empty answer included, loses the tools cached before. The caches of the other backends are never touched.\<close>

theorem precache_outcome:
  assumes "RunPrecacheForBackend bo bl cfg i s = (r, s')"
  shows "(\<forall>j. j \<noteq> i \<longrightarrow> cached_tools (st_db s') j = cached_tools (st_db s) j) \<and>
    (if \<exists>n. r = Inr n \<and> n > 0
     then \<exists>b env tools. fst (Store_GetBackend (bo_lib bo) (bo_sys bo) i s) = Inr b \<and> fetchToolsForPrecache bl (be_Command b) env = Inr tools \<and>
       r = Inr (int (length tools)) \<and> cached_tools (st_db s') i \<noteq> [] \<and>
       (\<forall>row \<in> set (cached_tools (st_db s') i). cr_Tools row = jl_Marshal (bo_json bo) (JArr tools) \<and> cr_ToolCount row = int (length tools))
     else cached_tools (st_db s') i = cached_tools (st_db s) i)" (is "?others \<and> ?mine")
proof -
  have same: ?thesis if "cached_tools (st_db s') = cached_tools (st_db s)" "r = Inl e \<or> r = Inr 0" for e using that by auto
  obtain g s1 where g: "Store_GetBackend (bo_lib bo) (bo_sys bo) i s = (g, s1)" by fastforce
  note db1 = GetBackend_db [OF g]
  show ?thesis
  proof (cases "\<exists>b. g = Inr b \<and> be_Enabled b")
    case False
    then show ?thesis using assms g db1 by (cases g) (auto simp: RunPrecacheForBackend_def)
  next
    case True
    then obtain b where b: "g = Inr b" "be_Enabled b" by blast
    have stored: ?thesis if "cache_tools bo i tools s2 = (r, s')" "st_db s2 = st_db s" "tools \<noteq> []"
        "fetchToolsForPrecache bl (be_Command b) env = Inr tools" for tools s2 env
      using cache_tools_outcome [OF that(1)] that(2-4) g b by auto
    obtain c s2 where c: "precache_credentials bo cfg i s1 = (c, s2)" by fastforce
    have db2: "st_db s2 = st_db s" using precache_credentials_db [OF c] db1 by simp
    show ?thesis
    proof (cases c)
      case (Inl err)
      then show ?thesis using assms g b c db2 by (auto simp: RunPrecacheForBackend_def)
    next
      case (Inr p)
      obtain tokens user fallback where p: "p = (tokens, user, fallback)" by (cases p)
      let ?env = "buildEnvForPrecache bo b tokens user"
      show ?thesis
      proof (cases "fetch_nonempty bl (be_Command b) ?env")
        case f: (Inr tools)
        then have "cache_tools bo i tools s2 = (r, s')" using assms g b c Inr p by (simp add: RunPrecacheForBackend_def)
        moreover have "fetchToolsForPrecache bl (be_Command b) ?env = Inr tools"
          using f by (auto simp: fetch_nonempty_def split: sum.splits list.splits)
        ultimately show ?thesis using db2 fetch_nonempty_some [OF f] by (intro stored)
      next
        case f: (Inl err)
        obtain h s3 where h: "fetch_as_admin bo bl b s2 = (h, s3)" by fastforce
        note db3 = fetch_as_admin_db [OF h]
        show ?thesis
        proof (cases "fallback \<and> (\<exists>x xs. h = Some (x # xs))")
          case True
          then obtain x xs where "h = Some (x # xs)" "fallback" by blast
          moreover from this(1) h obtain env where "fetchToolsForPrecache bl (be_Command b) env = Inr (x # xs)"
            by (auto simp: fetch_as_admin_def split: option.splits sum.splits prod.splits)
          ultimately show ?thesis using assms g b c Inr p f h db2 db3 by (intro stored [of "x # xs" s3]) (auto simp: RunPrecacheForBackend_def)
        next
          case no: False
          then have "cached_tools (st_db s') = cached_tools (st_db s) \<and> (r = Inl err \<or> r = Inr 0)"
            using assms g b c Inr p f h db2 db3
            by (auto simp: RunPrecacheForBackend_def intro!: cached_tools_cong split: if_splits option.splits list.splits)
          then show ?thesis by (intro same) auto
        qed
      qed
    qed
  qed
qed

lemma decoded_column:
  "has_column column \<Longrightarrow> decode_map jl (unquote jl column) = Some m \<Longrightarrow> decode_string_map jl column = m"
  by (auto simp: has_column_def decode_map_def decode_string_map_def split: sum.splits json.splits)

lemma no_column: "\<not> has_column column \<Longrightarrow> decode_string_map jl column = []"
  by (auto simp: has_column_def decode_string_map_def)

text \<open>The environment that the console shows for a backend and a user is the one the user's processes are started with, whenever they can be started.\<close>

theorem preview_is_runtime_env:
  assumes "Store_GetBackend (bo_lib bo) (bo_sys bo) backendID s = (Inr b, s1)" and "backendID \<noteq> []"
    and "has_column (be_Env b)" and "decode_map (bo_json bo) (unquote (bo_json bo) (be_Env b)) = Some systemwide"
    and "has_column (be_EnvMappings b) \<Longrightarrow> decode_map (bo_json bo) (unquote (bo_json bo) (be_EnvMappings b)) \<noteq> None"
    and "fst (user_env (bo_lib bo) (bo_sys bo) (bo_json bo) userID backendID tm (Some s)) = Inr env"
  shows "fst (OnResolveEnv bo (be_Env b) (be_EnvMappings b) backendID userID s1) = Inr env"
proof -
  let ?jl = "bo_json bo"
  obtain mappings where m: "(if has_column (be_EnvMappings b) then decode_map ?jl (unquote ?jl (be_EnvMappings b)) else Some []) = Some mappings"
      "decode_string_map ?jl (be_EnvMappings b) = mappings"
    using assms(5) by (cases "has_column (be_EnvMappings b)") (auto simp: no_column dest: decoded_column)
  have e: "decode_string_map ?jl (be_Env b) = systemwide" by (rule decoded_column [OF assms(3,4)])
  obtain r s2 where d: "Store_GetUserTokensDecrypted (bo_lib bo) (bo_sys bo) userID backendID s1 = (r, s2)" by fastforce
  show ?thesis using assms(1,2,4,6) m e d
    by (auto simp: OnResolveEnv_def user_env_def getBackendConfig_def cfg_of_backend_def buildLegacyEnv_def resolveTemplatesForUser_def Let_def
        split: sum.splits if_splits)
qed

section \<open>A backend with one tool\<close>

definition one_tool :: backend_lib where
  "one_tool = \<lparr>bl_exec = (\<lambda>_ _. Inr [JObj [(''id'', JStr ''precache-init'')],
       JObj [(''id'', JStr ''precache-tools''), (''result'', JObj [(''tools'', JArr [JObj [(''name'', JStr ''ls'')]])])]]),
     bl_run = (\<lambda>_ _. RunTimeout), bl_decode = (\<lambda>_. Inl ErrNoRows), bl_handshake = (\<lambda>_ _ _ _. Inl ErrNoRows), bl_response = (\<lambda>_. Inl ErrNoRows),
     bl_profile = (\<lambda>_. []), bl_probe = (\<lambda>_ _ _. \<lparr>pbr_Status = ''ok'', pbr_Message = [], pbr_Stderr = [], pbr_DurationMs = 0\<rparr>), bl_probe_json = (\<lambda>_. []),
     bl_duration = (\<lambda>_. [])\<rparr>"

definition at_startup :: PrecacheConfig where
  "at_startup = \<lparr>pc_UserEmail = [], pc_UserID = []\<rparr>"

lemma one_tool_cached: "fst (RunPrecacheForBackend keyless_boot one_tool at_startup ''github'' (started_store running_db)) = Inr 1"
proof -
  have b: "Store_GetBackend (bo_lib keyless_boot) (bo_sys keyless_boot) ''github'' (started_store running_db) =
      (Inr (plain_backend ''github'' ''gh''), started_store running_db)"
    by (simp add: Store_GetBackend_def started_store_def running_db_def empty_db_def stmt_def query_row_def plain_backend_def decryptBackendEnv_def)
  have f: "fetch_nonempty one_tool ''gh'' env = Inr [JObj [(''name'', JStr ''ls'')]]" for env
    by (simp add: fetch_nonempty_def fetchToolsForPrecache_def one_tool_def Fields_def is_space_def is_object_def)
  have "cacheBackendCapabilities keyless_boot ''github'' [JObj [(''name'', JStr ''ls'')]] (st_db (started_store running_db)) \<noteq> Inl err" for err
    by (simp add: cacheBackendCapabilities_def started_store_def running_db_def empty_db_def stmt_def has_backend_def plain_backend_def
        upsert_row_def insert_row_def empty_core_def split: sum.split)
  then have "fst (cache_tools keyless_boot ''github'' [JObj [(''name'', JStr ''ls'')]] (started_store running_db)) = Inr 1"
    by (auto simp: cache_tools_def split: sum.splits)
  then show ?thesis using b f by (simp add: RunPrecacheForBackend_def precache_credentials_def at_startup_def plain_backend_def)
qed

theorem precache_outcome_witness:
  "cached_tools (st_db (started_store running_db)) ''github'' = [] \<and>
   cached_tools (st_db (snd (RunPrecacheForBackend keyless_boot one_tool at_startup ''github'' (started_store running_db)))) ''github'' \<noteq> []"
  using precache_outcome [of keyless_boot one_tool at_startup "''github''" "started_store running_db"
    "fst (RunPrecacheForBackend keyless_boot one_tool at_startup ''github'' (started_store running_db))"
    "snd (RunPrecacheForBackend keyless_boot one_tool at_startup ''github'' (started_store running_db))"] one_tool_cached
  by (auto simp: cached_tools_def started_store_def running_db_def empty_db_def empty_core_def)

definition preview_boot :: boot_env where
  "preview_boot = keyless_boot\<lparr>bo_json := \<lparr>jl_Unmarshal = (\<lambda>s. if s = ''E'' then Inr (JObj [(''A'', JStr ''1'')]) else Inl (ErrNew ''no JSON'')),
     jl_Marshal = (\<lambda>_. [])\<rparr>\<rparr>"

definition preview_backend :: Backend where
  "preview_backend = (plain_backend ''github'' ''gh'')\<lparr>be_Env := ''E''\<rparr>"

definition preview_store :: Store where
  "preview_store = started_store (running_db\<lparr>db_backends := [preview_backend]\<rparr>)"

theorem preview_is_runtime_env_witness:
  "fst (OnResolveEnv preview_boot ''E'' [] ''github'' ''u'' preview_store) = Inr [(''A'', ''1'')]"
proof -
  have b: "Store_GetBackend (bo_lib preview_boot) (bo_sys preview_boot) ''github'' preview_store = (Inr preview_backend, preview_store)"
    by (simp add: Store_GetBackend_def preview_store_def preview_backend_def started_store_def running_db_def empty_db_def stmt_def query_row_def
        plain_backend_def decryptBackendEnv_def)
  have c: "has_column (be_Env preview_backend)" "be_Env preview_backend = ''E''" "be_EnvMappings preview_backend = []" "\<not> has_column (be_EnvMappings preview_backend)"
    by (simp_all add: has_column_def preview_backend_def plain_backend_def)
  have d: "decode_map (bo_json preview_boot) (unquote (bo_json preview_boot) (be_Env preview_backend)) = Some [(''A'', ''1'')]"
    by (simp add: decode_map_def unquote_def preview_boot_def preview_backend_def)
  have tokens: "Store_GetUserTokensDecrypted (bo_lib preview_boot) (bo_sys preview_boot) ''u'' ''github'' preview_store = (Inr [], preview_store)"
    by (simp add: Store_GetUserTokensDecrypted_def Store_GetUserTokens_def preview_store_def started_store_def running_db_def empty_db_def empty_core_def
        stmt_def order_by_def)
  have sys: "system_env (bo_sys preview_boot) = []" by (simp add: system_env_def preview_boot_def keyless_boot_def)
  have t: "\<not> envMapHasTemplates [(''A'', ''1'')]" by (simp add: envMapHasTemplates_def open_braces_def Contains_def)
  have e: "fst (user_env (bo_lib preview_boot) (bo_sys preview_boot) (bo_json preview_boot) ''u'' ''github''
      \<lparr>tm_backendPrefixes = [], tm_secrets = None, tm_config = tc\<rparr> (Some preview_store)) = Inr [(''A'', ''1'')]" for tc
    using decoded_column [OF c(1) d]
    by (simp add: user_env_def getBackendConfig_def b cfg_of_backend_def buildLegacyEnv_def tokens no_column c(4) apply_systemwide_def apply_mappings_def
        set_tokens_def sys t Let_def)
  show ?thesis using preview_is_runtime_env [OF b _ c(1) d _ e] c by simp
qed

end
