(* ===== verification/Spec2Isabelle.thy ===== *)
theory Spec2Isabelle
  imports Prelude RateLimit EnforcerTypes Heuristics Schema Db EnforcerStore Scanner CelEngine Resolver Enforcer Crypto
    AccountStore BackendStore CoreStore Process Pool PoolRuns PoolManager Config Template Muxer Gateway SystemTools
    Bridge BridgeCalls ToolLists Endpoints Auth Service Mailer Web WebLogin WebAccount WebEnforcer WebAdmin WebRoutes
    Maintenance Secrets Startup Precache
begin

text \<open>
  \<^bold>\<open>The palaestra MCP bridge: a verification development.\<close>

  The bridge stands between language-model clients and MCP tool servers ("backends"). A tool call arrives over
  HTTP, is routed to a backend by the prefix of the tool name, and is first put to the \<^emph>\<open>enforcer\<close>,
  which allows it, denies it, or parks it until a human approves it. The parts and how they interact:

  \<^item> The \<^emph>\<open>gateways\<close> (src/mcp_handlers.go, src/mcpbridge_routing.go, src/v2handler.go) call
    \<open>Enforcer.HandleToolCall\<close> and, on its answer, reply, queue an approval or execute the call.
  \<^item> The \<^emph>\<open>enforcer\<close> (src/enforcer/enforcer.go) checks the kill switches and the justification, resolves the
    tool's safety profile, evaluates the CEL policies, applies the default gate, and charges the call to the
    user's risk and resource buckets. It also runs approved requests and administers policies, switches and limits.
  \<^item> The \<^emph>\<open>profile resolver\<close> (src/enforcer/resolver.go) finds a profile among overrides, stored profiles and
    the \<^emph>\<open>heuristics\<close> (src/enforcer/heuristics.go); the \<^emph>\<open>scanner\<close> (src/enforcer/scanner.go) fills the
    stored profiles from what the backends report.
  \<^item> The \<^emph>\<open>policy engine\<close> (src/enforcer/cel_engine.go) compiles and evaluates the policies.
  \<^item> The \<^emph>\<open>rate limiter\<close> (src/ratelimit/ratelimit.go) keeps the buckets.
  \<^item> The \<^emph>\<open>store\<close> (src/store) keeps everything that survives a restart in one SQLite database; secrets in it are
    encrypted (src/internal/crypto).
  \<^item> The \<^emph>\<open>muxer\<close> (src/muxer) routes a call to a backend by its prefix and builds the environment of the user's process;
    the \<^emph>\<open>pools\<close> (src/poolmgr) start, keep and stop the processes.
  \<^item> The \<^emph>\<open>OAuth server\<close> (src/auth) issues and checks the tokens of clients.
  \<^item> The \<^emph>\<open>web console\<close> (src/web, with src/internal/twofa and src/internal/mailer) is the site where users keep their
    tokens and approve calls, and where administrators manage users, backends and policies.
  \<^item> \<^emph>\<open>Start-up\<close> (src/main.go, src/seed.go, src/scan.go, src/precache.go) prepares the database and fills the caches;
    two \<^emph>\<open>commands\<close> (src/cmd) migrate and export secrets.

  \<^bold>\<open>Theories.\<close>

  \<^descr>[Prelude] Go's values: 64-bit integers with wrap-around, truncating division, times, byte strings, maps
    (locale \<open>go_map\<close>), errors; the shared lemmas.
  \<^descr>[RateLimit] src/ratelimit/ratelimit.go, every function. Records \<open>Bucket\<close>, \<open>BucketState\<close>,
    \<open>BucketManager\<close>, \<open>RateLimitManager\<close>. The locale \<open>token_bucket\<close> is the contract of both bucket
    types; in it the bound on the grants of any history of calls run one at a time is proved once, and \<open>interleaved_overdraft\<close> shows
    what unsynchronised calls can do. Further: the level invariant over reachable managers, loaded levels included, the exact outcome of \<open>CheckAndConsume\<close>, isolation of users, the save/load round trip.
  \<^descr>[EnforcerTypes] src/enforcer/types.go: the data and the action registries.
  \<^descr>[Heuristics] src/enforcer/heuristics.go: what the token scan decides, bounds and monotonicity of the
    inferred profile.
  \<^descr>[Scanner] src/enforcer/scanner.go: one profile per named tool of a scan.
  \<^descr>[CelEngine] src/enforcer/cel_engine.go. The CEL library is the parameter \<open>cel_lib\<close>. The decision is the
    maximum of the matching policies in the order of restrictiveness and does not depend on the iteration order of
    Go's map, except in ties.
  \<^descr>[Schema] src/store/store.go: tables and columns, and the start-up migration as a program over them.
  \<^descr>[Db] The SQL statements the store issues, the rows as records and the tables as lists in the record \<open>db\<close>. The
    locale \<open>keyed_table\<close> is the contract of a table with a primary and a unique key.
  \<^descr>[EnforcerStore] src/store/enforcer_store.go and src/store/rate_limit_store.go, every method, each table an
    interpretation of \<open>keyed_table\<close>. Any sequence of writes (\<open>es_reachable\<close>) keeps primary, unique and
    foreign keys; the kill switch table implements a set of scopes (locale \<open>switch_board\<close>); round trips of the
    upserts; exactness of the cleanups.
  \<^descr>[Resolver] src/enforcer/resolver.go: the tiers of a resolution and the override round trip.
  \<^descr>[Enforcer] src/enforcer/enforcer.go, every operation. \<open>HandleToolCall\<close> is composed of the steps of the source
    (\<open>justification_gate\<close>, \<open>count_call\<close>, \<open>Enforcer_Evaluate\<close>, \<open>permit_gate\<close>, \<open>charge_call\<close>);
    \<open>allowed_calls\<close> lists what an allowed call has passed, and the other theorems are about each way a call
    is refused, about approvals, and about the administration of policies and limits.

  \<^descr>[Crypto] src/internal/crypto: key providers (locale \<open>kek_provider\<close>, interpreted for both), envelopes, key store and user
    keys; every stored secret comes back.
  \<^descr>[AccountStore, BackendStore] The remaining methods of src/store.
  \<^descr>[CoreStore] The invariant of the whole database, kept by every sequence of writes of the three store theories
    (\<open>site_reachable\<close>), but for the renaming of the legacy backend, complete deletion, tokens under a user's key, the retry back-off.
  \<^descr>[Process, Pool, PoolRuns, PoolManager] src/poolmgr: commands and framings; the pool as a state whose goroutines are counted, its
    channel an interpretation of the locale \<open>bounded_channel\<close>; the step relation \<open>pool_reachable\<close> over the
    interleavings of its operations, with its invariant, and the end of the retries; the manager, the recycler and the probes.
  \<^descr>[Config] src/config and src/credential: the configuration with its defaults and overrides, the locale \<open>secret_store\<close>.
  \<^descr>[Template, Muxer] src/muxer: templates, added schema parameters, routing, and environments.
  \<^descr>[Gateway, SystemTools, Bridge, BridgeCalls, ToolLists, Endpoints] src/app.go, src/mcpbridge.go, src/mcpbridge_routing.go, src/mcpbridge_tools.go,
    src/mcp_handlers.go, src/v2handler.go, src/http_handlers.go, src/jsonrpc.go, src/shared: the state \<open>App\<close>, the three handlers of tool calls, the
    lists of tools, and the dispatch. The locale \<open>call_gateway\<close> is the contract of the three handlers; the type \<open>endpoint\<close> names them, so that one theorem covers
    all: what the enforcer stops is not sent to any process. What waits for approval can be replayed, except from the older handler.
  \<^descr>[Auth] src/auth/auth.go: the OAuth server, the check of bearer tokens, and the use of codes: single when exchanges
    follow one another, not when they interleave (\<open>code_exchanged_twice\<close>).
  \<^descr>[Service] The endpoints behind the token check, the executor of approved calls (src/web/approval_executor.go), and the retry of
    unavailable backends: whole requests, with what they leave to run in the background (\<open>serve_root_all\<close>), write only to the processes of their user,
    and an approved call is the call that was made.
  \<^descr>[Mailer, Web, WebLogin, WebAccount, WebEnforcer, WebAdmin, WebRoutes] src/internal/mailer, src/internal/twofa, src/web: every page of the console,
    the table of routes and its guards. The theorems are about signing in, invitations, the guards, and where the pages fall short.
  \<^descr>[Maintenance] src/cmd/migrate and src/cmd/extract: the migration is transparent when it succeeds, and loses a token when an encryption fails.
  \<^descr>[Secrets] src/internal/secret: secrets in files or in the environment (locale \<open>secret_injector\<close>, interpreted for both); what stays on the disk, which the
    process may change and from which a file may not be removable.
  \<^descr>[Startup] The key check, seeding and overrides of src/main.go, src/seed.go and src/scan.go: when start-up fails, and what it changes.
  \<^descr>[Precache] src/scan.go, src/precache.go and the callbacks of src/main.go: what a refresh does to the tool cache, and the environment the
    console shows.

  \<^bold>\<open>Modelling decisions.\<close> A method that holds a mutex throughout is one atomic function on the state. Code that does not is modelled for
  one goroutine at a time, and split where its lock is given up or missing, so that the interleaving can be stated: the check and the debit of a \<open>BucketState\<close>
  (\<open>BucketState_CanConsume\<close>, \<open>Consume_debit\<close>), the check of an authorization code and its exchange (\<open>exchange_check\<close>, \<open>exchange_issue\<close>), the
  search for a user's pool and its creation (\<open>find_user_pool\<close>, \<open>make_user_pool\<close>). The clock
  is an argument: one operation reads one instant. A SQL statement takes effect as a whole or fails; the set
  \<open>db_faults\<close> of failing statements is arbitrary but fixed during an operation, so every error branch is
  reachable. Rows SQL leaves unordered come in insertion order. Arithmetic wraps at 64 bits everywhere; theorems that
  need no overflow say so as bounds (capacities up to \<open>2 ^ 62\<close>, refill rates up to \<open>2 ^ 28\<close> tokens a minute), far
  above the values of the configuration. There is no fuel: every loop of the source that is modelled terminates and
  is a total function. An operation that panics, or that blocks for ever on a channel, returns \<open>None\<close>. Byte slices that the console aliases and
  overwrites live in an explicit heap (\<open>wb_heap\<close>). Go maps are association lists, ranged over in the order of the list, which
  stands for the order of that one range; theorems that compare two ranges say when the order matters. A loop driven by a ticker is modelled by one
  round, an event stream by the states it meets at its ticks. Libraries outside the source (CEL, bcrypt, the cryptographic primitives, JSON, YAML, one-time
  passwords, the mail server, the operating system's processes) are records of functions; what a theorem relies on of them is a
  hypothesis with an instance, as \<open>crypto_lawful\<close>.

  \<^bold>\<open>Not modelled:\<close> console logging; the event stream of the MCP endpoint (\<open>sseHandler\<close>) and the MCP library behind the bridge
  endpoint, which src does not contain; the HTML of the templates; opening and closing the database; pipes and the standard error of processes; in \<open>main\<close> the
  command line, the choice of ports and paths, the registration of the modelled handlers with the router, and the insecure test server.
\<close>

end
